(* ===== verification/Robot_Prelude.thy ===== *)
theory Robot_Prelude
  imports Complex_Main
begin

text \<open>
  Shared vocabulary of the RobotCore development.

  \<^item> A Python \<^verbatim>\<open>float\<close> that enters the program from outside (a message field, a ROS
    parameter) is a \<open>pyfloat\<close>: a finite number or one of the three non-finite values, so
    that every \<^verbatim>\<open>math.isfinite\<close> guard of the source is a branch of the model.  Past such a
    guard the computation is carried out on \<open>real\<close>: the arithmetic of finite floats is
    idealised to exact arithmetic (no rounding, no overflow).
  \<^item> An exception is the \<open>Inl\<close> value of a sum, sequenced by \<open>ebind\<close>.
  \<^item> A numpy array is a list; the operations below are the numpy operations the source uses.
\<close>

section \<open>Collections of the development's rules\<close>

named_theorems err_simps \<open>rewrite rules for error-sequenced programs\<close>
named_theorems vec_simps \<open>rewrite rules for array shapes\<close>
named_theorems clip_bounds \<open>range facts of saturating operations\<close>

section \<open>Python floats\<close>

datatype pyfloat = Fin real | PInf | NInf | NaN

fun isfinite :: "pyfloat \<Rightarrow> bool" where
  "isfinite (Fin _) = True"
| "isfinite _ = False"

text \<open>The number behind a finite float; every use in the model stands behind \<open>isfinite\<close>.\<close>

fun fval :: "pyfloat \<Rightarrow> real" where
  "fval (Fin x) = x"
| "fval _ = 0"

text \<open>The comparisons \<^verbatim>\<open><=\<close> and \<^verbatim>\<open><\<close>: every comparison with NaN is false.\<close>

fun flt_le :: "pyfloat \<Rightarrow> pyfloat \<Rightarrow> bool" where
  "flt_le NaN _ = False"
| "flt_le _ NaN = False"
| "flt_le NInf _ = True"
| "flt_le _ PInf = True"
| "flt_le (Fin x) (Fin y) = (x \<le> y)"
| "flt_le _ _ = False"

fun flt_lt :: "pyfloat \<Rightarrow> pyfloat \<Rightarrow> bool" where
  "flt_lt NaN _ = False"
| "flt_lt _ NaN = False"
| "flt_lt (Fin x) (Fin y) = (x < y)"
| "flt_lt NInf NInf = False"
| "flt_lt NInf _ = True"
| "flt_lt PInf PInf = False"
| "flt_lt _ PInf = True"
| "flt_lt _ _ = False"

lemma isfinite_iff: "isfinite v \<longleftrightarrow> (\<exists>x. v = Fin x)"
  by (cases v) auto

lemma isfinite_fval [simp]: "isfinite v \<Longrightarrow> Fin (fval v) = v"
  by (cases v) auto

lemma all_finite_conv: "list_all isfinite vs \<longleftrightarrow> (\<exists>xs. vs = map Fin xs)"
proof
  assume "list_all isfinite vs"
  then have "vs = map Fin (map fval vs)" by (induction vs) auto
  then show "\<exists>xs. vs = map Fin xs" ..
next
  assume "\<exists>xs. vs = map Fin xs"
  then show "list_all isfinite vs" by (auto simp: list_all_iff)
qed

lemma all_finite_map_Fin [simp]: "list_all isfinite (map Fin xs)"
  by (simp add: list_all_iff)

lemma map_fval_Fin [simp]: "map fval (map Fin xs) = xs"
  by (simp add: comp_def)

section \<open>Exceptions\<close>

datatype exc =
    ValueError string
  | RuntimeError string
  | KeyError string
  | TypeError string
  | AttributeError string
  | OverflowError string
  | OSError string
  | IndexError string

definition ebind :: "exc + 'a \<Rightarrow> ('a \<Rightarrow> exc + 'b) \<Rightarrow> exc + 'b" where
  "ebind m f = (case m of Inl e \<Rightarrow> Inl e | Inr x \<Rightarrow> f x)"

lemma ebind_simps [simp, err_simps]:
  "ebind (Inl e) f = Inl e"
  "ebind (Inr x) f = f x"
  by (simp_all add: ebind_def)

lemma ebind_Inr_conv [err_simps]:
  "ebind m f = Inr y \<longleftrightarrow> (\<exists>x. m = Inr x \<and> f x = Inr y)"
  by (cases m) auto

lemma ebind_Inl_conv:
  "ebind m f = Inl e \<longleftrightarrow> m = Inl e \<or> (\<exists>x. m = Inr x \<and> f x = Inl e)"
  by (cases m) auto

lemma if_Inl_Inr_conv [err_simps]:
  "(if c then Inl e else m) = Inr y \<longleftrightarrow> \<not> c \<and> m = Inr y"
  by simp

lemma if_Inr_Inr_conv [err_simps]:
  "(if c then Inr a else m) = Inr y \<longleftrightarrow> (c \<and> a = y \<or> \<not> c \<and> m = Inr y)"
  by auto

text \<open>A computation that returns rather than raises.\<close>

definition returns :: "exc + 'a \<Rightarrow> bool" where
  "returns m \<longleftrightarrow> (\<exists>x. m = Inr x)"

lemma returns_simps [simp]:
  "returns (Inr x)"
  "\<not> returns (Inl e)"
  "returns (if c then a else b) \<longleftrightarrow> (if c then returns a else returns b)"
  by (auto simp: returns_def)

lemma returns_ebind: "returns (ebind m f) \<longleftrightarrow> (\<exists>x. m = Inr x \<and> returns (f x))"
  by (cases m) (auto simp: returns_def)

lemma returns_ebindI: "returns m \<Longrightarrow> (\<And>x. m = Inr x \<Longrightarrow> returns (f x)) \<Longrightarrow> returns (ebind m f)"
  by (auto simp: returns_ebind returns_def)

section \<open>Decimal printing of naturals, as in formatted messages\<close>

definition digit_char :: "nat \<Rightarrow> char" where
  "digit_char d = char_of (48 + d)"

fun show_nat :: "nat \<Rightarrow> string" where
  "show_nat n = (if n < 10 then [digit_char n] else show_nat (n div 10) @ [digit_char (n mod 10)])"

declare show_nat.simps [simp del]

section \<open>Scalars\<close>

text \<open>\<^verbatim>\<open>np.clip\<close>: the upper bound wins when the bounds cross.\<close>

definition clip :: "real \<Rightarrow> real \<Rightarrow> real \<Rightarrow> real" where
  "clip x lo hi = min (max x lo) hi"

text \<open>\<^verbatim>\<open>math.copysign(1.0, x)\<close> for a number that is not zero.\<close>

definition copysign1 :: "real \<Rightarrow> real" where
  "copysign1 x = (if x < 0 then - 1 else 1)"

text \<open>\<^verbatim>\<open>math.isclose\<close> with both tolerances.\<close>

definition isclose :: "real \<Rightarrow> real \<Rightarrow> real \<Rightarrow> real \<Rightarrow> bool" where
  "isclose rel_tol abs_tol a b \<longleftrightarrow> \<bar>a - b\<bar> \<le> max (rel_tol * max \<bar>a\<bar> \<bar>b\<bar>) abs_tol"

text \<open>\<^verbatim>\<open>math.atan2\<close> on numbers (a signed zero is the number zero).\<close>

definition atan2 :: "real \<Rightarrow> real \<Rightarrow> real" where
  "atan2 y x =
     (if x > 0 then arctan (y / x)
      else if x < 0 then (if y \<ge> 0 then arctan (y / x) + pi else arctan (y / x) - pi)
      else if y > 0 then pi / 2 else if y < 0 then - (pi / 2) else 0)"

lemma atan2_polar:
  assumes "0 < r" "- pi < t" "t \<le> pi"
  shows "atan2 (r * sin t) (r * cos t) = t"
proof -
  consider "- (pi / 2) < t \<and> t < pi / 2" | "t = pi / 2" | "t = - (pi / 2)" | "pi / 2 < t" | "t < - (pi / 2)"
    by linarith
  then show ?thesis
  proof cases
    case 1
    then have "0 < cos t" by (intro cos_gt_zero_pi) auto
    moreover have "arctan (sin t / cos t) = t"
      using 1 arctan_tan [of t] by (simp add: tan_def)
    ultimately show ?thesis using assms(1) by (simp add: atan2_def)
  next
    case 2
    then show ?thesis using assms(1) unfolding 2 by (simp add: atan2_def)
  next
    case 3
    then show ?thesis using assms(1) unfolding 3 by (simp add: atan2_def)
  next
    case 4
    have "0 < cos (t - pi)" using 4 assms(3) by (intro cos_gt_zero_pi) auto
    then have c: "cos t < 0" by simp
    have "0 \<le> sin t" using 4 assms(3) pi_gt_zero by (intro sin_ge_zero) linarith+
    moreover have "arctan (sin t / cos t) = t - pi"
    proof -
      have "tan (t - pi) = sin t / cos t" by (simp add: tan_def)
      then show ?thesis using 4 assms(3) arctan_tan [of "t - pi"] by simp
    qed
    ultimately show ?thesis using c assms(1)
      by (simp add: atan2_def mult_less_0_iff zero_less_mult_iff zero_le_mult_iff)
  next
    case 5
    have "0 < cos (t + pi)" using 5 assms(2) by (intro cos_gt_zero_pi) auto
    then have c: "cos t < 0" by simp
    have "0 < sin (t + pi)" using 5 assms(2) by (intro sin_gt_zero) linarith+
    then have "sin t < 0" by simp
    moreover have "arctan (sin t / cos t) = t + pi"
    proof -
      have "tan (t + pi) = sin t / cos t" by (simp add: tan_def)
      then show ?thesis using 5 assms(2) arctan_tan [of "t + pi"] by simp
    qed
    ultimately show ?thesis using c assms(1)
      by (simp add: atan2_def mult_less_0_iff zero_less_mult_iff zero_le_mult_iff)
  qed
qed

lemma atan2_range: "- pi < atan2 y x \<and> atan2 y x \<le> pi"
proof -
  have "- (pi / 2) < arctan (y / x)" "arctan (y / x) < pi / 2"
    by (rule arctan_lbound, rule arctan_ubound)
  moreover have "0 \<le> y \<and> x < 0 \<Longrightarrow> arctan (y / x) \<le> 0"
    by (simp add: divide_le_0_iff)
  moreover have "y < 0 \<and> x < 0 \<Longrightarrow> 0 < arctan (y / x)"
    by (simp add: zero_less_divide_iff)
  ultimately show ?thesis using pi_gt_zero unfolding atan2_def
    by auto
qed

lemma atan2_first_quadrant: "0 \<le> y \<Longrightarrow> 0 \<le> x \<Longrightarrow> 0 \<le> atan2 y x \<and> atan2 y x \<le> pi / 2"
  using arctan_ubound [of "y / x"] by (auto simp: atan2_def)

lemma clip_le_hi [clip_bounds]: "clip x lo hi \<le> hi"
  by (simp add: clip_def)

lemma clip_ge_lo [clip_bounds]: "lo \<le> hi \<Longrightarrow> lo \<le> clip x lo hi"
  by (simp add: clip_def)

lemma clip_abs_le [clip_bounds]: "0 \<le> l \<Longrightarrow> \<bar>clip x (- l) l\<bar> \<le> l"
  by (auto simp: clip_def min_def max_def)

lemma clip_abs_le_abs [simp]: "\<bar>clip x (- \<bar>l\<bar>) \<bar>l\<bar>\<bar> \<le> \<bar>l\<bar>"
  by (rule clip_abs_le) simp

lemma clip_id: "lo \<le> x \<Longrightarrow> x \<le> hi \<Longrightarrow> clip x lo hi = x"
  by (simp add: clip_def)

lemma clip_id_abs: "\<bar>x\<bar> \<le> l \<Longrightarrow> clip x (- l) l = x"
  by (simp add: clip_def)

lemma clip_mono: "x \<le> y \<Longrightarrow> clip x lo hi \<le> clip y lo hi"
  by (auto simp: clip_def min_def max_def)

lemma clip_nonexpansive: "\<bar>clip x lo hi - clip y lo hi\<bar> \<le> \<bar>x - y\<bar>"
  by (auto simp: clip_def min_def max_def)

lemma copysign1_cases: "copysign1 x = 1 \<or> copysign1 x = - 1"
  by (simp add: copysign1_def)

lemma abs_copysign1 [simp]: "\<bar>copysign1 x\<bar> = 1"
  by (simp add: copysign1_def)

lemma isclose_refl [simp]: "0 \<le> abs_tol \<Longrightarrow> isclose rel_tol abs_tol a a"
  by (simp add: isclose_def)

section \<open>Arrays\<close>

definition vadd :: "real list \<Rightarrow> real list \<Rightarrow> real list" where
  "vadd xs ys = map2 (+) xs ys"

definition vsub :: "real list \<Rightarrow> real list \<Rightarrow> real list" where
  "vsub xs ys = map2 (-) xs ys"

definition vmul :: "real list \<Rightarrow> real list \<Rightarrow> real list" where
  "vmul xs ys = map2 (*) xs ys"

definition vscale :: "real \<Rightarrow> real list \<Rightarrow> real list" where
  "vscale c xs = map (\<lambda>x. c * x) xs"

definition vneg :: "real list \<Rightarrow> real list" where
  "vneg xs = map uminus xs"

definition vabs :: "real list \<Rightarrow> real list" where
  "vabs xs = map abs xs"

definition vclip :: "real list \<Rightarrow> real list \<Rightarrow> real list \<Rightarrow> real list" where
  "vclip xs los his = map2 (\<lambda>x (lo, hi). clip x lo hi) xs (zip los his)"

fun np_max :: "real list \<Rightarrow> real" where
  "np_max [] = 0"
| "np_max [x] = x"
| "np_max (x # y # ys) = max x (np_max (y # ys))"

fun np_min :: "real list \<Rightarrow> real" where
  "np_min [] = 0"
| "np_min [x] = x"
| "np_min (x # y # ys) = min x (np_min (y # ys))"

definition np_sum :: "real list \<Rightarrow> real" where
  "np_sum xs = sum_list xs"

definition np_mean :: "real list \<Rightarrow> real" where
  "np_mean xs = sum_list xs / real (length xs)"

definition np_dot :: "real list \<Rightarrow> real list \<Rightarrow> real" where
  "np_dot xs ys = sum_list (map2 (*) xs ys)"

definition np_norm :: "real list \<Rightarrow> real" where
  "np_norm xs = sqrt (sum_list (map (\<lambda>x. x ^ 2) xs))"

fun np_cross :: "real list \<Rightarrow> real list \<Rightarrow> real list" where
  "np_cross [a1, a2, a3] [b1, b2, b3] =
     [a2 * b3 - a3 * b2, a3 * b1 - a1 * b3, a1 * b2 - a2 * b1]"
| "np_cross _ _ = []"

text \<open>\<^verbatim>\<open>np.asarray\<close> of nested sequences raises when the rows differ in length.\<close>

definition np_matrix :: "pyfloat list list \<Rightarrow> exc + pyfloat list list" where
  "np_matrix rows =
     (if list_all (\<lambda>r. length r = length (hd rows)) rows then Inr rows
      else Inl (ValueError ''setting an array element with a sequence''))"

lemmas array_defs = vadd_def vsub_def vmul_def vscale_def vneg_def vabs_def vclip_def
  np_sum_def np_mean_def np_dot_def np_norm_def

lemma array_lengths [simp, vec_simps]:
  "length (vadd xs ys) = min (length xs) (length ys)"
  "length (vsub xs ys) = min (length xs) (length ys)"
  "length (vmul xs ys) = min (length xs) (length ys)"
  "length (vscale c xs) = length xs"
  "length (vneg xs) = length xs"
  "length (vabs xs) = length xs"
  "length (vclip xs los his) = min (length xs) (min (length los) (length his))"
  by (simp_all add: array_defs)

lemma np_max_ge: "x \<in> set xs \<Longrightarrow> x \<le> np_max xs"
  by (induction xs rule: np_max.induct) auto

lemma np_max_in: "xs \<noteq> [] \<Longrightarrow> np_max xs \<in> set xs"
  by (induction xs rule: np_max.induct) (auto simp: max_def)

lemma np_min_le: "x \<in> set xs \<Longrightarrow> np_min xs \<le> x"
  by (induction xs rule: np_min.induct) auto

lemma np_min_in: "xs \<noteq> [] \<Longrightarrow> np_min xs \<in> set xs"
  by (induction xs rule: np_min.induct) (auto simp: min_def)

lemma np_norm_nonneg [simp]: "0 \<le> np_norm xs"
  by (auto simp: np_norm_def intro!: sum_list_nonneg)

lemma list_of_length2: "length xs = 2 \<Longrightarrow> \<exists>a b. xs = [a, b]"
  by (cases xs; cases "tl xs") (auto simp: length_Suc_conv numeral_2_eq_2)

lemma list_of_length3: "length xs = 3 \<Longrightarrow> \<exists>a b c. xs = [a, b, c]"
  by (auto simp: length_Suc_conv numeral_3_eq_3)

lemma list_of_length4: "length xs = 4 \<Longrightarrow> \<exists>a b c d. xs = [a, b, c, d]"
  by (auto simp: length_Suc_conv numeral_eq_Suc)

section \<open>Machines driven by events\<close>

text \<open>
  A node is a state and a handler per callback; a run is the handlers applied in the order in
  which the executor delivers the events.  An invariant that every handler keeps holds after
  every run.
\<close>

locale event_machine =
  fixes step :: "'s \<Rightarrow> 'e \<Rightarrow> 's"
    and inv :: "'s \<Rightarrow> bool"
  assumes step_inv: "inv s \<Longrightarrow> inv (step s e)"
begin

lemma run_inv: "inv s \<Longrightarrow> inv (foldl step s es)"
  by (induction es arbitrary: s) (auto intro: step_inv)

lemma run_prefix_inv: "inv s \<Longrightarrow> inv (foldl step s (take n es))"
  by (rule run_inv)

end

text \<open>
  A node whose handlers may raise: an exception that leaves a handler ends the run.  When no
  handler raises in a state that satisfies the invariant, no run from such a state ends early.
\<close>

fun run_machine :: "('s \<Rightarrow> 'e \<Rightarrow> exc + 's) \<Rightarrow> 's \<Rightarrow> 'e list \<Rightarrow> exc + 's" where
  "run_machine step s [] = Inr s"
| "run_machine step s (e # es) = ebind (step s e) (\<lambda>s'. run_machine step s' es)"

locale raising_machine =
  fixes stepe :: "'s \<Rightarrow> 'e \<Rightarrow> exc + 's"
    and inv :: "'s \<Rightarrow> bool"
  assumes stepe_inv: "inv s \<Longrightarrow> stepe s e = Inr s' \<Longrightarrow> inv s'"
begin

lemma run_reaches_inv: "inv s \<Longrightarrow> run_machine stepe s es = Inr s' \<Longrightarrow> inv s'"
  by (induction es arbitrary: s) (auto simp: err_simps intro: stepe_inv)

end

locale total_machine = raising_machine +
  assumes stepe_total: "inv s \<Longrightarrow> \<exists>s'. stepe s e = Inr s'"
begin

lemma run_total: "inv s \<Longrightarrow> \<exists>s'. run_machine stepe s es = Inr s' \<and> inv s'"
proof (induction es arbitrary: s)
  case (Cons e es)
  obtain s1 where "stepe s e = Inr s1" using stepe_total Cons.prems by blast
  then show ?case using Cons.IH stepe_inv Cons.prems by simp
qed simp

end

end
