(* ===== verification/Control_Math.thy ===== *)
theory Control_Math
  imports Robot_Prelude
begin

text \<open>
  The scalar and mixing part of \<^verbatim>\<open>robotcore_control/control_math.py\<close>: velocity set points,
  the vertical and horizontal PWM mixers, the roll/pitch rate cascade with its shared L1
  limiter, integral-effort conditioning, filters and limiters.  Every function validates its
  inputs as the source does and returns an exception value or its result.
\<close>

section \<open>Validation of vectors\<close>

definition vec :: "pyfloat list \<Rightarrow> nat \<Rightarrow> exc + real list" where
  "vec values n =
     (if length values \<noteq> n \<or> \<not> list_all isfinite values
      then Inl (ValueError (''expected '' @ show_nat n @ '' finite values''))
      else Inr (map fval values))"

lemma vec_Inr_conv [vec_simps]:
  "vec values n = Inr xs \<longleftrightarrow> values = map Fin xs \<and> length xs = n"
proof
  assume vec: "vec values n = Inr xs"
  then have "length values = n" "list_all isfinite values" "xs = map fval values"
    by (auto simp: vec_def split: if_splits)
  then show "values = map Fin xs \<and> length xs = n"
    by (auto simp: list_all_iff map_idI)
next
  assume "values = map Fin xs \<and> length xs = n"
  then show "vec values n = Inr xs" by (simp add: vec_def comp_def)
qed

lemma vec_map_Fin [simp]: "length xs = n \<Longrightarrow> vec (map Fin xs) n = Inr xs"
  by (simp add: vec_Inr_conv)

lemma vec2_Inr: "vec values 2 = Inr xs \<Longrightarrow> \<exists>a b. xs = [a, b] \<and> values = [Fin a, Fin b]"
  by (auto simp: vec_Inr_conv dest!: list_of_length2)

lemma vec3_Inr: "vec values 3 = Inr xs \<Longrightarrow> \<exists>a b c. xs = [a, b, c] \<and> values = [Fin a, Fin b, Fin c]"
  by (auto simp: vec_Inr_conv dest!: list_of_length3)

lemma vec2_Fin [simp]: "vec [Fin a, Fin b] 2 = Inr [a, b]"
  by (simp add: vec_def)

lemma vec3_Fin [simp]: "vec [Fin a, Fin b, Fin c] 3 = Inr [a, b, c]"
  by (simp add: vec_def)

lemma vec4_Fin [simp]: "vec [Fin a, Fin b, Fin c, Fin d] 4 = Inr [a, b, c, d]"
  by (simp add: vec_def)

section \<open>Velocity set points\<close>

definition altitude_velocity_setpoint ::
  "pyfloat \<Rightarrow> pyfloat \<Rightarrow> pyfloat \<Rightarrow> pyfloat \<Rightarrow> exc + real" where
  "altitude_velocity_setpoint target_height actual_height target_vertical_velocity position_kp =
     (if \<not> list_all isfinite [target_height, actual_height, target_vertical_velocity, position_kp]
      then Inl (ValueError ''altitude-loop inputs must be finite'')
      else Inr (fval target_vertical_velocity
                + fval position_kp * (fval target_height - fval actual_height)))"

definition station_velocity_setpoints ::
  "pyfloat list \<Rightarrow> pyfloat list \<Rightarrow> pyfloat list \<Rightarrow> pyfloat \<Rightarrow> pyfloat \<Rightarrow> bool \<Rightarrow> exc + real list" where
  "station_velocity_setpoints target_velocity_body position_error_body position_kp
     surge_limit sway_limit center_approach =
     ebind (vec target_velocity_body 2) (\<lambda>target.
     ebind (vec position_error_body 2) (\<lambda>error.
     ebind (vec position_kp 2) (\<lambda>gains.
     ebind (vec [surge_limit, sway_limit] 2) (\<lambda>limits.
       if list_ex (\<lambda>g. g < 0) gains \<or> list_ex (\<lambda>l. l < 0) limits
       then Inl (ValueError ''station position gains and speed limits must be non-negative'')
       else let requested = vadd target (vmul gains error) in
         if center_approach then Inr requested
         else Inr (vclip requested (vneg limits) limits)))))"

section \<open>Vertical mixers, T1 to T4\<close>

definition altitude_collective_pwm_commands ::
  "pyfloat \<Rightarrow> pyfloat \<Rightarrow> pyfloat \<Rightarrow> exc + real list" where
  "altitude_collective_pwm_commands pid_output command_limit command_sign =
     (if \<not> list_all isfinite [pid_output, command_limit, command_sign]
      then Inl (ValueError ''altitude PWM inputs must be finite'')
      else if isclose (1 / 10 ^ 9) (1 / 10 ^ 12) (fval command_sign) 0
      then Inl (ValueError ''altitude PWM command sign must be non-zero'')
      else let limit = \<bar>fval command_limit\<bar>;
               common = clip (copysign1 (fval command_sign) * fval pid_output) (- limit) limit
           in Inr [common, common, common, common, 0, 0, 0, 0])"

text \<open>The attitude differential of \<^verbatim>\<open>altitude_level_pwm_commands\<close>, before and after its limiter.\<close>

definition attitude_pattern :: "real \<Rightarrow> real \<Rightarrow> real list" where
  "attitude_pattern roll pitch =
     vadd (vscale roll [1, 1, - 1, - 1]) (vscale pitch [1, - 1, 1, - 1])"

definition limited_attitude :: "real \<Rightarrow> real list \<Rightarrow> real list" where
  "limited_attitude limit attitude =
     (let attitude_peak = np_max (vabs attitude) in
      if attitude_peak > limit \<and> attitude_peak > 0
      then vscale (limit / attitude_peak) attitude else attitude)"

definition altitude_level_pwm_commands ::
  "pyfloat \<Rightarrow> pyfloat \<Rightarrow> pyfloat \<Rightarrow> pyfloat \<Rightarrow> pyfloat \<Rightarrow> exc + real list" where
  "altitude_level_pwm_commands altitude_pid_output roll_pd_output pitch_pd_output
     command_limit altitude_command_sign =
     (if \<not> list_all isfinite [altitude_pid_output, roll_pd_output, pitch_pd_output,
            command_limit, altitude_command_sign]
      then Inl (ValueError ''altitude-level PWM inputs must be finite'')
      else if isclose (1 / 10 ^ 9) (1 / 10 ^ 12) (fval altitude_command_sign) 0
      then Inl (ValueError ''altitude PWM command sign must be non-zero'')
      else let limit = \<bar>fval command_limit\<bar>;
               attitude = limited_attitude limit
                 (attitude_pattern (fval roll_pd_output) (fval pitch_pd_output));
               requested_collective =
                 copysign1 (fval altitude_command_sign) * fval altitude_pid_output;
               collective_min = - limit - np_min attitude;
               collective_max = limit - np_max attitude;
               collective = clip requested_collective collective_min collective_max
           in Inr (map (\<lambda>a. clip (collective + a) (- limit) limit) attitude @ [0, 0, 0, 0]))"

section \<open>Roll/pitch rate cascade\<close>

definition level_attitude_rate_efforts ::
  "pyfloat list \<Rightarrow> pyfloat list \<Rightarrow> pyfloat list \<Rightarrow> pyfloat list \<Rightarrow> pyfloat list \<Rightarrow> pyfloat list
    \<Rightarrow> pyfloat \<Rightarrow> pyfloat list \<Rightarrow> pyfloat list
    \<Rightarrow> exc + (real list \<times> real list \<times> real list \<times> bool)" where
  "level_attitude_rate_efforts orientation_error target_angular_rate measured_angular_rate
     angle_to_rate_kp rate_kp angular_rate_limit combined_limit effort_feedforward effort_integral =
     ebind (vec orientation_error 2) (\<lambda>error.
     ebind (vec target_angular_rate 2) (\<lambda>target_rate.
     ebind (vec measured_angular_rate 2) (\<lambda>measured_rate.
     ebind (vec angle_to_rate_kp 2) (\<lambda>angle_to_rate_gains.
     ebind (vec rate_kp 2) (\<lambda>rate_gains.
     ebind (vec angular_rate_limit 2) (\<lambda>rate_limits.
     ebind (vec effort_feedforward 2) (\<lambda>feedforward.
     ebind (vec effort_integral 2) (\<lambda>integral.
       if list_ex (\<lambda>g. g < 0) angle_to_rate_gains \<or> list_ex (\<lambda>g. g < 0) rate_gains
          \<or> list_ex (\<lambda>l. l < 0) rate_limits \<or> \<not> isfinite combined_limit \<or> fval combined_limit < 0
       then Inl (ValueError (''level cascade gains, rate limits and effort limit must be ''
              @ ''finite and non-negative''))
       else
         let limit = fval combined_limit;
             desired_rate = vclip (vadd target_rate (vmul angle_to_rate_gains error))
               (vneg rate_limits) rate_limits;
             raw = vadd (vadd (vmul rate_gains (vsub desired_rate measured_rate)) feedforward) integral;
             peak = np_sum (vabs raw)
         in if peak > limit \<and> peak > 0
            then Inr (vscale (limit / peak) raw, raw, desired_rate, True)
            else Inr (raw, raw, desired_rate, False)))))))))"

definition conditional_axis_integral_effort ::
  "pyfloat \<Rightarrow> pyfloat \<Rightarrow> pyfloat \<Rightarrow> pyfloat \<Rightarrow> pyfloat \<Rightarrow> pyfloat list \<Rightarrow> int \<Rightarrow> pyfloat \<Rightarrow> exc + real" where
  "conditional_axis_integral_effort current_effort error integral_gain dt effort_limit
     base_efforts axis combined_limit =
     ebind (vec base_efforts 2) (\<lambda>base.
       if \<not> list_all isfinite [current_effort, error, integral_gain, dt, effort_limit, combined_limit]
       then Inl (ValueError ''integral effort inputs must be finite'')
       else if fval integral_gain < 0 \<or> fval effort_limit < 0 \<or> fval combined_limit < 0
       then Inl (ValueError ''integral gain and effort limits must be non-negative'')
       else if fval dt \<le> 0 then Inl (ValueError ''integral timestep must be positive'')
       else if axis \<noteq> 0 \<and> axis \<noteq> 1 then Inl (ValueError ''integral effort axis must be 0 or 1'')
       else
         let limit = fval effort_limit;
             current = clip (fval current_effort) (- limit) limit;
             proposed = clip (current + fval integral_gain * fval error * fval dt) (- limit) limit;
             current_total = base[nat axis := base ! nat axis + current];
             proposed_total = base[nat axis := base ! nat axis + proposed];
             current_peak = np_sum (vabs current_total);
             proposed_peak = np_sum (vabs proposed_total)
         in if proposed_peak > fval combined_limit + 1 / 10 ^ 12
              \<and> proposed_peak > current_peak + 1 / 10 ^ 12
            then Inr current else Inr proposed)"

definition integral_reset_after_error_crossing ::
  "int \<Rightarrow> pyfloat \<Rightarrow> pyfloat \<Rightarrow> pyfloat \<Rightarrow> exc + (bool \<times> int)" where
  "integral_reset_after_error_crossing previous_error_sign error integral_effort hysteresis =
     (if \<not> list_all isfinite [error, integral_effort, hysteresis]
      then Inl (ValueError ''integral crossing inputs must be finite'')
      else if previous_error_sign \<notin> {- 1, 0, 1}
      then Inl (ValueError ''previous error sign must be -1, 0, or 1'')
      else if fval hysteresis < 0
      then Inl (ValueError ''integral crossing hysteresis must be non-negative'')
      else if \<bar>fval error\<bar> \<le> fval hysteresis then Inr (False, previous_error_sign)
      else let current_error_sign = (if fval error > 0 then 1 else - 1);
               crossed = (previous_error_sign \<noteq> 0 \<and> current_error_sign \<noteq> previous_error_sign);
               opposing = (fval integral_effort * fval error < 0)
           in Inr (crossed \<and> opposing, current_error_sign))"

definition surge_pitch_decoupling_effort ::
  "pyfloat \<Rightarrow> pyfloat \<Rightarrow> pyfloat \<Rightarrow> pyfloat \<Rightarrow> exc + real" where
  "surge_pitch_decoupling_effort applied_surge_effort forward_gain reverse_gain output_limit =
     (if \<not> list_all isfinite [applied_surge_effort, forward_gain, reverse_gain, output_limit]
      then Inl (ValueError ''surge-pitch decoupling inputs must be finite'')
      else if fval forward_gain < 0 \<or> fval reverse_gain < 0 \<or> fval output_limit < 0
      then Inl (ValueError ''surge-pitch gains and limit must be non-negative'')
      else let gain = (if fval applied_surge_effort \<ge> 0 then fval forward_gain else fval reverse_gain)
           in Inr (clip (- gain * fval applied_surge_effort)
                (- fval output_limit) (fval output_limit)))"

section \<open>Horizontal mixer, T5 to T8\<close>

text \<open>The unsaturated contribution of the three clipped axes to T5, T6, T7 and T8.\<close>

definition horizontal_pattern :: "real \<Rightarrow> real \<Rightarrow> real \<Rightarrow> real list" where
  "horizontal_pattern surge sway yaw =
     (let upper = vscale surge [- 1, - 1, 1, 1];
          upper = (if sway \<ge> 0 then vadd upper (vscale sway [- 1, 0, - 893 / 1000, 608 / 1000])
                   else vadd upper (vscale (- sway) [0, - 1, 608 / 1000, - 893 / 1000]))
      in if yaw \<ge> 0 then vadd upper (vscale yaw [1, - 998 / 1000, - 355 / 1000, 722 / 1000])
         else vadd upper (vscale (- yaw) [- 998 / 1000, 1, 722 / 1000, - 355 / 1000]))"

definition station_horizontal_pwm_mix ::
  "pyfloat \<Rightarrow> pyfloat \<Rightarrow> pyfloat \<Rightarrow> pyfloat \<Rightarrow> exc + (real list \<times> real)" where
  "station_horizontal_pwm_mix surge_p_output sway_p_output yaw_p_output command_limit =
     (if \<not> list_all isfinite [surge_p_output, sway_p_output, yaw_p_output, command_limit]
      then Inl (ValueError ''station horizontal PWM inputs must be finite'')
      else let limit = \<bar>fval command_limit\<bar>;
               surge = clip (fval surge_p_output) (- limit) limit;
               sway = clip (fval sway_p_output) (- limit) limit;
               yaw = clip (fval yaw_p_output) (- limit) limit;
               upper = horizontal_pattern surge sway yaw;
               peak = np_max (vabs upper)
           in if peak > limit \<and> peak > 0
              then Inr (vscale (limit / peak) upper, limit / peak)
              else Inr (upper, 1))"

definition altitude_station_pwm_commands ::
  "pyfloat \<Rightarrow> pyfloat \<Rightarrow> pyfloat \<Rightarrow> pyfloat \<Rightarrow> pyfloat \<Rightarrow> pyfloat \<Rightarrow> pyfloat \<Rightarrow> pyfloat \<Rightarrow> exc + real list" where
  "altitude_station_pwm_commands altitude_pid_output surge_p_output sway_p_output yaw_p_output
     command_limit altitude_command_sign roll_effort pitch_effort =
     ebind (altitude_level_pwm_commands altitude_pid_output roll_effort pitch_effort
              command_limit altitude_command_sign) (\<lambda>commands.
     ebind (station_horizontal_pwm_mix surge_p_output sway_p_output yaw_p_output command_limit)
       (\<lambda>(horizontal, _). Inr (take 4 commands @ horizontal)))"

section \<open>Filters and limiters\<close>

definition first_order_low_pass ::
  "pyfloat option \<Rightarrow> pyfloat \<Rightarrow> pyfloat \<Rightarrow> pyfloat \<Rightarrow> exc + real" where
  "first_order_low_pass previous sample dt time_constant_s =
     (if \<not> list_all isfinite [sample, dt, time_constant_s]
      then Inl (ValueError ''low-pass inputs must be finite'')
      else if fval dt \<le> 0 then Inl (ValueError ''low-pass dt must be positive'')
      else case previous of
        None \<Rightarrow> Inr (fval sample)
      | Some prev \<Rightarrow>
          if fval time_constant_s \<le> 0 then Inr (fval sample)
          else if \<not> isfinite prev then Inl (ValueError ''low-pass previous value must be finite'')
          else let alpha = - (exp (- fval dt / fval time_constant_s) - 1)
               in Inr (fval prev + alpha * (fval sample - fval prev)))"

definition directional_velocity_feedforward ::
  "pyfloat \<Rightarrow> pyfloat \<Rightarrow> pyfloat \<Rightarrow> pyfloat \<Rightarrow> exc + real" where
  "directional_velocity_feedforward velocity_setpoint positive_gain negative_gain output_limit =
     (if \<not> list_all isfinite [velocity_setpoint, positive_gain, negative_gain, output_limit]
      then Inl (ValueError ''velocity feedforward inputs must be finite'')
      else if fval positive_gain < 0 \<or> fval negative_gain < 0 \<or> fval output_limit < 0
      then Inl (ValueError ''velocity feedforward gains and limit must be non-negative'')
      else let gain = (if fval velocity_setpoint \<ge> 0 then fval positive_gain else fval negative_gain)
           in Inr (clip (gain * fval velocity_setpoint) (- fval output_limit) (fval output_limit)))"

definition slew_rate_limit :: "pyfloat \<Rightarrow> pyfloat \<Rightarrow> pyfloat \<Rightarrow> pyfloat \<Rightarrow> exc + real" where
  "slew_rate_limit previous requested dt rate_limit_per_s =
     (if \<not> list_all isfinite [previous, requested, dt, rate_limit_per_s]
      then Inl (ValueError ''slew-rate inputs must be finite'')
      else if fval dt \<le> 0 then Inl (ValueError ''slew-rate timestep must be positive'')
      else if fval rate_limit_per_s < 0 then Inl (ValueError ''slew-rate limit must be non-negative'')
      else let maximum_delta = fval rate_limit_per_s * fval dt
           in Inr (fval previous
                   + clip (fval requested - fval previous) (- maximum_delta) maximum_delta))"

section \<open>Rate samples: outlier rejection and prediction\<close>

text \<open>\<^verbatim>\<open>np.median\<close> of three values is the middle one.\<close>

definition median3 :: "real \<Rightarrow> real \<Rightarrow> real \<Rightarrow> real" where
  "median3 a b c = max (min a b) (min (max a b) c)"

definition reject_vector_outlier :: "pyfloat list list \<Rightarrow> pyfloat list \<Rightarrow> pyfloat \<Rightarrow> exc + real list" where
  "reject_vector_outlier recent_samples sample threshold =
     ebind (vec sample 3) (\<lambda>current.
       if \<not> isfinite threshold \<or> fval threshold < 0
       then Inl (ValueError ''outlier threshold must be finite and non-negative'')
       else ebind (np_matrix recent_samples) (\<lambda>history.
         let limit = fval threshold in
         if concat history = [] \<or> length history < 2 \<or> limit \<le> 0 then Inr current
         else if \<not> list_all (\<lambda>row. length row = 3 \<and> list_all isfinite row) history
         then Inl (ValueError ''recent vector samples must be finite three-vectors'')
         else
           let row = (\<lambda>k. map fval (history ! (length history - k)));
               median = map (\<lambda>i. median3 (row 2 ! i) (row 1 ! i) (current ! i)) [0, 1, 2]
           in Inr (map2 (\<lambda>c m. if \<bar>c - m\<bar> > limit then m else c) current median)))"

text \<open>One column of the endpoint least-squares fit; \<open>times\<close> are seconds before the newest sample.\<close>

definition fitted_rate ::
  "real list \<Rightarrow> real list \<Rightarrow> real \<Rightarrow> real \<Rightarrow> real \<Rightarrow> real \<Rightarrow> real" where
  "fitted_rate relative_time column denominator horizon acceleration_limit correction_limit =
     (let centered_time = map (\<lambda>t. t - np_mean relative_time) relative_time;
          mean_rate = np_mean column;
          slope = np_sum (map2 (\<lambda>t r. t * (r - mean_rate)) centered_time column) / denominator;
          slope = clip slope (- acceleration_limit) acceleration_limit;
          fitted_latest = mean_rate - slope * np_mean relative_time;
          predicted = fitted_latest + slope * horizon
      in last column + clip (predicted - last column) (- correction_limit) correction_limit)"

definition timestamped_rate_prediction ::
  "int list \<Rightarrow> pyfloat list list \<Rightarrow> pyfloat \<Rightarrow> pyfloat \<Rightarrow> pyfloat \<Rightarrow> exc + real list" where
  "timestamped_rate_prediction sample_times_ns rate_samples prediction_horizon_s
     acceleration_limit_rps2 correction_limit_rps =
     ebind (np_matrix rate_samples) (\<lambda>rates.
       if \<not> list_all (\<lambda>row. length row = 3 \<and> list_all isfinite row) rates
          \<or> length rates \<noteq> length sample_times_ns \<or> sample_times_ns = []
       then Inl (ValueError ''timestamped rates must be a non-empty sequence of three-vectors'')
       else if \<not> sorted_wrt (<) sample_times_ns
       then Inl (ValueError ''rate sample timestamps must be strictly increasing'')
       else if \<not> list_all (\<lambda>v. isfinite v \<and> fval v \<ge> 0)
                 [prediction_horizon_s, acceleration_limit_rps2, correction_limit_rps]
       then Inl (ValueError ''rate prediction limits must be finite and non-negative'')
       else
         let latest = map fval (last rates);
             horizon = fval prediction_horizon_s;
             acceleration_limit = fval acceleration_limit_rps2;
             correction_limit = fval correction_limit_rps
         in if length sample_times_ns < 3 \<or> horizon \<le> 0 \<or> acceleration_limit \<le> 0
               \<or> correction_limit \<le> 0
            then Inr latest
            else
              let relative_time =
                    map (\<lambda>t. real_of_int (t - last sample_times_ns) * (1 / 10 ^ 9)) sample_times_ns;
                  centered_time = map (\<lambda>t. t - np_mean relative_time) relative_time;
                  denominator = np_dot centered_time centered_time
              in if denominator \<le> 1 / 10 ^ 12 then Inr latest
                 else Inr (map (\<lambda>i. fitted_rate relative_time (map (\<lambda>row. fval (row ! i)) rates)
                                 denominator horizon acceleration_limit correction_limit) [0, 1, 2]))"

section \<open>The peak limiter shared by the mixers\<close>

definition peak_scale :: "real \<Rightarrow> real list \<Rightarrow> real" where
  "peak_scale limit xs =
     (if np_max (vabs xs) > limit \<and> np_max (vabs xs) > 0 then limit / np_max (vabs xs) else 1)"

lemma vscale_one [simp]: "vscale 1 xs = xs"
  by (simp add: vscale_def)

lemma peak_scale_range [clip_bounds]:
  assumes "0 \<le> limit"
  shows "0 \<le> peak_scale limit xs" and "peak_scale limit xs \<le> 1"
  using assms by (auto simp: peak_scale_def divide_simps)

lemma peak_scale_bound [clip_bounds]:
  assumes "x \<in> set xs" "0 \<le> limit"
  shows "\<bar>peak_scale limit xs * x\<bar> \<le> limit"
proof -
  have x: "\<bar>x\<bar> \<le> np_max (vabs xs)"
    using assms(1) by (intro np_max_ge) (simp add: vabs_def)
  have "\<bar>peak_scale limit xs * x\<bar> = peak_scale limit xs * \<bar>x\<bar>"
    using peak_scale_range(1) [OF assms(2)] by (simp add: abs_mult)
  also have "\<dots> \<le> limit"
  proof (cases "np_max (vabs xs) > limit \<and> np_max (vabs xs) > 0")
    case True
    then show ?thesis
      using mult_left_mono [OF x assms(2)] by (simp add: peak_scale_def pos_divide_le_eq)
  next
    case False
    then show ?thesis using x assms(2) by (auto simp: peak_scale_def)
  qed
  finally show ?thesis .
qed

lemma peak_scale_fits: "np_max (vabs xs) \<le> limit \<Longrightarrow> peak_scale limit xs = 1"
  by (simp add: peak_scale_def)

section \<open>Mixer lemmas\<close>

lemma attitude_pattern_eq:
  "attitude_pattern r p = [r + p, r - p, p - r, - r - p]"
  by (simp add: attitude_pattern_def array_defs)

lemma attitude_pattern_peak: "np_max (vabs (attitude_pattern r p)) = \<bar>r\<bar> + \<bar>p\<bar>"
  by (auto simp: attitude_pattern_eq vabs_def max_def abs_if)

lemma attitude_pattern_max: "np_max (attitude_pattern r p) = \<bar>r\<bar> + \<bar>p\<bar>"
  by (auto simp: attitude_pattern_eq max_def abs_if)

lemma attitude_pattern_min: "np_min (attitude_pattern r p) = - (\<bar>r\<bar> + \<bar>p\<bar>)"
  by (auto simp: attitude_pattern_eq min_def abs_if)

lemma attitude_pattern_scale:
  "vscale k (attitude_pattern r p) = attitude_pattern (k * r) (k * p)"
  by (simp add: attitude_pattern_eq vscale_def algebra_simps)

lemma limited_attitude_eq: "limited_attitude limit a = vscale (peak_scale limit a) a"
  by (simp add: limited_attitude_def peak_scale_def Let_def)

text \<open>Roll and pitch after the limiter: one common factor, and the pair fits the limit.\<close>

definition attitude_scale :: "real \<Rightarrow> real \<Rightarrow> real \<Rightarrow> real" where
  "attitude_scale limit r p = peak_scale limit (attitude_pattern r p)"

lemma attitude_scale_fits:
  assumes "0 \<le> limit"
  shows "\<bar>attitude_scale limit r p * r\<bar> + \<bar>attitude_scale limit r p * p\<bar> \<le> limit"
proof -
  let ?k = "attitude_scale limit r p"
  have "np_max (attitude_pattern (?k * r) (?k * p)) \<in> set (attitude_pattern (?k * r) (?k * p))"
    by (rule np_max_in) (simp add: attitude_pattern_eq)
  then have "\<bar>?k * r\<bar> + \<bar>?k * p\<bar> \<in> set (vscale ?k (attitude_pattern r p))"
    by (simp only: attitude_pattern_max attitude_pattern_scale)
  then obtain x where "x \<in> set (attitude_pattern r p)" "\<bar>?k * r\<bar> + \<bar>?k * p\<bar> = ?k * x"
    by (auto simp: vscale_def)
  then show ?thesis
    using peak_scale_bound [of x "attitude_pattern r p", OF _ assms]
    by (simp add: attitude_scale_def)
qed

lemma attitude_scale_one: "\<bar>r\<bar> + \<bar>p\<bar> \<le> limit \<Longrightarrow> attitude_scale limit r p = 1"
  by (simp add: attitude_scale_def peak_scale_fits attitude_pattern_peak)

text \<open>
  The vertical mixer in closed form: after the limiter the differential fits, so the final
  per-channel clip changes nothing.
\<close>

definition vertical_mix :: "real \<Rightarrow> real \<Rightarrow> real \<Rightarrow> real \<Rightarrow> real list" where
  "vertical_mix L c r p =
     map (\<lambda>a. clip c (- (L - (\<bar>r\<bar> + \<bar>p\<bar>))) (L - (\<bar>r\<bar> + \<bar>p\<bar>)) + a) (attitude_pattern r p)
       @ [0, 0, 0, 0]"

lemma vertical_mix_clip:
  assumes fits: "\<bar>r\<bar> + \<bar>p\<bar> \<le> L"
  shows "map (\<lambda>a. clip (clip c (- L - np_min (attitude_pattern r p)) (L - np_max (attitude_pattern r p))
            + a) (- L) L) (attitude_pattern r p) @ [0, 0, 0, 0] = vertical_mix L c r p"
proof -
  let ?h = "L - (\<bar>r\<bar> + \<bar>p\<bar>)"
  have c: "\<bar>clip c (- ?h) ?h\<bar> \<le> ?h" by (rule clip_abs_le) (use fits in simp)
  have step: "clip (clip c (- ?h) ?h + a) (- L) L = clip c (- ?h) ?h + a"
    if "a \<in> set (attitude_pattern r p)" for a
  proof (rule clip_id_abs)
    have "\<bar>a\<bar> \<le> \<bar>r\<bar> + \<bar>p\<bar>" using that by (auto simp: attitude_pattern_eq)
    then show "\<bar>clip c (- ?h) ?h + a\<bar> \<le> L"
      using c abs_triangle_ineq [of "clip c (- ?h) ?h" a] by linarith
  qed
  have mn: "- L - np_min (attitude_pattern r p) = - ?h"
    by (simp add: attitude_pattern_min)
  have mx: "L - np_max (attitude_pattern r p) = ?h"
    by (simp add: attitude_pattern_max)
  show ?thesis
    unfolding mn mx vertical_mix_def
    by (intro arg_cong2 [where f = append] map_cong refl step)
qed

lemma altitude_level_closed_form:
  assumes ok: "altitude_level_pwm_commands alt roll pitch limit sign = Inr cs"
  defines "L \<equiv> \<bar>fval limit\<bar>"
  defines "k \<equiv> attitude_scale L (fval roll) (fval pitch)"
  shows "cs = vertical_mix L (copysign1 (fval sign) * fval alt) (k * fval roll) (k * fval pitch)"
proof -
  have "\<bar>k * fval roll\<bar> + \<bar>k * fval pitch\<bar> \<le> L"
    unfolding k_def L_def by (rule attitude_scale_fits) simp
  note mix = vertical_mix_clip [OF this, symmetric]
  show ?thesis
    using ok unfolding mix
    by (simp add: altitude_level_pwm_commands_def Let_def limited_attitude_eq attitude_pattern_scale
        L_def k_def attitude_scale_def err_simps)
qed

lemma altitude_level_length:
  "altitude_level_pwm_commands alt roll pitch limit sign = Inr cs \<Longrightarrow> length cs = 8"
  by (drule altitude_level_closed_form) (simp add: vertical_mix_def attitude_pattern_eq)

lemma altitude_level_bound:
  assumes "altitude_level_pwm_commands alt roll pitch limit sign = Inr cs" "c \<in> set cs"
  shows "\<bar>c\<bar> \<le> \<bar>fval limit\<bar>"
  using assms
  by (auto simp: altitude_level_pwm_commands_def Let_def split: if_splits)

lemma altitude_collective_length:
  "altitude_collective_pwm_commands out limit sign = Inr cs \<Longrightarrow> length cs = 8"
  by (auto simp: altitude_collective_pwm_commands_def Let_def split: if_splits)

lemma altitude_collective_bound:
  assumes "altitude_collective_pwm_commands out limit sign = Inr cs" "c \<in> set cs"
  shows "\<bar>c\<bar> \<le> \<bar>fval limit\<bar>"
  using assms
  by (auto simp: altitude_collective_pwm_commands_def Let_def split: if_splits)

lemma horizontal_pattern_length [simp]: "length (horizontal_pattern su sw ya) = 4"
  by (simp add: horizontal_pattern_def Let_def)

text \<open>The demand of the three axes on T5 to T8, each axis clipped to the limit.\<close>

definition horizontal_demand :: "real \<Rightarrow> real \<Rightarrow> real \<Rightarrow> real \<Rightarrow> real list" where
  "horizontal_demand L su sw ya =
     horizontal_pattern (clip su (- L) L) (clip sw (- L) L) (clip ya (- L) L)"

lemma station_horizontal_closed_form:
  "station_horizontal_pwm_mix su sw ya limit = Inr (upper, scale) \<longleftrightarrow>
     list_all isfinite [su, sw, ya, limit] \<and>
     scale = peak_scale \<bar>fval limit\<bar> (horizontal_demand \<bar>fval limit\<bar> (fval su) (fval sw) (fval ya)) \<and>
     upper = vscale scale (horizontal_demand \<bar>fval limit\<bar> (fval su) (fval sw) (fval ya))"
proof (cases "list_all isfinite [su, sw, ya, limit]")
  case True
  let ?d = "horizontal_demand \<bar>fval limit\<bar> (fval su) (fval sw) (fval ya)"
  have "station_horizontal_pwm_mix su sw ya limit =
      Inr (vscale (peak_scale \<bar>fval limit\<bar> ?d) ?d, peak_scale \<bar>fval limit\<bar> ?d)"
    unfolding station_horizontal_pwm_mix_def Let_def peak_scale_def horizontal_demand_def
    using True by simp
  with True show ?thesis by auto
next
  case False
  then show ?thesis by (auto simp: station_horizontal_pwm_mix_def)
qed

lemma station_horizontal_bound:
  assumes "station_horizontal_pwm_mix su sw ya limit = Inr (upper, scale)" "c \<in> set upper"
  shows "\<bar>c\<bar> \<le> \<bar>fval limit\<bar>"
  using assms peak_scale_bound [OF _ abs_ge_zero]
  by (auto simp: station_horizontal_closed_form vscale_def)

lemma station_horizontal_length:
  "station_horizontal_pwm_mix su sw ya limit = Inr (upper, scale) \<Longrightarrow> length upper = 4"
  by (auto simp: station_horizontal_closed_form horizontal_demand_def)

lemma station_horizontal_scale:
  assumes "station_horizontal_pwm_mix su sw ya limit = Inr (upper, scale)"
  shows "0 \<le> scale" and "scale \<le> 1"
  using assms by (auto simp: station_horizontal_closed_form clip_bounds)

lemma altitude_station_split:
  assumes "altitude_station_pwm_commands alt su sw ya limit sign roll pitch = Inr cs"
  obtains vertical horizontal scale
  where "altitude_level_pwm_commands alt roll pitch limit sign = Inr vertical"
    and "station_horizontal_pwm_mix su sw ya limit = Inr (horizontal, scale)"
    and "cs = take 4 vertical @ horizontal"
  using assms by (auto simp: altitude_station_pwm_commands_def err_simps)

lemma altitude_station_length:
  "altitude_station_pwm_commands alt su sw ya limit sign roll pitch = Inr cs \<Longrightarrow> length cs = 8"
  by (erule altitude_station_split) (simp add: altitude_level_length station_horizontal_length)

lemma altitude_station_bound:
  assumes "altitude_station_pwm_commands alt su sw ya limit sign roll pitch = Inr cs" "c \<in> set cs"
  shows "\<bar>c\<bar> \<le> \<bar>fval limit\<bar>"
  using assms
  by (auto elim!: altitude_station_split dest!: in_set_takeD
      intro: altitude_level_bound station_horizontal_bound)

section \<open>Cascade, integral effort and limiter lemmas\<close>

text \<open>The L1 limiter of the rate cascade.\<close>

definition l1_scale :: "real \<Rightarrow> real list \<Rightarrow> real" where
  "l1_scale limit xs =
     (if np_sum (vabs xs) > limit \<and> np_sum (vabs xs) > 0 then limit / np_sum (vabs xs) else 1)"

lemma np_sum_vabs_scale: "0 \<le> k \<Longrightarrow> np_sum (vabs (vscale k xs)) = k * np_sum (vabs xs)"
  by (induction xs) (auto simp: np_sum_def vabs_def vscale_def abs_mult algebra_simps)

lemma np_sum_vabs_nonneg [simp]: "0 \<le> np_sum (vabs xs)"
  by (auto simp: np_sum_def vabs_def intro!: sum_list_nonneg)

lemma l1_scale_range:
  assumes "0 \<le> limit"
  shows "0 \<le> l1_scale limit xs" and "l1_scale limit xs \<le> 1"
  using assms by (auto simp: l1_scale_def divide_simps)

lemma l1_scale_bound:
  assumes "0 \<le> limit"
  shows "np_sum (vabs (vscale (l1_scale limit xs) xs)) \<le> limit"
proof -
  have "l1_scale limit xs * np_sum (vabs xs) \<le> limit"
  proof (cases "np_sum (vabs xs) > limit \<and> np_sum (vabs xs) > 0")
    case True
    then show ?thesis by (simp add: l1_scale_def)
  next
    case False
    then have "np_sum (vabs xs) \<le> limit"
      using assms np_sum_vabs_nonneg [of xs] by linarith
    with False show ?thesis by (simp add: l1_scale_def)
  qed
  then show ?thesis by (simp add: np_sum_vabs_scale l1_scale_range(1) [OF assms])
qed

lemma level_efforts_Inr:
  assumes "level_attitude_rate_efforts oe ta ma akp rkp rlim cl ff ig = Inr (eff, raw, des, sat)"
  shows "0 \<le> fval cl" and "isfinite cl" and "length raw = 2" and "length des = 2"
    and "eff = vscale (l1_scale (fval cl) raw) raw"
    and "sat \<longleftrightarrow> np_sum (vabs raw) > fval cl"
proof -
  obtain e t m ak rk rl f g where
      v: "vec oe 2 = Inr e" "vec ta 2 = Inr t" "vec ma 2 = Inr m" "vec akp 2 = Inr ak"
         "vec rkp 2 = Inr rk" "vec rlim 2 = Inr rl" "vec ff 2 = Inr f" "vec ig 2 = Inr g"
    using assms by (simp only: level_attitude_rate_efforts_def ebind_Inr_conv) blast
  have len: "length e = 2" "length t = 2" "length m = 2" "length ak = 2" "length rk = 2"
      "length rl = 2" "length f = 2" "length g = 2"
    using v by (simp_all add: vec_Inr_conv)
  let ?des = "vclip (vadd t (vmul ak e)) (vneg rl) rl"
  let ?raw = "vadd (vadd (vmul rk (vsub ?des m)) f) g"
  let ?peak = "np_sum (vabs ?raw)"
  have eq: "\<not> (\<not> isfinite cl \<or> fval cl < 0)"
    "(if ?peak > fval cl \<and> ?peak > 0
      then Inr (vscale (fval cl / ?peak) ?raw, ?raw, ?des, True) else Inr (?raw, ?raw, ?des, False))
     = (Inr (eff, raw, des, sat) :: exc + _)"
    using assms by (auto simp: level_attitude_rate_efforts_def v Let_def split: if_split_asm)
  then show cl: "0 \<le> fval cl" and "isfinite cl" by auto
  have raw: "raw = ?raw" and "des = ?des" using eq(2) by (auto split: if_split_asm)
  then show "length raw = 2" and "length des = 2" by (simp_all add: len)
  show "eff = vscale (l1_scale (fval cl) raw) raw"
    using eq(2) by (auto simp: l1_scale_def split: if_split_asm)
  show "sat \<longleftrightarrow> np_sum (vabs raw) > fval cl"
    using eq(2) cl by (auto split: if_split_asm)
qed

text \<open>Integral effort: one step as a function of validated numbers.\<close>

definition axis_peak :: "real list \<Rightarrow> int \<Rightarrow> real \<Rightarrow> real" where
  "axis_peak base axis x = np_sum (vabs (base[nat axis := base ! nat axis + x]))"

lemma conditional_axis_integral_Inr:
  assumes "conditional_axis_integral_effort cur err gain dt elim base axis comb = Inr out"
  defines "current \<equiv> clip (fval cur) (- fval elim) (fval elim)"
  defines "proposed \<equiv> clip (current + fval gain * fval err * fval dt) (- fval elim) (fval elim)"
  shows "0 \<le> fval elim" and "0 \<le> fval comb" and "length base = 2"
    and "out = (if axis_peak (map fval base) axis proposed > fval comb + 1 / 10 ^ 12
             \<and> axis_peak (map fval base) axis proposed > axis_peak (map fval base) axis current + 1 / 10 ^ 12
           then current else proposed)"
proof -
  obtain b where b: "vec base 2 = Inr b"
    using assms(1) by (auto simp: conditional_axis_integral_effort_def ebind_Inr_conv)
  then have base: "base = map Fin b" "length b = 2" by (simp_all add: vec_Inr_conv)
  have ok: "\<not> (fval gain < 0 \<or> fval elim < 0 \<or> fval comb < 0)"
    "Inr out = (if axis_peak b axis proposed > fval comb + 1 / 10 ^ 12
             \<and> axis_peak b axis proposed > axis_peak b axis current + 1 / 10 ^ 12
           then Inr current else Inr proposed :: exc + real)"
    using assms(1)
    by (auto simp: conditional_axis_integral_effort_def b Let_def axis_peak_def
        current_def proposed_def split: if_split_asm)
  then show "0 \<le> fval elim" and "0 \<le> fval comb" by auto
  show "length base = 2" using base by simp
  show "out = (if axis_peak (map fval base) axis proposed > fval comb + 1 / 10 ^ 12
             \<and> axis_peak (map fval base) axis proposed > axis_peak (map fval base) axis current + 1 / 10 ^ 12
           then current else proposed)"
    using ok(2) by (auto simp: base comp_def split: if_split_asm)
qed

lemma conditional_axis_integral_bound:
  "conditional_axis_integral_effort cur err gain dt elim base axis comb = Inr out
   \<Longrightarrow> \<bar>out\<bar> \<le> fval elim"
  by (frule conditional_axis_integral_Inr(4), drule conditional_axis_integral_Inr(1))
     (auto intro: clip_abs_le)

lemma integral_reset_sign:
  "integral_reset_after_error_crossing prev err ie hyst = Inr (reset, sign) \<Longrightarrow> sign \<in> {- 1, 0, 1}"
  by (auto simp: integral_reset_after_error_crossing_def Let_def split: if_splits)

lemma slew_rate_limit_Inr:
  "slew_rate_limit prev req dt rate = Inr y \<longleftrightarrow>
     list_all isfinite [prev, req, dt, rate] \<and> 0 < fval dt \<and> 0 \<le> fval rate \<and>
     y = fval prev + clip (fval req - fval prev) (- (fval rate * fval dt)) (fval rate * fval dt)"
  by (auto simp: slew_rate_limit_def Let_def)

lemma first_order_low_pass_Inr:
  assumes "first_order_low_pass (Some (Fin p)) x dt tc = Inr y"
  obtains a where "0 \<le> a" "a \<le> 1" "y = p + a * (fval x - p)"
proof -
  have dt: "0 < fval dt"
    using assms by (auto simp: first_order_low_pass_def split: if_split_asm)
  show ?thesis
  proof (cases "fval tc \<le> 0")
    case True
    then have "y = fval x"
      using assms by (auto simp: first_order_low_pass_def split: if_split_asm)
    then show ?thesis by (intro that [of 1]) simp_all
  next
    case False
    let ?a = "1 - exp (- fval dt / fval tc)"
    have "y = p + ?a * (fval x - p)"
      using False assms
      by (auto simp: first_order_low_pass_def Let_def algebra_simps split: if_split_asm)
    moreover have "0 \<le> ?a" "?a \<le> 1" using False dt by simp_all
    ultimately show ?thesis using that by blast
  qed
qed

lemma median3_cases: "median3 a b c = a \<or> median3 a b c = b \<or> median3 a b c = c"
  by (auto simp: median3_def max_def min_def)

lemma median3_between: "min a b \<le> median3 a b c" "median3 a b c \<le> max a b"
  by (auto simp: median3_def)

section \<open>Rate predictor lemmas\<close>

lemma sum_list_affine:
  "sum_list (map (\<lambda>t. a + b * t) ts) = real (length ts) * a + b * sum_list ts"
  by (induction ts) (simp_all add: algebra_simps)

lemma np_mean_affine: "ts \<noteq> [] \<Longrightarrow> np_mean (map (\<lambda>t. a + b * t) ts) = a + b * np_mean ts"
  unfolding np_mean_def sum_list_affine by (simp add: field_simps)

lemma centered_affine_sum:
  "np_sum (map2 (\<lambda>t r. t * (r - (a + b * m))) (map (\<lambda>t. t - m) ts) (map (\<lambda>t. a + b * t) ts))
   = b * np_dot (map (\<lambda>t. t - m) ts) (map (\<lambda>t. t - m) ts)"
  by (induction ts) (simp_all add: np_sum_def np_dot_def algebra_simps)

text \<open>Least squares recovers a straight line: its slope, its end point and its extrapolation.\<close>

lemma fitted_rate_affine:
  assumes "ts \<noteq> []" "last ts = 0" "\<bar>b\<bar> \<le> acc" "\<bar>b * h\<bar> \<le> corr"
    and D: "D = np_dot (map (\<lambda>t. t - np_mean ts) ts) (map (\<lambda>t. t - np_mean ts) ts)" "D \<noteq> 0"
  shows "fitted_rate ts (map (\<lambda>t. a + b * t) ts) D h acc corr = a + b * h"
proof -
  have mean: "np_mean (map (\<lambda>t. a + b * t) ts) = a + b * np_mean ts"
    by (rule np_mean_affine [OF assms(1)])
  have slope: "np_sum (map2 (\<lambda>t r. t * (r - (a + b * np_mean ts))) (map (\<lambda>t. t - np_mean ts) ts)
      (map (\<lambda>t. a + b * t) ts)) / D = b"
    using D(2) unfolding centered_affine_sum by (simp add: D(1) [symmetric])
  have last: "last (map (\<lambda>t. a + b * t) ts) = a"
    using assms(1,2) by (simp add: last_map)
  show ?thesis
    unfolding fitted_rate_def Let_def mean slope last
    using assms(3,4) by (simp add: clip_id_abs)
qed

lemma fitted_rate_bound:
  "0 \<le> corr \<Longrightarrow> \<bar>fitted_rate ts col D h acc corr - last col\<bar> \<le> corr"
  by (simp add: fitted_rate_def Let_def clip_abs_le)

text \<open>The branches of the predictor once its inputs are valid.\<close>

definition prediction_times :: "int list \<Rightarrow> real list" where
  "prediction_times ts = map (\<lambda>t. real_of_int (t - last ts) * (1 / 10 ^ 9)) ts"

definition prediction_spread :: "int list \<Rightarrow> real" where
  "prediction_spread ts =
     (let rel = prediction_times ts; cen = map (\<lambda>t. t - np_mean rel) rel in np_dot cen cen)"

lemma timestamped_rate_prediction_eq:
  assumes "length rates = length ts" "ts \<noteq> []" "sorted_wrt (<) ts" "list_all (\<lambda>r. length r = 3) rates"
    "0 \<le> h" "0 \<le> acc" "0 \<le> corr"
  shows "timestamped_rate_prediction ts (map (map Fin) rates) (Fin h) (Fin acc) (Fin corr) =
    Inr (if length ts < 3 \<or> h = 0 \<or> acc = 0 \<or> corr = 0 \<or> prediction_spread ts \<le> 1 / 10 ^ 12
         then last rates
         else map (\<lambda>i. fitted_rate (prediction_times ts) (map (\<lambda>r. r ! i) rates)
           (prediction_spread ts) h acc corr) [0, 1, 2])"
proof -
  have ne: "rates \<noteq> []" using assms(1,2) by auto
  have mat: "np_matrix (map (map Fin) rates) = Inr (map (map Fin) rates)"
    using assms(4) ne by (cases rates) (auto simp: np_matrix_def list_all_iff)
  have rows: "list_all (\<lambda>row. length row = 3 \<and> list_all isfinite row) (map (map Fin) rates)"
    using assms(4) by (auto simp: list_all_iff)
  have last: "map fval (last (map (map Fin) rates)) = last rates"
    using ne by (simp add: last_map comp_def)
  have col: "map ((\<lambda>row. fval (row ! i)) \<circ> map Fin) rates = map (\<lambda>r. r ! i) rates"
    if "i < 3" for i
    using that assms(4) by (auto simp: list_all_iff)
  show ?thesis
    unfolding timestamped_rate_prediction_def mat ebind_simps last Let_def
      prediction_times_def [symmetric] prediction_spread_def [unfolded Let_def, symmetric]
    using assms(1-3,5-) rows by (auto simp: not_le col)
qed

text \<open>An accepted call was made with finite three-vectors and non-negative limits.\<close>

lemma timestamped_rate_prediction_valid:
  assumes "timestamped_rate_prediction ts samples horizon acclim corrlim = Inr out"
  obtains rates h acc corr where "samples = map (map Fin) rates" "length rates = length ts" "ts \<noteq> []"
    "sorted_wrt (<) ts" "list_all (\<lambda>r. length r = 3) rates"
    "horizon = Fin h" "acclim = Fin acc" "corrlim = Fin corr" "0 \<le> h" "0 \<le> acc" "0 \<le> corr"
proof -
  have ok: "np_matrix samples = Inr samples"
    "list_all (\<lambda>row. length row = 3 \<and> list_all isfinite row) samples"
    "length samples = length ts" "ts \<noteq> []" "sorted_wrt (<) ts"
    "list_all (\<lambda>v. isfinite v \<and> fval v \<ge> 0) [horizon, acclim, corrlim]"
    using assms
    by (auto simp: timestamped_rate_prediction_def ebind_Inr_conv np_matrix_def Let_def split: if_split_asm)
  have "samples = map (map Fin) (map (map fval) samples)"
    using ok(2) by (auto simp: list_all_iff map_idI)
  then show ?thesis
    using ok by (intro that [of "map (map fval) samples" "fval horizon" "fval acclim" "fval corrlim"])
      (auto simp: list_all_iff)
qed

section \<open>The contract of a thruster mixer\<close>

text \<open>
  What the controller node relies on when it turns mixed efforts into a published action:
  eight channels, each inside the command limit.  The node converts an effort to the shared
  action unit with the factor 500 us / 250 us and clips the result to the unit interval.
\<close>

locale thruster_mixer =
  fixes mix :: "'i \<Rightarrow> pyfloat \<Rightarrow> exc + real list"
  assumes mix_length: "mix i limit = Inr cs \<Longrightarrow> length cs = 8"
    and mix_bound: "mix i limit = Inr cs \<Longrightarrow> c \<in> set cs \<Longrightarrow> \<bar>c\<bar> \<le> \<bar>fval limit\<bar>"
begin

lemma action_bound:
  assumes "mix i (Fin (pwm / 500)) = Inr cs" "0 \<le> pwm" "pwm \<le> 250"
    and "a \<in> set (map (\<lambda>c. clip (c * 500 / 250) (- 1) 1) cs)"
  shows "\<bar>a\<bar> \<le> pwm / 250"
proof -
  obtain c where c: "c \<in> set cs" and a: "a = clip (c * 500 / 250) (- 1) 1"
    using assms(4) by auto
  have "\<bar>c\<bar> \<le> \<bar>pwm / 500\<bar>" using mix_bound [OF assms(1) c] by simp
  then have "\<bar>c * 500 / 250\<bar> \<le> pwm / 250" using assms(2) by (simp add: abs_mult)
  then show ?thesis using assms(2,3) unfolding a by (auto simp: clip_def)
qed

lemma action_length:
  "mix i limit = Inr cs \<Longrightarrow> length (map (\<lambda>c. clip (c * 500 / 250) (- 1) 1) cs) = 8"
  by (simp add: mix_length)

end

interpretation collective_mixer:
  thruster_mixer "\<lambda>(out, sign) limit. altitude_collective_pwm_commands out limit sign"
  by unfold_locales
    (auto intro: altitude_collective_length altitude_collective_bound)

interpretation station_mixer:
  thruster_mixer "\<lambda>(alt, su, sw, ya, sign, roll, pitch) limit.
     altitude_station_pwm_commands alt su sw ya limit sign roll pitch"
  by unfold_locales (auto intro: altitude_station_length altitude_station_bound)

section \<open>Properties\<close>

text \<open>
  Vertical mixing is attitude-priority.  Whatever height effort is requested, the
  differential torques of T1 to T4 are exactly those of the roll and pitch efforts whenever these
  fit the limit, and the collective part is the requested one clipped to the remaining headroom.
\<close>

theorem altitude_level_attitude_priority:
  assumes "altitude_level_pwm_commands alt roll pitch limit sign = Inr cs"
    and "\<bar>fval roll\<bar> + \<bar>fval pitch\<bar> \<le> \<bar>fval limit\<bar>"
  shows "cs ! 0 + cs ! 1 - cs ! 2 - cs ! 3 = 4 * fval roll
    \<and> cs ! 0 - cs ! 1 + cs ! 2 - cs ! 3 = 4 * fval pitch
    \<and> cs ! 0 + cs ! 1 + cs ! 2 + cs ! 3 =
      4 * clip (copysign1 (fval sign) * fval alt)
        (- (\<bar>fval limit\<bar> - (\<bar>fval roll\<bar> + \<bar>fval pitch\<bar>)))
        (\<bar>fval limit\<bar> - (\<bar>fval roll\<bar> + \<bar>fval pitch\<bar>))"
  using altitude_level_closed_form [OF assms(1)] attitude_scale_one [OF assms(2)]
  by (simp add: vertical_mix_def attitude_pattern_eq)

theorem altitude_level_attitude_priority_witness:
  "altitude_level_pwm_commands (Fin 1) (Fin (1 / 10)) (Fin (- 1 / 5)) (Fin (1 / 2)) (Fin (- 1))
       = Inr [- 3 / 10, 1 / 10, - 1 / 2, - 1 / 10, 0, 0, 0, 0]
     \<and> - 3 / 10 + 1 / 10 - (- 1 / 2) - (- 1 / 10) = (4 * (1 / 10) :: real)"
proof -
  have run: "altitude_level_pwm_commands (Fin 1) (Fin (1 / 10)) (Fin (- 1 / 5)) (Fin (1 / 2)) (Fin (- 1))
      = Inr [- 3 / 10, 1 / 10, - 1 / 2, - 1 / 10, 0, 0, 0, 0]"
    by (simp add: altitude_level_pwm_commands_def isclose_def limited_attitude_def
        attitude_pattern_eq vabs_def copysign1_def clip_def Let_def)
  from altitude_level_attitude_priority [OF run] run show ?thesis by simp
qed

text \<open>
  The horizontal mixer scales all axes by one common factor between zero and one, so
  the requested direction is kept, no channel exceeds the limit, and nothing is scaled when the
  demand fits.
\<close>

theorem station_horizontal_direction:
  assumes "station_horizontal_pwm_mix su sw ya limit = Inr (upper, scale)"
  defines "demand \<equiv> horizontal_demand \<bar>fval limit\<bar> (fval su) (fval sw) (fval ya)"
  shows "length upper = 4 \<and> upper = vscale scale demand \<and> 0 \<le> scale \<and> scale \<le> 1
     \<and> list_all (\<lambda>c. \<bar>c\<bar> \<le> \<bar>fval limit\<bar>) upper
     \<and> (np_max (vabs demand) \<le> \<bar>fval limit\<bar> \<longrightarrow> scale = 1)"
  using station_horizontal_length [OF assms(1)] station_horizontal_scale [OF assms(1)]
    station_horizontal_bound [OF assms(1)] assms(1)
  by (auto simp: station_horizontal_closed_form demand_def list_all_iff peak_scale_fits)

theorem station_horizontal_direction_witness:
  "station_horizontal_pwm_mix (Fin 1) (Fin (- 1)) (Fin 0) (Fin 1)
       = Inr (vscale (1 / 2) (horizontal_demand 1 1 (- 1) 0), 1 / 2)
     \<and> list_all (\<lambda>c. \<bar>c\<bar> \<le> 1) (vscale (1 / 2) (horizontal_demand 1 1 (- 1) 0))"
proof -
  let ?d = "horizontal_demand 1 1 (- 1) 0"
  have d: "?d = [- 1, - 2, 1608 / 1000, 107 / 1000]"
    by (simp add: horizontal_demand_def horizontal_pattern_def clip_def Let_def vadd_def vscale_def)
  have run: "station_horizontal_pwm_mix (Fin 1) (Fin (- 1)) (Fin 0) (Fin 1) =
      Inr (vscale (1 / 2) ?d, 1 / 2)"
    unfolding station_horizontal_closed_form by (simp add: d peak_scale_def vabs_def)
  from station_horizontal_direction [OF run] run show ?thesis by simp
qed

text \<open>
  The roll/pitch cascade never asks for more differential than its combined limit: the
  L1 norm of the efforts stays within the limit, the efforts keep the direction of the
  unlimited ones, and the saturation flag is raised exactly when the unlimited L1 norm is over.
\<close>

theorem level_cascade_l1_limit:
  assumes "level_attitude_rate_efforts oe ta ma akp rkp rlim cl ff ig = Inr (eff, raw, des, sat)"
  shows "np_sum (vabs eff) \<le> fval cl
     \<and> (sat \<longleftrightarrow> np_sum (vabs raw) > fval cl)
     \<and> (\<exists>k. 0 \<le> k \<and> k \<le> 1 \<and> eff = vscale k raw)"
proof -
  note r = level_efforts_Inr [OF assms]
  show ?thesis
    using l1_scale_bound [OF r(1), of raw] l1_scale_range [OF r(1), of raw] r(5,6) by auto
qed

theorem level_cascade_l1_limit_witness:
  "level_attitude_rate_efforts [Fin 1, Fin 0] [Fin 0, Fin 0] [Fin 0, Fin 0]
      [Fin 1, Fin 1] [Fin 1, Fin 1] [Fin 2, Fin 2] (Fin (1 / 2)) [Fin 0, Fin 1] [Fin 0, Fin 0]
      = Inr ([1 / 4, 1 / 4], [1, 1], [1, 0], True)
     \<and> np_sum (vabs [1 / 4, 1 / 4]) \<le> 1 / 2"
proof -
  have run: "level_attitude_rate_efforts [Fin 1, Fin 0] [Fin 0, Fin 0] [Fin 0, Fin 0]
      [Fin 1, Fin 1] [Fin 1, Fin 1] [Fin 2, Fin 2] (Fin (1 / 2)) [Fin 0, Fin 1] [Fin 0, Fin 0]
      = Inr ([1 / 4, 1 / 4], [1, 1], [1, 0], True)"
    by (simp add: level_attitude_rate_efforts_def array_defs clip_def Let_def)
  from level_cascade_l1_limit [OF run] run show ?thesis by simp
qed

text \<open>
  The pitch integral effort cannot wind up behind the shared limiter.  The result is
  inside its own limit; the combined demand it leads to exceeds neither the combined limit nor
  (beyond the tolerance) the demand of the effort it started from; and an update that does not
  increase the demand is always taken.
\<close>

theorem integral_effort_no_windup:
  assumes "conditional_axis_integral_effort cur err gain dt elim base axis comb = Inr out"
  defines "current \<equiv> clip (fval cur) (- fval elim) (fval elim)"
  defines "proposed \<equiv> clip (current + fval gain * fval err * fval dt) (- fval elim) (fval elim)"
  shows "\<bar>out\<bar> \<le> fval elim
    \<and> axis_peak (map fval base) axis out
        \<le> max (fval comb) (axis_peak (map fval base) axis current) + 1 / 10 ^ 12
    \<and> (axis_peak (map fval base) axis proposed \<le> axis_peak (map fval base) axis current
        \<longrightarrow> out = proposed)"
proof -
  note r = conditional_axis_integral_Inr [OF assms(1), folded current_def, folded proposed_def]
  show ?thesis
    using conditional_axis_integral_bound [OF assms(1)] r(4) by (auto simp: max_def)
qed

theorem integral_effort_no_windup_witness:
  "conditional_axis_integral_effort (Fin 0) (Fin 1) (Fin 1) (Fin 1) (Fin 1)
       [Fin 0, Fin 1] 1 (Fin 1) = Inr 0
   \<and> axis_peak [0, 1] 1 0 \<le> max 1 (axis_peak [0, 1] 1 (clip 0 (- 1) 1)) + 1 / 10 ^ 12"
proof -
  have run: "conditional_axis_integral_effort (Fin 0) (Fin 1) (Fin 1) (Fin 1) (Fin 1)
       [Fin 0, Fin 1] 1 (Fin 1) = Inr 0"
    by (simp add: conditional_axis_integral_effort_def array_defs clip_def Let_def)
  from integral_effort_no_windup [OF run] run show ?thesis by simp
qed

text \<open>
  The slew limiter moves towards the request by at most \<open>rate * dt\<close> and never past
  it: the remaining distance is the old one less the step, or zero.
\<close>

theorem slew_rate_distance:
  assumes "slew_rate_limit prev req dt rate = Inr y"
  shows "\<bar>y - fval prev\<bar> \<le> fval rate * fval dt
    \<and> \<bar>fval req - y\<bar> = max 0 (\<bar>fval req - fval prev\<bar> - fval rate * fval dt)"
proof -
  have y: "y = fval prev + clip (fval req - fval prev) (- (fval rate * fval dt)) (fval rate * fval dt)"
    and d: "0 \<le> fval rate * fval dt"
    using assms by (auto simp: slew_rate_limit_Inr)
  show ?thesis using d unfolding y by (auto simp: clip_def)
qed

theorem slew_rate_distance_witness:
  "slew_rate_limit (Fin 0) (Fin 1) (Fin (1 / 10)) (Fin 2) = Inr (1 / 5)
   \<and> \<bar>1 - 1 / 5 :: real\<bar> = max 0 (\<bar>1 - 0\<bar> - 2 * (1 / 10))"
proof -
  have run: "slew_rate_limit (Fin 0) (Fin 1) (Fin (1 / 10)) (Fin 2) = Inr (1 / 5)"
    by (simp add: slew_rate_limit_Inr clip_def)
  from slew_rate_distance [OF run] run show ?thesis by simp
qed

text \<open>
  A sample component that leaves the outlier filter is the measured one, or, when the
  measured one is further than the threshold away, one of the two preceding accepted values.
\<close>

theorem outlier_replaced_by_history:
  assumes "reject_vector_outlier recent sample threshold = Inr out" "i < 3"
  defines "n \<equiv> length recent"
  shows "length out = 3 \<and>
    (out ! i = fval (sample ! i) \<or>
     2 \<le> n \<and> out ! i \<in> {fval (recent ! (n - 2) ! i), fval (recent ! (n - 1) ! i)}
       \<and> \<bar>fval (sample ! i) - out ! i\<bar> > fval threshold)"
proof -
  obtain c where c: "vec sample 3 = Inr c"
    using assms(1) by (auto simp: reject_vector_outlier_def ebind_Inr_conv)
  then have s: "sample = map Fin c" "length c = 3" by (simp_all add: vec_Inr_conv)
  let ?row = "\<lambda>k. map fval (recent ! (n - k))"
  let ?med = "map (\<lambda>i. median3 (?row 2 ! i) (?row 1 ! i) (c ! i)) [0, 1, 2]"
  consider "out = c"
    | "2 \<le> n" "list_all (\<lambda>row. length row = 3 \<and> list_all isfinite row) recent"
      "out = map2 (\<lambda>c m. if \<bar>c - m\<bar> > fval threshold then m else c) c ?med"
    using assms(1)
    by (auto simp: reject_vector_outlier_def c n_def np_matrix_def Let_def not_less split: if_split_asm)
  then show ?thesis
  proof cases
    case 1
    then show ?thesis using s assms(2) by simp
  next
    case 2
    have "recent ! (n - 2) \<in> set recent" "recent ! (n - 1) \<in> set recent"
      using 2(1) by (auto simp: n_def intro!: nth_mem)
    then have rows: "length (recent ! (n - 2)) = 3" "length (recent ! (n - 1)) = 3"
      using 2(2) by (auto simp: list_all_iff)
    have med: "?med ! i = median3 (fval (recent ! (n - 2) ! i)) (fval (recent ! (n - 1) ! i)) (c ! i)"
      using assms(2) rows by (auto simp: less_Suc_eq numeral_3_eq_3 numeral_2_eq_2)
    have out: "out ! i = (if \<bar>c ! i - ?med ! i\<bar> > fval threshold then ?med ! i else c ! i)"
      using assms(2) s(2) unfolding 2(3) by simp
    show ?thesis
      using median3_cases [of "fval (recent ! (n - 2) ! i)" "fval (recent ! (n - 1) ! i)" "c ! i"]
        2(1) s assms(2) unfolding out med by (auto simp: 2(3))
  qed
qed

theorem outlier_replaced_by_history_witness:
  "reject_vector_outlier [[Fin 0, Fin 1, Fin 2], [Fin 1, Fin 1, Fin 2]] [Fin 9, Fin 1, Fin 2] (Fin 1)
     = Inr [1, 1, 2] \<and> \<bar>9 - 1 :: real\<bar> > 1"
proof -
  have run: "reject_vector_outlier [[Fin 0, Fin 1, Fin 2], [Fin 1, Fin 1, Fin 2]]
      [Fin 9, Fin 1, Fin 2] (Fin 1) = Inr [1, 1, 2]"
    by (simp add: reject_vector_outlier_def np_matrix_def median3_def Let_def)
  from outlier_replaced_by_history [OF run, of 0] run show ?thesis by simp
qed

text \<open>
  The predicted rate stays within the correction limit of the newest accepted sample,
  on every axis and whatever the history.
\<close>

theorem rate_prediction_bounded:
  assumes "timestamped_rate_prediction ts samples horizon acclim corrlim = Inr out" "i < 3"
  shows "length out = 3 \<and> \<bar>out ! i - fval (last samples ! i)\<bar> \<le> fval corrlim"
proof -
  obtain rates h acc corr where v: "samples = map (map Fin) rates" "length rates = length ts"
    "ts \<noteq> []" "sorted_wrt (<) ts" "list_all (\<lambda>r. length r = 3) rates"
    "horizon = Fin h" "acclim = Fin acc" "corrlim = Fin corr" "0 \<le> h" "0 \<le> acc" "0 \<le> corr"
    by (rule timestamped_rate_prediction_valid [OF assms(1)])
  have ne: "rates \<noteq> []" using v(2,3) by auto
  have last: "length (last rates) = 3" "fval (last samples ! i) = last rates ! i"
    using v(1,5) ne assms(2) by (auto simp: list_all_iff last_map)
  have col: "last (map (\<lambda>r. r ! i) rates) = last rates ! i" using ne by (simp add: last_map)
  consider "out = last rates"
    | "out = map (\<lambda>i. fitted_rate (prediction_times ts) (map (\<lambda>r. r ! i) rates)
           (prediction_spread ts) h acc corr) [0, 1, 2]"
    using assms(1) timestamped_rate_prediction_eq [OF v(2-5,9-11)] v(1,6-8)
    by (auto split: if_split_asm)
  then show ?thesis
  proof cases
    case 1
    then show ?thesis using last v(8,11) by simp
  next
    case 2
    then have "out ! i = fitted_rate (prediction_times ts) (map (\<lambda>r. r ! i) rates)
        (prediction_spread ts) h acc corr"
      using assms(2) by (auto simp: less_Suc_eq numeral_3_eq_3 numeral_2_eq_2)
    then show ?thesis
      using fitted_rate_bound [OF v(11), of "prediction_times ts" "map (\<lambda>r. r ! i) rates"
          "prediction_spread ts" h acc] last(2) col v(8) 2 by simp
  qed
qed

theorem rate_prediction_bounded_witness:
  "timestamped_rate_prediction [0, 5] [[Fin 0, Fin 0, Fin 0], [Fin 1, Fin 2, Fin 3]] (Fin 1) (Fin 1) (Fin 1)
     = Inr [1, 2, 3] \<and> \<bar>(2 :: real) - 2\<bar> \<le> 1"
proof -
  have run: "timestamped_rate_prediction [0, 5] [[Fin 0, Fin 0, Fin 0], [Fin 1, Fin 2, Fin 3]]
      (Fin 1) (Fin 1) (Fin 1) = Inr [1, 2, 3]"
    by (simp add: timestamped_rate_prediction_def np_matrix_def Let_def)
  from rate_prediction_bounded [OF run, of 1] run show ?thesis by simp
qed

text \<open>
  A constant angular acceleration is predicted exactly.  Samples that lie on a line
  through \<open>a\<close> with slope \<open>b\<close> per axis, within the acceleration and correction limits, give
  the value of the line one horizon ahead of the newest sample.
\<close>

theorem rate_prediction_ramp:
  fixes ts :: "int list" and a b :: "nat \<Rightarrow> real"
  defines "samples \<equiv> map (\<lambda>t. map (\<lambda>i. Fin (a i + b i * t)) [0, 1, 2]) (prediction_times ts)"
  assumes "3 \<le> length ts" "sorted_wrt (<) ts" "prediction_spread ts > 1 / 10 ^ 12"
    and "0 < h" "0 < acc" "0 < corr"
    and "\<And>i. i < 3 \<Longrightarrow> \<bar>b i\<bar> \<le> acc" "\<And>i. i < 3 \<Longrightarrow> \<bar>b i * h\<bar> \<le> corr"
  shows "timestamped_rate_prediction ts samples (Fin h) (Fin acc) (Fin corr) =
    Inr (map (\<lambda>i. a i + b i * h) [0, 1, 2])"
proof -
  let ?rel = "prediction_times ts"
  let ?rates = "map (\<lambda>t. map (\<lambda>i. a i + b i * t) [0, 1, 2]) ?rel"
  have ne: "ts \<noteq> []" "?rel \<noteq> []" using assms(2) by (auto simp: prediction_times_def)
  have last0: "last ?rel = 0" using ne(1) by (simp add: prediction_times_def last_map)
  have len: "length ?rates = length ts" by (simp add: prediction_times_def)
  have fit: "fitted_rate ?rel (map (\<lambda>r. r ! i) ?rates) (prediction_spread ts) h acc corr = a i + b i * h"
    if "i < 3" for i
  proof -
    have col: "map (\<lambda>r. r ! i) ?rates = map (\<lambda>t. a i + b i * t) ?rel"
      using that by (auto simp: less_Suc_eq numeral_3_eq_3 numeral_2_eq_2)
    show ?thesis unfolding col
      using assms(4) by (intro fitted_rate_affine [OF ne(2) last0 assms(8,9) [OF that]])
        (auto simp: prediction_spread_def Let_def)
  qed
  have fits: "map (\<lambda>i. fitted_rate ?rel (map (\<lambda>r. r ! i) ?rates) (prediction_spread ts) h acc corr)
      [0, 1, 2] = map (\<lambda>i. a i + b i * h) [0, 1, 2]"
    by (rule map_cong [OF refl], rule fit) auto
  have "samples = map (map Fin) ?rates" by (simp add: samples_def)
  then show ?thesis
    using timestamped_rate_prediction_eq [OF len ne(1) assms(3), of h acc corr] assms(2,4-7) fits
    by (auto simp: list_all_iff)
qed

theorem rate_prediction_ramp_witness:
  "timestamped_rate_prediction [0, 10 ^ 9, 2 * 10 ^ 9]
     (map (\<lambda>t. map (\<lambda>i. Fin (real i + 2 * t)) [0, 1, 2]) (prediction_times [0, 10 ^ 9, 2 * 10 ^ 9]))
     (Fin (1 / 2)) (Fin 3) (Fin 1) = Inr (map (\<lambda>i. real i + 2 * (1 / 2)) [0, 1, 2])"
proof (rule rate_prediction_ramp)
  show "prediction_spread [0, 10 ^ 9, 2 * 10 ^ 9] > 1 / 10 ^ 12"
    by (simp add: prediction_spread_def prediction_times_def np_mean_def np_dot_def Let_def)
qed simp_all

end
