(* ===== verification/Quaternion_Math.thy ===== *)
theory Quaternion_Math
  imports Control_Math
begin

text \<open>
  The quaternion part of \<^verbatim>\<open>robotcore_control/control_math.py\<close>: normalisation, shortest-arc
  interpolation, products, rotation of vectors, attitude error and the conversions to and from
  roll, pitch and yaw.  Quaternions are lists \<open>[w, x, y, z]\<close> as in the source.
\<close>

definition normalize_quaternion :: "pyfloat list \<Rightarrow> exc + real list" where
  "normalize_quaternion quaternion =
     ebind (vec quaternion 4) (\<lambda>q.
       let norm = np_norm q in
       if norm \<le> 1 / 10 ^ 9 then Inl (ValueError ''quaternion norm is zero'')
       else Inr (map (\<lambda>x. x / norm) q))"

definition quaternion_slerp :: "pyfloat list \<Rightarrow> pyfloat list \<Rightarrow> real \<Rightarrow> exc + real list" where
  "quaternion_slerp current target weight =
     ebind (normalize_quaternion current) (\<lambda>start.
     ebind (normalize_quaternion target) (\<lambda>end0.
       let amount = clip weight 0 1;
           dot0 = np_dot start end0;
           end1 = (if dot0 < 0 then vneg end0 else end0);
           dot1 = (if dot0 < 0 then - dot0 else dot0);
           dot = clip dot1 (- 1) 1
       in if dot > 9995 / 10000
          then normalize_quaternion (map Fin (vadd start (vscale amount (vsub end1 start))))
          else let angle = arccos dot; sine = sin angle
               in normalize_quaternion (map Fin
                    (vadd (vscale (sin ((1 - amount) * angle) / sine) start)
                          (vscale (sin (amount * angle) / sine) end1)))))"

definition quaternion_conjugate :: "pyfloat list \<Rightarrow> exc + real list" where
  "quaternion_conjugate quaternion =
     ebind (normalize_quaternion quaternion) (\<lambda>q. Inr [q ! 0, - (q ! 1), - (q ! 2), - (q ! 3)])"

text \<open>The Hamilton product of two four-element arrays.\<close>

fun hamilton :: "real list \<Rightarrow> real list \<Rightarrow> real list" where
  "hamilton [lw, lx, ly, lz] [rw, rx, ry, rz] =
     [lw * rw - lx * rx - ly * ry - lz * rz,
      lw * rx + lx * rw + ly * rz - lz * ry,
      lw * ry - lx * rz + ly * rw + lz * rx,
      lw * rz + lx * ry - ly * rx + lz * rw]"
| "hamilton _ _ = []"

definition quaternion_multiply :: "pyfloat list \<Rightarrow> pyfloat list \<Rightarrow> exc + real list" where
  "quaternion_multiply left right =
     ebind (normalize_quaternion left) (\<lambda>l.
     ebind (normalize_quaternion right) (\<lambda>r. normalize_quaternion (map Fin (hamilton l r))))"

definition quaternion_apply :: "pyfloat list \<Rightarrow> pyfloat list \<Rightarrow> exc + real list" where
  "quaternion_apply quaternion vector =
     ebind (normalize_quaternion quaternion) (\<lambda>q.
     ebind (vec vector 3) (\<lambda>value.
       let xyz = drop 1 q;
           twice_cross = vscale 2 (np_cross xyz value)
       in Inr (vadd (vadd value (vscale (q ! 0) twice_cross)) (np_cross xyz twice_cross))))"

definition quaternion_error_body :: "pyfloat list \<Rightarrow> pyfloat list \<Rightarrow> exc + real list" where
  "quaternion_error_body current_world_from_body target_world_from_body =
     ebind (quaternion_conjugate current_world_from_body) (\<lambda>conj.
     ebind (quaternion_multiply (map Fin conj) target_world_from_body) (\<lambda>relative0.
       let relative = (if relative0 ! 0 < 0 then vneg relative0 else relative0);
           vector = drop 1 relative;
           vector_norm = np_norm vector
       in if vector_norm \<le> 1 / 10 ^ 10 then Inr (vscale 2 vector)
          else let angle = 2 * atan2 vector_norm (max 0 (relative ! 0))
               in Inr (vscale (angle / vector_norm) vector)))"

text \<open>The fixed-axis product of the three half-angle rotations.\<close>

definition rpy_components :: "real \<Rightarrow> real \<Rightarrow> real \<Rightarrow> real list" where
  "rpy_components roll pitch yaw =
     (let cr = cos (roll / 2); sr = sin (roll / 2);
          cp = cos (pitch / 2); sp = sin (pitch / 2);
          cy = cos (yaw / 2); sy = sin (yaw / 2)
      in [cr * cp * cy + sr * sp * sy,
          sr * cp * cy - cr * sp * sy,
          cr * sp * cy + sr * cp * sy,
          cr * cp * sy - sr * sp * cy])"

definition rpy_to_quaternion :: "real \<Rightarrow> real \<Rightarrow> real \<Rightarrow> exc + real list" where
  "rpy_to_quaternion roll pitch yaw = normalize_quaternion (map Fin (rpy_components roll pitch yaw))"

text \<open>Roll, pitch and yaw of a four-element array.\<close>

fun rpy_of :: "real list \<Rightarrow> real list" where
  "rpy_of [w, x, y, z] =
     [atan2 (2 * (w * x + y * z)) (1 - 2 * (x * x + y * y)),
      arcsin (clip (2 * (w * y - z * x)) (- 1) 1),
      atan2 (2 * (w * z + x * y)) (1 - 2 * (y * y + z * z))]"
| "rpy_of _ = []"

definition quaternion_to_rpy :: "pyfloat list \<Rightarrow> exc + real list" where
  "quaternion_to_rpy quaternion = ebind (normalize_quaternion quaternion) (\<lambda>q. Inr (rpy_of q))"

definition attitude_with_heading :: "pyfloat list \<Rightarrow> pyfloat list \<Rightarrow> exc + real list" where
  "attitude_with_heading tilt_quaternion heading_quaternion =
     ebind (quaternion_to_rpy tilt_quaternion) (\<lambda>tilt_rpy.
     ebind (quaternion_to_rpy heading_quaternion) (\<lambda>heading_rpy.
       rpy_to_quaternion (tilt_rpy ! 0) (tilt_rpy ! 1) (heading_rpy ! 2)))"

section \<open>Unit quaternions\<close>

definition unit_quat :: "real list \<Rightarrow> bool" where
  "unit_quat q \<longleftrightarrow> length q = 4 \<and> np_norm q = 1"

lemma np_norm4: "np_norm [a, b, c, d] = sqrt (a\<^sup>2 + b\<^sup>2 + c\<^sup>2 + d\<^sup>2)"
  by (simp add: np_norm_def add.assoc)

lemma np_norm3: "np_norm [a, b, c] = sqrt (a\<^sup>2 + b\<^sup>2 + c\<^sup>2)"
  by (simp add: np_norm_def add.assoc)

lemma unit_quat_conv: "unit_quat q \<longleftrightarrow> (\<exists>w x y z. q = [w, x, y, z] \<and> w\<^sup>2 + x\<^sup>2 + y\<^sup>2 + z\<^sup>2 = 1)"
proof
  assume "unit_quat q"
  then obtain w x y z where q: "q = [w, x, y, z]" and "np_norm q = 1"
    by (auto simp: unit_quat_def dest!: list_of_length4)
  then show "\<exists>w x y z. q = [w, x, y, z] \<and> w\<^sup>2 + x\<^sup>2 + y\<^sup>2 + z\<^sup>2 = 1"
    by (auto simp: np_norm4)
next
  assume "\<exists>w x y z. q = [w, x, y, z] \<and> w\<^sup>2 + x\<^sup>2 + y\<^sup>2 + z\<^sup>2 = 1"
  then show "unit_quat q" by (auto simp: unit_quat_def np_norm4)
qed

lemma unit_quatE:
  assumes "unit_quat q"
  obtains w x y z where "q = [w, x, y, z]" "w\<^sup>2 + x\<^sup>2 + y\<^sup>2 + z\<^sup>2 = 1"
  using assms by (auto simp: unit_quat_conv)

lemma normalize_unit: "normalize_quaternion q = Inr u \<Longrightarrow> unit_quat u"
proof -
  assume "normalize_quaternion q = Inr u"
  then obtain p where p: "length p = 4" "\<not> np_norm p \<le> 1 / 10 ^ 9" "u = map (\<lambda>x. x / np_norm p) p"
    by (auto simp: normalize_quaternion_def ebind_Inr_conv vec_Inr_conv Let_def split: if_split_asm)
  then obtain a b c d where abcd: "p = [a, b, c, d]" by (auto dest!: list_of_length4)
  let ?n = "np_norm p"
  have "(0 :: real) < 1 / 10 ^ 9" by simp
  then have n: "0 < ?n" using p(2) by linarith
  have n2: "?n\<^sup>2 = a\<^sup>2 + b\<^sup>2 + c\<^sup>2 + d\<^sup>2" by (simp add: abcd np_norm4)
  have "(a / ?n)\<^sup>2 + (b / ?n)\<^sup>2 + (c / ?n)\<^sup>2 + (d / ?n)\<^sup>2 = (a\<^sup>2 + b\<^sup>2 + c\<^sup>2 + d\<^sup>2) / ?n\<^sup>2"
    by (simp add: power_divide add_divide_distrib)
  also have "\<dots> = 1" unfolding n2 [symmetric] using n by simp
  finally show "unit_quat u" using p(3) by (auto simp: unit_quat_conv abcd)
qed

lemma normalize_of_unit [simp]: "unit_quat q \<Longrightarrow> normalize_quaternion (map Fin q) = Inr q"
  by (auto simp: normalize_quaternion_def unit_quat_def Let_def)

lemma normalize_Inr_iff:
  "(\<exists>u. normalize_quaternion q = Inr u) \<longleftrightarrow>
     (\<exists>p. q = map Fin p \<and> length p = 4 \<and> np_norm p > 1 / 10 ^ 9)"
  by (auto simp: normalize_quaternion_def ebind_Inr_conv vec_Inr_conv Let_def not_le split: if_split_asm)

section \<open>Products and rotations\<close>

fun conj4 :: "real list \<Rightarrow> real list" where
  "conj4 [w, x, y, z] = [w, - x, - y, - z]"
| "conj4 _ = []"

lemma unit_hamilton: "unit_quat p \<Longrightarrow> unit_quat q \<Longrightarrow> unit_quat (hamilton p q)"
proof (elim unit_quatE)
  fix a b c d w x y z :: real
  assume p: "p = [a, b, c, d]" "a\<^sup>2 + b\<^sup>2 + c\<^sup>2 + d\<^sup>2 = 1"
    and q: "q = [w, x, y, z]" "w\<^sup>2 + x\<^sup>2 + y\<^sup>2 + z\<^sup>2 = 1"
  have "(a * w - b * x - c * y - d * z)\<^sup>2 + (a * x + b * w + c * z - d * y)\<^sup>2
      + (a * y - b * z + c * w + d * x)\<^sup>2 + (a * z + b * y - c * x + d * w)\<^sup>2
      = (a\<^sup>2 + b\<^sup>2 + c\<^sup>2 + d\<^sup>2) * (w\<^sup>2 + x\<^sup>2 + y\<^sup>2 + z\<^sup>2)"
    by (simp add: power2_eq_square algebra_simps)
  then show "unit_quat (hamilton p q)" using p q by (simp add: unit_quat_conv)
qed

lemma unit_conj4: "unit_quat q \<Longrightarrow> unit_quat (conj4 q)"
  by (auto simp: unit_quat_conv)

lemma unit_vneg: "unit_quat q \<Longrightarrow> unit_quat (vneg q)"
  by (auto simp: unit_quat_conv vneg_def)

lemma quaternion_conjugate_unit: "unit_quat q \<Longrightarrow> quaternion_conjugate (map Fin q) = Inr (conj4 q)"
  by (auto simp: quaternion_conjugate_def elim!: unit_quatE)

lemma quaternion_conjugate_Inr:
  assumes "quaternion_conjugate q = Inr c"
  obtains u where "normalize_quaternion q = Inr u" "unit_quat u" "c = conj4 u"
proof -
  obtain u where u: "normalize_quaternion q = Inr u" "c = [u ! 0, - (u ! 1), - (u ! 2), - (u ! 3)]"
    using assms by (auto simp: quaternion_conjugate_def ebind_Inr_conv)
  then have "unit_quat u" by (blast intro: normalize_unit)
  moreover from this have "c = conj4 u" using u(2) by (auto elim!: unit_quatE)
  ultimately show ?thesis using u(1) that by blast
qed

lemma quaternion_multiply_unit:
  "unit_quat p \<Longrightarrow> unit_quat q \<Longrightarrow> quaternion_multiply (map Fin p) (map Fin q) = Inr (hamilton p q)"
  by (simp add: quaternion_multiply_def unit_hamilton)

text \<open>The rotation of a vector by a unit quaternion, as the source computes it.\<close>

fun qrotate :: "real list \<Rightarrow> real list \<Rightarrow> real list" where
  "qrotate [w, x, y, z] v =
     (let t = vscale 2 (np_cross [x, y, z] v)
      in vadd (vadd v (vscale w t)) (np_cross [x, y, z] t))"
| "qrotate _ _ = []"

lemma rotate_eq:
  "qrotate [w, x, y, z] [a, b, c] =
    [a + w * (2 * (y * c - z * b)) + (y * (2 * (x * b - y * a)) - z * (2 * (z * a - x * c))),
     b + w * (2 * (z * a - x * c)) + (z * (2 * (y * c - z * b)) - x * (2 * (x * b - y * a))),
     c + w * (2 * (x * b - y * a)) + (x * (2 * (z * a - x * c)) - y * (2 * (y * c - z * b)))]"
  by (simp add: vscale_def vadd_def Let_def)

declare qrotate.simps [simp del]

lemma quaternion_apply_Inr:
  assumes "normalize_quaternion q = Inr u"
  shows "quaternion_apply q v = Inr r \<longleftrightarrow> (\<exists>xs. v = map Fin xs \<and> length xs = 3 \<and> r = qrotate u xs)"
  using normalize_unit [OF assms]
  by (auto simp: quaternion_apply_def assms ebind_Inr_conv vec_Inr_conv Let_def
      qrotate.simps elim!: unit_quatE)

lemma quaternion_apply_unit:
  "unit_quat u \<Longrightarrow> length xs = 3 \<Longrightarrow> quaternion_apply (map Fin u) (map Fin xs) = Inr (qrotate u xs)"
  by (auto simp: quaternion_apply_Inr)

lemma length_rotate: "unit_quat u \<Longrightarrow> length xs = 3 \<Longrightarrow> length (qrotate u xs) = 3"
  by (auto simp: rotate_eq dest!: list_of_length3 elim!: unit_quatE)

lemma rotate_norm_square:
  assumes "w\<^sup>2 + x\<^sup>2 + y\<^sup>2 + z\<^sup>2 = (1 :: real)" "qrotate [w, x, y, z] [a, b, c] = [r, s, t]"
  shows "r\<^sup>2 + s\<^sup>2 + t\<^sup>2 = a\<^sup>2 + b\<^sup>2 + c\<^sup>2"
  using assms unfolding rotate_eq list.inject by algebra

lemma rotate_norm: "unit_quat u \<Longrightarrow> length v = 3 \<Longrightarrow> np_norm (qrotate u v) = np_norm v"
proof -
  assume u: "unit_quat u" and v: "length v = 3"
  obtain w x y z where q: "u = [w, x, y, z]" "w\<^sup>2 + x\<^sup>2 + y\<^sup>2 + z\<^sup>2 = 1" using u by (rule unit_quatE)
  obtain a b c where abc: "v = [a, b, c]" using list_of_length3 [OF v] by blast
  obtain r s t where rst: "qrotate u v = [r, s, t]" using list_of_length3 [OF length_rotate [OF u v]] by blast
  have "r\<^sup>2 + s\<^sup>2 + t\<^sup>2 = a\<^sup>2 + b\<^sup>2 + c\<^sup>2"
    using rotate_norm_square [OF q(2)] rst by (simp add: q(1) abc)
  then show ?thesis unfolding rst unfolding abc np_norm3 by simp
qed

lemma rotate_conj:
  assumes "unit_quat u" "length v = 3"
  shows "qrotate (conj4 u) (qrotate u v) = v"
proof -
  obtain w x y z where q: "u = [w, x, y, z]" "w\<^sup>2 + x\<^sup>2 + y\<^sup>2 + z\<^sup>2 = 1" using assms(1) by (rule unit_quatE)
  obtain a b c where v: "v = [a, b, c]" using list_of_length3 [OF assms(2)] by blast
  have "qrotate [w, - x, - y, - z] (qrotate [w, x, y, z] [a, b, c]) = [a, b, c]"
    unfolding rotate_eq list.inject using q(2) by algebra
  then show ?thesis by (simp add: q(1) v)
qed

lemma conj4_conj4: "length q = 4 \<Longrightarrow> conj4 (conj4 q) = q"
  by (auto dest!: list_of_length4)

text \<open>Attitude error: relative rotation, shortest arc, rotation vector.\<close>

definition shortest :: "real list \<Rightarrow> real list" where
  "shortest q = (if q ! 0 < 0 then vneg q else q)"

definition rotation_vector :: "real list \<Rightarrow> real list" where
  "rotation_vector q =
     (let v = drop 1 q; n = np_norm v
      in if n \<le> 1 / 10 ^ 10 then vscale 2 v else vscale (2 * atan2 n (max 0 (q ! 0)) / n) v)"

lemma quaternion_error_body_unit:
  "unit_quat p \<Longrightarrow> unit_quat q \<Longrightarrow>
   quaternion_error_body (map Fin p) (map Fin q) = Inr (rotation_vector (shortest (hamilton (conj4 p) q)))"
  by (simp add: quaternion_error_body_def quaternion_conjugate_unit quaternion_multiply_unit
      unit_conj4 rotation_vector_def shortest_def Let_def)

lemma quaternion_error_body_cong:
  assumes "normalize_quaternion p = Inr u" "normalize_quaternion q = Inr v"
  shows "quaternion_error_body p q = Inr (rotation_vector (shortest (hamilton (conj4 u) v)))"
proof -
  have uv: "unit_quat u" "unit_quat v" using assms by (auto intro: normalize_unit)
  have "quaternion_conjugate p = quaternion_conjugate (map Fin u)"
    using assms(1) uv by (simp add: quaternion_conjugate_def)
  moreover have "quaternion_multiply c q = quaternion_multiply c (map Fin v)" for c
    using assms(2) uv by (simp add: quaternion_multiply_def)
  ultimately have "quaternion_error_body p q = quaternion_error_body (map Fin u) (map Fin v)"
    by (simp add: quaternion_error_body_def)
  then show ?thesis using uv by (simp add: quaternion_error_body_unit)
qed

lemma unit_shortest: "unit_quat q \<Longrightarrow> unit_quat (shortest q) \<and> 0 \<le> shortest q ! 0"
  by (auto simp: shortest_def unit_vneg vneg_def elim!: unit_quatE) (simp add: unit_quat_conv)

lemma np_norm_vscale: "np_norm (vscale k xs) = \<bar>k\<bar> * np_norm xs"
proof -
  have "sum_list (map (\<lambda>x. (k * x)\<^sup>2) xs) = k\<^sup>2 * sum_list (map (\<lambda>x. x\<^sup>2) xs)"
    by (induction xs) (simp_all add: power_mult_distrib distrib_left)
  then show ?thesis by (simp add: np_norm_def vscale_def comp_def real_sqrt_mult)
qed

lemma rotation_vector_norm: "0 \<le> q ! 0 \<Longrightarrow> np_norm (rotation_vector q) \<le> pi"
proof -
  assume w: "0 \<le> q ! 0"
  let ?n = "np_norm (drop 1 q)"
  show ?thesis
  proof (cases "?n \<le> 1 / 10 ^ 10")
    case True
    have "2 * ?n \<le> pi" using True pi_ge_two by simp
    then show ?thesis using True by (simp add: rotation_vector_def np_norm_vscale)
  next
    case False
    moreover have "(0 :: real) < 1 / 10 ^ 10" by simp
    ultimately have n: "0 < ?n" by linarith
    have a: "0 \<le> atan2 ?n (max 0 (q ! 0))" "atan2 ?n (max 0 (q ! 0)) \<le> pi / 2"
      using atan2_first_quadrant [of ?n "max 0 (q ! 0)"] by simp_all
    have "np_norm (rotation_vector q) = \<bar>2 * atan2 ?n (max 0 (q ! 0)) / ?n\<bar> * ?n"
      using False by (simp add: rotation_vector_def np_norm_vscale Let_def)
    also have "\<dots> = 2 * atan2 ?n (max 0 (q ! 0))" using n a(1) by simp
    finally show ?thesis using a(2) by simp
  qed
qed

section \<open>Roll, pitch and yaw\<close>

lemma rpy_components_unit: "unit_quat (rpy_components r p y)"
proof -
  let ?cr = "cos (r / 2)" and ?sr = "sin (r / 2)" and ?cp = "cos (p / 2)" and ?sp = "sin (p / 2)"
    and ?cy = "cos (y / 2)" and ?sy = "sin (y / 2)"
  have "?sr\<^sup>2 + ?cr\<^sup>2 = 1" "?sp\<^sup>2 + ?cp\<^sup>2 = 1" "?sy\<^sup>2 + ?cy\<^sup>2 = 1" by simp_all
  then have "(?cr * ?cp * ?cy + ?sr * ?sp * ?sy)\<^sup>2 + (?sr * ?cp * ?cy - ?cr * ?sp * ?sy)\<^sup>2
      + (?cr * ?sp * ?cy + ?sr * ?cp * ?sy)\<^sup>2 + (?cr * ?cp * ?sy - ?sr * ?sp * ?cy)\<^sup>2 = 1"
    by algebra
  then show ?thesis by (simp add: unit_quat_conv rpy_components_def Let_def)
qed

lemma rpy_to_quaternion_eq: "rpy_to_quaternion r p y = Inr (rpy_components r p y)"
  by (simp add: rpy_to_quaternion_def rpy_components_unit)

lemma half_angle:
  fixes t :: real
  shows "sin t = 2 * sin (t / 2) * cos (t / 2)" and "cos t = (cos (t / 2))\<^sup>2 - (sin (t / 2))\<^sup>2"
  using sin_double [of "t / 2"] cos_double [of "t / 2"] by simp_all

lemma rpy_of_components:
  assumes "- pi < r" "r \<le> pi" "- (pi / 2) < p" "p < pi / 2" "- pi < y" "y \<le> pi"
  shows "rpy_of (rpy_components r p y) = [r, p, y]"
proof -
  let ?cr = "cos (r / 2)" and ?sr = "sin (r / 2)" and ?cp = "cos (p / 2)" and ?sp = "sin (p / 2)"
    and ?cy = "cos (y / 2)" and ?sy = "sin (y / 2)"
  let ?w = "?cr * ?cp * ?cy + ?sr * ?sp * ?sy" and ?x = "?sr * ?cp * ?cy - ?cr * ?sp * ?sy"
    and ?v = "?cr * ?sp * ?cy + ?sr * ?cp * ?sy" and ?z = "?cr * ?cp * ?sy - ?sr * ?sp * ?cy"
  have one: "?sr\<^sup>2 + ?cr\<^sup>2 = 1" "?sp\<^sup>2 + ?cp\<^sup>2 = 1" "?sy\<^sup>2 + ?cy\<^sup>2 = 1" by simp_all
  have roll: "2 * (?w * ?x + ?v * ?z) = cos p * sin r" "1 - 2 * (?x * ?x + ?v * ?v) = cos p * cos r"
    unfolding half_angle [of p] half_angle [of r] using one by algebra+
  have pitch: "2 * (?w * ?v - ?z * ?x) = sin p"
    unfolding half_angle [of p] using one by algebra
  have yaw: "2 * (?w * ?z + ?x * ?v) = cos p * sin y" "1 - 2 * (?v * ?v + ?z * ?z) = cos p * cos y"
    unfolding half_angle [of p] half_angle [of y] using one by algebra+
  have cp: "0 < cos p" using assms(3,4) by (rule cos_gt_zero_pi)
  have "clip (sin p) (- 1) 1 = sin p" by (simp add: clip_def)
  then have "arcsin (clip (sin p) (- 1) 1) = p" using assms(3,4) by (simp add: arcsin_sin)
  then show ?thesis
    unfolding rpy_components_def Let_def rpy_of.simps roll pitch yaw
    using atan2_polar [OF cp] assms by simp
qed

lemma length_rpy_of: "length q = 4 \<Longrightarrow> length (rpy_of q) = 3"
  by (auto dest!: list_of_length4)

lemma rpy_of_bounds:
  assumes "length q = 4"
  shows "- pi < rpy_of q ! 0 \<and> rpy_of q ! 0 \<le> pi" "- (pi / 2) \<le> rpy_of q ! 1 \<and> rpy_of q ! 1 \<le> pi / 2"
    "- pi < rpy_of q ! 2 \<and> rpy_of q ! 2 \<le> pi"
proof -
  obtain w x y z where q: "q = [w, x, y, z]" using list_of_length4 [OF assms] by blast
  have "- 1 \<le> clip t (- 1) 1 \<and> clip t (- 1) 1 \<le> 1" for t by (simp add: clip_def)
  then show "- (pi / 2) \<le> rpy_of q ! 1 \<and> rpy_of q ! 1 \<le> pi / 2"
    using arcsin_bounded unfolding q by simp
  show "- pi < rpy_of q ! 0 \<and> rpy_of q ! 0 \<le> pi" "- pi < rpy_of q ! 2 \<and> rpy_of q ! 2 \<le> pi"
    using atan2_range unfolding q by simp_all
qed

lemma quaternion_to_rpy_unit: "unit_quat q \<Longrightarrow> quaternion_to_rpy (map Fin q) = Inr (rpy_of q)"
  by (simp add: quaternion_to_rpy_def)

lemma attitude_with_heading_Inr:
  assumes "normalize_quaternion tilt = Inr t" "normalize_quaternion heading = Inr h"
  shows "attitude_with_heading tilt heading =
    Inr (rpy_components (rpy_of t ! 0) (rpy_of t ! 1) (rpy_of h ! 2))"
  using assms by (simp add: attitude_with_heading_def quaternion_to_rpy_def rpy_to_quaternion_eq)

section \<open>Interpolation\<close>

lemma np_norm4_pos:
  assumes "1 / 4 \<le> a\<^sup>2 + b\<^sup>2 + c\<^sup>2 + d\<^sup>2"
  shows "np_norm [a, b, c, d] > 1 / 10 ^ 9"
proof -
  have "(1 / 2 :: real) \<le> sqrt (a\<^sup>2 + b\<^sup>2 + c\<^sup>2 + d\<^sup>2)"
    using assms by (intro real_le_rsqrt) (simp add: power2_eq_square)
  moreover have "(1 / 10 ^ 9 :: real) < 1 / 2" by simp
  ultimately show ?thesis unfolding np_norm4 by linarith
qed

text \<open>The square norm of a combination of two unit quaternions.\<close>

lemma combination_square:
  fixes a b c d w x y z s t :: real
  assumes "a\<^sup>2 + b\<^sup>2 + c\<^sup>2 + d\<^sup>2 = 1" "w\<^sup>2 + x\<^sup>2 + y\<^sup>2 + z\<^sup>2 = 1"
  shows "(s * a + t * w)\<^sup>2 + (s * b + t * x)\<^sup>2 + (s * c + t * y)\<^sup>2 + (s * d + t * z)\<^sup>2
    = s\<^sup>2 + t\<^sup>2 + 2 * s * t * (a * w + b * x + c * y + d * z)"
proof -
  have "(s * a + t * w)\<^sup>2 + (s * b + t * x)\<^sup>2 + (s * c + t * y)\<^sup>2 + (s * d + t * z)\<^sup>2
    = s\<^sup>2 * (a\<^sup>2 + b\<^sup>2 + c\<^sup>2 + d\<^sup>2) + t\<^sup>2 * (w\<^sup>2 + x\<^sup>2 + y\<^sup>2 + z\<^sup>2)
      + 2 * s * t * (a * w + b * x + c * y + d * z)"
    by (simp add: power2_eq_square algebra_simps)
  then show ?thesis using assms by simp
qed

lemma normalize_combination:
  assumes "unit_quat p" "unit_quat q" "1 / 4 \<le> s\<^sup>2 + t\<^sup>2 + 2 * s * t * np_dot p q"
  shows "\<exists>u. normalize_quaternion (map Fin (vadd (vscale s p) (vscale t q))) = Inr u"
proof -
  obtain a b c d where p: "p = [a, b, c, d]" "a\<^sup>2 + b\<^sup>2 + c\<^sup>2 + d\<^sup>2 = 1" using assms(1) by (rule unit_quatE)
  obtain w x y z where q: "q = [w, x, y, z]" "w\<^sup>2 + x\<^sup>2 + y\<^sup>2 + z\<^sup>2 = 1" using assms(2) by (rule unit_quatE)
  have "np_norm (vadd (vscale s p) (vscale t q)) > 1 / 10 ^ 9"
    unfolding p(1) q(1) vadd_def vscale_def list.map zip_Cons_Cons prod.case zip_Nil
    by (rule np_norm4_pos) (use assms(3) combination_square [OF p(2) q(2), of s t] in
      \<open>simp add: p(1) q(1) np_dot_def algebra_simps\<close>)
  then show ?thesis unfolding normalize_Inr_iff using p(1) q(1) by (intro exI conjI) (rule refl, auto)
qed

lemma sine_square:
  fixes A B :: real
  shows "(sin A)\<^sup>2 + (sin B)\<^sup>2 + 2 * sin A * sin B * cos (A + B) = (sin (A + B))\<^sup>2"
proof -
  have "(sin A)\<^sup>2 + (cos A)\<^sup>2 = 1" "(sin B)\<^sup>2 + (cos B)\<^sup>2 = 1" by simp_all
  then show ?thesis unfolding sin_add cos_add by algebra
qed

text \<open>Interpolation of unit quaternions on one side of the sphere never degenerates.\<close>

lemma slerp_defined:
  assumes pq: "unit_quat p" "unit_quat q" and dot: "0 \<le> np_dot p q" and a: "0 \<le> a" "a \<le> 1"
  shows "\<exists>u. (if clip (np_dot p q) (- 1) 1 > 9995 / 10000
      then normalize_quaternion (map Fin (vadd p (vscale a (vsub q p))))
      else let angle = arccos (clip (np_dot p q) (- 1) 1); sine = sin angle
           in normalize_quaternion (map Fin (vadd (vscale (sin ((1 - a) * angle) / sine) p)
                          (vscale (sin (a * angle) / sine) q)))) = Inr u"
proof (cases "clip (np_dot p q) (- 1) 1 > 9995 / 10000")
  case True
  then have d: "np_dot p q > 9995 / 10000" by (auto simp: clip_def min_def max_def split: if_split_asm)
  have "a * (1 - a) \<le> 1 / 4" using sum_squares_ge_zero [of "a - 1 / 2" 0] by (simp add: algebra_simps)
  have "(1 - a)\<^sup>2 + a\<^sup>2 \<le> (1 - a)\<^sup>2 + a\<^sup>2 + 2 * (1 - a) * a * np_dot p q"
    using a dot by simp
  moreover have "1 / 2 \<le> (1 - a)\<^sup>2 + a\<^sup>2"
    using sum_squares_ge_zero [of "a - 1 / 2" 0] by (simp add: power2_eq_square algebra_simps)
  ultimately have "1 / 4 \<le> (1 - a)\<^sup>2 + a\<^sup>2 + 2 * (1 - a) * a * np_dot p q" by linarith
  from normalize_combination [OF pq this]
  obtain u where "normalize_quaternion (map Fin (vadd (vscale (1 - a) p) (vscale a q))) = Inr u" by blast
  moreover have "vadd (vscale (1 - a) p) (vscale a q) = vadd p (vscale a (vsub q p))"
    using pq by (auto simp: array_defs algebra_simps elim!: unit_quatE)
  ultimately show ?thesis using True by simp
next
  case False
  then have c: "clip (np_dot p q) (- 1) 1 = np_dot p q" "np_dot p q \<le> 9995 / 10000"
    using dot by (auto simp: clip_def min_def max_def split: if_split_asm)
  let ?t = "arccos (np_dot p q)"
  have cos: "cos ?t = np_dot p q" using dot c(2) by simp
  have "sin ?t = sqrt (1 - (np_dot p q)\<^sup>2)" using dot c(2) by (simp add: sin_arccos)
  moreover have "(np_dot p q)\<^sup>2 < 1"
    using dot c(2) by (intro power_less_one_iff [THEN iffD2]) auto
  ultimately have s: "0 < sin ?t" by simp
  let ?x = "sin ((1 - a) * ?t) / sin ?t" and ?y = "sin (a * ?t) / sin ?t"
  have "(sin ((1 - a) * ?t))\<^sup>2 + (sin (a * ?t))\<^sup>2 + 2 * sin ((1 - a) * ?t) * sin (a * ?t) * np_dot p q
      = (sin ?t)\<^sup>2"
    using sine_square [of "(1 - a) * ?t" "a * ?t"] cos by (simp add: algebra_simps)
  then have "?x\<^sup>2 + ?y\<^sup>2 + 2 * ?x * ?y * np_dot p q = 1"
    using s by (simp add: field_simps power2_eq_square)
  then have "1 / 4 \<le> ?x\<^sup>2 + ?y\<^sup>2 + 2 * ?x * ?y * np_dot p q" by simp
  from normalize_combination [OF pq this] show ?thesis using False c(1) by (simp add: Let_def)
qed

lemma quaternion_slerp_Inr:
  assumes "normalize_quaternion p = Inr u" "normalize_quaternion q = Inr v"
  shows "\<exists>r. quaternion_slerp p q weight = Inr r \<and> unit_quat r"
proof -
  have uv: "unit_quat u" "unit_quat v" using assms by (auto intro: normalize_unit)
  let ?v = "if np_dot u v < 0 then vneg v else v"
  have dot: "np_dot u ?v = (if np_dot u v < 0 then - np_dot u v else np_dot u v)"
    using uv by (auto simp: np_dot_def vneg_def algebra_simps elim!: unit_quatE)
  have a: "0 \<le> clip weight 0 1" "clip weight 0 1 \<le> 1" by (simp_all add: clip_bounds)
  have "unit_quat ?v" "0 \<le> np_dot u ?v" using uv dot by (auto simp: unit_vneg)
  from slerp_defined [OF uv(1) this a] obtain r where "quaternion_slerp p q weight = Inr r"
    unfolding quaternion_slerp_def assms ebind_simps Let_def dot by blast
  moreover from this have "unit_quat r"
    unfolding quaternion_slerp_def assms ebind_simps Let_def
    by (auto intro: normalize_unit split: if_split_asm)
  ultimately show ?thesis by blast
qed

section \<open>The rotation behind a rotation vector\<close>

text \<open>The unit quaternion that turns by the norm of \<open>e\<close> about the direction of \<open>e\<close>.\<close>

definition rotation_of :: "real list \<Rightarrow> real list" where
  "rotation_of e = cos (np_norm e / 2) # vscale (sin (np_norm e / 2) / np_norm e) e"

lemma unit_quat_polar:
  assumes "unit_quat q" "0 \<le> q ! 0"
  obtains t where "0 \<le> t" "t \<le> pi" "q ! 0 = cos t" "np_norm (drop 1 q) = sin t"
proof -
  obtain w x y z where q: "q = [w, x, y, z]" "w\<^sup>2 + x\<^sup>2 + y\<^sup>2 + z\<^sup>2 = 1" using assms(1) by (rule unit_quatE)
  have "(np_norm (drop 1 q))\<^sup>2 = x\<^sup>2 + y\<^sup>2 + z\<^sup>2" by (simp add: q(1) np_norm3)
  then have "w\<^sup>2 + (np_norm (drop 1 q))\<^sup>2 = 1" using q(2) by simp
  from sincos_total_pi [OF np_norm_nonneg this] show ?thesis
    using that by (auto simp: q(1))
qed

lemma rotation_of_rotation_vector:
  assumes q: "unit_quat q" "0 \<le> q ! 0" and n: "1 / 10 ^ 10 < np_norm (drop 1 q)"
  shows "rotation_of (rotation_vector q) = q"
proof -
  let ?v = "drop 1 q" let ?n = "np_norm ?v"
  have "(0 :: real) < 1 / 10 ^ 10" by simp
  with n have pos: "0 < ?n" by linarith
  obtain t where t: "0 \<le> t" "t \<le> pi" "q ! 0 = cos t" "?n = sin t" using q by (rule unit_quat_polar)
  have "- pi < t" using t(1) pi_gt_zero by linarith
  then have angle: "atan2 ?n (max 0 (q ! 0)) = t"
    using atan2_polar [of 1 t] t q(2) by simp
  have "t \<noteq> 0" using pos t(4) by auto
  have e: "rotation_vector q = vscale (2 * t / ?n) ?v"
    using n angle by (simp add: rotation_vector_def Let_def)
  have norm: "np_norm (rotation_vector q) = 2 * t"
    using pos t(1) unfolding e np_norm_vscale by simp
  have "vscale (sin t / (2 * t)) (vscale (2 * t / ?n) ?v) = ?v"
    using pos t(4) \<open>t \<noteq> 0\<close> by (simp add: vscale_def comp_def)
  then have "rotation_of (rotation_vector q) = cos t # ?v"
    unfolding rotation_of_def norm unfolding e by simp
  also have "\<dots> = q" using q(1) t(3) by (auto elim!: unit_quatE)
  finally show ?thesis .
qed

lemma hamilton_conj_cancel: "unit_quat u \<Longrightarrow> unit_quat v \<Longrightarrow> hamilton u (hamilton (conj4 u) v) = v"
proof (elim unit_quatE)
  fix a b c d w x y z :: real
  assume u: "u = [a, b, c, d]" "a\<^sup>2 + b\<^sup>2 + c\<^sup>2 + d\<^sup>2 = 1" and v: "v = [w, x, y, z]"
  show "hamilton u (hamilton (conj4 u) v) = v"
    unfolding u(1) v conj4.simps hamilton.simps list.inject using u(2) by algebra
qed

lemma hamilton_vneg: "length u = 4 \<Longrightarrow> length v = 4 \<Longrightarrow> hamilton u (vneg v) = vneg (hamilton u v)"
  by (auto simp: vneg_def dest!: list_of_length4)

lemma hamilton_conj_self: "unit_quat u \<Longrightarrow> hamilton (conj4 u) u = [1, 0, 0, 0]"
  by (auto simp: algebra_simps power2_eq_square elim!: unit_quatE)

section \<open>Properties\<close>

text \<open>
  Changing frames is lossless.  Rotating a vector by a quaternion keeps its length, and
  rotating the result by the conjugate returns the vector.
\<close>

theorem frame_change_round_trip:
  assumes "quaternion_apply q v = Inr r" "quaternion_conjugate q = Inr c"
  shows "quaternion_apply (map Fin c) (map Fin r) = Inr (map fval v)
    \<and> np_norm r = np_norm (map fval v)"
proof -
  obtain u where u: "normalize_quaternion q = Inr u" "unit_quat u" "c = conj4 u"
    using assms(2) by (rule quaternion_conjugate_Inr)
  obtain xs where xs: "v = map Fin xs" "length xs = 3" "r = qrotate u xs"
    using assms(1) unfolding quaternion_apply_Inr [OF u(1)] by blast
  show ?thesis
    using u xs by (simp add: quaternion_apply_unit unit_conj4 length_rotate rotate_conj rotate_norm comp_def)
qed

theorem frame_change_round_trip_witness:
  "quaternion_apply [Fin 0, Fin 0, Fin 0, Fin 1] [Fin 1, Fin 2, Fin 3] = Inr [- 1, - 2, 3]
   \<and> quaternion_conjugate [Fin 0, Fin 0, Fin 0, Fin 1] = Inr [0, 0, 0, - 1]
   \<and> quaternion_apply (map Fin [0, 0, 0, - 1]) (map Fin [- 1, - 2, 3]) = Inr [1, 2, 3]"
proof -
  have n: "normalize_quaternion [Fin 0, Fin 0, Fin 0, Fin 1] = Inr [0, 0, 0, 1]"
    by (simp add: normalize_quaternion_def np_norm4)
  have c: "quaternion_conjugate [Fin 0, Fin 0, Fin 0, Fin 1] = Inr [0, 0, 0, - 1]"
    by (simp add: quaternion_conjugate_def n)
  have a: "quaternion_apply [Fin 0, Fin 0, Fin 0, Fin 1] [Fin 1, Fin 2, Fin 3] = Inr [- 1, - 2, 3]"
    by (simp add: quaternion_apply_def n vscale_def vadd_def)
  from frame_change_round_trip [OF a c] a c show ?thesis by simp
qed



text \<open>
  Combining IMU tilt with the map heading keeps what it promises.  Away from vertical
  pitch the combined attitude has exactly the roll and pitch of the first quaternion and the yaw
  of the second.
\<close>

theorem attitude_with_heading_rpy:
  assumes "quaternion_to_rpy tilt = Inr t" "quaternion_to_rpy heading = Inr h" "\<bar>t ! 1\<bar> < pi / 2"
  shows "\<exists>q. attitude_with_heading tilt heading = Inr q
    \<and> quaternion_to_rpy (map Fin q) = Inr [t ! 0, t ! 1, h ! 2]"
proof -
  obtain a b where a: "normalize_quaternion tilt = Inr a" "t = rpy_of a"
    and b: "normalize_quaternion heading = Inr b" "h = rpy_of b"
    using assms(1,2) by (auto simp: quaternion_to_rpy_def ebind_Inr_conv)
  have len: "length a = 4" "length b = 4"
    using a(1) b(1) by (auto dest!: normalize_unit simp: unit_quat_def)
  have "rpy_of (rpy_components (t ! 0) (t ! 1) (h ! 2)) = [t ! 0, t ! 1, h ! 2]"
    using rpy_of_bounds [OF len(1)] rpy_of_bounds [OF len(2)] assms(3) a(2) b(2)
    by (intro rpy_of_components) auto
  then show ?thesis
    using attitude_with_heading_Inr [OF a(1) b(1)] a(2) b(2)
    by (simp add: quaternion_to_rpy_unit rpy_components_unit)
qed

theorem attitude_with_heading_rpy_witness:
  "quaternion_to_rpy [Fin 1, Fin 0, Fin 0, Fin 0] = Inr [0, 0, 0]
   \<and> (\<exists>q. attitude_with_heading [Fin 1, Fin 0, Fin 0, Fin 0] [Fin 1, Fin 0, Fin 0, Fin 0] = Inr q
       \<and> quaternion_to_rpy (map Fin q) = Inr [0, 0, 0])"
proof -
  have r: "quaternion_to_rpy [Fin 1, Fin 0, Fin 0, Fin 0] = Inr [0, 0, 0]"
    by (simp add: quaternion_to_rpy_def normalize_quaternion_def np_norm4 atan2_def clip_def)
  from attitude_with_heading_rpy [OF r r] r pi_gt_zero show ?thesis by simp
qed

text \<open>
  The orientation filter never fails on valid attitudes: the interpolation of two
  quaternions that can be normalised returns, for every weight, a unit quaternion.
\<close>

theorem slerp_total_unit:
  assumes "normalize_quaternion p = Inr u" "normalize_quaternion q = Inr v"
  shows "\<exists>r. quaternion_slerp p q weight = Inr r \<and> length r = 4 \<and> np_norm r = 1"
  using quaternion_slerp_Inr [OF assms, of weight] by (auto simp: unit_quat_def)

theorem slerp_total_unit_witness:
  "normalize_quaternion [Fin 1, Fin 0, Fin 0, Fin 0] = Inr [1, 0, 0, 0]
   \<and> (\<exists>r. quaternion_slerp [Fin 1, Fin 0, Fin 0, Fin 0] [Fin 0, Fin 0, Fin 0, Fin 1] (1 / 3) = Inr r
         \<and> length r = 4 \<and> np_norm r = 1)"
proof -
  have n: "normalize_quaternion [Fin 1, Fin 0, Fin 0, Fin 0] = Inr [1, 0, 0, 0]"
    "normalize_quaternion [Fin 0, Fin 0, Fin 0, Fin 1] = Inr [0, 0, 0, 1]"
    by (simp_all add: normalize_quaternion_def np_norm4)
  from slerp_total_unit [OF n] n(1) show ?thesis by blast
qed

end
