(* ===== verification/Ros_Interface.thy ===== *)
theory Ros_Interface
  imports Robot_Prelude
begin

text \<open>
  What the nodes share of the middleware: Python string helpers, arithmetic on floats that may
  be non-finite, the message types of \<^verbatim>\<open>robotcore_interfaces/msg\<close> with the fields the nodes
  read, and ROS parameters.  A parameter is declared with a default of a fixed type; rclpy
  refuses an override of another type, so a declared parameter always has its declared type.
\<close>

section \<open>Strings\<close>

text \<open>\<^verbatim>\<open>str.lower\<close> and \<^verbatim>\<open>str.strip\<close> on ASCII text.\<close>

definition lower_char :: "char \<Rightarrow> char" where
  "lower_char c = (let n = of_char c :: nat in if 65 \<le> n \<and> n \<le> 90 then char_of (n + 32) else c)"

definition py_lower :: "string \<Rightarrow> string" where
  "py_lower s = map lower_char s"

definition is_space :: "char \<Rightarrow> bool" where
  "is_space c = (let n = of_char c :: nat in n = 32 \<or> (9 \<le> n \<and> n \<le> 13) \<or> (28 \<le> n \<and> n \<le> 31))"

definition py_strip :: "string \<Rightarrow> string" where
  "py_strip s = rev (dropWhile is_space (rev (dropWhile is_space s)))"

text \<open>\<^verbatim>\<open>sep.join(parts)\<close>.\<close>

fun py_join :: "string \<Rightarrow> string list \<Rightarrow> string" where
  "py_join sep [] = ''''"
| "py_join sep [p] = p"
| "py_join sep (p # q # ps) = p @ sep @ py_join sep (q # ps)"

text \<open>\<^verbatim>\<open>str(exc)\<close>: a \<^verbatim>\<open>KeyError\<close> prints the quoted key.\<close>

fun exc_str :: "exc \<Rightarrow> string" where
  "exc_str (ValueError m) = m"
| "exc_str (RuntimeError m) = m"
| "exc_str (KeyError k) = CHR 0x27 # k @ [CHR 0x27]"
| "exc_str (TypeError m) = m"
| "exc_str (AttributeError m) = m"
| "exc_str (OverflowError m) = m"
| "exc_str (OSError m) = m"
| "exc_str (IndexError m) = m"

section \<open>Floats that may be non-finite\<close>

text \<open>The builtins \<^verbatim>\<open>max(a, b)\<close> and \<^verbatim>\<open>min(a, b)\<close>: the first argument unless the second wins.\<close>

definition flt_max :: "pyfloat \<Rightarrow> pyfloat \<Rightarrow> pyfloat" where
  "flt_max a b = (if flt_lt a b then b else a)"

definition flt_min :: "pyfloat \<Rightarrow> pyfloat \<Rightarrow> pyfloat" where
  "flt_min a b = (if flt_lt b a then b else a)"

text \<open>\<^verbatim>\<open>np.clip\<close> to finite bounds lets NaN through.\<close>

fun flt_clip :: "pyfloat \<Rightarrow> real \<Rightarrow> real \<Rightarrow> pyfloat" where
  "flt_clip (Fin x) lo hi = Fin (clip x lo hi)"
| "flt_clip PInf lo hi = Fin hi"
| "flt_clip NInf lo hi = Fin (min lo hi)"
| "flt_clip NaN lo hi = NaN"

text \<open>Multiplication by a positive number and subtraction of a number.\<close>

fun flt_scale :: "real \<Rightarrow> pyfloat \<Rightarrow> pyfloat" where
  "flt_scale c (Fin x) = Fin (c * x)"
| "flt_scale c v = v"

fun flt_minus :: "pyfloat \<Rightarrow> real \<Rightarrow> pyfloat" where
  "flt_minus (Fin x) y = Fin (x - y)"
| "flt_minus v y = v"

text \<open>\<^verbatim>\<open>1.0 / rate\<close> for a rate that is at least one.\<close>

fun flt_period :: "pyfloat \<Rightarrow> pyfloat" where
  "flt_period (Fin x) = Fin (1 / x)"
| "flt_period PInf = Fin 0"
| "flt_period NInf = Fin 0"
| "flt_period NaN = NaN"

lemma flt_min_Fin [simp]: "flt_min (Fin a) (Fin b) = Fin (min a b)"
  by (simp add: flt_min_def min_def)

lemma flt_max_Fin [simp]: "flt_max (Fin a) (Fin b) = Fin (max a b)"
  by (simp add: flt_max_def max_def)

lemma flt_min_NaN [simp]: "flt_min NaN b = NaN"
  by (cases b) (simp_all add: flt_min_def)

lemma flt_clip_Fin_iff: "isfinite (flt_clip v lo hi) \<longleftrightarrow> v \<noteq> NaN"
  by (cases v) auto

section \<open>Time\<close>

text \<open>Clock readings are nanoseconds; an age is in seconds, infinite when nothing arrived.\<close>

definition age_s :: "int \<Rightarrow> int option \<Rightarrow> pyfloat" where
  "age_s now_ns stamp = (case stamp of None \<Rightarrow> PInf | Some t \<Rightarrow> Fin (real_of_int (now_ns - t) * (1 / 10 ^ 9)))"

lemma age_s_fresh: "\<not> flt_lt (Fin m) (age_s now stamp) \<longleftrightarrow>
    (\<exists>t. stamp = Some t \<and> real_of_int (now - t) * (1 / 10 ^ 9) \<le> m)"
  by (cases stamp) (auto simp: age_s_def not_less)

section \<open>Messages\<close>

datatype vector3 = Vector3 (vx: pyfloat) (vy: pyfloat) (vz: pyfloat)
datatype quaternion_msg = Quaternion (qw: pyfloat) (qx: pyfloat) (qy: pyfloat) (qz: pyfloat)

definition arr3 :: "vector3 \<Rightarrow> pyfloat list" where
  "arr3 v = [vx v, vy v, vz v]"

definition arr4 :: "quaternion_msg \<Rightarrow> pyfloat list" where
  "arr4 q = [qw q, qx q, qy q, qz q]"

record body_state_msg =
  body_frame :: string
  body_position :: vector3
  body_orientation :: quaternion_msg
  body_linear :: vector3
  linear_velocity_valid :: bool
  position_estimated :: bool
  state_valid :: bool

record imu_msg =
  imu_frame :: string
  imu_stamp_ns :: int
  imu_orientation_msg :: quaternion_msg
  orientation_covariance0 :: pyfloat
  imu_rate_msg :: vector3

record target_msg =
  target_frame :: string
  target_position :: vector3
  target_orientation :: quaternion_msg
  target_linear :: vector3
  target_angular :: vector3
  target_accel_linear :: vector3
  target_accel_angular :: vector3
  trajectory_type :: string
  control_mode :: string
  trajectory_phase :: string
  time_s :: pyfloat
  target_valid :: bool

record authority_msg =
  selected_source :: string
  action_limit :: pyfloat

record thruster_command =
  command_frame :: string
  action :: "real list"
  enable :: bool
  source :: string

text \<open>Every number of a target is finite: what a consumer may rely on.\<close>

definition finite3 :: "vector3 \<Rightarrow> bool" where
  "finite3 v \<longleftrightarrow> list_all isfinite (arr3 v)"

definition finite4 :: "quaternion_msg \<Rightarrow> bool" where
  "finite4 q \<longleftrightarrow> list_all isfinite (arr4 q)"

lemma finite3_conv: "finite3 v \<longleftrightarrow> (\<exists>x y z. v = Vector3 (Fin x) (Fin y) (Fin z))"
  by (cases v) (auto simp: finite3_def arr3_def isfinite_iff)

lemma finite4_conv: "finite4 q \<longleftrightarrow> (\<exists>w x y z. q = Quaternion (Fin w) (Fin x) (Fin y) (Fin z))"
  by (cases q) (auto simp: finite4_def arr4_def isfinite_iff)

lemma arr3_simp [simp]: "arr3 (Vector3 x y z) = [x, y, z]"
  by (simp add: arr3_def)

lemma arr4_simp [simp]: "arr4 (Quaternion w x y z) = [w, x, y, z]"
  by (simp add: arr4_def)

section \<open>Parameters\<close>

datatype param = PDouble pyfloat | PBool bool | PInt int | PString string | PDoubles "pyfloat list"

fun same_type :: "param \<Rightarrow> param \<Rightarrow> bool" where
  "same_type (PDouble _) (PDouble _) = True"
| "same_type (PBool _) (PBool _) = True"
| "same_type (PInt _) (PInt _) = True"
| "same_type (PString _) (PString _) = True"
| "same_type (PDoubles _) (PDoubles _) = True"
| "same_type _ _ = False"

type_synonym param_store = "(string \<times> param) list"

text \<open>\<^verbatim>\<open>declare_parameter\<close> for every entry of a table: an override of the declared type replaces the default.\<close>

fun declare_parameters :: "(string \<rightharpoonup> param) \<Rightarrow> param_store \<Rightarrow> exc + param_store" where
  "declare_parameters overrides [] = Inr []"
| "declare_parameters overrides ((name, dflt) # rest) =
     (let v = (case overrides name of None \<Rightarrow> dflt | Some v \<Rightarrow> v) in
      if \<not> same_type dflt v then Inl (TypeError name)
      else ebind (declare_parameters overrides rest) (\<lambda>ps. Inr ((name, v) # ps)))"

text \<open>\<^verbatim>\<open>float(self.get_parameter(name).value)\<close> and its relatives.\<close>

definition get_double :: "param_store \<Rightarrow> string \<Rightarrow> exc + pyfloat" where
  "get_double ps name = (case map_of ps name of
       Some (PDouble v) \<Rightarrow> Inr v
     | Some (PInt n) \<Rightarrow> Inr (Fin (real_of_int n))
     | Some _ \<Rightarrow> Inl (TypeError name)
     | None \<Rightarrow> Inl (KeyError name))"

definition get_bool :: "param_store \<Rightarrow> string \<Rightarrow> exc + bool" where
  "get_bool ps name = (case map_of ps name of
       Some (PBool b) \<Rightarrow> Inr b
     | Some _ \<Rightarrow> Inl (TypeError name)
     | None \<Rightarrow> Inl (KeyError name))"

definition get_int :: "param_store \<Rightarrow> string \<Rightarrow> exc + int" where
  "get_int ps name = (case map_of ps name of
       Some (PInt n) \<Rightarrow> Inr n
     | Some _ \<Rightarrow> Inl (TypeError name)
     | None \<Rightarrow> Inl (KeyError name))"

definition get_string :: "param_store \<Rightarrow> string \<Rightarrow> exc + string" where
  "get_string ps name = (case map_of ps name of
       Some (PString s) \<Rightarrow> Inr s
     | Some _ \<Rightarrow> Inl (TypeError name)
     | None \<Rightarrow> Inl (KeyError name))"

definition get_doubles :: "param_store \<Rightarrow> string \<Rightarrow> exc + pyfloat list" where
  "get_doubles ps name = (case map_of ps name of
       Some (PDoubles vs) \<Rightarrow> Inr vs
     | Some _ \<Rightarrow> Inl (TypeError name)
     | None \<Rightarrow> Inl (KeyError name))"

text \<open>Reading several float parameters in order.\<close>

fun read_doubles :: "param_store \<Rightarrow> string list \<Rightarrow> exc + pyfloat list" where
  "read_doubles ps [] = Inr []"
| "read_doubles ps (n # ns) =
     ebind (get_double ps n) (\<lambda>v. ebind (read_doubles ps ns) (\<lambda>vs. Inr (v # vs)))"

lemma read_doubles_length: "read_doubles ps ns = Inr vs \<Longrightarrow> length vs = length ns"
  by (induction ns arbitrary: vs) (auto simp: err_simps)

lemma read_doubles_nth: "read_doubles ps ns = Inr vs \<Longrightarrow> i < length ns \<Longrightarrow> get_double ps (ns ! i) = Inr (vs ! i)"
  by (induction ns arbitrary: vs i) (auto simp: err_simps nth_Cons split: nat.splits)

lemma declare_parameters_types:
  "declare_parameters ov table = Inr ps \<Longrightarrow>
    map fst ps = map fst table \<and> list_all2 (\<lambda>d v. same_type (snd d) (snd v)) table ps"
  by (induction table arbitrary: ps) (auto simp: err_simps Let_def split: if_split_asm)

lemma declared_lookup:
  assumes "declare_parameters ov table = Inr ps" "map_of table name = Some d"
  shows "\<exists>v. map_of ps name = Some v \<and> same_type d v"
  using assms
  by (induction table arbitrary: ps) (auto simp: err_simps Let_def split: if_split_asm)

lemma declared_double:
  "declare_parameters ov table = Inr ps \<Longrightarrow> map_of table name = Some (PDouble d) \<Longrightarrow> \<exists>v. get_double ps name = Inr v"
  using declared_lookup [of ov table ps name "PDouble d"]
  by (auto simp: get_double_def elim: same_type.elims)

lemma declared_bool:
  "declare_parameters ov table = Inr ps \<Longrightarrow> map_of table name = Some (PBool d) \<Longrightarrow> \<exists>v. get_bool ps name = Inr v"
  using declared_lookup [of ov table ps name "PBool d"]
  by (auto simp: get_bool_def elim: same_type.elims)

end
