(* ===== verification/T60_Observation.thy ===== *)
theory T60_Observation
  imports Quaternion_Math Ros_Interface
begin

text \<open>
  What surrounds the trajectory policy network: the observation state machine of
  \<^verbatim>\<open>t60_observation.py\<close> (30 current values and a history of 8 frames of 21), the freshness
  bookkeeping of \<^verbatim>\<open>observation_builder.py\<close> and the action check of \<^verbatim>\<open>action_decoder.py\<close>.
  Single-precision arrays are exact reals here.
\<close>

section \<open>Observations\<close>

record body_obs =
  bo_state_valid :: bool
  bo_position_estimated :: bool
  bo_linear_valid :: bool
  bo_position :: "pyfloat list"
  bo_orientation :: "pyfloat list"
  bo_linear :: "pyfloat list"

record imu_obs =
  io_orientation :: "pyfloat list"
  io_angular :: "pyfloat list"

record target_obs =
  to_valid :: bool
  to_position :: "pyfloat list"
  to_orientation :: "pyfloat list"
  to_linear :: "pyfloat list"
  to_angular :: "pyfloat list"
  to_accel_linear :: "pyfloat list"

text \<open>The observation dictionary: one optional entry per topic.\<close>

record observation =
  ob_body :: "body_obs option"
  ob_imu :: "imu_obs option"
  ob_command :: "pyfloat list option"
  ob_target :: "target_obs option"

definition no_observation :: observation where
  "no_observation = \<lparr>ob_body = None, ob_imu = None, ob_command = None, ob_target = None\<rparr>"

section \<open>Array helpers\<close>

definition t60_vec3 :: "pyfloat list \<Rightarrow> string \<Rightarrow> exc + real list" where
  "t60_vec3 values label =
     (if length values \<noteq> 3 \<or> \<not> list_all isfinite values
      then Inl (RuntimeError (label @ '' must contain three finite values''))
      else Inr (map fval values))"

definition unit_quaternion :: "pyfloat list \<Rightarrow> string \<Rightarrow> exc + real list" where
  "unit_quaternion values label =
     (if length values \<noteq> 4 \<or> \<not> list_all isfinite values
      then Inl (RuntimeError (label @ '' must be a finite wxyz quaternion''))
      else let q = map fval values; norm = np_norm q in
        if norm < 1 / 10 ^ 6 then Inl (RuntimeError (label @ '' quaternion norm is zero''))
        else Inr (map (\<lambda>v. v / norm) q))"

definition t60_conjugate :: "real list \<Rightarrow> real list" where
  "t60_conjugate q = map2 (*) q [1, - 1, - 1, - 1]"

definition quat_unique :: "real list \<Rightarrow> real list" where
  "quat_unique q = (if q ! 0 < 0 then vneg q else q)"

definition t60_apply :: "real list \<Rightarrow> real list \<Rightarrow> real list" where
  "t60_apply q v =
     (let xyz = take 3 (drop 1 q); cross = vscale 2 (np_cross xyz v) in
      vadd (vadd v (vscale (q ! 0) cross)) (np_cross xyz cross))"

definition t60_rpy :: "real list \<Rightarrow> real list" where
  "t60_rpy q =
     (let w = q ! 0; x = q ! 1; y = q ! 2; z = q ! 3 in
      [atan2 (2 * (w * x + y * z)) (1 - 2 * (x * x + y * y)),
       arcsin (clip (2 * (w * y - z * x)) (- 1) 1),
       atan2 (2 * (w * z + x * y)) (1 - 2 * (y * y + z * z))])"

definition t60_rpy_quaternion :: "real list \<Rightarrow> real list" where
  "t60_rpy_quaternion rpy =
     (let cr = cos (rpy ! 0 * (1 / 2)); sr = sin (rpy ! 0 * (1 / 2));
          cp = cos (rpy ! 1 * (1 / 2)); sp = sin (rpy ! 1 * (1 / 2));
          cy = cos (rpy ! 2 * (1 / 2)); sy = sin (rpy ! 2 * (1 / 2));
          q = [cr * cp * cy + sr * sp * sy, sr * cp * cy - cr * sp * sy,
               cr * sp * cy + sr * cp * sy, cr * cp * sy - sr * sp * cy] in
      map (\<lambda>v. v / np_norm q) q)"

section \<open>Frames\<close>

definition OBS_SCALE :: "real list" where
  "OBS_SCALE = replicate 3 (1 / 4) @ replicate 3 (2 / 5) @ replicate 3 (1 / 5) @ replicate 4 1
     @ replicate 6 (4 / 5) @ replicate 3 (9 / 20) @ replicate 8 1"

definition HISTORY_SCALE :: "real list" where
  "HISTORY_SCALE = replicate 3 (1 / 4) @ replicate 3 (1 / 5) @ replicate 4 1 @ replicate 3 (4 / 5) @ replicate 8 1"

text \<open>Division of an array that may hold non-finite values by a positive scale.\<close>

definition flt_divide :: "pyfloat list \<Rightarrow> real list \<Rightarrow> pyfloat list" where
  "flt_divide vs scale = map2 (\<lambda>v s. flt_scale (1 / s) v) vs scale"

record t60_inputs =
  position_w :: "real list"
  attitude_w :: "real list"
  linear_b :: "real list"
  angular_b :: "real list"
  command :: "pyfloat list"
  goal_position_w :: "real list"
  goal_attitude_w :: "real list"
  goal_linear_w :: "real list"
  goal_angular_w :: "real list"
  goal_accel_w :: "real list"

text \<open>Reading and checking the inputs, in the order of the source.\<close>

definition t60_read :: "observation \<Rightarrow> exc + t60_inputs" where
  "t60_read ob =
     (case ob_body ob of
        None \<Rightarrow> Inl (RuntimeError ''t60 observation is missing /robot/body_state'')
      | Some body \<Rightarrow>
     (case ob_target ob of
        None \<Rightarrow> Inl (RuntimeError ''t60 observation requires a valid trajectory target'')
      | Some goal \<Rightarrow>
          if \<not> to_valid goal then Inl (RuntimeError ''t60 observation requires a valid trajectory target'')
          else
     ebind (t60_vec3 (bo_position body) ''body position'') (\<lambda>pos.
     ebind (unit_quaternion (bo_orientation body) ''body orientation'') (\<lambda>localization.
     case ob_imu ob of
       None \<Rightarrow> Inl (RuntimeError ''external IMU orientation must be a finite wxyz quaternion'')
     | Some imu \<Rightarrow>
     ebind (unit_quaternion (io_orientation imu) ''external IMU orientation'') (\<lambda>imu_q.
     let attitude = t60_rpy_quaternion [t60_rpy imu_q ! 0, t60_rpy imu_q ! 1, t60_rpy localization ! 2] in
     ebind (t60_vec3 (bo_linear body) ''body linear velocity'') (\<lambda>lin.
     ebind (t60_vec3 (io_angular imu) ''external IMU angular velocity'') (\<lambda>ang.
     case ob_command ob of
       None \<Rightarrow> Inl (KeyError ''action'')
     | Some act \<Rightarrow>
     if length act \<noteq> 8 then Inl (ValueError ''cannot reshape array'')
     else
     ebind (t60_vec3 (to_position goal) ''target position'') (\<lambda>gpos.
     ebind (unit_quaternion (to_orientation goal) ''target orientation'') (\<lambda>gatt.
     ebind (t60_vec3 (to_linear goal) ''target linear velocity'') (\<lambda>glin.
     ebind (t60_vec3 (to_angular goal) ''target angular velocity'') (\<lambda>gang.
     ebind (t60_vec3 (to_accel_linear goal) ''target linear acceleration'') (\<lambda>gacc.
     Inr \<lparr>position_w = pos, attitude_w = attitude, linear_b = lin, angular_b = ang, command = act,
          goal_position_w = gpos, goal_attitude_w = gatt, goal_linear_w = glin, goal_angular_w = gang,
          goal_accel_w = gacc\<rparr>))))))))))))"

definition frames_of :: "t60_inputs \<Rightarrow> pyfloat list \<times> pyfloat list" where
  "frames_of i =
     (let q_bw = t60_conjugate (attitude_w i);
          position_error = t60_apply q_bw (vsub (goal_position_w i) (position_w i));
          goal_linear = t60_apply q_bw (goal_linear_w i);
          linear_error = vsub goal_linear (linear_b i);
          attitude_error = quat_unique (hamilton q_bw (goal_attitude_w i));
          goal_angular = t60_apply q_bw (goal_angular_w i);
          angular_error = vsub goal_angular (angular_b i);
          goal_accel = t60_apply q_bw (goal_accel_w i);
          current = map Fin (position_error @ goal_linear @ linear_error @ attitude_error @ angular_b i
                             @ goal_angular @ goal_accel) @ command i;
          frame = map Fin (position_error @ linear_error @ attitude_error @ angular_error) @ command i
      in (flt_divide current OBS_SCALE, flt_divide frame HISTORY_SCALE))"

definition build_frames :: "observation \<Rightarrow> exc + pyfloat list \<times> pyfloat list" where
  "build_frames ob =
     ebind (t60_read ob) (\<lambda>i.
     let (current, frame) = frames_of i in
     if length current \<noteq> 30 then Inl (RuntimeError ''t60 current observation shape'')
     else if length frame \<noteq> 21 then Inl (RuntimeError ''t60 history frame shape'')
     else Inr (current, frame))"

section \<open>The observation state\<close>

record t60_state =
  history :: "pyfloat list list"
  pending_history_frame :: "pyfloat list option"

definition t60_init :: t60_state where
  "t60_init = \<lparr>history = replicate 8 (replicate 21 (Fin 0)), pending_history_frame = None\<rparr>"

definition t60_reset :: "t60_state \<Rightarrow> t60_state" where
  "t60_reset st = st\<lparr>history := map (\<lambda>row. map (\<lambda>_. Fin 0) row) (history st), pending_history_frame := None\<rparr>"

definition t60_build :: "t60_state \<Rightarrow> observation \<Rightarrow> exc + t60_state \<times> pyfloat list" where
  "t60_build st ob =
     ebind (build_frames ob) (\<lambda>(current, frame).
     let policy_input = current @ concat (history st) in
     if length policy_input \<noteq> 198 then Inl (RuntimeError ''t60 observation shape'')
     else if \<not> list_all isfinite policy_input then Inl (RuntimeError ''t60 observation contains a non-finite value'')
     else Inr (st\<lparr>pending_history_frame := Some frame\<rparr>, policy_input))"

definition t60_commit :: "t60_state \<Rightarrow> exc + t60_state" where
  "t60_commit st =
     (case pending_history_frame st of
        None \<Rightarrow> Inl (RuntimeError ''cannot commit t60 history before building an observation'')
      | Some frame \<Rightarrow> Inr (st\<lparr>history := frame # butlast (history st), pending_history_frame := None\<rparr>))"

section \<open>Action check and freshness\<close>

definition decode_thruster_action :: "pyfloat list \<Rightarrow> exc + pyfloat list" where
  "decode_thruster_action values =
     (if length values \<noteq> 8 then Inl (ValueError ''policy action must contain exactly eight values'')
      else if \<not> list_all (\<lambda>v. isfinite v \<and> flt_le (Fin (- 1)) v \<and> flt_le v (Fin 1)) values
      then Inl (ValueError ''policy action must contain finite values in [-1, 1]'')
      else Inr values)"

record builder =
  max_age_ns :: int
  last_seen_ns :: "(string \<times> int option) list"
  values_of :: observation

text \<open>\<^verbatim>\<open>{name: None for name in required}\<close>: a repeated name keeps its first place.\<close>

fun fresh_entries :: "string list \<Rightarrow> string list \<Rightarrow> (string \<times> int option) list" where
  "fresh_entries seen [] = []"
| "fresh_entries seen (n # ns) = (if n \<in> set seen then fresh_entries seen ns else (n, None) # fresh_entries (n # seen) ns)"

definition new_builder :: "string list \<Rightarrow> int \<Rightarrow> builder" where
  "new_builder required age = \<lparr>max_age_ns = age, last_seen_ns = fresh_entries [] required, values_of = no_observation\<rparr>"

definition builder_update :: "string \<Rightarrow> int \<Rightarrow> (observation \<Rightarrow> observation) \<Rightarrow> builder \<Rightarrow> builder" where
  "builder_update name stamp_ns store b =
     b\<lparr>last_seen_ns := map (\<lambda>(n, s). (n, if n = name then Some stamp_ns else s)) (last_seen_ns b),
       values_of := store (values_of b)\<rparr>"

definition builder_missing :: "builder \<Rightarrow> int \<Rightarrow> string list" where
  "builder_missing b now_ns =
     map fst (filter (\<lambda>(n, s). case s of None \<Rightarrow> True | Some t \<Rightarrow> now_ns - t > max_age_ns b) (last_seen_ns b))"

section \<open>The helpers agree with the controller's\<close>

lemma fval_comp_Fin [simp]: "fval \<circ> Fin = id" "f \<circ> fval \<circ> Fin = f"
  by (simp_all add: fun_eq_iff)

lemma unit_quaternion_Inr:
  "unit_quaternion values label = Inr u \<longleftrightarrow>
     (\<exists>q. values = map Fin q \<and> length q = 4 \<and> 1 / 10 ^ 6 \<le> np_norm q \<and> u = map (\<lambda>v. v / np_norm q) q)"
  by (auto simp: unit_quaternion_def Let_def all_finite_conv not_less split: if_split_asm)

lemma unit_quaternion_unit: "unit_quaternion values label = Inr u \<Longrightarrow> unit_quat u"
proof -
  assume "unit_quaternion values label = Inr u"
  then obtain q where q: "length q = 4" "1 / 10 ^ 6 \<le> np_norm q" "u = map (\<lambda>v. v / np_norm q) q"
    by (auto simp: unit_quaternion_Inr)
  have "(1 :: real) / 10 ^ 9 < 1 / 10 ^ 6"
    by simp
  then have "1 / 10 ^ 9 < np_norm q"
    using q(2) by linarith
  then have "normalize_quaternion (map Fin q) = Inr u"
    using q by (simp add: normalize_quaternion_def Let_def)
  then show ?thesis
    by (rule normalize_unit)
qed

lemma t60_vec3_Inr: "t60_vec3 values label = Inr v \<longleftrightarrow> values = map Fin v \<and> length v = 3"
  by (auto simp: t60_vec3_def all_finite_conv split: if_split_asm)

lemma t60_conjugate_eq: "length q = 4 \<Longrightarrow> t60_conjugate q = conj4 q"
  by (auto simp: t60_conjugate_def dest!: list_of_length4)

lemma t60_apply_eq: "length q = 4 \<Longrightarrow> length v = 3 \<Longrightarrow> t60_apply q v = qrotate q v"
  by (auto simp: t60_apply_def qrotate.simps Let_def dest!: list_of_length4)

lemma t60_rpy_eq: "length q = 4 \<Longrightarrow> t60_rpy q = rpy_of q"
  by (auto simp: t60_rpy_def Let_def dest!: list_of_length4)

lemma t60_rpy_quaternion_eq: "t60_rpy_quaternion [r, p, y] = rpy_components r p y"
  using rpy_components_unit [of r p y]
  by (simp add: t60_rpy_quaternion_def rpy_components_def Let_def unit_quat_def)

lemma quat_unique_eq: "quat_unique q = shortest q"
  by (simp add: quat_unique_def shortest_def)

section \<open>Well-formed inputs\<close>

definition inputs_ok :: "t60_inputs \<Rightarrow> bool" where
  "inputs_ok i \<longleftrightarrow>
     list_all (\<lambda>v. length v = 3)
       [position_w i, linear_b i, angular_b i, goal_position_w i, goal_linear_w i, goal_angular_w i, goal_accel_w i]
     \<and> unit_quat (attitude_w i) \<and> unit_quat (goal_attitude_w i) \<and> length (command i) = 8"

lemma t60_read_ok:
  assumes "t60_read ob = Inr i"
  shows "inputs_ok i"
proof -
  obtain body where b: "ob_body ob = Some body"
    using assms by (cases "ob_body ob") (auto simp: t60_read_def)
  obtain goal where g: "ob_target ob = Some goal"
    using assms by (cases "ob_target ob") (auto simp: t60_read_def b)
  have gv: "to_valid goal"
    using assms by (auto simp: t60_read_def b g split: if_split_asm)
  obtain imu where im: "ob_imu ob = Some imu"
    using assms by (cases "ob_imu ob") (auto simp: t60_read_def b g gv ebind_Inr_conv)
  obtain act where a: "ob_command ob = Some act"
    using assms by (cases "ob_command ob") (auto simp: t60_read_def b g gv im ebind_Inr_conv Let_def)
  have "length act = 8"
    using assms by (auto simp: t60_read_def b g gv im a ebind_Inr_conv Let_def split: if_split_asm)
  then show ?thesis
    using assms
    by (auto simp: t60_read_def b g gv im a ebind_Inr_conv Let_def t60_vec3_Inr inputs_ok_def t60_rpy_quaternion_eq
        rpy_components_unit dest: unit_quaternion_unit)
qed

lemma scale_lengths [simp]: "length OBS_SCALE = 30" "length HISTORY_SCALE = 21"
  by (simp_all add: OBS_SCALE_def HISTORY_SCALE_def)

lemma finite_flt_scale: "isfinite (flt_scale k v) \<longleftrightarrow> isfinite v"
  by (cases v) auto

lemma finite_flt_divide: "length vs = length scale \<Longrightarrow> list_all isfinite (flt_divide vs scale) \<longleftrightarrow> list_all isfinite vs"
  by (induction vs scale rule: list_induct2) (simp_all add: flt_divide_def finite_flt_scale)

text \<open>The errors a frame is made of.\<close>

definition body_errors :: "t60_inputs \<Rightarrow> real list \<times> real list \<times> real list \<times> real list" where
  "body_errors i =
     (let q = conj4 (attitude_w i) in
      (qrotate q (vsub (goal_position_w i) (position_w i)),
       vsub (qrotate q (goal_linear_w i)) (linear_b i),
       shortest (hamilton q (goal_attitude_w i)),
       vsub (qrotate q (goal_angular_w i)) (angular_b i)))"

lemma frames_of_eq:
  assumes "inputs_ok i" "body_errors i = (pe, le, ae, re)"
  shows "frames_of i =
     (flt_divide (map Fin (pe @ qrotate (conj4 (attitude_w i)) (goal_linear_w i) @ le @ ae @ angular_b i
        @ qrotate (conj4 (attitude_w i)) (goal_angular_w i) @ qrotate (conj4 (attitude_w i)) (goal_accel_w i)) @ command i) OBS_SCALE,
      flt_divide (map Fin (pe @ le @ ae @ re) @ command i) HISTORY_SCALE)"
    and "length pe = 3" "length le = 3" "unit_quat ae" "0 \<le> ae ! 0" "length re = 3"
    "np_norm pe = np_norm (vsub (goal_position_w i) (position_w i))"
proof -
  have u: "unit_quat (conj4 (attitude_w i))" "length (conj4 (attitude_w i)) = 4" "length (attitude_w i) = 4"
    using assms(1) unit_conj4 [of "attitude_w i"] by (auto simp: inputs_ok_def unit_quat_def)
  have l: "length (vsub (goal_position_w i) (position_w i)) = 3"
    using assms(1) by (simp add: inputs_ok_def)
  have ae: "unit_quat (hamilton (conj4 (attitude_w i)) (goal_attitude_w i))"
    using assms(1) by (auto simp: inputs_ok_def intro: unit_hamilton unit_conj4)
  show "frames_of i =
     (flt_divide (map Fin (pe @ qrotate (conj4 (attitude_w i)) (goal_linear_w i) @ le @ ae @ angular_b i
        @ qrotate (conj4 (attitude_w i)) (goal_angular_w i) @ qrotate (conj4 (attitude_w i)) (goal_accel_w i)) @ command i) OBS_SCALE,
      flt_divide (map Fin (pe @ le @ ae @ re) @ command i) HISTORY_SCALE)"
    using assms u l by (auto simp: frames_of_def body_errors_def Let_def t60_conjugate_eq t60_apply_eq quat_unique_eq inputs_ok_def)
  show "length pe = 3" "length le = 3" "length re = 3" "np_norm pe = np_norm (vsub (goal_position_w i) (position_w i))"
    using assms u l by (auto simp: body_errors_def Let_def inputs_ok_def length_rotate rotate_norm)
  show "unit_quat ae" "0 \<le> ae ! 0"
    using assms(2) unit_shortest [OF ae] by (auto simp: body_errors_def Let_def)
qed

lemma frames_lengths:
  assumes "inputs_ok i"
  shows "length (fst (frames_of i)) = 30" "length (snd (frames_of i)) = 21"
    "list_all isfinite (fst (frames_of i)) \<longleftrightarrow> list_all isfinite (command i)"
    "list_all isfinite (snd (frames_of i)) \<longleftrightarrow> list_all isfinite (command i)"
proof -
  obtain pe le ae re where e: "body_errors i = (pe, le, ae, re)"
    by (metis prod_cases4)
  have u: "unit_quat (conj4 (attitude_w i))"
    using assms by (simp add: inputs_ok_def unit_conj4)
  note f = frames_of_eq [OF assms e]
  have lens: "length ae = 4" "length (command i) = 8" "length (angular_b i) = 3"
    "length (qrotate (conj4 (attitude_w i)) (goal_linear_w i)) = 3"
    "length (qrotate (conj4 (attitude_w i)) (goal_angular_w i)) = 3"
    "length (qrotate (conj4 (attitude_w i)) (goal_accel_w i)) = 3"
    using assms f(4) u by (auto simp: inputs_ok_def unit_quat_def [of ae] length_rotate)
  show "length (fst (frames_of i)) = 30" "length (snd (frames_of i)) = 21"
    using f lens by (simp_all add: flt_divide_def)
  show "list_all isfinite (fst (frames_of i)) \<longleftrightarrow> list_all isfinite (command i)"
    "list_all isfinite (snd (frames_of i)) \<longleftrightarrow> list_all isfinite (command i)"
    using f lens by (simp_all add: finite_flt_divide)
qed

section \<open>When an observation can be built\<close>

definition finite_vec :: "nat \<Rightarrow> pyfloat list \<Rightarrow> bool" where
  "finite_vec n vs \<longleftrightarrow> length vs = n \<and> list_all isfinite vs"

definition quaternion_ok :: "pyfloat list \<Rightarrow> bool" where
  "quaternion_ok vs \<longleftrightarrow> finite_vec 4 vs \<and> 1 / 10 ^ 6 \<le> np_norm (map fval vs)"

definition usable :: "observation \<Rightarrow> bool" where
  "usable ob =
     (case (ob_body ob, ob_imu ob, ob_command ob, ob_target ob) of
        (Some b, Some i, Some c, Some g) \<Rightarrow>
          to_valid g \<and> list_all (finite_vec 3) [bo_position b, bo_linear b, io_angular i, to_position g, to_linear g, to_angular g, to_accel_linear g]
          \<and> list_all quaternion_ok [bo_orientation b, io_orientation i, to_orientation g] \<and> finite_vec 8 c
      | _ \<Rightarrow> False)"

lemma t60_vec3_ok: "finite_vec 3 vs \<Longrightarrow> t60_vec3 vs label = Inr (map fval vs)"
  by (simp add: t60_vec3_def finite_vec_def)

lemma t60_vec3_D: "t60_vec3 vs label = Inr v \<Longrightarrow> finite_vec 3 vs"
  by (auto simp: t60_vec3_def finite_vec_def split: if_split_asm)

lemma unit_quaternion_ok:
  "quaternion_ok vs \<Longrightarrow> unit_quaternion vs label = Inr (map (\<lambda>v. v / np_norm (map fval vs)) (map fval vs))"
  by (simp add: unit_quaternion_def quaternion_ok_def finite_vec_def Let_def)

lemma unit_quaternion_D: "unit_quaternion vs label = Inr q \<Longrightarrow> quaternion_ok vs"
  by (auto simp: unit_quaternion_def quaternion_ok_def finite_vec_def Let_def split: if_split_asm)

lemma t60_read_usable: "usable ob \<Longrightarrow> \<exists>i. t60_read ob = Inr i \<and> list_all isfinite (command i)"
  by (auto simp: usable_def t60_read_def t60_vec3_ok unit_quaternion_ok finite_vec_def [of 8] Let_def split: option.split_asm)

lemma usable_read:
  assumes "t60_read ob = Inr i" "list_all isfinite (command i)"
  shows "usable ob"
proof -
  obtain body where b: "ob_body ob = Some body"
    using assms by (cases "ob_body ob") (auto simp: t60_read_def)
  obtain goal where g: "ob_target ob = Some goal"
    using assms by (cases "ob_target ob") (auto simp: t60_read_def b)
  have gv: "to_valid goal"
    using assms by (auto simp: t60_read_def b g split: if_split_asm)
  obtain imu where im: "ob_imu ob = Some imu"
    using assms by (cases "ob_imu ob") (auto simp: t60_read_def b g gv ebind_Inr_conv)
  obtain act where a: "ob_command ob = Some act"
    using assms by (cases "ob_command ob") (auto simp: t60_read_def b g gv im ebind_Inr_conv Let_def)
  have "length act = 8"
    using assms by (auto simp: t60_read_def b g gv im a ebind_Inr_conv Let_def split: if_split_asm)
  then show ?thesis
    using assms
    by (auto simp: t60_read_def usable_def b g gv im a ebind_Inr_conv Let_def finite_vec_def [of 8]
        dest!: t60_vec3_D unit_quaternion_D)
qed

lemma returns_read_iff: "(\<exists>i. t60_read ob = Inr i \<and> list_all isfinite (command i)) \<longleftrightarrow> usable ob"
  using t60_read_usable usable_read by blast

lemma build_frames_eq: "build_frames ob = ebind (t60_read ob) (\<lambda>i. Inr (frames_of i))"
proof (cases "t60_read ob")
  case (Inr i)
  then have "length (fst (frames_of i)) = 30" "length (snd (frames_of i)) = 21"
    by (simp_all add: frames_lengths t60_read_ok)
  then show ?thesis
    by (simp add: build_frames_def Inr case_prod_beta)
qed (simp add: build_frames_def)

definition frame_ok :: "pyfloat list \<Rightarrow> bool" where
  "frame_ok f \<longleftrightarrow> length f = 21 \<and> list_all isfinite f"

definition t60_inv :: "t60_state \<Rightarrow> bool" where
  "t60_inv st \<longleftrightarrow> length (history st) = 8 \<and> list_all frame_ok (history st) \<and> pred_option frame_ok (pending_history_frame st)"

lemma concat_rows: "list_all frame_ok rows \<Longrightarrow> length (concat rows) = 21 * length rows \<and> list_all isfinite (concat rows)"
  by (induction rows) (auto simp: frame_ok_def)

lemma t60_build_eq:
  assumes "t60_inv st"
  shows "t60_build st ob = ebind (t60_read ob) (\<lambda>i.
     if list_all isfinite (command i)
     then Inr (st\<lparr>pending_history_frame := Some (snd (frames_of i))\<rparr>, fst (frames_of i) @ concat (history st))
     else Inl (RuntimeError ''t60 observation contains a non-finite value''))"
proof (cases "t60_read ob")
  case (Inr i)
  have rows: "length (concat (history st)) = 168" "list_all isfinite (concat (history st))"
    using assms concat_rows [of "history st"] by (auto simp: t60_inv_def)
  have frames: "length (fst (frames_of i)) = 30" "list_all isfinite (fst (frames_of i)) \<longleftrightarrow> list_all isfinite (command i)"
    using t60_read_ok [OF Inr] by (simp_all add: frames_lengths)
  show ?thesis
    by (simp add: t60_build_def build_frames_eq Inr case_prod_beta Let_def rows frames del: length_concat)
qed (simp add: t60_build_def build_frames_eq)

text \<open>The operations in sequence; a call that raises leaves the state as it was.\<close>

datatype t60_op = Build observation | Commit | Clear

fun t60_step :: "t60_state \<Rightarrow> t60_op \<Rightarrow> t60_state" where
  "t60_step st (Build ob) = (case t60_build st ob of Inr (st', v) \<Rightarrow> st' | Inl e \<Rightarrow> st)"
| "t60_step st Commit = (case t60_commit st of Inr st' \<Rightarrow> st' | Inl e \<Rightarrow> st)"
| "t60_step st Clear = t60_reset st"

lemma t60_step_inv: "t60_inv st \<Longrightarrow> t60_inv (t60_step st op)"
proof (cases op)
  case (Build ob)
  assume inv: "t60_inv st"
  show ?thesis
  proof (cases "t60_build st ob")
    case (Inr r)
    then obtain i where i: "t60_read ob = Inr i" "list_all isfinite (command i)"
      and st': "fst r = st\<lparr>pending_history_frame := Some (snd (frames_of i))\<rparr>"
      using inv by (auto simp: t60_build_eq ebind_Inr_conv split: if_split_asm)
    have "frame_ok (snd (frames_of i))"
      using i t60_read_ok [OF i(1)] by (simp add: frame_ok_def frames_lengths)
    with inv Build Inr st' show ?thesis
      by (cases r) (simp add: t60_inv_def)
  qed (use inv Build in simp)
next
  case Commit
  assume inv: "t60_inv st"
  then have "list_all frame_ok (butlast (history st))"
    by (auto simp: t60_inv_def list_all_iff dest: in_set_butlastD)
  with inv Commit show ?thesis
    by (auto simp: t60_commit_def t60_inv_def split: option.split)
next
  case Clear
  assume "t60_inv st"
  with Clear show ?thesis
    by (auto simp: t60_reset_def t60_inv_def frame_ok_def list_all_iff)
qed

interpretation t60_machine: event_machine t60_step t60_inv
  by unfold_locales (rule t60_step_inv)

lemma t60_init_inv: "t60_inv t60_init"
  by (simp add: t60_inv_def t60_init_def frame_ok_def list_all_iff)

section \<open>The history refines the list of committed frames\<close>

definition zero_frame :: "pyfloat list" where
  "zero_frame = replicate 21 (Fin 0)"

definition observed_frame :: "observation \<Rightarrow> pyfloat list" where
  "observed_frame ob = (case t60_read ob of Inr i \<Rightarrow> snd (frames_of i) | Inl e \<Rightarrow> [])"

text \<open>The specification: all frames committed since the last reset, newest first.\<close>

fun spec_step :: "pyfloat list list \<times> pyfloat list option \<Rightarrow> t60_op \<Rightarrow> pyfloat list list \<times> pyfloat list option" where
  "spec_step (frames, pending) (Build ob) = (frames, if usable ob then Some (observed_frame ob) else pending)"
| "spec_step (frames, pending) Commit = (case pending of None \<Rightarrow> (frames, None) | Some f \<Rightarrow> (f # frames, None))"
| "spec_step (frames, pending) Clear = ([], None)"

definition implements :: "t60_state \<Rightarrow> pyfloat list list \<times> pyfloat list option \<Rightarrow> bool" where
  "implements st sp \<longleftrightarrow> t60_inv st \<and> history st = take 8 (fst sp @ replicate 8 zero_frame) \<and> pending_history_frame st = snd sp"

lemma take_commit: "f # butlast (take 8 (fs @ replicate 8 z)) = take 8 ((f # fs) @ replicate 8 z)"
proof -
  have "butlast (take 8 (fs @ replicate 8 z)) = take 7 (fs @ replicate 8 z)"
    by (subst butlast_take) simp_all
  then show ?thesis
    by (simp add: eval_nat_numeral)
qed

lemma implements_step: "implements st sp \<Longrightarrow> implements (t60_step st op) (spec_step sp op)"
proof (cases op)
  case (Build ob)
  assume imp: "implements st sp"
  obtain frames pending where sp: "sp = (frames, pending)" by (cases sp)
  have inv: "t60_inv st" using imp by (simp add: implements_def)
  show ?thesis
  proof (cases "usable ob")
    case True
    then obtain i where i: "t60_read ob = Inr i" "list_all isfinite (command i)"
      by (auto simp flip: returns_read_iff)
    then show ?thesis
      using imp Build sp True t60_step_inv [OF inv, of op] by (simp add: implements_def t60_build_eq [OF inv] observed_frame_def)
  next
    case False
    then have "t60_step st op = st"
      using Build returns_read_iff [of ob] by (cases "t60_read ob") (auto simp: t60_build_eq [OF inv])
    then show ?thesis
      using imp Build sp False by (simp add: implements_def)
  qed
next
  case Commit
  assume imp: "implements st sp"
  then show ?thesis
    using Commit t60_step_inv [of st op] take_commit [of _ "fst sp" zero_frame]
    by (cases sp) (auto simp: implements_def t60_commit_def split: option.split)
next
  case Clear
  assume imp: "implements st sp"
  then have "history (t60_reset st) = replicate 8 zero_frame"
    by (auto simp: implements_def t60_inv_def t60_reset_def frame_ok_def zero_frame_def list_all_iff intro!: replicate_eqI
        simp: map_replicate_const)
  with imp Clear t60_step_inv [of st op] show ?thesis
    by (cases sp) (simp add: implements_def t60_reset_def)
qed

section \<open>Properties\<close>

text \<open>The observation is exact.  After any sequence of builds, commits and resets, building succeeds
  exactly for an observation with all four inputs, finite vectors of the right length, quaternions of
  norm at least \<open>1e-6\<close> and a valid target; it then returns 198 finite numbers, the last 168 of them the
  history.\<close>

theorem t60_observation_exact:
  "case t60_build (foldl t60_step t60_init ops) ob of
     Inl e \<Rightarrow> \<not> usable ob
   | Inr (st, v) \<Rightarrow> usable ob \<and> length v = 198 \<and> list_all isfinite v
       \<and> drop 30 v = concat (history (foldl t60_step t60_init ops))"
proof -
  let ?st = "foldl t60_step t60_init ops"
  have inv: "t60_inv ?st"
    by (rule t60_machine.run_inv [OF t60_init_inv])
  have rows: "length (concat (history ?st)) = 168" "list_all isfinite (concat (history ?st))"
    using inv concat_rows [of "history ?st"] by (auto simp: t60_inv_def)
  show ?thesis
  proof (cases "t60_read ob")
    case (Inl e)
    then show ?thesis
      using returns_read_iff [of ob] by (simp add: t60_build_eq [OF inv])
  next
    case (Inr i)
    have frames: "length (fst (frames_of i)) = 30" "list_all isfinite (fst (frames_of i)) \<longleftrightarrow> list_all isfinite (command i)"
      using t60_read_ok [OF Inr] by (simp_all add: frames_lengths)
    show ?thesis
      using Inr returns_read_iff [of ob] by (simp add: t60_build_eq [OF inv] frames rows del: length_concat)
  qed
qed

text \<open>C16: The network's history is the specification's.  Whatever is built, committed or reset, in any order
  and with any failures, the eight rows are the last eight frames committed since the last reset, newest
  first, padded with zeros.\<close>

theorem t60_history_refines:
  "history (foldl t60_step t60_init ops) = take 8 (fst (foldl spec_step ([], None) ops) @ replicate 8 zero_frame)"
proof -
  have "implements t60_init ([], None)"
    using t60_init_inv by (simp add: implements_def t60_init_def zero_frame_def)
  then have "implements (foldl t60_step t60_init ops) (foldl spec_step ([], None) ops)"
    by (induction ops rule: rev_induct) (simp_all add: implements_step)
  then show ?thesis
    by (simp add: implements_def)
qed

text \<open>Every decoded action is eight finite values in \<open>[-1, 1]\<close>, unchanged.\<close>

lemma decode_Inr:
  "decode_thruster_action vs = Inr act \<longleftrightarrow>
     act = vs \<and> length vs = 8 \<and> list_all (\<lambda>v. \<exists>x. v = Fin x \<and> - 1 \<le> x \<and> x \<le> 1) vs"
proof -
  have "isfinite v \<and> flt_le (Fin (- 1)) v \<and> flt_le v (Fin 1) \<longleftrightarrow> (\<exists>x. v = Fin x \<and> - 1 \<le> x \<and> x \<le> 1)" for v
    by (cases v) auto
  then show ?thesis
    by (auto simp: decode_thruster_action_def)
qed

section \<open>Freshness\<close>

lemma fresh_entries_names: "set (map fst (fresh_entries seen ns)) = set ns - set seen"
  by (induction seen ns rule: fresh_entries.induct) auto

lemma fresh_entries_distinct: "distinct (map fst (fresh_entries seen ns))"
proof (induction seen ns rule: fresh_entries.induct)
  case (2 seen n ns)
  then show ?case
    using fresh_entries_names [of "n # seen" ns] by auto
qed simp

lemma builder_missing_iff:
  "name \<in> set (builder_missing b now) \<longleftrightarrow>
     (\<exists>s. (name, s) \<in> set (last_seen_ns b) \<and> (s = None \<or> (\<exists>t. s = Some t \<and> now - t > max_age_ns b)))"
  by (force simp: builder_missing_def split: option.splits)

end
