(* ===== verification/Task_Catalog.thy ===== *)
theory Task_Catalog
  imports Ros_Interface "HOL-Library.List_Lexorder" "HOL-Library.Char_ord" "HOL-Library.Sublist"
begin

text \<open>
  The loader of managed tasks and of the recording configuration,
  \<^verbatim>\<open>robotcore_runtime/task_catalog.py\<close>.  PyYAML and SHA-256 are not part of the program: they
  are the arguments \<open>yaml_load\<close> (what \<^verbatim>\<open>yaml.load\<close> does with the bytes of a file) and
  \<open>sha256\<close>.  The program's own mapping constructor, which PyYAML calls for every mapping, is
  modelled over an arbitrary \<open>construct_object\<close>.  The text Python prints for a float is the argument
  \<open>float_str\<close>; it matters only for mapping keys.
\<close>

section \<open>YAML values\<close>

text \<open>
  What the safe loader builds.  \<open>YOther h s\<close> is any other value (a date, bytes, a set): whether it is
  hashable, and its text.
\<close>

datatype yaml =
    YNull
  | YBool bool
  | YInt int
  | YFloat pyfloat
  | YStr string
  | YList "yaml list"
  | YMap "(yaml \<times> yaml) list"
  | YOther bool string

text \<open>Python equality of dictionary keys: booleans and numbers compare by value.\<close>

fun key_number :: "yaml \<Rightarrow> pyfloat option" where
  "key_number (YBool b) = Some (Fin (of_bool b))"
| "key_number (YInt n) = Some (Fin (real_of_int n))"
| "key_number (YFloat v) = Some v"
| "key_number _ = None"

definition key_eq :: "yaml \<Rightarrow> yaml \<Rightarrow> bool" where
  "key_eq a b =
     (case (key_number a, key_number b) of
        (Some x, Some y) \<Rightarrow> x = y \<and> x \<noteq> NaN
      | (None, None) \<Rightarrow> a = b
      | _ \<Rightarrow> False)"

fun hashable :: "yaml \<Rightarrow> bool" where
  "hashable (YList _) = False"
| "hashable (YMap _) = False"
| "hashable (YOther h _) = h"
| "hashable _ = True"

definition decimal :: "int \<Rightarrow> string" where
  "decimal n = (if n < 0 then CHR ''-'' # show_nat (nat (- n)) else show_nat (nat n))"

text \<open>\<^verbatim>\<open>str(value)\<close>; of a list or mapping only the opening bracket is kept.\<close>

fun py_str :: "(pyfloat \<Rightarrow> string) \<Rightarrow> yaml \<Rightarrow> string" where
  "py_str float_str YNull = ''None''"
| "py_str float_str (YBool b) = (if b then ''True'' else ''False'')"
| "py_str float_str (YInt n) = decimal n"
| "py_str float_str (YFloat v) = float_str v"
| "py_str float_str (YStr s) = s"
| "py_str float_str (YList _) = ''[''"
| "py_str float_str (YMap _) = ''{''"
| "py_str float_str (YOther h s) = s"

section \<open>Loading\<close>

text \<open>\<^verbatim>\<open>_construct_unique_mapping\<close>: the loop over the pairs of a mapping node.\<close>

fun construct_unique_mapping ::
  "(pyfloat \<Rightarrow> string) \<Rightarrow> ('n \<Rightarrow> exc + yaml) \<Rightarrow> (yaml \<times> yaml) list \<Rightarrow> ('n \<times> 'n) list \<Rightarrow> exc + (yaml \<times> yaml) list" where
  "construct_unique_mapping fs construct_object mapping [] = Inr mapping"
| "construct_unique_mapping fs construct_object mapping ((key_node, value_node) # ps) =
     ebind (construct_object key_node) (\<lambda>key.
       if \<not> hashable key then Inl (TypeError ''unhashable type'')
       else if list_ex (\<lambda>p. key_eq (fst p) key) mapping then Inl (ValueError (''duplicate YAML key: '' @ py_str fs key))
       else ebind (construct_object value_node) (\<lambda>v.
         construct_unique_mapping fs construct_object (mapping @ [(key, v)]) ps))"

text \<open>
  What loading a file may do: the bytes do not decode or parse (\<^verbatim>\<open>UnicodeDecodeError\<close>,
  \<^verbatim>\<open>YAMLError\<close>), a constructor raises, or a value is built.
\<close>

datatype yaml_outcome = Malformed string | Raised exc | Document yaml

definition load_mapping ::
  "(string \<Rightarrow> yaml_outcome) \<Rightarrow> (string \<Rightarrow> string) \<Rightarrow> string \<Rightarrow> string option \<Rightarrow> exc + (yaml \<times> yaml) list \<times> string" where
  "load_mapping yaml_load sha256 path file =
     (case file of
        None \<Rightarrow> Inl (OSError path)
      | Some raw \<Rightarrow>
          (case yaml_load raw of
             Malformed msg \<Rightarrow> Inl (ValueError (''invalid YAML in '' @ path @ '': '' @ msg))
           | Raised e \<Rightarrow> Inl e
           | Document (YMap m) \<Rightarrow> Inr (m, sha256 raw)
           | Document _ \<Rightarrow> Inl (ValueError (''YAML document must be a mapping: '' @ path))))"

text \<open>\<^verbatim>\<open>mapping.get(name)\<close> for a text key, with \<^verbatim>\<open>None\<close> when it is missing.\<close>

definition dict_find :: "(yaml \<times> yaml) list \<Rightarrow> string \<Rightarrow> yaml option" where
  "dict_find m name = map_of m (YStr name)"

definition dict_get :: "(yaml \<times> yaml) list \<Rightarrow> string \<Rightarrow> yaml" where
  "dict_get m name = (case dict_find m name of None \<Rightarrow> YNull | Some v \<Rightarrow> v)"

fun key_text :: "yaml \<Rightarrow> string option" where
  "key_text (YStr s) = Some s"
| "key_text _ = None"

text \<open>An unknown key that is not text makes the error message itself raise.\<close>

definition exact_keys :: "(yaml \<times> yaml) list \<Rightarrow> string list \<Rightarrow> string \<Rightarrow> exc + unit" where
  "exact_keys m allowed label =
     (let unknown = filter (\<lambda>k. k \<notin> YStr ` set allowed) (map fst m) in
      if unknown = [] then Inr ()
      else if list_ex (\<lambda>k. key_text k = None) unknown then Inl (TypeError ''sequence item: expected str instance'')
      else Inl (ValueError (label @ '' contains unknown keys: '' @ py_join '', '' (sort (map (\<lambda>k. the (key_text k)) unknown)))))"

text \<open>The pattern \<^verbatim>\<open>[a-z0-9][a-z0-9_-]{0,63}\Z\<close>.\<close>

definition lower_or_digit :: "char \<Rightarrow> bool" where
  "lower_or_digit c = (let n = of_char c :: nat in (97 \<le> n \<and> n \<le> 122) \<or> (48 \<le> n \<and> n \<le> 57))"

fun is_identifier :: "string \<Rightarrow> bool" where
  "is_identifier [] = False"
| "is_identifier (c # cs) = (lower_or_digit c \<and> length cs \<le> 63
     \<and> list_all (\<lambda>d. lower_or_digit d \<or> d = CHR ''_'' \<or> d = CHR ''-'') cs)"

definition valid_identifier :: "(pyfloat \<Rightarrow> string) \<Rightarrow> yaml \<Rightarrow> string \<Rightarrow> exc + string" where
  "valid_identifier fs v label =
     (let text = py_str fs v in
      if is_identifier text then Inr text else Inl (ValueError (label @ '' must match [a-z0-9][a-z0-9_-]{0,63}'')))"

text \<open>\<^verbatim>\<open>float(n)\<close> raises \<^verbatim>\<open>OverflowError\<close> from half an ulp above the largest double.\<close>

definition float_of_int :: "int \<Rightarrow> exc + real" where
  "float_of_int n =
     (if 2 ^ 1024 - 2 ^ 970 \<le> \<bar>n\<bar> then Inl (OverflowError ''int too large to convert to float'') else Inr (real_of_int n))"

text \<open>\<^verbatim>\<open>int(x)\<close> of a float.\<close>

fun int_of_float :: "pyfloat \<Rightarrow> exc + int" where
  "int_of_float (Fin x) = Inr (if 0 \<le> x then \<lfloor>x\<rfloor> else \<lceil>x\<rceil>)"
| "int_of_float NaN = Inl (ValueError ''cannot convert float NaN to integer'')"
| "int_of_float _ = Inl (OverflowError ''cannot convert float infinity to integer'')"

fun finite_number :: "yaml \<Rightarrow> string \<Rightarrow> exc + real" where
  "finite_number (YInt n) label = float_of_int n"
| "finite_number (YFloat v) label =
     (if isfinite v then Inr (fval v) else Inl (ValueError (label @ '' must be finite'')))"
| "finite_number _ label = Inl (ValueError (label @ '' must be a number''))"

section \<open>The task catalogue\<close>

definition CONTROL_MODES :: "string list" where
  "CONTROL_MODES = [''altitude_hold'', ''station_hold'', ''station_hold_fast'', ''rl_policy'']"

definition STRING_TRAJECTORY_FIELDS :: "string list" where
  "STRING_TRAJECTORY_FIELDS = [''trajectory_type'', ''attitude_mode'']"

definition BOOL_TRAJECTORY_FIELDS :: "string list" where
  "BOOL_TRAJECTORY_FIELDS = [''relative_to_initial_pose'']"

definition NUMBER_TRAJECTORY_FIELDS :: "string list" where
  "NUMBER_TRAJECTORY_FIELDS =
     [''center_x'', ''center_y'', ''center_z'', ''hold_before_motion_s'', ''amp_x'', ''amp_y'', ''amp_z'', ''radius_m'',
      ''period_s'', ''trajectory_speed_mps'', ''trajectory_ramp_s'', ''move_duration_s'', ''manual_vertical_speed_mps'',
      ''station_linear_input_gain_mps'', ''station_lateral_input_gain_mps'', ''station_yaw_input_gain_rps'']"

definition TRAJECTORY_FIELDS :: "string list" where
  "TRAJECTORY_FIELDS = STRING_TRAJECTORY_FIELDS @ BOOL_TRAJECTORY_FIELDS @ NUMBER_TRAJECTORY_FIELDS"

datatype field_value = FStr string | FBool bool | FNum real

type_synonym scenario = "(string \<times> field_value) list"

record task =
  task_schema :: int
  task_kind :: string
  task_name :: string
  task_label :: string
  task_scenario :: string
  trajectory_name :: string
  task_control_mode :: string
  controller :: string
  duration_s :: real
  run_until_stopped :: bool
  trajectory :: scenario

text \<open>Assignment to a dictionary: an existing key keeps its place.\<close>

fun dict_set :: "string \<Rightarrow> 'a \<Rightarrow> (string \<times> 'a) list \<Rightarrow> (string \<times> 'a) list" where
  "dict_set k v [] = [(k, v)]"
| "dict_set k v ((k', v') # ps) = (if k = k' then (k, v) # ps else (k', v') # dict_set k v ps)"

lemma map_of_dict_set: "map_of (dict_set k v m) = (map_of m)(k \<mapsto> v)"
  by (induction k v m rule: dict_set.induct) auto

lemma keys_dict_set: "fst ` set (dict_set k v m) = insert k (fst ` set m)"
  by (induction k v m rule: dict_set.induct) auto

lemma distinct_dict_set: "distinct (map fst m) \<Longrightarrow> distinct (map fst (dict_set k v m))"
proof (induction k v m rule: dict_set.induct)
  case (2 k v k' v' ps)
  then show ?case
    using keys_dict_set [of k v ps] by auto
qed simp

definition scenario_field :: "string \<Rightarrow> string \<Rightarrow> yaml \<Rightarrow> exc + field_value" where
  "scenario_field name key v =
     (let label = ''scenario '' @ name @ ''.'' @ key in
      if key \<in> set STRING_TRAJECTORY_FIELDS then
        (case v of YStr s \<Rightarrow> if s = '''' then Inl (ValueError (label @ '' must be a non-empty string'')) else Inr (FStr s)
         | _ \<Rightarrow> Inl (ValueError (label @ '' must be a non-empty string'')))
      else if key \<in> set BOOL_TRAJECTORY_FIELDS then
        (case v of YBool b \<Rightarrow> Inr (FBool b) | _ \<Rightarrow> Inl (ValueError (label @ '' must be a boolean'')))
      else ebind (finite_number v label) (\<lambda>x. Inr (FNum x)))"

text \<open>The keys have passed \<open>exact_keys\<close>, so each is text.\<close>

fun scenario_fields :: "string \<Rightarrow> (yaml \<times> yaml) list \<Rightarrow> exc + scenario" where
  "scenario_fields name [] = Inr []"
| "scenario_fields name ((k, v) # ps) =
     ebind (scenario_field name (the (key_text k)) v) (\<lambda>x.
     ebind (scenario_fields name ps) (\<lambda>xs. Inr ((the (key_text k), x) # xs)))"

definition load_scenario :: "(pyfloat \<Rightarrow> string) \<Rightarrow> yaml \<Rightarrow> yaml \<Rightarrow> exc + string \<times> scenario" where
  "load_scenario fs raw_name raw =
     ebind (valid_identifier fs raw_name ''scenario id'') (\<lambda>name.
     case raw of
       YMap m \<Rightarrow>
         ebind (exact_keys m TRAJECTORY_FIELDS (''scenario '' @ name)) (\<lambda>_.
         if m = [] then Inl (ValueError (''scenario '' @ name @ '' must not be empty''))
         else ebind (scenario_fields name m) (\<lambda>sc.
         if map_of sc ''trajectory_type'' = None \<or> map_of sc ''attitude_mode'' = None
         then Inl (ValueError (''scenario '' @ name @ '' must declare trajectory_type and attitude_mode''))
         else Inr (name, sc)))
     | _ \<Rightarrow> Inl (ValueError (''scenario '' @ name @ '' must be a mapping'')))"

fun load_scenarios :: "(pyfloat \<Rightarrow> string) \<Rightarrow> (string \<times> scenario) list \<Rightarrow> (yaml \<times> yaml) list \<Rightarrow> exc + (string \<times> scenario) list" where
  "load_scenarios fs acc [] = Inr acc"
| "load_scenarios fs acc ((k, v) # ps) =
     ebind (load_scenario fs k v) (\<lambda>(name, sc). load_scenarios fs (dict_set name sc acc) ps)"

definition trajectory_type_of :: "scenario \<Rightarrow> string" where
  "trajectory_type_of sc = (case map_of sc ''trajectory_type'' of Some (FStr s) \<Rightarrow> s | _ \<Rightarrow> '''')"

definition TASK_KEYS :: "string list" where
  "TASK_KEYS = [''label'', ''scenario'', ''control_mode'', ''duration_s'', ''run_until_stopped'']"

definition task_duration :: "real \<Rightarrow> (yaml \<times> yaml) list \<Rightarrow> string \<Rightarrow> exc + real" where
  "task_duration duration_default m task_id =
     (let label = ''task '' @ task_id @ ''.duration_s'' in
      ebind (finite_number (case dict_find m ''duration_s'' of None \<Rightarrow> YFloat (Fin duration_default) | Some v \<Rightarrow> v) label)
        (\<lambda>duration. if duration \<le> 0 then Inl (ValueError (label @ '' must be positive'')) else Inr duration))"

definition task_run :: "bool \<Rightarrow> (yaml \<times> yaml) list \<Rightarrow> string \<Rightarrow> exc + bool" where
  "task_run run_default m task_id =
     (case (case dict_find m ''run_until_stopped'' of None \<Rightarrow> YBool run_default | Some v \<Rightarrow> v) of
        YBool run \<Rightarrow> Inr run
      | _ \<Rightarrow> Inl (ValueError (''task '' @ task_id @ ''.run_until_stopped must be a boolean'')))"

definition make_task :: "string \<Rightarrow> string \<Rightarrow> string \<Rightarrow> scenario \<Rightarrow> string \<Rightarrow> real \<Rightarrow> bool \<Rightarrow> task" where
  "make_task task_id label scenario_id sc mode duration run =
     \<lparr>task_schema = 1, task_kind = ''tracking_task'', task_name = task_id, task_label = py_strip label,
      task_scenario = scenario_id,
      trajectory_name = (if trajectory_type_of sc = ''hold'' then ''none'' else scenario_id),
      task_control_mode = mode, controller = (if mode = ''rl_policy'' then ''rl'' else ''pid''),
      duration_s = duration, run_until_stopped = run, trajectory = sc\<rparr>"

definition resolve_task ::
  "(pyfloat \<Rightarrow> string) \<Rightarrow> real \<Rightarrow> bool \<Rightarrow> (string \<times> scenario) list \<Rightarrow> yaml \<Rightarrow> yaml \<Rightarrow> exc + string \<times> task" where
  "resolve_task fs duration_default run_default scenarios raw_id raw =
     ebind (valid_identifier fs raw_id ''task id'') (\<lambda>task_id.
     let fail = (\<lambda>msg. Inl (ValueError (''task '' @ task_id @ msg))) in
     case raw of
       YMap m \<Rightarrow>
         ebind (exact_keys m TASK_KEYS (''task '' @ task_id)) (\<lambda>_.
         case dict_get m ''label'' of
           YStr label \<Rightarrow>
             if py_strip label = '''' then fail ''.label must be a non-empty string''
             else (case dict_get m ''scenario'' of
               YStr scenario_id \<Rightarrow>
                 (case map_of scenarios scenario_id of
                    None \<Rightarrow> fail '' references an unknown scenario''
                  | Some sc \<Rightarrow>
                      if \<not> hashable (dict_get m ''control_mode'') then Inl (TypeError ''unhashable type'')
                      else if dict_get m ''control_mode'' \<notin> YStr ` set CONTROL_MODES then fail '' has unsupported control_mode''
                      else
                        let mode = the (key_text (dict_get m ''control_mode'')) in
                        if mode = ''altitude_hold'' \<and> trajectory_type_of sc \<noteq> ''hold''
                        then fail '' altitude_hold requires a hold scenario''
                        else ebind (task_duration duration_default m task_id) (\<lambda>duration.
                             ebind (task_run run_default m task_id) (\<lambda>run.
                             Inr (task_id, make_task task_id label scenario_id sc mode duration run))))
               | _ \<Rightarrow> fail '' references an unknown scenario'')
         | _ \<Rightarrow> fail ''.label must be a non-empty string'')
     | _ \<Rightarrow> fail '' must be a mapping'')"

fun resolve_tasks ::
  "(pyfloat \<Rightarrow> string) \<Rightarrow> real \<Rightarrow> bool \<Rightarrow> (string \<times> scenario) list \<Rightarrow> (string \<times> task) list \<Rightarrow> (yaml \<times> yaml) list \<Rightarrow> exc + (string \<times> task) list" where
  "resolve_tasks fs dd rd scs acc [] = Inr acc"
| "resolve_tasks fs dd rd scs acc ((k, v) # ps) =
     ebind (resolve_task fs dd rd scs k v) (\<lambda>(task_id, t). resolve_tasks fs dd rd scs (dict_set task_id t acc) ps)"

text \<open>\<^verbatim>\<open>document.get("schema_version") != 1\<close>, by Python equality.\<close>

definition schema_is_one :: "(yaml \<times> yaml) list \<Rightarrow> bool" where
  "schema_is_one doc \<longleftrightarrow> key_eq (dict_get doc ''schema_version'') (YInt 1)"

definition load_defaults :: "(yaml \<times> yaml) list \<Rightarrow> exc + real \<times> bool" where
  "load_defaults m =
     ebind (exact_keys m [''duration_s'', ''run_until_stopped''] ''task defaults'') (\<lambda>_.
     ebind (finite_number (dict_get m ''duration_s'') ''defaults.duration_s'') (\<lambda>duration.
     if duration \<le> 0 then Inl (ValueError ''defaults.duration_s must be positive'')
     else (case dict_get m ''run_until_stopped'' of
         YBool b \<Rightarrow> Inr (duration, b)
       | _ \<Rightarrow> Inl (ValueError ''defaults.run_until_stopped must be a boolean''))))"

fun nonempty_map :: "yaml \<Rightarrow> (yaml \<times> yaml) list option" where
  "nonempty_map (YMap (p # ps)) = Some (p # ps)"
| "nonempty_map _ = None"

record catalog =
  catalog_sha256 :: string
  catalog_tasks :: "(string \<times> task) list"

definition TaskCatalog ::
  "(pyfloat \<Rightarrow> string) \<Rightarrow> (string \<Rightarrow> yaml_outcome) \<Rightarrow> (string \<Rightarrow> string) \<Rightarrow> string \<Rightarrow> string option \<Rightarrow> exc + catalog" where
  "TaskCatalog fs yaml_load sha256 path file =
     ebind (load_mapping yaml_load sha256 path file) (\<lambda>(doc, digest).
     ebind (exact_keys doc [''schema_version'', ''defaults'', ''scenarios'', ''tasks''] ''tracking task catalog'') (\<lambda>_.
     if \<not> schema_is_one doc then Inl (ValueError ''tracking task catalog schema_version must be 1'')
     else case dict_get doc ''defaults'' of
         YMap defaults \<Rightarrow>
           (case nonempty_map (dict_get doc ''scenarios'') of
              None \<Rightarrow> Inl (ValueError ''tracking task scenarios must be a non-empty mapping'')
            | Some scenarios \<Rightarrow>
                (case nonempty_map (dict_get doc ''tasks'') of
                   None \<Rightarrow> Inl (ValueError ''tracking tasks must be a non-empty mapping'')
                 | Some tasks \<Rightarrow>
                     ebind (load_defaults defaults) (\<lambda>(duration, run).
                     ebind (load_scenarios fs [] scenarios) (\<lambda>scs.
                     ebind (resolve_tasks fs duration run scs [] tasks) (\<lambda>resolved.
                     Inr \<lparr>catalog_sha256 = digest, catalog_tasks = resolved\<rparr>)))))
       | _ \<Rightarrow> Inl (ValueError ''tracking task defaults must be a mapping'')))"

definition catalog_task :: "catalog \<Rightarrow> string \<Rightarrow> exc + task" where
  "catalog_task c name =
     (if \<not> is_identifier name then Inl (ValueError ''task id must match [a-z0-9][a-z0-9_-]{0,63}'')
      else case map_of (catalog_tasks c) name of
          Some t \<Rightarrow> Inr t
        | None \<Rightarrow> Inl (KeyError (''unknown managed tracking task: '' @ name)))"

definition summaries :: "catalog \<Rightarrow> (string \<times> string) list" where
  "summaries c = map (\<lambda>(task_id, t). (task_id, task_label t)) (catalog_tasks c)"

section \<open>The recording configuration\<close>

definition EVENT_LOG_STREAMS :: "string list" where
  "EVENT_LOG_STREAMS = [''control_authority_status'', ''pid_status'', ''thruster_cmd'', ''tracking_status'', ''trajectory_target'']"

fun load_rates :: "(yaml \<times> yaml) list \<Rightarrow> string list \<Rightarrow> exc + (string \<times> real) list" where
  "load_rates m [] = Inr []"
| "load_rates m (stream # rest) =
     (let label = ''recording event_log.stream_rates_hz.'' @ stream in
      ebind (finite_number (dict_get m stream) label) (\<lambda>rate.
      if \<not> (0 < rate \<and> rate \<le> 1000) then Inl (ValueError (label @ '' must be within (0, 1000]''))
      else ebind (load_rates m rest) (\<lambda>rates. Inr ((stream, rate) # rates))))"

fun load_topics :: "string list \<Rightarrow> yaml list \<Rightarrow> exc + string list" where
  "load_topics topics [] = Inr topics"
| "load_topics topics (v # vs) =
     (case v of
        YStr s \<Rightarrow>
          if s = '''' \<or> hd s \<noteq> CHR ''/'' \<or> s = ''/'' then Inl (ValueError ''every recording topic must be an absolute ROS topic name'')
          else if s \<in> set topics then Inl (ValueError (''duplicate recording topic: '' @ s))
          else load_topics (topics @ [s]) vs
      | _ \<Rightarrow> Inl (ValueError ''every recording topic must be an absolute ROS topic name''))"

definition load_event_log :: "(yaml \<times> yaml) list \<Rightarrow> exc + real \<times> (string \<times> real) list" where
  "load_event_log m =
     ebind (exact_keys m [''flush_interval_s'', ''stream_rates_hz''] ''recording event_log'') (\<lambda>_.
     ebind (finite_number (dict_get m ''flush_interval_s'') ''recording event_log.flush_interval_s'') (\<lambda>flush.
     if \<not> (1 / 20 \<le> flush \<and> flush \<le> 10)
     then Inl (ValueError ''recording event_log.flush_interval_s must be within [0.05, 10]'')
     else (case dict_get m ''stream_rates_hz'' of
         YMap rates \<Rightarrow>
           ebind (exact_keys rates EVENT_LOG_STREAMS ''recording event_log.stream_rates_hz'') (\<lambda>_.
           let missing = filter (\<lambda>s. dict_find rates s = None) EVENT_LOG_STREAMS in
           if missing \<noteq> [] then Inl (ValueError (''recording event_log.stream_rates_hz is missing: '' @ py_join '', '' missing))
           else ebind (load_rates rates EVENT_LOG_STREAMS) (\<lambda>rs. Inr (flush, rs)))
       | _ \<Rightarrow> Inl (ValueError ''recording event_log.stream_rates_hz must be a mapping''))))"

definition load_recording_config ::
  "(string \<Rightarrow> yaml_outcome) \<Rightarrow> (string \<Rightarrow> string) \<Rightarrow> string \<Rightarrow> string option
     \<Rightarrow> exc + string list \<times> (string \<times> real) list \<times> real \<times> string" where
  "load_recording_config yaml_load sha256 path file =
     ebind (load_mapping yaml_load sha256 path file) (\<lambda>(doc, digest).
     ebind (exact_keys doc [''schema_version'', ''event_log'', ''topics''] ''recording configuration'') (\<lambda>_.
     if \<not> schema_is_one doc then Inl (ValueError ''recording schema_version must be 1'')
     else case dict_get doc ''event_log'' of
         YMap event_log \<Rightarrow>
           ebind (load_event_log event_log) (\<lambda>(flush, rates).
           case dict_get doc ''topics'' of
             YList (v # vs) \<Rightarrow> ebind (load_topics [] (v # vs)) (\<lambda>topics. Inr (topics, rates, flush, digest))
           | _ \<Rightarrow> Inl (ValueError ''recording topics must be a non-empty list''))
       | _ \<Rightarrow> Inl (ValueError ''recording event_log must be a mapping'')))"

section \<open>What an accepted catalogue promises\<close>

text \<open>The specification a consumer of the catalogue relies on.\<close>

definition typed_field :: "string \<times> field_value \<Rightarrow> bool" where
  "typed_field p =
     (case snd p of
        FStr s \<Rightarrow> fst p \<in> set STRING_TRAJECTORY_FIELDS \<and> s \<noteq> ''''
      | FBool b \<Rightarrow> fst p \<in> set BOOL_TRAJECTORY_FIELDS
      | FNum x \<Rightarrow> fst p \<in> set NUMBER_TRAJECTORY_FIELDS)"

definition valid_scenario :: "scenario \<Rightarrow> bool" where
  "valid_scenario sc \<longleftrightarrow> list_all typed_field sc
     \<and> map_of sc ''trajectory_type'' \<noteq> None \<and> map_of sc ''attitude_mode'' \<noteq> None"

definition valid_task :: "string \<times> task \<Rightarrow> bool" where
  "valid_task p =
     (let t = snd p; hold = (trajectory_type_of (trajectory t) = ''hold'') in
      is_identifier (fst p) \<and> task_name t = fst p
      \<and> task_label t \<noteq> '''' \<and> py_strip (task_label t) = task_label t
      \<and> is_identifier (task_scenario t) \<and> valid_scenario (trajectory t)
      \<and> trajectory_name t = (if hold then ''none'' else task_scenario t)
      \<and> task_control_mode t \<in> set CONTROL_MODES
      \<and> (controller t = (if task_control_mode t = ''rl_policy'' then ''rl'' else ''pid''))
      \<and> (task_control_mode t = ''altitude_hold'' \<longrightarrow> hold)
      \<and> 0 < duration_s t)"

subsection \<open>Dictionaries\<close>

lemma dict_set_keys: "fst ` set (dict_set k v ps) = insert k (fst ` set ps)"
proof (induction ps)
  case (Cons p ps)
  then show ?case
    by (cases p) (auto simp del: image_iff simp: image_insert)
qed simp

lemma dict_set_distinct: "distinct (map fst ps) \<Longrightarrow> distinct (map fst (dict_set k v ps))"
proof (induction ps)
  case (Cons p ps)
  then show ?case
    using dict_set_keys [of k v ps] by (cases p) auto
qed simp

lemma dict_set_all: "list_all P ps \<Longrightarrow> P (k, v) \<Longrightarrow> list_all P (dict_set k v ps)"
  by (induction ps) auto

lemma dict_set_nonempty [simp]: "dict_set k v ps \<noteq> []"
  by (induction k v ps rule: dict_set.induct) auto

lemma nonempty_map_conv: "nonempty_map v = Some m \<longleftrightarrow> v = YMap m \<and> m \<noteq> []"
  by (cases v rule: nonempty_map.cases) auto

lemma key_eq_text: "key_eq (YStr s) k \<longleftrightarrow> k = YStr s"
  by (cases k) (auto simp: key_eq_def)

lemma key_eq_sym: "key_eq a b \<longleftrightarrow> key_eq b a"
  by (auto simp: key_eq_def split: option.splits)

subsection \<open>Stripping\<close>

lemma dropWhile_stripped: "s \<noteq> [] \<Longrightarrow> \<not> P (hd s) \<Longrightarrow> dropWhile P s = s"
  by (cases s) auto

lemma py_strip_ends:
  assumes "py_strip s \<noteq> []"
  shows "\<not> is_space (hd (py_strip s))" and "\<not> is_space (last (py_strip s))"
proof -
  let ?l = "dropWhile is_space s"
  let ?t = "dropWhile is_space (rev ?l)"
  have t: "py_strip s = rev ?t" and ne: "?t \<noteq> []"
    using assms unfolding py_strip_def by (auto simp del: dropWhile_eq_Nil_conv)
  show "\<not> is_space (last (py_strip s))"
    using hd_dropWhile [OF ne] by (simp add: t last_rev ne)
  have "suffix ?t (rev ?l)"
    by (rule suffix_dropWhile)
  then have "last ?t = last (rev ?l)"
    using ne by (metis suffix_def last_appendR)
  moreover have "?l \<noteq> []"
    using ne by (auto simp del: dropWhile_eq_Nil_conv)
  ultimately show "\<not> is_space (hd (py_strip s))"
    using hd_dropWhile [OF \<open>?l \<noteq> []\<close>] by (simp add: t hd_rev last_rev ne)
qed

lemma py_strip_idem [simp]: "py_strip (py_strip s) = py_strip s"
proof (cases "py_strip s = []")
  case False
  then have "dropWhile is_space (py_strip s) = py_strip s"
    and "dropWhile is_space (rev (py_strip s)) = rev (py_strip s)"
    using py_strip_ends [OF False] by (auto intro!: dropWhile_stripped simp: hd_rev)
  then show ?thesis
    by (simp add: py_strip_def [of "py_strip s"])
qed (simp add: py_strip_def [of "[]"])

subsection \<open>The loops keep the specification\<close>

lemma exact_keys_Inr: "exact_keys m allowed label = Inr () \<longleftrightarrow> fst ` set m \<subseteq> YStr ` set allowed"
  by (auto simp: exact_keys_def Let_def filter_empty_conv)

lemma valid_identifier_Inr: "valid_identifier fs v label = Inr s \<longleftrightarrow> s = py_str fs v \<and> is_identifier s"
  by (auto simp: valid_identifier_def Let_def)

lemma scenario_field_typed:
  assumes "scenario_field name key v = Inr x" "key \<in> set TRAJECTORY_FIELDS"
  shows "typed_field (key, x)"
  using assms
  by (auto simp: scenario_field_def typed_field_def TRAJECTORY_FIELDS_def Let_def ebind_Inr_conv
      split: if_splits yaml.splits)

lemma scenario_fields_typed:
  "scenario_fields name m = Inr sc \<Longrightarrow> fst ` set m \<subseteq> YStr ` set TRAJECTORY_FIELDS \<Longrightarrow> list_all typed_field sc"
proof (induction m arbitrary: sc)
  case (Cons p m)
  obtain k v where p: "p = (k, v)" by (cases p)
  then obtain s where s: "k = YStr s" "s \<in> set TRAJECTORY_FIELDS"
    using Cons.prems(2) by auto
  with Cons show ?case
    by (auto simp: p ebind_Inr_conv intro: scenario_field_typed)
qed simp

lemma load_scenario_valid:
  assumes "load_scenario fs raw_name raw = Inr (name, sc)"
  shows "is_identifier name \<and> valid_scenario sc"
proof -
  obtain m where "raw = YMap m"
    using assms by (cases raw) (auto simp: load_scenario_def ebind_Inr_conv)
  with assms show ?thesis
    by (auto simp: load_scenario_def ebind_Inr_conv valid_identifier_Inr exact_keys_Inr valid_scenario_def
        split: if_splits intro: scenario_fields_typed)
qed

lemma load_scenarios_valid:
  assumes "load_scenarios fs acc ps = Inr scs"
    and "list_all (\<lambda>(name, sc). is_identifier name \<and> valid_scenario sc) acc"
  shows "list_all (\<lambda>(name, sc). is_identifier name \<and> valid_scenario sc) scs"
  using assms
proof (induction ps arbitrary: acc)
  case (Cons p ps)
  obtain k v where p: "p = (k, v)" by (cases p)
  then obtain name sc where n: "load_scenario fs k v = Inr (name, sc)"
    and rest: "load_scenarios fs (dict_set name sc acc) ps = Inr scs"
    using Cons.prems(1) by (auto simp: ebind_Inr_conv)
  show ?case
    using Cons.IH [OF rest] Cons.prems(2) load_scenario_valid [OF n] by (simp add: dict_set_all)
qed simp

abbreviation valid_scenarios :: "(string \<times> scenario) list \<Rightarrow> bool" where
  "valid_scenarios scs \<equiv> list_all (\<lambda>(name, sc). is_identifier name \<and> valid_scenario sc) scs"

lemma known_scenario:
  "valid_scenarios scs \<Longrightarrow> map_of scs k = Some sc \<Longrightarrow> is_identifier k \<and> valid_scenario sc"
  by (auto simp: list_all_iff dest!: map_of_SomeD)

lemma resolve_task_valid:
  assumes ok: "resolve_task fs dd rd scs raw_id raw = Inr (task_id, t)" and scs: "valid_scenarios scs"
  shows "valid_task (task_id, t)"
proof -
  obtain m where m: "raw = YMap m"
    using ok by (cases raw) (auto simp: resolve_task_def ebind_Inr_conv Let_def)
  obtain lbl where lbl: "dict_get m ''label'' = YStr lbl"
    using ok by (cases "dict_get m ''label''") (auto simp: m resolve_task_def ebind_Inr_conv Let_def)
  have lne: "py_strip lbl \<noteq> ''''"
    using ok by (auto simp: m lbl resolve_task_def ebind_Inr_conv Let_def split: if_split_asm)
  obtain sid where sid: "dict_get m ''scenario'' = YStr sid"
    using ok lne by (cases "dict_get m ''scenario''") (auto simp: m lbl resolve_task_def ebind_Inr_conv Let_def)
  obtain sc where sc: "map_of scs sid = Some sc"
    using ok lne by (cases "map_of scs sid") (auto simp: m lbl sid resolve_task_def ebind_Inr_conv Let_def)
  obtain mode where mode: "dict_get m ''control_mode'' = YStr mode" "mode \<in> set CONTROL_MODES"
    using ok lne by (auto simp: m lbl sid sc resolve_task_def ebind_Inr_conv Let_def split: if_split_asm)
  obtain dur run where "0 < dur" and t: "t = make_task task_id lbl sid sc mode dur run"
    and "mode = ''altitude_hold'' \<longrightarrow> trajectory_type_of sc = ''hold''" "is_identifier task_id"
    using ok lne mode
    by (auto simp: m lbl sid sc resolve_task_def task_duration_def ebind_Inr_conv Let_def valid_identifier_Inr not_le
        split: if_split_asm)
  then show ?thesis
    using lne mode(2) known_scenario [OF scs sc] by (simp add: valid_task_def make_task_def)
qed

lemma resolve_tasks_valid:
  assumes "resolve_tasks fs dd rd scs acc ps = Inr ts" "valid_scenarios scs"
    and "list_all valid_task acc" "distinct (map fst acc)" "acc \<noteq> [] \<or> ps \<noteq> []"
  shows "list_all valid_task ts \<and> distinct (map fst ts) \<and> ts \<noteq> []"
  using assms
proof (induction ps arbitrary: acc)
  case (Cons p ps)
  obtain k v where p: "p = (k, v)" by (cases p)
  then obtain i t where t: "resolve_task fs dd rd scs k v = Inr (i, t)"
    and rest: "resolve_tasks fs dd rd scs (dict_set i t acc) ps = Inr ts"
    using Cons.prems(1) by (auto simp: ebind_Inr_conv)
  show ?case
    using Cons.IH [OF rest] Cons.prems resolve_task_valid [OF t]
    by (simp add: dict_set_all dict_set_distinct)
qed simp

lemma load_mapping_Inr:
  "load_mapping yaml_load sha256 path file = Inr (m, digest) \<longleftrightarrow>
     (\<exists>raw. file = Some raw \<and> yaml_load raw = Document (YMap m) \<and> digest = sha256 raw)"
  by (auto simp: load_mapping_def split: option.splits yaml_outcome.splits yaml.splits)

lemma catalog_parts:
  assumes "TaskCatalog fs yaml_load sha256 path file = Inr c"
  obtains raw doc scenarios tasks scs duration run where
    "file = Some raw" "yaml_load raw = Document (YMap doc)" "catalog_sha256 c = sha256 raw"
    "load_scenarios fs [] scenarios = Inr scs" "tasks \<noteq> []"
    "resolve_tasks fs duration run scs [] tasks = Inr (catalog_tasks c)"
proof -
  obtain doc digest where doc: "load_mapping yaml_load sha256 path file = Inr (doc, digest)"
    using assms by (auto simp: TaskCatalog_def ebind_Inr_conv)
  then obtain raw where raw: "file = Some raw" "yaml_load raw = Document (YMap doc)" "digest = sha256 raw"
    by (auto simp: load_mapping_Inr)
  obtain defaults where d: "dict_get doc ''defaults'' = YMap defaults"
    using assms by (cases "dict_get doc ''defaults''") (auto simp: TaskCatalog_def doc ebind_Inr_conv split: if_split_asm)
  obtain scenarios tasks a b scs ts where "tasks \<noteq> []" "load_scenarios fs [] scenarios = Inr scs"
    "resolve_tasks fs a b scs [] tasks = Inr ts" "c = \<lparr>catalog_sha256 = digest, catalog_tasks = ts\<rparr>"
    using assms
    by (auto simp: TaskCatalog_def doc d ebind_Inr_conv nonempty_map_conv split: if_split_asm option.splits)
  with raw show thesis
    by (intro that) auto
qed

lemma catalog_valid:
  assumes "TaskCatalog fs yaml_load sha256 path file = Inr c"
  shows "list_all valid_task (catalog_tasks c) \<and> distinct (map fst (catalog_tasks c)) \<and> catalog_tasks c \<noteq> []"
  using assms
proof (rule catalog_parts)
  fix raw doc scenarios tasks scs duration run
  assume "load_scenarios fs [] scenarios = Inr scs" "tasks \<noteq> []"
    "resolve_tasks fs duration run scs [] tasks = Inr (catalog_tasks c)"
  then show ?thesis
    using load_scenarios_valid [of fs "[]" scenarios scs] resolve_tasks_valid [of fs duration run scs "[]" tasks] by simp
qed

lemma catalog_digest:
  "TaskCatalog fs yaml_load sha256 path (Some raw) = Inr c \<Longrightarrow> catalog_sha256 c = sha256 raw"
  by (erule catalog_parts) simp

lemma catalog_task_iff:
  assumes "TaskCatalog fs yaml_load sha256 path file = Inr c"
  shows "catalog_task c name = Inr t \<longleftrightarrow> (name, t) \<in> set (catalog_tasks c)"
proof -
  have v: "list_all valid_task (catalog_tasks c)" "distinct (map fst (catalog_tasks c))"
    using catalog_valid [OF assms] by auto
  have "(name, t) \<in> set (catalog_tasks c) \<Longrightarrow> is_identifier name"
    using v(1) by (auto simp: list_all_iff valid_task_def Let_def)
  moreover have "map_of (catalog_tasks c) name = Some t \<longleftrightarrow> (name, t) \<in> set (catalog_tasks c)"
    using v(2) by simp
  ultimately show ?thesis
    by (auto simp: catalog_task_def split: option.splits)
qed

subsection \<open>Unique keys\<close>

lemma construct_unique_mapping_conv:
  "construct_unique_mapping fs (\<lambda>n. Inr (c n)) acc ps = Inr m \<longleftrightarrow>
     list_all (\<lambda>p. hashable (c (fst p))) ps
     \<and> (\<forall>p \<in> set ps. \<forall>q \<in> set acc. \<not> key_eq (fst q) (c (fst p)))
     \<and> sorted_wrt (\<lambda>a b. \<not> key_eq a b) (map (\<lambda>p. c (fst p)) ps)
     \<and> m = acc @ map (\<lambda>(k, v). (c k, c v)) ps"
proof (induction ps arbitrary: acc)
  case (Cons p ps)
  obtain k v where p: "p = (k, v)" by (cases p)
  show ?case
    using Cons.IH [of "acc @ [(c k, c v)]"] by (auto simp: p list_ex_iff)
qed auto

subsection \<open>The recording configuration\<close>

definition absolute_topic :: "string \<Rightarrow> bool" where
  "absolute_topic s \<longleftrightarrow> s \<noteq> '''' \<and> hd s = CHR ''/'' \<and> s \<noteq> ''/''"

lemma load_topics_Inr:
  "load_topics acc vs = Inr ts \<Longrightarrow> distinct acc \<Longrightarrow>
     \<exists>ss. vs = map YStr ss \<and> ts = acc @ ss \<and> distinct ts \<and> list_all absolute_topic ss"
proof (induction vs arbitrary: acc)
  case (Cons v vs)
  obtain s where v: "v = YStr s" and s: "absolute_topic s" "s \<notin> set acc"
    and rest: "load_topics (acc @ [s]) vs = Inr ts"
    using Cons.prems(1) by (cases v) (auto simp: absolute_topic_def split: if_split_asm)
  then obtain ss where "vs = map YStr ss" "ts = acc @ s # ss" "distinct ts" "list_all absolute_topic ss"
    using Cons.IH [OF rest] Cons.prems(2) by auto
  with v s show ?case
    by (intro exI [of _ "s # ss"]) auto
qed simp

lemma load_rates_Inr:
  "load_rates m ss = Inr rates \<Longrightarrow>
     map fst rates = ss \<and> list_all (\<lambda>p. 0 < snd p \<and> snd p \<le> 1000) rates"
  by (induction ss arbitrary: rates) (auto simp: ebind_Inr_conv Let_def split: if_split_asm)

lemma load_event_log_Inr:
  assumes "load_event_log m = Inr (flush, rates)"
  shows "1 / 20 \<le> flush \<and> flush \<le> 10 \<and> map fst rates = EVENT_LOG_STREAMS
    \<and> list_all (\<lambda>p. 0 < snd p \<and> snd p \<le> 1000) rates"
proof -
  obtain rs where "dict_get m ''stream_rates_hz'' = YMap rs"
    using assms by (cases "dict_get m ''stream_rates_hz''") (auto simp: load_event_log_def ebind_Inr_conv split: if_split_asm)
  with assms show ?thesis
    by (auto simp: load_event_log_def ebind_Inr_conv Let_def dest: load_rates_Inr split: if_split_asm)
qed

lemma recording_parts:
  assumes "load_recording_config yaml_load sha256 path file = Inr (topics, rates, flush, digest)"
  obtains raw doc m where
    "file = Some raw" "yaml_load raw = Document (YMap doc)" "digest = sha256 raw"
    "load_event_log m = Inr (flush, rates)" "topics \<noteq> []"
    "dict_get doc ''topics'' = YList (map YStr topics)" "distinct topics" "list_all absolute_topic topics"
proof -
  obtain doc dg where doc: "load_mapping yaml_load sha256 path file = Inr (doc, dg)"
    using assms by (auto simp: load_recording_config_def ebind_Inr_conv)
  obtain m where m: "dict_get doc ''event_log'' = YMap m"
    using assms by (cases "dict_get doc ''event_log''") (auto simp: load_recording_config_def doc ebind_Inr_conv split: if_split_asm)
  obtain l where l: "dict_get doc ''topics'' = YList l"
    using assms
    by (cases "dict_get doc ''topics''") (auto simp: load_recording_config_def doc m ebind_Inr_conv split: if_split_asm)
  moreover have "l \<noteq> []"
    using assms by (auto simp: load_recording_config_def doc m l ebind_Inr_conv split: if_split_asm)
  ultimately obtain v vs where vs: "dict_get doc ''topics'' = YList (v # vs)"
    by (cases l) auto
  have "load_topics [] (v # vs) = Inr topics" and e: "load_event_log m = Inr (flush, rates)" "dg = digest"
    using assms by (auto simp del: load_topics.simps simp: load_recording_config_def doc m vs ebind_Inr_conv split: if_split_asm)
  from load_topics_Inr [OF this(1)] doc vs e show thesis
    by (auto simp: load_mapping_Inr intro: that)
qed

section \<open>Properties\<close>

lemma catalog_task_missing:
  "catalog_task c task_id = Inl (if is_identifier task_id then KeyError (''unknown managed tracking task: '' @ task_id)
       else ValueError ''task id must match [a-z0-9][a-z0-9_-]{0,63}'') \<longleftrightarrow>
   (is_identifier task_id \<longrightarrow> map_of (catalog_tasks c) task_id = None)"
  by (cases "is_identifier task_id"; cases "map_of (catalog_tasks c) task_id") (simp_all add: catalog_task_def)

text \<open>An example document: one circle scenario, one hold scenario and three tasks.\<close>

definition example_doc :: yaml where
  "example_doc = YMap
     [(YStr ''schema_version'', YInt 1),
      (YStr ''defaults'', YMap [(YStr ''duration_s'', YInt 60), (YStr ''run_until_stopped'', YBool False)]),
      (YStr ''scenarios'', YMap
         [(YStr ''hold'', YMap [(YStr ''trajectory_type'', YStr ''hold''), (YStr ''attitude_mode'', YStr ''level'')]),
          (YStr ''circle'', YMap [(YStr ''trajectory_type'', YStr ''circle''), (YStr ''attitude_mode'', YStr ''level''),
                                 (YStr ''radius_m'', YFloat (Fin (1 / 2)))])]),
      (YStr ''tasks'', YMap
         [(YStr ''depth'', YMap [(YStr ''label'', YStr '' Depth ''), (YStr ''scenario'', YStr ''hold''),
                                (YStr ''control_mode'', YStr ''altitude_hold''), (YStr ''run_until_stopped'', YBool True)]),
          (YStr ''circle-rl'', YMap [(YStr ''label'', YStr ''Circle''), (YStr ''scenario'', YStr ''circle''),
                                    (YStr ''control_mode'', YStr ''rl_policy''), (YStr ''duration_s'', YInt 30)])])]"

definition example_catalog :: catalog where
  "example_catalog =
     (let hold = [(''trajectory_type'', FStr ''hold''), (''attitude_mode'', FStr ''level'')];
          circle = [(''trajectory_type'', FStr ''circle''), (''attitude_mode'', FStr ''level''), (''radius_m'', FNum (1 / 2))] in
      \<lparr>catalog_sha256 = ''digest'',
       catalog_tasks = [(''depth'', make_task ''depth'' '' Depth '' ''hold'' hold ''altitude_hold'' 60 True),
                        (''circle-rl'', make_task ''circle-rl'' ''Circle'' ''circle'' circle ''rl_policy'' 30 False)]\<rparr>)"

lemma example_accepted:
  "TaskCatalog (\<lambda>_. '''') (\<lambda>_. Document example_doc) (\<lambda>_. ''digest'') ''tasks.yaml'' (Some ''...'') = Inr example_catalog"
  by (simp add: TaskCatalog_def load_mapping_def example_doc_def example_catalog_def exact_keys_def schema_is_one_def dict_get_def dict_find_def
      key_eq_def load_defaults_def load_scenario_def valid_identifier_def lower_or_digit_def
      TRAJECTORY_FIELDS_def STRING_TRAJECTORY_FIELDS_def BOOL_TRAJECTORY_FIELDS_def NUMBER_TRAJECTORY_FIELDS_def
      scenario_field_def float_of_int_def resolve_task_def TASK_KEYS_def py_strip_def is_space_def CONTROL_MODES_def
      task_duration_def task_run_def trajectory_type_of_def)

text \<open>C31: Every catalogue the loader accepts is well formed: it has at least one task, no two tasks
  share an identifier, and each task has a valid identifier that is also its name, a stripped
  non-empty label, a supported control mode with the matching controller, a positive duration, and
  the typed fields of a known scenario; \<^verbatim>\<open>altitude_hold\<close> only holds.  The recorded digest is that of
  the bytes that were read.\<close>

theorem accepted_catalog_well_formed:
  assumes "TaskCatalog fs yaml_load sha256 path (Some raw) = Inr c"
  shows "catalog_tasks c \<noteq> [] \<and> distinct (map fst (catalog_tasks c)) \<and> list_all valid_task (catalog_tasks c)
    \<and> catalog_sha256 c = sha256 raw"
  using catalog_valid [OF assms] catalog_digest [OF assms] by simp

theorem accepted_catalog_well_formed_witness:
  "catalog_tasks example_catalog \<noteq> [] \<and> distinct (map fst (catalog_tasks example_catalog))
    \<and> list_all valid_task (catalog_tasks example_catalog) \<and> catalog_sha256 example_catalog = ''digest''"
  using accepted_catalog_well_formed [OF example_accepted] by simp

text \<open>The list a client sees and the lookup agree: an identifier and label are listed exactly when
  looking the identifier up returns a task of that name and label, and an identifier that is not
  listed raises, as \<^verbatim>\<open>ValueError\<close> when it is malformed and as \<^verbatim>\<open>KeyError\<close> otherwise.\<close>

theorem listed_tasks_resolve:
  assumes "TaskCatalog fs yaml_load sha256 path file = Inr c"
  shows "((task_id, lbl) \<in> set (summaries c) \<longleftrightarrow>
      (\<exists>t. catalog_task c task_id = Inr t \<and> task_name t = task_id \<and> task_label t = lbl))
    \<and> (task_id \<notin> fst ` set (summaries c) \<longleftrightarrow>
        catalog_task c task_id = Inl (if is_identifier task_id then KeyError (''unknown managed tracking task: '' @ task_id)
                                      else ValueError ''task id must match [a-z0-9][a-z0-9_-]{0,63}''))"
proof -
  have valid: "(k, t) \<in> set (catalog_tasks c) \<Longrightarrow> task_name t = k \<and> is_identifier k" for k t
    using catalog_valid [OF assms] by (auto simp: list_all_iff valid_task_def Let_def)
  have "task_id \<notin> fst ` set (summaries c) \<longleftrightarrow> map_of (catalog_tasks c) task_id = None"
    by (force simp: map_of_eq_None_iff summaries_def)
  also have "\<dots> \<longleftrightarrow> (is_identifier task_id \<longrightarrow> map_of (catalog_tasks c) task_id = None)"
    using valid by (metis map_of_SomeD not_None_eq)
  finally have missing: "task_id \<notin> fst ` set (summaries c) \<longleftrightarrow>
      (is_identifier task_id \<longrightarrow> map_of (catalog_tasks c) task_id = None)" .
  show ?thesis
  proof (intro conjI)
    show "(task_id, lbl) \<in> set (summaries c) \<longleftrightarrow>
        (\<exists>t. catalog_task c task_id = Inr t \<and> task_name t = task_id \<and> task_label t = lbl)"
      by (force simp: catalog_task_iff [OF assms] summaries_def dest: valid)
  qed (simp only: missing catalog_task_missing)
qed

theorem listed_tasks_resolve_witness:
  "(\<exists>t. catalog_task example_catalog ''depth'' = Inr t \<and> task_name t = ''depth'' \<and> task_label t = ''Depth'')
    \<and> catalog_task example_catalog ''Depth'' = Inl (ValueError ''task id must match [a-z0-9][a-z0-9_-]{0,63}'')"
proof -
  have listed: "set (summaries example_catalog) = {(''depth'', ''Depth''), (''circle-rl'', ''Circle'')}"
    by (simp add: summaries_def example_catalog_def make_task_def py_strip_def is_space_def Let_def)
  then show ?thesis
    using listed_tasks_resolve [OF example_accepted, of "''depth''" "''Depth''"]
      listed_tasks_resolve [OF example_accepted, of "''Depth''" "''''"]
    by (simp add: lower_or_digit_def)
qed

text \<open>The mapping constructor that replaces PyYAML's: on nodes that construct, it succeeds exactly
  when every key is hashable and no two keys are equal for Python (so \<^verbatim>\<open>1\<close>, \<^verbatim>\<open>1.0\<close> and \<^verbatim>\<open>true\<close>
  collide), and then it returns all pairs in document order.\<close>

theorem unique_mapping_correct:
  "construct_unique_mapping fs (\<lambda>n. Inr (c n)) [] ps = Inr m \<longleftrightarrow>
     list_all hashable (map (\<lambda>p. c (fst p)) ps)
     \<and> sorted_wrt (\<lambda>a b. \<not> key_eq a b) (map (\<lambda>p. c (fst p)) ps)
     \<and> m = map (\<lambda>(k, v). (c k, c v)) ps"
  by (simp add: construct_unique_mapping_conv list_all_iff)

text \<open>An accepted recording configuration has the document's topics in order, non-empty, without
  repetition and all absolute; one rate in \<open>(0, 1000]\<close> for each event-log stream and for no other; and
  a flush interval in \<open>[0.05, 10]\<close> seconds.\<close>

theorem accepted_recording_well_formed:
  assumes "load_recording_config yaml_load sha256 path (Some raw) = Inr (topics, rates, flush, digest)"
  shows "\<exists>doc. yaml_load raw = Document (YMap doc) \<and> dict_get doc ''topics'' = YList (map YStr topics)
    \<and> topics \<noteq> [] \<and> distinct topics \<and> list_all absolute_topic topics
    \<and> map fst rates = EVENT_LOG_STREAMS \<and> list_all (\<lambda>p. 0 < snd p \<and> snd p \<le> 1000) rates
    \<and> 1 / 20 \<le> flush \<and> flush \<le> 10 \<and> digest = sha256 raw"
  using assms by (rule recording_parts) (auto dest: load_event_log_Inr)

definition example_recording :: yaml where
  "example_recording = YMap
     [(YStr ''schema_version'', YBool True),
      (YStr ''event_log'', YMap
         [(YStr ''flush_interval_s'', YInt 1),
          (YStr ''stream_rates_hz'', YMap (map (\<lambda>s. (YStr s, YInt 10)) EVENT_LOG_STREAMS))]),
      (YStr ''topics'', YList [YStr ''/body_state'', YStr ''/imu''])]"

lemma example_recording_accepted:
  "load_recording_config (\<lambda>_. Document example_recording) (\<lambda>_. ''digest'') ''recording.yaml'' (Some ''...'')
     = Inr ([''/body_state'', ''/imu''], map (\<lambda>s. (s, 10)) EVENT_LOG_STREAMS, 1, ''digest'')"
  by (simp add: load_recording_config_def load_mapping_def example_recording_def exact_keys_def schema_is_one_def
      dict_get_def dict_find_def key_eq_def load_event_log_def float_of_int_def EVENT_LOG_STREAMS_def)

theorem accepted_recording_well_formed_witness:
  "distinct [''/body_state'', ''/imu''] \<and> list_all absolute_topic [''/body_state'', ''/imu'']"
  using accepted_recording_well_formed [OF example_recording_accepted] by auto

end
