(* ===== verification/Path_Text.thy ===== *)
theory Path_Text
  imports Ros_Interface
begin

text \<open>
  \<^verbatim>\<open>pathlib.PurePosixPath\<close> on texts: the parts of a path, its text in normal form, its last component,
  that component's suffix and stem.
\<close>

fun path_parts :: "string \<Rightarrow> string list" where
  "path_parts [] = ['''']"
| "path_parts (c # cs) =
     (if c = CHR ''/'' then '''' # path_parts cs
      else case path_parts cs of p # ps \<Rightarrow> (c # p) # ps | [] \<Rightarrow> [[c]])"

definition components :: "string \<Rightarrow> string list" where
  "components s = filter (\<lambda>p. p \<noteq> '''' \<and> p \<noteq> ''.'') (path_parts s)"

text \<open>One leading slash is kept, and exactly two are too; more count as one.\<close>

definition path_root :: "string \<Rightarrow> string" where
  "path_root s =
     (let n = length (takeWhile (\<lambda>c. c = CHR ''/'') s) in
      if n = 0 then '''' else if n = 2 then ''//'' else ''/'')"

definition path_str :: "string \<Rightarrow> string" where
  "path_str s =
     (let p = path_root s @ py_join ''/'' (components s) in if p = '''' then ''.'' else p)"

definition is_absolute :: "string \<Rightarrow> bool" where
  "is_absolute s \<longleftrightarrow> path_root s \<noteq> ''''"

definition path_name :: "string \<Rightarrow> string" where
  "path_name s = (case components s of [] \<Rightarrow> '''' | ps \<Rightarrow> last ps)"

text \<open>The suffix starts at the last dot, unless that is the first or the last character.\<close>

definition path_suffix :: "string \<Rightarrow> string" where
  "path_suffix s =
     (let name = path_name s; tail = rev (takeWhile (\<lambda>c. c \<noteq> CHR ''.'') (rev name)) in
      if tail = '''' \<or> length name \<le> length tail + 1 then '''' else CHR ''.'' # tail)"

definition path_stem :: "string \<Rightarrow> string" where
  "path_stem s = take (length (path_name s) - length (path_suffix s)) (path_name s)"

end
