(* ===== verification/Body_Policy.thy ===== *)
theory Body_Policy
  imports T60_Observation Task_Catalog Path_Text
begin

text \<open>
  The policy node, \<^verbatim>\<open>robotcore_policy/body_policy_node.py\<close>, with the manifest loader
  \<^verbatim>\<open>policy_manifest.py\<close>.  A runner is an argument: a type of runner states with \<open>run\<close> and
  \<open>reset\<close>; what the node needs of it is the locale \<open>resettable_runner\<close>.  The runner of the trajectory
  network (\<^verbatim>\<open>runners/onnx_runner.py\<close>) is the observation state machine around a network, which is
  an argument too.  PyYAML, the file system and the parsing of a float from text are arguments.
\<close>

section \<open>The manifest\<close>

record policy_manifest =
  pm_name :: string
  pm_role :: string
  pm_runner :: string
  pm_model_path :: string
  pm_input_schema :: "string list"
  pm_output_schema :: "(yaml \<times> yaml) list"
  pm_isaac_contract :: "(yaml \<times> yaml) list"
  pm_deployment_validation :: "(yaml \<times> yaml) list"

text \<open>The file system as the loader sees it; \<open>colocated d p\<close> is the resolved path of \<open>p\<close> beside the
  manifest \<open>d\<close> when that file exists.\<close>

record file_system =
  is_file :: "string \<Rightarrow> bool"
  safe_load :: "string \<Rightarrow> yaml_outcome"
  colocated :: "string \<Rightarrow> string \<Rightarrow> string option"

definition required_fields :: "string list" where
  "required_fields = [''name'', ''role'', ''runner'', ''model_path'', ''input_schema'', ''output_schema'']"

fun text_list :: "yaml list \<Rightarrow> string list option" where
  "text_list [] = Some []"
| "text_list (YStr s # vs) = (if s = '''' then None else map_option ((#) s) (text_list vs))"
| "text_list _ = None"

definition optional_mapping :: "(yaml \<times> yaml) list \<Rightarrow> string \<Rightarrow> exc + (yaml \<times> yaml) list" where
  "optional_mapping data name =
     (case dict_find data name of
        None \<Rightarrow> Inr []
      | Some (YMap m) \<Rightarrow> Inr m
      | Some _ \<Rightarrow> Inl (ValueError (''policy '' @ name @ '' must be a mapping'')))"

text \<open>\<^verbatim>\<open>repr\<close> of a text without quotes or escapes.\<close>

definition quoted :: "string \<Rightarrow> string" where
  "quoted s = CHR 0x27 # s @ [CHR 0x27]"

text \<open>A parser error is a \<^verbatim>\<open>yaml.YAMLError\<close>; the caller uses only its text.\<close>

definition read_manifest :: "file_system \<Rightarrow> string \<Rightarrow> exc + (yaml \<times> yaml) list" where
  "read_manifest fs path =
     (if path = '''' then Inl (ValueError ''policy manifest path is required'')
      else if py_lower (path_suffix path) \<noteq> ''.yaml''
      then Inl (ValueError ''policy_path must reference a policy.yaml manifest'')
      else if \<not> is_file fs path then Inl (OSError (''policy manifest does not exist: '' @ path))
      else case safe_load fs path of
          Malformed msg \<Rightarrow> Inl (RuntimeError msg)
        | Raised e \<Rightarrow> Inl e
        | Document (YMap m) \<Rightarrow> Inr m
        | Document _ \<Rightarrow> Inl (ValueError (''policy manifest must contain a mapping: '' @ path)))"

definition load_policy_manifest ::
  "(pyfloat \<Rightarrow> string) \<Rightarrow> file_system \<Rightarrow> string \<Rightarrow> string \<Rightarrow> string \<Rightarrow> exc + policy_manifest" where
  "load_policy_manifest float_str fs raw_path default_name role =
     (let path = py_strip raw_path in
      ebind (read_manifest fs path) (\<lambda>data.
      let missing = filter (\<lambda>f. dict_find data f = None) required_fields;
          requested = (if py_strip default_name \<noteq> '''' then py_strip default_name else path_stem path) in
      if missing \<noteq> [] then Inl (ValueError (''policy manifest for '' @ requested @ '' is missing required fields: '' @ py_join '', '' missing))
      else
        let name = py_strip (py_str float_str (dict_get data ''name''));
            mrole = py_strip (py_str float_str (dict_get data ''role''));
            runner = py_strip (py_str float_str (dict_get data ''runner''));
            model = py_strip (py_str float_str (dict_get data ''model_path'')) in
        if name = '''' \<or> mrole = '''' \<or> runner = '''' \<or> model = ''''
        then Inl (ValueError ''policy manifest identity, runner, and model_path must be non-empty'')
        else if mrole \<noteq> role then Inl (ValueError (''policy role '' @ quoted mrole @ '' does not match requested role '' @ quoted role))
        else case (case dict_get data ''input_schema'' of YList vs \<Rightarrow> text_list vs | _ \<Rightarrow> None) of
            None \<Rightarrow> Inl (ValueError ''policy input_schema must be a list of non-empty strings'')
          | Some inputs \<Rightarrow>
              (case dict_get data ''output_schema'' of
                 YMap output_schema \<Rightarrow>
                   ebind (optional_mapping data ''isaac_contract'') (\<lambda>contract.
                   ebind (optional_mapping data ''deployment_validation'') (\<lambda>deployment.
                   Inr \<lparr>pm_name = name, pm_role = mrole, pm_runner = runner,
                        pm_model_path =
                          (if hd model = CHR ''/'' then model
                           else case colocated fs path model of Some p \<Rightarrow> p | None \<Rightarrow> model),
                        pm_input_schema = inputs, pm_output_schema = output_schema,
                        pm_isaac_contract = contract, pm_deployment_validation = deployment\<rparr>))
               | _ \<Rightarrow> Inl (ValueError ''policy output_schema must be a mapping''))))"

section \<open>The node\<close>

text \<open>\<^verbatim>\<open>float(value)\<close>.\<close>

fun py_float :: "(string \<Rightarrow> pyfloat option) \<Rightarrow> yaml \<Rightarrow> exc + pyfloat" where
  "py_float parse (YBool b) = Inr (Fin (of_bool b))"
| "py_float parse (YInt n) = ebind (float_of_int n) (\<lambda>x. Inr (Fin x))"
| "py_float parse (YFloat v) = Inr v"
| "py_float parse (YStr s) =
     (case parse s of Some v \<Rightarrow> Inr v | None \<Rightarrow> Inl (ValueError (''could not convert string to float: '' @ s)))"
| "py_float parse _ = Inl (TypeError ''float() argument must be a string or a real number'')"

definition contract_get :: "policy_manifest \<Rightarrow> string \<Rightarrow> real \<Rightarrow> yaml" where
  "contract_get m key dflt = (case dict_find (pm_isaac_contract m) key of None \<Rightarrow> YFloat (Fin dflt) | Some v \<Rightarrow> v)"

definition contract_ns :: "(string \<Rightarrow> pyfloat option) \<Rightarrow> policy_manifest \<Rightarrow> string \<Rightarrow> real \<Rightarrow> exc + int" where
  "contract_ns parse m key dflt = ebind (py_float parse (contract_get m key dflt)) (\<lambda>v. int_of_float (flt_scale (10 ^ 9) v))"

record 'r policy_node =
  manifest :: policy_manifest
  runner :: "'r option"
  load_error :: string
  pbuilder :: builder
  state_delay_ns :: int
  body_state_history :: "(int \<times> body_obs) list"
  external_imu_history :: "(int \<times> imu_obs) list"
  inference_count :: nat
  last_input_ready :: bool
  last_runtime_error :: string
  io_path :: bool
  publish_rate_hz :: real

definition body_topic :: string where "body_topic = ''/robot/body_state''"
definition imu_topic :: string where "imu_topic = ''/sensors/external_imu''"
definition command_topic :: string where "command_topic = ''/control/thruster_cmd''"
definition target_topic :: string where "target_topic = ''/runtime/trajectory_target''"

definition invalid_manifest :: "string \<Rightarrow> string \<Rightarrow> policy_manifest" where
  "invalid_manifest name path =
     \<lparr>pm_name = (if py_strip name \<noteq> '''' then py_strip name else ''invalid_policy''), pm_role = ''body'',
      pm_runner = ''invalid'', pm_model_path = path, pm_input_schema = [], pm_output_schema = [],
      pm_isaac_contract = [], pm_deployment_validation = []\<rparr>"

text \<open>The part of \<^verbatim>\<open>load_policy\<close> inside its first \<^verbatim>\<open>try\<close>.\<close>

definition prepare_policy ::
  "(string \<Rightarrow> pyfloat option) \<Rightarrow> exc + policy_manifest \<Rightarrow> exc + policy_manifest \<times> builder \<times> int" where
  "prepare_policy parse loaded =
     ebind loaded (\<lambda>m.
     ebind (contract_ns parse m ''max_input_age_s'' 1) (\<lambda>age.
     ebind (contract_ns parse m ''state_delay_s'' 0) (\<lambda>delay.
     Inr (m, new_builder (if pm_input_schema m = [] then [body_topic] else pm_input_schema m) (max 1 age), max 0 delay))))"

text \<open>\<open>create\<close> is \<^verbatim>\<open>create_runner\<close>; what closing the previous runner does is not modelled.\<close>

definition load_policy ::
  "(string \<Rightarrow> pyfloat option) \<Rightarrow> (policy_manifest \<Rightarrow> exc + 'r) \<Rightarrow> exc + policy_manifest \<Rightarrow> string \<Rightarrow> string
     \<Rightarrow> 'r policy_node \<Rightarrow> 'r policy_node" where
  "load_policy parse create loaded name path n =
     (let cleared = n\<lparr>runner := None, load_error := '''', body_state_history := [], external_imu_history := [],
                      last_input_ready := False, last_runtime_error := ''''\<rparr> in
      case prepare_policy parse loaded of
        Inl e \<Rightarrow> cleared\<lparr>manifest := invalid_manifest name path, pbuilder := new_builder [body_topic] 1000000000,
                         state_delay_ns := 0, load_error := ''policy manifest rejected: '' @ exc_str e\<rparr>
      | Inr (m, b, delay) \<Rightarrow>
          let accepted = cleared\<lparr>manifest := m, pbuilder := b, state_delay_ns := delay\<rparr> in
          case create m of
            Inl e \<Rightarrow> accepted\<lparr>load_error := exc_str e\<rparr>
          | Inr r \<Rightarrow> accepted\<lparr>runner := Some r\<rparr>)"

text \<open>The rate of the timer, computed after loading, outside any \<^verbatim>\<open>try\<close>.\<close>

definition policy_rate_hz :: "(string \<Rightarrow> pyfloat option) \<Rightarrow> 'r policy_node \<Rightarrow> exc + pyfloat" where
  "policy_rate_hz parse n =
     (if publish_rate_hz n > 0 then Inr (Fin (max (publish_rate_hz n) (1 / 10)))
      else ebind (py_float parse (contract_get (manifest n) ''control_rate_hz'' 60)) (\<lambda>v. Inr (flt_max v (Fin (1 / 10)))))"

record set_policy_response =
  sp_accepted :: bool
  sp_active_policy :: string
  sp_message :: string

definition on_set_policy ::
  "(string \<Rightarrow> pyfloat option) \<Rightarrow> (policy_manifest \<Rightarrow> exc + 'r) \<Rightarrow> exc + policy_manifest \<Rightarrow> bool \<Rightarrow> string \<Rightarrow> string
     \<Rightarrow> 'r policy_node \<Rightarrow> exc + 'r policy_node \<times> set_policy_response" where
  "on_set_policy parse create loaded activate name path n =
     ebind (if activate
            then let n' = load_policy parse create loaded name path n in ebind (policy_rate_hz parse n') (\<lambda>_. Inr n')
            else Inr n) (\<lambda>n'.
     Inr (n', \<lparr>sp_accepted = (runner n' \<noteq> None), sp_active_policy = pm_name (manifest n'),
               sp_message = (if runner n' \<noteq> None then ''loaded'' else load_error n')\<rparr>))"

subsection \<open>Subscriptions\<close>

text \<open>A bounded queue of 256 entries, newest last.\<close>

definition push :: "'a \<Rightarrow> 'a list \<Rightarrow> 'a list" where
  "push x xs = (let ys = xs @ [x] in drop (length ys - 256) ys)"

definition policy_on_body :: "int \<Rightarrow> int \<Rightarrow> body_obs \<Rightarrow> 'r policy_node \<Rightarrow> 'r policy_node" where
  "policy_on_body received stamp v n =
     n\<lparr>pbuilder := builder_update body_topic received (\<lambda>ob. ob\<lparr>ob_body := Some v\<rparr>) (pbuilder n),
       body_state_history := push (stamp, v) (body_state_history n)\<rparr>"

definition policy_on_imu :: "int \<Rightarrow> int \<Rightarrow> imu_obs \<Rightarrow> 'r policy_node \<Rightarrow> 'r policy_node" where
  "policy_on_imu received stamp v n =
     n\<lparr>pbuilder := builder_update imu_topic received (\<lambda>ob. ob\<lparr>ob_imu := Some v\<rparr>) (pbuilder n),
       external_imu_history := push (stamp, v) (external_imu_history n)\<rparr>"

definition policy_on_command :: "int \<Rightarrow> pyfloat list \<Rightarrow> 'r policy_node \<Rightarrow> 'r policy_node" where
  "policy_on_command received v n =
     n\<lparr>pbuilder := builder_update command_topic received (\<lambda>ob. ob\<lparr>ob_command := Some v\<rparr>) (pbuilder n)\<rparr>"

definition policy_on_target :: "int \<Rightarrow> target_obs \<Rightarrow> 'r policy_node \<Rightarrow> 'r policy_node" where
  "policy_on_target received v n =
     n\<lparr>pbuilder := builder_update target_topic received (\<lambda>ob. ob\<lparr>ob_target := Some v\<rparr>) (pbuilder n)\<rparr>"

definition policy_on_run_dir :: "exc option \<Rightarrow> 'r policy_node \<Rightarrow> exc + 'r policy_node" where
  "policy_on_run_dir mkdir n = (case mkdir of Some e \<Rightarrow> Inl e | None \<Rightarrow> Inr (n\<lparr>io_path := True\<rparr>))"

subsection \<open>The timer\<close>

definition delayed_sample :: "(int \<times> 'a) list \<Rightarrow> int \<Rightarrow> int \<Rightarrow> 'a option" where
  "delayed_sample hist delay now = map_option snd (List.find (\<lambda>p. fst p \<le> now - delay) (rev hist))"

definition delayed_body_notes :: "body_obs option \<Rightarrow> string list" where
  "delayed_body_notes d =
     (case d of
        None \<Rightarrow> [body_topic @ ''(delayed)'']
      | Some b \<Rightarrow>
          (if bo_state_valid b \<or> bo_position_estimated b then [] else [body_topic @ ''(localization_invalid)''])
          @ (if bo_linear_valid b then [] else [body_topic @ ''(linear_velocity_invalid)'']))"

definition policy_inputs :: "'r policy_node \<Rightarrow> int \<Rightarrow> string list \<times> observation" where
  "policy_inputs n now =
     (let schema = pm_input_schema (manifest n);
          ob0 = values_of (pbuilder n);
          body = delayed_sample (body_state_history n) (state_delay_ns n) now;
          imu = delayed_sample (external_imu_history n) (state_delay_ns n) now;
          use_body = (body_topic \<in> set schema); use_imu = (imu_topic \<in> set schema);
          ob1 = (if use_body \<and> body \<noteq> None then ob0\<lparr>ob_body := body\<rparr> else ob0);
          ob2 = (if use_imu \<and> imu \<noteq> None then ob1\<lparr>ob_imu := imu\<rparr> else ob1);
          goal_ok = (case ob_target ob2 of None \<Rightarrow> False | Some g \<Rightarrow> to_valid g) in
      (builder_missing (pbuilder n) now
        @ (if use_body then delayed_body_notes body else [])
        @ (if use_imu \<and> imu = None then [imu_topic @ ''(delayed)''] else [])
        @ (if target_topic \<in> set schema \<and> \<not> goal_ok then [target_topic @ ''(invalid)''] else []),
       ob2))"

record policy_status =
  ps_name :: string
  ps_runner :: string
  ps_loaded :: bool
  ps_input_ready :: bool
  ps_missing :: "string list"
  ps_inference_count :: nat

text \<open>\<^verbatim>\<open>list(dict.fromkeys(xs))\<close>: the first occurrences.\<close>

definition unique :: "'a list \<Rightarrow> 'a list" where
  "unique xs = rev (remdups (rev xs))"

definition publish_status :: "'r policy_node \<Rightarrow> bool \<Rightarrow> string list \<Rightarrow> policy_status" where
  "publish_status n ready missing =
     \<lparr>ps_name = pm_name (manifest n), ps_runner = pm_runner (manifest n), ps_loaded = (runner n \<noteq> None),
      ps_input_ready = ready, ps_missing = missing, ps_inference_count = inference_count n\<rparr>"

text \<open>
  The \<^verbatim>\<open>try\<close> block: the runner, the published action and the exception that ended the block, if any.
  \<open>io\<close> is what appending to the log raises.
\<close>

definition infer ::
  "('r \<Rightarrow> observation \<Rightarrow> 'r \<times> (exc + pyfloat list)) \<Rightarrow> exc option \<Rightarrow> bool \<Rightarrow> 'r \<Rightarrow> observation
     \<Rightarrow> 'r \<times> pyfloat list option \<times> exc option" where
  "infer run io logging r ob =
     (let (r', out) = run r ob in
      case ebind out decode_thruster_action of
        Inl e \<Rightarrow> (r', None, Some e)
      | Inr act \<Rightarrow> (r', Some act, if logging then io else None))"

definition policy_tick ::
  "('r \<Rightarrow> observation \<Rightarrow> 'r \<times> (exc + pyfloat list)) \<Rightarrow> ('r \<Rightarrow> 'r) \<Rightarrow> exc option \<Rightarrow> 'r policy_node \<Rightarrow> int
     \<Rightarrow> 'r policy_node \<times> pyfloat list option \<times> policy_status" where
  "policy_tick run reset io n now =
     (let (notes, ob) = policy_inputs n now;
          missing = unique notes;
          input_ready = (missing = []) in
      case runner n of
        None \<Rightarrow>
          let n' = n\<lparr>last_input_ready := input_ready\<rparr> in (n', None, publish_status n' input_ready missing)
      | Some r \<Rightarrow>
          if input_ready then
            let (r', action, err) = infer run io (io_path n) r ob;
                n1 = n\<lparr>runner := Some r', inference_count := inference_count n + (if action = None then 0 else 1)\<rparr> in
            (case err of
               None \<Rightarrow>
                 let n' = n1\<lparr>last_runtime_error := '''', last_input_ready := True\<rparr> in
                 (n', action, publish_status n' True [])
             | Some e \<Rightarrow>
                 let text = ''inference: '' @ exc_str e; r1 = reset r';
                     r2 = (if last_input_ready n then reset r1 else r1);
                     n' = n1\<lparr>runner := Some r2, last_runtime_error := text, last_input_ready := False\<rparr> in
                 (n', action, publish_status n' False [text]))
          else
            let r' = (if last_input_ready n then reset r else r);
                n' = n\<lparr>runner := Some r', last_input_ready := False\<rparr> in
            (n', None, publish_status n' False missing))"

section \<open>The runner of the trajectory network\<close>

definition t60_run ::
  "(pyfloat list \<Rightarrow> exc + pyfloat list) \<Rightarrow> t60_state \<Rightarrow> observation \<Rightarrow> t60_state \<times> (exc + pyfloat list)" where
  "t60_run network st ob =
     (case t60_build st ob of
        Inl e \<Rightarrow> (st, Inl e)
      | Inr (st1, v) \<Rightarrow>
          (case network v of
             Inl e \<Rightarrow> (st1, Inl e)
           | Inr act \<Rightarrow> (case t60_commit st1 of Inl e \<Rightarrow> (st1, Inl e) | Inr st2 \<Rightarrow> (st2, Inr act))))"

text \<open>Its construction: what opening the model raises, or the initial observation state.\<close>

definition t60_create :: "(policy_manifest \<Rightarrow> exc + unit) \<Rightarrow> policy_manifest \<Rightarrow> exc + t60_state" where
  "t60_create opened m = ebind (opened m) (\<lambda>_. Inr t60_init)"

end
