(* ===== verification/Graph_Check.thy ===== *)
theory Graph_Check
  imports Body_Policy
begin

text \<open>
  \<^verbatim>\<open>scripts/robotcore_apriltag_graph_check.py\<close>: the check of the running node graph against the contract of
  the AprilTag pipeline.  The graph is an argument: the endpoints of a topic, as the middleware reports
  them.  Finding and starting the middleware (\<^verbatim>\<open>ensure_rclpy\<close>) and the printed report are not modelled;
  the entries of a report are the errors themselves.
\<close>

section \<open>Names\<close>

definition ZED_NODE :: string where "ZED_NODE = ''/zedx/zed_node''"
definition DETECTOR_NODE :: string where "DETECTOR_NODE = ''/apriltag_cuda_detector''"
definition LOCALIZER_NODE :: string where "LOCALIZER_NODE = ''/apriltag_localization''"
definition FUSION_NODE :: string where "FUSION_NODE = ''/ekf''"
definition UI_NODES :: "string set" where "UI_NODES = {''/web_operator'', ''/web_operator_ui''}"

definition RAW_IMAGE :: string where "RAW_IMAGE = ''/zedx/zed_node/rgb/color/rect/image''"
definition CAMERA_INFO :: string where "CAMERA_INFO = ''/zedx/zed_node/rgb/color/rect/camera_info''"
definition DETECTIONS :: string where "DETECTIONS = ''/localization/apriltag/detections''"
definition POSE :: string where "POSE = ''/localization/apriltag_pose''"
definition LOCALIZATION_STATUS :: string where "LOCALIZATION_STATUS = ''/localization/status''"
definition COMPRESSED_IMAGE :: string where "COMPRESSED_IMAGE = ''/zedx/zed_node/rgb/color/rect/image/compressed''"

lemmas node_names = ZED_NODE_def DETECTOR_NODE_def LOCALIZER_NODE_def FUSION_NODE_def
lemmas topic_names = RAW_IMAGE_def CAMERA_INFO_def DETECTIONS_def POSE_def LOCALIZATION_STATUS_def COMPRESSED_IMAGE_def

record topic_contract =
  contract_topic :: string
  contract_publishers :: "string set"
  contract_subscribers :: "string set"

definition CORE_CONTRACTS :: "topic_contract list" where
  "CORE_CONTRACTS =
     [\<lparr>contract_topic = RAW_IMAGE, contract_publishers = {ZED_NODE}, contract_subscribers = {DETECTOR_NODE}\<rparr>,
      \<lparr>contract_topic = CAMERA_INFO, contract_publishers = {ZED_NODE}, contract_subscribers = {DETECTOR_NODE, LOCALIZER_NODE}\<rparr>,
      \<lparr>contract_topic = DETECTIONS, contract_publishers = {DETECTOR_NODE}, contract_subscribers = {LOCALIZER_NODE}\<rparr>,
      \<lparr>contract_topic = POSE, contract_publishers = {LOCALIZER_NODE}, contract_subscribers = {FUSION_NODE}\<rparr>]"

text \<open>\<^verbatim>\<open>str.lstrip("/")\<close> and \<^verbatim>\<open>str.strip("/")\<close>.\<close>

definition lstrip_slash :: "string \<Rightarrow> string" where
  "lstrip_slash s = dropWhile (\<lambda>c. c = CHR ''/'') s"

definition strip_slash :: "string \<Rightarrow> string" where
  "strip_slash s = rev (lstrip_slash (rev (lstrip_slash s)))"

definition full_node_name :: "string \<Rightarrow> string \<Rightarrow> string" where
  "full_node_name name namespace =
     (let ns = (if namespace = '''' then ''/'' else namespace) in
      if ns = ''/'' then ''/'' @ lstrip_slash name
      else ''/'' @ strip_slash ns @ ''/'' @ lstrip_slash name)"

type_synonym endpoint = "string \<times> string"

definition endpoint_nodes :: "endpoint list \<Rightarrow> string set" where
  "endpoint_nodes endpoints = set (map (\<lambda>(name, namespace). full_node_name name namespace) endpoints)"

record graph =
  publishers_by_topic :: "string \<Rightarrow> endpoint list"
  subscriptions_by_topic :: "string \<Rightarrow> endpoint list"

definition topic_endpoints :: "graph \<Rightarrow> string \<Rightarrow> string set \<times> string set" where
  "topic_endpoints g topic =
     (endpoint_nodes (publishers_by_topic g topic), endpoint_nodes (subscriptions_by_topic g topic))"

section \<open>The check\<close>

text \<open>The entries of the error list, with the values their texts show.\<close>

datatype graph_error =
    WrongPublishers string "string set" "string set"
  | WrongSubscribers string "string set" "string set"
  | UnexpectedSubscribers string "string set"
  | UiSubscriptionAbsent string
  | UiVideoAbsent string

definition contract_errors :: "graph \<Rightarrow> topic_contract \<Rightarrow> graph_error list" where
  "contract_errors g c =
     (let (publishers, subscribers) = topic_endpoints g (contract_topic c) in
      (if publishers \<noteq> contract_publishers c
       then [WrongPublishers (contract_topic c) publishers (contract_publishers c)] else [])
      @ (if subscribers \<noteq> contract_subscribers c
         then [WrongSubscribers (contract_topic c) subscribers (contract_subscribers c)] else []))"

definition status_errors :: "graph \<Rightarrow> bool \<Rightarrow> graph_error list" where
  "status_errors g require_ui =
     (let (publishers, subscribers) = topic_endpoints g LOCALIZATION_STATUS in
      (if publishers \<noteq> {FUSION_NODE} then [WrongPublishers LOCALIZATION_STATUS publishers {FUSION_NODE}] else [])
      @ (if \<not> subscribers \<subseteq> UI_NODES then [UnexpectedSubscribers LOCALIZATION_STATUS (subscribers - UI_NODES)] else [])
      @ (if require_ui \<and> subscribers \<inter> UI_NODES = {} then [UiSubscriptionAbsent LOCALIZATION_STATUS] else []))"

definition video_errors :: "graph \<Rightarrow> bool \<Rightarrow> graph_error list" where
  "video_errors g require_ui_video =
     (let (publishers, subscribers) = topic_endpoints g COMPRESSED_IMAGE in
      (if publishers \<noteq> {} \<and> publishers \<noteq> {ZED_NODE} then [WrongPublishers COMPRESSED_IMAGE publishers {ZED_NODE}] else [])
      @ (if \<not> subscribers \<subseteq> UI_NODES then [UnexpectedSubscribers COMPRESSED_IMAGE (subscribers - UI_NODES)] else [])
      @ (if require_ui_video \<and> \<not> (publishers = {ZED_NODE} \<and> subscribers \<inter> UI_NODES \<noteq> {})
         then [UiVideoAbsent COMPRESSED_IMAGE] else []))"

definition graph_snapshot :: "graph \<Rightarrow> (string \<times> string set \<times> string set) list" where
  "graph_snapshot g =
     map (\<lambda>topic. (topic, topic_endpoints g topic))
       (map contract_topic CORE_CONTRACTS @ [LOCALIZATION_STATUS, COMPRESSED_IMAGE])"

definition validate_graph :: "graph \<Rightarrow> bool \<Rightarrow> bool \<Rightarrow> graph_error list \<times> (string \<times> string set \<times> string set) list" where
  "validate_graph g require_ui require_ui_video =
     (concat (map (contract_errors g) CORE_CONTRACTS) @ status_errors g require_ui @ video_errors g require_ui_video,
      graph_snapshot g)"

text \<open>
  The polling loop of \<^verbatim>\<open>main\<close>: one turn is the clock read by the condition and the graph after the
  spin; \<open>None\<close> stands for the initial entry, discovery not completed.
\<close>

fun graph_poll ::
    "bool \<Rightarrow> bool \<Rightarrow> real \<Rightarrow> graph_error list option \<Rightarrow> (real \<times> graph) list \<Rightarrow> graph_error list option" where
  "graph_poll ui video deadline errors [] = errors"
| "graph_poll ui video deadline errors ((now, g) # turns) =
     (if now < deadline
      then let e = fst (validate_graph g (ui \<or> video) video) in
        if e = [] then Some [] else graph_poll ui video deadline (Some e) turns
      else errors)"

definition graph_check_exit :: "bool \<Rightarrow> bool \<Rightarrow> real \<Rightarrow> real \<Rightarrow> (real \<times> graph) list \<Rightarrow> nat" where
  "graph_check_exit ui video started timeout turns =
     (if graph_poll ui video (started + max (1 / 2) timeout) None turns = Some [] then 0 else 1)"

section \<open>What a passing graph looks like\<close>

text \<open>The contract, stated on the node names of the graph.\<close>

definition pubs :: "graph \<Rightarrow> string \<Rightarrow> string set" where
  "pubs g topic = endpoint_nodes (publishers_by_topic g topic)"

definition subs :: "graph \<Rightarrow> string \<Rightarrow> string set" where
  "subs g topic = endpoint_nodes (subscriptions_by_topic g topic)"

definition graph_in_contract :: "graph \<Rightarrow> bool \<Rightarrow> bool \<Rightarrow> bool" where
  "graph_in_contract g ui video \<longleftrightarrow>
     pubs g RAW_IMAGE = {ZED_NODE} \<and> subs g RAW_IMAGE = {DETECTOR_NODE} \<and>
     pubs g CAMERA_INFO = {ZED_NODE} \<and> subs g CAMERA_INFO = {DETECTOR_NODE, LOCALIZER_NODE} \<and>
     pubs g DETECTIONS = {DETECTOR_NODE} \<and> subs g DETECTIONS = {LOCALIZER_NODE} \<and>
     pubs g POSE = {LOCALIZER_NODE} \<and> subs g POSE = {FUSION_NODE} \<and>
     pubs g LOCALIZATION_STATUS = {FUSION_NODE} \<and> subs g LOCALIZATION_STATUS \<subseteq> UI_NODES \<and>
     (ui \<longrightarrow> subs g LOCALIZATION_STATUS \<noteq> {}) \<and>
     pubs g COMPRESSED_IMAGE \<subseteq> {ZED_NODE} \<and> subs g COMPRESSED_IMAGE \<subseteq> UI_NODES \<and>
     (video \<longrightarrow> pubs g COMPRESSED_IMAGE \<noteq> {} \<and> subs g COMPRESSED_IMAGE \<noteq> {})"

lemma contract_errors_nil:
  "contract_errors g c = [] \<longleftrightarrow> pubs g (contract_topic c) = contract_publishers c \<and> subs g (contract_topic c) = contract_subscribers c"
  by (auto simp: contract_errors_def topic_endpoints_def pubs_def subs_def)

lemma status_errors_nil:
  "status_errors g ui = [] \<longleftrightarrow> pubs g LOCALIZATION_STATUS = {FUSION_NODE} \<and> subs g LOCALIZATION_STATUS \<subseteq> UI_NODES \<and>
     (ui \<longrightarrow> subs g LOCALIZATION_STATUS \<noteq> {})"
  by (auto simp: status_errors_def topic_endpoints_def pubs_def subs_def)

lemma video_errors_nil:
  "video_errors g video = [] \<longleftrightarrow> pubs g COMPRESSED_IMAGE \<subseteq> {ZED_NODE} \<and> subs g COMPRESSED_IMAGE \<subseteq> UI_NODES \<and>
     (video \<longrightarrow> pubs g COMPRESSED_IMAGE \<noteq> {} \<and> subs g COMPRESSED_IMAGE \<noteq> {})"
  unfolding video_errors_def topic_endpoints_def pubs_def [symmetric] subs_def [symmetric] prod.case Let_def
  by (auto simp: subset_singleton_iff)

lemma validate_nil: "fst (validate_graph g ui video) = [] \<longleftrightarrow> graph_in_contract g ui video"
  unfolding validate_graph_def CORE_CONTRACTS_def graph_in_contract_def
  by (simp only: fst_conv list.map concat.simps append_is_Nil_conv append_Nil2 conj_assoc topic_contract.simps
      contract_errors_nil status_errors_nil video_errors_nil simp_thms)

lemma poll_nil:
  assumes "errors \<noteq> Some []" "sorted (map fst turns)"
  shows "graph_poll ui video deadline errors turns = Some [] \<longleftrightarrow>
    (\<exists>(now, g) \<in> set turns. now < deadline \<and> graph_in_contract g (ui \<or> video) video)"
  using assms
proof (induction ui video deadline errors turns rule: graph_poll.induct)
  case (2 ui video deadline errors now g turns)
  show ?case
  proof (cases "now < deadline")
    case True
    then show ?thesis
      using "2.IH" [OF True refl] "2.prems" validate_nil [of g "ui \<or> video" video] by (auto simp: Let_def)
  next
    case False
    then have "\<not> t < deadline" if "(t, h) \<in> set turns" for t h
      using that "2.prems"(2) by force
    then show ?thesis
      using False "2.prems"(1) by auto
  qed
qed simp

text \<open>C38: The check exits with code 0 exactly when some graph it polls before the deadline, which is at
  least half a second away, has on every topic exactly the publishers and subscribers of the contract,
  no foreign subscriber on the status and video topics, and the user interface where it is required.\<close>

theorem graph_check_passes_iff:
  assumes "sorted (map fst turns)"
  shows "graph_check_exit ui video started timeout turns = 0 \<longleftrightarrow>
    (\<exists>(now, g) \<in> set turns. now < started + max (1 / 2) timeout \<and> graph_in_contract g (ui \<or> video) video)"
  using poll_nil [of None turns ui video "started + max (1 / 2) timeout"] assms by (simp add: graph_check_exit_def)

definition demo_graph :: graph where
  "demo_graph =
     \<lparr>publishers_by_topic = (\<lambda>t.
        if t = RAW_IMAGE \<or> t = CAMERA_INFO then [(''zed_node'', ''/zedx'')]
        else if t = DETECTIONS then [(''apriltag_cuda_detector'', ''/'')]
        else if t = POSE then [(''apriltag_localization'', '''')]
        else if t = LOCALIZATION_STATUS then [(''ekf'', ''/'')] else []),
      subscriptions_by_topic = (\<lambda>t.
        if t = RAW_IMAGE then [(''apriltag_cuda_detector'', ''/'')]
        else if t = CAMERA_INFO then [(''apriltag_localization'', ''/''), (''apriltag_cuda_detector'', ''/'')]
        else if t = DETECTIONS then [(''apriltag_localization'', ''/'')]
        else if t = POSE then [(''ekf'', ''/'')]
        else if t = LOCALIZATION_STATUS then [(''web_operator'', ''/'')] else [])\<rparr>"

lemma demo_graph_in_contract: "graph_in_contract demo_graph True False"
  unfolding graph_in_contract_def pubs_def subs_def demo_graph_def
  by (auto simp: topic_names node_names UI_NODES_def endpoint_nodes_def full_node_name_def lstrip_slash_def strip_slash_def Let_def)

theorem graph_check_passes_iff_witness:
  "graph_check_exit True False 0 10 [(0, demo_graph)] = 0"
  using graph_check_passes_iff [of "[(0, demo_graph)]" True False 0 10] demo_graph_in_contract by simp

end
