(* ===== verification/Edge_Launch.thy ===== *)
theory Edge_Launch
  imports Graph_Check
begin

text \<open>
  The launch descriptions, \<^verbatim>\<open>robotcore_bringup/launch/{robotcore_edge_system,robotcore_pool_pid_control}.launch.py\<close>
  and \<^verbatim>\<open>robotcore_policy/launch/t60_policy_shadow.launch.py\<close>, as values: the list of actions in the order of the
  source.  What the launch library makes of a condition is the argument \<open>holds\<close>; \<open>share\<close> is the directory of an
  installed package, \<open>user\<close> the arguments given on the command line.
\<close>

section \<open>Launch descriptions\<close>

text \<open>A text with substitutions: \<^verbatim>\<open>LaunchConfiguration\<close> and a path below \<^verbatim>\<open>FindPackageShare\<close>.\<close>

datatype piece = Lit string | Configured string | Share string "string list"

type_synonym substitution = "piece list"

datatype value_type = AsInt | AsFloat | AsBool

datatype param_value =
    PText substitution
  | PTyped substitution value_type
  | PReal real
  | PInt int
  | PBool bool

datatype param = ParamFile substitution | ParamDict "(string \<times> param_value) list"

record launch_node =
  node_package :: string
  node_executable :: string
  node_name :: string
  node_prefix :: string
  node_condition :: "string option"
  node_parameters :: "param list"
  node_arguments :: "string list"

record component =
  comp_package :: string
  comp_plugin :: string
  comp_name :: string
  comp_parameters :: "param list"
  comp_remappings :: "(string \<times> substitution) list"
  comp_intra_process :: bool

datatype launch_action =
    DeclareArgument string substitution
  | SetEnvironment string string
  | StartNode launch_node
  | StartProcess "substitution list"
  | StartContainer launch_node "component list"
  | After real "launch_action list"

definition package_file :: "string \<Rightarrow> string list \<Rightarrow> substitution" where
  "package_file package path = [Share package path]"

definition launch_configuration :: "string \<Rightarrow> substitution" where
  "launch_configuration name = [Configured name]"

definition plain_node :: "string \<Rightarrow> string \<Rightarrow> string \<Rightarrow> string \<Rightarrow> string option \<Rightarrow> param list \<Rightarrow> launch_node" where
  "plain_node package executable name pre condition parameters =
     \<lparr>node_package = package, node_executable = executable, node_name = name, node_prefix = pre,
      node_condition = condition, node_parameters = parameters, node_arguments = []\<rparr>"

section \<open>The edge system\<close>

definition edge_arguments :: "launch_action list" where
  "edge_arguments =
     [DeclareArgument ''serial_port'' [Lit ''/dev/serial/by-id/usb-1a86_USB_Single_Serial_5B7A033320-if00''],
      DeclareArgument ''baud'' [Lit ''115200''],
      DeclareArgument ''imu_yaw_offset_deg'' [Lit ''0.0''],
      DeclareArgument ''front_camera_raw_topic'' [Lit ''/zedx/zed_node/rgb/color/rect/image''],
      DeclareArgument ''front_camera_info_topic'' [Lit ''/zedx/zed_node/rgb/color/rect/camera_info''],
      DeclareArgument ''enable_apriltag_localization'' [Lit ''true''],
      DeclareArgument ''enable_pool_tracking'' [Lit ''true''],
      DeclareArgument ''enable_rl_policy_runtime'' [Lit ''true''],
      DeclareArgument ''allow_rl_hardware'' [Lit ''true''],
      DeclareArgument ''rl_policy_model''
        (package_file ''robotcore_policy'' [''models'', ''t60_precision_v17_model_400'', ''policy.onnx'']),
      DeclareArgument ''apriltag_detections_topic'' [Lit ''/localization/apriltag/detections''],
      DeclareArgument ''enable_fixed_rate_state_estimator'' [Lit ''true''],
      DeclareArgument ''zed_workspace'' [Lit ''/home/nvidia/ros2_ws''],
      DeclareArgument ''zed_params_file'' (package_file ''robotcore_sensors'' [''config'', ''zedx_minimal_open.yaml'']),
      DeclareArgument ''localization_config'' (package_file ''robotcore_sensors'' [''config'', ''localization.yaml'']),
      DeclareArgument ''zed_serial_number'' [Lit ''50649148''],
      DeclareArgument ''zed_camera_id'' [Lit ''-1''],
      DeclareArgument ''apriltag_max_tags'' [Lit ''24''],
      DeclareArgument ''apriltag_tag_map_file'' [Lit ''/etc/robotcore/apriltag_map.json''],
      DeclareArgument ''thruster_command_timeout_ms'' [Lit ''150''],
      DeclareArgument ''pool_control_config'' (package_file ''robotcore_control'' [''config'', ''real_pool_safety.yaml'']),
      DeclareArgument ''thruster_config_path'' (package_file ''robotcore_control'' [''config'', ''real_pool_thrusters.yaml'']),
      DeclareArgument ''task_catalog_path'' (package_file ''robotcore_runtime'' [''config'', ''tracking_tasks.yaml'']),
      DeclareArgument ''recording_config_path'' (package_file ''robotcore_runtime'' [''config'', ''recording.yaml''])]"

definition camera_actions :: "launch_action list" where
  "camera_actions =
     [StartNode
        (plain_node ''tf2_ros'' ''static_transform_publisher'' ''base_to_zed_link''
           ''/usr/bin/taskset --cpu-list 7 /usr/bin/nice -n 19'' None []
         \<lparr>node_arguments := [''--x'', ''0.236'', ''--y'', ''0.027'', ''--z'', ''0.016'',
            ''--frame-id'', ''base_link'', ''--child-frame-id'', ''zedx_camera_link'']\<rparr>),
      StartProcess
        [[Lit ''/usr/bin/taskset''], [Lit ''--cpu-list''], [Lit ''4,5''], [Lit ''/usr/bin/bash''], [Lit ''-c''],
         [Lit ''source '', Configured ''zed_workspace'',
          Lit ''/install/setup.bash && exec ros2 launch zed_wrapper zed_camera.launch.py '',
          Lit ''camera_model:=zedxm camera_name:=zedx serial_number:='', Configured ''zed_serial_number'',
          Lit '' camera_id:='', Configured ''zed_camera_id'',
          Lit '' publish_urdf:=true publish_tf:=false publish_map_tf:=false '',
          Lit ''publish_imu_tf:=false enable_ipc:=false node_log_type:=screen '',
          Lit ''ros_params_override_path:='', Configured ''zed_params_file'']]]"

definition rgb_converter :: component where
  "rgb_converter =
     \<lparr>comp_package = ''isaac_ros_image_proc'', comp_plugin = ''nvidia::isaac_ros::image_proc::ImageFormatConverterNode'',
      comp_name = ''apriltag_rgb_converter'',
      comp_parameters = [ParamDict [(''encoding_desired'', PText [Lit ''rgb8'']), (''image_width'', PInt 960), (''image_height'', PInt 600)]],
      comp_remappings =
        [(''image_raw'', launch_configuration ''front_camera_raw_topic''), (''image'', [Lit ''/localization/apriltag/rgb_image''])],
      comp_intra_process = False\<rparr>"

definition tag_detector :: component where
  "tag_detector =
     \<lparr>comp_package = ''isaac_ros_apriltag'', comp_plugin = ''nvidia::isaac_ros::apriltag::AprilTagNode'',
      comp_name = ''apriltag_cuda_detector'',
      comp_parameters =
        [ParamDict [(''backends'', PText [Lit ''CUDA'']), (''tag_family'', PText [Lit ''tag36h11'']), (''size'', PReal (4 / 10)),
           (''max_tags'', PTyped (launch_configuration ''apriltag_max_tags'') AsInt), (''tile_size'', PInt 4)]],
      comp_remappings =
        [(''image'', [Lit ''/localization/apriltag/rgb_image'']), (''camera_info'', launch_configuration ''front_camera_info_topic''),
         (''tag_detections'', launch_configuration ''apriltag_detections_topic''), (''tf'', [Lit ''/localization/apriltag/raw_tf''])],
      comp_intra_process = False\<rparr>"

definition tag_localizer :: component where
  "tag_localizer =
     \<lparr>comp_package = ''robotcore_sensors'', comp_plugin = ''robotcore_sensors::AprilTagMapLocalizerComponent'',
      comp_name = ''apriltag_localization'',
      comp_parameters =
        [ParamFile (launch_configuration ''localization_config''),
         ParamDict [(''camera_info_topic'', PText (launch_configuration ''front_camera_info_topic'')),
           (''detections_topic'', PText (launch_configuration ''apriltag_detections_topic'')),
           (''tag_map_file'', PText (launch_configuration ''apriltag_tag_map_file''))]],
      comp_remappings = [], comp_intra_process = True\<rparr>"

definition detection_actions :: "launch_action list" where
  "detection_actions =
     [After 12
        [StartContainer
           (plain_node ''rclcpp_components'' ''component_container_mt'' ''apriltag_cuda_container''
              ''/usr/bin/taskset --cpu-list 6,7'' (Some ''enable_apriltag_localization'')
              [ParamDict [(''thread_num'', PInt 2)]])
           [rgb_converter, tag_detector, tag_localizer]]]"

definition estimator_actions :: "launch_action list" where
  "estimator_actions =
     [StartContainer
        (plain_node ''rclcpp_components'' ''component_container'' ''localization_estimator_container''
           ''/usr/bin/taskset --cpu-list 3'' (Some ''enable_fixed_rate_state_estimator'') [])
        [\<lparr>comp_package = ''robotcore_sensors'', comp_plugin = ''robotcore_sensors::VioTagFusionComponent'', comp_name = ''ekf'',
          comp_parameters = [ParamFile (launch_configuration ''localization_config''), ParamDict [(''executor_realtime_priority'', PInt 55)]],
          comp_remappings = [], comp_intra_process = True\<rparr>]]"

definition controller_actions :: "launch_action list" where
  "controller_actions =
     [StartNode (plain_node ''robotcore_runtime'' ''trajectory_command_node'' ''trajectory_command''
        ''/usr/bin/taskset --cpu-list 7 /usr/bin/nice -n 10'' (Some ''enable_pool_tracking'')
        [ParamFile (launch_configuration ''pool_control_config''), ParamDict [(''imu_topic'', PText [Lit ''/sensors/external_imu''])]]),
      StartNode (plain_node ''robotcore_runtime'' ''tracking_monitor_node'' ''tracking_monitor''
        ''/usr/bin/taskset --cpu-list 7 /usr/bin/nice -n 19'' (Some ''enable_pool_tracking'')
        [ParamDict [(''publish_rate_hz'', PReal 20)]]),
      StartNode (plain_node ''robotcore_control'' ''pid_controller'' ''pid_controller''
        ''/usr/bin/taskset --cpu-list 6'' (Some ''enable_pool_tracking'')
        [ParamFile (launch_configuration ''pool_control_config''),
         ParamDict [(''control_rate_hz'', PReal 50), (''imu_topic'', PText [Lit ''/sensors/external_imu''])]]),
      StartNode (plain_node ''robotcore_policy_cpp'' ''t60_policy'' ''t60_policy''
        ''/usr/bin/taskset --cpu-list 7'' (Some ''enable_rl_policy_runtime'')
        [ParamDict [(''policy_name'', PText [Lit ''t60_precision_v17_model_400'']), (''model_path'', PText (launch_configuration ''rl_policy_model'')),
           (''control_rate_hz'', PReal 25), (''max_input_age_s'', PReal (25 / 100)), (''executor_realtime_priority'', PInt 50),
           (''rate_damping_enabled'', PBool True), (''roll_rate_damping_gain_action_per_rps'', PReal (10 / 100)),
           (''pitch_rate_damping_gain_action_per_rps'', PReal (10 / 100)), (''rate_damping_action_limit'', PReal (8 / 100))]])]"

definition runtime_actions :: "string \<Rightarrow> launch_action list" where
  "runtime_actions run_root =
     [StartNode (plain_node ''robotcore_control_cpp'' ''command_authority'' ''command_authority''
        ''/usr/bin/taskset --cpu-list 2'' None
        [ParamFile (launch_configuration ''pool_control_config''),
         ParamDict [(''allow_rl_hardware'', PTyped (launch_configuration ''allow_rl_hardware'') AsBool), (''executor_realtime_priority'', PInt 65)]]),
      StartNode (plain_node ''robotcore_runtime'' ''tracking_experiment_node'' ''tracking_experiment''
        ''/usr/bin/taskset --cpu-list 7 /usr/bin/nice -n 19'' (Some ''enable_pool_tracking'')
        [ParamDict [(''task_catalog_path'', PText (launch_configuration ''task_catalog_path''))]]),
      StartNode (plain_node ''robotcore_runtime'' ''run_logger'' ''run_logger''
        ''/usr/bin/taskset --cpu-list 7 /usr/bin/nice -n 19'' (Some ''enable_pool_tracking'')
        [ParamDict [(''run_root'', PText [Lit run_root]), (''thruster_config_path'', PText (launch_configuration ''thruster_config_path'')),
           (''task_catalog_path'', PText (launch_configuration ''task_catalog_path'')),
           (''recording_config_path'', PText (launch_configuration ''recording_config_path'')),
           (''safety_config_path'', PText (launch_configuration ''pool_control_config''))]]),
      StartNode (plain_node ''robotcore_runtime'' ''safety_monitor'' ''safety_monitor''
        ''/usr/bin/taskset --cpu-list 2'' None []),
      StartNode (plain_node ''robotcore_hardware'' ''aboard_bridge_node'' ''aboard_bridge''
        ''/usr/bin/taskset --cpu-list 2'' None
        [ParamDict [(''serial_port'', PText (launch_configuration ''serial_port'')), (''baud'', PTyped (launch_configuration ''baud'') AsInt),
           (''imu_yaw_offset_deg'', PTyped (launch_configuration ''imu_yaw_offset_deg'') AsFloat),
           (''command_timeout_ms'', PTyped (launch_configuration ''thruster_command_timeout_ms'') AsInt),
           (''executor_realtime_priority'', PInt 65), (''serial_realtime_priority'', PInt 70), (''imu_realtime_priority'', PInt 60)]])]"

text \<open>\<open>environment\<close> is the value of \<^verbatim>\<open>ROBOTCORE_RUN_ROOT\<close>, \<open>cwd\<close> the working directory.\<close>

definition run_root :: "string option \<Rightarrow> string \<Rightarrow> string" where
  "run_root environment cwd = (case environment of Some r \<Rightarrow> r | None \<Rightarrow> cwd @ ''/data/robotcore_runs'')"

definition edge_system :: "string option \<Rightarrow> string \<Rightarrow> launch_action list" where
  "edge_system environment cwd =
     (let root = run_root environment cwd in
      edge_arguments @ [SetEnvironment ''ROBOTCORE_RUN_ROOT'' root] @ camera_actions @ detection_actions
      @ estimator_actions @ controller_actions @ runtime_actions root)"

section \<open>The pool control graph and the shadow policy\<close>

definition pool_pid_control :: "launch_action list" where
  "pool_pid_control =
     [DeclareArgument ''pool_control_config'' (package_file ''robotcore_control'' [''config'', ''real_pool_safety.yaml'']),
      DeclareArgument ''thruster_config_path'' (package_file ''robotcore_control'' [''config'', ''real_pool_thrusters.yaml'']),
      DeclareArgument ''task_catalog_path'' (package_file ''robotcore_runtime'' [''config'', ''tracking_tasks.yaml'']),
      DeclareArgument ''recording_config_path'' (package_file ''robotcore_runtime'' [''config'', ''recording.yaml'']),
      StartNode (plain_node ''robotcore_runtime'' ''safety_monitor'' ''safety_monitor'' '''' None []),
      StartNode (plain_node ''robotcore_runtime'' ''trajectory_command_node'' ''trajectory_command'' '''' None
        [ParamFile (launch_configuration ''pool_control_config'')]),
      StartNode (plain_node ''robotcore_control'' ''pid_controller'' ''pid_controller'' '''' None
        [ParamFile (launch_configuration ''pool_control_config'')]),
      StartNode (plain_node ''robotcore_control_cpp'' ''command_authority'' ''command_authority'' '''' None
        [ParamFile (launch_configuration ''pool_control_config'')]),
      StartNode (plain_node ''robotcore_runtime'' ''tracking_monitor_node'' ''tracking_monitor'' '''' None []),
      StartNode (plain_node ''robotcore_runtime'' ''tracking_experiment_node'' ''tracking_experiment'' '''' None
        [ParamDict [(''task_catalog_path'', PText (launch_configuration ''task_catalog_path''))]]),
      StartNode (plain_node ''robotcore_runtime'' ''run_logger'' ''run_logger'' '''' None
        [ParamDict [(''thruster_config_path'', PText (launch_configuration ''thruster_config_path'')),
           (''task_catalog_path'', PText (launch_configuration ''task_catalog_path'')),
           (''recording_config_path'', PText (launch_configuration ''recording_config_path'')),
           (''safety_config_path'', PText (launch_configuration ''pool_control_config''))]])]"

definition policy_shadow :: "launch_action list" where
  "policy_shadow =
     [DeclareArgument ''policy_manifest'' (package_file ''robotcore_policy'' [''models'', ''t60_precision_v17_model_400'', ''policy.yaml'']),
      StartNode (plain_node ''robotcore_policy'' ''body_policy_node'' ''t60_policy_shadow'' '''' None
        [ParamDict [(''policy_name'', PText [Lit ''t60_precision_v17_model_400'']), (''policy_path'', PText (launch_configuration ''policy_manifest'')),
           (''publish_rate_hz'', PReal 25)]])]"

section \<open>What a description starts\<close>

text \<open>
  The value of an argument is the user's or, failing that, its default; defaults only use package paths
  and literal text.
\<close>

fun piece_text :: "(string \<Rightarrow> string) \<Rightarrow> (string \<Rightarrow> string) \<Rightarrow> piece \<Rightarrow> string" where
  "piece_text share settings (Lit s) = s"
| "piece_text share settings (Configured name) = settings name"
| "piece_text share settings (Share package path) = share package @ concat (map (\<lambda>p. ''/'' @ p) path)"

definition text_of :: "(string \<Rightarrow> string) \<Rightarrow> (string \<Rightarrow> string) \<Rightarrow> substitution \<Rightarrow> string" where
  "text_of share settings s = concat (map (piece_text share settings) s)"

fun declared_arguments :: "launch_action list \<Rightarrow> (string \<times> substitution) list" where
  "declared_arguments [] = []"
| "declared_arguments (DeclareArgument name dflt # as) = (name, dflt) # declared_arguments as"
| "declared_arguments (_ # as) = declared_arguments as"

definition argument_values ::
    "(string \<Rightarrow> string) \<Rightarrow> (string \<Rightarrow> string option) \<Rightarrow> launch_action list \<Rightarrow> string \<Rightarrow> string" where
  "argument_values share user as name =
     (case user name of Some v \<Rightarrow> v
      | None \<Rightarrow> (case map_of (declared_arguments as) name of Some d \<Rightarrow> text_of share (\<lambda>_. '''') d | None \<Rightarrow> ''''))"

definition node_enabled :: "(string \<Rightarrow> bool) \<Rightarrow> (string \<Rightarrow> string) \<Rightarrow> launch_node \<Rightarrow> bool" where
  "node_enabled holds settings n = (case node_condition n of None \<Rightarrow> True | Some a \<Rightarrow> holds (settings a))"

text \<open>The processes of nodes and containers, and the components loaded.\<close>

fun started_nodes :: "(string \<Rightarrow> bool) \<Rightarrow> (string \<Rightarrow> string) \<Rightarrow> launch_action \<Rightarrow> launch_node list" where
  "started_nodes holds settings (StartNode n) = (if node_enabled holds settings n then [n] else [])"
| "started_nodes holds settings (StartContainer n cs) = (if node_enabled holds settings n then [n] else [])"
| "started_nodes holds settings (After t as) = concat (map (started_nodes holds settings) as)"
| "started_nodes holds settings _ = []"

fun loaded_components :: "(string \<Rightarrow> bool) \<Rightarrow> (string \<Rightarrow> string) \<Rightarrow> launch_action \<Rightarrow> component list" where
  "loaded_components holds settings (StartContainer n cs) = (if node_enabled holds settings n then cs else [])"
| "loaded_components holds settings (After t as) = concat (map (loaded_components holds settings) as)"
| "loaded_components holds settings _ = []"

text \<open>The topic a component uses for one of its own names, in the root namespace.\<close>

definition topic_of :: "(string \<Rightarrow> string) \<Rightarrow> (string \<Rightarrow> string) \<Rightarrow> component \<Rightarrow> string \<Rightarrow> string" where
  "topic_of share settings c name =
     (let t = (case map_of (comp_remappings c) name of None \<Rightarrow> name | Some s \<Rightarrow> text_of share settings s)
      in if take 1 t = ''/'' then t else ''/'' @ t)"

end
