(* ===== verification/Launch_Safety.thy ===== *)
theory Launch_Safety
  imports Edge_Launch
begin

text \<open>
  Properties of the launch descriptions: which processes run for which arguments, who shares the
  estimator's processor, what the graph check makes of the launched detector, and the rate of the
  shadow policy.
\<close>

section \<open>Processes\<close>

definition all_started :: "(string \<Rightarrow> bool) \<Rightarrow> (string \<Rightarrow> string) \<Rightarrow> launch_action list \<Rightarrow> launch_node list" where
  "all_started holds settings as = concat (map (started_nodes holds settings) as)"

definition all_loaded :: "(string \<Rightarrow> bool) \<Rightarrow> (string \<Rightarrow> string) \<Rightarrow> launch_action list \<Rightarrow> component list" where
  "all_loaded holds settings as = concat (map (loaded_components holds settings) as)"

lemma all_started_append [simp]:
  "all_started holds settings [] = []"
  "all_started holds settings (as @ bs) = all_started holds settings as @ all_started holds settings bs"
  "all_started holds settings (a # as) = started_nodes holds settings a @ all_started holds settings as"
  by (simp_all add: all_started_def)

lemma all_loaded_append [simp]:
  "all_loaded holds settings [] = []"
  "all_loaded holds settings (as @ bs) = all_loaded holds settings as @ all_loaded holds settings bs"
  "all_loaded holds settings (a # as) = loaded_components holds settings a @ all_loaded holds settings as"
  by (simp_all add: all_loaded_def)

lemma started_arguments [simp]: "all_started holds settings edge_arguments = []" "all_loaded holds settings edge_arguments = []"
  by (simp_all add: edge_arguments_def)

lemma started_parts:
  "map node_name (all_started holds settings camera_actions) = [''base_to_zed_link'']"
  "map node_name (all_started holds settings detection_actions) =
     (if holds (settings ''enable_apriltag_localization'') then [''apriltag_cuda_container''] else [])"
  "map node_name (all_started holds settings estimator_actions) =
     (if holds (settings ''enable_fixed_rate_state_estimator'') then [''localization_estimator_container''] else [])"
  "map node_name (all_started holds settings controller_actions) =
     (if holds (settings ''enable_pool_tracking'') then [''trajectory_command'', ''tracking_monitor'', ''pid_controller''] else [])
     @ (if holds (settings ''enable_rl_policy_runtime'') then [''t60_policy''] else [])"
  "map node_name (all_started holds settings (runtime_actions folder)) =
     [''command_authority''] @ (if holds (settings ''enable_pool_tracking'') then [''tracking_experiment'', ''run_logger''] else [])
     @ [''safety_monitor'', ''aboard_bridge'']"
  by (simp_all add: camera_actions_def detection_actions_def estimator_actions_def controller_actions_def runtime_actions_def
      plain_node_def node_enabled_def)

text \<open>Whatever the arguments of the edge launch, the authority arbiter, the safety monitor and the board
  bridge are started; trajectory node, tracking monitor, PID node, experiment node and run logger are
  started together or not at all; and no two started processes have the same name.\<close>

theorem edge_launch_processes:
  "let names = map node_name (all_started holds settings (edge_system environment cwd));
       tracking = {''trajectory_command'', ''tracking_monitor'', ''pid_controller'', ''tracking_experiment'', ''run_logger''}
   in distinct names \<and> {''command_authority'', ''safety_monitor'', ''aboard_bridge''} \<subseteq> set names \<and>
      tracking \<inter> set names = (if holds (settings ''enable_pool_tracking'') then tracking else {})"
  unfolding edge_system_def Let_def map_append all_started_append
  by (simp add: started_parts) auto

section \<open>Processors\<close>

fun fields_at :: "char \<Rightarrow> string \<Rightarrow> string list" where
  "fields_at d [] = [[]]"
| "fields_at d (c # cs) =
     (case fields_at d cs of w # ws \<Rightarrow> if c = d then [] # w # ws else (c # w) # ws | [] \<Rightarrow> [])"

text \<open>The processors after \<^verbatim>\<open>--cpu-list\<close> in a prefix.\<close>

definition cpu_list :: "string \<Rightarrow> string list" where
  "cpu_list command_prefix =
     (case dropWhile (\<lambda>w. w \<noteq> ''--cpu-list'') (fields_at (CHR '' '') command_prefix) of
        _ # cpus # _ \<Rightarrow> fields_at (CHR '','') cpus | _ \<Rightarrow> [])"

definition off_estimator_cpu :: "launch_node \<Rightarrow> bool" where
  "off_estimator_cpu n \<longleftrightarrow> cpu_list (node_prefix n) \<noteq> [] \<and>
     (''3'' \<in> set (cpu_list (node_prefix n)) \<longleftrightarrow> node_name n = ''localization_estimator_container'')"

text \<open>Every node process of the edge launch is bound to processors, and processor 3 is the estimator's
  alone, whatever the arguments.\<close>

theorem estimator_owns_processor:
  "list_all off_estimator_cpu (all_started holds settings (edge_system environment cwd))"
proof -
  have parts: "list_all off_estimator_cpu (all_started holds settings camera_actions)"
    "list_all off_estimator_cpu (all_started holds settings detection_actions)"
    "list_all off_estimator_cpu (all_started holds settings estimator_actions)"
    "list_all off_estimator_cpu (all_started holds settings controller_actions)"
    "list_all off_estimator_cpu (all_started holds settings (runtime_actions folder))" for folder
    by (simp_all add: camera_actions_def detection_actions_def estimator_actions_def controller_actions_def runtime_actions_def
        plain_node_def node_enabled_def off_estimator_cpu_def cpu_list_def)
  then show ?thesis
    by (simp add: edge_system_def Let_def)
qed

section \<open>The launched detector and the graph check\<close>

text \<open>
  A graph follows the launch when every loaded component subscribes only to topics its own names stand for;
  \<open>inputs\<close> are the names a component type subscribes to.
\<close>

definition follows_launch ::
    "(string \<Rightarrow> string) \<Rightarrow> (string \<Rightarrow> string) \<Rightarrow> (string \<Rightarrow> string set) \<Rightarrow> component list \<Rightarrow> graph \<Rightarrow> bool" where
  "follows_launch share settings inputs cs g \<longleftrightarrow>
     (\<forall>c \<in> set cs. \<forall>t. ''/'' @ comp_name c \<in> subs g t \<longrightarrow> (\<exists>name \<in> inputs (comp_plugin c). t = topic_of share settings c name))"

lemma loaded_detector:
  "holds (settings ''enable_apriltag_localization'') \<Longrightarrow> tag_detector \<in> set (all_loaded holds settings (edge_system environment cwd))"
  by (simp add: edge_system_def Let_def detection_actions_def plain_node_def node_enabled_def)

lemma detector_topics:
  "topic_of share settings tag_detector ''image'' = ''/localization/apriltag/rgb_image''"
  "topic_of share settings tag_detector ''camera_info'' =
     (if take 1 (settings ''front_camera_info_topic'') = ''/'' then settings ''front_camera_info_topic''
      else ''/'' @ settings ''front_camera_info_topic'')"
  by (simp_all add: topic_of_def tag_detector_def text_of_def launch_configuration_def Let_def)


definition launched_inputs :: "string \<Rightarrow> string set" where
  "launched_inputs plugin =
     (if plugin = ''nvidia::isaac_ros::apriltag::AprilTagNode'' then {''image'', ''camera_info''}
      else if plugin = ''nvidia::isaac_ros::image_proc::ImageFormatConverterNode'' then {''image_raw''}
      else {})"

text \<open>The image path of the launched graph: camera, converter, detector.\<close>

definition launched_graph :: graph where
  "launched_graph =
     \<lparr>publishers_by_topic = (\<lambda>t. if t = RAW_IMAGE then [(''zed_node'', ''/zedx'')] else []),
      subscriptions_by_topic = (\<lambda>t.
        if t = RAW_IMAGE then [(''apriltag_rgb_converter'', ''/'')]
        else if t = ''/localization/apriltag/rgb_image'' then [(''apriltag_cuda_detector'', ''/'')] else [])\<rparr>"

lemma default_topics:
  "argument_values share (\<lambda>_. None) (edge_system environment cwd) ''front_camera_info_topic'' = CAMERA_INFO"
  "argument_values share (\<lambda>_. None) (edge_system environment cwd) ''front_camera_raw_topic'' = RAW_IMAGE"
  "argument_values share (\<lambda>_. None) (edge_system environment cwd) ''enable_apriltag_localization'' = ''true''"
  by (simp_all add: argument_values_def edge_system_def edge_arguments_def Let_def text_of_def topic_names)

lemma launched_subs:
  "subs launched_graph t =
     (if t = RAW_IMAGE then {''/apriltag_rgb_converter''}
      else if t = ''/localization/apriltag/rgb_image'' then {''/apriltag_cuda_detector''} else {})"
  by (simp add: subs_def launched_graph_def endpoint_nodes_def full_node_name_def lstrip_slash_def Let_def)

lemma loaded_names:
  "c \<in> set (all_loaded holds settings (edge_system environment cwd)) \<Longrightarrow>
     c = rgb_converter \<or> c = tag_detector \<or> comp_name c \<in> {''apriltag_localization'', ''ekf''}"
  by (auto simp: edge_system_def Let_def camera_actions_def detection_actions_def estimator_actions_def controller_actions_def
      runtime_actions_def tag_localizer_def split: if_splits)

lemma launched_follows:
  assumes "settings ''front_camera_raw_topic'' = RAW_IMAGE"
  shows "follows_launch share settings launched_inputs (all_loaded holds settings (edge_system environment cwd)) launched_graph"
proof -
  have "topic_of share settings rgb_converter ''image_raw'' = RAW_IMAGE"
    using assms by (simp add: topic_of_def rgb_converter_def text_of_def launch_configuration_def Let_def RAW_IMAGE_def)
  then have "\<exists>name \<in> launched_inputs (comp_plugin c). t = topic_of share settings c name"
    if "c \<in> set (all_loaded holds settings (edge_system environment cwd))" "''/'' @ comp_name c \<in> subs launched_graph t" for c t
    using loaded_names [OF that(1)] that(2) detector_topics(1) [of share "settings"]
    by (auto simp: launched_subs launched_inputs_def rgb_converter_def tag_detector_def RAW_IMAGE_def split: if_splits)
  then show ?thesis
    by (auto simp: follows_launch_def)
qed


section \<open>The rate of the shadow policy\<close>

fun dict_parameter :: "string \<Rightarrow> param list \<Rightarrow> param_value option" where
  "dict_parameter key [] = None"
| "dict_parameter key (ParamDict d # ps) =
     (case dict_parameter key ps of Some v \<Rightarrow> Some v | None \<Rightarrow> map_of d key)"
| "dict_parameter key (_ # ps) = dict_parameter key ps"

definition launched_parameter :: "launch_action list \<Rightarrow> string \<Rightarrow> string \<Rightarrow> param_value option" where
  "launched_parameter as name key =
     (case filter (\<lambda>n. node_name n = name) (all_started (\<lambda>_. True) (\<lambda>_. '''') as) of
        n # _ \<Rightarrow> dict_parameter key (node_parameters n) | [] \<Rightarrow> None)"

text \<open>The shadow policy runs at 25 Hz with every manifest, and installing a policy into it never raises,
  even when the control rate of the manifest is not a number.\<close>

theorem shadow_policy_rate:
  assumes "launched_parameter policy_shadow ''t60_policy_shadow'' ''publish_rate_hz'' = Some (PReal (publish_rate_hz n))"
  shows "policy_rate_hz parse n = Inr (Fin 25) \<and>
    (\<exists>n' response. on_set_policy parse create loaded activate name path n = Inr (n', response) \<and>
       policy_rate_hz parse n' = Inr (Fin 25))"
proof -
  have r: "publish_rate_hz n = 25"
    using assms by (simp add: launched_parameter_def policy_shadow_def plain_node_def node_enabled_def)
  have l: "publish_rate_hz (load_policy parse create loaded name path n) = 25"
    by (simp add: load_policy_def r Let_def split: sum.split prod.split)
  show ?thesis
    by (simp add: policy_rate_hz_def on_set_policy_def r l Let_def)
qed

definition shadow_node :: "unit policy_node" where
  "shadow_node =
     \<lparr>manifest = invalid_manifest ''t60'' ''policy.yaml'', runner = None, load_error = '''', pbuilder = new_builder [body_topic] 1000000000,
      state_delay_ns = 0, body_state_history = [], external_imu_history = [], inference_count = 0, last_input_ready = False,
      last_runtime_error = '''', io_path = False, publish_rate_hz = 25\<rparr>"

text \<open>A manifest whose control rate is a text.\<close>

definition textual_rate :: policy_manifest where
  "textual_rate = (invalid_manifest ''t60'' ''policy.yaml'')
     \<lparr>pm_isaac_contract := [(YStr ''control_rate_hz'', YStr ''fast'')]\<rparr>"

theorem shadow_policy_rate_witness:
  "\<exists>n' response. on_set_policy (\<lambda>_. None) (\<lambda>_. Inr ()) (Inr textual_rate) True ''t60'' ''policy.yaml'' shadow_node = Inr (n', response) \<and>
     policy_rate_hz (\<lambda>_. None) n' = Inr (Fin 25)"
proof -
  have "launched_parameter policy_shadow ''t60_policy_shadow'' ''publish_rate_hz'' = Some (PReal (publish_rate_hz shadow_node))"
    by (simp add: launched_parameter_def policy_shadow_def plain_node_def node_enabled_def shadow_node_def)
  from shadow_policy_rate [OF this] show ?thesis
    by blast
qed

end
