(* ===== verification/Sample_Arrays.thy ===== *)
theory Sample_Arrays
  imports Ros_Interface
begin

text \<open>
  The numpy, \<^verbatim>\<open>statistics\<close> and builtin operations on recorded samples that the measuring scripts
  share: differences, median, the maximum of floats that may be non-finite, phase unwrapping, the
  moving average of \<^verbatim>\<open>np.convolve\<close> and the derivative of \<^verbatim>\<open>np.gradient\<close>.
\<close>

section \<open>Arithmetic on floats that may be non-finite\<close>

fun flt_neg :: "pyfloat \<Rightarrow> pyfloat" where
  "flt_neg (Fin x) = Fin (- x)"
| "flt_neg PInf = NInf"
| "flt_neg NInf = PInf"
| "flt_neg NaN = NaN"

fun flt_add :: "pyfloat \<Rightarrow> pyfloat \<Rightarrow> pyfloat" where
  "flt_add (Fin x) (Fin y) = Fin (x + y)"
| "flt_add NaN _ = NaN"
| "flt_add _ NaN = NaN"
| "flt_add PInf NInf = NaN"
| "flt_add NInf PInf = NaN"
| "flt_add PInf _ = PInf"
| "flt_add NInf _ = NInf"
| "flt_add _ v = v"

fun flt_sign :: "pyfloat \<Rightarrow> real" where
  "flt_sign (Fin x) = sgn x"
| "flt_sign PInf = 1"
| "flt_sign NInf = - 1"
| "flt_sign NaN = 0"

fun flt_mult :: "pyfloat \<Rightarrow> pyfloat \<Rightarrow> pyfloat" where
  "flt_mult (Fin x) (Fin y) = Fin (x * y)"
| "flt_mult a b =
     (let s = flt_sign a * flt_sign b in
      if a = NaN \<or> b = NaN \<or> s = 0 then NaN else if 0 < s then PInf else NInf)"

definition flt_sub :: "pyfloat \<Rightarrow> pyfloat \<Rightarrow> pyfloat" where
  "flt_sub a b = flt_add a (flt_neg b)"

text \<open>\<^verbatim>\<open>np.sqrt\<close>, \<^verbatim>\<open>np.sum\<close>, \<^verbatim>\<open>np.mean\<close>, and \<^verbatim>\<open>np.max\<close>, which is NaN as soon as one value is.\<close>

fun flt_sqrt :: "pyfloat \<Rightarrow> pyfloat" where
  "flt_sqrt (Fin x) = (if 0 \<le> x then Fin (sqrt x) else NaN)"
| "flt_sqrt PInf = PInf"
| "flt_sqrt _ = NaN"

definition flt_sum :: "pyfloat list \<Rightarrow> pyfloat" where
  "flt_sum xs = foldr flt_add xs (Fin 0)"

definition flt_mean :: "pyfloat list \<Rightarrow> pyfloat" where
  "flt_mean xs = (if xs = [] then NaN else flt_scale (1 / real (length xs)) (flt_sum xs))"

fun flt_abs :: "pyfloat \<Rightarrow> pyfloat" where
  "flt_abs (Fin x) = Fin \<bar>x\<bar>"
| "flt_abs NaN = NaN"
| "flt_abs _ = PInf"

text \<open>The builtin \<^verbatim>\<open>max\<close> over an iterable: a later element wins only when it compares greater.\<close>

definition flt_maximum :: "pyfloat list \<Rightarrow> pyfloat" where
  "flt_maximum xs = foldl flt_max (hd xs) (tl xs)"

definition flt_amax :: "pyfloat list \<Rightarrow> pyfloat" where
  "flt_amax xs = (if NaN \<in> set xs then NaN else flt_maximum xs)"

lemma flt_add_Fin_iff: "flt_add a b = Fin s \<longleftrightarrow> (\<exists>x y. a = Fin x \<and> b = Fin y \<and> s = x + y)"
  by (cases a; cases b) auto

lemma flt_sum_Fin_iff: "flt_sum xs = Fin s \<longleftrightarrow> (\<exists>ys. xs = map Fin ys \<and> s = sum_list ys)"
proof (induction xs arbitrary: s)
  case (Cons x xs)
  have "flt_sum (x # xs) = Fin s \<longleftrightarrow> (\<exists>a b. x = Fin a \<and> flt_sum xs = Fin b \<and> s = a + b)"
    by (simp add: flt_sum_def flt_add_Fin_iff)
  also have "\<dots> \<longleftrightarrow> (\<exists>a ys. x = Fin a \<and> xs = map Fin ys \<and> s = a + sum_list ys)"
    unfolding Cons.IH by blast
  also have "\<dots> \<longleftrightarrow> (\<exists>zs. x # xs = map Fin zs \<and> s = sum_list zs)"
  proof
    assume "\<exists>a ys. x = Fin a \<and> xs = map Fin ys \<and> s = a + sum_list ys"
    then obtain a ys where "x = Fin a" "xs = map Fin ys" "s = a + sum_list ys"
      by blast
    then show "\<exists>zs. x # xs = map Fin zs \<and> s = sum_list zs"
      by (intro exI [of _ "a # ys"]) simp
  next
    assume "\<exists>zs. x # xs = map Fin zs \<and> s = sum_list zs"
    then show "\<exists>a ys. x = Fin a \<and> xs = map Fin ys \<and> s = a + sum_list ys"
      by (auto simp: Cons_eq_map_conv)
  qed
  finally show ?case .
qed (auto simp: flt_sum_def)

lemma flt_sum_Fin [simp]: "flt_sum (map Fin ys) = Fin (sum_list ys)"
  by (auto simp: flt_sum_Fin_iff)

lemma flt_mean_Fin_iff: "flt_mean xs = Fin m \<longleftrightarrow> (\<exists>ys. ys \<noteq> [] \<and> xs = map Fin ys \<and> m = np_mean ys)"
proof -
  have "flt_mean xs = Fin m \<longleftrightarrow> xs \<noteq> [] \<and> (\<exists>s. flt_sum xs = Fin s \<and> m = s / real (length xs))"
    by (cases "flt_sum xs") (auto simp: flt_mean_def)
  also have "\<dots> \<longleftrightarrow> (\<exists>ys. ys \<noteq> [] \<and> xs = map Fin ys \<and> m = np_mean ys)"
    by (auto simp: flt_sum_Fin_iff np_mean_def)
  finally show ?thesis .
qed

section \<open>Order statistics\<close>

text \<open>\<^verbatim>\<open>np.diff\<close>.\<close>

definition np_diff :: "real list \<Rightarrow> real list" where
  "np_diff xs = map2 (\<lambda>a b. b - a) (butlast xs) (tl xs)"

text \<open>\<^verbatim>\<open>np.median\<close> and \<^verbatim>\<open>statistics.median\<close> of a non-empty list of numbers.\<close>

definition np_median :: "real list \<Rightarrow> real" where
  "np_median xs = (let s = sort xs; n = length xs in
     if odd n then s ! (n div 2) else (s ! (n div 2 - 1) + s ! (n div 2)) / 2)"

lemma length_np_diff [simp]: "length (np_diff xs) = length xs - 1"
  by (simp add: np_diff_def)

lemma np_diff_nth: "Suc i < length xs \<Longrightarrow> np_diff xs ! i = xs ! Suc i - xs ! i"
  by (simp add: np_diff_def nth_butlast nth_tl)

lemma np_median_between:
  assumes "xs \<noteq> []" "\<And>x. x \<in> set xs \<Longrightarrow> a \<le> x \<and> x \<le> b"
  shows "a \<le> np_median xs \<and> np_median xs \<le> b"
proof -
  let ?s = "sort xs" and ?n = "length xs"
  have e: "a \<le> ?s ! i \<and> ?s ! i \<le> b" if "i < ?n" for i
    using assms(2) [of "?s ! i"] nth_mem [of i ?s] that by simp
  have i: "?n div 2 < ?n" "?n div 2 - 1 < ?n"
    using assms(1) by (cases xs; simp)+
  show ?thesis
    using e [OF i(1)] e [OF i(2)] by (simp add: np_median_def Let_def field_simps)
qed

lemma np_median_single [simp]: "np_median [x] = x"
  by (simp add: np_median_def)

lemma flt_maximum_le:
  assumes "flt_le (flt_maximum xs) (Fin m)" "x \<in> set xs" "isfinite x" "flt_maximum xs \<noteq> NaN"
  shows "flt_le x (Fin m)"
proof -
  have g: "flt_le a v" if "foldl flt_max a ys = v" "v \<noteq> NaN" for a ys v
    using that
  proof (induction ys arbitrary: a)
    case Nil
    then show ?case by (cases v) auto
  next
    case (Cons y ys)
    then have "flt_le (flt_max a y) v"
      by (metis foldl_Cons)
    then show ?case
      using Cons.prems by (cases a; cases y; cases v) (auto simp: flt_max_def split: if_splits)
  qed
  have m: "flt_le x v" if "foldl flt_max a ys = v" "v \<noteq> NaN" "x \<in> set ys" for a ys v
    using that
  proof (induction ys arbitrary: a)
    case (Cons y ys)
    show ?case
    proof (cases "x = y")
      case True
      have "flt_le (flt_max a y) v"
        using g [of "flt_max a y" ys v] Cons.prems by simp
      moreover have "a \<noteq> NaN"
      proof
        assume "a = NaN"
        then have "foldl flt_max NaN (y # ys) = v"
          using Cons.prems by simp
        moreover have "foldl flt_max NaN zs = NaN" for zs
          by (induction zs) (simp_all add: flt_max_def)
        ultimately show False
          using Cons.prems(2) by metis
      qed
      ultimately show ?thesis
        using True assms(3) by (cases a; cases y; cases v) (auto simp: flt_max_def split: if_splits)
    next
      case False
      then show ?thesis
        using Cons.IH [of "flt_max a y"] Cons.prems by simp
    qed
  qed simp
  have "flt_le x (flt_maximum xs)"
  proof (cases xs)
    case Nil
    then show ?thesis using assms(2) by simp
  next
    case (Cons y ys)
    then show ?thesis
      using assms(2,4) g [of y ys] m [of y ys] by (auto simp: flt_maximum_def)
  qed
  then show ?thesis
    using assms(1,3) by (cases x; cases "flt_maximum xs") auto
qed

section \<open>Signals\<close>

text \<open>
  \<^verbatim>\<open>np.unwrap\<close>: a jump of at least half a turn is replaced by its equivalent in the half-open turn
  around zero, a jump of exactly half a turn upwards stays upwards, and the corrections add up.
\<close>

definition unwrap_correction :: "real \<Rightarrow> real" where
  "unwrap_correction dd =
     (let w = dd + pi - 2 * pi * of_int \<lfloor>(dd + pi) / (2 * pi)\<rfloor> - pi;
          ddmod = (if w = - pi \<and> 0 < dd then pi else w)
      in if \<bar>dd\<bar> < pi then 0 else ddmod - dd)"

fun running_sums :: "real \<Rightarrow> real list \<Rightarrow> real list" where
  "running_sums acc [] = []"
| "running_sums acc (x # xs) = (acc + x) # running_sums (acc + x) xs"

definition unwrap_numbers :: "real list \<Rightarrow> real list" where
  "unwrap_numbers p = vadd p (0 # running_sums 0 (map unwrap_correction (np_diff p)))"

text \<open>
  A value that is not finite makes every later correction, hence every later result, NaN.
\<close>

definition np_unwrap :: "pyfloat list \<Rightarrow> pyfloat list" where
  "np_unwrap p =
     (let pre = takeWhile isfinite p in
      map Fin (unwrap_numbers (map fval pre)) @ replicate (length p - length pre) NaN)"

text \<open>
  \<^verbatim>\<open>np.convolve(xs, np.ones(w) / w, mode="same")\<close> for an odd window no longer than the samples: the
  mean over the window centred at the sample, with zeros beyond the ends.
\<close>

definition moving_average :: "nat \<Rightarrow> real list \<Rightarrow> real list" where
  "moving_average w xs =
     map (\<lambda>i. sum_list (map (\<lambda>k. xs ! k) [i - w div 2 ..< min (length xs) (i + w div 2 + 1)]) / real w)
       [0..<length xs]"

text \<open>\<^verbatim>\<open>np.gradient(f, t)\<close> for samples at uneven times: second order inside, first order at the ends.\<close>

definition np_gradient :: "real list \<Rightarrow> real list \<Rightarrow> real list" where
  "np_gradient f t =
     map (\<lambda>i. if i = 0 then (f ! 1 - f ! 0) / (t ! 1 - t ! 0)
              else if Suc i = length f then (f ! i - f ! (i - 1)) / (t ! i - t ! (i - 1))
              else let hs = t ! i - t ! (i - 1); hd = t ! Suc i - t ! i
                   in - hd / (hs * (hd + hs)) * f ! (i - 1) + (hd - hs) / (hd * hs) * f ! i
                      + hs / (hd * (hd + hs)) * f ! Suc i)
       [0..<length f]"

lemma length_running_sums [simp]: "length (running_sums acc xs) = length xs"
  by (induction xs arbitrary: acc) auto

lemma length_unwrap_numbers [simp]: "length (unwrap_numbers p) = length p"
  by (cases p) (simp_all add: unwrap_numbers_def)

lemma length_np_unwrap [simp]: "length (np_unwrap p) = length p"
  using length_takeWhile_le [of isfinite p] by (simp add: np_unwrap_def Let_def)

lemma length_moving_average [simp]: "length (moving_average w xs) = length xs"
  by (simp add: moving_average_def)

lemma length_np_gradient [simp]: "length (np_gradient f t) = length f"
  by (simp add: np_gradient_def)

text \<open>The correction is a whole number of turns and leaves a jump of at most half a turn.\<close>

lemma unwrap_correction_turns: "\<exists>k. unwrap_correction dd = 2 * pi * of_int k"
proof -
  let ?q = "\<lfloor>(dd + pi) / (2 * pi)\<rfloor>"
  have "unwrap_correction dd = 2 * pi * of_int 0 \<or> unwrap_correction dd = 2 * pi * of_int (- ?q) \<or>
      unwrap_correction dd = 2 * pi * of_int (1 - ?q)"
  proof (cases "\<bar>dd\<bar> < pi")
    case True
    then show ?thesis by (simp add: unwrap_correction_def)
  next
    case False
    define w where "w = dd + pi - 2 * pi * of_int ?q - pi"
    have "unwrap_correction dd = (if w = - pi \<and> 0 < dd then pi else w) - dd"
      using False unfolding unwrap_correction_def w_def Let_def by (simp only: if_False)
    then show ?thesis
      by (auto simp: w_def algebra_simps split: if_splits)
  qed
  then show ?thesis
    by blast
qed

lemma unwrap_correction_small: "\<bar>dd + unwrap_correction dd\<bar> \<le> pi"
proof (cases "\<bar>dd\<bar> < pi")
  case True
  then show ?thesis by (simp add: unwrap_correction_def)
next
  case False
  define f where "f = frac ((dd + pi) / (2 * pi))"
  have f: "0 \<le> f" "f < 1"
    by (auto simp: f_def frac_lt_1)
  have "dd + pi - 2 * pi * of_int \<lfloor>(dd + pi) / (2 * pi)\<rfloor> = 2 * pi * f"
    by (simp add: f_def frac_def field_simps)
  then have c: "dd + unwrap_correction dd = (if 2 * pi * f - pi = - pi \<and> 0 < dd then pi else 2 * pi * f - pi)"
    using False by (simp add: unwrap_correction_def Let_def)
  have "0 \<le> 2 * pi * f" "2 * pi * f \<le> 2 * pi"
    using f by (simp_all add: mult_left_le)
  then show ?thesis
    unfolding c by (simp only: abs_le_iff split: if_split) linarith
qed

lemma running_sums_step: "Suc i < length xs \<Longrightarrow> running_sums acc xs ! Suc i = running_sums acc xs ! i + xs ! Suc i"
  by (induction xs arbitrary: acc i) (auto simp: nth_Cons split: nat.splits, metis One_nat_def add_cancel_left_right length_greater_0_conv running_sums.simps(2) neq_Nil_conv nth_Cons_0)

lemma unwrap_step:
  assumes "Suc i < length p"
  shows "unwrap_numbers p ! Suc i - unwrap_numbers p ! i =
    (p ! Suc i - p ! i) + unwrap_correction (p ! Suc i - p ! i)"
proof -
  let ?c = "map unwrap_correction (np_diff p)"
  have l: "length ?c = length p - 1"
    by simp
  have u: "unwrap_numbers p ! k = p ! k + (0 # running_sums 0 ?c) ! k" if "k < length p" for k
    using that by (simp add: unwrap_numbers_def vadd_def)
  have "(0 # running_sums 0 ?c) ! Suc i - (0 # running_sums 0 ?c) ! i = ?c ! i"
  proof (cases i)
    case 0
    then have "?c \<noteq> []"
      using assms by (metis l length_0_conv diff_is_0_eq not_less_eq_eq zero_less_Suc not_le One_nat_def)
    then show ?thesis
      using 0 by (cases ?c) auto
  next
    case (Suc j)
    then show ?thesis
      using assms running_sums_step [of j ?c 0] l by simp
  qed
  then show ?thesis
    using assms u [of i] u [of "Suc i"] by (simp add: np_diff_nth)
qed

lemma unwrap_continuous:
  "Suc i < length p \<Longrightarrow> \<bar>unwrap_numbers p ! Suc i - unwrap_numbers p ! i\<bar> \<le> pi"
  using unwrap_step [of i p] unwrap_correction_small [of "p ! Suc i - p ! i"] by simp

lemma np_unwrap_after_gap:
  "j < length p \<Longrightarrow> i \<le> j \<Longrightarrow> \<not> isfinite (p ! i) \<Longrightarrow> np_unwrap p ! j = NaN"
proof -
  assume a: "j < length p" "i \<le> j" "\<not> isfinite (p ! i)"
  have "length (takeWhile isfinite p) \<le> i"
  proof (rule ccontr)
    assume "\<not> length (takeWhile isfinite p) \<le> i"
    then have "i < length (takeWhile isfinite p)"
      by simp
    then show False
      using a(3) set_takeWhileD [of "takeWhile isfinite p ! i" isfinite p] nth_mem takeWhile_nth [of i isfinite p]
      by metis
  qed
  then show ?thesis
    using a(1,2) by (simp add: np_unwrap_def Let_def nth_append)
qed

end
