(* ===== verification/Decay_Test.thy ===== *)
theory Decay_Test
  imports Sample_Arrays Quaternion_Math
begin

text \<open>
  \<^verbatim>\<open>scripts/robotcore_restoring_decay_test.py\<close>: the passive capture of a free roll or pitch decay from
  the IMU, gated on a disarmed authority and neutral thrusters, and the fit of the restoring and
  damping coefficients.  The options of the command line are finite numbers.  The order that
  \<^verbatim>\<open>np.argsort\<close> gives to equal times and the solver \<^verbatim>\<open>np.linalg.lstsq\<close> are parameters of the fit; the
  CSV and JSON files are not modelled.
\<close>

section \<open>Axis angle and filter window\<close>

datatype decay_axis = Roll | Pitch

definition quaternion_to_axis_angle :: "quaternion_msg \<Rightarrow> decay_axis \<Rightarrow> exc + real" where
  "quaternion_to_axis_angle q axis =
     (let components = [qx q, qy q, qz q, qw q];
          norm = np_norm (map fval components)
      in if \<not> list_all isfinite components \<or> norm < 1 / 10 ^ 9 then Inl (ValueError ''invalid IMU quaternion'')
         else let x = fval (qx q) / norm; y = fval (qy q) / norm;
                  z = fval (qz q) / norm; w = fval (qw q) / norm
              in if axis = Roll
                 then Inr (atan2 (2 * (w * x + y * z)) (1 - 2 * (x * x + y * y)))
                 else Inr (arcsin (max (- 1) (min 1 (2 * (w * y - z * x))))))"

text \<open>\<^verbatim>\<open>round\<close>: to the nearest integer, halves to the even one.\<close>

definition py_round :: "real \<Rightarrow> int" where
  "py_round x = (let f = \<lfloor>x\<rfloor>; d = x - of_int f in
     if d < 1 / 2 then f else if 1 / 2 < d then f + 1 else if even f then f else f + 1)"

definition odd_window :: "real \<Rightarrow> real \<Rightarrow> int \<Rightarrow> int" where
  "odd_window duration median_dt sample_count =
     (let window0 = max 5 (py_round (duration / median_dt));
          window = (if window0 mod 2 = 0 then window0 + 1 else window0);
          maximum = (if sample_count mod 2 \<noteq> 0 then sample_count - 2 else sample_count - 3)
      in max 3 (min window maximum))"

section \<open>The fit\<close>

record decay_fit =
  sample_count :: nat
  fit_sample_count :: nat
  sample_rate_hz :: real
  equilibrium_angle_deg :: real
  linear_damping_over_inertia :: real
  quadratic_damping_over_inertia :: real
  restoring_over_inertia :: real
  angular_acceleration_bias :: real
  natural_frequency :: pyfloat
  linearized_damping_ratio :: pyfloat
  fit_r_squared :: pyfloat
  effective_inertia :: "pyfloat option"
  linear_damping :: "real option"
  quadratic_damping :: "real option"
  restoring_torque :: "real option"

type_synonym decay_row = "real \<times> real \<times> real"

text \<open>The rows whose time, angle and rate are finite; their numbers.\<close>

definition finite_rows :: "pyfloat list \<Rightarrow> pyfloat list \<Rightarrow> pyfloat list \<Rightarrow> decay_row list" where
  "finite_rows t angle rate =
     map (\<lambda>(a, b, c). (fval a, fval b, fval c))
       (filter (\<lambda>(a, b, c). isfinite a \<and> isfinite b \<and> isfinite c) (zip t (zip angle rate)))"

text \<open>\<^verbatim>\<open>rows[np.concatenate(([True], np.diff(t) > 1e-6))]\<close>: the mask is one longer than no rows at all.\<close>

definition distinct_rows :: "decay_row list \<Rightarrow> exc + decay_row list" where
  "distinct_rows rows =
     (if rows = [] then Inl (IndexError ''boolean index did not match'')
      else Inr (map fst (filter snd (zip rows (True # map (\<lambda>d. d > 1 / 10 ^ 6) (np_diff (map fst rows)))))))"

text \<open>The lines of the design matrix and its product with the coefficients.\<close>

definition design_row :: "real \<Rightarrow> real \<Rightarrow> real list" where
  "design_row omega theta = [- omega, - \<bar>omega\<bar> * omega, - sin theta, 1]"

definition radians :: "real \<Rightarrow> real" where
  "radians deg = deg * pi / 180"

definition degrees :: "real \<Rightarrow> real" where
  "degrees r = r * 180 / pi"

definition usable_samples :: "decay_row list \<Rightarrow> real list \<Rightarrow> nat \<Rightarrow> nat list" where
  "usable_samples rows theta window =
     (let edge = window div 2 + 1; n = length rows in
      filter (\<lambda>i. edge \<le> i \<and> i < n - edge \<and> fst (rows ! i) \<ge> fst (rows ! 0) + 1 / 10 \<and> \<bar>theta ! i\<bar> \<ge> radians 2) [0..<n])"

definition fit_decay ::
    "(real list \<Rightarrow> nat list) \<Rightarrow> (real list list \<Rightarrow> real list \<Rightarrow> real list \<times> nat) \<Rightarrow>
     pyfloat list \<Rightarrow> pyfloat list \<Rightarrow> pyfloat list \<Rightarrow> pyfloat option \<Rightarrow> exc + decay_fit" where
  "fit_decay argsort lstsq stamps angles rates inertia =
     (let angle = np_unwrap angles in
      if length stamps < 80 \<or> length angle \<noteq> length stamps \<or> length rates \<noteq> length stamps
      then Inl (ValueError ''at least 80 equally sized time/angle/rate samples are required'')
      else let finite = finite_rows stamps angle rates;
               sorted = map (\<lambda>i. finite ! i) (argsort (map fst finite))
      in ebind (distinct_rows sorted) (\<lambda>rows.
      if length rows < 80 then Inl (ValueError ''too few distinct finite samples'')
      else let t = map fst rows; n = length rows; dt = np_diff t; median_dt = np_median dt in
      if median_dt \<le> 0 \<or> np_max dt > max (1 / 10) (5 * median_dt)
      then Inl (ValueError ''sample timestamps contain a large gap'')
      else let tail_start = last t - min 2 (1 / 4 * (last t - hd t));
               equilibrium = np_median (map (\<lambda>r. fst (snd r)) (filter (\<lambda>r. fst r \<ge> tail_start) rows));
               theta = map (\<lambda>r. fst (snd r) - equilibrium) rows;
               window = nat (odd_window (8 / 100) median_dt (int n));
               smooth_rate = moving_average window (map (\<lambda>r. snd (snd r)) rows);
               angular_acceleration = np_gradient smooth_rate t;
               usable = usable_samples rows theta window
      in if length usable < 50 then Inl (ValueError ''not enough moving free-decay data after filtering'')
      else let design = map (\<lambda>i. design_row (smooth_rate ! i) (theta ! i)) usable;
               response = map (\<lambda>i. angular_acceleration ! i) usable;
               (coefficients, rank) = lstsq design response
      in if rank < 4 then Inl (ValueError ''free-decay data do not excite all fitted coefficients'')
      else let residual = vsub response (map (\<lambda>row. np_dot row coefficients) design);
               denominator = np_sum (map (\<lambda>v. (v - np_mean response)\<^sup>2) response);
               r_squared = (if denominator > 0 then Fin (1 - np_sum (map (\<lambda>v. v\<^sup>2) residual) / denominator) else NaN);
               c = coefficients ! 0; q = coefficients ! 1; k = coefficients ! 2; bias = coefficients ! 3;
               result =
                 \<lparr>sample_count = n, fit_sample_count = length usable, sample_rate_hz = 1 / median_dt,
                  equilibrium_angle_deg = degrees equilibrium,
                  linear_damping_over_inertia = c, quadratic_damping_over_inertia = q,
                  restoring_over_inertia = k, angular_acceleration_bias = bias,
                  natural_frequency = (if k > 0 then Fin (sqrt k) else NaN),
                  linearized_damping_ratio = (if k > 0 then Fin (c / (2 * sqrt k)) else NaN),
                  fit_r_squared = r_squared, effective_inertia = inertia,
                  linear_damping = None, quadratic_damping = None, restoring_torque = None\<rparr>
      in case inertia of None \<Rightarrow> Inr result
         | Some i \<Rightarrow>
             if \<not> isfinite i \<or> fval i \<le> 0 then Inl (ValueError ''effective inertia must be positive'')
             else Inr (result\<lparr>linear_damping := Some (c * fval i), quadratic_damping := Some (q * fval i),
                              restoring_torque := Some (k * fval i)\<rparr>)))"

section \<open>The capture node\<close>

record decay_args =
  arg_axis :: decay_axis
  arg_duration_s :: real
  arg_minimum_angle_deg :: real
  arg_safe_hold_s :: real
  arg_angle_hold_s :: real
  arg_hold_rate_rps :: real
  arg_release_rate_rps :: real
  arg_setup_timeout_s :: real

record decay_command =
  cmd_armed :: bool
  cmd_enable :: bool
  cmd_action :: "pyfloat list"

record decay_imu =
  imu_quaternion :: quaternion_msg
  imu_gyro :: vector3
  imu_acceleration :: vector3
  imu_sec :: int
  imu_nanosec :: int

record decay_sample =
  stamp_ns :: int
  wall_ns :: int
  angle_rad :: real
  rate_rad_s :: pyfloat
  accel :: vector3

record capture_node =
  cap_authority :: "bool option"
  cap_command :: "decay_command option"
  cap_samples :: "decay_sample list"
  cap_baseline :: "real list"
  safe_since :: "real option"
  held_since :: "real option"
  ready_announced :: bool
  trigger_stamp_ns :: "int option"
  cap_failure :: "string option"
  cap_done :: bool

definition capture_init :: capture_node where
  "capture_init = \<lparr>cap_authority = None, cap_command = None, cap_samples = [], cap_baseline = [],
     safe_since = None, held_since = None, ready_announced = False, trigger_stamp_ns = None,
     cap_failure = None, cap_done = False\<rparr>"

text \<open>The message carries eight actions, so the maximum is over a non-empty list.\<close>

definition command_neutral :: "decay_command \<Rightarrow> bool" where
  "command_neutral c \<longleftrightarrow>
     \<not> cmd_armed c \<and> \<not> cmd_enable c \<and> flt_le (flt_maximum (map flt_abs (cmd_action c))) (Fin (1 / 100))"

definition capture_safe :: "capture_node \<Rightarrow> bool" where
  "capture_safe n \<longleftrightarrow> cap_authority n = Some False \<and> (\<exists>c \<in> set_option (cap_command n). command_neutral c)"

definition check_safety :: "capture_node \<Rightarrow> capture_node" where
  "check_safety n =
     (if trigger_stamp_ns n \<noteq> None \<and> \<not> capture_safe n
      then n\<lparr>cap_failure := Some ''control became armed or thruster command became non-neutral'', cap_done := True\<rparr>
      else n)"

definition on_authority :: "bool \<Rightarrow> capture_node \<Rightarrow> capture_node" where
  "on_authority armed n = check_safety (n\<lparr>cap_authority := Some armed\<rparr>)"

definition on_command :: "decay_command \<Rightarrow> capture_node \<Rightarrow> capture_node" where
  "on_command c n = check_safety (n\<lparr>cap_command := Some c\<rparr>)"

text \<open>The part of \<^verbatim>\<open>on_imu\<close> that waits for the release, from \<^verbatim>\<open>if self.trigger_stamp_ns is None\<close>.\<close>

definition watch_release :: "decay_args \<Rightarrow> real \<Rightarrow> int \<Rightarrow> real \<Rightarrow> pyfloat \<Rightarrow> capture_node \<Rightarrow> capture_node" where
  "watch_release args now stamp angle rate n =
     (let base = (if length (cap_baseline n) < 100 then cap_baseline n @ [angle] else cap_baseline n);
          baseline = (if base \<noteq> [] then np_median base else angle);
          displacement = \<bar>atan2 (sin (angle - baseline)) (cos (angle - baseline))\<bar>;
          held = (displacement \<ge> radians (arg_minimum_angle_deg args) \<and>
                  flt_le (flt_abs rate) (Fin (arg_hold_rate_rps args)));
          since = (case held_since n of Some s \<Rightarrow> if s = 0 then now else s | None \<Rightarrow> now);
          n1 = n\<lparr>cap_baseline := base\<rparr>;
          n2 = (if held
                then if now - since \<ge> arg_angle_hold_s args \<and> \<not> ready_announced n
                     then n1\<lparr>held_since := Some since, ready_announced := True\<rparr>
                     else n1\<lparr>held_since := Some since\<rparr>
                else n1\<lparr>held_since := None, ready_announced := False\<rparr>)
      in if ready_announced n2 \<and> flt_le (Fin (arg_release_rate_rps args)) (flt_abs rate)
         then n2\<lparr>trigger_stamp_ns := Some stamp\<rparr> else n2)"

definition record_sample ::
    "decay_args \<Rightarrow> int \<Rightarrow> int \<Rightarrow> real \<Rightarrow> pyfloat \<Rightarrow> vector3 \<Rightarrow> capture_node \<Rightarrow> capture_node" where
  "record_sample args stamp wall angle rate acceleration n =
     (let n1 = n\<lparr>cap_samples := cap_samples n @
          [\<lparr>stamp_ns = stamp, wall_ns = wall, angle_rad = angle, rate_rad_s = rate, accel = acceleration\<rparr>]\<rparr>
      in case trigger_stamp_ns n of
           None \<Rightarrow> n
         | Some trigger \<Rightarrow>
             if real_of_int (stamp - trigger) * (1 / 10 ^ 9) \<ge> arg_duration_s args then n1\<lparr>cap_done := True\<rparr> else n1)"

definition on_imu :: "decay_args \<Rightarrow> real \<Rightarrow> int \<Rightarrow> decay_imu \<Rightarrow> capture_node \<Rightarrow> capture_node" where
  "on_imu args now wall m n =
     (if cap_done n then n
      else if \<not> capture_safe n then n\<lparr>safe_since := None\<rparr>
      else case safe_since n of
        None \<Rightarrow> n\<lparr>safe_since := Some now\<rparr>
      | Some since \<Rightarrow>
          if now - since < arg_safe_hold_s args then n
          else case quaternion_to_axis_angle (imu_quaternion m) (arg_axis args) of
            Inl e \<Rightarrow> n\<lparr>cap_failure := Some (exc_str e), cap_done := True\<rparr>
          | Inr angle \<Rightarrow>
              let rate = (if arg_axis args = Roll then vx (imu_gyro m) else vy (imu_gyro m));
                  stamp = imu_sec m * 1000000000 + imu_nanosec m;
                  n1 = (if trigger_stamp_ns n = None then watch_release args now stamp angle rate n else n)
              in if trigger_stamp_ns n1 = None then n1
                 else record_sample args stamp wall angle rate (imu_acceleration m) n1)"

section \<open>The capture\<close>

text \<open>
  One turn of the loop is the clock read by its condition and the callback, if any, that
  \<^verbatim>\<open>spin_once\<close> runs; the list of turns ends where \<^verbatim>\<open>rclpy.ok()\<close> does.
\<close>

datatype capture_event =
    AuthorityStatus bool
  | CommandSeen decay_command
  | ImuSeen real int decay_imu
  | Nothing

fun capture_step :: "decay_args \<Rightarrow> capture_node \<Rightarrow> capture_event \<Rightarrow> capture_node" where
  "capture_step args n (AuthorityStatus armed) = on_authority armed n"
| "capture_step args n (CommandSeen c) = on_command c n"
| "capture_step args n (ImuSeen now wall m) = on_imu args now wall m n"
| "capture_step args n Nothing = n"

fun capture_loop :: "decay_args \<Rightarrow> real \<Rightarrow> capture_node \<Rightarrow> (real \<times> capture_event) list \<Rightarrow> capture_node" where
  "capture_loop args deadline n [] = n"
| "capture_loop args deadline n ((now, ev) # turns) =
     (if \<not> cap_done n \<and> now < deadline then capture_loop args deadline (capture_step args n ev) turns else n)"

definition decay_capture :: "decay_args \<Rightarrow> real \<Rightarrow> (real \<times> capture_event) list \<Rightarrow> exc + decay_sample list" where
  "decay_capture args started turns =
     (let n = capture_loop args (started + arg_setup_timeout_s args + arg_duration_s args) capture_init turns;
          samples = cap_samples n
      in case cap_failure n of
           Some failure \<Rightarrow> Inl (RuntimeError failure)
         | None \<Rightarrow>
             if samples = [] then Inl (RuntimeError ''no release was captured before timeout'')
             else if real_of_int (stamp_ns (last samples) - stamp_ns (hd samples)) * (1 / 10 ^ 9) < 9 / 10 * arg_duration_s args
             then Inl (RuntimeError ''capture ended before the requested duration'')
             else Inr samples)"

text \<open>The exit code of \<^verbatim>\<open>main\<close>; an exception it does not catch ends the process with a traceback.\<close>

fun decay_exit :: "exc + 'a \<Rightarrow> nat option" where
  "decay_exit (Inr _) = Some 0"
| "decay_exit (Inl (RuntimeError _)) = Some 2"
| "decay_exit (Inl (ValueError _)) = Some 2"
| "decay_exit (Inl _) = None"

end
