(* ===== verification/Decay_Safety.thy ===== *)
theory Decay_Safety
  imports Decay_Test
begin

text \<open>
  Properties of the decay test: what the axis angle is, when a release is detected, that a returned
  recording is free of actuation, and which recordings the fit refuses.
\<close>

section \<open>Axis angle\<close>

lemma axis_angle_norm: "np_norm [x, y, z, w] = np_norm [w, x, y, z]"
  by (simp add: np_norm4 ac_simps)

lemma axis_angle_unit:
  assumes "w\<^sup>2 + x\<^sup>2 + y\<^sup>2 + z\<^sup>2 = 1" "0 < s"
  shows "quaternion_to_axis_angle (Quaternion (Fin (s * w)) (Fin (s * x)) (Fin (s * y)) (Fin (s * z))) axis =
    (if s < 1 / 10 ^ 9 then Inl (ValueError ''invalid IMU quaternion'')
     else Inr (rpy_of [w, x, y, z] ! (if axis = Roll then 0 else 1)))"
proof -
  have "(s * x)\<^sup>2 + (s * y)\<^sup>2 + (s * z)\<^sup>2 + (s * w)\<^sup>2 = s\<^sup>2"
    using assms(1) by (simp add: power_mult_distrib flip: distrib_left)
  then have n: "np_norm [s * x, s * y, s * z, s * w] = s"
    using assms(2) by (simp add: np_norm4)
  have c: "clip v (- 1) 1 = max (- 1) (min 1 v)" for v :: real
    by (auto simp: clip_def)
  show ?thesis
    using assms(2) unfolding quaternion_to_axis_angle_def
    by (cases axis) (simp_all add: n c Let_def del: max_less_iff_conj)
qed

section \<open>Safety during the capture\<close>

lemma check_safety_idem [simp]:
  "trigger_stamp_ns (check_safety n) = trigger_stamp_ns n"
  "capture_safe (check_safety n) = capture_safe n"
  "cap_samples (check_safety n) = cap_samples n"
  by (simp_all add: check_safety_def capture_safe_def)

lemma capture_safe_updates [simp]:
  "capture_safe (n\<lparr>safe_since := a\<rparr>) = capture_safe n"
  "capture_safe (n\<lparr>held_since := a\<rparr>) = capture_safe n"
  "capture_safe (n\<lparr>ready_announced := b\<rparr>) = capture_safe n"
  "capture_safe (n\<lparr>cap_baseline := bs\<rparr>) = capture_safe n"
  "capture_safe (n\<lparr>trigger_stamp_ns := t\<rparr>) = capture_safe n"
  "capture_safe (n\<lparr>cap_samples := ss\<rparr>) = capture_safe n"
  "capture_safe (n\<lparr>cap_done := d\<rparr>) = capture_safe n"
  "capture_safe (n\<lparr>cap_failure := f\<rparr>) = capture_safe n"
  by (simp_all add: capture_safe_def)

lemma watch_release_frame [simp]:
  "capture_safe (watch_release args now stamp angle rate n) = capture_safe n"
  "cap_samples (watch_release args now stamp angle rate n) = cap_samples n"
  "cap_failure (watch_release args now stamp angle rate n) = cap_failure n"
  "cap_done (watch_release args now stamp angle rate n) = cap_done n"
  by (simp_all add: watch_release_def Let_def)

lemma record_sample_frame [simp]:
  "capture_safe (record_sample args stamp wall angle rate a n) = capture_safe n"
  "cap_failure (record_sample args stamp wall angle rate a n) = cap_failure n"
  "trigger_stamp_ns (record_sample args stamp wall angle rate a n) = trigger_stamp_ns n"
  by (simp_all add: record_sample_def Let_def split: option.split)

text \<open>
  What holds of the node: an unsafe state after the trigger has been reported, samples are only
  taken after the trigger and the first of them is the one that triggered, and a failure ends it.
\<close>

definition capture_inv :: "capture_node \<Rightarrow> bool" where
  "capture_inv n \<longleftrightarrow>
     (trigger_stamp_ns n \<noteq> None \<and> cap_failure n = None \<longrightarrow> capture_safe n) \<and>
     (cap_samples n = [] \<longleftrightarrow> trigger_stamp_ns n = None) \<and>
     (cap_samples n \<noteq> [] \<longrightarrow> trigger_stamp_ns n = Some (stamp_ns (hd (cap_samples n)))) \<and>
     (cap_failure n \<noteq> None \<longrightarrow> cap_done n)"

lemma capture_init_inv: "capture_inv capture_init"
  by (simp add: capture_inv_def capture_init_def)

lemma check_safety_inv:
  "(cap_samples n = [] \<longleftrightarrow> trigger_stamp_ns n = None) \<Longrightarrow>
   (cap_samples n \<noteq> [] \<longrightarrow> trigger_stamp_ns n = Some (stamp_ns (hd (cap_samples n)))) \<Longrightarrow>
   (cap_failure n \<noteq> None \<longrightarrow> cap_done n) \<Longrightarrow> capture_inv (check_safety n)"
  by (auto simp: capture_inv_def check_safety_def capture_safe_def)

lemma record_sample_inv:
  assumes "trigger_stamp_ns n = Some tr" "cap_samples n = [] \<Longrightarrow> tr = stamp"
    "cap_samples n \<noteq> [] \<Longrightarrow> tr = stamp_ns (hd (cap_samples n))" "cap_failure n \<noteq> None \<longrightarrow> cap_done n"
    "capture_safe n"
  shows "capture_inv (record_sample args stamp wall angle rate a n)"
  using assms by (cases "cap_samples n") (auto simp: capture_inv_def record_sample_def Let_def capture_safe_def)

lemma capture_on_imu_inv: "capture_inv n \<Longrightarrow> capture_inv (on_imu args now wall m n)"
proof -
  assume i: "capture_inv n"
  define rate where "rate = (if arg_axis args = Roll then vx (imu_gyro m) else vy (imu_gyro m))"
  define stamp where "stamp = imu_sec m * 1000000000 + imu_nanosec m"
  show ?thesis
  proof (cases "cap_done n \<or> \<not> capture_safe n \<or> safe_since n = None \<or> now - the (safe_since n) < arg_safe_hold_s args")
    case True
    then show ?thesis
      using i by (auto simp: on_imu_def capture_inv_def capture_safe_def split: option.split)
  next
    case False
    then obtain since where a: "\<not> cap_done n" "capture_safe n" "safe_since n = Some since"
        "\<not> now - since < arg_safe_hold_s args"
      by auto
    show ?thesis
    proof (cases "quaternion_to_axis_angle (imu_quaternion m) (arg_axis args)")
      case (Inl e)
      then show ?thesis
        using i a by (auto simp: on_imu_def capture_inv_def capture_safe_def)
    next
      case (Inr angle)
      define n1 where "n1 = (if trigger_stamp_ns n = None then watch_release args now stamp angle rate n else n)"
      have e: "on_imu args now wall m n = (if trigger_stamp_ns n1 = None then n1
          else record_sample args stamp wall angle rate (imu_acceleration m) n1)"
        using a unfolding on_imu_def n1_def rate_def stamp_def by (simp only: Inr Let_def sum.case option.case if_False not_not not_True_eq_False)
      have w: "trigger_stamp_ns (watch_release args now stamp angle rate n) \<in> {trigger_stamp_ns n, Some stamp}"
        by (simp add: watch_release_def Let_def)
      have s: "cap_samples n1 = cap_samples n" "capture_safe n1" "cap_failure n1 = cap_failure n" "cap_done n1 = cap_done n"
        using a by (simp_all add: n1_def)
      show ?thesis
      proof (cases "trigger_stamp_ns n1")
        case None
        then have "trigger_stamp_ns n = None"
          by (simp add: n1_def split: if_splits)
        then show ?thesis
          using i None s by (simp add: e capture_inv_def)
      next
        case (Some tr)
        have "capture_inv (record_sample args stamp wall angle rate (imu_acceleration m) n1)"
        proof (rule record_sample_inv [OF Some])
          show "tr = stamp" if "cap_samples n1 = []"
            using that i w Some s(1) by (auto simp: n1_def capture_inv_def split: if_splits)
          show "tr = stamp_ns (hd (cap_samples n1))" if "cap_samples n1 \<noteq> []"
            using that i w Some s(1) by (auto simp: n1_def capture_inv_def split: if_splits)
        qed (use i s in \<open>auto simp: capture_inv_def\<close>)
        then show ?thesis
          using Some by (simp add: e)
      qed
    qed
  qed
qed

lemma capture_step_inv: "capture_inv n \<Longrightarrow> capture_inv (capture_step args n ev)"
proof (cases ev)
  case (ImuSeen now wall m)
  then show "capture_inv n \<Longrightarrow> ?thesis"
    by (simp add: capture_on_imu_inv)
qed (simp_all add: on_authority_def on_command_def check_safety_inv capture_inv_def [of n])

interpretation capture: event_machine "capture_step args" capture_inv for args
  by unfold_locales (rule capture_step_inv)

text \<open>The loop is the run of the turns it takes before its condition fails.\<close>

fun turns_taken :: "decay_args \<Rightarrow> real \<Rightarrow> capture_node \<Rightarrow> (real \<times> capture_event) list \<Rightarrow> capture_event list" where
  "turns_taken args deadline n [] = []"
| "turns_taken args deadline n ((now, ev) # turns) =
     (if \<not> cap_done n \<and> now < deadline then ev # turns_taken args deadline (capture_step args n ev) turns else [])"

lemma capture_loop_run: "capture_loop args d n turns = foldl (capture_step args) n (turns_taken args d n turns)"
  by (induction args d n turns rule: capture_loop.induct) auto

lemma turns_taken_not_done:
  "k < length (turns_taken args d n turns) \<Longrightarrow> \<not> cap_done (foldl (capture_step args) n (take k (turns_taken args d n turns)))"
  by (induction args d n turns arbitrary: k rule: turns_taken.induct) (auto simp: take_Cons split: nat.splits if_splits)

abbreviation after_turns :: "decay_args \<Rightarrow> capture_event list \<Rightarrow> capture_node" where
  "after_turns args evs \<equiv> foldl (capture_step args) capture_init evs"

lemma after_turns_inv: "capture_inv (after_turns args evs)"
  by (rule capture.run_inv [OF capture_init_inv])

lemma decay_capture_cases:
  assumes "decay_capture args started turns = Inr samples"
  defines "n \<equiv> capture_loop args (started + arg_setup_timeout_s args + arg_duration_s args) capture_init turns"
  shows "cap_failure n = None" "samples = cap_samples n" "samples \<noteq> []"
    "real_of_int (stamp_ns (last samples) - stamp_ns (hd samples)) * (1 / 10 ^ 9) \<ge> 9 / 10 * arg_duration_s args"
  using assms by (auto simp: decay_capture_def Let_def not_less split: option.splits if_splits)


section \<open>The release\<close>

definition moving_rate :: "decay_args \<Rightarrow> decay_imu \<Rightarrow> pyfloat" where
  "moving_rate args m = flt_abs (if arg_axis args = Roll then vx (imu_gyro m) else vy (imu_gyro m))"

definition in_release_band :: "decay_args \<Rightarrow> decay_imu \<Rightarrow> bool" where
  "in_release_band args m \<longleftrightarrow> flt_le (Fin (arg_release_rate_rps args)) (moving_rate args m) \<and>
     flt_le (moving_rate args m) (Fin (arg_hold_rate_rps args))"

lemma watch_release_trigger:
  assumes "trigger_stamp_ns n = None" "trigger_stamp_ns (watch_release args now stamp angle rate n) \<noteq> None"
  shows "flt_le (Fin (arg_release_rate_rps args)) (flt_abs rate) \<and> flt_le (flt_abs rate) (Fin (arg_hold_rate_rps args))"
  using assms unfolding watch_release_def Let_def by (auto split: if_splits)

lemma on_imu_trigger:
  assumes "trigger_stamp_ns n = None" "trigger_stamp_ns (on_imu args now wall m n) \<noteq> None"
  shows "in_release_band args m"
  using assms watch_release_trigger [of n args now]
  by (auto simp: on_imu_def Let_def in_release_band_def moving_rate_def split: if_splits option.splits sum.splits)

lemma step_trigger:
  assumes "trigger_stamp_ns n = None" "trigger_stamp_ns (capture_step args n ev) \<noteq> None"
  shows "\<exists>now wall m. ev = ImuSeen now wall m \<and> in_release_band args m"
  using assms on_imu_trigger by (cases ev) (auto simp: on_authority_def on_command_def)

lemma run_trigger:
  "trigger_stamp_ns (foldl (capture_step args) n evs) \<noteq> None \<Longrightarrow> trigger_stamp_ns n = None \<Longrightarrow>
   \<exists>now wall m. ImuSeen now wall m \<in> set evs \<and> in_release_band args m"
proof (induction evs arbitrary: n)
  case (Cons ev evs)
  show ?case
  proof (cases "trigger_stamp_ns (capture_step args n ev) = None")
    case True
    then show ?thesis
      using Cons.IH Cons.prems by fastforce
  next
    case False
    then show ?thesis
      using step_trigger [OF Cons.prems(2)] by fastforce
  qed
qed simp

lemma turns_taken_subset: "set (turns_taken args d n turns) \<subseteq> snd ` set turns"
  by (induction args d n turns rule: turns_taken.induct) auto

text \<open>The release is only detected on an IMU sample that is still slow enough to count as held: a
  capture returns a recording only if some IMU message had an angular rate between the release rate
  and the hold rate.  A release whose rate passes the hold rate between two samples is missed.\<close>

theorem release_needs_band:
  assumes "decay_capture args started turns = Inr samples"
  shows "\<exists>t now wall m. (t, ImuSeen now wall m) \<in> set turns \<and> in_release_band args m"
proof -
  let ?evs = "turns_taken args (started + arg_setup_timeout_s args + arg_duration_s args) capture_init turns"
  note c = decay_capture_cases [OF assms, unfolded capture_loop_run]
  have "trigger_stamp_ns (after_turns args ?evs) \<noteq> None"
    using after_turns_inv [of args ?evs] c(2,3) by (simp add: capture_inv_def)
  then have "\<exists>now wall m. ImuSeen now wall m \<in> set ?evs \<and> in_release_band args m"
    by (rule run_trigger) (simp add: capture_init_def)
  then show ?thesis
    using turns_taken_subset by fastforce
qed

section \<open>Gaps in the angle\<close>

lemma finite_rows_after_gap:
  assumes "i < length angle" "\<not> isfinite (angle ! i)"
  shows "length (finite_rows t (np_unwrap angle) rate) \<le> i"
proof -
  let ?u = "np_unwrap angle"
  have "length (filter (\<lambda>(a, b, c). isfinite a \<and> isfinite b \<and> isfinite c) (zip t (zip ?u rate))) \<le> i"
  proof -
    let ?z = "zip t (zip ?u rate)"
    have "filter (\<lambda>(a, b, c). isfinite a \<and> isfinite b \<and> isfinite c) (drop i ?z) = []"
    proof (simp only: filter_empty_conv, intro ballI)
      fix x assume "x \<in> set (drop i ?z)"
      then obtain j where "j < length (drop i ?z)" "x = drop i ?z ! j"
        by (metis in_set_conv_nth)
      then have j: "i + j < length ?z" "x = ?z ! (i + j)"
        by (simp_all add: less_diff_conv add.commute) 
      then have "fst (snd x) = np_unwrap angle ! (i + j)" "i + j < length angle"
        by (simp_all add: less_diff_conv add.commute) 
      then have "fst (snd x) = NaN"
        using np_unwrap_after_gap [of "i + j" angle i] assms by simp
      then show "\<not> (case x of (a, b, c) \<Rightarrow> isfinite a \<and> isfinite b \<and> isfinite c)"
        by (cases x) auto
    qed
    then have "filter (\<lambda>(a, b, c). isfinite a \<and> isfinite b \<and> isfinite c) ?z
        = filter (\<lambda>(a, b, c). isfinite a \<and> isfinite b \<and> isfinite c) (take i ?z)"
      by (metis append_take_drop_id filter_append append_Nil2)
    then show ?thesis
      by (metis (no_types, lifting) length_filter_le length_take min.cobounded2 order_trans)
  qed
  then show ?thesis
    by (simp add: finite_rows_def)
qed

lemma length_distinct_rows: "distinct_rows rows = Inr rs \<Longrightarrow> length rs \<le> length rows"
proof -
  assume "distinct_rows rows = Inr rs"
  then have "length rs = length (filter snd (zip rows (True # map (\<lambda>d. d > 1 / 10 ^ 6) (np_diff (map fst rows)))))"
    by (auto simp: distinct_rows_def split: if_splits)
  also have "\<dots> \<le> length (zip rows (True # map (\<lambda>d. d > 1 / 10 ^ 6) (np_diff (map fst rows))))"
    by (rule length_filter_le)
  finally show ?thesis
    by simp
qed

text \<open>One angle that is not finite hides everything after it: the fit refuses such a recording as
  having too few samples unless eighty precede it, and when the very first angle is not finite the fit
  raises an \<^verbatim>\<open>IndexError\<close>, which \<^verbatim>\<open>main\<close> does not report.\<close>

theorem fit_stops_at_gap:
  assumes "80 \<le> length t" "length angle = length t" "length rate = length t"
    and "i < length angle" "\<not> isfinite (angle ! i)" "i < 80"
    and "\<And>xs. length (argsort xs) = length xs"
  shows "\<exists>e. fit_decay argsort lstsq t angle rate inertia = Inl e \<and>
    (i = 0 \<longrightarrow> decay_exit (fit_decay argsort lstsq t angle rate inertia) = None)"
proof -
  let ?f = "finite_rows t (np_unwrap angle) rate"
  let ?s = "map (\<lambda>i. ?f ! i) (argsort (map fst ?f))"
  have l: "length ?s \<le> i"
    using finite_rows_after_gap [OF assms(4,5), of t rate] assms(7) by simp
  have small: "length rs < 80" if "distinct_rows ?s = Inr rs" for rs
    using length_distinct_rows [OF that] l assms(6) by linarith
  show ?thesis
  proof (cases "distinct_rows ?s")
    case (Inl e)
    then have "?s = []"
      by (simp add: distinct_rows_def split: if_splits)
    then show ?thesis
      using assms(1-3) by (simp add: fit_decay_def Let_def distinct_rows_def)
  next
    case (Inr rs)
    then have "?s \<noteq> []"
      by (auto simp: distinct_rows_def)
    then have "i \<noteq> 0"
      using l by (metis length_greater_0_conv not_less)
    then show ?thesis
      using assms(1-3) Inr small [OF Inr] by (simp add: fit_decay_def Let_def)
  qed
qed
section \<open>A capture that succeeds\<close>

definition demo_decay_args :: decay_args where
  "demo_decay_args = \<lparr>arg_axis = Roll, arg_duration_s = 1, arg_minimum_angle_deg = 60, arg_safe_hold_s = 1,
     arg_angle_hold_s = 1 / 2, arg_hold_rate_rps = 1 / 10, arg_release_rate_rps = 8 / 100, arg_setup_timeout_s = 120\<rparr>"

definition demo_decay_imu :: "real \<Rightarrow> real \<Rightarrow> int \<Rightarrow> decay_imu" where
  "demo_decay_imu tilt rate sec =
     \<lparr>imu_quaternion = Quaternion (Fin 1) (Fin tilt) (Fin 0) (Fin 0), imu_gyro = Vector3 (Fin rate) (Fin 0) (Fin 0),
      imu_acceleration = Vector3 (Fin 0) (Fin 0) (Fin 10), imu_sec = sec, imu_nanosec = 0\<rparr>"

definition demo_decay_command :: decay_command where
  "demo_decay_command = \<lparr>cmd_armed = False, cmd_enable = False, cmd_action = replicate 8 (Fin 0)\<rparr>"

definition demo_decay_turns :: "(real \<times> capture_event) list" where
  "demo_decay_turns =
     [(0, AuthorityStatus False), (0, CommandSeen demo_decay_command),
      (1, ImuSeen 1 0 (demo_decay_imu 0 0 1)),
      (2, ImuSeen 2 0 (demo_decay_imu 0 0 2)), (2, ImuSeen 2 0 (demo_decay_imu 0 0 2)),
      (2, ImuSeen 2 0 (demo_decay_imu 0 0 2)), (2, ImuSeen 2 0 (demo_decay_imu 0 0 2)),
      (3, ImuSeen 3 0 (demo_decay_imu 1 0 3)), (4, ImuSeen 4 0 (demo_decay_imu 1 0 4)),
      (5, ImuSeen 5 0 (demo_decay_imu 1 (9 / 100) 5)), (6, ImuSeen 6 0 (demo_decay_imu 0 1 6))]"

lemma demo_axis_angle:
  "quaternion_to_axis_angle (Quaternion (Fin 1) (Fin 0) (Fin 0) (Fin 0)) Roll = Inr 0"
  "quaternion_to_axis_angle (Quaternion (Fin 1) (Fin 1) (Fin 0) (Fin 0)) Roll = Inr (pi / 2)"
proof -
  show "quaternion_to_axis_angle (Quaternion (Fin 1) (Fin 0) (Fin 0) (Fin 0)) Roll = Inr 0"
    using axis_angle_unit [of 1 0 0 0 1 Roll] by (simp add: atan2_def)
  have s: "(1 / sqrt 2)\<^sup>2 = (1 / 2 :: real)"
    by (simp add: power_divide)
  have "1 / 10 ^ 9 \<le> sqrt (2::real)"
    by (rule order_trans [of _ 1]) auto
  then show "quaternion_to_axis_angle (Quaternion (Fin 1) (Fin 1) (Fin 0) (Fin 0)) Roll = Inr (pi / 2)"
    using axis_angle_unit [of "1 / sqrt 2" "1 / sqrt 2" 0 0 "sqrt 2" Roll] s
    by (simp add: atan2_def power2_eq_square)
qed

lemma demo_displacement:
  "\<bar>atan2 (sin (pi / 2 - 0)) (cos (pi / 2 - 0))\<bar> = pi / 2"
  "\<bar>atan2 (sin (0 - 0)) (cos (0 - 0))\<bar> = 0"
  by (simp_all add: atan2_def)

lemma demo_medians:
  "np_median [0, 0, 0, 0, pi / 2] = 0"
  "np_median [0, 0, 0, 0, pi / 2, pi / 2] = 0"
  "np_median [0, 0, 0, 0, pi / 2, pi / 2, pi / 2] = 0"
  "np_median [0, 0, 0, 0] = 0"
  "np_median [0, 0, 0] = 0"
  "np_median [0, 0] = 0"
  by (simp_all add: np_median_def)

definition demo_capture_node ::
    "real list \<Rightarrow> real option \<Rightarrow> bool \<Rightarrow> int option \<Rightarrow> decay_sample list \<Rightarrow> bool \<Rightarrow> capture_node" where
  "demo_capture_node base held ready trigger samples dn =
     \<lparr>cap_authority = Some False, cap_command = Some demo_decay_command, cap_samples = samples, cap_baseline = base,
      safe_since = Some 1, held_since = held, ready_announced = ready, trigger_stamp_ns = trigger,
      cap_failure = None, cap_done = dn\<rparr>"

lemma demo_neutral: "command_neutral demo_decay_command"
  by (simp add: command_neutral_def demo_decay_command_def flt_maximum_def eval_nat_numeral)

lemma demo_node_simps [simp]:
  "capture_safe (demo_capture_node base held ready trigger samples dn)"
  "trigger_stamp_ns (demo_capture_node base held ready trigger samples dn) = trigger"
  "safe_since (demo_capture_node base held ready trigger samples dn) = Some 1"
  "cap_done (demo_capture_node base held ready trigger samples dn) = dn"
  "cap_failure (demo_capture_node base held ready trigger samples dn) = None"
  "cap_samples (demo_capture_node base held ready trigger samples dn) = samples"
  by (simp_all add: demo_capture_node_def capture_safe_def demo_neutral)

lemma demo_watch:
  fixes base angle
  defines "d \<equiv> angle - np_median (base @ [angle])"
  assumes "length base < 100"
  shows "watch_release demo_decay_args now stamp angle (Fin rate) (demo_capture_node base held ready None [] False) =
    (if \<bar>atan2 (sin d) (cos d)\<bar> \<ge> pi / 3 \<and> \<bar>rate\<bar> \<le> 1 / 10
     then let since = (case held of Some s \<Rightarrow> if s = 0 then now else s | None \<Rightarrow> now); r = (ready \<or> now - since \<ge> 1 / 2)
          in demo_capture_node (base @ [angle]) (Some since) r (if r \<and> \<bar>rate\<bar> \<ge> 8 / 100 then Some stamp else None) [] False
     else demo_capture_node (base @ [angle]) None False None [] False)"
  using assms(2) unfolding d_def watch_release_def demo_capture_node_def
  by (simp add: Let_def demo_decay_args_def radians_def) blast

lemma demo_imu:
  assumes "2 \<le> now" "quaternion_to_axis_angle (Quaternion (Fin 1) (Fin tilt) (Fin 0) (Fin 0)) Roll = Inr angle"
  shows "on_imu demo_decay_args now 0 (demo_decay_imu tilt rate sec) (demo_capture_node base held ready trigger samples False) =
    (let n1 = (if trigger = None then watch_release demo_decay_args now (sec * 1000000000) angle (Fin rate)
                 (demo_capture_node base held ready trigger samples False)
               else demo_capture_node base held ready trigger samples False)
     in if trigger_stamp_ns n1 = None then n1
        else record_sample demo_decay_args (sec * 1000000000) 0 angle (Fin rate) (Vector3 (Fin 0) (Fin 0) (Fin 10)) n1)"
  using assms unfolding on_imu_def
  by (simp add: Let_def demo_decay_args_def demo_decay_imu_def)

lemma demo_record:
  "record_sample demo_decay_args stamp 0 angle rate a (demo_capture_node base held ready (Some tr) samples False) =
     demo_capture_node base held ready (Some tr)
       (samples @ [\<lparr>stamp_ns = stamp, wall_ns = 0, angle_rad = angle, rate_rad_s = rate, accel = a\<rparr>])
       (real_of_int (stamp - tr) * (1 / 10 ^ 9) \<ge> 1)"
  by (simp add: record_sample_def demo_capture_node_def demo_decay_args_def Let_def)

lemma demo_start:
  "capture_step demo_decay_args
     (capture_step demo_decay_args (capture_step demo_decay_args capture_init (AuthorityStatus False)) (CommandSeen demo_decay_command))
     (ImuSeen 1 0 (demo_decay_imu 0 0 1)) = demo_capture_node [] None False None [] False"
  by (simp add: on_authority_def on_command_def check_safety_def capture_init_def on_imu_def capture_safe_def
      demo_neutral demo_capture_node_def)

lemma pi_not_le: "\<not> pi \<le> 0"
  by (simp add: not_le)

lemma demo_upright:
  assumes "np_median (base @ [0]) = 0" "length base < 100" "2 \<le> now"
  shows "capture_step demo_decay_args (demo_capture_node base None False None [] False) (ImuSeen now 0 (demo_decay_imu 0 0 sec)) =
    demo_capture_node (base @ [0]) None False None [] False"
  using assms by (simp add: demo_imu [OF assms(3) demo_axis_angle(1)] demo_watch demo_displacement(2) [simplified] pi_not_le)

lemma demo_tilted:
  assumes "np_median (base @ [pi / 2]) = 0" "length base < 100" "2 \<le> now" "\<bar>rate\<bar> < 8 / 100"
  shows "capture_step demo_decay_args (demo_capture_node base held ready None [] False) (ImuSeen now 0 (demo_decay_imu 1 rate sec)) =
    (let since = (case held of Some s \<Rightarrow> if s = 0 then now else s | None \<Rightarrow> now)
     in demo_capture_node (base @ [pi / 2]) (Some since) (ready \<or> now - since \<ge> 1 / 2) None [] False)"
  using assms by (simp add: demo_imu [OF assms(3) demo_axis_angle(2)] demo_watch Let_def atan2_def)

lemma demo_loop_start:
  "capture_loop demo_decay_args 121 capture_init
     ((0, AuthorityStatus False) # (0, CommandSeen demo_decay_command) # (1, ImuSeen 1 0 (demo_decay_imu 0 0 1)) # turns) =
   capture_loop demo_decay_args 121 (demo_capture_node [] None False None [] False) turns"
proof -
  have "\<not> cap_done capture_init" "\<not> cap_done (capture_step demo_decay_args capture_init (AuthorityStatus False))"
    "\<not> cap_done (capture_step demo_decay_args (capture_step demo_decay_args capture_init (AuthorityStatus False))
       (CommandSeen demo_decay_command))"
    by (simp_all add: on_authority_def on_command_def check_safety_def capture_init_def)
  then show ?thesis
    by (simp add: demo_start del: capture_step.simps)
qed

lemma demo_release:
  "capture_step demo_decay_args (demo_capture_node [0, 0, 0, 0, pi / 2, pi / 2] (Some 3) True None [] False)
     (ImuSeen 5 0 (demo_decay_imu 1 (9 / 100) 5)) =
   demo_capture_node [0, 0, 0, 0, pi / 2, pi / 2, pi / 2] (Some 3) True (Some 5000000000)
     [\<lparr>stamp_ns = 5000000000, wall_ns = 0, angle_rad = pi / 2, rate_rad_s = Fin (9 / 100), accel = Vector3 (Fin 0) (Fin 0) (Fin 10)\<rparr>] False"
  by (simp add: demo_imu [OF _ demo_axis_angle(2)] demo_watch demo_medians Let_def atan2_def demo_record)

lemma demo_last:
  "capture_step demo_decay_args (demo_capture_node base held ready (Some 5000000000) samples False)
     (ImuSeen 6 0 (demo_decay_imu 0 1 6)) =
   demo_capture_node base held ready (Some 5000000000)
     (samples @ [\<lparr>stamp_ns = 6000000000, wall_ns = 0, angle_rad = 0, rate_rad_s = Fin 1, accel = Vector3 (Fin 0) (Fin 0) (Fin 10)\<rparr>]) True"
  by (simp add: demo_imu [OF _ demo_axis_angle(1)] demo_record)

lemma demo_loop:
  "capture_loop demo_decay_args 121 (demo_capture_node [] None False None [] False) (drop 3 demo_decay_turns) =
   demo_capture_node [0, 0, 0, 0, pi / 2, pi / 2, pi / 2] (Some 3) True (Some 5000000000)
     [\<lparr>stamp_ns = 5000000000, wall_ns = 0, angle_rad = pi / 2, rate_rad_s = Fin (9 / 100), accel = Vector3 (Fin 0) (Fin 0) (Fin 10)\<rparr>,
      \<lparr>stamp_ns = 6000000000, wall_ns = 0, angle_rad = 0, rate_rad_s = Fin 1, accel = Vector3 (Fin 0) (Fin 0) (Fin 10)\<rparr>] True"
proof -
  have up:
    "capture_step demo_decay_args (demo_capture_node [] None False None [] False) (ImuSeen 2 0 (demo_decay_imu 0 0 2)) =
      demo_capture_node [0] None False None [] False"
    "capture_step demo_decay_args (demo_capture_node [0] None False None [] False) (ImuSeen 2 0 (demo_decay_imu 0 0 2)) =
      demo_capture_node [0, 0] None False None [] False"
    "capture_step demo_decay_args (demo_capture_node [0, 0] None False None [] False) (ImuSeen 2 0 (demo_decay_imu 0 0 2)) =
      demo_capture_node [0, 0, 0] None False None [] False"
    "capture_step demo_decay_args (demo_capture_node [0, 0, 0] None False None [] False) (ImuSeen 2 0 (demo_decay_imu 0 0 2)) =
      demo_capture_node [0, 0, 0, 0] None False None [] False"
    using demo_upright [of "[]" 2 2] demo_upright [of "[0]" 2 2] demo_upright [of "[0, 0]" 2 2] demo_upright [of "[0, 0, 0]" 2 2]
    by (simp_all add: demo_medians del: capture_step.simps)
  have tilt:
    "capture_step demo_decay_args (demo_capture_node [0, 0, 0, 0] None False None [] False) (ImuSeen 3 0 (demo_decay_imu 1 0 3)) =
      demo_capture_node [0, 0, 0, 0, pi / 2] (Some 3) False None [] False"
    "capture_step demo_decay_args (demo_capture_node [0, 0, 0, 0, pi / 2] (Some 3) False None [] False) (ImuSeen 4 0 (demo_decay_imu 1 0 4)) =
      demo_capture_node [0, 0, 0, 0, pi / 2, pi / 2] (Some 3) True None [] False"
    using demo_tilted [of "[0, 0, 0, 0]" 3 0 None False 3] demo_tilted [of "[0, 0, 0, 0, pi / 2]" 4 0 "Some 3" False 4]
    by (simp_all add: demo_medians del: capture_step.simps)
  show ?thesis
    unfolding demo_decay_turns_def
    by (simp del: capture_step.simps add: up tilt demo_release demo_last)
qed

lemma demo_capture:
  "decay_capture demo_decay_args 0 demo_decay_turns =
     Inr [\<lparr>stamp_ns = 5000000000, wall_ns = 0, angle_rad = pi / 2, rate_rad_s = Fin (9 / 100), accel = Vector3 (Fin 0) (Fin 0) (Fin 10)\<rparr>,
          \<lparr>stamp_ns = 6000000000, wall_ns = 0, angle_rad = 0, rate_rad_s = Fin 1, accel = Vector3 (Fin 0) (Fin 0) (Fin 10)\<rparr>]"
proof -
  have d: "arg_setup_timeout_s demo_decay_args = 120" "arg_duration_s demo_decay_args = 1"
    by (simp_all add: demo_decay_args_def)
  have e: "demo_decay_turns = (0, AuthorityStatus False) # (0, CommandSeen demo_decay_command) #
      (1, ImuSeen 1 0 (demo_decay_imu 0 0 1)) # drop 3 demo_decay_turns"
    by (simp add: demo_decay_turns_def)
  have "capture_loop demo_decay_args 121 capture_init demo_decay_turns =
      capture_loop demo_decay_args 121 (demo_capture_node [] None False None [] False) (drop 3 demo_decay_turns)"
    by (rule demo_loop_start [of "drop 3 demo_decay_turns", folded e])
  then show ?thesis
    by (simp add: decay_capture_def d demo_loop del: capture_loop.simps)
qed

abbreviation demo_taken :: "capture_event list" where
  "demo_taken \<equiv> turns_taken demo_decay_args (0 + arg_setup_timeout_s demo_decay_args + arg_duration_s demo_decay_args)
     capture_init demo_decay_turns"


theorem release_needs_band_witness:
  "\<exists>t now wall m. (t, ImuSeen now wall m) \<in> set demo_decay_turns \<and> in_release_band demo_decay_args m"
  by (rule release_needs_band [OF demo_capture])

theorem fit_stops_at_gap_witness:
  "decay_exit (fit_decay (\<lambda>xs. [0..<length xs]) (\<lambda>X y. ([], 0)) (replicate 80 (Fin 0)) (replicate 80 NaN) (replicate 80 (Fin 0)) None) = None"
  using fit_stops_at_gap [of "replicate 80 (Fin 0)" "replicate 80 NaN" "replicate 80 (Fin 0)" 0
      "\<lambda>xs. [0..<length xs]" "\<lambda>X y. ([], 0)" None]
  by simp

text \<open>Whatever the scale of the quaternion, the roll and pitch read from it are those it was built
  from.\<close>

theorem axis_angle_of_rpy:
  assumes "- pi < r" "r \<le> pi" "- (pi / 2) < p" "p < pi / 2" "- pi < y" "y \<le> pi" "1 / 10 ^ 9 \<le> s"
    and "rpy_components r p y = [w, a, b, c]"
  shows "quaternion_to_axis_angle (Quaternion (Fin (s * w)) (Fin (s * a)) (Fin (s * b)) (Fin (s * c))) axis =
    Inr (if axis = Roll then r else p)"
proof -
  have "w\<^sup>2 + a\<^sup>2 + b\<^sup>2 + c\<^sup>2 = 1"
    using rpy_components_unit [of r p y] assms(8) by (auto simp: unit_quat_conv)
  moreover have "0 < s"
    using assms(7) by (rule less_le_trans [rotated]) simp
  ultimately show ?thesis
    using axis_angle_unit [of w a b c s axis] rpy_of_components [OF assms(1-6)] assms(7,8)
    by (cases axis) simp_all
qed

theorem axis_angle_of_rpy_witness:
  "quaternion_to_axis_angle (Quaternion (Fin (2 * 1)) (Fin (2 * 0)) (Fin (2 * 0)) (Fin (2 * 0))) Pitch = Inr 0"
proof -
  have "rpy_components 0 0 0 = [1, 0, 0, 0]"
    by (simp add: rpy_components_def)
  then show ?thesis
    using axis_angle_of_rpy [of 0 0 0 2 1 0 0 0 Pitch] pi_gt_zero by simp
qed

end
