(* ===== verification/Policy_Runners.thy ===== *)
theory Policy_Runners
  imports Body_Policy Sample_Arrays
begin

text \<open>
  The runners, \<^verbatim>\<open>robotcore_policy/runners/{base,factory,dummy_runner,onnx_runner,tensorrt_runner}.py\<close>.
  ONNX Runtime is the argument \<open>session\<close> (what a run of the network gives on an observation vector),
  TensorRT the outcome of building an engine, and CUDA the argument \<open>driver\<close>, which answers each call
  after the calls made before it.  A TensorRT runner carries the list of its driver calls, so that
  what it allocates and releases can be read off.  The driver's own error texts are left out of the messages.
\<close>

section \<open>The factory\<close>

datatype runner_kind = Dummy | Onnx | TensorRt

definition runner_kind :: "policy_manifest \<Rightarrow> exc + runner_kind" where
  "runner_kind m =
     (let r = py_lower (pm_runner m) in
      if r = ''dummy'' then Inr Dummy
      else if r = ''onnx'' then Inr Onnx
      else if r = ''tensorrt'' \<or> r = ''trt'' then Inr TensorRt
      else Inl (ValueError (''Unsupported policy runner: '' @ pm_runner m)))"

definition dummy_run :: "policy_manifest \<Rightarrow> observation \<Rightarrow> pyfloat list" where
  "dummy_run m ob = (if pm_role m = ''body'' then replicate 8 (Fin 0) else [])"

section \<open>The ONNX runner\<close>

definition OBSERVATION_LAYOUT :: string where
  "OBSERVATION_LAYOUT = ''t60_trajectory_obs_v11''"

record onnx_runner =
  onnx_contract :: "(yaml \<times> yaml) list"
  onnx_observation_dim :: int
  onnx_state :: "t60_state option"

text \<open>\<^verbatim>\<open>int(value)\<close>; \<open>parse_int\<close> reads a text.\<close>

fun py_int :: "(string \<Rightarrow> int option) \<Rightarrow> yaml \<Rightarrow> exc + int" where
  "py_int parse_int (YBool b) = Inr (of_bool b)"
| "py_int parse_int (YInt n) = Inr n"
| "py_int parse_int (YFloat v) = int_of_float v"
| "py_int parse_int (YStr s) =
     (case parse_int s of Some n \<Rightarrow> Inr n | None \<Rightarrow> Inl (ValueError (''invalid literal for int(): '' @ s)))"
| "py_int parse_int _ = Inl (TypeError ''int() argument must be a string or a real number'')"

text \<open>\<open>opened\<close> is what importing ONNX Runtime and opening the session raises.\<close>

definition onnx_create :: "(string \<Rightarrow> int option) \<Rightarrow> (policy_manifest \<Rightarrow> exc + unit) \<Rightarrow> policy_manifest \<Rightarrow> exc + onnx_runner" where
  "onnx_create parse_int opened m =
     (let contract = pm_isaac_contract m in
      ebind (opened m) (\<lambda>_.
      ebind (case dict_find contract ''observation_dim'' of None \<Rightarrow> Inr 20 | Some v \<Rightarrow> py_int parse_int v) (\<lambda>dim.
      Inr \<lparr>onnx_contract = contract, onnx_observation_dim = dim,
           onnx_state = (if dict_find contract ''observation_layout'' = Some (YStr OBSERVATION_LAYOUT)
                         then Some t60_init else None)\<rparr>)))"

text \<open>\<^verbatim>\<open>_quat_conjugate_wxyz\<close> and \<^verbatim>\<open>_quat_apply_wxyz\<close> on arrays of four and three numbers.\<close>

fun onnx_conjugate :: "pyfloat list \<Rightarrow> exc + pyfloat list" where
  "onnx_conjugate (w # x # y # z # _) = Inr [w, flt_neg x, flt_neg y, flt_neg z]"
| "onnx_conjugate _ = Inl (IndexError ''list index out of range'')"

fun flt_cross :: "pyfloat list \<Rightarrow> pyfloat list \<Rightarrow> pyfloat list" where
  "flt_cross [a1, a2, a3] [b1, b2, b3] =
     [flt_sub (flt_mult a2 b3) (flt_mult a3 b2),
      flt_sub (flt_mult a3 b1) (flt_mult a1 b3),
      flt_sub (flt_mult a1 b2) (flt_mult a2 b1)]"
| "flt_cross _ _ = []"

definition onnx_apply :: "pyfloat list \<Rightarrow> pyfloat list \<Rightarrow> exc + pyfloat list" where
  "onnx_apply q v =
     (if length q \<noteq> 4 \<or> length v \<noteq> 3 then Inl (ValueError ''incompatible dimensions for cross product'')
      else let xyz = drop 1 q; t = map (flt_mult (Fin 2)) (flt_cross xyz v)
           in Inr (map2 flt_add (map2 flt_add v (map (flt_mult (q ! 0)) t)) (flt_cross xyz t)))"

text \<open>\<^verbatim>\<open>list(value)\<close> of a value of the contract, or the default.\<close>

fun yaml_list :: "yaml \<Rightarrow> exc + yaml list" where
  "yaml_list (YList vs) = Inr vs"
| "yaml_list (YMap m) = Inr (map fst m)"
| "yaml_list (YStr s) = Inr (map (\<lambda>c. YStr [c]) s)"
| "yaml_list _ = Inl (TypeError ''object is not iterable'')"

definition contract_vector :: "(yaml \<times> yaml) list \<Rightarrow> string \<Rightarrow> real list \<Rightarrow> exc + yaml list" where
  "contract_vector contract key dflt =
     (case dict_find contract key of None \<Rightarrow> Inr (map (\<lambda>x. YFloat (Fin x)) dflt) | Some v \<Rightarrow> yaml_list v)"

text \<open>One entry of \<^verbatim>\<open>np.asarray(values, dtype=np.float32)\<close>: \<^verbatim>\<open>None\<close> becomes NaN.\<close>

definition np_entry :: "(string \<Rightarrow> pyfloat option) \<Rightarrow> yaml \<Rightarrow> exc + pyfloat" where
  "np_entry parse v = (if v = YNull then Inr NaN else py_float parse v)"

fun np_entries :: "(string \<Rightarrow> pyfloat option) \<Rightarrow> yaml list \<Rightarrow> exc + pyfloat list" where
  "np_entries parse [] = Inr []"
| "np_entries parse (v # vs) =
     ebind (np_entry parse v) (\<lambda>x. ebind (np_entries parse vs) (\<lambda>xs. Inr (x # xs)))"

text \<open>
  \<^verbatim>\<open>_build_observation_vector\<close>.  The node's body entry has a pose and a linear velocity and no
  \<^verbatim>\<open>angular\<close> key, so the angular velocity is the default.
\<close>

definition target_terms ::
    "pyfloat list \<Rightarrow> pyfloat list \<Rightarrow> target_obs \<Rightarrow> exc + pyfloat list \<times> pyfloat list \<times> pyfloat list" where
  "target_terms root_pos root_quat g =
     ebind (onnx_conjugate root_quat) (\<lambda>root_conj.
     if length (to_position g) < 3 \<or> length root_pos < 3 then Inl (IndexError ''list index out of range'')
     else ebind (onnx_apply root_conj (map (\<lambda>i. flt_sub (to_position g ! i) (root_pos ! i)) [0, 1, 2])) (\<lambda>pos_error.
     ebind (onnx_apply root_conj (to_linear g)) (\<lambda>lin_vel.
     Inr (to_orientation g, pos_error, lin_vel))))"

definition build_observation_vector ::
    "(string \<Rightarrow> pyfloat option) \<Rightarrow> onnx_runner \<Rightarrow> observation \<Rightarrow> exc + pyfloat list" where
  "build_observation_vector parse r ob =
     (let zero3 = replicate 3 (Fin 0); identity = [Fin 1, Fin 0, Fin 0, Fin 0];
          root_pos = (case ob_body ob of None \<Rightarrow> zero3 | Some b \<Rightarrow> bo_position b);
          root_quat = (case ob_body ob of None \<Rightarrow> identity | Some b \<Rightarrow> bo_orientation b);
          root_lin = (case ob_body ob of None \<Rightarrow> zero3 | Some b \<Rightarrow> bo_linear b);
          root_ang = zero3;
          wrap = map YFloat
      in ebind (case ob_target ob of
                  Some g \<Rightarrow>
                    if to_valid g
                    then ebind (target_terms root_pos root_quat g) (\<lambda>(q, p, v). Inr (wrap q, wrap p, wrap v))
                    else ebind (contract_vector (onnx_contract r) ''default_target_quat_w'' [1, 0, 0, 0]) (\<lambda>q.
                         ebind (contract_vector (onnx_contract r) ''default_target_pos_error_b'' [0, 0, 0]) (\<lambda>p.
                         ebind (contract_vector (onnx_contract r) ''default_target_lin_vel_b'' [0, 0, 0]) (\<lambda>v. Inr (q, p, v))))
                | None \<Rightarrow>
                    ebind (contract_vector (onnx_contract r) ''default_target_quat_w'' [1, 0, 0, 0]) (\<lambda>q.
                    ebind (contract_vector (onnx_contract r) ''default_target_pos_error_b'' [0, 0, 0]) (\<lambda>p.
                    ebind (contract_vector (onnx_contract r) ''default_target_lin_vel_b'' [0, 0, 0]) (\<lambda>v. Inr (q, p, v)))))
           (\<lambda>(q, p, v).
              let values = q @ p @ v @ wrap root_quat @ wrap root_lin @ wrap root_ang in
              if int (length values) \<noteq> onnx_observation_dim r
              then Inl (RuntimeError (''IsaacLab ONNX observation length '' @ decimal (int (length values))
                     @ '' does not match configured observation_dim='' @ decimal (onnx_observation_dim r)))
              else np_entries parse values))"

definition onnx_run ::
    "(string \<Rightarrow> pyfloat option) \<Rightarrow> (pyfloat list \<Rightarrow> exc + pyfloat list) \<Rightarrow> onnx_runner \<Rightarrow> observation
       \<Rightarrow> onnx_runner \<times> (exc + pyfloat list)" where
  "onnx_run parse session r ob =
     (case onnx_state r of
        Some st \<Rightarrow> (let (st', result) = t60_run session st ob in (r\<lparr>onnx_state := Some st'\<rparr>, result))
      | None \<Rightarrow> (r, ebind (build_observation_vector parse r ob) session))"

definition onnx_reset :: "onnx_runner \<Rightarrow> onnx_runner" where
  "onnx_reset r = r\<lparr>onnx_state := map_option t60_reset (onnx_state r)\<rparr>"

section \<open>CUDA calls\<close>

datatype cuda_call =
    CudaMalloc int
  | CudaStreamCreate
  | SetTensorAddress string int
  | CudaMemcpy int int int
  | ExecuteAsync int
  | CudaStreamSynchronize int
  | CudaStreamDestroy int
  | CudaFree int

text \<open>The status code of a CUDA call, the pointer it stores, and the flag a TensorRT call returns.\<close>

record cuda_reply =
  status_code :: int
  pointer :: int
  flag :: bool

type_synonym cuda_driver = "cuda_call list \<Rightarrow> cuda_call \<Rightarrow> cuda_reply"

text \<open>\<^verbatim>\<open>_CudaRuntime.check\<close> applied to the reply of a call.\<close>

definition cuda_check :: "cuda_reply \<Rightarrow> string \<Rightarrow> exc + int" where
  "cuda_check reply operation =
     (if status_code reply = 0 then Inr (pointer reply) else Inl (RuntimeError (operation @ '' failed'')))"

text \<open>\<^verbatim>\<open>free\<close> and \<^verbatim>\<open>destroy_stream\<close>: nothing for a missing or null handle.\<close>

definition cuda_release ::
    "cuda_driver \<Rightarrow> (int \<Rightarrow> cuda_call) \<Rightarrow> string \<Rightarrow> int option \<Rightarrow> cuda_call list \<Rightarrow> cuda_call list \<times> exc option" where
  "cuda_release driver call operation handle tr =
     (case handle of
        None \<Rightarrow> (tr, None)
      | Some p \<Rightarrow>
          if p = 0 then (tr, None)
          else (tr @ [call p], case cuda_check (driver tr (call p)) operation of Inl e \<Rightarrow> Some e | Inr _ \<Rightarrow> None))"

definition cuda_free :: "cuda_driver \<Rightarrow> int option \<Rightarrow> cuda_call list \<Rightarrow> cuda_call list \<times> exc option" where
  "cuda_free driver = cuda_release driver CudaFree ''cudaFree''"

definition cuda_destroy_stream :: "cuda_driver \<Rightarrow> int option \<Rightarrow> cuda_call list \<Rightarrow> cuda_call list \<times> exc option" where
  "cuda_destroy_stream driver = cuda_release driver CudaStreamDestroy ''cudaStreamDestroy''"

section \<open>The TensorRT runner\<close>

datatype tensor_mode = TensorInput | TensorOutput | TensorNone

record tensor =
  tensor_name :: string
  tensor_mode :: tensor_mode
  tensor_shape :: "int list"
  tensor_float32 :: bool

text \<open>What building an engine from the model file gives: the last step reached, or the tensors.\<close>

datatype engine_outcome =
    ReadFailed exc
  | ParseFailed string
  | BuildFailed
  | DeserializeFailed
  | ContextFailed
  | Engine "tensor list"

record trt_runner =
  observation_state :: t60_state
  cuda_loaded :: bool
  device_input :: "int option"
  device_output :: "int option"
  stream :: "int option"
  trt_closed :: bool
  input_name :: string
  output_name :: string
  driver_calls :: "cuda_call list"

definition trt_blank :: trt_runner where
  "trt_blank = \<lparr>observation_state = t60_init, cuda_loaded = False, device_input = None, device_output = None,
     stream = None, trt_closed = False, input_name = '''', output_name = '''', driver_calls = []\<rparr>"

definition static_shape :: "tensor \<Rightarrow> exc + int list" where
  "static_shape t =
     (if tensor_shape t = [] \<or> (\<exists>v \<in> set (tensor_shape t). v \<le> 0)
      then Inl (RuntimeError (''TensorRT tensor '' @ quoted (tensor_name t) @ '' has dynamic shape''))
      else Inr (tensor_shape t))"

text \<open>The checks on the built engine; they return the input and the output tensor.\<close>

definition check_engine ::
    "(pyfloat \<Rightarrow> string) \<Rightarrow> (yaml \<times> yaml) list \<Rightarrow> tensor list \<Rightarrow> exc + tensor \<times> tensor" where
  "check_engine float_str contract tensors =
     (let inputs = filter (\<lambda>t. tensor_mode t = TensorInput) tensors;
          outputs = filter (\<lambda>t. tensor_mode t = TensorOutput) tensors;
          expected = (\<lambda>key dflt. case dict_find contract key of None \<Rightarrow> dflt | Some v \<Rightarrow> py_str float_str v)
      in if length inputs \<noteq> 1 \<or> length outputs \<noteq> 1
         then Inl (RuntimeError ''TensorRT policy requires one input and one output'')
         else let i = hd inputs; out = hd outputs
         in if tensor_name i \<noteq> expected ''input_name'' ''obs'' \<or> tensor_name out \<noteq> expected ''output_name'' ''actions''
            then Inl (RuntimeError (''TensorRT tensor names are '' @ quoted (tensor_name i) @ ''/'' @ quoted (tensor_name out)))
            else ebind (static_shape i) (\<lambda>input_shape.
                 ebind (static_shape out) (\<lambda>output_shape.
                 if input_shape \<noteq> [1, 198] then Inl (RuntimeError ''TensorRT input shape is unexpected'')
                 else if output_shape \<noteq> [1, 8] then Inl (RuntimeError ''TensorRT output shape is unexpected'')
                 else if \<not> tensor_float32 i then Inl (RuntimeError ''TensorRT policy input must be float32'')
                 else if \<not> tensor_float32 out then Inl (RuntimeError ''TensorRT policy output must be float32'')
                 else Inr (i, out))))"

text \<open>
  \<^verbatim>\<open>close\<close>: an exception of a later release replaces that of an earlier one, every release is tried,
  and the handles are forgotten only when all succeed.
\<close>

definition trt_close :: "cuda_driver \<Rightarrow> trt_runner \<Rightarrow> trt_runner \<times> exc option" where
  "trt_close driver r =
     (if trt_closed r then (r, None)
      else if \<not> cuda_loaded r then (r\<lparr>trt_closed := True\<rparr>, None)
      else let (tr1, e1) = cuda_destroy_stream driver (stream r) (driver_calls r);
               (tr2, e2) = cuda_free driver (device_output r) tr1;
               (tr3, e3) = cuda_free driver (device_input r) tr2;
               err = (case e3 of Some e \<Rightarrow> Some e | None \<Rightarrow> (case e2 of Some e \<Rightarrow> Some e | None \<Rightarrow> e1));
               r1 = r\<lparr>trt_closed := True, driver_calls := tr3\<rparr>
           in (if err = None then r1\<lparr>stream := None, device_output := None, device_input := None\<rparr> else r1, err))"

text \<open>
  The \<^verbatim>\<open>try\<close> block of the constructor; \<open>library\<close> is what loading the CUDA library raises.  It returns
  the runner as it stands and the exception that ended the block, if any.
\<close>

definition trt_allocate :: "cuda_driver \<Rightarrow> exc option \<Rightarrow> trt_runner \<Rightarrow> trt_runner \<times> exc option" where
  "trt_allocate driver library r0 =
     (case library of Some e \<Rightarrow> (r0, Some e) | None \<Rightarrow>
      let r1 = r0\<lparr>cuda_loaded := True\<rparr>; c1 = CudaMalloc (4 * 198); tr1 = driver_calls r1 @ [c1] in
      case cuda_check (driver (driver_calls r1) c1) ''cudaMalloc'' of Inl e \<Rightarrow> (r1\<lparr>driver_calls := tr1\<rparr>, Some e) | Inr p1 \<Rightarrow>
      let r2 = r1\<lparr>device_input := Some p1, driver_calls := tr1\<rparr>; c2 = CudaMalloc (4 * 8); tr2 = tr1 @ [c2] in
      case cuda_check (driver tr1 c2) ''cudaMalloc'' of Inl e \<Rightarrow> (r2\<lparr>driver_calls := tr2\<rparr>, Some e) | Inr p2 \<Rightarrow>
      let r3 = r2\<lparr>device_output := Some p2, driver_calls := tr2\<rparr>; tr3 = tr2 @ [CudaStreamCreate] in
      case cuda_check (driver tr2 CudaStreamCreate) ''cudaStreamCreate'' of Inl e \<Rightarrow> (r3\<lparr>driver_calls := tr3\<rparr>, Some e) | Inr s \<Rightarrow>
      let c4 = SetTensorAddress (input_name r3) p1; tr4 = tr3 @ [c4]; r4 = r3\<lparr>stream := Some s, driver_calls := tr4\<rparr> in
      if \<not> flag (driver tr3 c4) then (r4, Some (RuntimeError ''TensorRT rejected the input buffer address''))
      else let c5 = SetTensorAddress (output_name r4) p2; r5 = r4\<lparr>driver_calls := tr4 @ [c5]\<rparr> in
      if \<not> flag (driver tr4 c5) then (r5, Some (RuntimeError ''TensorRT rejected the output buffer address''))
      else (r5, None))"

text \<open>What the constructor does up to the \<^verbatim>\<open>try\<close> block.\<close>

definition trt_open ::
    "(pyfloat \<Rightarrow> string) \<Rightarrow> bool \<Rightarrow> (string \<Rightarrow> bool) \<Rightarrow> (string \<Rightarrow> engine_outcome) \<Rightarrow> policy_manifest \<Rightarrow> exc + trt_runner" where
  "trt_open float_str importable file_exists tensorrt m =
     (let contract = pm_isaac_contract m; path = pm_model_path m in
      if \<not> importable then Inl (RuntimeError ''TensorRT policy requested but numpy/tensorrt is unavailable'')
      else if dict_find contract ''observation_layout'' \<noteq> Some (YStr OBSERVATION_LAYOUT)
      then Inl (RuntimeError ''TensorRT runner does not support observation layout'')
      else if \<not> file_exists path then Inl (RuntimeError (''TensorRT model does not exist: '' @ path))
      else case tensorrt path of
        ReadFailed e \<Rightarrow> Inl e
      | ParseFailed errors \<Rightarrow> Inl (RuntimeError (''TensorRT failed to parse '' @ path @ '': '' @ errors))
      | BuildFailed \<Rightarrow> Inl (RuntimeError (''TensorRT failed to build '' @ path))
      | DeserializeFailed \<Rightarrow> Inl (RuntimeError (''TensorRT failed to deserialize '' @ path))
      | ContextFailed \<Rightarrow> Inl (RuntimeError ''TensorRT failed to create an execution context'')
      | Engine tensors \<Rightarrow>
          ebind (check_engine float_str contract tensors) (\<lambda>(i, out).
            Inr (trt_blank\<lparr>input_name := tensor_name i, output_name := tensor_name out\<rparr>)))"

text \<open>The constructor: a failure of the \<^verbatim>\<open>try\<close> block closes the runner and raises.\<close>

definition trt_create ::
    "cuda_driver \<Rightarrow> exc option \<Rightarrow> (policy_manifest \<Rightarrow> exc + trt_runner) \<Rightarrow> policy_manifest \<Rightarrow> cuda_call list \<times> (exc + trt_runner)" where
  "trt_create driver library opened m =
     (case opened m of
        Inl e \<Rightarrow> ([], Inl e)
      | Inr r0 \<Rightarrow>
          (case trt_allocate driver library r0 of
             (r, None) \<Rightarrow> (driver_calls r, Inr r)
           | (r, Some e) \<Rightarrow>
               (case trt_close driver r of
                  (r', None) \<Rightarrow> (driver_calls r', Inl e)
                | (r', Some e') \<Rightarrow> (driver_calls r', Inl e'))))"

text \<open>
  \<^verbatim>\<open>run\<close>: \<open>network\<close> is what the engine computes from the input that was copied to the device.  A
  missing handle is passed to the driver as a null pointer; a missing stream raises.
\<close>

definition handle_value :: "int option \<Rightarrow> int" where
  "handle_value h = (case h of None \<Rightarrow> 0 | Some p \<Rightarrow> p)"

definition trt_infer ::
    "cuda_driver \<Rightarrow> (pyfloat list \<Rightarrow> pyfloat list) \<Rightarrow> trt_runner \<Rightarrow> pyfloat list \<Rightarrow> cuda_call list \<times> (exc + pyfloat list)" where
  "trt_infer driver network r policy_input =
     (let tr0 = driver_calls r; c1 = CudaMemcpy (handle_value (device_input r)) 1 (4 * 198); tr1 = tr0 @ [c1] in
      case cuda_check (driver tr0 c1) ''cudaMemcpy'' of Inl e \<Rightarrow> (tr1, Inl e) | Inr _ \<Rightarrow>
      (case stream r of None \<Rightarrow> (tr1, Inl (AttributeError ''value'')) | Some s \<Rightarrow>
       let c2 = ExecuteAsync s; tr2 = tr1 @ [c2] in
       if \<not> flag (driver tr1 c2) then (tr2, Inl (RuntimeError ''TensorRT execute_async_v3 returned false''))
       else let c3 = CudaStreamSynchronize s; tr3 = tr2 @ [c3] in
       case cuda_check (driver tr2 c3) ''cudaStreamSynchronize'' of Inl e \<Rightarrow> (tr3, Inl e) | Inr _ \<Rightarrow>
       let c4 = CudaMemcpy (handle_value (device_output r)) 2 (4 * 8); tr4 = tr3 @ [c4] in
       case cuda_check (driver tr3 c4) ''cudaMemcpy'' of Inl e \<Rightarrow> (tr4, Inl e) | Inr _ \<Rightarrow>
       (tr4, Inr (network policy_input))))"

definition trt_run ::
    "cuda_driver \<Rightarrow> (pyfloat list \<Rightarrow> pyfloat list) \<Rightarrow> trt_runner \<Rightarrow> observation \<Rightarrow> trt_runner \<times> (exc + pyfloat list)" where
  "trt_run driver network r ob =
     (case t60_build (observation_state r) ob of
        Inl e \<Rightarrow> (r, Inl e)
      | Inr (st1, policy_input) \<Rightarrow>
          (let (tr, result) = trt_infer driver network r policy_input; r1 = r\<lparr>observation_state := st1, driver_calls := tr\<rparr>
           in case result of
                Inl e \<Rightarrow> (r1, Inl e)
              | Inr act \<Rightarrow>
                  (case t60_commit st1 of
                     Inl e \<Rightarrow> (r1, Inl e)
                   | Inr st2 \<Rightarrow> (r1\<lparr>observation_state := st2\<rparr>, Inr act))))"

definition trt_reset :: "trt_runner \<Rightarrow> trt_runner" where
  "trt_reset r = r\<lparr>observation_state := t60_reset (observation_state r)\<rparr>"

section \<open>All runners\<close>

datatype policy_runner = DummyRunner policy_manifest | OnnxRunner onnx_runner | TensorRtRunner trt_runner

definition create_runner ::
    "(policy_manifest \<Rightarrow> exc + onnx_runner) \<Rightarrow> (policy_manifest \<Rightarrow> exc + trt_runner) \<Rightarrow> policy_manifest \<Rightarrow> exc + policy_runner" where
  "create_runner new_onnx new_trt m =
     ebind (runner_kind m) (\<lambda>k. case k of
        Dummy \<Rightarrow> Inr (DummyRunner m)
      | Onnx \<Rightarrow> ebind (new_onnx m) (\<lambda>r. Inr (OnnxRunner r))
      | TensorRt \<Rightarrow> ebind (new_trt m) (\<lambda>r. Inr (TensorRtRunner r)))"

fun runner_run ::
    "(onnx_runner \<Rightarrow> observation \<Rightarrow> onnx_runner \<times> (exc + pyfloat list)) \<Rightarrow> (trt_runner \<Rightarrow> observation \<Rightarrow> trt_runner \<times> (exc + pyfloat list))
       \<Rightarrow> policy_runner \<Rightarrow> observation \<Rightarrow> policy_runner \<times> (exc + pyfloat list)" where
  "runner_run onnx trt (DummyRunner m) ob = (DummyRunner m, Inr (dummy_run m ob))"
| "runner_run onnx trt (OnnxRunner r) ob = map_prod OnnxRunner id (onnx r ob)"
| "runner_run onnx trt (TensorRtRunner r) ob = map_prod TensorRtRunner id (trt r ob)"

fun runner_reset :: "policy_runner \<Rightarrow> policy_runner" where
  "runner_reset (DummyRunner m) = DummyRunner m"
| "runner_reset (OnnxRunner r) = OnnxRunner (onnx_reset r)"
| "runner_reset (TensorRtRunner r) = TensorRtRunner (trt_reset r)"

fun runner_close :: "cuda_driver \<Rightarrow> policy_runner \<Rightarrow> policy_runner \<times> exc option" where
  "runner_close driver (TensorRtRunner r) = map_prod TensorRtRunner id (trt_close driver r)"
| "runner_close driver r = (r, None)"

end
