(* ===== verification/Runner_Safety.thy ===== *)
theory Runner_Safety
  imports Policy_Runners "HOL-Library.Multiset"
begin

text \<open>
  Properties of the runners: the two engines behave as the runner of the trajectory network that the
  policy node relies on, device memory is released exactly once, and what the older observation
  vector contains.
\<close>

section \<open>The engines implement the trajectory runner\<close>

lemma trt_infer_calls: "\<exists>cs. fst (trt_infer driver network r v) = driver_calls r @ cs \<and>
    list_all (\<lambda>c. (\<forall>n. c \<noteq> CudaMalloc n) \<and> c \<noteq> CudaStreamCreate \<and> (\<forall>p. c \<noteq> CudaFree p) \<and> (\<forall>s. c \<noteq> CudaStreamDestroy s)) cs"
  by (auto simp: trt_infer_def Let_def split: sum.split option.split)

lemma trt_run_refines:
  "trt_run driver network r ob = (r', result) \<Longrightarrow>
   t60_run (\<lambda>v. snd (trt_infer driver network r v)) (observation_state r) ob = (observation_state r', result)"
  by (auto simp: trt_run_def t60_run_def Let_def split: sum.splits prod.splits)

text \<open>Whatever the device does, a TensorRT runner and an ONNX runner with the trajectory layout
  are the runner of the trajectory network: observation history and result of every inference, and the
  history after a reset, are those of that runner with the engine as its network.\<close>

theorem engines_implement_t60_runner:
  "t60_run (\<lambda>v. snd (trt_infer driver network r v)) (observation_state r) ob =
     (let (r', result) = trt_run driver network r ob in (observation_state r', result)) \<and>
   observation_state (trt_reset r) = t60_reset (observation_state r) \<and>
   onnx_run parse session (o1\<lparr>onnx_state := Some st\<rparr>) ob =
     (let (st', result) = t60_run session st ob in (o1\<lparr>onnx_state := Some st'\<rparr>, result)) \<and>
   onnx_reset (o1\<lparr>onnx_state := Some st\<rparr>) = o1\<lparr>onnx_state := Some (t60_reset st)\<rparr>"
  using trt_run_refines [of driver network r ob]
  by (auto simp: trt_reset_def onnx_run_def onnx_reset_def split: prod.split)

section \<open>Device handles\<close>

datatype device_handle = Memory int | Stream int

text \<open>The handle a call obtains, given the reply, and the handle it releases; null handles do not count.\<close>

definition granted :: "cuda_driver \<Rightarrow> cuda_call list \<Rightarrow> cuda_call \<Rightarrow> device_handle list" where
  "granted driver tr c =
     (let p = pointer (driver tr c) in
      if status_code (driver tr c) = 0 \<and> p \<noteq> 0
      then (case c of CudaMalloc n \<Rightarrow> [Memory p] | CudaStreamCreate \<Rightarrow> [Stream p] | _ \<Rightarrow> [])
      else [])"

fun released_by :: "cuda_call \<Rightarrow> device_handle list" where
  "released_by (CudaFree p) = [Memory p]"
| "released_by (CudaStreamDestroy s) = [Stream s]"
| "released_by _ = []"

primrec allocated_rev :: "cuda_driver \<Rightarrow> cuda_call list \<Rightarrow> device_handle list" where
  "allocated_rev driver [] = []"
| "allocated_rev driver (c # tr) = allocated_rev driver tr @ granted driver (rev tr) c"

definition allocated :: "cuda_driver \<Rightarrow> cuda_call list \<Rightarrow> device_handle list" where
  "allocated driver tr = allocated_rev driver (rev tr)"

definition released :: "cuda_call list \<Rightarrow> device_handle list" where
  "released tr = concat (map released_by tr)"

lemma ledger_simps [simp]:
  "allocated driver [] = []" "released [] = []"
  "allocated driver (tr @ [c]) = allocated driver tr @ granted driver tr c"
  "released (c # tr) = released_by c @ released tr"
  "released (tr @ cs) = released tr @ released cs"
  by (simp_all add: allocated_def released_def)

lemma ledger_snoc_list [simp]:
  "allocated driver (tr @ [c, d]) = allocated driver tr @ granted driver tr c @ granted driver (tr @ [c]) d"
  using ledger_simps(3) [of driver "tr @ [c]" d] by simp

lemma granted_simps [simp]:
  "granted driver tr (SetTensorAddress n p) = []"
  "granted driver tr (CudaMemcpy p d s) = []"
  "granted driver tr (ExecuteAsync p) = []"
  "granted driver tr (CudaStreamSynchronize p) = []"
  "granted driver tr (CudaStreamDestroy p) = []"
  "granted driver tr (CudaFree p) = []"
  by (simp_all add: granted_def Let_def)

fun handle_list :: "(int \<Rightarrow> device_handle) \<Rightarrow> int option \<Rightarrow> device_handle list" where
  "handle_list f None = []"
| "handle_list f (Some p) = (if p = 0 then [] else [f p])"

definition held_handles :: "trt_runner \<Rightarrow> device_handle list" where
  "held_handles r = handle_list Stream (stream r) @ handle_list Memory (device_output r) @ handle_list Memory (device_input r)"

lemma cuda_release_ledger:
  assumes "cuda_free driver h tr = (tr', e)"
  shows "released tr' = released tr @ handle_list Memory h" "allocated driver tr' = allocated driver tr"
  using assms by (auto simp: cuda_free_def cuda_release_def split: option.splits if_splits)

lemma cuda_destroy_ledger:
  assumes "cuda_destroy_stream driver h tr = (tr', e)"
  shows "released tr' = released tr @ handle_list Stream h" "allocated driver tr' = allocated driver tr"
  using assms by (auto simp: cuda_destroy_stream_def cuda_release_def split: option.splits if_splits)

lemma trt_close_ledger:
  assumes "trt_close driver r = (r', e)" "\<not> trt_closed r" "cuda_loaded r \<or> held_handles r = []"
  shows "released (driver_calls r') = released (driver_calls r) @ held_handles r"
    "allocated driver (driver_calls r') = allocated driver (driver_calls r)" "trt_closed r'"
proof -
  have "released (driver_calls r') = released (driver_calls r) @ held_handles r \<and>
    allocated driver (driver_calls r') = allocated driver (driver_calls r) \<and> trt_closed r'"
  proof (cases "cuda_loaded r")
    case True
    obtain tr1 e1 where 1: "cuda_destroy_stream driver (stream r) (driver_calls r) = (tr1, e1)" by fastforce
    obtain tr2 e2 where 2: "cuda_free driver (device_output r) tr1 = (tr2, e2)" by fastforce
    obtain tr3 e3 where 3: "cuda_free driver (device_input r) tr2 = (tr3, e3)" by fastforce
    have "driver_calls r' = tr3" "trt_closed r'"
      using assms(1,2) True by (auto simp: trt_close_def Let_def 1 2 3 split: if_splits)
    then show ?thesis
      using cuda_destroy_ledger [OF 1] cuda_release_ledger [OF 2] cuda_release_ledger [OF 3]
      by (simp add: held_handles_def)
  next
    case False
    then show ?thesis
      using assms by (auto simp: trt_close_def)
  qed
  then show "released (driver_calls r') = released (driver_calls r) @ held_handles r"
    "allocated driver (driver_calls r') = allocated driver (driver_calls r)" "trt_closed r'"
    by blast+
qed

text \<open>
  The state of the books: an open runner holds exactly what it has allocated and has released nothing;
  a closed one has released exactly what it had allocated.
\<close>

definition books_ok :: "cuda_driver \<Rightarrow> trt_runner \<Rightarrow> bool" where
  "books_ok driver r \<longleftrightarrow>
     (if trt_closed r then mset (released (driver_calls r)) = mset (allocated driver (driver_calls r))
      else released (driver_calls r) = [] \<and> mset (allocated driver (driver_calls r)) = mset (held_handles r)) \<and>
     (cuda_loaded r \<or> held_handles r = [])"

lemma close_books: "books_ok driver r \<Longrightarrow> books_ok driver (fst (trt_close driver r)) \<and> trt_closed (fst (trt_close driver r))"
proof (cases "trt_closed r")
  case False
  assume b: "books_ok driver r"
  obtain r' e where c: "trt_close driver r = (r', e)" by fastforce
  have k: "cuda_loaded r' = cuda_loaded r" "\<not> cuda_loaded r \<Longrightarrow> held_handles r' = held_handles r"
    using c False by (auto simp: trt_close_def Let_def held_handles_def split: if_splits prod.splits)
  have "cuda_loaded r \<or> held_handles r = []"
    using b by (simp add: books_ok_def)
  then show ?thesis
    using trt_close_ledger [OF c False] b False k by (auto simp: c books_ok_def)
qed (simp add: trt_close_def)

lemma granted_malloc:
  "cuda_check (driver tr (CudaMalloc n)) op = Inr p \<Longrightarrow> granted driver tr (CudaMalloc n) = handle_list Memory (Some p)"
  "cuda_check (driver tr (CudaMalloc n)) op = Inl e \<Longrightarrow> granted driver tr (CudaMalloc n) = []"
  "cuda_check (driver tr CudaStreamCreate) op = Inr p \<Longrightarrow> granted driver tr CudaStreamCreate = handle_list Stream (Some p)"
  "cuda_check (driver tr CudaStreamCreate) op = Inl e \<Longrightarrow> granted driver tr CudaStreamCreate = []"
  by (auto simp: cuda_check_def granted_def Let_def split: if_splits)

lemma allocate_books:
  assumes a: "trt_allocate driver library r0 = (r, e)" and r0: "driver_calls r0 = []" "held_handles r0 = []" "\<not> trt_closed r0"
    "stream r0 = None" "device_input r0 = None" "device_output r0 = None"
  shows "books_ok driver r \<and> \<not> trt_closed r"
proof (cases library)
  case (Some x)
  then show ?thesis
    using a r0 by (auto simp: trt_allocate_def books_ok_def)
next
  case None
  let ?c1 = "CudaMalloc (4 * 198)" and ?c2 = "CudaMalloc (4 * 8)"
  show ?thesis
  proof (cases "cuda_check (driver [] ?c1) ''cudaMalloc''")
    case (Inl x)
    then show ?thesis
      using a r0 None granted_malloc(2) [where driver = driver, OF Inl]
      by (auto simp: trt_allocate_def Let_def books_ok_def held_handles_def allocated_def released_def)
  next
    case 1: (Inr p1)
    show ?thesis
    proof (cases "cuda_check (driver [?c1] ?c2) ''cudaMalloc''")
      case (Inl x)
      then show ?thesis
        using a r0 None 1 granted_malloc(1) [where driver = driver, OF 1] granted_malloc(2) [where driver = driver, OF Inl]
        by (auto simp: trt_allocate_def Let_def books_ok_def held_handles_def allocated_def released_def)
    next
      case 2: (Inr p2)
      show ?thesis
      proof (cases "cuda_check (driver [?c1, ?c2] CudaStreamCreate) ''cudaStreamCreate''")
        case (Inl x)
        then show ?thesis
          using a r0 None 1 2 granted_malloc(1) [where driver = driver, OF 1] granted_malloc(1) [where driver = driver, OF 2] granted_malloc(4) [where driver = driver, OF Inl]
          by (auto simp: trt_allocate_def Let_def books_ok_def held_handles_def allocated_def released_def)
      next
        case 3: (Inr p3)
        have f: "device_input r = Some p1" "device_output r = Some p2" "stream r = Some p3" "\<not> trt_closed r" "cuda_loaded r"
          using a r0(1,3) None 1 2 3 by (auto simp: trt_allocate_def Let_def split: if_splits)
        have t: "driver_calls r \<in> {[?c1, ?c2, CudaStreamCreate, SetTensorAddress (input_name r0) p1],
            [?c1, ?c2, CudaStreamCreate, SetTensorAddress (input_name r0) p1, SetTensorAddress (output_name r0) p2]}"
          using a r0(1) None 1 2 3 by (auto simp: trt_allocate_def Let_def split: if_splits)
        have "allocated driver (driver_calls r) = handle_list Memory (Some p1) @ handle_list Memory (Some p2) @ handle_list Stream (Some p3)"
          using t granted_malloc(1) [where driver = driver, OF 1] granted_malloc(1) [where driver = driver, OF 2]
            granted_malloc(3) [where driver = driver, OF 3]
          by (auto simp: allocated_def simp del: handle_list.simps)
        moreover have "released (driver_calls r) = []"
          using t by auto
        ultimately show ?thesis
          using f by (simp add: books_ok_def held_handles_def ac_simps del: handle_list.simps)
      qed
    qed
  qed
qed

datatype trt_op = TrtRun observation | TrtReset | TrtClose

fun trt_step :: "cuda_driver \<Rightarrow> (pyfloat list \<Rightarrow> pyfloat list) \<Rightarrow> trt_runner \<Rightarrow> trt_op \<Rightarrow> trt_runner" where
  "trt_step driver network r (TrtRun ob) = fst (trt_run driver network r ob)"
| "trt_step driver network r TrtReset = trt_reset r"
| "trt_step driver network r TrtClose = fst (trt_close driver r)"

definition quiet :: "cuda_call \<Rightarrow> bool" where
  "quiet c \<longleftrightarrow> released_by c = [] \<and> (\<forall>driver tr. granted driver tr c = [])"

lemma quiet_ledger: "list_all quiet cs \<Longrightarrow> allocated driver (tr @ cs) = allocated driver tr \<and> released (tr @ cs) = released tr"
proof (induction cs rule: rev_induct)
  case (snoc c cs)
  then show ?case
    using ledger_simps(3) [of driver "tr @ cs" c] by (simp add: quiet_def)
qed simp

lemma trt_infer_quiet: "\<exists>cs. fst (trt_infer driver network r v) = driver_calls r @ cs \<and> list_all quiet cs"
  by (auto simp: trt_infer_def Let_def quiet_def split: sum.split option.split)

lemma trt_run_quiet:
  "\<exists>cs st. fst (trt_run driver network r ob) = r\<lparr>observation_state := st, driver_calls := driver_calls r @ cs\<rparr> \<and> list_all quiet cs"
proof (cases "t60_build (observation_state r) ob")
  case (Inl e)
  then have "fst (trt_run driver network r ob) = r\<lparr>observation_state := observation_state r, driver_calls := driver_calls r @ []\<rparr>"
    by (simp add: trt_run_def)
  then show ?thesis
    by fastforce
next
  case (Inr p)
  obtain st1 v where p: "p = (st1, v)" by fastforce
  obtain cs where cs: "fst (trt_infer driver network r v) = driver_calls r @ cs" "list_all quiet cs"
    using trt_infer_quiet by blast
  define st2 where "st2 = (case t60_commit st1 of Inl e \<Rightarrow> st1 | Inr st2 \<Rightarrow> st2)"
  have "fst (trt_run driver network r ob) \<in>
      {r\<lparr>observation_state := st1, driver_calls := driver_calls r @ cs\<rparr>, r\<lparr>observation_state := st2, driver_calls := driver_calls r @ cs\<rparr>}"
    using Inr p cs(1) by (simp add: trt_run_def case_prod_beta Let_def st2_def split: sum.split)
  then show ?thesis
    using cs(2) by blast
qed

lemma trt_step_books: "books_ok driver r \<Longrightarrow> books_ok driver (trt_step driver network r op)"
proof (cases op)
  case (TrtRun ob)
  assume b: "books_ok driver r"
  obtain cs st where "fst (trt_run driver network r ob) = r\<lparr>observation_state := st, driver_calls := driver_calls r @ cs\<rparr>" "list_all quiet cs"
    using trt_run_quiet by blast
  then show ?thesis
    using b quiet_ledger [of cs driver "driver_calls r"] by (simp add: TrtRun books_ok_def held_handles_def)
next
  case TrtReset
  then show "books_ok driver r \<Longrightarrow> ?thesis"
    by (simp add: trt_reset_def books_ok_def held_handles_def)
next
  case TrtClose
  then show "books_ok driver r \<Longrightarrow> ?thesis"
    by (simp add: close_books)
qed

interpretation trt_books: event_machine "trt_step driver network" "books_ok driver" for driver network
  by unfold_locales (rule trt_step_books)

lemma trt_step_closed: "trt_closed r \<Longrightarrow> trt_closed (trt_step driver network r op)"
proof (cases op)
  case (TrtRun ob)
  assume "trt_closed r"
  moreover obtain cs st where "fst (trt_run driver network r ob) = r\<lparr>observation_state := st, driver_calls := driver_calls r @ cs\<rparr>"
    using trt_run_quiet by blast
  ultimately show ?thesis
    by (simp add: TrtRun)
qed (simp_all add: trt_reset_def trt_close_def)

interpretation trt_stays_closed: event_machine "trt_step driver network" trt_closed for driver network
  by unfold_locales (rule trt_step_closed)

lemma trt_closed_iff:
  assumes "books_ok driver r" "\<not> trt_closed r"
  shows "trt_closed (foldl (trt_step driver network) r ops) \<longleftrightarrow> TrtClose \<in> set ops"
  using assms
proof (induction ops arbitrary: r)
  case (Cons op ops)
  show ?case
  proof (cases "op = TrtClose")
    case True
    then show ?thesis
      using close_books [OF Cons.prems(1)] trt_stays_closed.run_inv by simp
  next
    case False
    then have "\<not> trt_closed (trt_step driver network r op)"
    proof (cases op)
      case (TrtRun ob)
      obtain cs st where "fst (trt_run driver network r ob) = r\<lparr>observation_state := st, driver_calls := driver_calls r @ cs\<rparr>"
        using trt_run_quiet by blast
      then show ?thesis
        using Cons.prems(2) by (simp add: TrtRun)
    qed (use Cons.prems(2) in \<open>simp_all add: trt_reset_def\<close>)
    then show ?thesis
      using Cons.IH [OF trt_step_books [OF Cons.prems(1)]] False by auto
  qed
qed simp

lemma trt_open_blank:
  "trt_open float_str importable file_exists tensorrt m = Inr r \<Longrightarrow>
   driver_calls r = [] \<and> held_handles r = [] \<and> \<not> trt_closed r \<and> stream r = None \<and> device_input r = None \<and> device_output r = None"
  by (auto simp: trt_open_def Let_def trt_blank_def held_handles_def ebind_Inr_conv split: engine_outcome.splits if_splits)

text \<open>C11: Device memory and the stream are released exactly once, whatever the driver answers: when the
  constructor raises, everything it obtained has been released; a runner releases nothing while it is
  used, and once it has been closed, however often and whatever is called afterwards, it has released
  exactly what it obtained.\<close>

theorem device_handles_released_once:
  assumes "trt_create driver library (trt_open float_str importable file_exists tensorrt) m = (tr, result)"
  shows "(\<forall>e. result = Inl e \<longrightarrow> mset (released tr) = mset (allocated driver tr)) \<and>
    (\<forall>r. result = Inr r \<longrightarrow>
       (let calls = driver_calls (foldl (trt_step driver network) r ops) in
        if TrtClose \<in> set ops then mset (released calls) = mset (allocated driver calls) else released calls = []))"
proof (cases "trt_open float_str importable file_exists tensorrt m")
  case (Inl e)
  then show ?thesis
    using assms by (auto simp: trt_create_def)
next
  case (Inr r0)
  obtain r e where a: "trt_allocate driver library r0 = (r, e)"
    by fastforce
  have b: "books_ok driver r" "\<not> trt_closed r"
    using allocate_books [OF a] trt_open_blank [OF Inr] by auto
  show ?thesis
  proof (cases e)
    case None
    then have r: "result = Inr r"
      using assms by (simp add: trt_create_def Inr a)
    have "books_ok driver (foldl (trt_step driver network) r ops)"
      by (rule trt_books.run_inv [OF b(1)])
    then show ?thesis
      using trt_closed_iff [OF b] by (simp add: r books_ok_def Let_def)
  next
    case (Some x)
    obtain r' y where c: "trt_close driver r = (r', y)"
      by fastforce
    have "books_ok driver r' \<and> trt_closed r'"
      using close_books [OF b(1)] by (simp add: c)
    moreover have "tr = driver_calls r'" "\<exists>z. result = Inl z"
      using assms by (auto simp: trt_create_def Inr a Some c split: option.splits)
    ultimately show ?thesis
      by (auto simp: books_ok_def)
  qed
qed

definition demo_trt_manifest :: policy_manifest where
  "demo_trt_manifest = \<lparr>pm_name = ''p'', pm_role = ''body'', pm_runner = ''TRT'', pm_model_path = ''/m.onnx'', pm_input_schema = [],
     pm_output_schema = [], pm_isaac_contract = [(YStr ''observation_layout'', YStr OBSERVATION_LAYOUT)], pm_deployment_validation = []\<rparr>"

definition demo_engine :: "tensor list" where
  "demo_engine = [\<lparr>tensor_name = ''obs'', tensor_mode = TensorInput, tensor_shape = [1, 198], tensor_float32 = True\<rparr>,
     \<lparr>tensor_name = ''actions'', tensor_mode = TensorOutput, tensor_shape = [1, 8], tensor_float32 = True\<rparr>]"

text \<open>A driver that grants memory and a stream and then rejects the second buffer.\<close>

definition demo_driver :: cuda_driver where
  "demo_driver tr c = \<lparr>status_code = 0, pointer = int (length tr) + 1, flag = (length tr < 4)\<rparr>"

lemma demo_trt_open: "trt_open (\<lambda>_. '''') True (\<lambda>_. True) (\<lambda>_. Engine demo_engine) demo_trt_manifest =
    Inr (trt_blank\<lparr>input_name := ''obs'', output_name := ''actions''\<rparr>)"
  by (simp add: trt_open_def demo_trt_manifest_def demo_engine_def check_engine_def dict_find_def static_shape_def Let_def)

theorem device_handles_released_once_witness:
  "released (fst (trt_create demo_driver None (trt_open (\<lambda>_. '''') True (\<lambda>_. True) (\<lambda>_. Engine demo_engine)) demo_trt_manifest))
     = [Stream 3, Memory 2, Memory 1] \<and>
   mset (allocated demo_driver (fst (trt_create demo_driver None (trt_open (\<lambda>_. '''') True (\<lambda>_. True) (\<lambda>_. Engine demo_engine)) demo_trt_manifest)))
     = {#Memory 1, Memory 2, Stream 3#}"
proof -
  have c: "trt_create demo_driver None (trt_open (\<lambda>_. '''') True (\<lambda>_. True) (\<lambda>_. Engine demo_engine)) demo_trt_manifest =
    ([CudaMalloc 792, CudaMalloc 32, CudaStreamCreate, SetTensorAddress ''obs'' 1, SetTensorAddress ''actions'' 2,
      CudaStreamDestroy 3, CudaFree 2, CudaFree 1], Inl (RuntimeError ''TensorRT rejected the output buffer address''))"
    by (simp add: trt_create_def demo_trt_open trt_allocate_def trt_blank_def demo_driver_def cuda_check_def trt_close_def
        cuda_destroy_stream_def cuda_free_def cuda_release_def Let_def)
  show ?thesis
    using device_handles_released_once [OF c] by (simp add: c released_def flip: mset.simps) (simp add: add_mset_commute)
qed

text \<open>A runner of the factory: the dispatch on the name, without regard to case.\<close>

lemma create_runner_cases:
  "create_runner new_onnx new_trt m = Inr r \<Longrightarrow>
     (py_lower (pm_runner m) = ''dummy'' \<and> r = DummyRunner m) \<or>
     (py_lower (pm_runner m) = ''onnx'' \<and> (\<exists>o1. new_onnx m = Inr o1 \<and> r = OnnxRunner o1)) \<or>
     (py_lower (pm_runner m) \<in> {''tensorrt'', ''trt''} \<and> (\<exists>t. new_trt m = Inr t \<and> r = TensorRtRunner t))"
  by (auto simp: create_runner_def runner_kind_def Let_def ebind_Inr_conv split: if_splits)

section \<open>The older observation vector\<close>

lemma np_entries_wrap [simp]: "np_entries parse (map YFloat xs) = Inr xs"
  by (induction xs) (simp_all add: np_entry_def)

lemma np_entries_append:
  "np_entries parse (vs @ ws) = ebind (np_entries parse vs) (\<lambda>xs. ebind (np_entries parse ws) (\<lambda>ys. Inr (xs @ ys)))"
proof (induction vs)
  case Nil
  then show ?case by (cases "np_entries parse ws") simp_all
next
  case (Cons v vs)
  show ?case
  proof (cases "np_entry parse v")
    case (Inr x)
    then show ?thesis
      using Cons by (cases "np_entries parse vs"; cases "np_entries parse ws") simp_all
  qed simp
qed

text \<open>The observation vector of the older ONNX contract never contains a measured angular velocity:
  its last three entries are zero and it does not depend on the IMU.\<close>

theorem onnx_vector_ignores_rotation:
  assumes "build_observation_vector parse r ob = Inr values"
  shows "\<exists>front. values = front @ replicate 3 (Fin 0) \<and>
    build_observation_vector parse r (ob\<lparr>ob_imu := imu\<rparr>) = Inr values"
proof -
  have "build_observation_vector parse r (ob\<lparr>ob_imu := imu\<rparr>) = build_observation_vector parse r ob"
    by (simp add: build_observation_vector_def)
  moreover have "\<exists>front. values = front @ replicate 3 (Fin 0)"
    using assms unfolding build_observation_vector_def Let_def
    by (auto simp: ebind_Inr_conv np_entries_append split: if_splits simp del: map_replicate replicate.simps)
  ultimately show ?thesis
    using assms by auto
qed

theorem onnx_vector_ignores_rotation_witness:
  "\<exists>front. (Fin 1 # replicate 9 (Fin 0)) @ (Fin 1 # replicate 9 (Fin 0)) = front @ replicate 3 (Fin 0) \<and>
    build_observation_vector (\<lambda>_. None) \<lparr>onnx_contract = [], onnx_observation_dim = 20, onnx_state = None\<rparr>
      (no_observation\<lparr>ob_imu := Some \<lparr>io_orientation = [], io_angular = [Fin 1]\<rparr>\<rparr>) = Inr ((Fin 1 # replicate 9 (Fin 0)) @ (Fin 1 # replicate 9 (Fin 0)))"
  by (rule onnx_vector_ignores_rotation)
    (simp add: build_observation_vector_def no_observation_def contract_vector_def dict_find_def np_entry_def eval_nat_numeral)

end
