(* ===== verification/Rate_Check.thy ===== *)
theory Rate_Check
  imports Sample_Arrays
begin

text \<open>
  \<^verbatim>\<open>scripts/robotcore_estimator_rate_check.py\<close>: the probe that feeds the estimator synthetic visual
  odometry and, for two seconds, AprilTag poses with one outlier, and judges the body states that come
  back.  The body states carry finite numbers.  The printed summary is not modelled.
\<close>

section \<open>The published inputs\<close>

record rate_check =
  check_duration_s :: real
  started_ns :: int
  body_arrival_ns :: "int list"
  body_stamp_ns :: "int list"
  body_velocity_x :: "real list"
  body_velocity_valid :: "bool list"
  body_frame_ids :: "string list"
  body_tag_residual_x :: "real list"
  body_state_valid :: "bool list"
  body_position_estimated :: "bool list"
  outlier_sent :: bool

definition rate_check_init :: "real \<Rightarrow> int \<Rightarrow> rate_check" where
  "rate_check_init duration now =
     \<lparr>check_duration_s = max 3 duration, started_ns = now, body_arrival_ns = [], body_stamp_ns = [], body_velocity_x = [],
      body_velocity_valid = [], body_frame_ids = [], body_tag_residual_x = [], body_state_valid = [],
      body_position_estimated = [], outlier_sent = False\<rparr>"

record synthetic_pose =
  sp_stamp_ns :: int
  sp_frame :: string
  sp_position_x :: real
  sp_orientation_w :: real
  sp_pose_covariance :: "real list"

definition diagonal_covariance :: "real \<Rightarrow> real \<Rightarrow> real list" where
  "diagonal_covariance a b =
     map (\<lambda>i. if i \<in> {0, 7, 14} then a else if i \<in> {21, 28, 35} then b else 0) [0..<36]"

text \<open>\<^verbatim>\<open>publish_vio\<close>: pose, speed and twist covariance.\<close>

definition publish_vio :: "int \<Rightarrow> rate_check \<Rightarrow> synthetic_pose \<times> real \<times> real list" where
  "publish_vio now c =
     (let measurement = now - 50000000; elapsed = real_of_int (measurement - started_ns c) * (1 / 10 ^ 9) in
      (\<lparr>sp_stamp_ns = measurement, sp_frame = ''odom'', sp_position_x = 1 / 4 * elapsed, sp_orientation_w = 1,
        sp_pose_covariance = diagonal_covariance (25 / 10000) (1 / 1000)\<rparr>,
       1 / 4, diagonal_covariance (9 / 10000) (1 / 100)))"

definition publish_tag_anchor :: "int \<Rightarrow> rate_check \<Rightarrow> rate_check \<times> synthetic_pose option" where
  "publish_tag_anchor now c =
     (let elapsed = real_of_int (now - started_ns c) * (1 / 10 ^ 9) in
      if elapsed > 2 then (c, None)
      else let measurement = now - 60000000; measurement_elapsed = real_of_int (measurement - started_ns c) * (1 / 10 ^ 9);
               outlier = (elapsed \<ge> 1 \<and> \<not> outlier_sent c)
           in (if outlier then c\<lparr>outlier_sent := True\<rparr> else c,
               Some \<lparr>sp_stamp_ns = measurement, sp_frame = ''map'',
                     sp_position_x = 1 / 4 * measurement_elapsed + (if outlier then 1 else 0), sp_orientation_w = 1,
                     sp_pose_covariance = diagonal_covariance (25 / 10000) (1 / 1000)\<rparr>))"

section \<open>The observed output\<close>

record rate_body =
  rb_sec :: int
  rb_nanosec :: int
  rb_frame :: string
  rb_position_x :: real
  rb_velocity_x :: real
  rb_velocity_valid :: bool
  rb_state_valid :: bool
  rb_position_estimated :: bool

definition rate_on_body :: "int \<Rightarrow> rate_body \<Rightarrow> rate_check \<Rightarrow> rate_check" where
  "rate_on_body now m c =
     (let measurement = rb_sec m * 1000000000 + rb_nanosec m;
          elapsed = real_of_int (measurement - started_ns c) * (1 / 10 ^ 9)
      in c\<lparr>body_arrival_ns := body_arrival_ns c @ [now], body_stamp_ns := body_stamp_ns c @ [measurement],
           body_velocity_x := body_velocity_x c @ [rb_velocity_x m],
           body_velocity_valid := body_velocity_valid c @ [rb_velocity_valid m],
           body_frame_ids := body_frame_ids c @ [rb_frame m],
           body_tag_residual_x := body_tag_residual_x c @ [rb_position_x m - 1 / 4 * elapsed],
           body_state_valid := body_state_valid c @ [rb_state_valid m],
           body_position_estimated := body_position_estimated c @ [rb_position_estimated m]\<rparr>)"

definition rate_hz :: "int list \<Rightarrow> real" where
  "rate_hz times_ns =
     (if length times_ns < 2 then 0
      else let elapsed = real_of_int (last times_ns - hd times_ns) * (1 / 10 ^ 9) in
        if elapsed > 0 then real (length times_ns - 1) / elapsed else 0)"

definition strictly_increasing :: "int list \<Rightarrow> bool" where
  "strictly_increasing values \<longleftrightarrow> list_all (\<lambda>(previous, current). current > previous) (zip values (tl values))"

definition stamp_delta_summary :: "int list \<Rightarrow> int \<times> nat" where
  "stamp_delta_summary values =
     (let deltas = map (\<lambda>(previous, current). current - previous) (zip values (tl values)) in
      if deltas = [] then (0, 0) else (Min (set deltas), length (filter (\<lambda>d. d \<le> 0) deltas)))"

text \<open>\<^verbatim>\<open>values[-120:]\<close>.\<close>

definition last_120 :: "'a list \<Rightarrow> 'a list" where
  "last_120 values = drop (length values - 120) values"

definition rate_result :: "rate_check \<Rightarrow> bool" where
  "rate_result c =
     (let body_rate = rate_hz (body_arrival_ns c);
          velocity = (if body_velocity_x c = [] then NaN else Fin (np_median (last_120 (body_velocity_x c))));
          tag_error = (if body_tag_residual_x c = [] then NaN else Fin (np_median (last_120 (body_tag_residual_x c))));
          maximum = (if body_tag_residual_x c = [] then NaN else Fin (np_max (vabs (body_tag_residual_x c))));
          map_output = (body_frame_ids c \<noteq> [] \<and> list_all (\<lambda>f. f = ''map'') (last_120 (body_frame_ids c)));
          tag_lost_vio_valid =
            (body_position_estimated c \<noteq> [] \<and> list_all id (last_120 (body_position_estimated c)) \<and>
             \<not> list_ex id (last_120 (body_state_valid c)) \<and> list_all id (last_120 (body_velocity_valid c)))
      in length (body_arrival_ns c) \<ge> 120 \<and> 57 \<le> body_rate \<and> body_rate \<le> 63 \<and> strictly_increasing (body_stamp_ns c) \<and>
         isfinite velocity \<and> \<bar>fval velocity - 1 / 4\<bar> \<le> 3 / 100 \<and> map_output \<and> tag_lost_vio_valid \<and>
         isfinite tag_error \<and> \<bar>fval tag_error\<bar> \<le> 5 / 100 \<and> isfinite maximum \<and> fval maximum \<le> 1 / 10 \<and> outlier_sent c)"

section \<open>Runs\<close>

datatype rate_event = ZedTimer int | VioTimer int | TagTimer int | BodyState int rate_body

fun rate_step :: "rate_check \<Rightarrow> rate_event \<Rightarrow> rate_check" where
  "rate_step c (TagTimer now) = fst (publish_tag_anchor now c)"
| "rate_step c (BodyState now m) = rate_on_body now m c"
| "rate_step c _ = c"

text \<open>The AprilTag poses a run publishes.\<close>

fun published_tags :: "rate_check \<Rightarrow> rate_event list \<Rightarrow> synthetic_pose list" where
  "published_tags c [] = []"
| "published_tags c (TagTimer now # es) =
     (case publish_tag_anchor now c of
        (c', None) \<Rightarrow> published_tags c' es
      | (c', Some p) \<Rightarrow> p # published_tags c' es)"
| "published_tags c (e # es) = published_tags (rate_step c e) es"

text \<open>The exit code of \<^verbatim>\<open>main\<close> after the events that were handled before the deadline.\<close>

definition rate_check_exit :: "real \<Rightarrow> int \<Rightarrow> rate_event list \<Rightarrow> nat" where
  "rate_check_exit duration now es = (if rate_result (foldl rate_step (rate_check_init duration now) es) then 0 else 1)"

section \<open>What a passing run shows\<close>

lemma strictly_increasing_sorted: "strictly_increasing xs \<longleftrightarrow> sorted_wrt (<) xs"
proof (induction xs rule: induct_list012)
  case (3 x y zs)
  then show ?case
    by (auto simp: strictly_increasing_def intro: less_trans)
qed (simp_all add: strictly_increasing_def)

lemma last_120_le: "x \<in> set (last_120 xs) \<Longrightarrow> x \<in> set xs"
  unfolding last_120_def by (rule in_set_dropD)

text \<open>The recorded lists of a run, as functions of the body states received.\<close>

fun bodies :: "rate_event list \<Rightarrow> (int \<times> rate_body) list" where
  "bodies [] = []"
| "bodies (BodyState now m # es) = (now, m) # bodies es"
| "bodies (e # es) = bodies es"

definition body_stamp :: "rate_body \<Rightarrow> int" where
  "body_stamp m = rb_sec m * 1000000000 + rb_nanosec m"

definition residual :: "int \<Rightarrow> rate_body \<Rightarrow> real" where
  "residual t0 m = rb_position_x m - 1 / 4 * (real_of_int (body_stamp m - t0) * (1 / 10 ^ 9))"

lemma anchor_frame [simp]:
  "started_ns (fst (publish_tag_anchor now c)) = started_ns c"
  "body_arrival_ns (fst (publish_tag_anchor now c)) = body_arrival_ns c"
  "body_stamp_ns (fst (publish_tag_anchor now c)) = body_stamp_ns c"
  "body_velocity_x (fst (publish_tag_anchor now c)) = body_velocity_x c"
  "body_velocity_valid (fst (publish_tag_anchor now c)) = body_velocity_valid c"
  "body_frame_ids (fst (publish_tag_anchor now c)) = body_frame_ids c"
  "body_tag_residual_x (fst (publish_tag_anchor now c)) = body_tag_residual_x c"
  "body_state_valid (fst (publish_tag_anchor now c)) = body_state_valid c"
  "body_position_estimated (fst (publish_tag_anchor now c)) = body_position_estimated c"
  by (simp_all add: publish_tag_anchor_def Let_def)

lemma run_records:
  fixes c :: rate_check
  defines "r \<equiv> foldl rate_step c"
  shows "started_ns (r es) = started_ns c"
    "body_arrival_ns (r es) = body_arrival_ns c @ map fst (bodies es)"
    "body_stamp_ns (r es) = body_stamp_ns c @ map (body_stamp \<circ> snd) (bodies es)"
    "body_velocity_x (r es) = body_velocity_x c @ map (rb_velocity_x \<circ> snd) (bodies es)"
    "body_velocity_valid (r es) = body_velocity_valid c @ map (rb_velocity_valid \<circ> snd) (bodies es)"
    "body_frame_ids (r es) = body_frame_ids c @ map (rb_frame \<circ> snd) (bodies es)"
    "body_tag_residual_x (r es) = body_tag_residual_x c @ map (residual (started_ns c) \<circ> snd) (bodies es)"
    "body_state_valid (r es) = body_state_valid c @ map (rb_state_valid \<circ> snd) (bodies es)"
    "body_position_estimated (r es) = body_position_estimated c @ map (rb_position_estimated \<circ> snd) (bodies es)"
  unfolding r_def
  by (induction es arbitrary: c rule: bodies.induct)
    (simp_all add: rate_on_body_def Let_def body_stamp_def residual_def)

lemma last_120_map: "last_120 (map f xs) = map f (last_120 xs)"
  by (simp add: last_120_def drop_map)

text \<open>When the check exits with code 0, at least 120 body states arrived at 57 to 63 per second with
  strictly increasing stamps, none was further than 0.1 m from the true path, even after the outlier
  that was sent, and the last 120 were all in the map frame with a valid velocity and a position that was
  only estimated, as it must be while no tag is seen.\<close>

theorem passing_rate_check:
  assumes "rate_check_exit duration now es = 0"
  defines "bs \<equiv> bodies es"
  shows "120 \<le> length bs \<and> sorted_wrt (<) (map (body_stamp \<circ> snd) bs) \<and>
    (\<forall>(t, m) \<in> set bs. \<bar>residual now m\<bar> \<le> 1 / 10) \<and>
    (\<forall>(t, m) \<in> set (last_120 bs). rb_frame m = ''map'' \<and> rb_velocity_valid m \<and> rb_position_estimated m \<and> \<not> rb_state_valid m) \<and>
    57 * (real_of_int (fst (last bs) - fst (hd bs)) * (1 / 10 ^ 9)) \<le> real (length bs - 1) \<and>
    real (length bs - 1) \<le> 63 * (real_of_int (fst (last bs) - fst (hd bs)) * (1 / 10 ^ 9)) \<and>
    outlier_sent (foldl rate_step (rate_check_init duration now) es)"
proof -
  let ?c = "foldl rate_step (rate_check_init duration now) es"
  have r: "rate_result ?c"
    using assms(1) by (simp add: rate_check_exit_def split: if_splits)
  note rec = run_records [of "rate_check_init duration now" es, folded bs_def]
  have i: "body_arrival_ns ?c = map fst bs" "body_stamp_ns ?c = map (body_stamp \<circ> snd) bs"
    "body_velocity_valid ?c = map (rb_velocity_valid \<circ> snd) bs" "body_frame_ids ?c = map (rb_frame \<circ> snd) bs"
    "body_tag_residual_x ?c = map (residual now \<circ> snd) bs" "body_state_valid ?c = map (rb_state_valid \<circ> snd) bs"
    "body_position_estimated ?c = map (rb_position_estimated \<circ> snd) bs"
    using rec by (simp_all add: rate_check_init_def)
  have c: "120 \<le> length (map fst bs)" "57 \<le> rate_hz (map fst bs)" "rate_hz (map fst bs) \<le> 63"
    "strictly_increasing (map (body_stamp \<circ> snd) bs)"
    "list_all (\<lambda>f. f = ''map'') (last_120 (map (rb_frame \<circ> snd) bs))"
    "list_all id (last_120 (map (rb_position_estimated \<circ> snd) bs))" "\<not> list_ex id (last_120 (map (rb_state_valid \<circ> snd) bs))"
    "list_all id (last_120 (map (rb_velocity_valid \<circ> snd) bs))"
    "fval (if map (residual now \<circ> snd) bs = [] then NaN else Fin (np_max (vabs (map (residual now \<circ> snd) bs)))) \<le> 1 / 10"
    "outlier_sent ?c"
    using r unfolding rate_result_def Let_def i by blast+
  have n: "120 \<le> length bs" and ne: "bs \<noteq> []"
    using c(1) by auto
  have 1: "sorted_wrt (<) (map (body_stamp \<circ> snd) bs)"
    using c(4) by (simp only: strictly_increasing_sorted)
  have "np_max (vabs (map (residual now \<circ> snd) bs)) \<le> 1 / 10"
    using c(9) ne by simp
  then have 2: "\<forall>(t, m) \<in> set bs. \<bar>residual now m\<bar> \<le> 1 / 10"
    using np_max_ge [of _ "vabs (map (residual now \<circ> snd) bs)"] by (force simp: vabs_def)
  have 3: "\<forall>(t, m) \<in> set (last_120 bs). rb_frame m = ''map'' \<and> rb_velocity_valid m \<and> rb_position_estimated m \<and> \<not> rb_state_valid m"
    using c(5-8) by (auto simp: last_120_map list_all_iff list_ex_iff)
  let ?e = "real_of_int (fst (last bs) - fst (hd bs)) * (1 / 10 ^ 9)"
  have "last (map fst bs) = fst (last bs)" "hd (map fst bs) = fst (hd bs)"
    using ne by (simp_all add: last_map list.map_sel)
  then have "0 < ?e \<and> 57 \<le> real (length bs - 1) / ?e \<and> real (length bs - 1) / ?e \<le> 63"
    using n c(2,3) by (simp add: rate_hz_def Let_def split: if_splits)
  moreover have "0 < e \<and> 57 \<le> k / e \<and> k / e \<le> 63 \<Longrightarrow> 57 * e \<le> k \<and> k \<le> 63 * e" for e k :: real
    by (auto simp: pos_le_divide_eq pos_divide_le_eq)
  ultimately have "57 * ?e \<le> real (length bs - 1) \<and> real (length bs - 1) \<le> 63 * ?e"
    by blast
  then show ?thesis
    using n 1 2 3 c(10) by blast
qed

text \<open>A run that passes: 121 states on the true path at nearly 60 per second, after the outlier.\<close>

definition demo_rate_body :: "nat \<Rightarrow> rate_body" where
  "demo_rate_body i = \<lparr>rb_sec = int i, rb_nanosec = 0, rb_frame = ''map'', rb_position_x = 1 / 4 * real i, rb_velocity_x = 1 / 4,
     rb_velocity_valid = True, rb_state_valid = False, rb_position_estimated = True\<rparr>"

definition demo_rate_events :: "rate_event list" where
  "demo_rate_events = TagTimer 1000000000 # map (\<lambda>i. BodyState (int i * 16666667) (demo_rate_body i)) [0..<121]"

lemma bodies_map: "bodies (map (\<lambda>i. BodyState (f i) (g i)) xs) = map (\<lambda>i. (f i, g i)) xs"
  by (induction xs) simp_all

lemma np_median_constant: "xs \<noteq> [] \<Longrightarrow> (\<And>x. x \<in> set xs \<Longrightarrow> x = a) \<Longrightarrow> np_median xs = a"
  using np_median_between [of xs a a] by force

lemma run_outlier: "outlier_sent c \<Longrightarrow> outlier_sent (foldl rate_step c es)"
proof (induction es arbitrary: c)
  case (Cons e es)
  have "outlier_sent (rate_step c e)"
    using Cons.prems by (cases e) (simp_all add: publish_tag_anchor_def Let_def rate_on_body_def)
  then show ?case
    using Cons.IH by simp
qed simp

lemma demo_rate_passes: "rate_check_exit 6 0 demo_rate_events = 0"
proof -
  let ?c = "foldl rate_step (rate_check_init 6 0) demo_rate_events"
  have b: "bodies demo_rate_events = map (\<lambda>i. (int i * 16666667, demo_rate_body i)) [0..<121]"
    by (simp add: demo_rate_events_def bodies_map del: upt_Suc upt_rec_numeral)
  note i = run_records [of "rate_check_init 6 0" demo_rate_events, unfolded b map_map comp_def snd_conv fst_conv]
  have e: "x = 0" if "x \<in> set (map (\<lambda>k. residual 0 (demo_rate_body k)) [0..<121])" for x
    using that by (auto simp: residual_def body_stamp_def demo_rate_body_def)
  have m: "np_max (vabs (map (\<lambda>k. residual 0 (demo_rate_body k)) [0..<121])) = 0"
    using np_max_in [of "vabs (map (\<lambda>k. residual 0 (demo_rate_body k)) [0..<121])"] e
    by (force simp: vabs_def)
  have "outlier_sent ?c"
    unfolding demo_rate_events_def by (simp add: run_outlier publish_tag_anchor_def rate_check_init_def Let_def)
  moreover have "np_median (last_120 (map (\<lambda>k. rb_velocity_x (demo_rate_body k)) [0..<121])) = 1 / 4"
    by (rule np_median_constant) (auto simp: last_120_def demo_rate_body_def drop_map)
  moreover have "np_median (last_120 (map (\<lambda>k. residual 0 (demo_rate_body k)) [0..<121])) = 0"
    by (rule np_median_constant [OF _ e [OF last_120_le]]) (simp_all add: last_120_def)
  moreover have "strictly_increasing (map (\<lambda>k. body_stamp (demo_rate_body k)) [0..<121])"
    by (simp add: strictly_increasing_sorted sorted_wrt_map body_stamp_def demo_rate_body_def sorted_wrt_upt)
  moreover have "list_all (\<lambda>f. f = ''map'') (last_120 (map (\<lambda>k. rb_frame (demo_rate_body k)) [0..<121]))"
    "list_all id (last_120 (map (\<lambda>k. rb_position_estimated (demo_rate_body k)) [0..<121]))"
    "\<not> list_ex id (last_120 (map (\<lambda>k. rb_state_valid (demo_rate_body k)) [0..<121]))"
    "list_all id (last_120 (map (\<lambda>k. rb_velocity_valid (demo_rate_body k)) [0..<121]))"
    by (auto simp: last_120_def demo_rate_body_def drop_map list_all_iff list_ex_iff)
  moreover have "57 \<le> rate_hz (map (\<lambda>k. int k * 16666667) [0..<121]) \<and> rate_hz (map (\<lambda>k. int k * 16666667) [0..<121]) \<le> 63"
    by (simp add: rate_hz_def last_map hd_map Let_def del: upt_Suc upt_rec_numeral)
  ultimately have "rate_result ?c"
    using m unfolding rate_result_def Let_def i
    by (simp add: rate_check_init_def del: upt_Suc upt_rec_numeral)
  then show ?thesis
    by (simp add: rate_check_exit_def)
qed

theorem passing_rate_check_witness:
  "(\<forall>(t, m) \<in> set (bodies demo_rate_events). \<bar>residual 0 m\<bar> \<le> 1 / 10) \<and> sorted_wrt (<) (map (body_stamp \<circ> snd) (bodies demo_rate_events))"
  using passing_rate_check [OF demo_rate_passes] by blast

text \<open>The path of the pool run, and the pose that is one metre off it.\<close>

definition on_path :: "int \<Rightarrow> synthetic_pose \<Rightarrow> bool" where
  "on_path t0 p \<longleftrightarrow> sp_position_x p = 1 / 4 * (real_of_int (sp_stamp_ns p - t0) * (1 / 10 ^ 9))"

lemma anchor_cases:
  assumes "publish_tag_anchor now c = (c', r)"
  shows "(r = None \<and> c' = c) \<or> (\<exists>p. r = Some p \<and> c' = c \<and> on_path (started_ns c) p) \<or>
    (\<exists>p. r = Some p \<and> \<not> outlier_sent c \<and> c' = c\<lparr>outlier_sent := True\<rparr> \<and> \<not> on_path (started_ns c) p)"
proof (cases "2 < real_of_int (now - started_ns c) * (1 / 10 ^ 9)")
  case True
  then have "r = None \<and> c' = c"
    using assms unfolding publish_tag_anchor_def Let_def by (simp only: if_True prod.inject simp_thms)
  then show ?thesis by blast
next
  case False
  show ?thesis
  proof (cases "1 \<le> real_of_int (now - started_ns c) * (1 / 10 ^ 9) \<and> \<not> outlier_sent c")
    case True
    then have "c\<lparr>outlier_sent := True\<rparr> = c'" "\<exists>p. r = Some p \<and> \<not> on_path (started_ns c) p"
      using assms False unfolding publish_tag_anchor_def Let_def
      by (simp_all only: if_False if_True prod.inject simp_thms on_path_def) (auto simp: field_simps)
    then show ?thesis
      using True by blast
  next
    case outside: False
    have "c = c'" "\<exists>p. r = Some p \<and> on_path (started_ns c) p"
      using assms False outside unfolding publish_tag_anchor_def Let_def
      by (simp_all only: if_False prod.inject simp_thms on_path_def) auto
    then show ?thesis
      by blast
  qed
qed

text \<open>C39: In every run exactly one AprilTag pose off the path is published when the outlier counts as sent,
  and none otherwise: the outlier is isolated, whatever the order of the timers.\<close>

theorem outlier_is_isolated:
  "length (filter (\<lambda>p. \<not> on_path now p) (published_tags (rate_check_init duration now) es)) =
     (if outlier_sent (foldl rate_step (rate_check_init duration now) es) then 1 else 0)"
proof -
  have "length (filter (\<lambda>p. \<not> on_path (started_ns c) p) (published_tags c es)) =
      of_bool (outlier_sent (foldl rate_step c es) \<and> \<not> outlier_sent c)" for c
  proof (induction c es rule: published_tags.induct)
    case (2 c now es)
    obtain c' r where a: "publish_tag_anchor now c = (c', r)"
      by fastforce
    then have c': "fst (publish_tag_anchor now c) = c'" "started_ns c' = started_ns c"
      using anchor_frame(1) [of now c] by simp_all
    consider "r = None" "c' = c" | p where "r = Some p" "c' = c" "on_path (started_ns c) p"
      | p where "r = Some p" "\<not> outlier_sent c" "c' = c\<lparr>outlier_sent := True\<rparr>" "\<not> on_path (started_ns c) p"
      using anchor_cases [OF a] by blast
    then show ?case
    proof cases
      case 1
      then show ?thesis
        using "2.IH"(1) [OF a [symmetric]] a by simp
    next
      case 2
      then show ?thesis
        using "2.IH"(2) [OF a [symmetric]] a by simp
    next
      case 3
      then have "outlier_sent (foldl rate_step c' es)"
        by (simp add: run_outlier)
      then show ?thesis
        using "2.IH"(2) [OF a [symmetric]] a 3 c' by simp
    qed
  qed (simp_all add: rate_on_body_def Let_def)
  from this [of "rate_check_init duration now"] show ?thesis
    by (simp add: rate_check_init_def)
qed

end
