(* ===== verification/Json_Value.thy ===== *)
theory Json_Value
  imports Task_Catalog
begin

text \<open>
  JSON values as Python's \<^verbatim>\<open>json\<close> module builds them, and the conversions of the standard library
  that the programs apply to them.  A JSON text is identified with its value: \<^verbatim>\<open>json.loads\<close> and
  \<^verbatim>\<open>json.dumps\<close> are inverse to each other up to the order of keys, and what \<^verbatim>\<open>sort_keys\<close> does to the
  order is \<open>sort_keys\<close> here.
\<close>

section \<open>Values\<close>

text \<open>A dictionary is the list of its items in insertion order, each key once.\<close>

datatype json_value =
    JNull
  | JBool bool
  | JInt int
  | JFloat pyfloat
  | JStr string
  | JList "json_value list"
  | JObj "(string \<times> json_value) list"

type_synonym json_object = "(string \<times> json_value) list"

text \<open>\<^verbatim>\<open>d.get(key, dflt)\<close>, \<^verbatim>\<open>d[key] = v\<close> (\<open>dict_set\<close>) and \<^verbatim>\<open>del d[key]\<close>.\<close>

definition get_or :: "json_object \<Rightarrow> string \<Rightarrow> json_value \<Rightarrow> json_value" where
  "get_or m key dflt = (case map_of m key of None \<Rightarrow> dflt | Some v \<Rightarrow> v)"

definition dict_del :: "string \<Rightarrow> (string \<times> 'a) list \<Rightarrow> (string \<times> 'a) list" where
  "dict_del key m = filter (\<lambda>p. fst p \<noteq> key) m"

text \<open>\<^verbatim>\<open>{**a, **b}\<close>.\<close>

definition dict_merge :: "json_object \<Rightarrow> json_object \<Rightarrow> json_object" where
  "dict_merge a b = foldl (\<lambda>m (k, v). dict_set k v m) a b"

text \<open>\<^verbatim>\<open>bool(value)\<close>.\<close>

fun truthy :: "json_value \<Rightarrow> bool" where
  "truthy JNull = False"
| "truthy (JBool b) = b"
| "truthy (JInt n) = (n \<noteq> 0)"
| "truthy (JFloat v) = (v \<noteq> Fin 0)"
| "truthy (JStr s) = (s \<noteq> '''')"
| "truthy (JList vs) = (vs \<noteq> [])"
| "truthy (JObj m) = (m \<noteq> [])"

text \<open>\<^verbatim>\<open>str(value)\<close>; the text of a float and of a container is the argument \<open>repr\<close>.\<close>

fun json_str :: "(json_value \<Rightarrow> string) \<Rightarrow> json_value \<Rightarrow> string" where
  "json_str repr JNull = ''None''"
| "json_str repr (JBool b) = (if b then ''True'' else ''False'')"
| "json_str repr (JInt n) = decimal n"
| "json_str repr (JStr s) = s"
| "json_str repr v = repr v"

section \<open>Numbers\<close>

text \<open>
  \<^verbatim>\<open>int(text)\<close> on ASCII text: surrounding blanks, a sign, digits with single underscores between
  them.
\<close>

definition is_digit :: "char \<Rightarrow> bool" where
  "is_digit c = (let n = of_char c :: nat in 48 \<le> n \<and> n \<le> 57)"

definition digit_value :: "char \<Rightarrow> nat" where
  "digit_value c = of_char c - 48"

fun digits_value :: "nat \<Rightarrow> string \<Rightarrow> nat option" where
  "digits_value acc [] = None"
| "digits_value acc [c] = (if is_digit c then Some (10 * acc + digit_value c) else None)"
| "digits_value acc (c # d # cs) =
     (if \<not> is_digit c then None
      else if d = CHR ''_'' then digits_value (10 * acc + digit_value c) cs
      else digits_value (10 * acc + digit_value c) (d # cs))"

definition int_of_text :: "string \<Rightarrow> int option" where
  "int_of_text s =
     (case py_strip s of
        [] \<Rightarrow> None
      | c # cs \<Rightarrow>
          if c = CHR ''-'' then map_option (\<lambda>n. - int n) (digits_value 0 cs)
          else if c = CHR ''+'' then map_option int (digits_value 0 cs)
          else map_option int (digits_value 0 (c # cs)))"

lemma digit_char_value: "d < 10 \<Longrightarrow> is_digit (digit_char d) \<and> digit_value (digit_char d) = d"
  by (simp add: is_digit_def digit_value_def digit_char_def of_char_of)

lemma show_nat_digits: "list_all is_digit (show_nat n) \<and> show_nat n \<noteq> []"
proof (induction n rule: show_nat.induct)
  case (1 n)
  then show ?case
    by (subst (1 2) show_nat.simps) (auto simp: digit_char_value)
qed

lemma show_nat_value: "foldl (\<lambda>a c. 10 * a + digit_value c) 0 (show_nat n) = n"
proof (induction n rule: show_nat.induct)
  case (1 n)
  then show ?case
    by (subst show_nat.simps) (auto simp: digit_char_value)
qed

text \<open>\<^verbatim>\<open>int(value)\<close> and \<^verbatim>\<open>float(value)\<close>; \<open>parse_float\<close> reads the text of a float.\<close>

fun json_int :: "json_value \<Rightarrow> exc + int" where
  "json_int (JBool b) = Inr (of_bool b)"
| "json_int (JInt n) = Inr n"
| "json_int (JFloat v) = int_of_float v"
| "json_int (JStr s) =
     (case int_of_text s of Some n \<Rightarrow> Inr n | None \<Rightarrow> Inl (ValueError (''invalid literal for int() with base 10: '' @ s)))"
| "json_int _ = Inl (TypeError ''int() argument must be a string, a bytes-like object or a real number'')"

fun json_float :: "(string \<Rightarrow> pyfloat option) \<Rightarrow> json_value \<Rightarrow> exc + pyfloat" where
  "json_float parse_float (JBool b) = Inr (Fin (of_bool b))"
| "json_float parse_float (JInt n) = ebind (float_of_int n) (\<lambda>x. Inr (Fin x))"
| "json_float parse_float (JFloat v) = Inr v"
| "json_float parse_float (JStr s) =
     (case parse_float s of Some v \<Rightarrow> Inr v | None \<Rightarrow> Inl (ValueError (''could not convert string to float: '' @ s)))"
| "json_float parse_float _ = Inl (TypeError ''float() argument must be a string or a real number'')"

section \<open>What writing and reading a document changes\<close>

text \<open>\<^verbatim>\<open>sort_keys\<close>: the items of every dictionary by key; reading back keeps that order.\<close>

fun sort_keys :: "json_value \<Rightarrow> json_value" where
  "sort_keys (JList vs) = JList (map sort_keys vs)"
| "sort_keys (JObj m) = JObj (sort_key fst (map (\<lambda>(k, v). (k, sort_keys v)) m))"
| "sort_keys v = v"

text \<open>A value as Python can build it: no dictionary has a key twice.\<close>

fun well_keyed :: "json_value \<Rightarrow> bool" where
  "well_keyed (JList vs) = list_all well_keyed vs"
| "well_keyed (JObj m) = (distinct (map fst m) \<and> list_all (\<lambda>(k, v). well_keyed v) m)"
| "well_keyed _ = True"

lemma map_of_dict_del: "map_of (dict_del k m) = (map_of m)(k := None)"
  by (induction m) (auto simp: dict_del_def fun_eq_iff)

lemma keys_dict_del: "fst ` set (dict_del k m) = fst ` set m - {k}"
  by (auto simp: dict_del_def)

lemma distinct_dict_del: "distinct (map fst m) \<Longrightarrow> distinct (map fst (dict_del k m))"
  by (induction m) (auto simp: dict_del_def)

lemma map_of_get: "map_of m k = Some v \<Longrightarrow> get_or m k d = v"
  by (simp add: get_or_def)

lemma sorted_items:
  assumes "distinct (map fst m)"
  shows "map_of (sort_key fst m) = map_of m" "distinct (map fst (sort_key fst m))" "fst ` set (sort_key fst m) = fst ` set m"
proof -
  have d: "distinct (map fst (sort_key fst m))"
    using assms by (metis distinct_map distinct_sort set_sort)
  then show "distinct (map fst (sort_key fst m))" .
  have "set (sort_key fst m) = set m"
    by simp
  then show "map_of (sort_key fst m) = map_of m"
    using d assms by (metis map_of_inject_set)
  show "fst ` set (sort_key fst m) = fst ` set m"
    by simp
qed

lemma map_of_map_sort: "map_of (map (\<lambda>(k, v). (k, f v)) m) k = map_option f (map_of m k)"
  by (induction m) auto

lemma well_keyed_sort: "well_keyed v \<Longrightarrow> well_keyed (sort_keys v)"
proof (induction v rule: sort_keys.induct)
  case (2 m)
  let ?m = "map (\<lambda>(k, v). (k, sort_keys v)) m"
  have "map fst ?m = map fst m"
    by (simp add: case_prod_beta comp_def)
  with 2(2) have "distinct (map fst ?m)"
    by (simp only: well_keyed.simps)
  then have "distinct (map fst (sort_key fst ?m))"
    by (rule sorted_items(2))
  moreover have "\<forall>p \<in> set ?m. well_keyed (snd p)"
    using 2 by (auto simp: list_all_iff)
  ultimately show ?case
    by (auto simp: list_all_iff)
qed (auto simp: list_all_iff)

end
