(* ===== verification/Run_Analysis.thy ===== *)
theory Run_Analysis
  imports Sample_Arrays Quaternion_Math Json_Value
begin

text \<open>
  \<^verbatim>\<open>scripts/analyze_tracking_runs.py\<close>: the metrics of a recorded experiment.  An event is a JSON value;
  \<open>parse_float\<close> reads the text of a number and \<open>parse\<close> a line.  Where numpy gets a list of lists, the
  inner entries are scalars.  The plots and the tables written by \<^verbatim>\<open>main\<close> are not modelled.
\<close>

section \<open>Reading events\<close>

fun emap :: "('a \<Rightarrow> exc + 'b) \<Rightarrow> 'a list \<Rightarrow> exc + 'b list" where
  "emap f [] = Inr []"
| "emap f (x # xs) = ebind (f x) (\<lambda>y. ebind (emap f xs) (\<lambda>ys. Inr (y # ys)))"

fun efilter :: "('a \<Rightarrow> exc + bool) \<Rightarrow> 'a list \<Rightarrow> exc + 'a list" where
  "efilter p [] = Inr []"
| "efilter p (x # xs) = ebind (p x) (\<lambda>b. ebind (efilter p xs) (\<lambda>ys. Inr (if b then x # ys else ys)))"

text \<open>\<^verbatim>\<open>value.get(key, dflt)\<close> and \<^verbatim>\<open>event["payload"]\<close>.\<close>

definition event_get :: "json_value \<Rightarrow> string \<Rightarrow> json_value \<Rightarrow> exc + json_value" where
  "event_get e key dflt =
     (case e of JObj m \<Rightarrow> Inr (get_or m key dflt) | _ \<Rightarrow> Inl (AttributeError ''object has no attribute get''))"

definition payload_get :: "json_value \<Rightarrow> string \<Rightarrow> exc + json_value" where
  "payload_get e key = ebind (event_get e ''payload'' (JObj [])) (\<lambda>p. event_get p key JNull)"

definition item_get :: "json_value \<Rightarrow> string \<Rightarrow> json_value \<Rightarrow> exc + json_value" where
  "item_get e key dflt =
     (case e of
        JObj m \<Rightarrow> (case map_of m ''payload'' of None \<Rightarrow> Inl (KeyError ''payload'') | Some p \<Rightarrow> event_get p key dflt)
      | _ \<Rightarrow> Inl (TypeError ''indices must be integers or slices''))"

definition event_type_is :: "string \<Rightarrow> json_value \<Rightarrow> exc + bool" where
  "event_type_is typ e = ebind (event_get e ''type'' JNull) (\<lambda>t. Inr (t = JStr typ))"

text \<open>\<^verbatim>\<open>load_events\<close>: lines that are not JSON are skipped.\<close>

definition load_events :: "(string \<Rightarrow> json_value option) \<Rightarrow> string list \<Rightarrow> json_value list" where
  "load_events parse lines = List.map_filter parse lines"

definition phase_is :: "string \<Rightarrow> json_value \<Rightarrow> exc + bool" where
  "phase_is phase e = ebind (payload_get e ''phase'') (\<lambda>p. Inr (p = JStr phase))"

definition event_time :: "json_value \<Rightarrow> int \<Rightarrow> exc + int" where
  "event_time e dflt = ebind (event_get e ''time'' (JInt dflt)) json_int"

definition select_experiment_window :: "json_value list \<Rightarrow> exc + json_value list \<times> json_object" where
  "select_experiment_window events =
     ebind (efilter (event_type_is ''tracking_experiment'') events) (\<lambda>markers.
     ebind (efilter (phase_is ''start'') markers) (\<lambda>starts.
     if starts = [] then Inl (ValueError ''run is missing a tracking_experiment start marker'')
     else let start = last starts in
     ebind (event_time start 0) (\<lambda>start_time.
     ebind (efilter (\<lambda>e. ebind (phase_is ''end'' e) (\<lambda>b. if b then ebind (event_time e 0) (\<lambda>t. Inr (t \<ge> start_time)) else Inr False)) markers) (\<lambda>ends.
     ebind (if ends = [] then Inr (2 ^ 63 - 1) else event_time (hd ends) (2 ^ 63 - 1)) (\<lambda>end_time.
     ebind (event_get start ''payload'' (JObj [])) (\<lambda>payload.
     ebind (case payload of JObj m \<Rightarrow> Inr m | _ \<Rightarrow> Inl (TypeError ''object is not iterable'')) (\<lambda>metadata.
     ebind (if ends = [] then Inr metadata
            else ebind (payload_get (hd ends) ''success'') (\<lambda>s. Inr (dict_set ''completed_successfully'' (JBool (truthy s)) metadata))) (\<lambda>metadata.
     ebind (efilter (\<lambda>e. ebind (event_time e 0) (\<lambda>t. Inr (start_time \<le> t \<and> t \<le> end_time))) events) (\<lambda>window.
     Inr (window, metadata))))))))))"

section \<open>Metrics of one error signal\<close>

definition flt_sort :: "pyfloat list \<Rightarrow> pyfloat list" where
  "flt_sort xs = filter (\<lambda>v. v = NInf) xs @ map Fin (sort (map fval (filter isfinite xs))) @ filter (\<lambda>v. v = PInf) xs"

text \<open>\<^verbatim>\<open>np.percentile\<close> with linear interpolation.\<close>

definition np_percentile :: "pyfloat list \<Rightarrow> real \<Rightarrow> pyfloat" where
  "np_percentile xs q =
     (if NaN \<in> set xs then NaN
      else let s = flt_sort xs; n = length xs; v = q / 100 * real (n - 1); k = nat \<lfloor>v\<rfloor>; g = v - real k;
               a = s ! k; b = s ! min (k + 1) (n - 1); d = flt_sub b a
           in if g \<ge> 1 / 2 then flt_sub b (flt_mult d (Fin (1 - g))) else flt_add a (flt_mult d (Fin g)))"

definition percentile :: "pyfloat list \<Rightarrow> real \<Rightarrow> pyfloat" where
  "percentile xs q = (if xs = [] then NaN else np_percentile xs q)"

record error_summary =
  err_rmse :: pyfloat
  err_mae :: pyfloat
  err_p95 :: pyfloat
  err_max :: pyfloat

definition flt_square :: "pyfloat \<Rightarrow> pyfloat" where
  "flt_square v = flt_mult v v"

definition root_mean_square :: "pyfloat list \<Rightarrow> pyfloat" where
  "root_mean_square xs = flt_sqrt (flt_mean (map flt_square xs))"

definition error_metrics :: "pyfloat list \<Rightarrow> error_summary" where
  "error_metrics values =
     (if values = [] then \<lparr>err_rmse = NaN, err_mae = NaN, err_p95 = NaN, err_max = NaN\<rparr>
      else let magnitudes = map flt_abs values in
        \<lparr>err_rmse = root_mean_square values, err_mae = flt_mean magnitudes, err_p95 = percentile magnitudes 95,
         err_max = flt_amax magnitudes\<rparr>)"

section \<open>Arrays of logged vectors\<close>

text \<open>An entry of \<^verbatim>\<open>np.asarray(values, dtype=np.float64)\<close>.\<close>

definition np_float :: "(string \<Rightarrow> pyfloat option) \<Rightarrow> json_value \<Rightarrow> exc + pyfloat" where
  "np_float parse_float v = (if v = JNull then Inr NaN else json_float parse_float v)"

fun np_row :: "(string \<Rightarrow> pyfloat option) \<Rightarrow> json_value \<Rightarrow> exc + pyfloat list" where
  "np_row parse_float (JList vs) = emap (np_float parse_float) vs"
| "np_row parse_float _ = Inl (ValueError ''setting an array element with a sequence'')"

definition np_table :: "(string \<Rightarrow> pyfloat option) \<Rightarrow> json_value list \<Rightarrow> exc + pyfloat list list" where
  "np_table parse_float values = ebind (emap (np_row parse_float) values) np_matrix"

fun is_list :: "json_value \<Rightarrow> bool" where
  "is_list (JList _) = True"
| "is_list _ = False"

text \<open>For three or four columns: single numbers become rows of the wrong width.\<close>

definition finite_array :: "(string \<Rightarrow> pyfloat option) \<Rightarrow> nat \<Rightarrow> json_value list \<Rightarrow> exc + pyfloat list list" where
  "finite_array parse_float columns values =
     (if values = [] then Inr []
      else if list_all is_list values
      then ebind (np_table parse_float values) (\<lambda>rows.
        Inr (if hd rows = [] then []
             else if length (hd rows) \<noteq> columns then replicate (length rows) (replicate columns NaN)
             else rows))
      else if list_ex is_list values then Inl (ValueError ''setting an array element with a sequence'')
      else ebind (emap (np_float parse_float) values) (\<lambda>vs. Inr (replicate (length vs) (replicate columns NaN))))"

definition rpy_row :: "pyfloat list \<Rightarrow> pyfloat list" where
  "rpy_row q =
     (let norm = np_norm (map fval q) in
      if \<not> list_all isfinite q \<or> norm \<le> 1 / 10 ^ 12 then replicate 3 NaN
      else map Fin (rpy_of (map (\<lambda>v. v / norm) (map fval q))))"

definition column :: "nat \<Rightarrow> pyfloat list list \<Rightarrow> pyfloat list" where
  "column j rows = map (\<lambda>row. row ! j) rows"

definition quaternion_wxyz_to_rpy :: "pyfloat list list \<Rightarrow> pyfloat list list" where
  "quaternion_wxyz_to_rpy rows =
     (let result = map rpy_row rows; unwrapped = map (\<lambda>j. np_unwrap (column j result)) [0, 1, 2] in
      map (\<lambda>i. map (\<lambda>col. col ! i) unwrapped) [0..<length rows])"

definition column_stack :: "pyfloat list list \<Rightarrow> pyfloat list list \<Rightarrow> exc + pyfloat list list" where
  "column_stack a b =
     (if length a = length b then Inr (map2 (@) a b)
      else Inl (ValueError ''all the input array dimensions must match exactly''))"

definition nan_list :: "nat \<Rightarrow> json_value" where
  "nan_list n = JList (replicate n (JFloat NaN))"

definition pose_array :: "(string \<Rightarrow> pyfloat option) \<Rightarrow> string \<Rightarrow> string \<Rightarrow> json_value list \<Rightarrow> exc + pyfloat list list" where
  "pose_array parse_float position orientation tracking =
     ebind (emap (\<lambda>e. item_get e position (nan_list 3)) tracking) (\<lambda>ps.
     ebind (finite_array parse_float 3 ps) (\<lambda>positions.
     ebind (emap (\<lambda>e. item_get e orientation (nan_list 4)) tracking) (\<lambda>qs.
     ebind (finite_array parse_float 4 qs) (\<lambda>quaternions.
     column_stack positions (quaternion_wxyz_to_rpy quaternions)))))"

text \<open>The source builds both position arrays before both attitudes; only which error comes first depends on it.\<close>

definition tracking_pose_arrays ::
    "(string \<Rightarrow> pyfloat option) \<Rightarrow> json_value list \<Rightarrow> exc + pyfloat list list \<times> pyfloat list list" where
  "tracking_pose_arrays parse_float tracking =
     ebind (pose_array parse_float ''target_position'' ''target_orientation_wxyz'' tracking) (\<lambda>target.
     ebind (pose_array parse_float ''actual_position'' ''actual_orientation_wxyz'' tracking) (\<lambda>actual.
     Inr (target, actual)))"

section \<open>Delay and settling time\<close>

definition nan_mean :: "pyfloat list \<Rightarrow> pyfloat" where
  "nan_mean xs = flt_mean (filter (\<lambda>v. v \<noteq> NaN) xs)"

definition nan_std :: "pyfloat list \<Rightarrow> pyfloat" where
  "nan_std xs = (let ys = filter (\<lambda>v. v \<noteq> NaN) xs; m = flt_mean ys in flt_sqrt (flt_mean (map (\<lambda>v. flt_square (flt_sub v m)) ys)))"

definition nan_max :: "pyfloat list \<Rightarrow> pyfloat" where
  "nan_max xs = (let ys = filter (\<lambda>v. v \<noteq> NaN) xs in if ys = [] then NaN else flt_maximum ys)"

text \<open>The index of the first greatest value, NaN aside.\<close>

definition nan_argmax :: "pyfloat list \<Rightarrow> nat" where
  "nan_argmax xs = length (takeWhile (\<lambda>v. v \<noteq> nan_max xs) xs)"

definition centered :: "pyfloat list \<Rightarrow> pyfloat list" where
  "centered xs = map (\<lambda>v. flt_sub v (nan_mean xs)) xs"

text \<open>The correlation at a non-negative lag, and the first lag at which it is greatest.\<close>

definition correlation_at :: "real list \<Rightarrow> real list \<Rightarrow> nat \<Rightarrow> real" where
  "correlation_at actual target k = sum_list (map2 (*) (drop k actual) target)"

definition best_lag :: "real list \<Rightarrow> real list \<Rightarrow> nat" where
  "best_lag actual target =
     (let cs = map (correlation_at actual target) [0..<length actual] in length (takeWhile (\<lambda>c. c \<noteq> np_max cs) cs))"

definition estimate_trajectory_delay :: "pyfloat list \<Rightarrow> pyfloat list list \<Rightarrow> pyfloat list list \<Rightarrow> pyfloat" where
  "estimate_trajectory_delay times_s target_pose actual_pose =
     (if length times_s < 10 then NaN
      else let axes = map (\<lambda>j. centered (column j target_pose)) [0..<6]; energy = map nan_std axes in
      if \<not> list_ex isfinite energy \<or> flt_le (nan_max energy) (Fin (1 / 10 ^ 6)) then NaN
      else let axis = nan_argmax energy; target = axes ! axis; actual = centered (column axis actual_pose);
               valid = filter (\<lambda>(a, b). isfinite a \<and> isfinite b) (zip target actual)
      in if length valid < 10 then NaN
      else let lag = best_lag (map (fval \<circ> snd) valid) (map (fval \<circ> fst) valid);
               dt = filter (\<lambda>d. 0 < d \<and> d < 1) (np_diff (map fval (filter isfinite times_s)))
           in if dt = [] then NaN else Fin (real lag * np_median dt))"

definition POSE_AXIS_NAMES :: "string list" where
  "POSE_AXIS_NAMES = [''x'', ''y'', ''z'', ''roll'', ''pitch'', ''yaw'']"

definition flt_diff :: "pyfloat list \<Rightarrow> pyfloat list" where
  "flt_diff xs = map2 (\<lambda>a b. flt_sub b a) (butlast xs) (tl xs)"

definition band_tolerance :: "nat \<Rightarrow> pyfloat \<Rightarrow> pyfloat" where
  "band_tolerance axis amplitude =
     flt_max (flt_scale (2 / 100) amplitude) (Fin (if axis \<ge> 3 then 2 * pi / 180 else 2 / 100))"

definition within_band :: "pyfloat \<Rightarrow> pyfloat list \<Rightarrow> pyfloat list \<Rightarrow> bool list" where
  "within_band tolerance target actual = map2 (\<lambda>t a. flt_le (flt_abs (flt_sub a t)) tolerance) target actual"

text \<open>The loop over the candidates for the settling sample.\<close>

definition first_settled :: "bool list \<Rightarrow> nat \<Rightarrow> nat option" where
  "first_settled flags start = List.find (\<lambda>i. list_all id (drop i flags)) [start..<length flags]"

definition estimate_step_settling_time ::
    "pyfloat list \<Rightarrow> pyfloat list list \<Rightarrow> pyfloat list list \<Rightarrow> string \<Rightarrow> pyfloat" where
  "estimate_step_settling_time times_s target_pose actual_pose typ =
     (if take 5 typ \<noteq> ''step_'' \<or> length times_s < 3 then NaN
      else let name = drop 5 typ in
      if name \<notin> set POSE_AXIS_NAMES then NaN
      else let axis = length (takeWhile (\<lambda>n. n \<noteq> name) POSE_AXIS_NAMES);
               target = column axis target_pose; actual = column axis actual_pose;
               changes = map flt_abs (flt_diff target)
      in if \<not> list_ex isfinite changes \<or> flt_le (nan_max changes) (Fin (1 / 10 ^ 6)) then NaN
      else let step_index = nan_argmax changes + 1;
               amplitude = flt_abs (flt_sub (target ! step_index) (target ! 0));
               inside = within_band (band_tolerance axis amplitude) target actual
      in case first_settled inside step_index of
           None \<Rightarrow> NaN
         | Some i \<Rightarrow> flt_sub (times_s ! i) (times_s ! step_index))"

section \<open>Commands\<close>

record command_summary =
  command_rms :: pyfloat
  command_total_variation :: pyfloat
  saturation_fraction :: pyfloat
  command_squared_integral :: pyfloat

definition row_saturated :: "pyfloat \<Rightarrow> pyfloat list \<Rightarrow> bool" where
  "row_saturated limit row = list_ex (\<lambda>v. flt_le (flt_sub limit (Fin (1 / 10 ^ 4))) (flt_abs v)) row"

definition bool_fraction :: "bool list \<Rightarrow> real" where
  "bool_fraction bs = real (length (filter id bs)) / real (length bs)"

text \<open>\<^verbatim>\<open>np.maximum(0.0, v)\<close>.\<close>

definition flt_positive :: "pyfloat \<Rightarrow> pyfloat" where
  "flt_positive v = (if v = NaN then NaN else flt_max (Fin 0) v)"

definition command_metrics :: "pyfloat list list \<Rightarrow> pyfloat list \<Rightarrow> pyfloat \<Rightarrow> command_summary" where
  "command_metrics rows times_s limit =
     (if concat rows = []
      then \<lparr>command_rms = NaN, command_total_variation = NaN, saturation_fraction = NaN, command_squared_integral = NaN\<rparr>
      else \<lparr>command_rms = root_mean_square (concat rows),
            command_total_variation =
              flt_sum (map flt_abs (concat (map2 (\<lambda>a b. map2 (\<lambda>x y. flt_sub y x) a b) (butlast rows) (tl rows)))),
            saturation_fraction = Fin (bool_fraction (map (row_saturated limit) rows)),
            command_squared_integral =
              (if length times_s > 1
               then flt_sum (map2 (\<lambda>row d. flt_mult (flt_sum (map flt_square row)) (flt_positive d)) (butlast rows) (flt_diff times_s))
               else Fin 0)\<rparr>)"

section \<open>The analysis of a run\<close>

record run_metrics =
  scenario_name :: string
  controller_name :: string
  tracking_samples :: nat
  valid_fraction :: real
  abort_count :: nat
  authority_fault_samples :: nat
  position_m :: error_summary
  orientation_deg :: error_summary
  velocity_mps :: error_summary
  angular_velocity_rps :: error_summary
  trajectory_delay_s :: pyfloat
  step_settling_time_s :: pyfloat
  command_figures :: command_summary
  allocation_residual_mean :: pyfloat

definition flag_of :: "string \<Rightarrow> json_value \<Rightarrow> exc + bool" where
  "flag_of key e = ebind (payload_get e key) (\<lambda>v. Inr (truthy v))"

definition enabled_command :: "json_value \<Rightarrow> exc + bool" where
  "enabled_command e = ebind (event_type_is ''thruster_cmd'' e) (\<lambda>b. if b then flag_of ''enable'' e else Inr False)"

definition abort_event :: "json_value \<Rightarrow> exc + bool" where
  "abort_event e = ebind (event_type_is ''safety_event'' e) (\<lambda>b. if b then flag_of ''abort_active'' e else Inr False)"

definition authority_fault :: "json_value \<Rightarrow> exc + bool" where
  "authority_fault e = ebind (flag_of ''fault_latched'' e) (\<lambda>b. if b then Inr True else flag_of ''abort_active'' e)"

definition valid_sample :: "json_value \<Rightarrow> exc + bool" where
  "valid_sample e = ebind (item_get e ''valid'' JNull) (\<lambda>v. Inr (truthy v))"

text \<open>\<^verbatim>\<open>float(item["payload"].get(key, math.nan))\<close> of the valid samples.\<close>

definition valid_errors :: "(string \<Rightarrow> pyfloat option) \<Rightarrow> string \<Rightarrow> json_value list \<Rightarrow> exc + pyfloat list" where
  "valid_errors parse_float key tracking =
     ebind (efilter valid_sample tracking) (\<lambda>items.
     emap (\<lambda>e. ebind (item_get e key (JFloat NaN)) (json_float parse_float)) items)"

definition item_float :: "(string \<Rightarrow> pyfloat option) \<Rightarrow> string \<Rightarrow> json_value \<Rightarrow> json_value \<Rightarrow> exc + pyfloat" where
  "item_float parse_float key dflt e = ebind (item_get e key dflt) (json_float parse_float)"

definition sample_times :: "(string \<Rightarrow> pyfloat option) \<Rightarrow> json_value list \<Rightarrow> exc + pyfloat list" where
  "sample_times parse_float tracking =
     emap (\<lambda>(i, e). item_float parse_float ''time_s'' (JInt (int i)) e) (enumerate 0 tracking)"

definition run_passes :: "run_metrics \<Rightarrow> bool" where
  "run_passes m \<longleftrightarrow>
     tracking_samples m > 0 \<and> valid_fraction m \<ge> 99 / 100 \<and> flt_le (err_rmse (position_m m)) (Fin (15 / 100)) \<and>
     flt_le (err_rmse (orientation_deg m)) (Fin 10) \<and> flt_le (saturation_fraction (command_figures m)) (Fin (5 / 100)) \<and>
     abort_count m = 0 \<and> authority_fault_samples m = 0"

definition analyze_commands :: "(string \<Rightarrow> pyfloat option) \<Rightarrow> json_value list \<Rightarrow> json_value list \<Rightarrow> exc + command_summary" where
  "analyze_commands parse_float commands authority =
     ebind (emap (\<lambda>e. item_get e ''action'' (JList (replicate 8 (JFloat (Fin 0))))) commands) (\<lambda>actions.
     ebind (np_table parse_float actions) (\<lambda>rows.
     ebind (emap (\<lambda>e. ebind (event_get e ''time'' (JInt 0)) (np_float parse_float)) commands) (\<lambda>times_ns.
     ebind (if authority = [] then Inr (Fin 1) else item_float parse_float ''action_limit'' (JFloat (Fin 1)) (last authority)) (\<lambda>limit.
     Inr (command_metrics rows (map (flt_scale (1 / 10 ^ 9)) times_ns) limit)))))"

definition analyze_tracking :: "(string \<Rightarrow> pyfloat option) \<Rightarrow> (json_value \<Rightarrow> string) \<Rightarrow> json_value list \<Rightarrow>
    exc + pyfloat list \<times> pyfloat list \<times> pyfloat list \<times> pyfloat list \<times> pyfloat \<times> pyfloat" where
  "analyze_tracking parse_float repr tracking =
     ebind (valid_errors parse_float ''position_error_m'' tracking) (\<lambda>position_error.
     ebind (valid_errors parse_float ''orientation_error_rad'' tracking) (\<lambda>orientation_error.
     ebind (valid_errors parse_float ''velocity_error_mps'' tracking) (\<lambda>velocity_error.
     ebind (valid_errors parse_float ''angular_velocity_error_rps'' tracking) (\<lambda>angular_error.
     ebind (sample_times parse_float tracking) (\<lambda>times_s.
     ebind (tracking_pose_arrays parse_float tracking) (\<lambda>(target_pose, actual_pose).
     ebind (if tracking = [] then Inr '''' else ebind (item_get (last tracking) ''trajectory_type'' (JStr '''')) (\<lambda>v. Inr (json_str repr v))) (\<lambda>typ.
     Inr (position_error, map (flt_scale (180 / pi)) orientation_error, velocity_error, angular_error,
          estimate_trajectory_delay times_s target_pose actual_pose,
          estimate_step_settling_time times_s target_pose actual_pose typ))))))))"

definition analyze_run :: "(string \<Rightarrow> pyfloat option) \<Rightarrow> (json_value \<Rightarrow> string) \<Rightarrow> json_value list \<Rightarrow> exc + run_metrics" where
  "analyze_run parse_float repr all_events =
     ebind (select_experiment_window all_events) (\<lambda>(events, experiment).
     ebind (efilter (event_type_is ''tracking_status'') events) (\<lambda>tracking.
     ebind (efilter enabled_command events) (\<lambda>commands.
     ebind (efilter (event_type_is ''pid_status'') events) (\<lambda>pid_status.
     ebind (efilter (event_type_is ''control_authority_status'') events) (\<lambda>authority.
     ebind (efilter abort_event events) (\<lambda>safety.
     ebind (efilter authority_fault authority) (\<lambda>authority_faults.
     ebind (emap valid_sample tracking) (\<lambda>valid.
     ebind (analyze_tracking parse_float repr tracking) (\<lambda>(position_error, orientation_error, velocity_error, angular_error, delay, settling).
     ebind (analyze_commands parse_float commands authority) (\<lambda>figures.
     ebind (emap (item_float parse_float ''allocation_residual'' (JFloat NaN)) pid_status) (\<lambda>residuals.
     Inr \<lparr>scenario_name = json_str repr (get_or experiment ''scenario'' (JStr '''')),
          controller_name = json_str repr (get_or experiment ''controller'' (JStr '''')),
          tracking_samples = length tracking, valid_fraction = (if valid = [] then 0 else bool_fraction valid),
          abort_count = length safety, authority_fault_samples = length authority_faults,
          position_m = error_metrics position_error, orientation_deg = error_metrics orientation_error,
          velocity_mps = error_metrics velocity_error, angular_velocity_rps = error_metrics angular_error,
          trajectory_delay_s = delay, step_settling_time_s = settling, command_figures = figures,
          allocation_residual_mean =
            (if filter isfinite residuals = [] then NaN else flt_mean (filter isfinite residuals))\<rparr>)))))))))))"

text \<open>\<^verbatim>\<open>finite_json\<close>: the numbers that are not finite become null.\<close>

fun finite_json :: "json_value \<Rightarrow> json_value" where
  "finite_json (JFloat v) = (if isfinite v then JFloat v else JNull)"
| "finite_json (JObj m) = JObj (map (\<lambda>(k, v). (k, finite_json v)) m)"
| "finite_json (JList vs) = JList (map finite_json vs)"
| "finite_json v = v"

end
