(* ===== verification/Run_Logger.thy ===== *)
theory Run_Logger
  imports Json_Value Path_Text
begin

text \<open>
  The run logger, \<^verbatim>\<open>robotcore_runtime/run_logger.py\<close>: the life of a run (folder, event log, recorder
  process), the event log lines with their payloads, and the limits on how often a stream is logged.
  The event log is the list of its lines; how many of them are known to be on disk is \<open>flushed\<close>.
  Files, the recorder process and the clocks are the outcomes given with each event.  An exception
  leaves the callback and ends the node, which then releases its handles.
\<close>

section \<open>State\<close>

record log_line =
  at_ns :: int
  kind :: string
  payload :: json_object

text \<open>The JSON record of a line.\<close>

definition line_json :: "log_line \<Rightarrow> json_value" where
  "line_json l = JObj [(''time'', JInt (at_ns l)), (''type'', JStr (kind l)), (''payload'', JObj (payload l))]"

record event_log =
  log_lines :: "log_line list"
  flushed :: nat

record run_logger =
  catalog_of :: catalog
  stream_rates :: "(string \<times> real) list"
  recording_sha256 :: string
  run_dir :: "string option"
  event_log_handle :: "event_log option"
  rosbag_process :: bool
  rosbag_output :: bool
  last_stream_log_ns :: "string \<rightharpoonup> int"
  last_safety_signature :: "(string \<times> string \<times> bool) option"
  last_safety_log_ns :: int
  last_localization_log_ns :: int
  run_dir_topic :: "string option"
  files :: "(bool \<times> log_line list) list"

text \<open>\<open>files\<close> are the event logs closed so far, and whether \<^verbatim>\<open>on_stop_run\<close> closed them;
  \<open>run_dir_topic\<close> is the message that the latched topic \<^verbatim>\<open>/runtime/run_dir\<close> keeps.\<close>

definition logger_init :: "catalog \<Rightarrow> (string \<times> real) list \<Rightarrow> string \<Rightarrow> run_logger" where
  "logger_init c rates sha =
     \<lparr>catalog_of = c, stream_rates = rates, recording_sha256 = sha, run_dir = None, event_log_handle = None,
      rosbag_process = False, rosbag_output = False, last_stream_log_ns = Map.empty, last_safety_signature = None,
      last_safety_log_ns = 0, last_localization_log_ns = 0, run_dir_topic = None, files = []\<rparr>"

section \<open>Actions that may raise\<close>

text \<open>An exception keeps the changes made before it.\<close>

type_synonym 'a act = "run_logger \<Rightarrow> (exc + 'a) \<times> run_logger"

definition ret :: "'a \<Rightarrow> 'a act" where "ret x n = (Inr x, n)"

definition raise :: "exc \<Rightarrow> 'a act" where "raise e n = (Inl e, n)"

definition seq :: "'a act \<Rightarrow> ('a \<Rightarrow> 'b act) \<Rightarrow> 'b act" where
  "seq m f n = (case m n of (Inl e, n') \<Rightarrow> (Inl e, n') | (Inr x, n') \<Rightarrow> f x n')"

definition modify :: "(run_logger \<Rightarrow> run_logger) \<Rightarrow> unit act" where "modify f n = (Inr (), f n)"

text \<open>An operation of the outside that raises or not.\<close>

definition outcome :: "exc option \<Rightarrow> unit act" where
  "outcome r = (case r of None \<Rightarrow> ret () | Some e \<Rightarrow> raise e)"

definition from_exc :: "exc + 'a \<Rightarrow> 'a act" where
  "from_exc r n = (r, n)"

section \<open>The event log\<close>

definition write_event :: "exc option \<Rightarrow> int \<Rightarrow> string \<Rightarrow> json_object \<Rightarrow> bool \<Rightarrow> unit act" where
  "write_event io now event_type p flush n =
     (case event_log_handle n of
        None \<Rightarrow> ret () n
      | Some l \<Rightarrow>
          seq (outcome io) (\<lambda>_. modify (\<lambda>n.
            let ls = log_lines l @ [\<lparr>at_ns = now, kind = event_type, payload = p\<rparr>] in
            n\<lparr>event_log_handle := Some \<lparr>log_lines = ls, flushed = (if flush then length ls else flushed l)\<rparr>\<rparr>)) n)"

definition flush_event_log :: "exc option \<Rightarrow> unit act" where
  "flush_event_log io n =
     (case event_log_handle n of
        None \<Rightarrow> ret () n
      | Some l \<Rightarrow> seq (outcome io) (\<lambda>_. modify (\<lambda>n. n\<lparr>event_log_handle := Some (l\<lparr>flushed := length (log_lines l)\<rparr>)\<rparr>)) n)"

text \<open>\<^verbatim>\<open>max(1, int(1e9 / rate_hz))\<close> for a positive rate.\<close>

definition period_ns :: "real \<Rightarrow> int" where
  "period_ns rate_hz = max 1 \<lfloor>10 ^ 9 / rate_hz\<rfloor>"

definition stream_log_due :: "string \<Rightarrow> int \<Rightarrow> bool act" where
  "stream_log_due event_type now_ns n =
     (case map_of (stream_rates n) event_type of
        None \<Rightarrow> raise (KeyError event_type) n
      | Some rate_hz \<Rightarrow>
          if rate_hz \<le> 0 then ret False n
          else if (case last_stream_log_ns n event_type of
                     None \<Rightarrow> False
                   | Some previous \<Rightarrow> 0 \<le> now_ns - previous \<and> now_ns - previous < period_ns rate_hz)
          then ret False n
          else seq (modify (\<lambda>n. n\<lparr>last_stream_log_ns := (last_stream_log_ns n)(event_type \<mapsto> now_ns)\<rparr>)) (\<lambda>_. ret True) n)"

section \<open>Starting a run\<close>

text \<open>
  The outside during \<^verbatim>\<open>on_start_run\<close>: the new folder, opening the log, the configuration files (their
  bytes, when they are files), copying and writing files, the recorder and whether it survives its
  start; and the texts of \<^verbatim>\<open>yaml.safe_dump\<close> and SHA-256.
\<close>

record start_env =
  new_run_dir :: "exc + string"
  open_log :: "exc option"
  thruster_config_path :: string
  safety_config_path :: string
  catalog_path :: string
  recording_config_path :: string
  config_bytes :: "string \<Rightarrow> string option"
  copy_file :: "string \<Rightarrow> exc option"
  write_file :: "string \<Rightarrow> exc option"
  spawn_recorder :: "exc option"
  recorder_alive :: bool
  dump_task :: "task \<Rightarrow> string"
  digest_hex :: "string \<Rightarrow> string"
  log_write :: "exc option"
  now_ns :: int

fun copy_configs :: "start_env \<Rightarrow> (string \<times> string) list \<Rightarrow> string list \<Rightarrow> (string \<times> string) list act" where
  "copy_configs env hashes [] = ret hashes"
| "copy_configs env hashes (path # paths) =
     (case config_bytes env path of
        None \<Rightarrow> copy_configs env hashes paths
      | Some bytes \<Rightarrow>
          seq (outcome (copy_file env path)) (\<lambda>_.
          copy_configs env (dict_set (path_name path) (digest_hex env bytes) hashes) paths))"

definition snapshot_control_configs :: "start_env \<Rightarrow> string \<Rightarrow> (string \<times> string) list act" where
  "snapshot_control_configs env task n =
     seq (copy_configs env [] [thruster_config_path env, safety_config_path env]) (\<lambda>hashes.
     seq (outcome (copy_file env (catalog_path env))) (\<lambda>_.
     seq (outcome (copy_file env (recording_config_path env))) (\<lambda>_.
     seq (from_exc (catalog_task (catalog_of n) task)) (\<lambda>resolved.
     seq (outcome (write_file env ''resolved_tracking_task.yaml'')) (\<lambda>_.
     seq (outcome (write_file env ''control_config_hashes.json'')) (\<lambda>_.
     ret (dict_set ''resolved_tracking_task.yaml'' (digest_hex env (dump_task env resolved))
           (dict_set ''recording.yaml'' (recording_sha256 n)
             (dict_set ''tracking_tasks.yaml'' (catalog_sha256 (catalog_of n)) hashes))))))))) n"

definition start_rosbag :: "start_env \<Rightarrow> unit act" where
  "start_rosbag env =
     seq (outcome (write_file env ''rosbag_qos_overrides.yaml'')) (\<lambda>_.
     seq (outcome (write_file env ''rosbag2.log'')) (\<lambda>_.
     seq (modify (\<lambda>n. n\<lparr>rosbag_output := True\<rparr>)) (\<lambda>_.
     seq (outcome (spawn_recorder env)) (\<lambda>_.
     seq (modify (\<lambda>n. n\<lparr>rosbag_process := True\<rparr>)) (\<lambda>_.
     if recorder_alive env then ret () else raise (RuntimeError ''rosbag2 recorder exited during startup''))))))"

record start_request =
  sr_task_name :: string
  sr_controller :: string
  sr_duration_s :: pyfloat

text \<open>\<open>run_success\<close> is \<^verbatim>\<open>success\<close> of \<^verbatim>\<open>StartRun\<close> and \<^verbatim>\<open>accepted\<close> of \<^verbatim>\<open>StopRun\<close>.\<close>

record run_response =
  run_success :: bool
  response_run_dir :: string
  response_text :: string

definition dir_text :: "run_logger \<Rightarrow> string" where
  "dir_text n = (case run_dir n of None \<Rightarrow> ''None'' | Some d \<Rightarrow> d)"

definition started_payload :: "string \<Rightarrow> json_object" where
  "started_payload d = [(''run_dir'', JStr d), (''rosbag2_dir'', JStr (d @ ''/rosbag2/tracking''))]"

definition start_payload :: "start_request \<Rightarrow> json_object" where
  "start_payload rq =
     [(''phase'', JStr ''start''), (''scenario'', JStr (sr_task_name rq)), (''controller'', JStr (sr_controller rq)),
      (''duration_s'', JFloat (sr_duration_s rq)), (''success'', JBool True), (''message'', JStr ''started'')]"

definition publish_run_dir :: "unit act" where
  "publish_run_dir = modify (\<lambda>n. case run_dir n of None \<Rightarrow> n | Some d \<Rightarrow> n\<lparr>run_dir_topic := Some d\<rparr>)"

definition on_start_run :: "start_env \<Rightarrow> start_request \<Rightarrow> run_response act" where
  "on_start_run env rq n =
     (if event_log_handle n \<noteq> None
      then ret \<lparr>run_success = False, response_run_dir = dir_text n, response_text = ''a tracking run is already active''\<rparr> n
      else
        seq (from_exc (new_run_dir env)) (\<lambda>d.
        seq (modify (\<lambda>n. n\<lparr>run_dir := Some d\<rparr>)) (\<lambda>_.
        seq (outcome (open_log env)) (\<lambda>_.
        seq (modify (\<lambda>n. n\<lparr>event_log_handle := Some \<lparr>log_lines = [], flushed = 0\<rparr>\<rparr>)) (\<lambda>_.
        seq (snapshot_control_configs env (sr_task_name rq)) (\<lambda>_.
        seq (start_rosbag env) (\<lambda>_.
        seq (write_event (log_write env) (now_ns env) ''run_started'' (started_payload d) True) (\<lambda>_.
        seq (write_event (log_write env) (now_ns env) ''tracking_experiment'' (start_payload rq) True) (\<lambda>_.
        seq publish_run_dir (\<lambda>_.
        ret \<lparr>run_success = True, response_run_dir = d, response_text = ''run directory and rosbag recording started''\<rparr>))))))))) n)"

section \<open>Stopping a run\<close>

text \<open>\<open>wait\<close> is what waiting for the recorder raises: a timeout.  Without a process the attribute access
  on \<^verbatim>\<open>None\<close> raises.\<close>

definition stop_rosbag :: "exc option \<Rightarrow> unit act" where
  "stop_rosbag wait n =
     (if \<not> rosbag_process n then raise (AttributeError ''NoneType has no attribute send_signal'') n
      else seq (outcome wait) (\<lambda>_. modify (\<lambda>n. n\<lparr>rosbag_process := False, rosbag_output := False\<rparr>)) n)"

definition close_log :: "bool \<Rightarrow> unit act" where
  "close_log ended = modify (\<lambda>n.
     case event_log_handle n of
       None \<Rightarrow> n
     | Some l \<Rightarrow> n\<lparr>event_log_handle := None, files := files n @ [(ended, log_lines l)]\<rparr>)"

definition end_payload :: "bool \<Rightarrow> string \<Rightarrow> json_object" where
  "end_payload ok msg = [(''phase'', JStr ''end''), (''success'', JBool ok), (''message'', JStr msg)]"

text \<open>Closing a log that is \<^verbatim>\<open>None\<close> would raise too, but the recorder is stopped before.\<close>

definition on_stop_run :: "exc option \<Rightarrow> exc option \<Rightarrow> int \<Rightarrow> bool \<Rightarrow> string \<Rightarrow> run_response act" where
  "on_stop_run io wait now ok msg n =
     (let d = dir_text n in
      seq (write_event io now ''tracking_experiment'' (end_payload ok msg) True) (\<lambda>_.
      seq (stop_rosbag wait) (\<lambda>_.
      seq (\<lambda>n. if event_log_handle n = None then raise (AttributeError ''NoneType has no attribute close'') n else close_log True n) (\<lambda>_.
      seq (modify (\<lambda>n. n\<lparr>run_dir := None\<rparr>)) (\<lambda>_.
      ret \<lparr>run_success = True, response_run_dir = d, response_text = ''run log and rosbag recording stopped''\<rparr>)))) n)"

definition destroy_node :: "exc option \<Rightarrow> unit act" where
  "destroy_node wait n =
     seq (\<lambda>n. if rosbag_process n then stop_rosbag wait n else ret () n) (\<lambda>_. close_log False) n"

section \<open>Messages and their payloads\<close>

definition v3 :: "vector3 \<Rightarrow> json_value" where
  "v3 v = JList (map JFloat (arr3 v))"

definition q4 :: "quaternion_msg \<Rightarrow> json_value" where
  "q4 q = JList (map JFloat (arr4 q))"

definition finite_or_none :: "pyfloat \<Rightarrow> json_value" where
  "finite_or_none v = (if isfinite v then JFloat v else JNull)"

definition texts :: "string list \<Rightarrow> json_value" where
  "texts xs = JList (map JStr xs)"

record safety_msg =
  sm_level :: int
  sm_code :: string
  sm_message :: string
  sm_abort_active :: bool
  sm_source :: string

record policy_msg =
  pm_role :: string
  pm_policy :: string
  pm_loaded :: bool
  pm_input_ready :: bool
  pm_missing :: "string list"
  pm_latency_ms :: pyfloat
  pm_tick_interval_ms :: pyfloat
  pm_deadline_miss_count :: int

record thruster_msg =
  tm_source :: string
  tm_enable :: bool
  tm_action :: "pyfloat list"

record tracking_msg =
  tr_type :: string
  tr_control_mode :: string
  tr_time_s :: pyfloat
  tr_valid :: bool
  tr_target_position :: vector3
  tr_actual_position :: vector3
  tr_position_error_m :: pyfloat
  tr_orientation_error_rad :: pyfloat
  tr_velocity_error_mps :: pyfloat
  tr_angular_velocity_error_rps :: pyfloat
  tr_speed_mps :: pyfloat
  tr_acceleration_mps2 :: pyfloat
  tr_target_orientation :: quaternion_msg
  tr_actual_orientation :: quaternion_msg
  tr_target_velocity_body :: vector3
  tr_actual_velocity_body :: vector3
  tr_target_acceleration_body :: vector3
  tr_actual_acceleration_body :: vector3
  tr_target_angular_velocity_body :: vector3
  tr_actual_angular_velocity_body :: vector3
  tr_position_error_body :: vector3
  tr_orientation_error_body :: vector3

record authority_status_msg =
  am_source :: string
  am_armed :: bool
  am_abort_active :: bool
  am_fault_latched :: bool
  am_fault_code :: string
  am_message :: string
  am_command_age_s :: pyfloat
  am_body_state_age_s :: pyfloat
  am_target_age_s :: pyfloat
  am_action_limit :: pyfloat
  am_localization_source :: string

record pid_msg =
  pd_ready :: bool
  pd_producing :: bool
  pd_missing :: "string list"
  pd_body_state_age_s :: pyfloat
  pd_imu_age_s :: pyfloat
  pd_target_age_s :: pyfloat
  pd_rank :: int
  pd_condition :: pyfloat
  pd_residual :: pyfloat
  pd_saturation :: pyfloat
  pd_hash :: string
  pd_message :: string

record localization_msg =
  lm_source :: string
  lm_vio_fresh :: bool
  lm_tag_fresh :: bool
  lm_tag_consistent :: bool
  lm_absolute_fix_valid :: bool
  lm_position_estimated :: bool
  lm_tag_class :: string
  lm_rejection_reason :: string
  lm_detected :: int
  lm_mapped :: int
  lm_inliers :: int
  lm_reprojection_rms_px :: pyfloat
  lm_minimum_edge_px :: pyfloat
  lm_pose_published :: bool
  lm_apriltag_rejection :: string
  lm_vio_age_s :: pyfloat
  lm_tag_age_s :: pyfloat
  lm_fix_age_s :: pyfloat
  lm_frame_age_s :: pyfloat
  lm_vio_rate_hz :: pyfloat
  lm_tag_rate_hz :: pyfloat
  lm_body_rate_hz :: pyfloat
  lm_frame_rate_hz :: pyfloat
  lm_vio_delay_s :: pyfloat
  lm_tag_delay_s :: pyfloat
  lm_translation_residual_m :: pyfloat
  lm_angle_residual_deg :: pyfloat
  lm_pose_covariance :: "pyfloat list"
  lm_twist_covariance :: "pyfloat list"

definition safety_payload :: "safety_msg \<Rightarrow> json_object" where
  "safety_payload m =
     [(''level'', JInt (sm_level m)), (''code'', JStr (sm_code m)), (''message'', JStr (sm_message m)),
      (''abort_active'', JBool (sm_abort_active m)), (''source'', JStr (sm_source m))]"

definition policy_payload :: "policy_msg \<Rightarrow> json_object" where
  "policy_payload m =
     [(''role'', JStr (pm_role m)), (''policy'', JStr (pm_policy m)), (''loaded'', JBool (pm_loaded m)),
      (''input_ready'', JBool (pm_input_ready m)), (''missing_inputs'', texts (pm_missing m)),
      (''latency_ms'', JFloat (pm_latency_ms m)), (''tick_interval_ms'', JFloat (pm_tick_interval_ms m)),
      (''deadline_miss_count'', JInt (pm_deadline_miss_count m))]"

definition thruster_payload :: "thruster_msg \<Rightarrow> json_object" where
  "thruster_payload m =
     [(''source'', JStr (tm_source m)), (''enable'', JBool (tm_enable m)), (''action'', JList (map JFloat (tm_action m)))]"

definition target_payload :: "target_msg \<Rightarrow> json_object" where
  "target_payload m =
     [(''trajectory_type'', JStr (trajectory_type m)), (''control_mode'', JStr (control_mode m)),
      (''trajectory_phase'', JStr (trajectory_phase m)), (''time_s'', JFloat (time_s m)),
      (''position'', v3 (target_position m)), (''linear_velocity'', v3 (target_linear m)),
      (''linear_acceleration'', v3 (target_accel_linear m)), (''orientation_wxyz'', q4 (target_orientation m)),
      (''angular_velocity'', v3 (target_angular m)), (''angular_acceleration'', v3 (target_accel_angular m)),
      (''valid'', JBool (target_valid m))]"

definition tracking_payload :: "tracking_msg \<Rightarrow> json_object" where
  "tracking_payload m =
     [(''trajectory_type'', JStr (tr_type m)), (''control_mode'', JStr (tr_control_mode m)), (''time_s'', JFloat (tr_time_s m)),
      (''valid'', JBool (tr_valid m)), (''target_position'', v3 (tr_target_position m)),
      (''actual_position'', v3 (tr_actual_position m)), (''position_error_m'', JFloat (tr_position_error_m m)),
      (''orientation_error_rad'', JFloat (tr_orientation_error_rad m)), (''velocity_error_mps'', JFloat (tr_velocity_error_mps m)),
      (''angular_velocity_error_rps'', JFloat (tr_angular_velocity_error_rps m)), (''speed_mps'', JFloat (tr_speed_mps m)),
      (''acceleration_mps2'', JFloat (tr_acceleration_mps2 m)), (''target_orientation_wxyz'', q4 (tr_target_orientation m)),
      (''actual_orientation_wxyz'', q4 (tr_actual_orientation m)), (''target_velocity_body'', v3 (tr_target_velocity_body m)),
      (''actual_velocity_body'', v3 (tr_actual_velocity_body m)),
      (''target_acceleration_body'', v3 (tr_target_acceleration_body m)),
      (''actual_acceleration_body'', v3 (tr_actual_acceleration_body m)),
      (''target_angular_velocity_body'', v3 (tr_target_angular_velocity_body m)),
      (''actual_angular_velocity_body'', v3 (tr_actual_angular_velocity_body m)),
      (''position_error_body'', v3 (tr_position_error_body m)), (''orientation_error_body'', v3 (tr_orientation_error_body m))]"

definition authority_payload :: "authority_status_msg \<Rightarrow> json_object" where
  "authority_payload m =
     [(''selected_source'', JStr (am_source m)), (''armed'', JBool (am_armed m)), (''abort_active'', JBool (am_abort_active m)),
      (''fault_latched'', JBool (am_fault_latched m)), (''fault_code'', JStr (am_fault_code m)), (''message'', JStr (am_message m)),
      (''selected_command_age_s'', JFloat (am_command_age_s m)), (''body_state_age_s'', JFloat (am_body_state_age_s m)),
      (''target_age_s'', JFloat (am_target_age_s m)), (''action_limit'', JFloat (am_action_limit m)),
      (''localization_source'', JStr (am_localization_source m))]"

definition pid_payload :: "pid_msg \<Rightarrow> json_object" where
  "pid_payload m =
     [(''ready'', JBool (pd_ready m)), (''producing_command'', JBool (pd_producing m)), (''missing_inputs'', texts (pd_missing m)),
      (''body_state_age_s'', JFloat (pd_body_state_age_s m)), (''imu_age_s'', JFloat (pd_imu_age_s m)),
      (''target_age_s'', JFloat (pd_target_age_s m)), (''allocation_rank'', JInt (pd_rank m)),
      (''allocation_condition'', JFloat (pd_condition m)), (''allocation_residual'', JFloat (pd_residual m)),
      (''saturation_fraction'', JFloat (pd_saturation m)), (''configuration_hash'', JStr (pd_hash m)), (''message'', JStr (pd_message m))]"

definition diagonal_indices :: "nat list" where
  "diagonal_indices = [0, 7, 14, 21, 28, 35]"

definition diagonal :: "pyfloat list \<Rightarrow> json_value" where
  "diagonal covariance = JList (map (\<lambda>i. JFloat (covariance ! i)) diagonal_indices)"

definition localization_payload :: "localization_msg \<Rightarrow> json_object" where
  "localization_payload m =
     [(''localization_source'', JStr (lm_source m)), (''vio_fresh'', JBool (lm_vio_fresh m)), (''tag_fresh'', JBool (lm_tag_fresh m)),
      (''tag_consistent'', JBool (lm_tag_consistent m)), (''absolute_fix_valid'', JBool (lm_absolute_fix_valid m)),
      (''position_estimated'', JBool (lm_position_estimated m)), (''tag_observation_class'', JStr (lm_tag_class m)),
      (''rejection_reason'', JStr (lm_rejection_reason m)), (''detected_tag_count'', JInt (lm_detected m)),
      (''mapped_tag_count'', JInt (lm_mapped m)), (''inlier_tag_count'', JInt (lm_inliers m)),
      (''tag_reprojection_rms_px'', finite_or_none (lm_reprojection_rms_px m)),
      (''minimum_tag_edge_px'', finite_or_none (lm_minimum_edge_px m)), (''tag_pose_published'', JBool (lm_pose_published m)),
      (''apriltag_rejection_reason'', JStr (lm_apriltag_rejection m)), (''vio_age_s'', finite_or_none (lm_vio_age_s m)),
      (''tag_age_s'', finite_or_none (lm_tag_age_s m)), (''absolute_fix_age_s'', finite_or_none (lm_fix_age_s m)),
      (''apriltag_frame_age_s'', finite_or_none (lm_frame_age_s m)), (''vio_rate_hz'', JFloat (lm_vio_rate_hz m)),
      (''tag_rate_hz'', JFloat (lm_tag_rate_hz m)), (''body_state_rate_hz'', JFloat (lm_body_rate_hz m)),
      (''apriltag_frame_rate_hz'', JFloat (lm_frame_rate_hz m)), (''vio_transport_delay_s'', finite_or_none (lm_vio_delay_s m)),
      (''tag_transport_delay_s'', finite_or_none (lm_tag_delay_s m)),
      (''tag_vio_translation_residual_m'', finite_or_none (lm_translation_residual_m m)),
      (''tag_vio_angle_residual_deg'', finite_or_none (lm_angle_residual_deg m)),
      (''pose_covariance_diagonal'', diagonal (lm_pose_covariance m)),
      (''twist_covariance_diagonal'', diagonal (lm_twist_covariance m))]"

section \<open>Callbacks\<close>

definition on_safety_event :: "exc option \<Rightarrow> int \<Rightarrow> safety_msg \<Rightarrow> unit act" where
  "on_safety_event io now m n =
     (let signature = (sm_code m, sm_message m, sm_abort_active m) in
      if Some signature = last_safety_signature n \<and> now - last_safety_log_ns n < 1000000000 then ret () n
      else seq (modify (\<lambda>n. n\<lparr>last_safety_signature := Some signature, last_safety_log_ns := now\<rparr>)) (\<lambda>_.
           write_event io now ''safety_event'' (safety_payload m) (sm_abort_active m)) n)"

definition on_policy_status :: "exc option \<Rightarrow> int \<Rightarrow> policy_msg \<Rightarrow> unit act" where
  "on_policy_status io now m = write_event io now ''policy_status'' (policy_payload m) False"

text \<open>The five summaries share their shape: nothing unless the stream is due.\<close>

definition on_stream :: "exc option \<Rightarrow> int \<Rightarrow> int \<Rightarrow> string \<Rightarrow> json_object \<Rightarrow> unit act" where
  "on_stream io now mono_ns stream p =
     seq (stream_log_due stream mono_ns) (\<lambda>due. if due then write_event io now stream p False else ret ())"

definition on_thruster_cmd :: "exc option \<Rightarrow> int \<Rightarrow> int \<Rightarrow> thruster_msg \<Rightarrow> unit act" where
  "on_thruster_cmd io now mono_ns m = on_stream io now mono_ns ''thruster_cmd'' (thruster_payload m)"

definition on_trajectory_target :: "exc option \<Rightarrow> int \<Rightarrow> int \<Rightarrow> target_msg \<Rightarrow> unit act" where
  "on_trajectory_target io now mono_ns m = on_stream io now mono_ns ''trajectory_target'' (target_payload m)"

definition on_tracking_status :: "exc option \<Rightarrow> int \<Rightarrow> int \<Rightarrow> tracking_msg \<Rightarrow> unit act" where
  "on_tracking_status io now mono_ns m = on_stream io now mono_ns ''tracking_status'' (tracking_payload m)"

definition on_authority_status :: "exc option \<Rightarrow> int \<Rightarrow> int \<Rightarrow> authority_status_msg \<Rightarrow> unit act" where
  "on_authority_status io now mono_ns m = on_stream io now mono_ns ''control_authority_status'' (authority_payload m)"

definition on_pid_status :: "exc option \<Rightarrow> int \<Rightarrow> int \<Rightarrow> pid_msg \<Rightarrow> unit act" where
  "on_pid_status io now mono_ns m = on_stream io now mono_ns ''pid_status'' (pid_payload m)"

definition on_localization_status :: "exc option \<Rightarrow> int \<Rightarrow> localization_msg \<Rightarrow> unit act" where
  "on_localization_status io now m n =
     (if now - last_localization_log_ns n < 1000000000 then ret () n
      else seq (modify (\<lambda>n. n\<lparr>last_localization_log_ns := now\<rparr>)) (\<lambda>_.
           write_event io now ''localization_status'' (localization_payload m) False) n)"

section \<open>The node as a machine\<close>

datatype logger_event =
    Start start_env start_request
  | Stop "exc option" "exc option" int bool string
  | RunDirTimer
  | FlushTimer "exc option"
  | SafetySeen "exc option" int safety_msg
  | PolicyLogged "exc option" int policy_msg
  | ThrusterSeen "exc option" int int thruster_msg
  | TargetLogged "exc option" int int target_msg
  | TrackingSeen "exc option" int int tracking_msg
  | AuthoritySeen "exc option" int int authority_status_msg
  | PidLogged "exc option" int int pid_msg
  | LocalizationSeen "exc option" int localization_msg

definition quiet_call :: "'a act \<Rightarrow> unit act" where
  "quiet_call m = seq m (\<lambda>_. ret ())"

fun on_event :: "logger_event \<Rightarrow> unit act" where
  "on_event (Start env rq) = quiet_call (on_start_run env rq)"
| "on_event (Stop io wait now ok msg) = quiet_call (on_stop_run io wait now ok msg)"
| "on_event RunDirTimer = publish_run_dir"
| "on_event (FlushTimer io) = flush_event_log io"
| "on_event (SafetySeen io now m) = on_safety_event io now m"
| "on_event (PolicyLogged io now m) = on_policy_status io now m"
| "on_event (ThrusterSeen io now mono_ns m) = on_thruster_cmd io now mono_ns m"
| "on_event (TargetLogged io now mono_ns m) = on_trajectory_target io now mono_ns m"
| "on_event (TrackingSeen io now mono_ns m) = on_tracking_status io now mono_ns m"
| "on_event (AuthoritySeen io now mono_ns m) = on_authority_status io now mono_ns m"
| "on_event (PidLogged io now mono_ns m) = on_pid_status io now mono_ns m"
| "on_event (LocalizationSeen io now m) = on_localization_status io now m"

text \<open>
  The process: alive, or ended by an exception.  \<open>wait\<close> is how the recorder behaves when the ending
  node stops it.
\<close>

type_synonym logger_state = "run_logger \<times> exc option"

definition logger_step :: "exc option \<Rightarrow> logger_state \<Rightarrow> logger_event \<Rightarrow> logger_state" where
  "logger_step wait s e =
     (case snd s of
        Some x \<Rightarrow> s
      | None \<Rightarrow> (case on_event e (fst s) of
                   (Inr _, n) \<Rightarrow> (n, None)
                 | (Inl x, n) \<Rightarrow> (snd (destroy_node wait n), Some x)))"

definition logger_run :: "exc option \<Rightarrow> run_logger \<Rightarrow> logger_event list \<Rightarrow> logger_state" where
  "logger_run wait n es = foldl (logger_step wait) (n, None) es"

end
