(* ===== verification/Logger_Safety.thy ===== *)
theory Logger_Safety
  imports Run_Logger
begin

text \<open>
  Properties of the run logger: the shape of every event log and the handles that go with it, how often
  a stream is logged, what is on disk after an abort, and how the node ends.
\<close>

section \<open>Actions\<close>

lemma act_simps [simp]:
  "ret x n = (Inr x, n)" "raise e n = (Inl e, n)" "modify f n = (Inr (), f n)"
  "outcome None = ret ()" "outcome (Some e) = raise e" "from_exc r n = (r, n)"
  by (simp_all add: ret_def raise_def modify_def outcome_def from_exc_def)

lemma seq_simps [simp]:
  "m n = (Inl e, n') \<Longrightarrow> seq m f n = (Inl e, n')"
  "m n = (Inr x, n') \<Longrightarrow> seq m f n = f x n'"
  by (simp_all add: seq_def)

text \<open>A triple: from a state with \<open>P\<close> the action returns with \<open>Q\<close> or raises with \<open>E\<close>.\<close>

definition triple :: "(run_logger \<Rightarrow> bool) \<Rightarrow> 'a act \<Rightarrow> ('a \<Rightarrow> run_logger \<Rightarrow> bool) \<Rightarrow> (run_logger \<Rightarrow> bool) \<Rightarrow> bool" where
  "triple P m Q E \<longleftrightarrow> (\<forall>n. P n \<longrightarrow> (case m n of (Inr x, n') \<Rightarrow> Q x n' | (Inl e, n') \<Rightarrow> E n'))"

lemma triple_seq: "triple P m R E \<Longrightarrow> (\<And>x. triple (R x) (f x) Q E) \<Longrightarrow> triple P (seq m f) Q E"
  by (fastforce simp: triple_def seq_def split: sum.splits prod.splits)

lemma triple_ret [simp]: "triple P (ret x) Q E \<longleftrightarrow> (\<forall>n. P n \<longrightarrow> Q x n)"
  by (simp add: triple_def)

lemma triple_raise [simp]: "triple P (raise e) Q E \<longleftrightarrow> (\<forall>n. P n \<longrightarrow> E n)"
  by (simp add: triple_def)

lemma triple_modify [simp]: "triple P (modify f) Q E \<longleftrightarrow> (\<forall>n. P n \<longrightarrow> Q () (f n))"
  by (simp add: triple_def)

lemma triple_outcome: "(\<And>n. P n \<Longrightarrow> Q () n) \<Longrightarrow> (\<And>n. P n \<Longrightarrow> E n) \<Longrightarrow> triple P (outcome r) Q E"
  by (cases r) (simp_all add: triple_def)

lemma triple_from_exc: "(\<And>n x. P n \<Longrightarrow> r = Inr x \<Longrightarrow> Q x n) \<Longrightarrow> (\<And>n. P n \<Longrightarrow> E n) \<Longrightarrow> triple P (from_exc r) Q E"
  by (cases r) (simp_all add: triple_def)

lemma triple_if: "triple (\<lambda>n. P n \<and> b) m Q E \<Longrightarrow> triple (\<lambda>n. P n \<and> \<not> b) m' Q E \<Longrightarrow> triple P (if b then m else m') Q E"
  by (auto simp: triple_def)

lemma triple_weaken:
  "triple P m Q E \<Longrightarrow> (\<And>n. P' n \<Longrightarrow> P n) \<Longrightarrow> (\<And>x n. Q x n \<Longrightarrow> Q' x n) \<Longrightarrow> (\<And>n. E n \<Longrightarrow> E' n) \<Longrightarrow> triple P' m Q' E'"
  by (fastforce simp: triple_def split: sum.splits prod.splits)

lemma tripleD: "triple P m Q E \<Longrightarrow> P n \<Longrightarrow> m n = (r, n') \<Longrightarrow> (case r of Inr x \<Rightarrow> Q x n' | Inl e \<Rightarrow> E n')"
  by (fastforce simp: triple_def split: sum.splits)

section \<open>The shape of a log\<close>

definition ordinary :: "log_line \<Rightarrow> bool" where
  "ordinary l \<longleftrightarrow> kind l \<notin> {''run_started'', ''tracking_experiment''}"

definition phase_line :: "string \<Rightarrow> log_line \<Rightarrow> bool" where
  "phase_line ph l \<longleftrightarrow> kind l = ''tracking_experiment'' \<and> map_of (payload l) ''phase'' = Some (JStr ph)"

definition open_shape :: "log_line list \<Rightarrow> bool" where
  "open_shape ls \<longleftrightarrow> (\<exists>a b rest. ls = a # b # rest \<and> kind a = ''run_started'' \<and> phase_line ''start'' b \<and> list_all ordinary rest)"

definition closed_shape :: "log_line list \<Rightarrow> bool" where
  "closed_shape ls \<longleftrightarrow> (\<exists>ls' e. ls = ls' @ [e] \<and> open_shape ls' \<and> phase_line ''end'' e)"

definition files_ok :: "run_logger \<Rightarrow> bool" where
  "files_ok n \<longleftrightarrow> (\<forall>ls. (True, ls) \<in> set (files n) \<longrightarrow> closed_shape ls)"

definition idle :: "run_logger \<Rightarrow> bool" where
  "idle n \<longleftrightarrow> run_dir n = None \<and> event_log_handle n = None \<and> \<not> rosbag_process n \<and> \<not> rosbag_output n"

definition recording :: "run_logger \<Rightarrow> bool" where
  "recording n \<longleftrightarrow> run_dir n \<noteq> None \<and> rosbag_process n \<and> rosbag_output n
     \<and> (\<exists>l. event_log_handle n = Some l \<and> open_shape (log_lines l) \<and> flushed l \<le> length (log_lines l))"

text \<open>A run is recorded and its folder has been announced.\<close>

definition running :: "run_logger \<Rightarrow> bool" where
  "running n \<longleftrightarrow> recording n \<and> run_dir_topic n = run_dir n"

definition alive :: "run_logger \<Rightarrow> bool" where
  "alive n \<longleftrightarrow> files_ok n \<and> (idle n \<or> running n)"

lemma open_shape_snoc: "open_shape ls \<Longrightarrow> ordinary l \<Longrightarrow> open_shape (ls @ [l])"
  by (auto simp: open_shape_def)

lemma alive_idle: "alive n \<Longrightarrow> event_log_handle n = None \<longleftrightarrow> idle n"
  by (auto simp: alive_def idle_def running_def recording_def)

text \<open>The parts of the state that logging does not touch.\<close>

definition same_run :: "run_logger \<Rightarrow> run_logger \<Rightarrow> bool" where
  "same_run n n' \<longleftrightarrow> run_dir n' = run_dir n \<and> (run_dir_topic n' = run_dir_topic n \<or> run_dir_topic n' = run_dir n) \<and> event_log_handle n' = event_log_handle n \<and> rosbag_process n' = rosbag_process n
     \<and> rosbag_output n' = rosbag_output n \<and> files n' = files n"

lemma same_run_alive: "same_run n n' \<Longrightarrow> alive n \<Longrightarrow> alive n'"
  by (auto simp: same_run_def alive_def files_ok_def idle_def running_def recording_def)

lemma triple_same: "(\<And>n. same_run n (f n)) \<Longrightarrow> triple alive (modify f) (\<lambda>_. alive) files_ok"
  using same_run_alive by (auto simp: triple_def)

lemma write_alive: "typ \<notin> {''run_started'', ''tracking_experiment''} \<Longrightarrow> triple alive (write_event io now typ p fl) (\<lambda>_. alive) files_ok"
  by (cases io)
    (auto simp: triple_def write_event_def Let_def alive_def files_ok_def idle_def running_def recording_def ordinary_def
       intro!: open_shape_snoc split: option.split)

lemma flush_alive: "triple alive (flush_event_log io) (\<lambda>_. alive) files_ok"
  by (cases io) (auto simp: triple_def flush_event_log_def alive_def files_ok_def idle_def running_def recording_def split: option.split)

lemma due_alive: "triple alive (stream_log_due stream t) (\<lambda>_. alive) files_ok"
  by (auto simp: triple_def stream_log_due_def alive_def files_ok_def idle_def running_def recording_def split: option.split)

lemma stream_alive:
  assumes "stream \<notin> {''run_started'', ''tracking_experiment''}"
  shows "triple alive (on_stream io now t stream p) (\<lambda>_. alive) files_ok"
  unfolding on_stream_def
  by (rule triple_seq [OF due_alive]) (use write_alive [OF assms, of io now p False] in \<open>simp add: triple_def\<close>)

lemma safety_alive: "triple alive (on_safety_event io now m) (\<lambda>_. alive) files_ok"
proof -
  have "triple alive (seq (modify (\<lambda>n. n\<lparr>last_safety_signature := s, last_safety_log_ns := now\<rparr>))
      (\<lambda>_. write_event io now ''safety_event'' (safety_payload m) (sm_abort_active m))) (\<lambda>_. alive) files_ok" for s
    by (rule triple_seq [OF triple_same]) (simp_all add: same_run_def write_alive)
  then show ?thesis
    by (auto simp: on_safety_event_def Let_def triple_def)
qed

lemma localization_alive: "triple alive (on_localization_status io now m) (\<lambda>_. alive) files_ok"
proof -
  have "triple alive (seq (modify (\<lambda>n. n\<lparr>last_localization_log_ns := now\<rparr>))
      (\<lambda>_. write_event io now ''localization_status'' (localization_payload m) False)) (\<lambda>_. alive) files_ok"
    by (rule triple_seq [OF triple_same]) (simp_all add: same_run_def write_alive)
  then show ?thesis
    by (auto simp: on_localization_status_def triple_def)
qed

section \<open>Starting and stopping\<close>

lemma copy_configs_state: "snd (copy_configs env hs ps n) = n"
proof (induction ps arbitrary: hs)
  case (Cons p ps)
  then show ?case
    by (cases "copy_file env p") (auto split: option.split)
qed simp

lemma seq_state: "snd (m n) = n \<Longrightarrow> (\<And>x. snd (f x n) = n) \<Longrightarrow> snd (seq m f n) = n"
  by (auto simp: seq_def split: prod.splits sum.splits)

lemma outcome_state [simp]: "snd (outcome r n) = n"
  by (cases r) simp_all

lemma snapshot_state: "snd (snapshot_control_configs env task n) = n"
  unfolding snapshot_control_configs_def by (intro seq_state copy_configs_state) simp_all

text \<open>Between opening the log and the first event.\<close>

definition starting :: "bool \<Rightarrow> run_logger \<Rightarrow> bool" where
  "starting recorder n \<longleftrightarrow> files_ok n \<and> run_dir n \<noteq> None \<and> event_log_handle n = Some \<lparr>log_lines = [], flushed = 0\<rparr>
     \<and> (recorder \<longrightarrow> rosbag_process n \<and> rosbag_output n)"

lemma snapshot_starting: "triple (starting False) (snapshot_control_configs env task) (\<lambda>_. starting False) files_ok"
proof -
  have "files_ok n" if "starting False n" for n
    using that by (simp add: starting_def)
  then show ?thesis
    using snapshot_state by (auto simp: triple_def split: prod.split sum.split) (metis snd_conv)+
qed

lemma rosbag_starting: "triple (starting False) (start_rosbag env) (\<lambda>_. starting True) files_ok"
  unfolding start_rosbag_def
proof (intro triple_seq)
  let ?out = "\<lambda>n. starting False n \<and> rosbag_output n" and ?proc = "starting True"
  show "triple (starting False) (outcome (write_file env ''rosbag_qos_overrides.yaml'')) (\<lambda>_. starting False) files_ok"
    "triple (starting False) (outcome (write_file env ''rosbag2.log'')) (\<lambda>_. starting False) files_ok"
    by (rule triple_outcome; simp add: starting_def)+
  show "triple (starting False) (modify (rosbag_output_update (\<lambda>_. True))) (\<lambda>_. ?out) files_ok"
    by (simp add: starting_def files_ok_def)
  show "triple ?out (outcome (spawn_recorder env)) (\<lambda>_. ?out) files_ok"
    by (rule triple_outcome) (simp_all add: starting_def)
  show "triple ?out (modify (rosbag_process_update (\<lambda>_. True))) (\<lambda>_. ?proc) files_ok"
    by (simp add: starting_def files_ok_def)
  show "triple ?proc (if recorder_alive env then ret () else raise (RuntimeError ''rosbag2 recorder exited during startup'')) (\<lambda>_. ?proc) files_ok"
    by (simp add: starting_def)
qed

lemma running_first:
  "triple (starting True) (write_event io now ''run_started'' p True)
     (\<lambda>_ n. files_ok n \<and> run_dir n \<noteq> None \<and> rosbag_process n \<and> rosbag_output n
        \<and> (\<exists>a. event_log_handle n = Some \<lparr>log_lines = [a], flushed = 1\<rparr> \<and> kind a = ''run_started'')) files_ok"
  by (cases io) (auto simp: triple_def write_event_def starting_def files_ok_def)

lemma running_second:
  "triple (\<lambda>n. files_ok n \<and> run_dir n \<noteq> None \<and> rosbag_process n \<and> rosbag_output n
        \<and> (\<exists>a. event_log_handle n = Some \<lparr>log_lines = [a], flushed = 1\<rparr> \<and> kind a = ''run_started''))
     (write_event io now ''tracking_experiment'' (start_payload rq) True) (\<lambda>_ n. files_ok n \<and> recording n) files_ok"
  by (cases io)
    (auto simp: triple_def write_event_def files_ok_def alive_def running_def recording_def open_shape_def phase_line_def start_payload_def)

lemma publish_alive: "triple alive publish_run_dir (\<lambda>_. alive) files_ok"
  unfolding publish_run_dir_def by (rule triple_same) (simp add: same_run_def split: option.split)

lemma publish_running: "triple (\<lambda>n. files_ok n \<and> recording n) publish_run_dir (\<lambda>_ n. alive n \<and> running n) files_ok"
  by (auto simp: publish_run_dir_def alive_def running_def recording_def files_ok_def split: option.split)

lemma start_alive: "triple alive (on_start_run env rq) (\<lambda>r n. alive n \<and> running n) files_ok"
proof -
  let ?ready = "\<lambda>n. files_ok n \<and> event_log_handle n = None \<and> run_dir n \<noteq> None"
  have "triple (\<lambda>n. files_ok n \<and> idle n) (seq (from_exc (new_run_dir env)) (\<lambda>d.
        seq (modify (\<lambda>n. n\<lparr>run_dir := Some d\<rparr>)) (\<lambda>_.
        seq (outcome (open_log env)) (\<lambda>_.
        seq (modify (\<lambda>n. n\<lparr>event_log_handle := Some \<lparr>log_lines = [], flushed = 0\<rparr>\<rparr>)) (\<lambda>_.
        seq (snapshot_control_configs env (sr_task_name rq)) (\<lambda>_.
        seq (start_rosbag env) (\<lambda>_.
        seq (write_event (log_write env) (now_ns env) ''run_started'' (started_payload d) True) (\<lambda>_.
        seq (write_event (log_write env) (now_ns env) ''tracking_experiment'' (start_payload rq) True) (\<lambda>_.
        seq publish_run_dir (\<lambda>_.
        ret \<lparr>run_success = True, response_run_dir = d, response_text = ''run directory and rosbag recording started''\<rparr>))))))))))
      (\<lambda>r n. alive n \<and> running n) files_ok"
  proof (intro triple_seq)
    show "triple (\<lambda>n. files_ok n \<and> idle n) (from_exc (new_run_dir env)) (\<lambda>_ n. files_ok n \<and> idle n) files_ok"
      by (rule triple_from_exc) simp_all
    show "triple (\<lambda>n. files_ok n \<and> idle n) (modify (\<lambda>n. n\<lparr>run_dir := Some d\<rparr>)) (\<lambda>_. ?ready) files_ok" for d
      by (simp add: files_ok_def idle_def)
    show "triple ?ready (outcome (open_log env)) (\<lambda>_. ?ready) files_ok"
      by (rule triple_outcome) simp_all
    show "triple ?ready (modify (\<lambda>n. n\<lparr>event_log_handle := Some \<lparr>log_lines = [], flushed = 0\<rparr>\<rparr>)) (\<lambda>_. starting False) files_ok"
      by (simp add: starting_def files_ok_def)
    show "triple (\<lambda>n. alive n \<and> running n) (ret r) (\<lambda>r n. alive n \<and> running n) files_ok" for r :: run_response
      by simp
  qed (rule snapshot_starting rosbag_starting running_first running_second publish_running)+
  then show ?thesis
    by (auto simp: triple_def on_start_run_def alive_def idle_def running_def recording_def)
qed

lemma stop_idle: "idle n \<Longrightarrow> on_stop_run io wait now ok msg n = (Inl (AttributeError ''NoneType has no attribute send_signal''), n)"
  by (simp add: on_stop_run_def Let_def idle_def write_event_def stop_rosbag_def)

lemma stop_alive: "triple alive (on_stop_run io wait now ok msg) (\<lambda>r. alive) files_ok"
proof -
  let ?ended = "\<lambda>n. files_ok n \<and> rosbag_process n \<and> (\<exists>l. event_log_handle n = Some l \<and> closed_shape (log_lines l))"
  let ?stopped = "\<lambda>n. files_ok n \<and> \<not> rosbag_process n \<and> \<not> rosbag_output n \<and> (\<exists>l. event_log_handle n = Some l \<and> closed_shape (log_lines l))"
  let ?closed = "\<lambda>n. files_ok n \<and> \<not> rosbag_process n \<and> \<not> rosbag_output n \<and> event_log_handle n = None"
  have "triple (\<lambda>n. files_ok n \<and> running n) (seq (write_event io now ''tracking_experiment'' (end_payload ok msg) True) (\<lambda>_.
      seq (stop_rosbag wait) (\<lambda>_.
      seq (\<lambda>n. if event_log_handle n = None then raise (AttributeError ''NoneType has no attribute close'') n else close_log True n) (\<lambda>_.
      seq (modify (\<lambda>n. n\<lparr>run_dir := None\<rparr>)) (\<lambda>_.
      ret \<lparr>run_success = True, response_run_dir = d, response_text = ''run log and rosbag recording stopped''\<rparr>)))))
      (\<lambda>r. alive) files_ok" for d
  proof (intro triple_seq)
    show "triple (\<lambda>n. files_ok n \<and> running n) (write_event io now ''tracking_experiment'' (end_payload ok msg) True) (\<lambda>_. ?ended) files_ok"
      by (cases io) (auto simp: triple_def write_event_def running_def recording_def files_ok_def Let_def closed_shape_def phase_line_def end_payload_def)
    show "triple ?ended (stop_rosbag wait) (\<lambda>_. ?stopped) files_ok"
      by (cases wait) (auto simp: triple_def stop_rosbag_def files_ok_def)
    show "triple ?stopped (\<lambda>n. if event_log_handle n = None then raise (AttributeError ''NoneType has no attribute close'') n else close_log True n)
        (\<lambda>_. ?closed) files_ok"
      by (auto simp: triple_def close_log_def files_ok_def)
    show "triple ?closed (modify (\<lambda>n. n\<lparr>run_dir := None\<rparr>)) (\<lambda>_. alive) files_ok"
      by (simp add: alive_def idle_def files_ok_def)
    show "triple alive (ret \<lparr>run_success = True, response_run_dir = d, response_text = ''run log and rosbag recording stopped''\<rparr>) (\<lambda>r. alive) files_ok"
      by simp
  qed
  then have "triple (\<lambda>n. files_ok n \<and> running n) (on_stop_run io wait now ok msg) (\<lambda>r. alive) files_ok"
    by (simp add: triple_def on_stop_run_def Let_def)
  moreover have "triple (\<lambda>n. files_ok n \<and> idle n) (on_stop_run io wait now ok msg) (\<lambda>r. alive) files_ok"
    by (simp add: triple_def stop_idle)
  ultimately show ?thesis
    by (auto simp: triple_def alive_def)
qed

section \<open>Runs of the node\<close>

lemma quiet_alive: "triple alive m (\<lambda>r. alive) files_ok \<Longrightarrow> triple alive (quiet_call m) (\<lambda>_. alive) files_ok"
  unfolding quiet_call_def by (rule triple_seq) (auto simp: triple_def)

lemmas callback_alive = publish_alive write_alive flush_alive stream_alive safety_alive localization_alive

lemma event_alive: "triple alive (on_event e) (\<lambda>_. alive) files_ok"
proof (cases e)
  case (Start env rq)
  then show ?thesis
    using triple_weaken [OF start_alive] by (auto intro!: quiet_alive)
next
  case (Stop io wait now ok msg)
  then show ?thesis
    by (simp add: quiet_alive stop_alive)
qed (simp_all add: callback_alive on_policy_status_def on_thruster_cmd_def on_trajectory_target_def on_tracking_status_def
    on_authority_status_def on_pid_status_def)

lemma destroy_files:
  "files_ok n \<Longrightarrow> files_ok (snd (destroy_node wait n))
     \<and> (wait = None \<longrightarrow> event_log_handle (snd (destroy_node wait n)) = None \<and> \<not> rosbag_process (snd (destroy_node wait n)))"
  by (cases wait) (auto simp: destroy_node_def stop_rosbag_def close_log_def files_ok_def seq_def split: option.split)

text \<open>The invariant of the process.\<close>

definition logger_inv :: "exc option \<Rightarrow> logger_state \<Rightarrow> bool" where
  "logger_inv wait s \<longleftrightarrow>
     (case snd s of
        None \<Rightarrow> alive (fst s)
      | Some x \<Rightarrow> files_ok (fst s) \<and> (wait = None \<longrightarrow> event_log_handle (fst s) = None \<and> \<not> rosbag_process (fst s)))"

lemma logger_step_inv: "logger_inv wait s \<Longrightarrow> logger_inv wait (logger_step wait s e)"
proof (cases "snd s")
  case None
  assume "logger_inv wait s"
  with None have a: "alive (fst s)"
    by (simp add: logger_inv_def)
  obtain r n where h: "on_event e (fst s) = (r, n)"
    by fastforce
  show ?thesis
    using tripleD [OF event_alive a h] None destroy_files [of n wait] h
    by (cases r) (simp_all add: logger_step_def logger_inv_def)
qed (simp add: logger_step_def)

interpretation logger: event_machine "logger_step wait" "logger_inv wait"
  by unfold_locales (rule logger_step_inv)

lemma logger_init_inv: "logger_inv wait (logger_init c rates sha, None)"
  by (simp add: logger_inv_def alive_def files_ok_def idle_def logger_init_def)

lemma logger_run_inv: "logger_inv wait (logger_run wait (logger_init c rates sha) es)"
  unfolding logger_run_def by (rule logger.run_inv [OF logger_init_inv])

section \<open>How often a stream is logged\<close>

text \<open>The times at which a stream is found due, for a sequence of monotonic clock readings.\<close>

fun accepted_times :: "run_logger \<Rightarrow> string \<Rightarrow> int list \<Rightarrow> int list" where
  "accepted_times n stream [] = []"
| "accepted_times n stream (t # ts) =
     (case stream_log_due stream t n of
        (Inr True, n') \<Rightarrow> t # accepted_times n' stream ts
      | (_, n') \<Rightarrow> accepted_times n' stream ts)"

lemma due_answer:
  assumes "map_of (stream_rates n) stream = Some rate" "0 < rate"
  shows "(\<exists>previous. last_stream_log_ns n stream = Some previous \<and> 0 \<le> t - previous \<and> t - previous < period_ns rate
        \<and> stream_log_due stream t n = (Inr False, n))
    \<or> ((\<forall>previous. last_stream_log_ns n stream = Some previous \<longrightarrow> 0 \<le> t - previous \<longrightarrow> period_ns rate \<le> t - previous)
        \<and> stream_log_due stream t n = (Inr True, n\<lparr>last_stream_log_ns := (last_stream_log_ns n)(stream \<mapsto> t)\<rparr>))"
  using assms by (cases "last_stream_log_ns n stream") (auto simp: stream_log_due_def seq_def)

text \<open>Accepted times are at least a period after the previous one.\<close>

lemma accepted_spaced:
  assumes "map_of (stream_rates n) stream = Some rate" "0 < rate" "sorted ts"
    and "\<forall>p. last_stream_log_ns n stream = Some p \<longrightarrow> (\<forall>t \<in> set ts. p \<le> t)"
  shows "sorted_wrt (\<lambda>a b. a + period_ns rate \<le> b) (accepted_times n stream ts) \<and> set (accepted_times n stream ts) \<subseteq> set ts
    \<and> (\<forall>p. last_stream_log_ns n stream = Some p \<longrightarrow> (\<forall>t \<in> set (accepted_times n stream ts). p + period_ns rate \<le> t))"
  using assms
proof (induction ts arbitrary: n)
  case (Cons t ts)
  show ?case
    using due_answer [OF Cons.prems(1,2), of t]
  proof (elim disjE exE conjE)
    fix previous
    assume skip: "last_stream_log_ns n stream = Some previous" "0 \<le> t - previous" "t - previous < period_ns rate"
      "stream_log_due stream t n = (Inr False, n)"
    then show ?thesis
      using Cons.IH [of n] Cons.prems by (simp add: subset_insertI2)
  next
    assume log: "\<forall>previous. last_stream_log_ns n stream = Some previous \<longrightarrow> 0 \<le> t - previous \<longrightarrow> period_ns rate \<le> t - previous"
      "stream_log_due stream t n = (Inr True, n\<lparr>last_stream_log_ns := (last_stream_log_ns n)(stream \<mapsto> t)\<rparr>)"
    let ?n = "n\<lparr>last_stream_log_ns := (last_stream_log_ns n)(stream \<mapsto> t)\<rparr>"
    have ih: "sorted_wrt (\<lambda>a b. a + period_ns rate \<le> b) (accepted_times ?n stream ts)" "set (accepted_times ?n stream ts) \<subseteq> set ts"
      "\<forall>u \<in> set (accepted_times ?n stream ts). t + period_ns rate \<le> u"
      using Cons.IH [of ?n] Cons.prems by auto
    have "p + period_ns rate \<le> u" if "last_stream_log_ns n stream = Some p" "u \<in> set (t # accepted_times ?n stream ts)" for p u
      using log(1) that(1) that(2) Cons.prems(4) ih(3) by fastforce
    with ih log(2) show ?thesis
      by auto
  qed
qed simp

text \<open>A reading that is not accepted follows an accepted one (or the last logged one) by less than a period.\<close>

lemma accepted_dense:
  assumes "map_of (stream_rates n) stream = Some rate" "0 < rate" "sorted ts" "t \<in> set ts" "t \<notin> set (accepted_times n stream ts)"
  shows "\<exists>u. (u \<in> set (accepted_times n stream ts) \<or> last_stream_log_ns n stream = Some u) \<and> u \<le> t \<and> t < u + period_ns rate"
  using assms
proof (induction ts arbitrary: n)
  case (Cons v ts)
  show ?case
    using due_answer [OF Cons.prems(1,2), of v]
  proof (elim disjE exE conjE)
    fix previous
    assume skip: "last_stream_log_ns n stream = Some previous" "0 \<le> v - previous" "v - previous < period_ns rate"
      "stream_log_due stream v n = (Inr False, n)"
    show ?thesis
    proof (cases "t \<in> set ts")
      case True
      with Cons.IH [of n] Cons.prems skip show ?thesis by simp
    next
      case False
      with Cons.prems skip show ?thesis by (intro exI [of _ previous]) auto
    qed
  next
    assume log: "\<forall>previous. last_stream_log_ns n stream = Some previous \<longrightarrow> 0 \<le> v - previous \<longrightarrow> period_ns rate \<le> v - previous"
      "stream_log_due stream v n = (Inr True, n\<lparr>last_stream_log_ns := (last_stream_log_ns n)(stream \<mapsto> v)\<rparr>)"
    let ?n = "n\<lparr>last_stream_log_ns := (last_stream_log_ns n)(stream \<mapsto> v)\<rparr>"
    have "t \<in> set ts" "t \<notin> set (accepted_times ?n stream ts)"
      using Cons.prems log(2) by auto
    then obtain u where "(u \<in> set (accepted_times ?n stream ts) \<or> last_stream_log_ns ?n stream = Some u) \<and> u \<le> t \<and> t < u + period_ns rate"
      using Cons.IH [of ?n] Cons.prems by auto
    with log(2) show ?thesis
      by auto
  qed
qed simp

lemma spaced_count:
  "sorted_wrt (\<lambda>a b. a + p \<le> b) xs \<Longrightarrow> \<forall>x \<in> set xs. lo \<le> x \<and> x < hi \<Longrightarrow> 0 < (p :: int) \<Longrightarrow> xs \<noteq> [] \<Longrightarrow>
     int (length xs - 1) * p < hi - lo"
proof (induction xs arbitrary: lo)
  case (Cons x xs)
  show ?case
  proof (cases "xs = []")
    case True
    with Cons.prems show ?thesis by simp
  next
    case False
    have "int (length xs - 1) * p < hi - (lo + p)"
      using Cons.prems False by (intro Cons.IH) auto
    with False show ?thesis
      by (cases xs) (simp_all add: algebra_simps)
  qed
qed simp

section \<open>A recorded run\<close>

definition example_env :: start_env where
  "example_env =
     \<lparr>new_run_dir = Inr ''data/run_1_depth'', open_log = None, thruster_config_path = ''config/thrusters.yaml'',
      safety_config_path = ''config/safety.yaml'', catalog_path = ''tasks.yaml'', recording_config_path = ''recording.yaml'',
      config_bytes = (\<lambda>p. if p = ''config/safety.yaml'' then Some ''limits'' else None), copy_file = (\<lambda>_. None),
      write_file = (\<lambda>_. None), spawn_recorder = None, recorder_alive = True, dump_task = (\<lambda>t. task_label t),
      digest_hex = (\<lambda>s. s), log_write = None, now_ns = 100\<rparr>"

definition example_request :: start_request where
  "example_request = \<lparr>sr_task_name = ''depth'', sr_controller = ''pid'', sr_duration_s = Fin 60\<rparr>"

definition example_abort :: safety_msg where
  "example_abort = \<lparr>sm_level = 2, sm_code = ''ROLL'', sm_message = ''roll limit'', sm_abort_active = True, sm_source = ''safety''\<rparr>"

definition example_logger :: run_logger where
  "example_logger = logger_init example_catalog [(''thruster_cmd'', 5), (''pid_status'', 0)] ''r''"

abbreviation started_log :: "log_line list" where
  "started_log \<equiv> [\<lparr>at_ns = 100, kind = ''run_started'', payload = started_payload ''data/run_1_depth''\<rparr>,
     \<lparr>at_ns = 100, kind = ''tracking_experiment'', payload = start_payload example_request\<rparr>]"

definition example_running :: run_logger where
  "example_running = example_logger\<lparr>run_dir := Some ''data/run_1_depth'', run_dir_topic := Some ''data/run_1_depth'',
     event_log_handle := Some \<lparr>log_lines = started_log, flushed = 2\<rparr>, rosbag_process := True, rosbag_output := True\<rparr>"

lemma example_resolved: "\<exists>t. catalog_task example_catalog ''depth'' = Inr t"
  by (simp add: catalog_task_def example_catalog_def lower_or_digit_def Let_def)

lemma example_start: "logger_step w (example_logger, None) (Start example_env example_request) = (example_running, None)"
proof -
  obtain t where "catalog_task example_catalog ''depth'' = Inr t"
    using example_resolved by blast
  then show ?thesis
    by (simp add: logger_step_def quiet_call_def on_start_run_def seq_def example_logger_def logger_init_def example_running_def
        example_env_def example_request_def snapshot_control_configs_def start_rosbag_def write_event_def publish_run_dir_def Let_def)
qed

lemma example_stop:
  "logger_step w (example_running, None) (Stop None None 900 True ''done'')
     = (example_running\<lparr>run_dir := None, event_log_handle := None, rosbag_process := False, rosbag_output := False,
          files := [(True, started_log @ [\<lparr>at_ns = 900, kind = ''tracking_experiment'', payload = end_payload True ''done''\<rparr>])]\<rparr>, None)"
  by (simp add: logger_step_def quiet_call_def on_stop_run_def seq_def example_running_def example_logger_def logger_init_def
      write_event_def stop_rosbag_def close_log_def Let_def)

section \<open>Properties\<close>

text \<open>C13: Every event log has the shape of a run.  Whatever the logger receives, in any order and with any
  failures, a log that was closed by a stop starts with the run and the experiment's start, ends with
  the experiment's end and has no such line in between; and while the node lives, a log is open exactly
  when there is a run folder and a recorder process, and it has that shape up to the end; the announced folder is that of the run.\<close>

theorem logs_have_run_shape:
  assumes "logger_run wait (logger_init c rates sha) es = (n, err)"
  shows "(\<forall>ls. (True, ls) \<in> set (files n) \<longrightarrow> closed_shape ls) \<and> (err = None \<longrightarrow> idle n \<or> running n)
    \<and> (err \<noteq> None \<and> wait = None \<longrightarrow> event_log_handle n = None \<and> \<not> rosbag_process n)"
  using logger_run_inv [of wait c rates sha es] assms
  by (cases err) (auto simp: logger_inv_def alive_def files_ok_def)

theorem logs_have_run_shape_witness:
  "closed_shape (started_log @ [\<lparr>at_ns = 900, kind = ''tracking_experiment'', payload = end_payload True ''done''\<rparr>])"
proof -
  obtain n where n: "logger_run None example_logger [Start example_env example_request, Stop None None 900 True ''done''] = (n, None)"
      "files n = [(True, started_log @ [\<lparr>at_ns = 900, kind = ''tracking_experiment'', payload = end_payload True ''done''\<rparr>])]"
    by (simp add: logger_run_def example_start example_stop)
  show ?thesis
    using logs_have_run_shape [OF n(1) [unfolded example_logger_def]] n(2) by simp
qed

text \<open>C34: Stream logging is bounded.  For non-decreasing clock readings, a stream is logged at most
  \<open>window / period + 1\<close> times within any window of time, where the period is that of the configured
  rate; and a reading that is not logged comes less than a period after one that was.\<close>

theorem stream_logging_bounded:
  assumes "map_of (stream_rates n) stream = Some rate" "0 < rate" "sorted ts" "last_stream_log_ns n stream = None" "0 < window"
  shows "int (length (filter (\<lambda>t. start \<le> t \<and> t < start + window) (accepted_times n stream ts))) \<le> window div period_ns rate + 1
    \<and> (\<forall>t \<in> set ts. \<exists>u \<in> set (accepted_times n stream ts). u \<le> t \<and> t < u + period_ns rate)"
proof
  let ?xs = "filter (\<lambda>t. start \<le> t \<and> t < start + window) (accepted_times n stream ts)"
  have p: "0 < period_ns rate"
    by (simp add: period_ns_def)
  have "sorted_wrt (\<lambda>a b. a + period_ns rate \<le> b) ?xs"
    using accepted_spaced [OF assms(1-3)] assms(4) by (simp add: sorted_wrt_filter)
  from spaced_count [OF this _ p, of start "start + window"]
  have "?xs \<noteq> [] \<Longrightarrow> int (length ?xs - 1) * period_ns rate \<le> window"
    by simp
  then have "?xs \<noteq> [] \<Longrightarrow> int (length ?xs - 1) \<le> window div period_ns rate"
    using p zdiv_mono1 [of "int (length ?xs - 1) * period_ns rate" window "period_ns rate"] by simp
  then show "int (length ?xs) \<le> window div period_ns rate + 1"
    using p assms(5) by (cases "?xs = []") (auto simp: pos_imp_zdiv_nonneg_iff Suc_leI of_nat_diff)
  show "\<forall>t \<in> set ts. \<exists>u \<in> set (accepted_times n stream ts). u \<le> t \<and> t < u + period_ns rate"
  proof
    fix t
    assume "t \<in> set ts"
    then show "\<exists>u \<in> set (accepted_times n stream ts). u \<le> t \<and> t < u + period_ns rate"
      using accepted_dense [OF assms(1-3), of t] assms(4) p by (cases "t \<in> set (accepted_times n stream ts)") auto
  qed
qed

theorem stream_logging_bounded_witness:
  "int (length (filter (\<lambda>t. 0 \<le> t \<and> t < 1000000000) (accepted_times example_logger ''thruster_cmd'' [0, 150000000, 200000000, 250000000]))) \<le> 6
    \<and> accepted_times example_logger ''thruster_cmd'' [0, 150000000, 200000000, 250000000] = [0, 200000000]"
proof -
  have p: "period_ns 5 = 200000000"
    by (simp add: period_ns_def)
  have "accepted_times example_logger ''thruster_cmd'' [0, 150000000, 200000000, 250000000] = [0, 200000000]"
    by (simp add: stream_log_due_def example_logger_def logger_init_def p seq_def)
  then show ?thesis
    using stream_logging_bounded [of example_logger "''thruster_cmd''" 5 "[0, 150000000, 200000000, 250000000]" 1000000000 0]
    by (simp add: example_logger_def logger_init_def p)
qed

text \<open>An abort is on disk when its callback returns.  While a run is recorded, an event with an active abort
  is either a repetition of the last one within a second, or its line is the last of the log and the
  whole log has been flushed.\<close>

theorem abort_event_flushed:
  assumes "on_safety_event io now m n = (Inr (), n')" "sm_abort_active m" "event_log_handle n = Some l"
  shows "(last_safety_signature n = Some (sm_code m, sm_message m, True) \<and> now - last_safety_log_ns n < 1000000000 \<and> n' = n)
    \<or> (\<exists>l'. event_log_handle n' = Some l' \<and> flushed l' = length (log_lines l')
         \<and> log_lines l' = log_lines l @ [\<lparr>at_ns = now, kind = ''safety_event'', payload = safety_payload m\<rparr>])"
  using assms by (cases io) (auto simp: on_safety_event_def Let_def write_event_def split: if_split_asm)

theorem abort_event_flushed_witness:
  "\<exists>n' l. on_safety_event None 500 example_abort example_running = (Inr (), n') \<and> event_log_handle n' = Some l
     \<and> flushed l = 3 \<and> length (log_lines l) = 3"
proof -
  obtain n' where n: "on_safety_event None 500 example_abort example_running = (Inr (), n')"
    by (simp add: on_safety_event_def Let_def write_event_def example_running_def example_abort_def example_logger_def logger_init_def seq_def)
  show ?thesis
    using abort_event_flushed [OF n, of "\<lparr>log_lines = started_log, flushed = 2\<rparr>"] n
    by (auto simp: example_abort_def example_running_def example_logger_def logger_init_def)
qed

text \<open>Stopping without a run ends the logger.  From every reachable state without an open log, the stop
  service raises: nothing guards the recorder, which is \<open>None\<close>, and the exception leaves the callback.\<close>

theorem stop_without_run_raises:
  assumes "logger_run wait (logger_init c rates sha) es = (n, None)" "event_log_handle n = None"
  shows "\<exists>msg'. logger_step wait (n, None) (Stop io w now ok msg) = (snd (destroy_node wait n), Some (AttributeError msg'))"
proof -
  have "idle n"
    using logger_run_inv [of wait c rates sha es] assms by (simp add: logger_inv_def alive_idle)
  from stop_idle [OF this] show ?thesis
    by (simp add: logger_step_def quiet_call_def)
qed

theorem stop_without_run_raises_witness:
  "\<exists>msg'. logger_step None (example_logger, None) (Stop None None 5 True ''done'')
     = (snd (destroy_node None example_logger), Some (AttributeError msg'))"
  using stop_without_run_raises [of None example_catalog "[(''thruster_cmd'', 5), (''pid_status'', 0)]" "''r''" "[]" example_logger]
  by (simp add: logger_run_def example_logger_def logger_init_def)

text \<open>An unknown task ends the logger.  A start request whose folder, log and configuration copies succeed
  but whose task is not in the catalogue raises after the log was opened; the log is then closed
  without a line.\<close>

theorem unknown_task_ends_logger:
  assumes "event_log_handle n = None" "\<not> rosbag_process n" "new_run_dir env = Inr d" "open_log env = None" "\<forall>p. copy_file env p = None"
    and "catalog_task (catalog_of n) (sr_task_name rq) = Inl e"
  shows "\<exists>n'. logger_step wait (n, None) (Start env rq) = (n', Some e) \<and> event_log_handle n' = None \<and> files n' = files n @ [(False, [])]"
proof -
  have copy: "\<exists>hs. copy_configs env h ps n1 = (Inr hs, n1)" for h ps n1
  proof (induction ps arbitrary: h)
    case (Cons p ps)
    then show ?case
      using assms(5) by (auto split: option.split)
  qed simp
  let ?n = "n\<lparr>run_dir := Some d, event_log_handle := Some \<lparr>log_lines = [], flushed = 0\<rparr>\<rparr>"
  obtain hs where "copy_configs env [] [thruster_config_path env, safety_config_path env] ?n = (Inr hs, ?n)"
    using copy by blast
  then have "snapshot_control_configs env (sr_task_name rq) ?n = (Inl e, ?n)"
    using assms(5,6) by (simp add: snapshot_control_configs_def seq_def)
  then have "on_start_run env rq n = (Inl e, ?n)"
    using assms by (simp add: on_start_run_def seq_def)
  then show ?thesis
    using assms(2) by (simp add: logger_step_def quiet_call_def seq_def destroy_node_def close_log_def)
qed

theorem unknown_task_ends_logger_witness:
  "\<exists>n'. logger_step None (example_logger, None) (Start example_env (example_request\<lparr>sr_task_name := ''surge''\<rparr>))
       = (n', Some (KeyError ''unknown managed tracking task: surge'')) \<and> event_log_handle n' = None \<and> files n' = [(False, [])]"
  using unknown_task_ends_logger [of example_logger example_env "''data/run_1_depth''" "example_request\<lparr>sr_task_name := ''surge''\<rparr>"
      "KeyError ''unknown managed tracking task: surge''" None]
  by (simp add: example_logger_def logger_init_def example_env_def example_request_def catalog_task_def example_catalog_def
      lower_or_digit_def Let_def)

end
