(* ===== verification/Analysis_Safety.thy ===== *)
theory Analysis_Safety
  imports Run_Analysis Logger_Safety
begin

text \<open>
  Properties of the run analysis: a log written by the run logger can be analysed, what a passing
  verdict guarantees, what the settling time means, and what a gap in the attitude does.
\<close>

section \<open>Total predicates\<close>

lemma efilter_total: "(\<And>x. x \<in> set xs \<Longrightarrow> p x = Inr (q x)) \<Longrightarrow> efilter p xs = Inr (filter q xs)"
  by (induction xs) auto

lemma emap_length: "emap f xs = Inr ys \<Longrightarrow> length ys = length xs"
  by (induction xs arbitrary: ys) (auto simp: ebind_Inr_conv)

lemma efilter_emap_count:
  "emap p xs = Inr bs \<Longrightarrow> efilter p xs = Inr ys \<Longrightarrow> length ys = length (filter id bs)"
  by (induction xs arbitrary: bs ys) (auto simp: ebind_Inr_conv split: if_splits)

section \<open>Logs of the run logger\<close>

lemma line_fields:
  "event_type_is typ (line_json l) = Inr (kind l = typ)"
  "event_time (line_json l) d = Inr (at_ns l)"
  "phase_is ph (line_json l) = Inr (map_of (payload l) ''phase'' = Some (JStr ph))"
  "event_get (line_json l) ''payload'' d0 = Inr (JObj (payload l))"
  by (auto simp: event_type_is_def event_time_def phase_is_def payload_get_def event_get_def line_json_def get_or_def
      split: option.split)

lemma efilter_lines:
  "(\<And>l. p (line_json l) = Inr (q l)) \<Longrightarrow> efilter p (map line_json ls) = Inr (map line_json (filter q ls))"
  by (induction ls) auto

lemma closed_window:
  assumes "closed_shape ls" "sorted (map at_ns ls)"
  shows "\<exists>a s rest meta. ls = a # s # rest \<and> phase_line ''start'' s \<and> phase_line ''end'' (last ls) \<and>
    select_experiment_window (map line_json ls) = Inr (map line_json (filter (\<lambda>l. at_ns s \<le> at_ns l) ls), meta) \<and>
    map_of meta ''completed_successfully''
      = Some (JBool (truthy (get_or (payload (last ls)) ''success'' JNull)))"
proof -
  obtain a s mid e where ls: "ls = a # s # mid @ [e]" "kind a = ''run_started''" "phase_line ''start'' s" "list_all ordinary mid"
      "phase_line ''end'' e"
    using assms(1) by (auto simp: closed_shape_def open_shape_def)
  let ?m = "filter (\<lambda>l. kind l = ''tracking_experiment'') ls"
  have m: "?m = [s, e]"
    using ls by (auto simp: phase_line_def ordinary_def list_all_iff filter_empty_conv)
  have t: "at_ns s \<le> at_ns e" "\<forall>l \<in> set ls. at_ns l \<le> at_ns e"
    using assms(2) ls(1) by (auto simp: sorted_append)
  define meta where "meta = dict_set ''completed_successfully'' (JBool (truthy (get_or (payload e) ''success'' JNull))) (payload s)"
  have f1: "efilter (event_type_is ''tracking_experiment'') (map line_json ls) = Inr [line_json s, line_json e]"
    by (subst efilter_lines [where q = "\<lambda>l. kind l = ''tracking_experiment''"]) (simp_all add: line_fields m)
  have f2: "efilter (phase_is ''start'') [line_json s, line_json e] = Inr [line_json s]"
    using ls(3,5) by (simp add: line_fields phase_line_def)
  have f3: "efilter (\<lambda>e. ebind (phase_is ''end'' e) (\<lambda>b. if b then ebind (event_time e 0) (\<lambda>t. Inr (t \<ge> at_ns s)) else Inr False))
      [line_json s, line_json e] = Inr [line_json e]"
    using ls(3,5) t by (simp add: line_fields phase_line_def)
  have f4: "efilter (\<lambda>x. ebind (event_time x 0) (\<lambda>t. Inr (at_ns s \<le> t \<and> t \<le> at_ns e))) (map line_json ls)
      = Inr (map line_json (filter (\<lambda>l. at_ns s \<le> at_ns l) ls))"
    by (subst efilter_lines [where q = "\<lambda>l. at_ns s \<le> at_ns l \<and> at_ns l \<le> at_ns e"])
      (use t in \<open>auto simp: line_fields intro!: arg_cong [where f = "map line_json"] filter_cong\<close>)
  have p: "payload_get (line_json e) ''success'' = Inr (get_or (payload e) ''success'' JNull)"
    by (simp add: payload_get_def line_json_def get_or_def event_get_def)
  have "select_experiment_window (map line_json ls) = Inr (map line_json (filter (\<lambda>l. at_ns s \<le> at_ns l) ls), meta)"
    unfolding select_experiment_window_def
    by (simp add: f1 f2 f3 line_fields p f4 meta_def del: map_map list.map efilter.simps)
  then show ?thesis
    using ls by (auto simp: meta_def map_of_dict_set)
qed

text \<open>C14: Every log that the run logger closed with a stop can be analysed: with non-decreasing times the
  experiment window is the log from its start line on, and its outcome is the success recorded in the last
  line.\<close>

theorem recorded_log_window:
  assumes "logger_run wait (logger_init c rates sha) es = (n, err)" "(True, ls) \<in> set (files n)" "sorted (map at_ns ls)"
  shows "\<exists>a s rest meta. ls = a # s # rest \<and> phase_line ''start'' s \<and> phase_line ''end'' (last ls) \<and>
    select_experiment_window (map line_json ls) = Inr (map line_json (filter (\<lambda>l. at_ns s \<le> at_ns l) ls), meta) \<and>
    map_of meta ''completed_successfully''
      = Some (JBool (truthy (get_or (payload (last ls)) ''success'' JNull)))"
proof (rule closed_window [OF _ assms(3)])
  have "files_ok n"
    using logger_run_inv [of wait c rates sha es] assms(1) by (cases err) (auto simp: logger_inv_def alive_def)
  then show "closed_shape ls"
    using assms(2) by (simp add: files_ok_def)
qed

definition recorded_log :: "log_line list" where
  "recorded_log = started_log @ [\<lparr>at_ns = 900, kind = ''tracking_experiment'', payload = end_payload True ''done''\<rparr>]"

theorem recorded_log_window_witness:
  "\<exists>meta. select_experiment_window (map line_json recorded_log) = Inr (map line_json recorded_log, meta) \<and>
    map_of meta ''completed_successfully'' = Some (JBool True)"
proof -
  obtain n where n: "logger_run None example_logger [Start example_env example_request, Stop None None 900 True ''done''] = (n, None)"
      "files n = [(True, recorded_log)]"
    by (simp add: logger_run_def example_start example_stop recorded_log_def)
  obtain s meta where w: "recorded_log ! 1 = s"
      "select_experiment_window (map line_json recorded_log) = Inr (map line_json (filter (\<lambda>l. at_ns s \<le> at_ns l) recorded_log), meta)"
      "map_of meta ''completed_successfully'' = Some (JBool (truthy (get_or (payload (last recorded_log)) ''success'' JNull)))"
    using recorded_log_window [OF n(1) [unfolded example_logger_def], of recorded_log] n(2) by (auto simp: recorded_log_def)
  have "filter (\<lambda>l. at_ns s \<le> at_ns l) recorded_log = recorded_log"
    using w(1) by (auto simp: recorded_log_def)
  then show ?thesis
    using w(2,3) by (auto simp: recorded_log_def end_payload_def get_or_def)
qed

section \<open>A passing verdict\<close>

lemma flt_mult_self_Fin: "flt_mult v v = Fin y \<Longrightarrow> \<exists>x. v = Fin x \<and> y = x\<^sup>2"
  by (cases v) (auto simp: power2_eq_square Let_def split: if_splits)

lemma flt_square_map: "map flt_square xs = map Fin ys \<Longrightarrow> \<exists>zs. xs = map Fin zs \<and> ys = map (\<lambda>x. x\<^sup>2) zs"
proof (induction xs arbitrary: ys)
  case (Cons x xs)
  obtain y ys' where ys: "ys = y # ys'" "flt_square x = Fin y" "map flt_square xs = map Fin ys'"
    using Cons.prems by (cases ys) auto
  obtain zs where "xs = map Fin zs" "ys' = map (\<lambda>x. x\<^sup>2) zs"
    using Cons.IH [OF ys(3)] by blast
  moreover obtain z where "x = Fin z" "y = z\<^sup>2"
    using flt_mult_self_Fin ys(2) by (metis flt_square_def)
  ultimately show ?case
    using ys(1) by (intro exI [of _ "z # zs"]) simp
qed simp

lemma rmse_bound:
  assumes "flt_le (root_mean_square xs) (Fin b)" "0 \<le> b"
  shows "\<exists>ys. ys \<noteq> [] \<and> xs = map Fin ys \<and> np_mean (map (\<lambda>x. x\<^sup>2) ys) \<le> b\<^sup>2"
proof -
  obtain r where r: "flt_sqrt (flt_mean (map flt_square xs)) = Fin r" "r \<le> b"
    using assms(1) unfolding root_mean_square_def
    by (cases "flt_mean (map flt_square xs)") (auto split: if_splits)
  obtain m where m: "flt_mean (map flt_square xs) = Fin m" "0 \<le> m" "r = sqrt m"
    using r(1) by (cases "flt_mean (map flt_square xs)") (auto split: if_splits)
  obtain qs where q: "qs \<noteq> []" "map flt_square xs = map Fin qs" "m = np_mean qs"
    using m(1) by (auto simp: flt_mean_Fin_iff)
  obtain ys where "xs = map Fin ys" "qs = map (\<lambda>x. x\<^sup>2) ys"
    using flt_square_map [OF q(2)] by blast
  moreover have "m \<le> b\<^sup>2"
    using r(2) m(2,3) by (simp add: sqrt_le_D)
  ultimately show ?thesis
    using q by auto
qed

lemma error_metrics_rmse: "err_rmse (error_metrics xs) = (if xs = [] then NaN else root_mean_square xs)"
  by (simp add: error_metrics_def Let_def)

lemma valid_errors_count:
  assumes "valid_errors parse key tracking = Inr errs" "emap valid_sample tracking = Inr valid"
  shows "length errs = length (filter id valid)"
proof -
  obtain items where i: "efilter valid_sample tracking = Inr items"
      "emap (\<lambda>e. ebind (item_get e key (JFloat NaN)) (json_float parse)) items = Inr errs"
    using assms(1) by (auto simp: valid_errors_def ebind_Inr_conv)
  then show ?thesis
    using efilter_emap_count [OF assms(2) i(1)] emap_length [OF i(2)] by simp
qed

text \<open>C27: A run that passes has tracking samples, at least 99 percent of them valid; the position error of
  every valid sample is a finite number and their root mean square is at most 0.15 m; no abort and no authority fault was logged in
  the window, and at least one enabled command was.\<close>

theorem passing_run_sound:
  assumes "analyze_run parse_float repr events = Inr m" "run_passes m"
  shows "\<exists>window meta tracking errors commands authority.
    select_experiment_window events = Inr (window, meta) \<and>
    efilter (event_type_is ''tracking_status'') window = Inr tracking \<and> tracking \<noteq> [] \<and>
    valid_errors parse_float ''position_error_m'' tracking = Inr (map Fin errors) \<and>
    np_mean (map (\<lambda>x. x\<^sup>2) errors) \<le> (15 / 100)\<^sup>2 \<and> 99 / 100 * real (length tracking) \<le> real (length errors) \<and>
    efilter abort_event window = Inr [] \<and>
    efilter (event_type_is ''control_authority_status'') window = Inr authority \<and> efilter authority_fault authority = Inr [] \<and>
    efilter enabled_command window = Inr commands \<and> commands \<noteq> []"
proof -
  obtain window meta tracking commands pids authority safety faults valid pe oe ve ae d st figures residuals where a:
      "select_experiment_window events = Inr (window, meta)"
      "efilter (event_type_is ''tracking_status'') window = Inr tracking"
      "efilter enabled_command window = Inr commands"
      "efilter (event_type_is ''control_authority_status'') window = Inr authority"
      "efilter abort_event window = Inr safety" "efilter authority_fault authority = Inr faults"
      "emap valid_sample tracking = Inr valid"
      "analyze_tracking parse_float repr tracking = Inr (pe, oe, ve, ae, d, st)"
      "analyze_commands parse_float commands authority = Inr figures"
      "tracking_samples m = length tracking" "valid_fraction m = (if valid = [] then 0 else bool_fraction valid)"
      "abort_count m = length safety" "authority_fault_samples m = length faults" "position_m m = error_metrics pe"
      "command_figures m = figures"
    using assms(1) unfolding analyze_run_def
    by (elim ebind_Inr_conv [THEN iffD1, elim_format] exE conjE) (auto simp: ebind_Inr_conv)
  have p: "tracking \<noteq> []" "99 / 100 \<le> bool_fraction valid" "valid \<noteq> []" "flt_le (err_rmse (error_metrics pe)) (Fin (15 / 100))"
    "flt_le (saturation_fraction figures) (Fin (5 / 100))" "safety = []" "faults = []"
    using assms(2) by (auto simp: run_passes_def a(10-15) split: if_splits)
  have "pe \<noteq> []"
    using p(4) by (auto simp: error_metrics_rmse)
  then obtain errs where e: "pe = map Fin errs" "np_mean (map (\<lambda>x. x\<^sup>2) errs) \<le> (15 / 100)\<^sup>2"
    using p(4) rmse_bound [of pe "15 / 100"] by (auto simp: error_metrics_rmse)
  have v: "valid_errors parse_float ''position_error_m'' tracking = Inr pe"
    using a(8) by (auto simp: analyze_tracking_def ebind_Inr_conv)
  then have "length pe = length (filter id valid)"
    using valid_errors_count a(7) by blast
  then have "99 / 100 * real (length tracking) \<le> real (length errs)"
    using p(1,2) emap_length [OF a(7)] e(1) by (simp add: bool_fraction_def pos_le_divide_eq mult.commute)
  moreover have "commands \<noteq> []"
  proof
    assume "commands = []"
    then have "saturation_fraction figures = NaN"
      using a(9) by (auto simp: analyze_commands_def np_table_def np_matrix_def command_metrics_def ebind_Inr_conv)
    then show False
      using p(5) by simp
  qed
  ultimately show ?thesis
    using a(1-6) p(1,6,7) v e by blast
qed

definition demo_start :: json_value where
  "demo_start = JObj [(''type'', JStr ''tracking_experiment''), (''time'', JInt 10), (''payload'', JObj [(''phase'', JStr ''start'')])]"

definition demo_sample :: json_value where
  "demo_sample = JObj [(''type'', JStr ''tracking_status''), (''time'', JInt 20),
     (''payload'', JObj [(''valid'', JBool True), (''position_error_m'', JFloat (Fin (1 / 10))), (''orientation_error_rad'', JFloat (Fin 0))])]"

definition demo_thrust :: json_value where
  "demo_thrust = JObj [(''type'', JStr ''thruster_cmd''), (''time'', JInt 30), (''payload'', JObj [(''enable'', JBool True)])]"

lemmas demo_events = demo_start_def demo_sample_def demo_thrust_def

lemmas reading_defs = event_type_is_def event_get_def payload_get_def item_get_def phase_is_def event_time_def get_or_def
  flag_of_def enabled_command_def abort_event_def authority_fault_def valid_sample_def item_float_def

lemma demo_window: "select_experiment_window [demo_start, demo_sample, demo_thrust]
   = Inr ([demo_start, demo_sample, demo_thrust], [(''phase'', JStr ''start'')])"
  by (simp add: select_experiment_window_def demo_events reading_defs)

lemma demo_errors:
  "valid_errors parse_float key [demo_sample] =
     ebind (json_float parse_float (if key = ''position_error_m'' then JFloat (Fin (1 / 10)) else if key = ''orientation_error_rad'' then JFloat (Fin 0)
        else if key = ''valid'' then JBool True else JFloat NaN)) (\<lambda>v. Inr [v])"
  by (simp add: valid_errors_def demo_events reading_defs)

lemma demo_poses: "\<exists>p. pose_array parse_float ''target_position'' ''target_orientation_wxyz'' [demo_sample] = Inr p"
    "\<exists>p. pose_array parse_float ''actual_position'' ''actual_orientation_wxyz'' [demo_sample] = Inr p"
  by (simp_all add: pose_array_def demo_events reading_defs nan_list_def finite_array_def np_table_def np_matrix_def np_float_def
      column_stack_def quaternion_wxyz_to_rpy_def Let_def eval_nat_numeral)

lemma demo_tracking: "\<exists>d st. analyze_tracking parse_float repr [demo_sample] = Inr ([Fin (1 / 10)], [Fin 0], [NaN], [NaN], d, st)"
proof -
  obtain p q where "tracking_pose_arrays parse_float [demo_sample] = Inr (p, q)"
    using demo_poses [of parse_float] by (auto simp: tracking_pose_arrays_def)
  moreover have "sample_times parse_float [demo_sample] = Inr [Fin 0]"
    by (simp add: sample_times_def demo_events reading_defs float_of_int_def enumerate_eq_zip)
  moreover have "item_get demo_sample ''trajectory_type'' (JStr '''') = Inr (JStr '''')"
    by (simp add: demo_events reading_defs)
  ultimately show ?thesis
    by (simp add: analyze_tracking_def demo_errors)
qed

lemma demo_commands: "\<exists>f. analyze_commands parse_float [demo_thrust] [] = Inr f \<and> saturation_fraction f = Fin 0"
  by (simp add: analyze_commands_def demo_events reading_defs np_table_def np_matrix_def np_float_def float_of_int_def command_metrics_def
      bool_fraction_def row_saturated_def flt_sub_def eval_nat_numeral)

lemma demo_run_passes: "\<exists>m. analyze_run parse_float repr [demo_start, demo_sample, demo_thrust] = Inr m \<and> run_passes m"
proof -
  obtain d st where t: "analyze_tracking parse_float repr [demo_sample] = Inr ([Fin (1 / 10)], [Fin 0], [NaN], [NaN], d, st)"
    using demo_tracking by blast
  obtain f where f: "analyze_commands parse_float [demo_thrust] [] = Inr f" "saturation_fraction f = Fin 0"
    using demo_commands by blast
  let ?es = "[demo_start, demo_sample, demo_thrust]"
  have s: "efilter (event_type_is ''tracking_status'') ?es = Inr [demo_sample]" "efilter enabled_command ?es = Inr [demo_thrust]"
      "efilter (event_type_is ''pid_status'') ?es = Inr []" "efilter (event_type_is ''control_authority_status'') ?es = Inr []"
      "efilter abort_event ?es = Inr []" "emap valid_sample [demo_sample] = Inr [True]"
    by (simp_all add: demo_events reading_defs)
  have r: "err_rmse (error_metrics [Fin a]) = Fin \<bar>a\<bar>" for a
    by (simp add: error_metrics_def root_mean_square_def flt_square_def flt_mean_def flt_sum_def Let_def)
  show ?thesis
    unfolding analyze_run_def demo_window
    by (simp add: s t f r run_passes_def bool_fraction_def del: efilter.simps emap.simps) (simp add: f r)
qed

theorem passing_run_sound_witness:
  "\<exists>window meta tracking. select_experiment_window [demo_start, demo_sample, demo_thrust] = Inr (window, meta) \<and>
     efilter (event_type_is ''tracking_status'') window = Inr tracking \<and> tracking \<noteq> []"
proof -
  obtain m where "analyze_run (\<lambda>_. None) (\<lambda>_. '''') [demo_start, demo_sample, demo_thrust] = Inr m" "run_passes m"
    using demo_run_passes by blast
  from passing_run_sound [OF this] show ?thesis
    by blast
qed

section \<open>Settling\<close>

lemma first_settled_Some:
  assumes "first_settled flags start = Some i"
  shows "start \<le> i" "i < length flags" "\<And>k. i \<le> k \<Longrightarrow> k < length flags \<Longrightarrow> flags ! k"
    "\<And>j. start \<le> j \<Longrightarrow> j < i \<Longrightarrow> \<exists>k. j \<le> k \<and> k < length flags \<and> \<not> flags ! k"
proof -
  obtain n where n: "n < length [start..<length flags]" "[start..<length flags] ! n = i" "list_all id (drop i flags)"
      "\<And>m. m < n \<Longrightarrow> \<not> list_all id (drop ([start..<length flags] ! m) flags)"
    using assms unfolding first_settled_def find_Some_iff by auto
  then have i: "i = start + n"
    by simp
  show "start \<le> i" "i < length flags"
    using n(1) i by auto
  show "flags ! k" if "i \<le> k" "k < length flags" for k
  proof -
    have "drop i flags ! (k - i) \<in> set (drop i flags)"
      using that by (intro nth_mem) simp
    then have "id (drop i flags ! (k - i))"
      using n(3) unfolding list_all_iff by blast
    then show ?thesis
      using that by simp
  qed
  show "\<exists>k. j \<le> k \<and> k < length flags \<and> \<not> flags ! k" if "start \<le> j" "j < i" for j
  proof -
    have "\<not> list_all id (drop j flags)"
      using n(4) [of "j - start"] that i n(1) by simp
    then obtain x where "x \<in> set (drop j flags)" "\<not> x"
      by (auto simp: list_all_iff)
    then obtain m where "m < length flags - j" "drop j flags ! m = False"
      by (metis in_set_conv_nth length_drop)
    then show ?thesis
      by (intro exI [of _ "j + m"]) simp
  qed
qed

lemma within_band_nth:
  "k < length (within_band tol target actual) \<Longrightarrow>
   within_band tol target actual ! k = flt_le (flt_abs (flt_sub (actual ! k) (target ! k))) tol"
  by (simp add: within_band_def)

text \<open>A reported settling time is the time from the step to the first sample from which on the measured
  axis stays, to the end of the recording, within the band around the target; the band is two percent
  of the step, but at least 0.02 m or 2 degrees.\<close>

theorem settling_time_correct:
  assumes "estimate_step_settling_time times_s target_pose actual_pose typ = Fin t" "length actual_pose = length target_pose"
  shows "\<exists>axis start i. axis < 6 \<and> typ = ''step_'' @ POSE_AXIS_NAMES ! axis \<and> start \<le> i \<and> i < length target_pose \<and>
    flt_sub (times_s ! i) (times_s ! start) = Fin t \<and>
    (let target = column axis target_pose; actual = column axis actual_pose;
         inside = (\<lambda>k. flt_le (flt_abs (flt_sub (actual ! k) (target ! k)))
           (band_tolerance axis (flt_abs (flt_sub (target ! start) (target ! 0)))))
     in (\<forall>k. i \<le> k \<and> k < length target_pose \<longrightarrow> inside k) \<and>
        (\<forall>j. start \<le> j \<and> j < i \<longrightarrow> (\<exists>k. j \<le> k \<and> k < length target_pose \<and> \<not> inside k)))"
proof -
  define axis where "axis = length (takeWhile (\<lambda>n. n \<noteq> drop 5 typ) POSE_AXIS_NAMES)"
  define target where "target = column axis target_pose"
  define actual where "actual = column axis actual_pose"
  define start where "start = nan_argmax (map flt_abs (flt_diff target)) + 1"
  define tol where "tol = band_tolerance axis (flt_abs (flt_sub (target ! start) (target ! 0)))"
  define flags where "flags = within_band tol target actual"
  have e: "take 5 typ = ''step_''" "drop 5 typ \<in> set POSE_AXIS_NAMES"
    "(case first_settled flags start of None \<Rightarrow> NaN | Some i \<Rightarrow> flt_sub (times_s ! i) (times_s ! start)) = Fin t"
    using assms(1) unfolding estimate_step_settling_time_def flags_def tol_def start_def actual_def target_def axis_def Let_def
    by (auto split: if_splits)
  have ax: "axis < 6" "POSE_AXIS_NAMES ! axis = drop 5 typ"
    using e(2) unfolding axis_def by (auto simp: POSE_AXIS_NAMES_def)
  obtain i where i: "first_settled flags start = Some i" "flt_sub (times_s ! i) (times_s ! start) = Fin t"
    using e(3) by (auto split: option.splits)
  have l: "length flags = length target_pose"
    using assms(2) by (simp add: flags_def within_band_def target_def actual_def column_def)
  have f: "flags ! k = flt_le (flt_abs (flt_sub (actual ! k) (target ! k))) tol" if "k < length target_pose" for k
    using within_band_nth that l by (metis flags_def)
  have n: "typ = ''step_'' @ POSE_AXIS_NAMES ! axis"
    using e(1) ax(2) append_take_drop_id [of 5 "typ"] by simp
  let ?inside = "\<lambda>k. flt_le (flt_abs (flt_sub (actual ! k) (target ! k))) tol"
  note s = first_settled_Some [OF i(1), unfolded l]
  have late: "\<forall>k. i \<le> k \<and> k < length target_pose \<longrightarrow> ?inside k"
    using s(3) f by blast
  have early: "\<forall>j. start \<le> j \<and> j < i \<longrightarrow> (\<exists>k. j \<le> k \<and> k < length target_pose \<and> \<not> ?inside k)"
    using s(4) f by blast
  show ?thesis
    using ax(1) n s(1,2) i(2) late early unfolding tol_def target_def actual_def Let_def by blast
qed

definition step_pose :: "real \<Rightarrow> pyfloat list" where
  "step_pose x = Fin x # replicate 5 (Fin 0)"

lemma step_settles:
  "estimate_step_settling_time [Fin 0, Fin 1, Fin 2, Fin 3, Fin 4] (map step_pose [0, 0, 1, 1, 1]) (map step_pose [0, 0, 1 / 2, 99 / 100, 1])
     ''step_x'' = Fin 1"
  by (simp add: estimate_step_settling_time_def POSE_AXIS_NAMES_def column_def step_pose_def flt_diff_def flt_sub_def Let_def
      nan_max_def flt_maximum_def nan_argmax_def within_band_def band_tolerance_def first_settled_def upt_rec)

theorem settling_time_correct_witness:
  "\<exists>axis start i. axis < 6 \<and> ''step_x'' = ''step_'' @ POSE_AXIS_NAMES ! axis \<and> start \<le> i \<and>
    flt_sub ([Fin 0, Fin 1, Fin 2, Fin 3, Fin 4] ! i) ([Fin 0, Fin 1, Fin 2, Fin 3, Fin 4] ! start) = Fin 1"
proof -
  have l: "length (map step_pose [0, 0, 1 / 2, 99 / 100, 1]) = length (map step_pose [0, 0, 1, 1, 1])"
    by simp
  show ?thesis
    using settling_time_correct [OF step_settles l] by blast
qed

section \<open>Gaps in the attitude\<close>

lemma rpy_row_gap: "\<not> list_all isfinite q \<Longrightarrow> rpy_row q = replicate 3 NaN"
  by (simp add: rpy_row_def)

text \<open>One sample whose logged attitude is not finite, or too short, makes roll, pitch and yaw of every later
  sample not a number.\<close>

theorem attitude_gap_hides_rest:
  assumes "i \<le> j" "j < length rows" "\<not> list_all isfinite (rows ! i) \<or> np_norm (map fval (rows ! i)) \<le> 1 / 10 ^ 12"
  shows "quaternion_wxyz_to_rpy rows ! j = [NaN, NaN, NaN]"
proof -
  have g: "rpy_row (rows ! i) = replicate 3 NaN"
    using assms(3) by (auto simp: rpy_row_def)
  have "np_unwrap (column k (map rpy_row rows)) ! j = NaN" if "k < 3" for k
  proof (rule np_unwrap_after_gap [of _ _ i])
    show "\<not> isfinite (column k (map rpy_row rows) ! i)"
      using assms(1,2) g that by (simp add: column_def)
  qed (use assms(1,2) in \<open>simp_all add: column_def\<close>)
  then show ?thesis
    using assms(2) by (simp add: quaternion_wxyz_to_rpy_def Let_def)
qed

theorem attitude_gap_hides_rest_witness:
  "quaternion_wxyz_to_rpy [replicate 4 NaN, [Fin 1, Fin 0, Fin 0, Fin 0]] ! 1 = [NaN, NaN, NaN]"
  using attitude_gap_hides_rest [of 0 1 "[replicate 4 NaN, [Fin 1, Fin 0, Fin 0, Fin 0]]"] by (simp add: eval_nat_numeral)

section \<open>The summary\<close>

fun json_finite :: "json_value \<Rightarrow> bool" where
  "json_finite (JFloat v) = isfinite v"
| "json_finite (JList vs) = list_all json_finite vs"
| "json_finite (JObj m) = list_all (\<lambda>(k, v). json_finite v) m"
| "json_finite v = True"

text \<open>What is written to \<^verbatim>\<open>summary.json\<close> holds no number that JSON cannot express, and a value without such
  numbers is written as it is.\<close>

theorem summary_is_strict_json: "json_finite (finite_json v) \<and> (json_finite v \<longrightarrow> finite_json v = v)"
proof (induction v rule: finite_json.induct)
  case (2 m)
  have a: "list_all (\<lambda>(k, v). json_finite v) (map (\<lambda>(k, v). (k, finite_json v)) m)"
    using 2 by (auto simp: list_all_iff)
  have b: "map (\<lambda>(k, v). (k, finite_json v)) m = m" if "list_all (\<lambda>(k, v). json_finite v) m"
    using 2 that by (intro map_idI) (auto simp: list_all_iff)
  show ?case
    using a b by simp
next
  case (3 vs)
  then show ?case
    by (auto simp: list_all_iff intro!: map_idI)
qed simp_all

theorem summary_is_strict_json_witness: "finite_json (JList [JFloat (Fin 1), JInt 2]) = JList [JFloat (Fin 1), JInt 2]"
  using summary_is_strict_json [of "JList [JFloat (Fin 1), JInt 2]"] by simp

end
