(* ===== verification/Board_Probe.thy ===== *)
theory Board_Probe
  imports Robot_Prelude "HOL-Library.Word"
begin

unbundle bit_operations_syntax

text \<open>
  The read-only probe of the board's serial protocol, \<^verbatim>\<open>scripts/robotcore_aboard_telemetry_probe.py\<close>:
  the checksum, the framing of a byte stream with its resynchronisation, the decoding of status and
  inertial frames, and the measuring loop.  Bytes and fields are machine words, signed fields are read
  with \<open>sint\<close>.  The loop takes the chunks that reading the port gives and a clock reading per frame.
\<close>

type_synonym byte = "8 word"

definition STATUS_HEADER :: "byte list" where "STATUS_HEADER = [0xFF, 0xFD]"
definition IMU_HEADER :: "byte list" where "IMU_HEADER = [0xFF, 0xF8, 0x04]"
definition STATUS_LEN :: nat where "STATUS_LEN = 48"

definition IMU_LENGTH_BY_VERSION :: "byte \<Rightarrow> nat option" where
  "IMU_LENGTH_BY_VERSION = [1 \<mapsto> 27, 2 \<mapsto> 33]"

definition PROTOCOL_V2 :: byte where "PROTOCOL_V2 = 2"
definition KNOWN_STATUS_FLAGS :: byte where "KNOWN_STATUS_FLAGS = 0x3F"

section \<open>Checksum\<close>

definition crc_bit :: "16 word \<Rightarrow> 16 word" where
  "crc_bit crc = (if crc AND 0x8000 \<noteq> 0 then push_bit 1 crc XOR 0x1021 else push_bit 1 crc)"

definition crc_byte :: "16 word \<Rightarrow> byte \<Rightarrow> 16 word" where
  "crc_byte crc v = (crc_bit ^^ 8) (crc XOR push_bit 8 (ucast v))"

definition crc16_ccitt :: "byte list \<Rightarrow> 16 word" where
  "crc16_ccitt bytes = foldl crc_byte 0xFFFF bytes"

section \<open>Framing\<close>

datatype frame_kind = StatusFrame | ImuFrame

text \<open>\<^verbatim>\<open>bytearray.find\<close>: the first position at which the header begins.\<close>

fun find_header :: "byte list \<Rightarrow> byte list \<Rightarrow> nat option" where
  "find_header h [] = (if h = [] then Some 0 else None)"
| "find_header h (b # bs) = (if take (length h) (b # bs) = h then Some 0 else map_option Suc (find_header h bs))"

text \<open>\<^verbatim>\<open>min(starts)\<close>: the smaller position; for equal positions \<^verbatim>\<open>"imu" < "status"\<close>.\<close>

definition first_start :: "byte list \<Rightarrow> (nat \<times> frame_kind) option" where
  "first_start buffer =
     (case (find_header STATUS_HEADER buffer, find_header IMU_HEADER buffer) of
        (None, None) \<Rightarrow> None
      | (Some i, None) \<Rightarrow> Some (i, StatusFrame)
      | (None, Some j) \<Rightarrow> Some (j, ImuFrame)
      | (Some i, Some j) \<Rightarrow> Some (if i < j then (i, StatusFrame) else (j, ImuFrame)))"

lemma find_header_bound: "find_header h bs = Some i \<Longrightarrow> h \<noteq> [] \<Longrightarrow> i < length bs"
  by (induction bs arbitrary: i) (auto split: if_split_asm)

lemma first_start_bound: "first_start bs = Some (i, k) \<Longrightarrow> i < length bs"
  by (auto simp: first_start_def STATUS_HEADER_def IMU_HEADER_def dest!: find_header_bound split: option.split_asm if_split_asm)

function next_frame :: "byte list \<Rightarrow> byte list \<times> (frame_kind \<times> byte list) option" where
  "next_frame buffer =
     (case first_start buffer of
        None \<Rightarrow> (if STATUS_LEN < length buffer then drop (length buffer - 2) buffer else buffer, None)
      | Some (start, kind) \<Rightarrow>
          let buf = drop start buffer in
          case kind of
            StatusFrame \<Rightarrow>
              if length buf < STATUS_LEN then (buf, None) else (buf, Some (kind, take STATUS_LEN buf))
          | ImuFrame \<Rightarrow>
              if length buf < 4 then (buf, None)
              else (case IMU_LENGTH_BY_VERSION (buf ! 3) of
                      None \<Rightarrow> next_frame (drop 1 buf)
                    | Some n \<Rightarrow> if length buf < n then (buf, None) else (buf, Some (kind, take n buf))))"
  by pat_completeness auto

termination next_frame
  by (relation "measure length") (auto dest: first_start_bound)

declare next_frame.simps [simp del]

section \<open>Fields\<close>

text \<open>\<^verbatim>\<open>struct.unpack_from\<close> with \<^verbatim>\<open>"<"\<close>, and \<^verbatim>\<open>int.from_bytes(..., "little")\<close>.\<close>

fun le_word :: "byte list \<Rightarrow> 'a :: len word" where
  "le_word [] = 0"
| "le_word (b # bs) = ucast b OR push_bit 8 (le_word bs)"

definition u16 :: "byte list \<Rightarrow> nat \<Rightarrow> 16 word" where
  "u16 frame i = le_word (take 2 (drop i frame))"

definition u32 :: "byte list \<Rightarrow> nat \<Rightarrow> 32 word" where
  "u32 frame i = le_word (take 4 (drop i frame))"

definition i16 :: "byte list \<Rightarrow> nat \<Rightarrow> int" where
  "i16 frame i = sint (u16 frame i)"

definition require_crc :: "byte list \<Rightarrow> exc + unit" where
  "require_crc frame =
     (if u16 frame (length frame - 2) \<noteq> crc16_ccitt (take (length frame - 2) frame)
      then Inl (ValueError ''CRC16 mismatch'') else Inr ())"

record status_frame =
  st_flags :: byte
  st_tick_ms :: "32 word"
  st_boot_id :: "32 word"
  st_session_id :: "32 word"
  st_received_sequence :: "32 word"
  st_applied_sequence :: "32 word"
  st_command_age_ms :: "16 word"
  st_safety_reason :: byte
  st_reset_cause :: byte
  st_rx_crc_errors :: "16 word"
  st_pwm_us :: "16 word list"

definition parse_status :: "byte list \<Rightarrow> exc + status_frame" where
  "parse_status frame =
     (if length frame \<noteq> STATUS_LEN \<or> take 2 frame \<noteq> STATUS_HEADER \<or> frame ! 2 \<noteq> PROTOCOL_V2
      then Inl (ValueError ''invalid status header/version'')
      else if frame ! 3 AND NOT KNOWN_STATUS_FLAGS \<noteq> 0 then Inl (ValueError ''invalid status flags'')
      else ebind (require_crc frame) (\<lambda>_.
        Inr \<lparr>st_flags = frame ! 3, st_tick_ms = u32 frame 4, st_boot_id = u32 frame 8, st_session_id = u32 frame 12,
             st_received_sequence = u32 frame 16, st_applied_sequence = u32 frame 20,
             st_command_age_ms = u16 frame 24, st_safety_reason = frame ! 26, st_reset_cause = frame ! 27,
             st_rx_crc_errors = u16 frame 28, st_pwm_us = map (\<lambda>k. u16 frame (30 + 2 * k)) [0..<8]\<rparr>))"

record imu_frame =
  im_version :: byte
  im_valid :: bool
  im_attitude_valid :: bool
  im_sample_id :: "32 word"
  im_tick_ms :: "32 word"
  im_gyro_cdeg_s :: "int list"
  im_accel_mg :: "int list"
  im_attitude_rpy_cdeg :: "int list option"

definition parse_imu :: "byte list \<Rightarrow> exc + imu_frame" where
  "parse_imu frame =
     (if length frame < 4 \<or> take 3 frame \<noteq> IMU_HEADER then Inl (ValueError ''invalid IMU header/version'')
      else
        let version = frame ! 3 in
        if IMU_LENGTH_BY_VERSION version \<noteq> Some (length frame) then Inl (ValueError ''invalid IMU length/version'')
        else if frame ! 4 AND NOT 0x03 \<noteq> 0 then Inl (ValueError ''invalid IMU flags'')
        else ebind (require_crc frame) (\<lambda>_.
          let values = map (\<lambda>k. i16 frame (13 + 2 * k)) [0..<6] in
          Inr \<lparr>im_version = version, im_valid = (frame ! 4 AND 0x01 \<noteq> 0),
               im_attitude_valid = (if 2 \<le> version then frame ! 4 AND 0x02 \<noteq> 0 else False),
               im_sample_id = u32 frame 5, im_tick_ms = u32 frame 9,
               im_gyro_cdeg_s = take 3 values, im_accel_mg = drop 3 values,
               im_attitude_rpy_cdeg = (if 2 \<le> version then Some (map (\<lambda>k. i16 frame (25 + 2 * k)) [0..<3]) else None)\<rparr>))"

section \<open>Measuring\<close>

datatype parsed = Status status_frame | Imu imu_frame

definition parse_frame :: "frame_kind \<Rightarrow> byte list \<Rightarrow> exc + parsed" where
  "parse_frame kind frame =
     (case kind of
        StatusFrame \<Rightarrow> ebind (parse_status frame) (\<lambda>s. Inr (Status s))
      | ImuFrame \<Rightarrow> ebind (parse_imu frame) (\<lambda>i. Inr (Imu i)))"

text \<open>The fields \<open>bytes_read\<close> to \<open>by_version\<close> are the keys of the counter.\<close>

record probe =
  buffer :: "byte list"
  bytes_read :: nat
  good :: "frame_kind \<Rightarrow> nat"
  bad :: "frame_kind \<Rightarrow> nat"
  imu_invalid :: nat
  imu_attitude_invalid :: nat
  by_version :: "byte \<Rightarrow> nat"
  arrivals :: "frame_kind \<Rightarrow> real list"
  first_seen :: "frame_kind \<Rightarrow> parsed option"
  last_seen :: "frame_kind \<Rightarrow> parsed option"

definition new_probe :: probe where
  "new_probe = \<lparr>buffer = [], bytes_read = 0, good = (\<lambda>_. 0), bad = (\<lambda>_. 0), imu_invalid = 0, imu_attitude_invalid = 0,
     by_version = (\<lambda>_. 0), arrivals = (\<lambda>_. []), first_seen = (\<lambda>_. None), last_seen = (\<lambda>_. None)\<rparr>"

definition bump :: "('k \<Rightarrow> nat) \<Rightarrow> 'k \<Rightarrow> 'k \<Rightarrow> nat" where
  "bump c k = c(k := c k + 1)"

definition count_imu :: "parsed \<Rightarrow> probe \<Rightarrow> probe" where
  "count_imu p s =
     (case p of
        Status _ \<Rightarrow> s
      | Imu i \<Rightarrow> s\<lparr>imu_invalid := imu_invalid s + (if im_valid i then 0 else 1),
                   imu_attitude_invalid := imu_attitude_invalid s + (if im_attitude_valid i then 0 else 1),
                   by_version := bump (by_version s) (im_version i)\<rparr>)"

text \<open>One candidate; the clock is read once per accepted frame, \<open>clock n\<close> being its reading for the
  frame after \<open>n\<close> others.\<close>

definition on_candidate :: "(nat \<Rightarrow> real) \<Rightarrow> frame_kind \<Rightarrow> byte list \<Rightarrow> probe \<Rightarrow> probe" where
  "on_candidate clock kind frame s =
     (case parse_frame kind frame of
        Inl _ \<Rightarrow> s\<lparr>bad := bump (bad s) kind, buffer := drop 1 (buffer s)\<rparr>
      | Inr p \<Rightarrow>
          count_imu p
            (s\<lparr>buffer := drop (length frame) (buffer s), good := bump (good s) kind,
               arrivals := (arrivals s)(kind := arrivals s kind @ [clock (good s StatusFrame + good s ImuFrame)]),
               first_seen := (case first_seen s kind of None \<Rightarrow> (first_seen s)(kind := Some p) | Some _ \<Rightarrow> first_seen s),
               last_seen := (last_seen s)(kind := Some p)\<rparr>))"

lemma next_frame_result: "next_frame bs = (b, Some (k, f)) \<Longrightarrow> f \<noteq> [] \<and> b \<noteq> [] \<and> length b \<le> length bs"
proof (induction bs rule: next_frame.induct)
  case (1 bs)
  show ?case
  proof (cases "first_start bs")
    case (Some q)
    then obtain i kd where q: "first_start bs = Some (i, kd)" "i < length bs"
      using first_start_bound by (cases q) auto
    have v: "IMU_LENGTH_BY_VERSION x = Some n \<Longrightarrow> 0 < n" for x n
      by (auto simp: IMU_LENGTH_BY_VERSION_def split: if_split_asm)
    show ?thesis
    proof (cases kd)
      case StatusFrame
      with q 1 show ?thesis
        by (auto simp: next_frame.simps [of bs] STATUS_LEN_def Let_def split: if_split_asm)
    next
      case ImuFrame
      with q 1 v show ?thesis
        by (fastforce simp: next_frame.simps [of bs] Let_def split: if_split_asm option.split_asm)
    qed
  qed (use 1 in \<open>simp add: next_frame.simps [of bs]\<close>)
qed

lemma on_candidate_buffer:
  "f \<noteq> [] \<Longrightarrow> buffer s \<noteq> [] \<Longrightarrow> length (buffer (on_candidate clock k f s)) < length (buffer s)"
  by (auto simp: on_candidate_def count_imu_def split: sum.split parsed.split)

lemma drain_shorter:
  assumes "next_frame (buffer s) = (b, Some (k, f))"
  shows "length (buffer (on_candidate clock k f (s\<lparr>buffer := b\<rparr>))) < length (buffer s)"
  using next_frame_result [OF assms] on_candidate_buffer [of f "s\<lparr>buffer := b\<rparr>" clock k] by simp

function drain :: "(nat \<Rightarrow> real) \<Rightarrow> probe \<Rightarrow> probe" where
  "drain clock s =
     (case next_frame (buffer s) of
        (b, None) \<Rightarrow> s\<lparr>buffer := b\<rparr>
      | (b, Some (kind, frame)) \<Rightarrow> drain clock (on_candidate clock kind frame (s\<lparr>buffer := b\<rparr>)))"
  by pat_completeness auto

termination drain
  by (relation "measure (\<lambda>(_, s). length (buffer s))") (auto dest: drain_shorter [OF sym])

declare drain.simps [simp del]

definition on_chunk :: "(nat \<Rightarrow> real) \<Rightarrow> probe \<Rightarrow> byte list \<Rightarrow> probe" where
  "on_chunk clock s chunk =
     (if chunk = [] then s
      else drain clock (s\<lparr>bytes_read := bytes_read s + length chunk, buffer := buffer s @ chunk\<rparr>))"

definition measure_run :: "(nat \<Rightarrow> real) \<Rightarrow> byte list list \<Rightarrow> probe" where
  "measure_run clock chunks = foldl (on_chunk clock) new_probe chunks"

text \<open>The exit code.\<close>

definition exit_code :: "probe \<Rightarrow> nat" where
  "exit_code s =
     (if arrivals s StatusFrame = [] then 4
      else if arrivals s ImuFrame = [] then 3
      else if imu_invalid s = good s ImuFrame then 2
      else if imu_attitude_invalid s = good s ImuFrame then 5
      else 0)"

text \<open>The nearest-rank percentile of the arrival intervals.\<close>

definition percentile :: "real list \<Rightarrow> real \<Rightarrow> pyfloat" where
  "percentile values fraction =
     (if values = [] then NaN
      else
        let ordered = sort values;
            index = max 0 (min (int (length ordered) - 1) (\<lceil>fraction * real (length ordered)\<rceil> - 1)) in
        Fin (ordered ! nat index))"

end
