(* ===== verification/Probe_Safety.thy ===== *)
theory Probe_Safety
  imports Board_Probe
begin

unbundle bit_operations_syntax

text \<open>
  Properties of the serial probe: what the checksum detects, that decoding loses nothing, that the
  result does not depend on how the stream is cut into chunks, and that framing recovers after noise.
\<close>

section \<open>The checksum\<close>

lemma crc_top: "crc AND 0x8000 \<noteq> 0 \<longleftrightarrow> bit (crc :: 16 word) 15"
proof -
  have "(0x8000 :: 16 word) = push_bit 15 1"
    by simp
  then show ?thesis
    by (simp add: bit_iff_and_push_bit_not_eq_0)
qed

lemma crc_bit_xor: "crc_bit (x XOR y) = crc_bit x XOR crc_bit y"
  by (auto simp: crc_bit_def crc_top bit_xor_iff push_bit_xor ac_simps simp flip: xor.assoc)

lemma crc_bit_zero: "crc_bit 0 = 0"
  by (simp add: crc_bit_def)

lemma shl_bit: "bit (push_bit n (x :: 16 word)) i \<longleftrightarrow> n \<le> i \<and> i < 16 \<and> bit x (i - n)"
  by (auto simp: bit_push_bit_iff)

lemma crc_bit_bits: "bit (crc_bit x) i \<longleftrightarrow> (1 \<le> i \<and> i < 16 \<and> bit x (i - 1)) \<noteq> (bit x 15 \<and> bit (0x1021 :: 16 word) i)"
  unfolding crc_bit_def crc_top by (simp only: if_distrib [of "\<lambda>w. bit w i"] bit_xor_iff shl_bit) simp

lemma crc_bit_eq_zero: "crc_bit x = 0 \<Longrightarrow> x = 0"
proof -
  assume "crc_bit x = 0"
  then have z: "(1 \<le> i \<and> i < 16 \<and> bit x (i - 1)) = (bit x 15 \<and> bit (0x1021 :: 16 word) i)" for i
    using crc_bit_bits [of x i] by auto
  then have top: "\<not> bit x 15"
    using z [of 0] by simp
  have "\<not> bit x n" for n
    using z [of "Suc n"] top bit_imp_le_length [of x n] by (cases "n = 15") auto
  then show "x = 0"
    by (simp add: bit_eq_iff)
qed

lemma crc_bits_xor: "(crc_bit ^^ n) (x XOR y) = (crc_bit ^^ n) x XOR (crc_bit ^^ n) y"
  by (induction n) (simp_all add: crc_bit_xor)

lemma crc_bits_eq_zero: "(crc_bit ^^ n) x = 0 \<Longrightarrow> x = 0"
  by (induction n) (auto dest: crc_bit_eq_zero)

lemma xor_eq_zero: "x XOR y = 0 \<longleftrightarrow> x = (y :: 'a :: len word)"
  by (metis xor.right_neutral xor_self_eq xor.left_commute)

lemma crc_bits_inj: "(crc_bit ^^ n) x = (crc_bit ^^ n) y \<longleftrightarrow> x = y"
  using crc_bits_eq_zero [of n "x XOR y"] by (auto simp: crc_bits_xor xor_eq_zero)

text \<open>Shifting a value that stays below the top bit is plain.\<close>

lemma crc_bits_small: "(\<And>i. 16 - n \<le> i \<Longrightarrow> \<not> bit x i) \<Longrightarrow> n \<le> 16 \<Longrightarrow> (crc_bit ^^ n) x = push_bit n x"
proof (induction n)
  case (Suc n)
  then have "(crc_bit ^^ n) x = push_bit n x"
    by simp
  moreover have "\<not> bit (push_bit n x) 15"
    using Suc.prems by (simp add: shl_bit)
  ultimately have "(crc_bit ^^ Suc n) x = push_bit 1 (push_bit n x)"
    by (simp only: funpow.simps comp_def crc_bit_def crc_top if_False)
  then show ?case
    by (simp only: push_bit_push_bit) simp
qed simp

lemma crc_bits_byte: "(crc_bit ^^ 8) (ucast (v :: byte)) = push_bit 8 (ucast v)"
  by (rule crc_bits_small) (auto simp: bit_ucast_iff dest: bit_imp_le_length)

lemma high_low_disjoint: "push_bit 8 (ucast (v :: byte)) = (ucast (w :: byte) :: 16 word) \<Longrightarrow> v = 0 \<and> w = 0"
proof -
  assume a: "push_bit 8 (ucast v) = (ucast w :: 16 word)"
  have b: "(8 \<le> n \<and> n < 16 \<and> bit v (n - 8)) = (n < 16 \<and> bit w n)" for n
    using arg_cong [OF a, of "\<lambda>x. bit x n"] by (auto simp: shl_bit bit_ucast_iff)
  have "\<not> bit w n" for n
  proof (cases "n < 8")
    case True
    then show ?thesis
      using b [of n] by simp
  next
    case False
    then show ?thesis
      using bit_imp_le_length [of w n] by auto
  qed
  moreover have "\<not> bit v n" for n
  proof (cases "n < 8")
    case True
    then show ?thesis
      using b [of "n + 8"] bit_imp_le_length [of w "n + 8"] by auto
  next
    case False
    then show ?thesis
      using bit_imp_le_length [of v n] by auto
  qed
  ultimately show ?thesis
    by (simp add: bit_eq_iff)
qed

lemma xor_cancel: "x XOR p = y XOR p \<longleftrightarrow> x = (y :: 'a :: len word)"
  by (metis xor.assoc xor_self_eq xor.right_neutral)

lemma xor_swap: "a XOR p = b XOR q \<Longrightarrow> a XOR b = p XOR (q :: 'a :: len word)"
proof -
  assume "a XOR p = b XOR q"
  then have "(a XOR p) XOR (p XOR b) = (b XOR q) XOR (p XOR b)"
    by simp
  then show ?thesis
    by (simp add: ac_simps xor.left_commute)
qed

lemma xor_swap_shared: "(c XOR a) XOR p = (c XOR b) XOR q \<Longrightarrow> a XOR b = p XOR (q :: 'a :: len word)"
  by (rule xor_swap) (metis xor.assoc xor.commute xor_cancel)

lemma crc_byte_inj: "crc_byte c v = crc_byte d v \<longleftrightarrow> c = d"
  by (simp add: crc_byte_def crc_bits_inj xor_cancel)

lemma ucast_xor: "ucast (v XOR w) = (ucast (v :: byte) XOR ucast w :: 16 word)"
  by (auto simp: bit_eq_iff bit_ucast_iff bit_xor_iff)

lemma crc_two_bytes_inj:
  assumes "crc_byte (crc_byte c v) w = crc_byte (crc_byte c v') w'"
  shows "v = v' \<and> w = w'"
proof -
  have "(crc_bit ^^ 8) (c XOR push_bit 8 (ucast v)) XOR push_bit 8 (ucast w)
      = (crc_bit ^^ 8) (c XOR push_bit 8 (ucast v')) XOR push_bit 8 (ucast w')"
    using assms by (simp add: crc_byte_def crc_bits_inj)
  then have "(crc_bit ^^ 8) (push_bit 8 (ucast v) XOR push_bit 8 (ucast v')) = push_bit 8 (ucast w XOR ucast w')"
    unfolding crc_bits_xor push_bit_xor by (rule xor_swap_shared)
  also have "\<dots> = (crc_bit ^^ 8) (ucast (w XOR w'))"
    by (simp only: crc_bits_byte) (simp only: ucast_xor)
  finally have "push_bit 8 (ucast (v XOR v')) = (ucast (w XOR w') :: 16 word)"
    by (simp only: crc_bits_inj push_bit_xor ucast_xor)
  from high_low_disjoint [OF this] show ?thesis
    by (simp add: xor_eq_zero)
qed

lemma foldl_crc_inj: "foldl crc_byte c xs = foldl crc_byte d xs \<longleftrightarrow> c = d"
  by (induction xs arbitrary: c d) (simp_all add: crc_byte_inj)

text \<open>Two byte lists that differ within two neighbouring bytes have different checksums.\<close>

lemma crc_detects:
  assumes "crc16_ccitt (xs @ [v, w] @ ys) = crc16_ccitt (xs @ [v', w'] @ ys)"
  shows "v = v' \<and> w = w'"
  using assms by (simp add: crc16_ccitt_def foldl_crc_inj) (rule crc_two_bytes_inj)

section \<open>Little-endian fields\<close>

definition le_bytes :: "nat \<Rightarrow> 'a :: len word \<Rightarrow> byte list" where
  "le_bytes n w = map (\<lambda>i. ucast (drop_bit (8 * i) w)) [0..<n]"

lemma le_word_bit: "bit (le_word bs :: 'a :: len word) i \<longleftrightarrow> i < LENGTH('a) \<and> i div 8 < length bs \<and> bit (bs ! (i div 8)) (i mod 8)"
proof (induction bs arbitrary: i)
  case (Cons b bs)
  have low: "bit b i = (i < 8 \<and> bit b (i mod 8))" if "i < 8"
    using that by simp
  show ?case
  proof (cases "i < 8")
    case True
    then show ?thesis
      by (auto simp: bit_or_iff bit_push_bit_iff bit_ucast_iff)
  next
    case False
    then have "i div 8 = Suc ((i - 8) div 8)" "i mod 8 = (i - 8) mod 8"
      by (simp_all add: le_div_geq le_mod_geq)
    with False Cons [of "i - 8"] show ?thesis
      by (auto simp: bit_or_iff bit_push_bit_iff bit_ucast_iff dest: bit_imp_le_length)
  qed
qed simp

lemma le_word_bytes:
  assumes "8 * n = LENGTH('a)"
  shows "le_word (le_bytes n w) = (w :: 'a :: len word)"
proof (rule bit_word_eqI)
  fix i
  assume i: "i < LENGTH('a)"
  moreover from this assms have "i div 8 < n" "i mod 8 < 8" "8 * (i div 8) + i mod 8 = i"
    by auto
  ultimately show "bit (le_word (le_bytes n w) :: 'a word) i = bit w i"
    using assms i by (auto simp: le_word_bit le_bytes_def bit_ucast_iff bit_drop_bit_eq)
qed

lemma le_bytes_word:
  assumes "length bs = n" "8 * n = LENGTH('a)"
  shows "le_bytes n (le_word bs :: 'a :: len word) = bs"
proof (rule nth_equalityI)
  show "length (le_bytes n (le_word bs :: 'a word)) = length bs"
    by (simp add: le_bytes_def assms)
  fix k
  assume k: "k < length (le_bytes n (le_word bs :: 'a word))"
  show "le_bytes n (le_word bs :: 'a word) ! k = bs ! k"
  proof (rule bit_word_eqI)
    fix i :: nat
    assume "i < LENGTH(8)"
    then have "i < 8" "(8 * k + i) div 8 = k" "(8 * k + i) mod 8 = i"
      by auto
    with k assms show "bit (le_bytes n (le_word bs :: 'a word) ! k) i = bit (bs ! k) i"
      by (auto simp: le_bytes_def bit_ucast_iff bit_drop_bit_eq le_word_bit)
  qed
qed

lemma le_word_inj:
  "length bs = n \<Longrightarrow> length cs = n \<Longrightarrow> 8 * n = LENGTH('a) \<Longrightarrow> (le_word bs :: 'a :: len word) = le_word cs \<Longrightarrow> bs = cs"
  by (metis le_bytes_word)

section \<open>Decoding\<close>

lemma parse_frame_Inr:
  "parse_frame k f = Inr p \<Longrightarrow> 27 \<le> length f \<and> u16 f (length f - 2) = crc16_ccitt (take (length f - 2) f)"
  by (cases k)
    (auto simp: parse_frame_def parse_status_def parse_imu_def require_crc_def STATUS_LEN_def IMU_LENGTH_BY_VERSION_def Let_def err_simps
      split: if_split_asm)

lemma parse_frame_Inl: "parse_frame k f = Inl e \<Longrightarrow> \<exists>msg. e = ValueError msg"
  by (cases k)
    (auto simp: parse_frame_def parse_status_def parse_imu_def require_crc_def Let_def ebind_Inl_conv split: if_split_asm)

lemma split_pair: "Suc i < length l \<Longrightarrow> l = take i l @ [l ! i, l ! Suc i] @ drop (i + 2) l"
  by (simp add: Cons_nth_drop_Suc)

lemma u16_at_end: "length f = Suc (Suc n) \<Longrightarrow> u16 f n = le_word (drop n f)"
  by (simp add: u16_def)

section \<open>Encoding\<close>

text \<open>The layout of a status frame, as the board sends it.\<close>

definition status_body :: "status_frame \<Rightarrow> byte list" where
  "status_body s =
     [0xFF, 0xFD, 2, st_flags s] @ le_bytes 4 (st_tick_ms s) @ le_bytes 4 (st_boot_id s) @ le_bytes 4 (st_session_id s)
     @ le_bytes 4 (st_received_sequence s) @ le_bytes 4 (st_applied_sequence s) @ le_bytes 2 (st_command_age_ms s)
     @ [st_safety_reason s, st_reset_cause s] @ le_bytes 2 (st_rx_crc_errors s) @ concat (map (le_bytes 2) (st_pwm_us s))"

definition status_bytes :: "status_frame \<Rightarrow> byte list" where
  "status_bytes s = status_body s @ le_bytes 2 (crc16_ccitt (status_body s))"

lemma le2: "le_bytes 2 (w :: 16 word) = [ucast w, ucast (drop_bit 8 w)]"
  by (simp add: le_bytes_def upt_rec)

lemma le4: "le_bytes 4 (w :: 32 word) = [ucast w, ucast (drop_bit 8 w), ucast (drop_bit 16 w), ucast (drop_bit 24 w)]"
  by (simp add: le_bytes_def upt_rec)

lemma le2_word: "le_word [ucast w, ucast (drop_bit 8 w)] = (w :: 16 word)"
  using le_word_bytes [of 2 w] by (simp add: le2)

lemma le4_word: "le_word [ucast w, ucast (drop_bit 8 w), ucast (drop_bit 16 w), ucast (drop_bit 24 w)] = (w :: 32 word)"
  using le_word_bytes [of 4 w] by (simp add: le4)

lemma length_le_bytes [simp]: "length (le_bytes n w) = n"
  by (simp add: le_bytes_def)

lemma length_eight: "length xs = 8 \<longleftrightarrow> (\<exists>a b c d e f g h. xs = [a, b, c, d, e, f, g, h])"
  by (auto simp: numeral_eq_Suc length_Suc_conv)

lemma status_body_length: "length (st_pwm_us s) = 8 \<Longrightarrow> length (status_body s) = 46"
  by (auto simp: length_eight status_body_def le2 le4)

lemma status_fields:
  assumes "length (st_pwm_us s) = 8" and f: "f = status_body s @ tail"
  shows "take 2 f = [0xFF, 0xFD]" "f ! 2 = 2" "f ! 3 = st_flags s" "u32 f 4 = st_tick_ms s" "u32 f 8 = st_boot_id s" "u32 f 12 = st_session_id s"
    "u32 f 16 = st_received_sequence s" "u32 f 20 = st_applied_sequence s" "u16 f 24 = st_command_age_ms s" "f ! 26 = st_safety_reason s"
    "f ! 27 = st_reset_cause s" "u16 f 28 = st_rx_crc_errors s" "map (\<lambda>k. u16 f (30 + 2 * k)) [0..<8] = st_pwm_us s"
proof -
  obtain p0 p1 p2 p3 p4 p5 p6 p7 where "st_pwm_us s = [p0, p1, p2, p3, p4, p5, p6, p7]"
    using assms(1) length_eight by metis
  then show "take 2 f = [0xFF, 0xFD]" "f ! 2 = 2" "f ! 3 = st_flags s" "u32 f 4 = st_tick_ms s" "u32 f 8 = st_boot_id s" "u32 f 12 = st_session_id s"
    "u32 f 16 = st_received_sequence s" "u32 f 20 = st_applied_sequence s" "u16 f 24 = st_command_age_ms s" "f ! 26 = st_safety_reason s"
    "f ! 27 = st_reset_cause s" "u16 f 28 = st_rx_crc_errors s" "map (\<lambda>k. u16 f (30 + 2 * k)) [0..<8] = st_pwm_us s"
    by (simp_all add: f status_body_def u16_def u32_def nth_append le_word_bytes upt_rec)
qed

lemma status_encodes:
  assumes "length (st_pwm_us s) = 8" "st_flags s AND NOT 0x3F = 0"
  shows "parse_status (status_bytes s) = Inr s"
proof -
  let ?f = "status_bytes s"
  have len: "length ?f = 48"
    using assms by (simp add: status_bytes_def status_body_length)
  have "u16 ?f 46 = crc16_ccitt (status_body s)" "take 46 ?f = status_body s"
    using assms by (simp_all add: u16_def status_bytes_def status_body_length le_word_bytes)
  then have crc: "require_crc ?f = Inr ()"
    by (simp add: require_crc_def len)
  show ?thesis
    using assms(2) by (simp add: parse_status_def STATUS_LEN_def STATUS_HEADER_def PROTOCOL_V2_def KNOWN_STATUS_FLAGS_def crc len
      status_fields [OF assms(1) status_bytes_def])
qed

lemma pair_slice: "Suc i < length f \<Longrightarrow> [f ! i, f ! Suc i] = take 2 (drop i f)"
  by (metis Cons_nth_drop_Suc Suc_lessD numeral_2_eq_2 take_0 take_Suc_Cons)

lemma slice_join: "take i f @ take n (drop i f) @ rest = take (i + n) f @ rest"
  by (simp add: take_add)

lemma le_bytes_u16: "i + 2 \<le> length f \<Longrightarrow> le_bytes 2 (u16 f i) = take 2 (drop i f)"
  unfolding u16_def by (rule le_bytes_word) simp_all

lemma le_bytes_u32: "i + 4 \<le> length f \<Longrightarrow> le_bytes 4 (u32 f i) = take 4 (drop i f)"
  unfolding u32_def by (rule le_bytes_word) simp_all

lemma status_decodes:
  assumes "parse_status f = Inr s"
  shows "f = status_bytes s \<and> length (st_pwm_us s) = 8 \<and> st_flags s AND NOT 0x3F = 0"
proof -
  have head: "length f = 48" "take 2 f = [0xFF, 0xFD]" "f ! 2 = 2" "f ! 3 AND NOT 0x3F = 0" "require_crc f = Inr ()"
    and s: "s = \<lparr>st_flags = f ! 3, st_tick_ms = u32 f 4, st_boot_id = u32 f 8, st_session_id = u32 f 12,
             st_received_sequence = u32 f 16, st_applied_sequence = u32 f 20,
             st_command_age_ms = u16 f 24, st_safety_reason = f ! 26, st_reset_cause = f ! 27,
             st_rx_crc_errors = u16 f 28, st_pwm_us = map (\<lambda>k. u16 f (30 + 2 * k)) [0..<8]\<rparr>"
    using assms
    by (auto simp: parse_status_def STATUS_LEN_def STATUS_HEADER_def PROTOCOL_V2_def KNOWN_STATUS_FLAGS_def err_simps split: if_split_asm)
  have first: "[0xFF, 0xFD, 2, f ! 3] = take 4 f"
    using head(1-3) pair_slice [of 2 f] take_add [of 2 2 f] by simp
  have "status_body s = take 4 f @ take 4 (drop 4 f) @ take 4 (drop 8 f) @ take 4 (drop 12 f) @ take 4 (drop 16 f) @ take 4 (drop 20 f)
    @ take 2 (drop 24 f) @ take 2 (drop 26 f) @ take 2 (drop 28 f) @ take 2 (drop 30 f) @ take 2 (drop 32 f) @ take 2 (drop 34 f) @ take 2 (drop 36 f)
    @ take 2 (drop 38 f) @ take 2 (drop 40 f) @ take 2 (drop 42 f) @ take 2 (drop 44 f) @ []"
    unfolding s status_body_def using head(1) pair_slice [of 26 f]
    by (simp add: first [symmetric] le_bytes_u16 le_bytes_u32 upt_rec del: take_drop)
  also have "\<dots> = take 46 f"
    by (simp only: slice_join arith_simps) simp
  finally have body: "status_body s = take 46 f" .
  have "u16 f 46 = crc16_ccitt (take 46 f)"
    using head by (simp add: require_crc_def split: if_split_asm)
  moreover have "le_bytes 2 (u16 f 46) = drop 46 f"
    using head(1) by (simp add: le_bytes_u16)
  ultimately have "f = status_bytes s"
    by (simp add: status_bytes_def body)
  moreover have "length (st_pwm_us s) = 8" "st_flags s AND NOT 0x3F = 0"
    using head(4) by (simp_all add: s)
  ultimately show ?thesis
    by blast
qed

section \<open>Framing\<close>

text \<open>The kind and length of the frame that begins here, if its header is complete.\<close>

definition head_len :: "byte list \<Rightarrow> (frame_kind \<times> nat) option" where
  "head_len s =
     (if take 2 s = STATUS_HEADER then Some (StatusFrame, STATUS_LEN)
      else if take 3 s = IMU_HEADER \<and> 4 \<le> length s then map_option (Pair ImuFrame) (IMU_LENGTH_BY_VERSION (s ! 3))
      else None)"

text \<open>Too short to tell whether a frame begins.\<close>

definition undecided :: "byte list \<Rightarrow> bool" where
  "undecided s \<longleftrightarrow> s \<in> {[], [0xFF], [0xFF, 0xF8], [0xFF, 0xF8, 0x04]}"

definition junk :: "byte list \<Rightarrow> bool" where
  "junk s \<longleftrightarrow> head_len s = None \<and> \<not> undecided s"

fun skim :: "byte list \<Rightarrow> byte list" where
  "skim [] = []"
| "skim (b # bs) = (if junk (b # bs) then skim bs else b # bs)"

lemma not_junk_nil [simp]: "\<not> junk []"
  by (simp add: junk_def undecided_def)

lemma skim_junk: "junk s \<Longrightarrow> skim s = skim (tl s)"
  by (cases s) auto

lemma skim_keep: "\<not> junk s \<Longrightarrow> skim s = s"
  by (cases s) auto

lemma skim_not_junk: "\<not> junk (skim s)"
  by (induction s) auto

lemma skim_idem [simp]: "skim (skim s) = skim s"
  by (rule skim_keep [OF skim_not_junk])

lemma skim_drop: "\<forall>j < i. junk (drop j s) \<Longrightarrow> skim s = skim (drop i s)"
proof (induction i)
  case (Suc i)
  then have "skim s = skim (drop i s)" "junk (drop i s)"
    by simp_all
  then show ?case
    by (simp add: skim_junk drop_Suc tl_drop)
qed simp

lemma header_length: "take 2 s = STATUS_HEADER \<Longrightarrow> 2 \<le> length s" "take 3 s = IMU_HEADER \<Longrightarrow> 3 \<le> length s"
  by (auto simp: STATUS_HEADER_def IMU_HEADER_def min_def split: if_split_asm dest!: arg_cong [where f = length])

lemma undecided_length: "undecided s \<Longrightarrow> length s \<le> 3"
  by (auto simp: undecided_def)

lemma head_len_append: "head_len s = Some q \<Longrightarrow> head_len (s @ t) = Some q"
proof -
  assume "head_len s = Some q"
  moreover from this have "2 \<le> length s"
    using header_length by (force simp: head_len_def split: if_split_asm)
  moreover have "take 2 s \<noteq> STATUS_HEADER \<Longrightarrow> 4 \<le> length s"
    using \<open>head_len s = Some q\<close> by (simp add: head_len_def split: if_split_asm)
  ultimately show ?thesis
    by (auto simp: head_len_def nth_append split: if_split_asm)
qed

lemma junk_append: "junk s \<Longrightarrow> junk (s @ t)"
proof (cases "4 \<le> length s")
  case True
  assume "junk s"
  then have "head_len (s @ t) = None"
    using True by (auto simp: junk_def head_len_def nth_append split: if_split_asm)
  moreover have "\<not> undecided (s @ t)"
    using True undecided_length [of "s @ t"] by auto
  ultimately show ?thesis
    by (simp add: junk_def)
next
  case False
  assume j: "junk s"
  then consider a where "s = [a]" | a b where "s = [a, b]" | a b c where "s = [a, b, c]"
  proof -
    have "length s = 1 \<or> length s = 2 \<or> length s = 3"
      using False j by (cases "s = []") (auto simp: not_le length_greater_0_conv [symmetric] simp del: length_greater_0_conv)
    then show ?thesis
      using that by (auto simp: numeral_eq_Suc length_Suc_conv)
  qed
  then show ?thesis
    using j by cases (auto simp: junk_def head_len_def undecided_def STATUS_HEADER_def IMU_HEADER_def)
qed

lemma skim_is_drop: "\<exists>i. skim s = drop i s"
proof (induction s)
  case (Cons b s)
  then obtain i where "skim s = drop i s" by blast
  then have "skim (b # s) = drop (if junk (b # s) then Suc i else 0) (b # s)"
    by simp
  then show ?case by blast
qed simp

lemma skim_append: "skim (skim s @ t) = skim (s @ t)"
proof (induction s)
  case (Cons b s)
  then show ?case
    using junk_append [of "b # s" t] by simp
qed simp

text \<open>The search for a header.\<close>

lemma find_header_None: "find_header h bs = None \<Longrightarrow> h \<noteq> [] \<Longrightarrow> take (length h) (drop i bs) \<noteq> h"
proof (induction bs arbitrary: i)
  case (Cons b bs)
  then show ?case
    by (cases i) (auto split: if_split_asm)
qed simp

lemma find_header_Some:
  "find_header h bs = Some i \<Longrightarrow> h \<noteq> [] \<Longrightarrow> take (length h) (drop i bs) = h \<and> (\<forall>j < i. take (length h) (drop j bs) \<noteq> h)"
proof (induction bs arbitrary: i)
  case (Cons b bs)
  show ?case
  proof (cases "take (length h) (b # bs) = h")
    case True
    with Cons.prems show ?thesis by simp
  next
    case False
    with Cons.prems obtain k where k: "i = Suc k" "find_header h bs = Some k"
      by auto
    from Cons.IH [OF k(2) Cons.prems(2)] False show ?thesis
      unfolding k(1) by (auto simp: less_Suc_eq_0_disj)
  qed
qed simp

lemma first_start_None:
  assumes "first_start bs = None"
  shows "take 2 (drop i bs) \<noteq> STATUS_HEADER \<and> take 3 (drop i bs) \<noteq> IMU_HEADER"
proof -
  have "find_header STATUS_HEADER bs = None" "find_header IMU_HEADER bs = None"
    using assms by (auto simp: first_start_def split: option.split_asm)
  then show ?thesis
    using find_header_None [of STATUS_HEADER bs i] find_header_None [of IMU_HEADER bs i]
    by (simp add: STATUS_HEADER_def IMU_HEADER_def numeral_eq_Suc)
qed

lemma first_start_Some:
  assumes "first_start bs = Some (i, k)"
  shows "(case k of StatusFrame \<Rightarrow> take 2 (drop i bs) = STATUS_HEADER | ImuFrame \<Rightarrow> take 3 (drop i bs) = IMU_HEADER)
    \<and> (\<forall>j < i. take 2 (drop j bs) \<noteq> STATUS_HEADER \<and> take 3 (drop j bs) \<noteq> IMU_HEADER)"
proof -
  have len: "length STATUS_HEADER = 2" "length IMU_HEADER = 3" "STATUS_HEADER \<noteq> []" "IMU_HEADER \<noteq> []"
    by (simp_all add: STATUS_HEADER_def IMU_HEADER_def)
  show ?thesis
    using assms find_header_None [of STATUS_HEADER bs] find_header_None [of IMU_HEADER bs]
      find_header_Some [of STATUS_HEADER bs] find_header_Some [of IMU_HEADER bs]
    by (auto simp: first_start_def len split: option.split_asm if_split_asm)
qed

lemma junk_no_header:
  "take 2 s \<noteq> STATUS_HEADER \<Longrightarrow> take 3 s \<noteq> IMU_HEADER \<Longrightarrow> 3 \<le> length s \<Longrightarrow> junk s"
  by (auto simp: junk_def head_len_def undecided_def IMU_HEADER_def)

text \<open>What the search returns, as a function of the buffer without its leading junk.\<close>

definition candidate :: "byte list \<Rightarrow> (frame_kind \<times> byte list) option" where
  "candidate s =
     (case head_len s of
        None \<Rightarrow> None
      | Some (k, n) \<Rightarrow> if length s < n then None else Some (k, take n s))"

lemma next_frame_skim:
  "next_frame bs = (b, r) \<Longrightarrow> skim b = skim bs \<and> r = candidate (skim bs) \<and> (r \<noteq> None \<longrightarrow> b = skim bs)"
proof (induction bs arbitrary: b r rule: next_frame.induct)
  case (1 bs)
  show ?case
  proof (cases "first_start bs")
    case None
    have nh: "head_len (drop i bs) = None" for i
      using first_start_None [OF None, of i] by (simp add: head_len_def)
    have "skim bs = skim (drop (length bs - 2) bs)"
      using first_start_None [OF None] by (intro skim_drop) (auto intro!: junk_no_header)
    moreover obtain i where "skim bs = drop i bs"
      using skim_is_drop by blast
    then have "candidate (skim bs) = None"
      using nh [of i] by (simp add: candidate_def)
    ultimately show ?thesis
      using 1(2) None by (auto simp: next_frame.simps [of bs] split: if_split_asm)
  next
    case (Some q)
    then obtain i k where q: "first_start bs = Some (i, k)"
      by (cases q) auto
    have i: "i < length bs"
      by (rule first_start_bound [OF q])
    note s = first_start_Some [OF q]
    have "junk (drop j bs)" if "j < i" for j
    proof (rule junk_no_header)
      show "3 \<le> length (drop j bs)"
        using s that i by (cases k) (auto simp: STATUS_HEADER_def IMU_HEADER_def dest!: arg_cong [where f = length])
    qed (use s that in simp_all)
    then have sk: "skim bs = skim (drop i bs)"
      by (intro skim_drop) simp
    show ?thesis
    proof (cases k)
      case StatusFrame
      with s have h: "head_len (drop i bs) = Some (StatusFrame, STATUS_LEN)"
        by (simp add: head_len_def)
      then have "skim (drop i bs) = drop i bs"
        by (intro skim_keep) (simp add: junk_def)
      with h 1(2) q StatusFrame sk show ?thesis
        by (auto simp: next_frame.simps [of bs] candidate_def Let_def split: if_split_asm)
    next
      case ImuFrame
      show ?thesis
      proof (cases "length (drop i bs) < 4")
        case True
        with s ImuFrame have "drop i bs = [0xFF, 0xF8, 0x04]"
          by (auto simp: IMU_HEADER_def take_all_iff)
        then have "skim (drop i bs) = drop i bs" "candidate (drop i bs) = None"
          by (simp_all add: skim_keep junk_def undecided_def candidate_def head_len_def STATUS_HEADER_def)
        with True 1(2) q ImuFrame sk show ?thesis
          by (auto simp: next_frame.simps [of bs] Let_def)
      next
        case False
        have ns: "take 2 (drop i bs) \<noteq> STATUS_HEADER"
        proof
          assume "take 2 (drop i bs) = STATUS_HEADER"
          moreover have "take 2 (take 3 (drop i bs)) = take 2 IMU_HEADER"
            using s ImuFrame by simp
          ultimately show False
            by (simp add: STATUS_HEADER_def IMU_HEADER_def)
        qed
        show ?thesis
        proof (cases "IMU_LENGTH_BY_VERSION (drop i bs ! 3)")
          case None
          with ns False s ImuFrame have "junk (drop i bs)"
            using undecided_length [of "drop i bs"] by (auto simp: junk_def head_len_def)
          then have "skim (drop i bs) = skim (drop 1 (drop i bs))"
            by (cases "drop i bs") simp_all
          moreover have "next_frame (drop 1 (drop i bs)) = (b, r)"
            using 1(2) q ImuFrame False None by (simp add: next_frame.simps [of bs] Let_def)
          ultimately show ?thesis
            using 1(1) [OF q refl refl ImuFrame False None] sk by simp
        next
          case (Some n)
          with ns False s ImuFrame have h: "head_len (drop i bs) = Some (ImuFrame, n)"
            by (simp add: head_len_def)
          then have "skim (drop i bs) = drop i bs"
            by (intro skim_keep) (simp add: junk_def)
          with h 1(2) q ImuFrame False Some sk show ?thesis
            by (auto simp: next_frame.simps [of bs] candidate_def Let_def split: if_split_asm)
        qed
      qed
    qed
  qed
qed

section \<open>The stream as a whole\<close>

text \<open>Two states that differ only in leading junk of the buffer behave alike.\<close>

definition canon :: "probe \<Rightarrow> probe" where
  "canon s = s\<lparr>buffer := skim (buffer s)\<rparr>"

definition push :: "byte list \<Rightarrow> probe \<Rightarrow> probe" where
  "push t s = s\<lparr>bytes_read := bytes_read s + length t, buffer := buffer s @ t\<rparr>"

lemma canon_buffer [simp]: "buffer (canon s) = skim (buffer s)"
  by (simp add: canon_def)

lemma push_buffer [simp]: "buffer (push t s) = buffer s @ t"
  by (simp add: push_def)

lemma push_push: "push t (push u s) = push (u @ t) s"
  by (simp add: push_def)

lemma push_Nil [simp]: "push [] s = s"
  by (simp add: push_def)

lemma canon_push: "canon (push t (canon s)) = canon (push t s)"
  by (simp add: canon_def push_def skim_append)

lemma drain_None: "candidate (skim (buffer s)) = None \<Longrightarrow> canon (drain clock s) = canon s"
proof (cases "next_frame (buffer s)")
  case (Pair b r)
  assume "candidate (skim (buffer s)) = None"
  with next_frame_skim [OF Pair] Pair show ?thesis
    by (simp add: drain.simps [of clock s] canon_def)
qed

lemma drain_Some: "candidate (skim (buffer s)) = Some (k, f) \<Longrightarrow> drain clock s = drain clock (on_candidate clock k f (canon s))"
proof (cases "next_frame (buffer s)")
  case (Pair b r)
  assume "candidate (skim (buffer s)) = Some (k, f)"
  with next_frame_skim [OF Pair] Pair show ?thesis
    by (simp add: drain.simps [of clock s] canon_def)
qed

lemma drain_cong:
  assumes "canon s = canon s'"
  shows "canon (drain clock s) = canon (drain clock s')"
proof -
  have "skim (buffer s) = skim (buffer s')"
    using arg_cong [OF assms, of buffer] by simp
  with assms show ?thesis
    using drain_None [of s clock] drain_None [of s' clock] drain_Some [of s _ _ clock] drain_Some [of s' _ _ clock]
    by (cases "candidate (skim (buffer s))") auto
qed

lemma candidateD:
  "candidate s = Some (k, f) \<Longrightarrow> head_len s = Some (k, length f) \<and> f = take (length f) s \<and> length f \<le> length s \<and> skim s = s \<and> f \<noteq> []"
proof -
  assume c: "candidate s = Some (k, f)"
  then obtain n where n: "head_len s = Some (k, n)" "n \<le> length s" "f = take n s"
    by (auto simp: candidate_def split: option.split_asm if_split_asm)
  moreover have "0 < n"
    using n(1) by (auto simp: head_len_def IMU_LENGTH_BY_VERSION_def STATUS_LEN_def split: if_split_asm)
  ultimately show ?thesis
    by (auto intro!: skim_keep simp: junk_def)
qed

lemma candidateI: "head_len s = Some (k, n) \<Longrightarrow> n \<le> length s \<Longrightarrow> candidate s = Some (k, take n s)"
  by (simp add: candidate_def)

lemma on_candidate_push:
  "length f \<le> length (buffer s) \<Longrightarrow> buffer s \<noteq> [] \<Longrightarrow> on_candidate clock k f (push t s) = push t (on_candidate clock k f s)"
proof -
  assume "length f \<le> length (buffer s)" "buffer s \<noteq> []"
  then have "drop (length f) (buffer s @ t) = drop (length f) (buffer s) @ t" "drop 1 (buffer s @ t) = drop 1 (buffer s) @ t"
    by (simp_all add: Suc_le_eq)
  then show ?thesis
    by (cases s) (auto simp: on_candidate_def count_imu_def push_def split: sum.split parsed.split option.split)
qed

lemma drain_push: "canon (drain clock (push t (drain clock s))) = canon (drain clock (push t s))"
proof (induction "length (buffer s)" arbitrary: s rule: less_induct)
  case less
  show ?case
  proof (cases "candidate (skim (buffer s))")
    case None
    then have "canon (push t (drain clock s)) = canon (push t s)"
      by (metis drain_None canon_push)
    then show ?thesis
      by (rule drain_cong)
  next
    case (Some q)
    then obtain k f where c: "candidate (skim (buffer s)) = Some (k, f)"
      by (cases q) auto
    let ?s1 = "on_candidate clock k f (canon s)"
    note d = candidateD [OF c]
    have h: "head_len (skim (buffer s) @ t) = Some (k, length f)"
      using d head_len_append by blast
    have k1: "skim (skim (buffer s) @ t) = skim (buffer s) @ t"
      by (rule skim_keep) (simp add: junk_def h)
    have "candidate (skim (buffer s) @ t) = Some (k, f)"
      using d candidateI [OF h] by simp
    then have "candidate (skim (buffer (push t s))) = Some (k, f)"
      using k1 by (simp add: skim_append)
    then have "drain clock (push t s) = drain clock (on_candidate clock k f (canon (push t s)))"
      by (rule drain_Some)
    also have "canon (push t s) = push t (canon s)"
      using k1 by (simp add: canon_def push_def skim_append)
    also have "on_candidate clock k f (push t (canon s)) = push t ?s1"
      using d by (intro on_candidate_push) auto
    finally have r: "drain clock (push t s) = drain clock (push t ?s1)" .
    have ne: "f \<noteq> []" "buffer (canon s) \<noteq> []"
      using d by auto
    have "length (skim (buffer s)) \<le> length (buffer s)"
      using skim_is_drop [of "buffer s"] by auto
    with on_candidate_buffer [OF ne, of clock k] have "length (buffer ?s1) < length (buffer s)"
      by simp
    from less.hyps [OF this] show ?thesis
      by (simp add: r drain_Some [OF c])
  qed
qed

lemma measure_run_stream: "canon (measure_run clock chunks) = canon (drain clock (push (concat chunks) new_probe))"
proof (induction chunks rule: rev_induct)
  case Nil
  have "candidate (skim (buffer new_probe)) = None"
    by (simp add: new_probe_def candidate_def head_len_def STATUS_HEADER_def)
  from drain_None [OF this] show ?case
    by (simp add: measure_run_def)
next
  case (snoc c chunks)
  show ?case
  proof (cases "c = []")
    case True
    with snoc show ?thesis
      by (simp add: measure_run_def on_chunk_def)
  next
    case False
    let ?m = "measure_run clock chunks" and ?d = "drain clock (push (concat chunks) new_probe)"
    have "measure_run clock (chunks @ [c]) = drain clock (push c ?m)"
      using False by (simp add: measure_run_def on_chunk_def push_def)
    moreover have "canon (push c ?m) = canon (push c ?d)"
      by (metis snoc canon_push)
    then have "canon (drain clock (push c ?m)) = canon (drain clock (push c ?d))"
      by (rule drain_cong)
    ultimately show ?thesis
      by (simp only: drain_push push_push concat_append concat.simps append_Nil2)
  qed
qed

lemma first_stays: "first_seen s k = Some p \<Longrightarrow> first_seen (drain clock s) k = Some p"
proof (induction "length (buffer s)" arbitrary: s rule: less_induct)
  case less
  show ?case
  proof (cases "candidate (skim (buffer s))")
    case None
    from arg_cong [OF drain_None [OF this, of clock], of first_seen] less.prems show ?thesis
      by (simp add: canon_def)
  next
    case (Some q)
    then obtain k' f where c: "candidate (skim (buffer s)) = Some (k', f)"
      by (cases q) auto
    note d = candidateD [OF c]
    then have ne: "f \<noteq> []" "buffer (canon s) \<noteq> []"
      by auto
    have "length (skim (buffer s)) \<le> length (buffer s)"
      using skim_is_drop [of "buffer s"] by auto
    with on_candidate_buffer [OF ne, of clock k'] have lt: "length (buffer (on_candidate clock k' f (canon s))) < length (buffer s)"
      by simp
    have "first_seen (on_candidate clock k' f (canon s)) k = Some p"
      using less.prems by (auto simp: on_candidate_def count_imu_def canon_def split: sum.split parsed.split option.split)
    from less.hyps [OF lt this] show ?thesis
      by (simp add: drain_Some [OF c])
  qed
qed

lemma parse_head: "parse_frame k f = Inr p \<Longrightarrow> head_len f = Some (k, length f)"
proof (cases k)
  case ImuFrame
  assume "parse_frame k f = Inr p"
  with ImuFrame have h: "4 \<le> length f" "take 3 f = IMU_HEADER" "IMU_LENGTH_BY_VERSION (f ! 3) = Some (length f)"
    by (auto simp: parse_frame_def parse_imu_def Let_def err_simps split: if_split_asm)
  have "take 2 (take 3 f) = take 2 IMU_HEADER"
    by (simp only: h)
  then have "take 2 f \<noteq> STATUS_HEADER"
    by (auto simp: STATUS_HEADER_def IMU_HEADER_def)
  with h ImuFrame show ?thesis
    by (simp add: head_len_def)
qed (auto simp: parse_frame_def parse_status_def head_len_def err_simps split: if_split_asm)

definition false_start :: "byte list \<Rightarrow> bool" where
  "false_start s \<longleftrightarrow> (\<forall>k n. head_len s = Some (k, n) \<longrightarrow> (\<exists>e. parse_frame k (take n s) = Inl e))"

lemma head_len_bound: "head_len s = Some (k, n) \<Longrightarrow> n \<le> 48"
  by (auto simp: head_len_def STATUS_LEN_def IMU_LENGTH_BY_VERSION_def split: if_split_asm)

lemma drain_resync:
  assumes "parse_frame k f = Inr p" "48 \<le> length t"
  shows "buffer s = g @ f @ t \<Longrightarrow> \<forall>i < length g. false_start (drop i (g @ f @ t)) \<Longrightarrow> first_seen s k = None \<Longrightarrow>
    first_seen (drain clock s) k = Some p"
proof (induction g arbitrary: s)
  case Nil
  have h: "head_len (f @ t) = Some (k, length f)"
    by (rule head_len_append [OF parse_head [OF assms(1)]])
  have sk: "skim (buffer s) = f @ t"
    using Nil h by (simp add: skim_keep junk_def)
  then have c: "candidate (skim (buffer s)) = Some (k, f)"
    using candidateI [OF h] by simp
  have "first_seen (on_candidate clock k f (canon s)) k = Some p"
    using Nil assms(1) by (auto simp: on_candidate_def count_imu_def canon_def split: parsed.split)
  from first_stays [OF this] show ?case
    by (simp add: drain_Some [OF c])
next
  case (Cons x g)
  let ?b = "g @ f @ t"
  have tails: "\<forall>i < length g. false_start (drop i ?b)"
    using Cons.prems(2) by force
  show ?case
  proof (cases "junk (x # ?b)")
    case True
    let ?s = "s\<lparr>buffer := ?b\<rparr>"
    have "canon s = canon ?s"
      using True Cons.prems(1) by (simp add: canon_def)
    from arg_cong [OF drain_cong [OF this, of clock], of first_seen] Cons.IH [of ?s] tails Cons.prems show ?thesis
      by (simp add: canon_def)
  next
    case False
    moreover have "\<not> undecided (x # ?b)"
      using undecided_length [of "x # ?b"] assms(2) by auto
    ultimately obtain k' n where h: "head_len (x # ?b) = Some (k', n)"
      by (auto simp: junk_def)
    then have n: "n \<le> length (x # ?b)"
      using head_len_bound assms(2) by fastforce
    have sk: "skim (buffer s) = x # ?b"
      using False Cons.prems(1) by simp
    have c: "candidate (skim (buffer s)) = Some (k', take n (x # ?b))"
      unfolding sk by (rule candidateI [OF h n])
    obtain e where "parse_frame k' (take n (x # ?b)) = Inl e"
      using Cons.prems(2) h by (force simp: false_start_def)
    then have "on_candidate clock k' (take n (x # ?b)) (canon s) = canon s\<lparr>bad := bump (bad s) k', buffer := ?b\<rparr>"
      by (simp add: on_candidate_def canon_def sk)
    moreover have "first_seen (drain clock (canon s\<lparr>bad := bump (bad s) k', buffer := ?b\<rparr>)) k = Some p"
      using Cons.prems(3) tails by (intro Cons.IH) (simp_all add: canon_def)
    ultimately show ?thesis
      by (simp add: drain_Some [OF c])
  qed
qed

section \<open>An example frame\<close>

definition demo_status :: status_frame where
  "demo_status = \<lparr>st_flags = 3, st_tick_ms = 1000, st_boot_id = 7, st_session_id = 9, st_received_sequence = 41, st_applied_sequence = 40,
     st_command_age_ms = 20, st_safety_reason = 0, st_reset_cause = 1, st_rx_crc_errors = 0, st_pwm_us = replicate 8 1500\<rparr>"

lemma demo_parses: "parse_frame StatusFrame (status_bytes demo_status) = Inr (Status demo_status)"
  using status_encodes [of demo_status] by (simp add: parse_frame_def demo_status_def)

lemma demo_length: "length (status_bytes demo_status) = 48"
  by (simp add: status_bytes_def status_body_length demo_status_def)

lemma demo_third: "status_bytes demo_status ! 3 = 3"
  by (simp add: status_bytes_def status_body_def demo_status_def)

section \<open>Properties\<close>



text \<open>Framing recovers after noise.  When a stream begins with arbitrary bytes in which no accepted frame
  starts, an intact frame after them that is followed by 48 more bytes is found, and it is the first of
  its kind, however the stream is cut into chunks.\<close>

theorem resynchronises:
  assumes "concat chunks = g @ f @ t" "parse_frame k f = Inr p" "48 \<le> length t"
    and "\<forall>i < length g. false_start (drop i (g @ f @ t))"
  shows "first_seen (measure_run clock chunks) k = Some p"
proof -
  have "first_seen (drain clock (push (g @ f @ t) new_probe)) k = Some p"
    by (rule drain_resync [OF assms(2,3) _ assms(4)]) (simp_all add: new_probe_def push_def)
  then show ?thesis
    using arg_cong [OF measure_run_stream [of clock chunks], of first_seen] assms(1) by (simp add: canon_def)
qed

theorem resynchronises_witness:
  "first_seen (measure_run (\<lambda>n. real n) [0xFF # status_bytes demo_status @ replicate 48 0]) StatusFrame = Some (Status demo_status)"
proof (rule resynchronises [OF _ demo_parses])
  show "concat [0xFF # status_bytes demo_status @ replicate 48 0] = [0xFF] @ status_bytes demo_status @ replicate 48 0"
    by simp
  show "\<forall>i < length [0xFF :: byte]. false_start (drop i ([0xFF] @ status_bytes demo_status @ replicate 48 0))"
    by (simp add: false_start_def head_len_def STATUS_HEADER_def IMU_HEADER_def status_bytes_def status_body_def)
qed simp

text \<open>C24: Corruption is detected.  When a frame that decodes is damaged within two neighbouring bytes, both of
  the checked part or both of the checksum, the result never decodes, whatever kind of frame it is
  taken for.\<close>

theorem corrupted_frame_rejected:
  assumes "parse_frame k f = Inr p" "length f' = length f" "f' \<noteq> f" "Suc i < length f" "i + 3 \<noteq> length f"
    and same: "\<forall>j < length f. j \<noteq> i \<and> j \<noteq> Suc i \<longrightarrow> f' ! j = f ! j"
  shows "\<exists>msg. parse_frame k' f' = Inl (ValueError msg)"
proof (cases "parse_frame k' f'")
  case (Inl e)
  then show ?thesis
    using parse_frame_Inl by blast
next
  case (Inr q)
  define n where "n = length f - 2"
  have len: "length f = Suc (Suc n)" "length f' = Suc (Suc n)"
    using parse_frame_Inr [OF assms(1)] assms(2) by (auto simp: n_def)
  have crc: "le_word (drop n f) = crc16_ccitt (take n f)" "le_word (drop n f') = crc16_ccitt (take n f')"
    using parse_frame_Inr [OF assms(1)] parse_frame_Inr [OF Inr] len by (simp_all add: u16_at_end)
  have "take n f' = take n f \<and> drop n f' = drop n f"
  proof (cases "Suc i < n")
    case True
    have parts: "take i f' = take i f" "drop (i + 2) (take n f') = drop (i + 2) (take n f)" "drop n f' = drop n f"
      using True len same by (auto intro!: nth_equalityI)
    have "crc16_ccitt (take i f @ [f' ! i, f' ! Suc i] @ drop (i + 2) (take n f))
        = crc16_ccitt (take i f @ [f ! i, f ! Suc i] @ drop (i + 2) (take n f))"
      using crc parts split_pair [of i "take n f"] split_pair [of i "take n f'"] True len by (simp add: min_def)
    from crc_detects [OF this] have "f' ! i = f ! i" "f' ! Suc i = f ! Suc i"
      by simp_all
    with same len have "f' = f"
      by (intro nth_equalityI) auto
    then show ?thesis by simp
  next
    case False
    with assms(5) len have "n \<le> i" by simp
    with same len have t: "take n f' = take n f"
      by (auto intro!: nth_equalityI)
    with crc have "(le_word (drop n f') :: 16 word) = le_word (drop n f)"
      by simp
    with len t show ?thesis
      using le_word_inj [of "drop n f'" 2 "drop n f", where 'a = 16] by simp
  qed
  with assms(3) show ?thesis
    by (metis append_take_drop_id)
qed

theorem corrupted_frame_rejected_witness:
  "\<exists>msg. parse_frame StatusFrame ((status_bytes demo_status)[3 := 2]) = Inl (ValueError msg)"
  by (rule corrupted_frame_rejected [OF demo_parses, of _ 3])
    (auto simp: demo_length demo_third list_eq_iff_nth_eq nth_list_update intro!: exI [of _ "3 :: nat"])

text \<open>C37: Decoding a status frame loses nothing.  The bytes that decode to a status are exactly the board's
  encoding of it: every accepted frame is recovered from its decoded fields, and every status with eight
  outputs and no unknown flag is decoded from its encoding.\<close>

theorem status_round_trip:
  "parse_status f = Inr s \<longleftrightarrow> f = status_bytes s \<and> length (st_pwm_us s) = 8 \<and> st_flags s AND NOT KNOWN_STATUS_FLAGS = 0"
  unfolding KNOWN_STATUS_FLAGS_def using status_decodes status_encodes by blast

end
