(* ===== verification/Run_Export.thy ===== *)
theory Run_Export
  imports Run_Logger "HOL-Library.Product_Lexorder"
begin

text \<open>
  The offline export of a run, \<^verbatim>\<open>scripts/export_merged_control_log.py\<close>: the merged list of bag messages
  and event log lines, and the table that aligns every board status with the latest target, tracking
  status and thruster command before it.  The bag reader with its message classes, the text of a JSON
  value and the parser of a line are arguments.
\<close>

section \<open>Times\<close>

text \<open>The civil date of a day since 1970-01-01, as \<^verbatim>\<open>datetime\<close> counts: 400-year cycles of 146097 days whose
  years begin in March.\<close>

definition civil_date :: "int \<Rightarrow> int \<times> int \<times> int" where
  "civil_date days =
     (let z = days + 719468; cycle = z div 146097; doe = z mod 146097;
          yoe = (doe - doe div 1460 + doe div 36524 - doe div 146096) div 365;
          doy = doe - (365 * yoe + yoe div 4 - yoe div 100);
          mp = (5 * doy + 2) div 153;
          day = doy - (153 * mp + 2) div 5 + 1;
          month = (if mp < 10 then mp + 3 else mp - 9) in
      (yoe + 400 * cycle + (if month \<le> 2 then 1 else 0), month, day))"

definition zero_padded :: "nat \<Rightarrow> int \<Rightarrow> string" where
  "zero_padded width n = (let s = show_nat (nat n) in replicate (width - length s) (CHR ''0'') @ s)"

definition iso_utc :: "int \<Rightarrow> exc + string" where
  "iso_utc timestamp_ns =
     (let seconds = timestamp_ns div 1000000000; nanoseconds = timestamp_ns mod 1000000000; clock = seconds mod 86400 in
      case civil_date (seconds div 86400) of
        (year, month, day) \<Rightarrow>
          if year < 1 \<or> 9999 < year then Inl (ValueError ''year is out of range'')
          else Inr (show_nat (nat year) @ ''-'' @ zero_padded 2 month @ ''-'' @ zero_padded 2 day @ ''T''
                 @ zero_padded 2 (clock div 3600) @ '':'' @ zero_padded 2 (clock div 60 mod 60) @ '':'' @ zero_padded 2 (clock mod 60)
                 @ ''.'' @ zero_padded 9 nanoseconds @ ''Z''))"

section \<open>Messages of the bag\<close>

record board_status_msg =
  bd_tick_ms :: int
  bd_connected :: bool
  bd_heartbeat_ok :: bool
  bd_failsafe_active :: bool
  bd_session_established :: bool
  bd_outputs_enabled :: bool
  bd_received_sequence :: int
  bd_applied_sequence :: int
  bd_command_age_ms :: int
  bd_rx_crc_errors :: int
  bd_safety_reason :: int
  bd_pwm_us :: "int list"

record armed_thruster_msg = thruster_msg +
  tm_armed :: bool
  tm_arm_generation :: int

text \<open>A message with the class of its topic.\<close>

datatype bag_content =
    BoardData board_status_msg
  | TargetData target_msg
  | TrackingData tracking_msg
  | ThrusterData armed_thruster_msg
  | OtherData string

record bag_message =
  content :: bag_content
  stamp :: "(int \<times> int) option"
  bag_time_ns :: int
  payload_text :: string

definition BOARD_TOPIC :: string where "BOARD_TOPIC = ''/hardware/board_status''"
definition TARGET_TOPIC :: string where "TARGET_TOPIC = ''/runtime/trajectory_target''"
definition TRACKING_TOPIC :: string where "TRACKING_TOPIC = ''/runtime/tracking_status''"
definition THRUSTER_TOPIC :: string where "THRUSTER_TOPIC = ''/control/thruster_cmd''"

fun topic_of :: "bag_content \<Rightarrow> string" where
  "topic_of (BoardData _) = BOARD_TOPIC"
| "topic_of (TargetData _) = TARGET_TOPIC"
| "topic_of (TrackingData _) = TRACKING_TOPIC"
| "topic_of (ThrusterData _) = THRUSTER_TOPIC"
| "topic_of (OtherData topic) = topic"

definition message_stamp_ns :: "bag_message \<Rightarrow> int option" where
  "message_stamp_ns m =
     (case stamp m of
        None \<Rightarrow> None
      | Some (sec, nanosec) \<Rightarrow> (let v = sec * 1000000000 + nanosec in if 0 < v then Some v else None))"

section \<open>Reading a run\<close>

text \<open>A row of the merged table; \<open>None\<close> is an empty cell.\<close>

record merged_row =
  timestamp_ns :: int
  timestamp_utc :: string
  row_source :: string
  topic_or_event :: string
  message_type :: string
  header_time_ns :: "int option"
  record_time_ns :: "int option"
  record_delay_ms :: "real option"
  payload_json :: string
  event_line :: "nat option"

text \<open>The four streams of stamped control messages: header stamp, recording time, message.\<close>

record control_messages =
  boards :: "(int \<times> int \<times> board_status_msg) list"
  targets :: "(int \<times> int \<times> target_msg) list"
  trackings :: "(int \<times> int \<times> tracking_msg) list"
  thrusters :: "(int \<times> int \<times> armed_thruster_msg) list"

definition no_messages :: control_messages where
  "no_messages = \<lparr>boards = [], targets = [], trackings = [], thrusters = []\<rparr>"

definition add_message :: "bag_message \<Rightarrow> control_messages \<Rightarrow> control_messages" where
  "add_message m c =
     (case message_stamp_ns m of
        None \<Rightarrow> c
      | Some h \<Rightarrow>
          (case content m of
             BoardData d \<Rightarrow> c\<lparr>boards := boards c @ [(h, bag_time_ns m, d)]\<rparr>
           | TargetData d \<Rightarrow> c\<lparr>targets := targets c @ [(h, bag_time_ns m, d)]\<rparr>
           | TrackingData d \<Rightarrow> c\<lparr>trackings := trackings c @ [(h, bag_time_ns m, d)]\<rparr>
           | ThrusterData d \<Rightarrow> c\<lparr>thrusters := thrusters c @ [(h, bag_time_ns m, d)]\<rparr>
           | OtherData _ \<Rightarrow> c))"

definition bag_row :: "(string \<Rightarrow> string) \<Rightarrow> bag_message \<Rightarrow> exc + merged_row" where
  "bag_row topic_type m =
     (let header = message_stamp_ns m; t = (case header of Some h \<Rightarrow> h | None \<Rightarrow> bag_time_ns m); topic = topic_of (content m) in
      ebind (iso_utc t) (\<lambda>utc.
      Inr \<lparr>timestamp_ns = t, timestamp_utc = utc, row_source = ''rosbag2'', topic_or_event = topic, message_type = topic_type topic,
           header_time_ns = header, record_time_ns = Some (bag_time_ns m),
           record_delay_ms = map_option (\<lambda>h. real_of_int (bag_time_ns m - h) / 10 ^ 6) header,
           payload_json = payload_text m, event_line = None\<rparr>))"

fun read_bag ::
  "(string \<Rightarrow> string) \<Rightarrow> bag_message list \<Rightarrow> merged_row list \<Rightarrow> control_messages \<Rightarrow> exc + merged_row list \<times> control_messages" where
  "read_bag topic_type [] rows c = Inr (rows, c)"
| "read_bag topic_type (m # ms) rows c =
     ebind (bag_row topic_type m) (\<lambda>r. read_bag topic_type ms (rows @ [r]) (add_message m c))"

text \<open>\<^verbatim>\<open>event["time"]\<close> and the rest of a line; \<open>text_of\<close> is \<^verbatim>\<open>compact_json\<close>.\<close>

definition event_row ::
  "(json_value \<Rightarrow> string) \<Rightarrow> (json_value \<Rightarrow> string) \<Rightarrow> nat \<Rightarrow> json_value \<Rightarrow> exc + merged_row" where
  "event_row repr text_of line_number event =
     (case event of
        JObj m \<Rightarrow>
          (case map_of m ''time'' of
             None \<Rightarrow> Inl (KeyError ''time'')
           | Some v \<Rightarrow>
               ebind (json_int v) (\<lambda>t.
               ebind (iso_utc t) (\<lambda>utc.
               Inr \<lparr>timestamp_ns = t, timestamp_utc = utc, row_source = ''event_log'',
                    topic_or_event = json_str repr (get_or m ''type'' (JStr ''unknown'')), message_type = ''RobotCoreEvent'',
                    header_time_ns = None, record_time_ns = None, record_delay_ms = None,
                    payload_json = text_of (get_or m ''payload'' (JObj [])), event_line = Some line_number\<rparr>)))
      | _ \<Rightarrow> Inl (TypeError ''indices must be integers''))"

fun read_events ::
  "(json_value \<Rightarrow> string) \<Rightarrow> (json_value \<Rightarrow> string) \<Rightarrow> (string \<Rightarrow> exc + json_value) \<Rightarrow> nat \<Rightarrow> string list \<Rightarrow> exc + merged_row list" where
  "read_events repr text_of parse n [] = Inr []"
| "read_events repr text_of parse n (line # lines) =
     (if py_strip line = [] then read_events repr text_of parse (Suc n) lines
      else
        ebind (parse line) (\<lambda>event.
        ebind (event_row repr text_of n event) (\<lambda>r.
        ebind (read_events repr text_of parse (Suc n) lines) (\<lambda>rs. Inr (r # rs)))))"

definition row_key :: "merged_row \<Rightarrow> int \<times> string \<times> string" where
  "row_key r = (timestamp_ns r, row_source r, topic_or_event r)"

definition sort_streams :: "control_messages \<Rightarrow> control_messages" where
  "sort_streams c =
     \<lparr>boards = sort_key fst (boards c), targets = sort_key fst (targets c), trackings = sort_key fst (trackings c),
      thrusters = sort_key fst (thrusters c)\<rparr>"

text \<open>The bag is \<open>None\<close> without its metadata, the event log without its file.\<close>

definition read_run ::
  "(json_value \<Rightarrow> string) \<Rightarrow> (json_value \<Rightarrow> string) \<Rightarrow> (string \<Rightarrow> exc + json_value) \<Rightarrow> (string \<Rightarrow> string)
     \<Rightarrow> bag_message list option \<Rightarrow> string list option \<Rightarrow> exc + merged_row list \<times> control_messages" where
  "read_run repr text_of parse topic_type bag event_log_lines =
     (case bag of
        None \<Rightarrow> Inl (OSError ''rosbag metadata not found'')
      | Some ms \<Rightarrow>
          (case event_log_lines of
             None \<Rightarrow> Inl (OSError ''event log not found'')
           | Some lines \<Rightarrow>
               ebind (read_bag topic_type ms [] no_messages) (\<lambda>(rows, c).
               ebind (read_events repr text_of parse 1 lines) (\<lambda>events.
               Inr (sort_key row_key (rows @ events), sort_streams c)))))"

section \<open>The aligned table\<close>

text \<open>\<^verbatim>\<open>bisect.bisect_right\<close>: halving the interval in which the position lies.\<close>

function bisect_right :: "int list \<Rightarrow> int \<Rightarrow> nat \<Rightarrow> nat \<Rightarrow> nat" where
  "bisect_right a x lo hi =
     (if lo < hi
      then let mid = (lo + hi) div 2 in if x < a ! mid then bisect_right a x lo mid else bisect_right a x (mid + 1) hi
      else lo)"
  by pat_completeness auto

termination bisect_right
  by (relation "measure (\<lambda>(a, x, lo, hi). hi - lo)") auto

declare bisect_right.simps [simp del]

definition causal_sample :: "(int \<times> 'm) list \<Rightarrow> int list \<Rightarrow> int \<Rightarrow> (int \<times> 'm) option" where
  "causal_sample stream stamps t =
     (if stream = [] then None
      else
        let index = int (bisect_right stamps t 0 (length stamps)) - 1 in
        if 0 \<le> index then Some (stream ! nat index) else None)"

datatype cell = CellInt int | CellFloat pyfloat | CellBool bool | CellStr string

type_synonym table_row = "(string \<times> cell) list"

definition dict_update :: "table_row \<Rightarrow> table_row \<Rightarrow> table_row" where
  "dict_update row items = foldl (\<lambda>m (k, v). dict_set k v m) row items"

definition age_ms :: "int \<Rightarrow> int \<Rightarrow> cell" where
  "age_ms later earlier = CellFloat (Fin (real_of_int (later - earlier) / 10 ^ 6))"

definition board_columns :: "int \<Rightarrow> string \<Rightarrow> int \<Rightarrow> board_status_msg \<Rightarrow> table_row" where
  "board_columns board_stamp utc record_stamp b =
     [(''pwm_stamp_ns'', CellInt board_stamp), (''pwm_stamp_utc'', CellStr utc), (''pwm_record_time_ns'', CellInt record_stamp),
      (''pwm_record_delay_ms'', age_ms record_stamp board_stamp), (''board_tick_ms'', CellInt (bd_tick_ms b)),
      (''connected'', CellBool (bd_connected b)), (''heartbeat_ok'', CellBool (bd_heartbeat_ok b)),
      (''failsafe_active'', CellBool (bd_failsafe_active b)), (''session_established'', CellBool (bd_session_established b)),
      (''outputs_enabled'', CellBool (bd_outputs_enabled b)), (''received_sequence'', CellInt (bd_received_sequence b)),
      (''applied_sequence'', CellInt (bd_applied_sequence b)), (''board_command_age_ms'', CellInt (bd_command_age_ms b)),
      (''rx_crc_errors'', CellInt (bd_rx_crc_errors b)), (''safety_reason'', CellInt (bd_safety_reason b))]"

definition pwm_columns :: "int list \<Rightarrow> table_row" where
  "pwm_columns values = map (\<lambda>(i, v). (''pwm_'' @ show_nat i @ ''_us'', CellInt v)) (enumerate 8 values)"

definition target_columns :: "int \<Rightarrow> int \<Rightarrow> target_msg \<Rightarrow> table_row" where
  "target_columns board_stamp s m =
     [(''target_stamp_ns'', CellInt s), (''target_age_ms'', age_ms board_stamp s),
      (''target_x_m'', CellFloat (vx (target_position m))), (''target_y_m'', CellFloat (vy (target_position m))),
      (''target_z_m'', CellFloat (vz (target_position m))),
      (''target_qw'', CellFloat (qw (target_orientation m))), (''target_qx'', CellFloat (qx (target_orientation m))),
      (''target_qy'', CellFloat (qy (target_orientation m))), (''target_qz'', CellFloat (qz (target_orientation m))),
      (''target_vx_mps'', CellFloat (vx (target_linear m))), (''target_vy_mps'', CellFloat (vy (target_linear m))),
      (''target_vz_mps'', CellFloat (vz (target_linear m))),
      (''target_ax_mps2'', CellFloat (vx (target_accel_linear m))), (''target_ay_mps2'', CellFloat (vy (target_accel_linear m))),
      (''target_az_mps2'', CellFloat (vz (target_accel_linear m))),
      (''trajectory_type'', CellStr (trajectory_type m)), (''control_mode'', CellStr (control_mode m)),
      (''trajectory_phase'', CellStr (trajectory_phase m)), (''trajectory_time_s'', CellFloat (time_s m)),
      (''target_valid'', CellBool (target_valid m))]"

definition tracking_columns :: "int \<Rightarrow> int \<Rightarrow> tracking_msg \<Rightarrow> table_row" where
  "tracking_columns board_stamp s m =
     [(''tracking_stamp_ns'', CellInt s), (''tracking_age_ms'', age_ms board_stamp s),
      (''actual_x_m'', CellFloat (vx (tr_actual_position m))), (''actual_y_m'', CellFloat (vy (tr_actual_position m))),
      (''actual_z_m'', CellFloat (vz (tr_actual_position m))),
      (''actual_vx_body_mps'', CellFloat (vx (tr_actual_velocity_body m))), (''actual_vy_body_mps'', CellFloat (vy (tr_actual_velocity_body m))),
      (''actual_vz_body_mps'', CellFloat (vz (tr_actual_velocity_body m))),
      (''position_error_x_body_m'', CellFloat (vx (tr_position_error_body m))), (''position_error_y_body_m'', CellFloat (vy (tr_position_error_body m))),
      (''position_error_z_body_m'', CellFloat (vz (tr_position_error_body m))),
      (''position_error_m'', CellFloat (tr_position_error_m m)), (''orientation_error_rad'', CellFloat (tr_orientation_error_rad m)),
      (''velocity_error_mps'', CellFloat (tr_velocity_error_mps m)), (''tracking_valid'', CellBool (tr_valid m))]"

definition thruster_columns :: "int \<Rightarrow> int \<Rightarrow> armed_thruster_msg \<Rightarrow> table_row" where
  "thruster_columns board_stamp s m =
     [(''thruster_command_stamp_ns'', CellInt s), (''thruster_command_age_ms'', age_ms board_stamp s),
      (''thruster_enable'', CellBool (tm_enable m)), (''thruster_armed'', CellBool (tm_armed m)),
      (''thruster_arm_generation'', CellInt (tm_arm_generation m)), (''thruster_source'', CellStr (tm_source m))]"

definition action_columns :: "pyfloat list \<Rightarrow> table_row" where
  "action_columns values = map (\<lambda>(i, v). (''thruster_'' @ show_nat i @ ''_action'', CellFloat v)) (enumerate 0 values)"

text \<open>The update of a row with the sample of a stream, when there is one.\<close>

definition with_sample :: "(int \<Rightarrow> 'm \<Rightarrow> table_row) \<Rightarrow> (int \<times> int \<times> 'm) list \<Rightarrow> int \<Rightarrow> table_row \<Rightarrow> table_row" where
  "with_sample columns stream board_stamp row =
     (case causal_sample stream (map fst stream) board_stamp of
        None \<Rightarrow> row
      | Some (s, _, m) \<Rightarrow> dict_update row (columns s m))"

definition pwm_row :: "control_messages \<Rightarrow> int \<times> int \<times> board_status_msg \<Rightarrow> exc + table_row" where
  "pwm_row c b =
     (case b of
        (board_stamp, record_stamp, board) \<Rightarrow>
          ebind (iso_utc board_stamp) (\<lambda>utc.
          let row0 = dict_update (board_columns board_stamp utc record_stamp board) (pwm_columns (bd_pwm_us board));
              row1 = with_sample (target_columns board_stamp) (targets c) board_stamp row0;
              row2 = with_sample (tracking_columns board_stamp) (trackings c) board_stamp row1 in
          Inr (with_sample (\<lambda>s m. thruster_columns board_stamp s m @ action_columns (tm_action m)) (thrusters c) board_stamp row2)))"

fun build_rows :: "control_messages \<Rightarrow> (int \<times> int \<times> board_status_msg) list \<Rightarrow> exc + table_row list" where
  "build_rows c [] = Inr []"
| "build_rows c (b # bs) = ebind (pwm_row c b) (\<lambda>row. ebind (build_rows c bs) (\<lambda>rows. Inr (row # rows)))"

definition build_pwm_rows :: "control_messages \<Rightarrow> exc + table_row list" where
  "build_pwm_rows c = build_rows c (boards c)"

text \<open>The header of the aligned table, from \<^verbatim>\<open>main\<close>.\<close>

definition add_field :: "string list \<Rightarrow> string \<Rightarrow> string list" where
  "add_field names name = (if name \<in> set names then names else names @ [name])"

definition control_fields :: "table_row list \<Rightarrow> exc + string list" where
  "control_fields rows =
     (case rows of
        [] \<Rightarrow> Inl (RuntimeError ''no /hardware/board_status messages found'')
      | row # rest \<Rightarrow> Inr (foldl (\<lambda>fs r. foldl add_field fs (map fst r)) (map fst row) rest))"

definition all_fields :: "string list" where
  "all_fields =
     [''timestamp_ns'', ''timestamp_utc'', ''source'', ''topic_or_event'', ''message_type'', ''header_time_ns'', ''record_time_ns'',
      ''record_delay_ms'', ''event_line'', ''payload_json'']"

end
