(* ===== verification/Export_Safety.thy ===== *)
theory Export_Safety
  imports Run_Export "HOL-Library.Multiset"
begin

text \<open>
  Properties of the offline export: the merged table is complete and ordered, the aligned table never
  looks into the future and takes the latest message, and what the run logger wrote is exported line
  by line.
\<close>

section \<open>The latest message\<close>

lemma bisect_right_spec:
  assumes "sorted a" "lo \<le> hi" "hi \<le> length a" "\<forall>i < lo. a ! i \<le> x" "\<forall>i. hi \<le> i \<and> i < length a \<longrightarrow> x < a ! i"
  shows "lo \<le> bisect_right a x lo hi \<and> bisect_right a x lo hi \<le> hi \<and> (\<forall>i < bisect_right a x lo hi. a ! i \<le> x)
    \<and> (\<forall>i. bisect_right a x lo hi \<le> i \<and> i < length a \<longrightarrow> x < a ! i)"
  using assms
proof (induction a x lo hi rule: bisect_right.induct)
  case (1 a x lo hi)
  show ?case
  proof (cases "lo < hi")
    case True
    let ?mid = "(lo + hi) div 2"
    have mid: "lo \<le> ?mid" "?mid < hi"
      using True by auto
    show ?thesis
    proof (cases "x < a ! ?mid")
      case up: True
      have "\<forall>i. ?mid \<le> i \<and> i < length a \<longrightarrow> x < a ! i"
        using up "1.prems"(1) by (meson order_less_le_trans sorted_nth_mono)
      moreover have "?mid \<le> length a"
        using "1.prems"(3) mid by linarith
      ultimately have "lo \<le> bisect_right a x lo ?mid \<and> bisect_right a x lo ?mid \<le> ?mid \<and> (\<forall>i < bisect_right a x lo ?mid. a ! i \<le> x)
          \<and> (\<forall>i. bisect_right a x lo ?mid \<le> i \<and> i < length a \<longrightarrow> x < a ! i)"
        using "1.IH"(1) [OF True refl up "1.prems"(1) mid(1)] "1.prems"(4) by blast
      moreover have "bisect_right a x lo hi = bisect_right a x lo ?mid"
        using True up by (simp add: bisect_right.simps [of a x lo hi] Let_def)
      ultimately show ?thesis
        using mid by (metis le_trans less_imp_le)
    next
      case down: False
      have "\<forall>i < ?mid + 1. a ! i \<le> x"
      proof safe
        fix i
        assume "i < ?mid + 1"
        then have "a ! i \<le> a ! ?mid"
          using "1.prems"(1,3) mid by (intro sorted_nth_mono) auto
        with down show "a ! i \<le> x" by simp
      qed
      moreover have "?mid + 1 \<le> hi"
        using mid by linarith
      ultimately have "?mid + 1 \<le> bisect_right a x (?mid + 1) hi \<and> bisect_right a x (?mid + 1) hi \<le> hi \<and> (\<forall>i < bisect_right a x (?mid + 1) hi. a ! i \<le> x)
          \<and> (\<forall>i. bisect_right a x (?mid + 1) hi \<le> i \<and> i < length a \<longrightarrow> x < a ! i)"
        using "1.IH"(2) [OF True refl down "1.prems"(1)] "1.prems"(3,5) by blast
      moreover have "bisect_right a x lo hi = bisect_right a x (?mid + 1) hi"
        using True down by (simp add: bisect_right.simps [of a x lo hi] Let_def)
      ultimately show ?thesis
        using mid by (metis le_trans le_add1)
    qed
  next
    case False
    with "1.prems"(2) have "lo = hi"
      by simp
    moreover have "bisect_right a x lo hi = lo"
      using False by (simp add: bisect_right.simps [of a x lo hi])
    ultimately show ?thesis
      using "1.prems"(4,5) by simp
  qed
qed

text \<open>The latest message up to a time: the last one of a sorted stream whose stamp is not later.\<close>

definition latest_message :: "int \<Rightarrow> (int \<times> 'm) list \<Rightarrow> (int \<times> 'm) option" where
  "latest_message t stream = (let past = filter (\<lambda>m. fst m \<le> t) stream in if past = [] then None else Some (last past))"

lemma causal_sample_eq:
  assumes "sorted (map fst stream)"
  shows "causal_sample stream (map fst stream) t = latest_message t stream"
proof -
  define r where "r = bisect_right (map fst stream) t 0 (length stream)"
  have r: "r \<le> length stream" "\<And>i. i < r \<Longrightarrow> fst (stream ! i) \<le> t" "\<And>i. r \<le> i \<Longrightarrow> i < length stream \<Longrightarrow> t < fst (stream ! i)"
    using bisect_right_spec [of "map fst stream" 0 "length stream" t] assms by (auto simp: r_def)
  have "fst y \<le> t" if y: "y \<in> set (take r stream)" for y
  proof -
    obtain j where "j < r" "j < length stream" "y = stream ! j"
      using y by (auto simp: in_set_conv_nth)
    then show ?thesis
      using r(2) [of j] by simp
  qed
  then have "filter (\<lambda>m. fst m \<le> t) (take r stream) = take r stream"
    by (simp add: filter_id_conv)
  moreover have "\<not> fst y \<le> t" if y: "y \<in> set (drop r stream)" for y
  proof -
    obtain j where "j < length (drop r stream)" "y = drop r stream ! j"
      using y by (auto simp: in_set_conv_nth)
    moreover from this have "r + j < length stream"
      by auto
    ultimately show ?thesis
      using r(1) r(3) [of "r + j"] by (auto simp: not_le)
  qed
  then have "filter (\<lambda>m. fst m \<le> t) (drop r stream) = []"
    by (simp add: filter_empty_conv)
  ultimately have past: "filter (\<lambda>m. fst m \<le> t) stream = take r stream"
    by (metis append_Nil2 append_take_drop_id filter_append)
  show ?thesis
  proof (cases "r = 0 \<or> stream = []")
    case True
    then show ?thesis
      using past by (auto simp: causal_sample_def latest_message_def r_def)
  next
    case False
    then have "last (take r stream) = stream ! (r - 1)" "take r stream \<noteq> []"
      using r(1) by (auto simp: last_conv_nth)
    moreover have "nat (int r - 1) = r - 1" "0 \<le> int r - 1"
      using False by auto
    ultimately show ?thesis
      using False by (simp add: causal_sample_def latest_message_def past Let_def r_def [symmetric])
  qed
qed

lemma latest_Some: "latest_message t stream = Some x \<Longrightarrow> x \<in> set stream \<and> fst x \<le> t"
proof -
  assume "latest_message t stream = Some x"
  then have "x = last (filter (\<lambda>m. fst m \<le> t) stream)" "filter (\<lambda>m. fst m \<le> t) stream \<noteq> []"
    by (auto simp: latest_message_def Let_def split: if_split_asm)
  then have "x \<in> set (filter (\<lambda>m. fst m \<le> t) stream)"
    using last_in_set by metis
  then show ?thesis by simp
qed

section \<open>Rows as dictionaries\<close>

lemma dict_update_lookup: "map_of (dict_update row items) = map_of row ++ map_of (rev items)"
proof (induction items arbitrary: row)
  case (Cons p items)
  then show ?case
    by (cases p) (auto simp: dict_update_def map_of_dict_set map_add_def fun_eq_iff split: option.split)
qed (simp add: dict_update_def)

lemma dict_update_keeps: "k \<notin> fst ` set items \<Longrightarrow> map_of (dict_update row items) k = map_of row k"
proof -
  assume "k \<notin> fst ` set items"
  then have "map_of (rev items) k = None"
    by (simp add: map_of_eq_None_iff)
  then show ?thesis
    by (simp add: dict_update_lookup map_add_def)
qed

lemma dict_update_sets: "distinct (map fst items) \<Longrightarrow> (k, v) \<in> set items \<Longrightarrow> map_of (dict_update row items) k = Some v"
proof -
  assume a: "distinct (map fst items)" "(k, v) \<in> set items"
  then have "map_of (rev items) k = Some v"
    by (intro map_of_is_SomeI) (simp_all add: rev_map [symmetric])
  then show ?thesis
    by (simp add: dict_update_lookup map_add_def)
qed

lemma dict_update_absent: "k \<notin> fst ` set row \<Longrightarrow> k \<notin> fst ` set items \<Longrightarrow> map_of (dict_update row items) k = None"
  by (simp add: dict_update_keeps map_of_eq_None_iff)

section \<open>Columns\<close>

text \<open>The table a column belongs to, read off its name: 1 target, 2 tracking, 3 thruster, 0 board.\<close>

definition family :: "string \<Rightarrow> nat" where
  "family name =
     (let h = take 4 name in
      if h \<in> {''targ'', ''traj'', ''cont''} then 1
      else if h \<in> {''trac'', ''actu'', ''posi'', ''orie'', ''velo''} then 2
      else if h = ''thru'' then 3 else 0)"

lemma target_family: "k \<in> fst ` set (target_columns b s m) \<Longrightarrow> family k = 1"
  by (auto simp: target_columns_def family_def)

lemma tracking_family: "k \<in> fst ` set (tracking_columns b s m) \<Longrightarrow> family k = 2"
  by (auto simp: tracking_columns_def family_def)

lemma thruster_family: "k \<in> fst ` set (thruster_columns b s m @ action_columns vs) \<Longrightarrow> family k = 3"
  by (auto simp: thruster_columns_def action_columns_def family_def Let_def)

lemma board_family: "k \<in> fst ` set (board_columns b utc r d) \<union> fst ` set (pwm_columns vs) \<Longrightarrow> family k = 0"
  by (auto simp: board_columns_def pwm_columns_def family_def Let_def)

lemma target_distinct: "distinct (map fst (target_columns b s m))"
  by (simp add: target_columns_def)

lemma tracking_distinct: "distinct (map fst (tracking_columns b s m))"
  by (simp add: tracking_columns_def)

lemma show_nat_inj: "show_nat m = show_nat n \<Longrightarrow> m = n"
  by (metis show_nat_value)

lemma action_name: "\<exists>d t. is_digit d \<and> ''thruster_'' @ show_nat i @ ''_action'' = ''thruster_'' @ d # t"
  using show_nat_digits [of i] by (cases "show_nat i") auto

lemma distinct_append_map: "distinct xs \<Longrightarrow> distinct (map f ys) \<Longrightarrow> (\<And>i. f i \<notin> set xs) \<Longrightarrow> distinct (xs @ map f ys)"
  by auto

lemma thruster_distinct: "distinct (map fst (thruster_columns b s m @ action_columns vs))"
proof -
  have names: "map fst (action_columns vs) = map (\<lambda>i. ''thruster_'' @ show_nat i @ ''_action'') [0..<length vs]"
    by (rule nth_equalityI) (auto simp: action_columns_def enumerate_eq_zip)
  have "distinct (map (\<lambda>i. ''thruster_'' @ show_nat i @ ''_action'') [0..<length vs])"
    by (auto simp: distinct_map inj_on_def dest: show_nat_inj)
  moreover have "''thruster_'' @ show_nat i @ ''_action'' \<notin> fst ` set (thruster_columns b s m)" for i
    using action_name [of i] by (auto simp: thruster_columns_def is_digit_def)
  moreover have "distinct (map fst (thruster_columns b s m))"
    by (simp add: thruster_columns_def)
  ultimately show ?thesis
    unfolding map_append names set_map [symmetric] by (intro distinct_append_map)
qed

text \<open>The columns of a stream in a row: those of the latest message not after the time, or absent.\<close>

definition aligned :: "table_row \<Rightarrow> int \<Rightarrow> (int \<Rightarrow> 'm \<Rightarrow> table_row) \<Rightarrow> (int \<times> int \<times> 'm) list \<Rightarrow> bool" where
  "aligned row t columns stream =
     (case latest_message t stream of
        None \<Rightarrow> (\<forall>s m. \<forall>k \<in> fst ` set (columns s m). map_of row k = None)
      | Some (s, _, m) \<Rightarrow> s \<le> t \<and> (\<forall>(k, v) \<in> set (columns s m). map_of row k = Some v))"

lemma with_sample_aligned:
  assumes "sorted (map fst stream)" "\<And>s m. distinct (map fst (columns s m))" "\<And>s m k. k \<in> fst ` set (columns s m) \<Longrightarrow> map_of row k = None"
  shows "aligned (with_sample columns stream t row) t columns stream"
proof (cases "latest_message t stream")
  case None
  with assms show ?thesis
    by (simp add: aligned_def with_sample_def causal_sample_eq)
next
  case (Some x)
  then obtain s r m where x: "latest_message t stream = Some (s, r, m)"
    by (cases x) auto
  with latest_Some [OF x] show ?thesis
    using dict_update_sets [OF assms(2)] by (auto simp: aligned_def with_sample_def causal_sample_eq [OF assms(1)])
qed

lemma with_sample_other:
  assumes "sorted (map fst stream)" "\<And>s m. k \<notin> fst ` set (columns s m)"
  shows "map_of (with_sample columns stream t row) k = map_of row k"
  using assms(2) by (auto simp: with_sample_def dict_update_keeps split: option.split)

lemma aligned_keep:
  assumes "aligned row t columns stream" "\<And>s m k. k \<in> fst ` set (columns s m) \<Longrightarrow> map_of row' k = map_of row k"
  shows "aligned row' t columns stream"
  using assms(1) assms(2) unfolding aligned_def
  by (auto split: option.split_asm prod.split_asm option.split) (metis fst_conv image_eqI)+

lemma pwm_row_aligned:
  assumes row: "pwm_row c (b, r, d) = Inr row"
    and sorted: "sorted (map fst (targets c))" "sorted (map fst (trackings c))" "sorted (map fst (thrusters c))"
  shows "map_of row ''pwm_stamp_ns'' = Some (CellInt b)
    \<and> aligned row b (target_columns b) (targets c) \<and> aligned row b (tracking_columns b) (trackings c)
    \<and> aligned row b (\<lambda>s m. thruster_columns b s m @ action_columns (tm_action m)) (thrusters c)"
proof -
  let ?th = "\<lambda>s m. thruster_columns b s m @ action_columns (tm_action m)"
  obtain utc where utc: "iso_utc b = Inr utc"
    using row by (auto simp: pwm_row_def err_simps)
  define row0 where "row0 = dict_update (board_columns b utc r d) (pwm_columns (bd_pwm_us d))"
  define row1 where "row1 = with_sample (target_columns b) (targets c) b row0"
  define row2 where "row2 = with_sample (tracking_columns b) (trackings c) b row1"
  have r: "row = with_sample ?th (thrusters c) b row2"
    using row by (simp add: pwm_row_def utc row0_def row1_def row2_def Let_def)
  have n0: "map_of row0 k = None" if "family k \<noteq> 0" for k
    unfolding row0_def by (rule dict_update_absent) (metis UnI1 UnI2 board_family that)+
  have k1: "map_of row1 k = map_of row0 k" if "family k \<noteq> 1" for k
    unfolding row1_def by (rule with_sample_other [OF sorted(1)]) (use that target_family in blast)
  have k2: "map_of row2 k = map_of row1 k" if "family k \<noteq> 2" for k
    unfolding row2_def by (rule with_sample_other [OF sorted(2)]) (use that tracking_family in blast)
  have k3: "map_of row k = map_of row2 k" if "family k \<noteq> 3" for k
    unfolding r by (rule with_sample_other [OF sorted(3)]) (use that thruster_family in blast)
  have "aligned row1 b (target_columns b) (targets c)"
    unfolding row1_def using n0 target_family by (intro with_sample_aligned sorted target_distinct) force
  then have "aligned row b (target_columns b) (targets c)"
    using k2 k3 target_family by (elim aligned_keep) force
  moreover have "aligned row2 b (tracking_columns b) (trackings c)"
    unfolding row2_def using n0 k1 tracking_family by (intro with_sample_aligned sorted tracking_distinct) force
  then have "aligned row b (tracking_columns b) (trackings c)"
    using k3 tracking_family by (elim aligned_keep) force
  moreover have "aligned row b ?th (thrusters c)"
    unfolding r using n0 k1 k2 thruster_family by (intro with_sample_aligned sorted thruster_distinct) force
  moreover have "family ''pwm_stamp_ns'' = 0"
    by (simp add: family_def)
  then have "map_of row ''pwm_stamp_ns'' = map_of row0 ''pwm_stamp_ns''"
    using k1 k2 k3 by simp
  moreover have "map_of row0 ''pwm_stamp_ns'' = Some (CellInt b)"
    unfolding row0_def by (subst dict_update_keeps) (auto simp: pwm_columns_def board_columns_def)
  ultimately show ?thesis
    by simp
qed

lemma add_fields_set: "set (foldl add_field names ks) = set names \<union> set ks \<and> (distinct names \<longrightarrow> distinct (foldl add_field names ks))"
  by (induction ks arbitrary: names) (auto simp: add_field_def)

text \<open>The header has every column of every row, so no cell is dropped.\<close>

lemma control_fields_cover: "control_fields rows = Inr names \<Longrightarrow> set names = (\<Union>r \<in> set rows. fst ` set r)"
proof -
  have "set (foldl (\<lambda>fs r. foldl add_field fs (map fst r)) names rest) = set names \<union> (\<Union>r \<in> set rest. fst ` set r)" for names and rest :: "table_row list"
    by (induction rest arbitrary: names) (auto simp: add_fields_set)
  note f = this
  assume "control_fields rows = Inr names"
  then obtain row rest where r: "rows = row # rest" "names = foldl (\<lambda>fs r. foldl add_field fs (map fst r)) (map fst row) rest"
    by (auto simp: control_fields_def split: list.split_asm)
  show ?thesis
    unfolding r(2) f by (simp add: r(1))
qed

section \<open>Reading a run\<close>

lemma read_run_parts:
  assumes "read_run repr text_of parse tt (Some ms) (Some lines) = Inr (rows, c)"
  obtains bag events c0 where "read_bag tt ms [] no_messages = Inr (bag, c0)" "read_events repr text_of parse 1 lines = Inr events"
    "rows = sort_key row_key (bag @ events)" "c = sort_streams c0"
  using assms by (auto simp: read_run_def err_simps)

lemma read_run_sorted:
  assumes "read_run repr text_of parse tt bag lines = Inr (rows, c)"
  shows "sorted (map row_key rows) \<and> sorted (map fst (boards c)) \<and> sorted (map fst (targets c)) \<and> sorted (map fst (trackings c))
    \<and> sorted (map fst (thrusters c))"
  using assms by (auto simp: read_run_def sort_streams_def err_simps split: option.split_asm)

lemma bag_row_parts:
  "bag_row tt m = Inr r \<Longrightarrow> row_source r = ''rosbag2'' \<and> topic_or_event r = topic_of (content m) \<and> payload_json r = payload_text m"
  by (auto simp: bag_row_def Let_def err_simps)

lemma read_bag_rows:
  "read_bag tt ms acc c = Inr (rows, c') \<Longrightarrow> \<exists>new. rows = acc @ new \<and> (\<forall>r \<in> set new. row_source r = ''rosbag2'')
    \<and> map (\<lambda>r. (topic_or_event r, payload_json r)) new = map (\<lambda>m. (topic_of (content m), payload_text m)) ms"
proof (induction ms arbitrary: acc c)
  case (Cons m ms)
  then obtain r where r: "bag_row tt m = Inr r" "read_bag tt ms (acc @ [r]) (add_message m c) = Inr (rows, c')"
    by (auto simp: err_simps)
  from Cons.IH [OF r(2)] bag_row_parts [OF r(1)] show ?case
    by fastforce
qed simp

lemma event_row_parts:
  "event_row repr text_of n v = Inr r \<Longrightarrow> row_source r = ''event_log'' \<and> event_line r = Some n"
  by (auto simp: event_row_def err_simps split: json_value.split_asm option.split_asm)

lemma read_events_rows:
  "read_events repr text_of parse n lines = Inr rows \<Longrightarrow> (\<forall>r \<in> set rows. row_source r = ''event_log'')
    \<and> map event_line rows = map (Some \<circ> fst) (filter (\<lambda>(k, l). py_strip l \<noteq> []) (enumerate n lines))"
proof (induction lines arbitrary: n rows)
  case (Cons l lines)
  show ?case
  proof (cases "py_strip l = []")
    case True
    with Cons show ?thesis by simp
  next
    case False
    then obtain v r rs where "event_row repr text_of n v = Inr r" "read_events repr text_of parse (Suc n) lines = Inr rs" "rows = r # rs"
      using Cons.prems by (auto simp: err_simps)
    then show ?thesis
      using Cons.IH [of "Suc n" rs] event_row_parts [of repr text_of n v r] False by simp
  qed
qed simp

lemma build_rows_nth:
  "build_rows c bs = Inr rows \<Longrightarrow> length rows = length bs \<and> (\<forall>i < length rows. pwm_row c (bs ! i) = Inr (rows ! i))"
proof (induction bs arbitrary: rows)
  case (Cons b bs)
  then obtain row rs where r: "pwm_row c b = Inr row" "build_rows c bs = Inr rs" "rows = row # rs"
    by (auto simp: err_simps)
  from Cons.IH [OF r(2)] r show ?case
    by (auto simp: nth_Cons split: nat.split)
qed simp

section \<open>The event log of the run logger\<close>

lemma civil_year:
  assumes "0 \<le> days" "days < 200000"
  shows "case civil_date days of (y, m, d) \<Rightarrow> 1 \<le> y \<and> y \<le> 9999"
proof -
  define z where "z = days + 719468"
  define doe where "doe = z mod 146097"
  have z: "4 \<le> z div 146097" "z div 146097 \<le> 6"
    using assms by (auto simp: z_def)
  have doe: "0 \<le> doe" "doe \<le> 146096"
    by (auto simp: doe_def)
  define q where "q = doe - doe div 1460 + doe div 36524 - doe div 146096"
  have part: "0 \<le> doe div k" "k * (doe div k) \<le> doe" if "0 < k" for k
    using that doe(1) by (simp_all add: pos_imp_zdiv_nonneg_iff minus_mod_eq_mult_div [symmetric])
  have "0 \<le> q" "q \<le> 365000"
    using doe part [of 1460] part [of 36524] part [of 146096] unfolding q_def by simp_all
  then have "0 \<le> q div 365" "q div 365 \<le> 1000"
    using zdiv_mono1 [of q 365000 365] by (simp_all add: pos_imp_zdiv_nonneg_iff)
  moreover have "fst (civil_date days) = q div 365 + 400 * (z div 146097) + (if fst (snd (civil_date days)) \<le> 2 then 1 else 0)"
    unfolding q_def doe_def z_def civil_date_def Let_def fst_conv snd_conv by (rule refl)
  ultimately have "1 \<le> fst (civil_date days)" "fst (civil_date days) \<le> 9999"
    using z by (auto split: if_split_asm)
  then show ?thesis
    by (simp add: split_beta)
qed

lemma iso_utc_total: "0 \<le> t \<Longrightarrow> t < 2 ^ 63 \<Longrightarrow> \<exists>s. iso_utc t = Inr s"
proof -
  assume t: "0 \<le> t" "t < 2 ^ 63"
  then have "0 \<le> t div 1000000000 div 86400" "t div 1000000000 div 86400 < 200000"
    by simp_all
  from civil_year [OF this] show ?thesis
    by (auto simp: iso_utc_def Let_def split: prod.split)
qed

lemma line_json_row:
  assumes "0 \<le> at_ns l" "at_ns l < 2 ^ 63"
  shows "\<exists>r. event_row repr text_of n (sort_keys (line_json l)) = Inr r \<and> timestamp_ns r = at_ns l \<and> topic_or_event r = kind l
    \<and> event_line r = Some n"
proof -
  define m where "m = [(''time'', JInt (at_ns l)), (''type'', JStr (kind l)), (''payload'', sort_keys (JObj (payload l)))]"
  have k: "sort_keys (line_json l) = JObj (sort_key fst m)"
    by (simp add: line_json_def m_def)
  have "distinct (map fst m)"
    by (simp add: m_def)
  then have lookup: "map_of (sort_key fst m) = map_of m"
    by (rule sorted_items)
  obtain s where "iso_utc (at_ns l) = Inr s"
    using iso_utc_total [OF assms] by blast
  then show ?thesis
    unfolding k by (simp add: event_row_def get_or_def lookup) (simp add: m_def get_or_def)
qed

lemma logged_lines:
  assumes "\<forall>l \<in> set ls. parse (dumps (line_json l)) = Inr (sort_keys (line_json l)) \<and> py_strip (dumps (line_json l)) \<noteq> [] \<and> 0 \<le> at_ns l \<and> at_ns l < 2 ^ 63"
  shows "\<exists>rows. read_events repr text_of parse n (map (\<lambda>l. dumps (line_json l)) ls) = Inr rows
    \<and> map (\<lambda>r. (timestamp_ns r, topic_or_event r, event_line r)) rows = map (\<lambda>(k, l). (at_ns l, kind l, Some k)) (enumerate n ls)"
  using assms
proof (induction ls arbitrary: n)
  case (Cons l ls)
  then obtain r where "event_row repr text_of n (sort_keys (line_json l)) = Inr r" "timestamp_ns r = at_ns l" "topic_or_event r = kind l"
      "event_line r = Some n"
    using line_json_row [of l repr text_of n] by auto
  moreover have "\<exists>rows. read_events repr text_of parse (Suc n) (map (\<lambda>l. dumps (line_json l)) ls) = Inr rows
      \<and> map (\<lambda>r. (timestamp_ns r, topic_or_event r, event_line r)) rows = map (\<lambda>(k, l). (at_ns l, kind l, Some k)) (enumerate (Suc n) ls)"
    by (rule Cons.IH) (use Cons.prems in simp)
  then obtain rows where "read_events repr text_of parse (Suc n) (map (\<lambda>l. dumps (line_json l)) ls) = Inr rows"
      "map (\<lambda>r. (timestamp_ns r, topic_or_event r, event_line r)) rows = map (\<lambda>(k, l). (at_ns l, kind l, Some k)) (enumerate (Suc n) ls)"
    by blast
  ultimately show ?case
    using Cons.prems by simp
qed simp

section \<open>An example run\<close>

definition demo_board :: board_status_msg where
  "demo_board = \<lparr>bd_tick_ms = 7, bd_connected = True, bd_heartbeat_ok = True, bd_failsafe_active = False, bd_session_established = True,
     bd_outputs_enabled = True, bd_received_sequence = 3, bd_applied_sequence = 3, bd_command_age_ms = 10, bd_rx_crc_errors = 0,
     bd_safety_reason = 0, bd_pwm_us = [1500, 1600]\<rparr>"

definition demo_target_msg :: target_msg where
  "demo_target_msg = \<lparr>target_frame = ''map'', target_position = Vector3 (Fin 1) (Fin 2) (Fin 3),
     target_orientation = Quaternion (Fin 1) (Fin 0) (Fin 0) (Fin 0), target_linear = Vector3 (Fin 0) (Fin 0) (Fin 0),
     target_angular = Vector3 (Fin 0) (Fin 0) (Fin 0), target_accel_linear = Vector3 (Fin 0) (Fin 0) (Fin 0),
     target_accel_angular = Vector3 (Fin 0) (Fin 0) (Fin 0), trajectory_type = ''hold'', control_mode = ''station_hold'',
     trajectory_phase = ''idle'', time_s = Fin 0, target_valid = True\<rparr>"

definition demo_bag :: "bag_message list" where
  "demo_bag =
     [\<lparr>content = TargetData demo_target_msg, stamp = Some (0, 3), bag_time_ns = 4, payload_text = ''a''\<rparr>,
      \<lparr>content = BoardData demo_board, stamp = Some (0, 5), bag_time_ns = 6, payload_text = ''b''\<rparr>,
      \<lparr>content = TargetData demo_target_msg, stamp = Some (0, 9), bag_time_ns = 9, payload_text = ''c''\<rparr>]"

definition demo_streams :: control_messages where
  "demo_streams = \<lparr>boards = [(5, 6, demo_board)], targets = [(3, 4, demo_target_msg), (9, 9, demo_target_msg)], trackings = [], thrusters = []\<rparr>"

lemma export_demo_read: "\<exists>rows. read_run (\<lambda>_. '''') (\<lambda>_. ''{}'') (\<lambda>_. Inr (JObj [(''time'', JInt 8)])) (\<lambda>t. t) (Some demo_bag) (Some [''line'', '' '']) = Inr (rows, demo_streams)"
proof -
  obtain s3 s5 s8 s9 where s: "iso_utc 3 = Inr s3" "iso_utc 5 = Inr s5" "iso_utc 8 = Inr s8" "iso_utc 9 = Inr s9"
    using iso_utc_total [of 3] iso_utc_total [of 5] iso_utc_total [of 8] iso_utc_total [of 9] by auto
  have "py_strip ''line'' \<noteq> []" "py_strip '' '' = []"
    by (simp_all add: py_strip_def is_space_def)
  with s show ?thesis
    by (simp add: read_run_def demo_bag_def demo_streams_def bag_row_def add_message_def message_stamp_ns_def no_messages_def event_row_def
        sort_streams_def Let_def)
qed

lemma demo_latest: "latest_message 5 (targets demo_streams) = Some (3, 4, demo_target_msg)"
  by (simp add: latest_message_def demo_streams_def)

lemma demo_table: "\<exists>row. build_pwm_rows demo_streams = Inr [row]"
proof -
  obtain s5 where "iso_utc 5 = Inr s5"
    using iso_utc_total [of 5] by auto
  then show ?thesis
    by (simp add: build_pwm_rows_def demo_streams_def pwm_row_def Let_def)
qed

section \<open>Properties\<close>

text \<open>C26: The aligned table is causal.  Every row of the export shows, for its board status, the columns of
  the latest_message target, tracking status and thruster command whose stamp is not after the board's, and no
  such columns when there is none: no row looks into the future, and no earlier message is shown in place
  of a later one.\<close>

theorem aligned_table_causal:
  assumes "read_run repr text_of parse tt bag lines = Inr (rows, c)" "build_pwm_rows c = Inr table" "i < length table"
  shows "length table = length (boards c) \<and> (case boards c ! i of (b, _, _) \<Rightarrow>
      map_of (table ! i) ''pwm_stamp_ns'' = Some (CellInt b)
      \<and> aligned (table ! i) b (target_columns b) (targets c) \<and> aligned (table ! i) b (tracking_columns b) (trackings c)
      \<and> aligned (table ! i) b (\<lambda>s m. thruster_columns b s m @ action_columns (tm_action m)) (thrusters c))"
proof -
  have "length table = length (boards c)" "pwm_row c (boards c ! i) = Inr (table ! i)"
    using build_rows_nth [of c "boards c" table] assms(2,3) by (simp_all add: build_pwm_rows_def)
  moreover obtain b r d where "boards c ! i = (b, r, d)"
    by (metis prod_cases3)
  ultimately show ?thesis
    using pwm_row_aligned [of c b r d "table ! i"] read_run_sorted [OF assms(1)] by simp
qed

theorem aligned_table_causal_witness:
  "\<exists>row. build_pwm_rows demo_streams = Inr [row] \<and> map_of row ''pwm_stamp_ns'' = Some (CellInt 5)
    \<and> map_of row ''target_stamp_ns'' = Some (CellInt 3) \<and> map_of row ''tracking_stamp_ns'' = None"
proof -
  obtain rows where r: "read_run (\<lambda>_. '''') (\<lambda>_. ''{}'') (\<lambda>_. Inr (JObj [(''time'', JInt 8)])) (\<lambda>t. t) (Some demo_bag) (Some [''line'', '' ''])
      = Inr (rows, demo_streams)"
    using export_demo_read by blast
  obtain row where row: "build_pwm_rows demo_streams = Inr [row]"
    using demo_table by blast
  have b: "boards demo_streams = [(5, 6, demo_board)]"
    by (simp add: demo_streams_def)
  have a: "map_of row ''pwm_stamp_ns'' = Some (CellInt 5)" "aligned row 5 (target_columns 5) (targets demo_streams)"
      "aligned row 5 (tracking_columns 5) (trackings demo_streams)"
    using aligned_table_causal [OF r row, of 0] by (simp_all add: b)
  have "map_of row ''target_stamp_ns'' = Some (CellInt 3)"
    using a(2) by (simp add: aligned_def demo_latest target_columns_def)
  moreover have "map_of row ''tracking_stamp_ns'' = None"
    using a(3) by (simp add: aligned_def latest_message_def demo_streams_def tracking_columns_def)
  ultimately show ?thesis
    using row a(1) by blast
qed

text \<open>The merged table is complete and ordered.  It has exactly one row per bag message and one per non-blank
  line of the event log, with the line's number, and is sorted by time, source and topic.\<close>

theorem merged_table_complete:
  assumes "read_run repr text_of parse tt (Some ms) (Some lines) = Inr (rows, c)"
  shows "sorted (map row_key rows)
    \<and> mset (map (\<lambda>r. (topic_or_event r, payload_json r)) (filter (\<lambda>r. row_source r = ''rosbag2'') rows))
        = mset (map (\<lambda>m. (topic_of (content m), payload_text m)) ms)
    \<and> mset (map event_line (filter (\<lambda>r. row_source r \<noteq> ''rosbag2'') rows))
        = mset (map (Some \<circ> fst) (filter (\<lambda>(k, l). py_strip l \<noteq> []) (enumerate 1 lines)))"
proof -
  obtain bag events c0 where p: "read_bag tt ms [] no_messages = Inr (bag, c0)" "read_events repr text_of parse 1 lines = Inr events"
    "rows = sort_key row_key (bag @ events)"
    by (rule read_run_parts [OF assms])
  note b = read_bag_rows [OF p(1)] and e = read_events_rows [OF p(2)]
  have "filter (\<lambda>r. row_source r = ''rosbag2'') (bag @ events) = bag" "filter (\<lambda>r. row_source r \<noteq> ''rosbag2'') (bag @ events) = events"
    using b e by (auto simp: filter_id_conv filter_empty_conv)
  moreover have "filter_mset P (mset rows) = mset (filter P (bag @ events))" for P :: "merged_row \<Rightarrow> bool"
    by (simp add: p(3))
  ultimately have m: "filter_mset (\<lambda>r. row_source r = ''rosbag2'') (mset rows) = mset bag"
      "filter_mset (\<lambda>r. row_source r \<noteq> ''rosbag2'') (mset rows) = mset events"
    by (simp_all only:)
  have "mset (map (\<lambda>r. (topic_or_event r, payload_json r)) bag) = mset (map (\<lambda>m. (topic_of (content m), payload_text m)) ms)"
    "mset (map event_line events) = mset (map (Some \<circ> fst) (filter (\<lambda>(k, l). py_strip l \<noteq> []) (enumerate 1 lines)))"
    using b e by simp_all
  with m read_run_sorted [OF assms] show ?thesis
    by (simp only: mset_map mset_filter)
qed

theorem merged_table_complete_witness:
  "\<exists>rows. read_run (\<lambda>_. '''') (\<lambda>_. ''{}'') (\<lambda>_. Inr (JObj [(''time'', JInt 8)])) (\<lambda>t. t) (Some demo_bag) (Some [''line'', '' '']) = Inr (rows, demo_streams)
    \<and> mset (map event_line (filter (\<lambda>r. row_source r \<noteq> ''rosbag2'') rows)) = {#Some 1#}"
proof -
  obtain rows where r: "read_run (\<lambda>_. '''') (\<lambda>_. ''{}'') (\<lambda>_. Inr (JObj [(''time'', JInt 8)])) (\<lambda>t. t) (Some demo_bag) (Some [''line'', '' ''])
      = Inr (rows, demo_streams)"
    using export_demo_read by blast
  have "py_strip ''line'' \<noteq> []" "py_strip '' '' = []"
    by (simp_all add: py_strip_def is_space_def)
  with merged_table_complete [OF r] r show ?thesis
    by (intro exI [of _ rows]) simp
qed

text \<open>What the run logger writes is exported line by line.  For a log of the run logger, written by
  \<^verbatim>\<open>json.dumps\<close> and parsed by \<^verbatim>\<open>json.loads\<close>, the export has one row per line, in order, with the line's
  time, its event type and its number.\<close>

theorem logger_lines_exported:
  assumes "\<forall>l \<in> set ls. parse (dumps (line_json l)) = Inr (sort_keys (line_json l)) \<and> py_strip (dumps (line_json l)) \<noteq> []
      \<and> 0 \<le> at_ns l \<and> at_ns l < 2 ^ 63"
  shows "\<exists>rows. read_events repr text_of parse 1 (map (\<lambda>l. dumps (line_json l)) ls) = Inr rows
    \<and> map (\<lambda>r. (timestamp_ns r, topic_or_event r, event_line r)) rows = map (\<lambda>(k, l). (at_ns l, kind l, Some k)) (enumerate 1 ls)"
  by (rule logged_lines [OF assms])

theorem logger_lines_exported_witness:
  "\<exists>rows. read_events (\<lambda>_. '''') (\<lambda>_. '''') (\<lambda>_. Inr (sort_keys (line_json \<lparr>at_ns = 5, kind = ''run_started'', payload = []\<rparr>))) 1 [''x''] = Inr rows
    \<and> map (\<lambda>r. (timestamp_ns r, topic_or_event r, event_line r)) rows = [(5, ''run_started'', Some 1)]"
  using logger_lines_exported [of "[\<lparr>at_ns = 5, kind = ''run_started'', payload = []\<rparr>]"
      "\<lambda>_. Inr (sort_keys (line_json \<lparr>at_ns = 5, kind = ''run_started'', payload = []\<rparr>))" "\<lambda>_. ''x''"]
  by (simp add: py_strip_def is_space_def)

end
