(* ===== verification/Host_Manager.thy ===== *)
theory Host_Manager
  imports Json_Value Path_Text
begin

text \<open>
  The host-management daemon, \<^verbatim>\<open>robotcore_host_manager/daemon.py\<close>: the allowlisted requests, the
  commands they run and the managed AprilTag map.  The operating system is the argument \<open>host\<close>: the
  outcome of a command, file metadata and the clock.  The managed map file is the state; it holds
  what reading and parsing it gives.  The command line, the socket and its group are not modelled.
\<close>

section \<open>Results that carry the commands run so far\<close>

type_synonym command_trace = "string list list"
type_synonym 'a logged = "command_trace \<times> (exc + 'a)"

definition silent :: "exc + 'a \<Rightarrow> 'a logged" where
  "silent r = ([], r)"

definition lbind :: "'a logged \<Rightarrow> ('a \<Rightarrow> 'b logged) \<Rightarrow> 'b logged" where
  "lbind m f =
     (case snd m of
        Inl e \<Rightarrow> (fst m, Inl e)
      | Inr x \<Rightarrow> (fst m @ fst (f x), snd (f x)))"

section \<open>The host\<close>

text \<open>\<^verbatim>\<open>subprocess.run\<close>: it completes, cannot be run or times out, or its output is not text.\<close>

datatype run_outcome = Completed int string string | NotRun string | Undecodable string

record host =
  run_command :: "string list \<Rightarrow> run_outcome"
  stat_char :: "string \<Rightarrow> bool option"
  can_read :: "string \<Rightarrow> bool"
  can_write :: "string \<Rightarrow> bool"
  is_dir :: "string \<Rightarrow> bool"
  rglob :: "string \<Rightarrow> string \<Rightarrow> string list"
  mtime :: "string \<Rightarrow> real"
  wall_time :: real

definition run_result :: "run_outcome \<Rightarrow> exc + json_object" where
  "run_result r =
     (case r of
        Completed code out err \<Rightarrow>
          Inr [(''ok'', JBool (code = 0)), (''returncode'', JInt code),
               (''output'', JStr (py_strip (if out \<noteq> '''' then out else err))), (''error'', JStr '''')]
      | NotRun msg \<Rightarrow> Inr [(''ok'', JBool False), (''returncode'', JNull), (''output'', JStr ''''), (''error'', JStr msg)]
      | Undecodable msg \<Rightarrow> Inl (ValueError msg))"

definition run_cmd :: "host \<Rightarrow> string list \<Rightarrow> json_object logged" where
  "run_cmd h cmd = ([cmd], run_result (run_command h cmd))"

definition MAX_REQUEST_BYTES :: nat where "MAX_REQUEST_BYTES = 16384"
definition MAX_LOG_LINES :: nat where "MAX_LOG_LINES = 120"

definition ALLOWED_ACTIONS :: "string list" where
  "ALLOWED_ACTIONS =
     [''status'', ''devices'', ''rosbag-status'', ''logs'', ''start'', ''stop'', ''restart'', ''maintenance-status'',
      ''apriltag-map'', ''apriltag-upsert'', ''apriltag-delete'']"

section \<open>Services\<close>

definition no_attribute :: "exc + 'a" where
  "no_attribute = Inl (AttributeError ''object has no attribute 'get'')"

definition services :: "json_object \<Rightarrow> json_value" where
  "services config = get_or config ''services'' (JObj [])"

definition service_name :: "json_object \<Rightarrow> string \<Rightarrow> exc + string" where
  "service_name config requested =
     (case services config of
        JObj m \<Rightarrow>
          (case map_of m requested of
             Some (JStr name) \<Rightarrow> if suffix ''.service'' name then Inr name else Inl (ValueError ''unknown managed service'')
           | _ \<Rightarrow> Inl (ValueError ''unknown managed service''))
      | _ \<Rightarrow> no_attribute)"

definition show_unit :: "string \<Rightarrow> string list" where
  "show_unit name = [''systemctl'', ''show'', name, ''--property=ActiveState,SubState,MainPID'', ''--no-page'']"

definition show_result :: "string \<Rightarrow> string list" where
  "show_result name = [''systemctl'', ''show'', name, ''--property=LoadState,ActiveState,SubState,Result'', ''--no-page'']"

definition journal :: "string \<Rightarrow> nat \<Rightarrow> string list" where
  "journal name lines =
     [''journalctl'', ''--unit'', name, ''--lines'', show_nat lines, ''--no-pager'', ''--output=short-iso'']"

fun status_of :: "host \<Rightarrow> json_object \<Rightarrow> string list \<Rightarrow> json_object logged" where
  "status_of h config [] = silent (Inr [])"
| "status_of h config (role # roles) =
     lbind (silent (service_name config role)) (\<lambda>name.
     lbind (run_cmd h (show_unit name)) (\<lambda>r.
     lbind (status_of h config roles) (\<lambda>rs. silent (Inr ((role, JObj r) # rs)))))"

definition service_status :: "host \<Rightarrow> json_object \<Rightarrow> json_object logged" where
  "service_status h config =
     (case services config of
        JObj m \<Rightarrow> status_of h config (sort (map fst m))
      | _ \<Rightarrow> silent no_attribute)"

definition logs :: "host \<Rightarrow> json_object \<Rightarrow> string \<Rightarrow> json_value logged" where
  "logs h config role =
     lbind (silent (service_name config role)) (\<lambda>name.
     lbind (run_cmd h (journal name MAX_LOG_LINES)) (\<lambda>r. silent (Inr (JObj r))))"

definition lifecycle :: "host \<Rightarrow> json_object \<Rightarrow> string \<Rightarrow> string \<Rightarrow> json_value logged" where
  "lifecycle h config act role =
     (if act \<notin> {''start'', ''stop'', ''restart''} then silent (Inl (ValueError ''unsupported lifecycle action''))
      else
        lbind (silent (service_name config role)) (\<lambda>name.
        lbind (run_cmd h [''systemctl'', act, name]) (\<lambda>r.
        lbind (run_cmd h (show_result name)) (\<lambda>st.
        let res = r @ [(''service'', JStr name), (''status'', JObj st)] in
        if truthy (get_or r ''ok'' JNull) then silent (Inr (JObj res))
        else lbind (run_cmd h (journal name 12)) (\<lambda>recent. silent (Inr (JObj (res @ [(''recent_logs'', JObj recent)]))))))))"

section \<open>Devices and recordings\<close>

text \<open>\<^verbatim>\<open>for x in value\<close>: a dictionary gives its keys, a text its characters.\<close>

fun items :: "json_value \<Rightarrow> exc + json_value list" where
  "items (JList vs) = Inr vs"
| "items (JObj m) = Inr (map (\<lambda>p. JStr (fst p)) m)"
| "items (JStr s) = Inr (map (\<lambda>c. JStr [c]) s)"
| "items _ = Inl (TypeError ''object is not iterable'')"

fun map_exc :: "('a \<Rightarrow> exc + 'b) \<Rightarrow> 'a list \<Rightarrow> exc + 'b list" where
  "map_exc f [] = Inr []"
| "map_exc f (x # xs) = ebind (f x) (\<lambda>y. ebind (map_exc f xs) (\<lambda>ys. Inr (y # ys)))"

definition device_entry :: "(json_value \<Rightarrow> string) \<Rightarrow> host \<Rightarrow> json_value \<Rightarrow> exc + json_value" where
  "device_entry repr h device =
     (case device of
        JObj d \<Rightarrow>
          let path = path_str (json_str repr (get_or d ''path'' (JStr ''''))); exists = (stat_char h path \<noteq> None) in
          Inr (JObj
            [(''name'', JStr (json_str repr (get_or d ''name'' (JStr (path_name path))))), (''path'', JStr path),
             (''required'', JBool (truthy (get_or d ''required'' (JBool False)))), (''exists'', JBool exists),
             (''character_device'', JBool (stat_char h path = Some True)),
             (''readable'', JBool (exists \<and> can_read h path)), (''writable'', JBool (exists \<and> can_write h path))])
      | _ \<Rightarrow> no_attribute)"

definition device_status :: "(json_value \<Rightarrow> string) \<Rightarrow> host \<Rightarrow> json_object \<Rightarrow> exc + json_value" where
  "device_status repr h config =
     ebind (items (get_or config ''devices'' (JList []))) (\<lambda>ds.
     ebind (map_exc (device_entry repr h) ds) (\<lambda>report. Inr (JList report)))"

text \<open>\<^verbatim>\<open>max(candidates, key=mtime)\<close>: the first of the latest.\<close>

fun latest_of :: "(string \<Rightarrow> real) \<Rightarrow> string list \<Rightarrow> string option" where
  "latest_of t [] = None"
| "latest_of t (p # ps) =
     (case latest_of t ps of None \<Rightarrow> Some p | Some q \<Rightarrow> Some (if t p < t q then q else p))"

text \<open>\<^verbatim>\<open>round(x, 3)\<close>, halves to the even thousandth.\<close>

definition round3 :: "real \<Rightarrow> real" where
  "round3 x =
     (let y = 1000 * x; n = \<lfloor>y\<rfloor>; d = y - of_int n in
      of_int (if d < 1 / 2 \<or> (d = 1 / 2 \<and> even n) then n else n + 1) / 1000)"

definition rosbag_status :: "(json_value \<Rightarrow> string) \<Rightarrow> host \<Rightarrow> json_object \<Rightarrow> exc + json_value" where
  "rosbag_status repr h config =
     (case get_or config ''rosbag'' (JObj []) of
        JObj m \<Rightarrow>
          let root = path_str (json_str repr (get_or m ''run_root'' (JStr ''/home/nvidia/robotcore_logs/runs''))) in
          ebind (json_int (get_or m ''stale_after_seconds'' (JInt 15))) (\<lambda>seconds.
          let stale_after = max 1 seconds;
              candidates =
                (if is_dir h root
                 then filter (\<lambda>p. ''rosbag2'' \<in> set (components p))
                        (concat (map (rglob h root) [''metadata.yaml'', ''*.db3'', ''*.mcap'']))
                 else []) in
          case latest_of (mtime h) candidates of
            None \<Rightarrow>
              Inr (JObj [(''root'', JStr root), (''recording_seen'', JBool False), (''fresh'', JBool False),
                         (''reason'', JStr ''no rosbag metadata found'')])
          | Some latest \<Rightarrow>
              let age = max 0 (wall_time h - mtime h latest) in
              Inr (JObj [(''root'', JStr root), (''recording_seen'', JBool True), (''fresh'', JBool (age \<le> real_of_int stale_after)),
                         (''latest_artifact'', JStr latest), (''age_seconds'', JFloat (Fin (round3 age))),
                         (''stale_after_seconds'', JInt stale_after)]))
      | _ \<Rightarrow> no_attribute)"

text \<open>\<^verbatim>\<open>dict(section)\<close> for a mapping; a maintenance section of another kind is not modelled further.\<close>

definition maintenance_status :: "json_object \<Rightarrow> exc + json_value" where
  "maintenance_status config =
     (case get_or config ''maintenance'' (JObj []) of
        JObj m \<Rightarrow> Inr (JObj m)
      | _ \<Rightarrow> Inl (TypeError ''cannot convert maintenance section to a dictionary''))"

section \<open>The managed AprilTag map\<close>

definition apriltag_config :: "(json_value \<Rightarrow> string) \<Rightarrow> json_object \<Rightarrow> exc + json_object \<times> string" where
  "apriltag_config repr config =
     (case get_or config ''apriltag_map'' (JObj []) of
        JObj m \<Rightarrow>
          let raw = json_str repr (get_or m ''path'' (JStr '''')) in
          if \<not> is_absolute raw \<or> path_name raw = ''''
          then Inl (ValueError ''apriltag_map.path must be an absolute file path'')
          else Inr (m, path_str raw)
      | _ \<Rightarrow> Inl (ValueError ''apriltag_map configuration is missing''))"

definition web_edit :: "json_object \<Rightarrow> bool" where
  "web_edit m \<longleftrightarrow> truthy (get_or m ''web_edit_enabled'' (JBool False))"

text \<open>What reading and parsing the managed file gives: the state of the map.\<close>

type_synonym stored = "exc + json_value"

definition tag_map_document :: "stored \<Rightarrow> exc + json_object \<times> json_object" where
  "tag_map_document stored =
     ebind stored (\<lambda>d. case d of
       JObj m \<Rightarrow>
         (case map_of m ''tags'' of
            Some (JObj tags) \<Rightarrow> Inr (m, tags)
          | _ \<Rightarrow> Inl (ValueError ''managed AprilTag map must be a JSON object with tags''))
     | _ \<Rightarrow> Inl (ValueError ''managed AprilTag map must be a JSON object with tags''))"

text \<open>\<^verbatim>\<open>except (TypeError, ValueError)\<close>: other exceptions pass.\<close>

fun recast :: "string \<Rightarrow> exc + 'a \<Rightarrow> exc + 'a" where
  "recast msg (Inl (TypeError _)) = Inl (ValueError msg)"
| "recast msg (Inl (ValueError _)) = Inl (ValueError msg)"
| "recast msg r = r"

definition in_range :: "real \<Rightarrow> pyfloat \<Rightarrow> real \<Rightarrow> bool" where
  "in_range lo v hi \<longleftrightarrow> flt_le (Fin lo) v \<and> flt_le v (Fin hi)"

definition finite_vector ::
  "(string \<Rightarrow> pyfloat option) \<Rightarrow> json_value \<Rightarrow> string \<Rightarrow> real \<Rightarrow> real \<Rightarrow> string \<Rightarrow> exc + pyfloat list" where
  "finite_vector parse_float raw label lo hi bounds =
     ebind (recast (label @ '' must contain three numbers'') (ebind (items raw) (map_exc (json_float parse_float)))) (\<lambda>values.
     if length values \<noteq> 3 \<or> list_ex (\<lambda>v. \<not> in_range lo v hi) values
     then Inl (ValueError (label @ '' values must be finite and within '' @ bounds))
     else Inr values)"

definition validated_tag_id :: "(json_value \<Rightarrow> string) \<Rightarrow> json_value \<Rightarrow> exc + int" where
  "validated_tag_id repr raw_id =
     (case raw_id of
        JBool _ \<Rightarrow> Inl (ValueError ''tag id must be an integer'')
      | _ \<Rightarrow>
          ebind (recast ''tag id must be an integer'' (json_int raw_id)) (\<lambda>tag_id.
          if \<not> (0 \<le> tag_id \<and> tag_id \<le> 65535) \<or> decimal tag_id \<noteq> py_strip (json_str repr raw_id)
          then Inl (ValueError ''tag id must be an unsigned integer from 0 to 65535'')
          else Inr tag_id))"

definition validated_tag ::
  "(json_value \<Rightarrow> string) \<Rightarrow> (string \<Rightarrow> pyfloat option) \<Rightarrow> json_value \<Rightarrow> exc + int \<times> json_object" where
  "validated_tag repr parse_float tag =
     (case tag of
        JObj t \<Rightarrow>
          ebind (validated_tag_id repr (get_or t ''id'' JNull)) (\<lambda>tag_id.
          ebind (finite_vector parse_float (get_or t ''position_m'' JNull) ''position_m'' (- 100) 100 ''[-100.0, 100.0]'') (\<lambda>position_m.
          ebind (finite_vector parse_float (get_or t ''rpy_deg'' JNull) ''rpy_deg'' (- 360) 360 ''[-360.0, 360.0]'') (\<lambda>rpy_deg.
          ebind (recast ''size_m must be a number'' (json_float parse_float (get_or t ''size_m'' JNull))) (\<lambda>size_m.
          if \<not> in_range (1 / 100) size_m 2 then Inl (ValueError ''size_m must be between 0.01 and 2.0 metres'')
          else Inr (tag_id, [(''position_m'', JList (map JFloat position_m)), (''rpy_deg'', JList (map JFloat rpy_deg)),
                             (''size_m'', JFloat size_m)])))))
      | _ \<Rightarrow> Inl (ValueError ''tag must be an object''))"

text \<open>
  \<^verbatim>\<open>_write_apriltag_map\<close>: the file is replaced as a whole or, when a step raises, left as it was.
\<close>

definition write_map :: "exc option \<Rightarrow> json_value \<Rightarrow> stored \<Rightarrow> stored \<times> (exc + unit)" where
  "write_map io document stored =
     (case io of Some e \<Rightarrow> (stored, Inl e) | None \<Rightarrow> (Inr (sort_keys document), Inr ()))"

text \<open>\<^verbatim>\<open>sorted(tags, key=int)\<close> converts every key first.\<close>

definition tag_number :: "string \<Rightarrow> exc + int" where
  "tag_number raw = json_int (JStr raw)"

definition tag_entry :: "int \<times> json_value \<Rightarrow> exc + json_value" where
  "tag_entry t =
     (case snd t of
        JObj d \<Rightarrow> Inr (JObj (dict_merge [(''id'', JInt (fst t))] d))
      | _ \<Rightarrow> Inl (TypeError ''object is not a mapping''))"

definition tag_list :: "json_object \<Rightarrow> exc + json_value list" where
  "tag_list tags =
     ebind (map_exc (\<lambda>(raw, d). ebind (tag_number raw) (\<lambda>n. Inr (n, d))) tags) (\<lambda>numbered.
     map_exc tag_entry (sort_key fst numbered))"

definition apriltag_map :: "(json_value \<Rightarrow> string) \<Rightarrow> json_object \<Rightarrow> stored \<Rightarrow> exc + json_value" where
  "apriltag_map repr config stored =
     ebind (apriltag_config repr config) (\<lambda>(m, path).
     ebind (tag_map_document stored) (\<lambda>(document, tags).
     ebind (tag_list tags) (\<lambda>ts.
     Inr (JObj [(''accepted'', JBool True), (''path'', JStr path), (''web_edit_enabled'', JBool (web_edit m)),
                (''tags'', JList ts)]))))"

text \<open>The first half of \<^verbatim>\<open>upsert_apriltag\<close>, up to the write: the changed document and its tags.\<close>

definition rename :: "int \<Rightarrow> int \<Rightarrow> json_object \<Rightarrow> exc + json_object" where
  "rename previous tag_id tags =
     (if previous = tag_id then Inr tags
      else if map_of tags (decimal previous) = None
      then Inl (ValueError (''tag '' @ decimal previous @ '' does not exist in the managed AprilTag map''))
      else if map_of tags (decimal tag_id) \<noteq> None
      then Inl (ValueError (''tag '' @ decimal tag_id @ '' already exists in the managed AprilTag map''))
      else Inr (dict_del (decimal previous) tags))"

record edit =
  edit_document :: json_value
  edit_tags :: json_object
  edit_answer :: "json_value list \<Rightarrow> json_value"

definition with_tags :: "json_object \<Rightarrow> json_object \<Rightarrow> json_value" where
  "with_tags document tags = JObj (dict_set ''tags'' (JObj tags) document)"

definition upsert_edit ::
  "(json_value \<Rightarrow> string) \<Rightarrow> (string \<Rightarrow> pyfloat option) \<Rightarrow> json_object \<Rightarrow> json_value \<Rightarrow> json_value \<Rightarrow> stored \<Rightarrow> exc + edit" where
  "upsert_edit repr parse_float config tag replace_tag_id stored =
     ebind (apriltag_config repr config) (\<lambda>(m, path).
     if \<not> web_edit m then Inl (ValueError ''AprilTag web editing is disabled by host-manager policy'')
     else
       ebind (validated_tag repr parse_float tag) (\<lambda>(tag_id, d).
       ebind (if replace_tag_id = JNull then Inr tag_id else validated_tag_id repr replace_tag_id) (\<lambda>previous.
       ebind (tag_map_document stored) (\<lambda>(document, tags).
       ebind (rename previous tag_id tags) (\<lambda>kept.
       let tags' = dict_set (decimal tag_id) (JObj d) kept;
           operation = (if previous \<noteq> tag_id then ''renamed tag '' @ decimal previous @ '' to '' @ decimal tag_id
                        else ''saved tag '' @ decimal tag_id) in
       Inr \<lparr>edit_document = with_tags document tags', edit_tags = tags',
            edit_answer = (\<lambda>ts. JObj
              [(''accepted'', JBool True), (''message'', JStr (operation @ ''; localization will reload the map file'')),
               (''path'', JStr path), (''tag'', JObj (dict_merge [(''id'', JInt tag_id)] d)),
               (''previous_tag_id'', JInt previous), (''tags'', JList ts)])\<rparr>)))))"

definition delete_edit :: "(json_value \<Rightarrow> string) \<Rightarrow> json_object \<Rightarrow> json_value \<Rightarrow> stored \<Rightarrow> exc + edit" where
  "delete_edit repr config raw_tag_id stored =
     ebind (apriltag_config repr config) (\<lambda>(m, path).
     if \<not> web_edit m then Inl (ValueError ''AprilTag web editing is disabled by host-manager policy'')
     else
       ebind (validated_tag_id repr raw_tag_id) (\<lambda>tag_id.
       ebind (tag_map_document stored) (\<lambda>(document, tags).
       if map_of tags (decimal tag_id) = None
       then Inl (ValueError (''tag '' @ decimal tag_id @ '' does not exist in the managed AprilTag map''))
       else
         let tags' = dict_del (decimal tag_id) tags in
         Inr \<lparr>edit_document = with_tags document tags', edit_tags = tags',
              edit_answer = (\<lambda>ts. JObj
                [(''accepted'', JBool True),
                 (''message'', JStr (''deleted tag '' @ decimal tag_id @ ''; localization will reload the map file'')),
                 (''path'', JStr path), (''tag_id'', JInt tag_id), (''tags'', JList ts)])\<rparr>)))"

text \<open>The second half: the write, then the answer, which lists the tags.\<close>

definition commit_edit :: "exc option \<Rightarrow> edit \<Rightarrow> stored \<Rightarrow> stored \<times> (exc + json_value)" where
  "commit_edit io ed stored =
     (case write_map io (edit_document ed) stored of
        (stored', Inl e) \<Rightarrow> (stored', Inl e)
      | (stored', Inr _) \<Rightarrow> (stored', ebind (tag_list (edit_tags ed)) (\<lambda>ts. Inr (edit_answer ed ts))))"

definition apply_edit :: "exc option \<Rightarrow> exc + edit \<Rightarrow> stored \<Rightarrow> stored \<times> (exc + json_value)" where
  "apply_edit io ed stored = (case ed of Inl e \<Rightarrow> (stored, Inl e) | Inr x \<Rightarrow> commit_edit io x stored)"

section \<open>Requests\<close>

text \<open>The interpreter's number and text conversions, and the host, as one argument.\<close>

record platform =
  repr :: "json_value \<Rightarrow> string"
  parse_float :: "string \<Rightarrow> pyfloat option"
  machine :: host

definition edit_of :: "platform \<Rightarrow> json_object \<Rightarrow> json_object \<Rightarrow> stored \<Rightarrow> exc + edit" where
  "edit_of p config request stored =
     (if json_str (repr p) (get_or request ''action'' (JStr '''')) = ''apriltag-upsert''
      then upsert_edit (repr p) (parse_float p) config (get_or request ''tag'' JNull) (get_or request ''replace_tag_id'' JNull) stored
      else delete_edit (repr p) config (get_or request ''tag_id'' JNull) stored)"

definition handle ::
  "platform \<Rightarrow> json_object \<Rightarrow> exc option \<Rightarrow> json_object \<Rightarrow> stored \<Rightarrow> stored \<times> json_value logged" where
  "handle p config io request stored =
     (let act = json_str (repr p) (get_or request ''action'' (JStr ''''));
          role = json_str (repr p) (get_or request ''service'' (JStr ''''));
          h = machine p; keep = (\<lambda>r. (stored, r)) in
      if act \<notin> set ALLOWED_ACTIONS then keep (silent (Inl (ValueError ''action is not permitted'')))
      else if act = ''status'' then keep (
        lbind (service_status h config) (\<lambda>sv.
        lbind (silent (device_status (repr p) h config)) (\<lambda>ds.
        lbind (silent (rosbag_status (repr p) h config)) (\<lambda>rb.
        silent (Inr (JObj [(''services'', JObj sv), (''devices'', ds), (''rosbag'', rb)]))))))
      else if act = ''devices'' then keep (lbind (silent (device_status (repr p) h config)) (\<lambda>ds. silent (Inr (JObj [(''devices'', ds)]))))
      else if act = ''rosbag-status'' then keep (silent (rosbag_status (repr p) h config))
      else if act = ''maintenance-status'' then keep (silent (maintenance_status config))
      else if act = ''apriltag-map'' then keep (silent (apriltag_map (repr p) config stored))
      else if act = ''apriltag-upsert'' \<or> act = ''apriltag-delete'' then
        (case apply_edit io (edit_of p config request stored) stored of (stored', r) \<Rightarrow> (stored', silent r))
      else if act = ''logs'' then keep (logs h config role)
      else keep (lifecycle h config act role))"

definition load_config :: "exc + json_value \<Rightarrow> exc + json_object" where
  "load_config loaded =
     ebind loaded (\<lambda>d. case d of
       JObj m \<Rightarrow>
         if get_or m ''schema_version'' JNull \<notin> {JInt 1, JBool True, JFloat (Fin 1)}
         then Inl (ValueError ''unsupported host-manager configuration'')
         else (case get_or m ''services'' JNull of
                 JObj _ \<Rightarrow> Inr m
               | _ \<Rightarrow> Inl (ValueError ''configuration must define managed services''))
     | _ \<Rightarrow> Inl (ValueError ''unsupported host-manager configuration''))"

text \<open>One request line; \<open>parse\<close> is decoding and \<^verbatim>\<open>json.loads\<close>.  An exception that is not a
  \<^verbatim>\<open>ValueError\<close> leaves the handler and no answer is written.\<close>

definition read_line :: "nat \<Rightarrow> string \<Rightarrow> string" where
  "read_line limit s =
     take limit (takeWhile (\<lambda>c. of_char c \<noteq> (10 :: nat)) s @ take 1 (dropWhile (\<lambda>c. of_char c \<noteq> (10 :: nat)) s))"

definition error_answer :: "string \<Rightarrow> json_value" where
  "error_answer msg = JObj [(''ok'', JBool False), (''error'', JStr msg)]"

fun answer_of :: "exc + json_value \<Rightarrow> json_value option" where
  "answer_of (Inr r) = Some (JObj [(''ok'', JBool True), (''result'', r)])"
| "answer_of (Inl (ValueError msg)) = Some (error_answer msg)"
| "answer_of (Inl _) = None"

definition serve_request ::
  "platform \<Rightarrow> (string \<Rightarrow> exc + json_value) \<Rightarrow> json_object \<Rightarrow> exc option \<Rightarrow> string \<Rightarrow> stored \<Rightarrow> stored \<times> command_trace \<times> json_value option" where
  "serve_request p parse config io input stored =
     (let raw = read_line (MAX_REQUEST_BYTES + 1) input in
      if length raw > MAX_REQUEST_BYTES then (stored, [], Some (error_answer ''request too large''))
      else case ebind (parse raw) (\<lambda>v. case v of JObj m \<Rightarrow> Inr m | _ \<Rightarrow> Inl (ValueError ''request must be an object'')) of
          Inl e \<Rightarrow> (stored, [], answer_of (Inl e))
        | Inr request \<Rightarrow> (case handle p config io request stored of (stored', trace, r) \<Rightarrow> (stored', trace, answer_of r)))"

end
