(* ===== verification/Host_Safety.thy ===== *)
theory Host_Safety
  imports Host_Manager
begin

text \<open>
  Properties of the host-management daemon: only allowlisted commands on configured units are run, the
  managed map file refines a finite map from tag numbers to definitions, and where the daemon falls
  short (requests that get no answer, an edit reported as failed after the write, a lost update).
\<close>

section \<open>Numbers and their text\<close>

lemma digits_value_digits:
  "list_all is_digit s \<Longrightarrow> s \<noteq> [] \<Longrightarrow> digits_value acc s = Some (foldl (\<lambda>a c. 10 * a + digit_value c) acc s)"
proof (induction acc s rule: digits_value.induct)
  case (3 acc c d cs)
  have "d \<noteq> CHR ''_''"
    using 3(3) by (auto simp: is_digit_def)
  with 3 show ?case
    by simp
qed simp_all

lemma strip_digits:
  assumes "list_all is_digit s"
  shows "py_strip s = s"
proof -
  have no_space: "is_digit c \<Longrightarrow> \<not> is_space c" for c
    by (auto simp: is_digit_def is_space_def Let_def)
  have keep: "list_all is_digit t \<Longrightarrow> dropWhile is_space t = t" for t
    using no_space by (cases t) auto
  show ?thesis
    using assms by (simp add: py_strip_def keep)
qed

lemma int_of_decimal: "int_of_text (decimal (int n)) = Some (int n)"
proof -
  obtain c cs where s: "show_nat n = c # cs"
    using show_nat_digits [of n] by (cases "show_nat n") auto
  have "is_digit c"
    using show_nat_digits [of n] by (simp add: s)
  then have "c \<noteq> CHR ''-''" "c \<noteq> CHR ''+''"
    by (auto simp: is_digit_def)
  moreover have "py_strip (show_nat n) = show_nat n" "digits_value 0 (show_nat n) = Some n"
    using show_nat_digits [of n] by (simp_all add: strip_digits digits_value_digits show_nat_value)
  ultimately show ?thesis
    by (simp add: int_of_text_def decimal_def s)
qed

lemma decimal_inj: "decimal (int a) = decimal (int b) \<longleftrightarrow> a = b"
  by (metis int_of_decimal option.inject of_nat_eq_iff)

lemma tag_number_decimal: "tag_number (decimal (int n)) = Inr (int n)"
  by (simp add: tag_number_def int_of_decimal)

section \<open>Commands\<close>

text \<open>The commands the policy allows: on the unit of a configured role only.\<close>

definition managed :: "json_object \<Rightarrow> string \<Rightarrow> bool" where
  "managed config name \<longleftrightarrow> (\<exists>role. service_name config role = Inr name)"

definition read_only :: "string \<Rightarrow> string list set" where
  "read_only name = {show_unit name, show_result name, journal name MAX_LOG_LINES, journal name 12}"

definition permitted :: "json_object \<Rightarrow> string \<Rightarrow> string \<Rightarrow> string list \<Rightarrow> bool" where
  "permitted config act role cmd \<longleftrightarrow>
     (\<exists>name. managed config name \<and> cmd \<in> read_only name)
     \<or> (act \<in> {''start'', ''stop'', ''restart''} \<and> (\<exists>name. service_name config role = Inr name \<and> cmd = [''systemctl'', act, name]))"

definition permits :: "json_object \<Rightarrow> string \<Rightarrow> string \<Rightarrow> 'a logged \<Rightarrow> bool" where
  "permits config act role m \<longleftrightarrow> list_all (permitted config act role) (fst m)"

lemma permits_silent [simp]: "permits config act role (silent r)"
  by (simp add: permits_def silent_def)

lemma silent_simps [simp]: "fst (silent r) = []" "snd (silent r) = r"
  by (simp_all add: silent_def)

lemma permits_lbind:
  "permits config act role m \<Longrightarrow> (\<And>x. snd m = Inr x \<Longrightarrow> permits config act role (f x)) \<Longrightarrow> permits config act role (lbind m f)"
  by (auto simp: permits_def lbind_def split: sum.split)

lemma permits_run: "permitted config act role cmd \<Longrightarrow> permits config act role (run_cmd h cmd)"
  by (simp add: permits_def run_cmd_def)

lemma permitted_read: "service_name config role' = Inr name \<Longrightarrow> cmd \<in> read_only name \<Longrightarrow> permitted config act role cmd"
  by (auto simp: permitted_def managed_def)

lemma permits_status_of: "permits config act role (status_of h config roles)"
  by (induction roles) (auto intro!: permits_lbind permits_run intro: permitted_read simp: read_only_def)

lemma permits_service_status: "permits config act role (service_status h config)"
  by (simp add: service_status_def permits_status_of split: json_value.split)

lemma permits_logs: "permits config act role (logs h config role)"
  unfolding logs_def
  by (auto intro!: permits_lbind permits_run intro: permitted_read simp: read_only_def)

lemma permits_lifecycle: "permits config act role (lifecycle h config act role)"
proof (cases "act \<in> {''start'', ''stop'', ''restart''}")
  case True
  have start: "permitted config act role [''systemctl'', act, name]" if "service_name config role = Inr name" for name
    using that True by (auto simp: permitted_def)
  have "permitted config act role (show_result name)" "permitted config act role (journal name 12)"
    if "service_name config role = Inr name" for name
    using that by (auto intro!: permitted_read simp: read_only_def)
  with start True show ?thesis
    by (auto simp: lifecycle_def Let_def intro!: permits_lbind permits_run)
next
  case False
  then show ?thesis
    by (simp add: lifecycle_def)
qed

lemma handle_permits:
  "permits config (json_str (repr p) (get_or request ''action'' (JStr ''''))) (json_str (repr p) (get_or request ''service'' (JStr '''')))
     (snd (handle p config io request stored))"
  by (auto simp: handle_def Let_def permits_service_status permits_logs permits_lifecycle case_prod_beta intro!: permits_lbind)

lemma serve_request_cases:
  obtains (refused) ans where "serve_request p parse config io input stored = (stored, [], ans)"
  | (handled) request where "parse (read_line (MAX_REQUEST_BYTES + 1) input) = Inr (JObj request)"
      "serve_request p parse config io input stored =
         (fst (handle p config io request stored), fst (snd (handle p config io request stored)),
          answer_of (snd (snd (handle p config io request stored))))"
proof (cases "length (read_line (MAX_REQUEST_BYTES + 1) input) > MAX_REQUEST_BYTES")
  case True
  with refused show thesis
    by (simp add: serve_request_def)
next
  case False
  show thesis
  proof (cases "parse (read_line (MAX_REQUEST_BYTES + 1) input)")
    case (Inl e)
    with False refused show thesis
      by (simp add: serve_request_def)
  next
    case (Inr v)
    with False refused handled show thesis
      by (cases v) (simp_all add: serve_request_def case_prod_beta)
  qed
qed

section \<open>Well-formed map files\<close>

text \<open>Canonical tag numbers, each once, and every definition an object without a key \<open>id\<close>.\<close>

definition canonical_key :: "string \<Rightarrow> bool" where
  "canonical_key key \<longleftrightarrow> (\<exists>n. key = decimal (int n) \<and> n \<le> 65535)"

definition good_tags :: "json_object \<Rightarrow> bool" where
  "good_tags tags \<longleftrightarrow> distinct (map fst tags)
     \<and> (\<forall>(key, d) \<in> set tags. canonical_key key \<and> (\<exists>m. d = JObj m \<and> ''id'' \<notin> fst ` set m))"

definition good_stored :: "stored \<Rightarrow> bool" where
  "good_stored stored \<longleftrightarrow>
     (\<exists>m tags. stored = Inr (JObj m) \<and> distinct (map fst m) \<and> map_of m ''tags'' = Some (JObj tags) \<and> good_tags tags)"

text \<open>The abstract map: tag numbers to definitions, whose keys are in order.\<close>

type_synonym tag_map = "nat \<rightharpoonup> json_value"

definition tags_abs :: "json_object \<Rightarrow> tag_map" where
  "tags_abs tags n = map_option sort_keys (map_of tags (decimal (int n)))"

definition map_abs :: "stored \<Rightarrow> tag_map" where
  "map_abs stored = (case tag_map_document stored of Inl e \<Rightarrow> Map.empty | Inr (m, tags) \<Rightarrow> tags_abs tags)"

lemma good_storedE:
  assumes "good_stored stored"
  obtains m tags where "stored = Inr (JObj m)" "distinct (map fst m)" "map_of m ''tags'' = Some (JObj tags)" "good_tags tags"
    "tag_map_document stored = Inr (m, tags)" "map_abs stored = tags_abs tags"
  using assms by (auto simp: good_stored_def tag_map_document_def map_abs_def)

lemma sort_items_idem:
  fixes f :: "string \<times> 'a \<Rightarrow> string \<times> 'b"
  assumes "\<And>p. fst (f p) = fst p"
  shows "sort_key fst (map f (sort_key fst m)) = map f (sort_key fst m)"
proof (rule sort_key_id_if_sorted)
  have "fst \<circ> f = fst"
    using assms by auto
  then show "sorted (map fst (map f (sort_key fst m)))"
    by simp
qed

lemma sort_keys_idem: "sort_keys (sort_keys v) = sort_keys v"
proof (induction v rule: sort_keys.induct)
  case (2 m)
  let ?f = "\<lambda>(k, v). (k, sort_keys v)"
  have "map ?f (sort_key fst (map ?f m)) = sort_key fst (map ?f m)"
    using 2 by (intro map_idI) auto
  then show ?case
    using sort_items_idem [of ?f "map ?f m"] by (simp add: case_prod_beta)
qed (simp_all cong: map_cong)

definition sorted_tags :: "json_object \<Rightarrow> json_object" where
  "sorted_tags tags = sort_key fst (map (\<lambda>(k, v). (k, sort_keys v)) tags)"

lemma sorted_tags_abs: "distinct (map fst tags) \<Longrightarrow> tags_abs (sorted_tags tags) = tags_abs tags"
proof -
  assume d: "distinct (map fst tags)"
  have "distinct (map fst (map (\<lambda>(k, v). (k, sort_keys v)) tags))"
    using d by (simp add: case_prod_beta comp_def)
  then have "map_of (sorted_tags tags) k = map_option sort_keys (map_of tags k)" for k
    by (simp add: sorted_tags_def sorted_items(1) map_of_map_sort)
  then show ?thesis
    by (simp add: tags_abs_def fun_eq_iff option.map_comp comp_def sort_keys_idem)
qed

lemma sorted_tags_good:
  assumes "good_tags tags"
  shows "good_tags (sorted_tags tags)"
proof -
  have d: "distinct (map fst (map (\<lambda>(k, v). (k, sort_keys v)) tags))"
    using assms by (simp add: good_tags_def case_prod_beta comp_def)
  have "canonical_key key \<and> (\<exists>m. v = JObj m \<and> ''id'' \<notin> fst ` set m)" if "(key, v) \<in> set (sorted_tags tags)" for key v
  proof -
    obtain w where w: "(key, w) \<in> set tags" "v = sort_keys w"
      using \<open>(key, v) \<in> set (sorted_tags tags)\<close> by (auto simp: sorted_tags_def)
    then obtain m where "canonical_key key" "w = JObj m" "''id'' \<notin> fst ` set m"
      using assms by (auto simp: good_tags_def)
    with w(2) show ?thesis
      by force
  qed
  then have "\<forall>(key, v) \<in> set (sorted_tags tags). canonical_key key \<and> (\<exists>m. v = JObj m \<and> ''id'' \<notin> fst ` set m)"
    by blast
  then show ?thesis
    using sorted_items(2) [OF d] unfolding good_tags_def sorted_tags_def by blast
qed

lemma written_items:
  assumes "distinct (map fst m)"
  shows "\<exists>items. sort_keys (with_tags m tags) = JObj items \<and> distinct (map fst items)
    \<and> map_of items ''tags'' = Some (JObj (sorted_tags tags))"
proof -
  let ?m = "map (\<lambda>(k, v). (k, sort_keys v)) (dict_set ''tags'' (JObj tags) m)"
  have d: "distinct (map fst ?m)"
    using distinct_dict_set [OF assms] by (simp add: case_prod_beta comp_def)
  have "map_of (sort_key fst ?m) ''tags'' = Some (JObj (sorted_tags tags))"
    by (simp add: sorted_items(1) [OF d] map_of_map_sort map_of_dict_set sorted_tags_def)
  then show ?thesis
    using sorted_items(2) [OF d] by (simp add: with_tags_def)
qed

lemma written_abs:
  assumes "distinct (map fst tags)" "distinct (map fst m)"
  shows "map_abs (Inr (sort_keys (with_tags m tags))) = tags_abs tags"
  using written_items [OF assms(2), of tags] sorted_tags_abs [OF assms(1)] by (auto simp: map_abs_def tag_map_document_def)

lemma written_good:
  assumes "good_tags tags" "distinct (map fst m)"
  shows "good_stored (Inr (sort_keys (with_tags m tags)))" "map_abs (Inr (sort_keys (with_tags m tags))) = tags_abs tags"
proof -
  show "good_stored (Inr (sort_keys (with_tags m tags)))"
    using written_items [OF assms(2), of tags] sorted_tags_good [OF assms(1)] by (auto simp: good_stored_def)
  show "map_abs (Inr (sort_keys (with_tags m tags))) = tags_abs tags"
    using assms by (intro written_abs) (simp_all add: good_tags_def)
qed

lemma good_tags_set:
  assumes "good_tags tags" "n \<le> 65535" "''id'' \<notin> fst ` set d"
  shows "good_tags (dict_set (decimal (int n)) (JObj d) tags)"
    "tags_abs (dict_set (decimal (int n)) (JObj d) tags) = (tags_abs tags)(n \<mapsto> sort_keys (JObj d))"
proof -
  have "set (dict_set k v m) \<subseteq> insert (k, v) (set m)" for k v and m :: json_object
    by (induction k v m rule: dict_set.induct) auto
  then have "set (dict_set (decimal (int n)) (JObj d) tags) \<subseteq> insert (decimal (int n), JObj d) (set tags)" .
  then show "good_tags (dict_set (decimal (int n)) (JObj d) tags)"
    using assms by (auto simp: good_tags_def distinct_dict_set canonical_key_def)
  show "tags_abs (dict_set (decimal (int n)) (JObj d) tags) = (tags_abs tags)(n \<mapsto> sort_keys (JObj d))"
    by (auto simp: tags_abs_def fun_eq_iff map_of_dict_set decimal_inj)
qed

lemma good_tags_del:
  assumes "good_tags tags"
  shows "good_tags (dict_del (decimal (int n)) tags)"
    "tags_abs (dict_del (decimal (int n)) tags) = (tags_abs tags)(n := None)"
  using assms
  by (auto simp: good_tags_def distinct_dict_del tags_abs_def fun_eq_iff map_of_dict_del decimal_inj) (auto simp: dict_del_def)

text \<open>Listing a well-formed map succeeds.\<close>

lemma map_exc_total: "(\<And>x. x \<in> set xs \<Longrightarrow> f x = Inr (g x)) \<Longrightarrow> map_exc f xs = Inr (map g xs)"
  by (induction xs) simp_all

definition tag_num :: "string \<Rightarrow> int" where
  "tag_num key = the (int_of_text key)"

definition tag_ids :: "json_object \<Rightarrow> nat set" where
  "tag_ids tags = {n. map_of tags (decimal (int n)) \<noteq> None}"

abbreviation numbered :: "json_object \<Rightarrow> (int \<times> json_value) list" where
  "numbered tags \<equiv> map (\<lambda>(key, d). (tag_num key, d)) tags"

lemma good_tag:
  assumes "good_tags tags" "(key, d) \<in> set tags"
  shows "tag_number key = Inr (tag_num key)" "\<exists>m. d = JObj m \<and> ''id'' \<notin> fst ` set m"
    "\<exists>n. key = decimal (int n) \<and> tag_num key = int n \<and> n \<le> 65535"
  using assms by (auto simp: good_tags_def canonical_key_def tag_num_def int_of_decimal tag_number_decimal)

lemma good_tag_num: "good_tags tags \<Longrightarrow> key \<in> fst ` set tags \<Longrightarrow> \<exists>n. key = decimal (int n) \<and> tag_num key = int n"
  using good_tag(3) by fastforce

lemma finite_tag_ids: "good_tags tags \<Longrightarrow> finite (tag_ids tags)"
proof (rule finite_subset)
  assume "good_tags tags"
  then show "tag_ids tags \<subseteq> {..65535}"
    by (force simp: tag_ids_def good_tags_def canonical_key_def decimal_inj dest: map_of_SomeD)
qed simp

lemma numbered_distinct:
  assumes "good_tags tags"
  shows "distinct (map fst (numbered tags))"
proof -
  have "inj_on tag_num (fst ` set tags)"
  proof (rule inj_onI)
    fix a b
    assume "a \<in> fst ` set tags" "b \<in> fst ` set tags" "tag_num a = tag_num b"
    then obtain i j where "a = decimal (int i)" "tag_num a = int i" "b = decimal (int j)" "tag_num b = int j"
      using good_tag_num [OF assms] by metis
    with \<open>tag_num a = tag_num b\<close> show "a = b"
      by simp
  qed
  then show ?thesis
    using assms by (simp add: good_tags_def distinct_map comp_def case_prod_beta inj_on_def)
qed

lemma numbered_ids: "good_tags tags \<Longrightarrow> fst ` set (numbered tags) = int ` tag_ids tags"
proof (intro set_eqI iffI)
  fix n
  assume g: "good_tags tags" and "n \<in> fst ` set (numbered tags)"
  then obtain k d where kd: "(k, d) \<in> set tags" "n = tag_num k" by auto
  then obtain m where "k = decimal (int m)" "tag_num k = int m"
    using good_tag(3) [OF g] by blast
  with kd have "n = int m" "m \<in> tag_ids tags"
    by (auto simp: map_of_eq_None_iff tag_ids_def intro: rev_image_eqI)
  then show "n \<in> int ` tag_ids tags"
    by blast
next
  fix n
  assume "n \<in> int ` tag_ids tags"
  then obtain m d where "n = int m" "(decimal (int m), d) \<in> set tags"
    by (auto simp: tag_ids_def dest: map_of_SomeD)
  then show "n \<in> fst ` set (numbered tags)"
    by (force simp: tag_num_def int_of_decimal)
qed

lemma numbered_sorted:
  assumes "good_tags tags"
  shows "map fst (sort_key fst (numbered tags)) = map int (sorted_list_of_set (tag_ids tags))"
proof (rule sorted_distinct_set_unique)
  show "sorted (map fst (sort_key fst (numbered tags)))"
    by (rule sorted_sort_key)
  show "distinct (map fst (sort_key fst (numbered tags)))"
    by (rule sorted_items(2) [OF numbered_distinct [OF assms]])
  show "set (map fst (sort_key fst (numbered tags))) = set (map int (sorted_list_of_set (tag_ids tags)))"
    using finite_tag_ids [OF assms] numbered_ids [OF assms] by simp
qed (simp_all add: sorted_map distinct_map)

text \<open>The \<open>id\<close> of a listed tag.\<close>

definition listed_id :: "json_value \<Rightarrow> json_value option" where
  "listed_id t = (case t of JObj m \<Rightarrow> map_of m ''id'' | _ \<Rightarrow> None)"

lemma map_of_merge: "k \<notin> fst ` set b \<Longrightarrow> map_of (dict_merge a b) k = map_of a k"
  unfolding dict_merge_def by (induction b arbitrary: a) (auto simp: map_of_dict_set)

lemma tag_list_good:
  assumes "good_tags tags"
  shows "\<exists>ts. tag_list tags = Inr ts \<and> map listed_id ts = map (\<lambda>n. Some (JInt (int n))) (sorted_list_of_set (tag_ids tags))"
proof -
  define entry where "entry t = JObj (dict_merge [(''id'', JInt (fst t))] (case snd t of JObj m \<Rightarrow> m | _ \<Rightarrow> []))" for t
  have n: "map_exc (\<lambda>(raw, d). ebind (tag_number raw) (\<lambda>n. Inr (n, d))) tags = Inr (numbered tags)"
    by (rule map_exc_total) (auto simp: good_tag(1) [OF assms])
  have e: "map_exc tag_entry (sort_key fst (numbered tags)) = Inr (map entry (sort_key fst (numbered tags)))"
    by (rule map_exc_total) (auto simp: tag_entry_def entry_def split: json_value.split dest!: good_tag(2) [OF assms])
  have id: "listed_id (entry t) = Some (JInt (fst t))" if "t \<in> set (numbered tags)" for t
    using that good_tag(2) [OF assms] by (fastforce simp: entry_def listed_id_def map_of_merge)
  have "map listed_id (map entry (sort_key fst (numbered tags))) = map (\<lambda>n. Some (JInt n)) (map fst (sort_key fst (numbered tags)))"
    using id by simp
  then have "map listed_id (map entry (sort_key fst (numbered tags)))
      = map (\<lambda>n. Some (JInt (int n))) (sorted_list_of_set (tag_ids tags))"
    unfolding numbered_sorted [OF assms] by simp
  then show ?thesis
    unfolding tag_list_def n by (simp only: ebind_simps e) blast
qed

section \<open>Edits refine a finite map\<close>

text \<open>The two operations of the specification, and when they apply.\<close>

datatype map_op = Put nat nat json_object | Remove nat

fun op_applies :: "tag_map \<Rightarrow> map_op \<Rightarrow> bool" where
  "op_applies m (Put previous n d) \<longleftrightarrow> previous = n \<or> (m previous \<noteq> None \<and> m n = None)"
| "op_applies m (Remove n) \<longleftrightarrow> m n \<noteq> None"

fun op_result :: "tag_map \<Rightarrow> map_op \<Rightarrow> tag_map" where
  "op_result m (Put previous n d) = (m(previous := None))(n \<mapsto> JObj d)"
| "op_result m (Remove n) = m(n := None)"

text \<open>What a request asks for, if it is an edit that passes the checks on the request itself.\<close>

definition requested_op :: "platform \<Rightarrow> json_object \<Rightarrow> json_object \<Rightarrow> map_op option" where
  "requested_op p config request =
     (case apriltag_config (repr p) config of
        Inl e \<Rightarrow> None
      | Inr (m, path) \<Rightarrow>
          if \<not> web_edit m then None
          else if json_str (repr p) (get_or request ''action'' (JStr '''')) = ''apriltag-upsert'' then
            (case validated_tag (repr p) (parse_float p) (get_or request ''tag'' JNull) of
               Inl e \<Rightarrow> None
             | Inr (n, d) \<Rightarrow>
                 (case (if get_or request ''replace_tag_id'' JNull = JNull then Inr n
                        else validated_tag_id (repr p) (get_or request ''replace_tag_id'' JNull)) of
                    Inl e \<Rightarrow> None
                  | Inr previous \<Rightarrow> Some (Put (nat previous) (nat n) d)))
          else if json_str (repr p) (get_or request ''action'' (JStr '''')) = ''apriltag-delete'' then
            (case validated_tag_id (repr p) (get_or request ''tag_id'' JNull) of
               Inl e \<Rightarrow> None
             | Inr n \<Rightarrow> Some (Remove (nat n)))
          else None)"

lemma valid_id_range: "validated_tag_id r raw = Inr n \<Longrightarrow> 0 \<le> n \<and> n \<le> 65535"
  by (auto simp: validated_tag_id_def ebind_Inr_conv split: json_value.splits if_split_asm)

lemma valid_id_nat: "validated_tag_id r raw = Inr n \<Longrightarrow> decimal n = decimal (int (nat n)) \<and> nat n \<le> 65535"
  using valid_id_range [of r raw n] by auto

lemma valid_tag_id: "validated_tag r pf tag = Inr (n, d) \<Longrightarrow> \<exists>raw. validated_tag_id r raw = Inr n"
  by (auto simp: validated_tag_def ebind_Inr_conv split: json_value.splits if_split_asm)

definition tag_definition :: "pyfloat list \<Rightarrow> pyfloat list \<Rightarrow> pyfloat \<Rightarrow> json_object" where
  "tag_definition position_m rpy_deg size_m =
     [(''position_m'', JList (map JFloat position_m)), (''rpy_deg'', JList (map JFloat rpy_deg)), (''size_m'', JFloat size_m)]"

definition valid_definition :: "json_object \<Rightarrow> bool" where
  "valid_definition d \<longleftrightarrow> (\<exists>position_m rpy_deg size_m. d = tag_definition position_m rpy_deg size_m
     \<and> length position_m = 3 \<and> length rpy_deg = 3 \<and> list_all (\<lambda>v. in_range (- 100) v 100) position_m
     \<and> list_all (\<lambda>v. in_range (- 360) v 360) rpy_deg \<and> in_range (1 / 100) size_m 2)"

lemma recast_Inr [simp]: "recast msg r = Inr v \<longleftrightarrow> r = Inr v"
  by (cases "(msg, r)" rule: recast.cases) auto

lemma finite_vector_range:
  "finite_vector pf raw label lo hi bounds = Inr vs \<Longrightarrow> length vs = 3 \<and> list_all (\<lambda>v. in_range lo v hi) vs"
  by (auto simp: finite_vector_def ebind_Inr_conv list_all_iff list_ex_iff split: if_split_asm)

lemma validated_tag_definition: "validated_tag r pf tag = Inr (n, d) \<Longrightarrow> valid_definition d"
  unfolding valid_definition_def tag_definition_def
  by (auto simp: validated_tag_def ebind_Inr_conv split: json_value.splits if_split_asm dest!: finite_vector_range)

text \<open>A valid definition is in key order already, and has no \<open>id\<close>.\<close>

lemma valid_definition_sorted: "valid_definition d \<Longrightarrow> sort_keys (JObj d) = JObj d \<and> ''id'' \<notin> fst ` set d"
  by (auto simp: valid_definition_def tag_definition_def comp_def)

lemma valid_tag_parts: "validated_tag r pf tag = Inr (n, d) \<Longrightarrow> 0 \<le> n \<and> n \<le> 65535 \<and> valid_definition d"
  using valid_tag_id [of r pf tag n d] valid_id_range validated_tag_definition by blast

lemma requested_op_cases:
  assumes "requested_op p config request = Some op"
  obtains (put) m path n d previous where
      "apriltag_config (repr p) config = Inr (m, path)" "web_edit m"
      "json_str (repr p) (get_or request ''action'' (JStr '''')) = ''apriltag-upsert''"
      "validated_tag (repr p) (parse_float p) (get_or request ''tag'' JNull) = Inr (n, d)"
      "(if get_or request ''replace_tag_id'' JNull = JNull then Inr n
        else validated_tag_id (repr p) (get_or request ''replace_tag_id'' JNull)) = Inr previous"
      "op = Put (nat previous) (nat n) d"
  | (remove) m path n where
      "apriltag_config (repr p) config = Inr (m, path)" "web_edit m"
      "json_str (repr p) (get_or request ''action'' (JStr '''')) = ''apriltag-delete''"
      "validated_tag_id (repr p) (get_or request ''tag_id'' JNull) = Inr n" "op = Remove (nat n)"
proof -
  obtain m path where c: "apriltag_config (repr p) config = Inr (m, path)" "web_edit m"
    using assms by (auto simp: requested_op_def split: sum.split_asm if_split_asm)
  show thesis
  proof (cases "json_str (repr p) (get_or request ''action'' (JStr '''')) = ''apriltag-upsert''")
    case True
    then show thesis
      using assms c put by (simp add: requested_op_def split: sum.split_asm prod.split_asm)
  next
    case False
    then show thesis
      using assms c remove by (simp add: requested_op_def split: sum.split_asm if_split_asm)
  qed
qed

lemma previous_range:
  assumes "validated_tag r pf tag = Inr (n, d)" "(if rep = JNull then Inr n else validated_tag_id r rep) = Inr previous"
  shows "0 \<le> previous \<and> previous \<le> 65535"
  using assms valid_tag_parts [of r pf tag n d] valid_id_range [of r rep previous] by (auto split: if_split_asm)

lemma requested_op_range:
  assumes "requested_op p config request = Some op"
  shows "case op of Put previous n d \<Rightarrow> previous \<le> 65535 \<and> n \<le> 65535 \<and> valid_definition d | Remove n \<Rightarrow> n \<le> 65535"
  using assms
proof (cases rule: requested_op_cases)
  case (put m path n d previous)
  then show ?thesis
    using valid_tag_parts [OF put(4)] previous_range [OF put(4,5)] by (simp add: nat_le_iff)
next
  case (remove m path n)
  then show ?thesis
    using valid_id_range [OF remove(4)] by (simp add: nat_le_iff)
qed

lemma rename_result:
  assumes "good_tags tags"
  shows "(case rename (int previous) (int n) tags of
      Inl e \<Rightarrow> \<not> (previous = n \<or> (tags_abs tags previous \<noteq> None \<and> tags_abs tags n = None))
    | Inr kept \<Rightarrow> (previous = n \<or> (tags_abs tags previous \<noteq> None \<and> tags_abs tags n = None)) \<and> good_tags kept
        \<and> (tags_abs kept)(n := x) = ((tags_abs tags)(previous := None))(n := x))"
  using good_tags_del [OF assms, of previous] assms by (auto simp: rename_def tags_abs_def fun_eq_iff)

text \<open>Both edits, seen through the specification.\<close>

definition edit_refines :: "stored \<Rightarrow> map_op \<Rightarrow> exc + edit \<Rightarrow> bool" where
  "edit_refines stored op ed \<longleftrightarrow>
     (case ed of
        Inl e \<Rightarrow> \<not> op_applies (map_abs stored) op
      | Inr x \<Rightarrow> op_applies (map_abs stored) op \<and> good_tags (edit_tags x)
          \<and> (\<exists>m. distinct (map fst m) \<and> edit_document x = with_tags m (edit_tags x))
          \<and> tags_abs (edit_tags x) = op_result (map_abs stored) op)"

lemma upsert_refines:
  assumes good: "good_stored stored" and cfg: "apriltag_config r config = Inr (m, path)" "web_edit m"
    and tag: "validated_tag r pf tag = Inr (n, d)"
    and prev: "(if rep = JNull then Inr n else validated_tag_id r rep) = Inr previous"
  shows "edit_refines stored (Put (nat previous) (nat n) d) (upsert_edit r pf config tag rep stored)"
proof -
  obtain doc tags where s: "distinct (map fst doc)" "good_tags tags" "tag_map_document stored = Inr (doc, tags)"
    "map_abs stored = tags_abs tags"
    using good by (rule good_storedE)
  have ids: "int (nat n) = n" "int (nat previous) = previous" "nat n \<le> 65535"
    using valid_tag_parts [OF tag] previous_range [OF tag prev] by (simp_all add: nat_le_iff)
  have d: "valid_definition d" "sort_keys (JObj d) = JObj d" "''id'' \<notin> fst ` set d"
    using valid_tag_parts [OF tag] valid_definition_sorted by auto
  note rn = rename_result [OF s(2), of "nat previous" "nat n" "Some (JObj d)", unfolded ids]
  show ?thesis
  proof (cases "rename previous n tags")
    case (Inl e)
    then show ?thesis
      using rn by (simp add: edit_refines_def upsert_edit_def cfg tag prev s(3,4))
  next
    case (Inr kept)
    then have k: "good_tags kept" "op_applies (tags_abs tags) (Put (nat previous) (nat n) d)"
      "(tags_abs kept)(nat n \<mapsto> JObj d) = op_result (tags_abs tags) (Put (nat previous) (nat n) d)"
      using rn by auto
    have "good_tags (dict_set (decimal n) (JObj d) kept)"
      "tags_abs (dict_set (decimal n) (JObj d) kept) = op_result (tags_abs tags) (Put (nat previous) (nat n) d)"
      using good_tags_set [OF k(1) ids(3) d(3), unfolded ids d(2)] k(3) by simp_all
    then show ?thesis
      using Inr k(2) s(1) by (auto simp: edit_refines_def upsert_edit_def cfg tag prev s(3,4) Let_def simp del: op_applies.simps op_result.simps)
  qed
qed

lemma delete_refines:
  assumes good: "good_stored stored" and cfg: "apriltag_config r config = Inr (m, path)" "web_edit m"
    and tag: "validated_tag_id r raw = Inr n"
  shows "edit_refines stored (Remove (nat n)) (delete_edit r config raw stored)"
proof -
  obtain doc tags where s: "distinct (map fst doc)" "good_tags tags" "tag_map_document stored = Inr (doc, tags)"
    "map_abs stored = tags_abs tags"
    using good by (rule good_storedE)
  have ids: "int (nat n) = n"
    using valid_id_range [OF tag] by simp
  have "tags_abs tags (nat n) = None \<longleftrightarrow> map_of tags (decimal (int (nat n))) = None"
    by (simp only: tags_abs_def option.map_disc_iff)
  then have "tags_abs tags (nat n) = None \<longleftrightarrow> map_of tags (decimal n) = None"
    by (simp only: ids)
  then show ?thesis
    using good_tags_del [OF s(2), of "nat n", unfolded ids] s(1)
    by (auto simp: edit_refines_def delete_edit_def cfg tag s(3,4) Let_def)
qed

text \<open>A request that is no valid edit changes nothing.\<close>

lemma no_op_no_edit:
  assumes "requested_op p config request = None" "json_str (repr p) (get_or request ''action'' (JStr '''')) \<in> {''apriltag-upsert'', ''apriltag-delete''}"
  shows "\<exists>e. edit_of p config request stored = Inl e"
  using assms
  by (auto simp: requested_op_def edit_of_def upsert_edit_def delete_edit_def split: sum.splits if_split_asm)

lemma op_edit:
  assumes "good_stored stored" "requested_op p config request = Some op"
  shows "edit_refines stored op (edit_of p config request stored)
    \<and> json_str (repr p) (get_or request ''action'' (JStr '''')) \<in> {''apriltag-upsert'', ''apriltag-delete''}"
  using assms(2)
proof (cases rule: requested_op_cases)
  case (put m path n d previous)
  then show ?thesis
    using upsert_refines [OF assms(1) put(1,2,4,5)] by (simp add: edit_of_def)
next
  case (remove m path n)
  then show ?thesis
    using delete_refines [OF assms(1) remove(1,2,4)] by (simp add: edit_of_def)
qed

section \<open>Sequences of requests\<close>

abbreviation action_of :: "platform \<Rightarrow> json_object \<Rightarrow> string" where
  "action_of p request \<equiv> json_str (repr p) (get_or request ''action'' (JStr ''''))"

definition edits :: "string set" where
  "edits = {''apriltag-upsert'', ''apriltag-delete''}"

lemma handle_other: "action_of p request \<notin> edits \<Longrightarrow> fst (handle p config io request stored) = stored"
  by (simp add: handle_def Let_def edits_def)

lemma handle_edit:
  "action_of p request \<in> edits \<Longrightarrow> handle p config io request stored =
     (fst (apply_edit io (edit_of p config request stored) stored), silent (snd (apply_edit io (edit_of p config request stored) stored)))"
  by (auto simp: handle_def Let_def edits_def ALLOWED_ACTIONS_def case_prod_beta)

lemma commit_good:
  assumes "good_tags (edit_tags x)" "distinct (map fst m)" "edit_document x = with_tags m (edit_tags x)"
  shows "good_stored (fst (commit_edit None x stored)) \<and> map_abs (fst (commit_edit None x stored)) = tags_abs (edit_tags x)
    \<and> (\<exists>r. snd (commit_edit None x stored) = Inr r)"
  using written_good [OF assms(1,2)] tag_list_good [OF assms(1)] by (auto simp: commit_edit_def write_map_def assms(3))

text \<open>One request against a well-formed map.\<close>

lemma edit_step:
  assumes good: "good_stored stored" and act: "action_of p request \<in> edits"
  shows "case snd (apply_edit io (edit_of p config request stored) stored) of
      Inl e \<Rightarrow> fst (apply_edit io (edit_of p config request stored) stored) = stored
        \<and> (\<forall>op. requested_op p config request = Some op \<longrightarrow> \<not> (op_applies (map_abs stored) op \<and> io = None))
    | Inr r \<Rightarrow> good_stored (fst (apply_edit io (edit_of p config request stored) stored))
        \<and> (\<exists>op. requested_op p config request = Some op \<and> op_applies (map_abs stored) op \<and> io = None
             \<and> map_abs (fst (apply_edit io (edit_of p config request stored) stored)) = op_result (map_abs stored) op)"
proof (cases "requested_op p config request")
  case None
  then obtain e where "edit_of p config request stored = Inl e"
    using no_op_no_edit act unfolding edits_def by blast
  with None show ?thesis
    by (simp add: apply_edit_def)
next
  case (Some op)
  then have ref: "edit_refines stored op (edit_of p config request stored)"
    using op_edit good by blast
  show ?thesis
  proof (cases "edit_of p config request stored")
    case (Inl e)
    with ref Some show ?thesis
      by (simp add: apply_edit_def edit_refines_def)
  next
    case (Inr x)
    then obtain m where x: "op_applies (map_abs stored) op" "good_tags (edit_tags x)" "distinct (map fst m)"
      "edit_document x = with_tags m (edit_tags x)" "tags_abs (edit_tags x) = op_result (map_abs stored) op"
      using ref by (auto simp: edit_refines_def)
    show ?thesis
    proof (cases io)
      case None
      with Inr x Some commit_good [OF x(2-4), of stored] show ?thesis
        by (auto simp: apply_edit_def)
    next
      case (Some e)
      with Inr show ?thesis
        by (simp add: apply_edit_def commit_edit_def write_map_def)
    qed
  qed
qed

type_synonym map_request = "exc option \<times> json_object"

definition tag_step :: "platform \<Rightarrow> json_object \<Rightarrow> stored \<Rightarrow> map_request \<Rightarrow> stored" where
  "tag_step p config stored rq = fst (handle p config (fst rq) (snd rq) stored)"

definition tag_spec_step :: "platform \<Rightarrow> json_object \<Rightarrow> tag_map \<Rightarrow> map_request \<Rightarrow> tag_map" where
  "tag_spec_step p config m rq =
     (case requested_op p config (snd rq) of
        Some op \<Rightarrow> if op_applies m op \<and> fst rq = None then op_result m op else m
      | None \<Rightarrow> m)"

lemma no_op_other: "action_of p request \<notin> edits \<Longrightarrow> requested_op p config request = None"
  by (auto simp: requested_op_def edits_def split: sum.split)

lemma map_step_refines:
  assumes "good_stored stored"
  shows "good_stored (tag_step p config stored rq) \<and> map_abs (tag_step p config stored rq) = tag_spec_step p config (map_abs stored) rq"
proof (cases "action_of p (snd rq) \<in> edits")
  case True
  show ?thesis
    using edit_step [OF assms True, of "fst rq" config] assms
    by (auto simp: tag_step_def handle_edit [OF True] tag_spec_step_def split: sum.splits option.split)
next
  case False
  then show ?thesis
    using assms by (simp add: tag_step_def tag_spec_step_def handle_other no_op_other)
qed

interpretation tag_map: event_machine "tag_step p config" good_stored
  using map_step_refines by unfold_locales blast

lemma run_refines: "good_stored stored \<Longrightarrow> map_abs (foldl (tag_step p config) stored rqs) = foldl (tag_spec_step p config) (map_abs stored) rqs"
proof (induction rqs rule: rev_induct)
  case (snoc rq rqs)
  then show ?case
    using map_step_refines [OF tag_map.run_inv [OF snoc.prems]] by simp
qed simp

lemma spec_step_valid:
  assumes "tag_spec_step p config m rq n = Some d"
  shows "m n = Some d \<or> (n \<le> 65535 \<and> (\<exists>t. d = JObj t \<and> valid_definition t))"
proof (cases "requested_op p config (snd rq)")
  case None
  with assms show ?thesis
    by (simp add: tag_spec_step_def)
next
  case (Some op)
  with assms requested_op_range [OF Some] show ?thesis
    by (cases op) (auto simp: tag_spec_step_def split: if_split_asm)
qed

lemma tag_ids_dom: "tag_ids tags = dom (tags_abs tags)"
  by (auto simp: tag_ids_def tags_abs_def dom_def)

section \<open>Examples\<close>

definition demo_text :: "json_value \<Rightarrow> string" where "demo_text v = ''?''"

definition demo_host :: host where
  "demo_host = \<lparr>run_command = (\<lambda>_. Completed 0 ''active'' ''''), stat_char = (\<lambda>_. None), can_read = (\<lambda>_. False),
     can_write = (\<lambda>_. False), is_dir = (\<lambda>_. False), rglob = (\<lambda>_ _. []), mtime = (\<lambda>_. 0), wall_time = 0\<rparr>"

definition demo_platform :: platform where
  "demo_platform = \<lparr>repr = demo_text, parse_float = (\<lambda>_. None), machine = demo_host\<rparr>"

definition demo_config :: json_object where
  "demo_config =
     [(''schema_version'', JInt 1), (''services'', JObj [(''robot'', JStr ''robotcore.service'')]),
      (''apriltag_map'', JObj [(''path'', JStr ''/etc/map.json''), (''web_edit_enabled'', JBool True)])]"

definition demo_definition :: json_object where
  "demo_definition = tag_definition [Fin 1, Fin 2, Fin 0] [Fin 90, Fin 0, Fin 0] (Fin (1 / 10))"

definition demo_stored :: stored where
  "demo_stored = Inr (JObj [(''frame'', JStr ''map''), (''tags'', JObj [(''1'', JObj demo_definition)])])"

definition put_request :: "int \<Rightarrow> json_object" where
  "put_request n = [(''action'', JStr ''apriltag-upsert''), (''tag'', JObj ((''id'', JInt n) # demo_definition))]"

lemma demo_config_ok: "apriltag_config demo_text demo_config = Inr ([(''path'', JStr ''/etc/map.json''), (''web_edit_enabled'', JBool True)], ''/etc/map.json'')"
proof -
  have "is_absolute ''/etc/map.json''" "path_name ''/etc/map.json'' = ''map.json''" "path_str ''/etc/map.json'' = ''/etc/map.json''"
    by code_simp+
  then show ?thesis
    by (simp add: apriltag_config_def demo_config_def get_or_def Let_def)
qed

lemma demo_edit_on: "web_edit [(''path'', JStr ''/etc/map.json''), (''web_edit_enabled'', JBool True)]"
  by (simp add: web_edit_def get_or_def)

lemma demo_definition_valid: "valid_definition demo_definition"
  unfolding valid_definition_def demo_definition_def
  by (intro exI [of _ "[Fin 1, Fin 2, Fin 0]"] exI [of _ "[Fin 90, Fin 0, Fin 0]"] exI [of _ "Fin (1 / 10)"])
    (simp add: in_range_def)

lemma demo_tag:
  assumes "n \<le> 65535"
  shows "validated_tag demo_text (\<lambda>_. None) (JObj ((''id'', JInt (int n)) # demo_definition)) = Inr (int n, demo_definition)"
proof -
  have "py_strip (decimal (int n)) = decimal (int n)"
    using show_nat_digits [of n] by (simp add: decimal_def strip_digits)
  with assms show ?thesis
    by (simp add: validated_tag_def get_or_def validated_tag_id_def demo_definition_def tag_definition_def finite_vector_def
        in_range_def)
qed

lemma put_request_op:
  assumes "n \<le> 65535"
  shows "requested_op demo_platform demo_config (put_request (int n)) = Some (Put n n demo_definition)"
    "action_of demo_platform (put_request (int n)) = ''apriltag-upsert''"
  using demo_tag [OF assms]
  by (simp_all add: requested_op_def demo_platform_def demo_config_ok demo_edit_on put_request_def get_or_def)

lemma decimal_one: "decimal (int 1) = ''1''"
  by code_simp

lemma demo_stored_good: "good_stored demo_stored"
proof -
  have "canonical_key ''1''"
    unfolding canonical_key_def using decimal_one by (intro exI [of _ 1]) simp
  then show ?thesis
    using valid_definition_sorted [OF demo_definition_valid] by (simp add: good_stored_def demo_stored_def good_tags_def)
qed

section \<open>Properties\<close>

lemma service_name_suffix: "service_name config role = Inr name \<Longrightarrow> suffix ''.service'' name"
  by (cases "services config") (auto simp: service_name_def no_attribute_def split: option.split_asm json_value.split_asm if_split_asm)

lemma managed_suffix: "managed config name \<Longrightarrow> suffix ''.service'' name"
  using service_name_suffix by (auto simp: managed_def)



text \<open>C12: The map file is a finite map.  For every sequence of requests, with writes that succeed or fail as a
  whole, a well-formed map file stays well formed, and as a map from tag numbers to definitions it is
  what the specification gives: each valid edit that applies puts or removes exactly its own tag, every
  other request changes nothing.\<close>

theorem map_file_refines:
  assumes "good_stored stored"
  shows "good_stored (foldl (tag_step p config) stored rqs)
    \<and> map_abs (foldl (tag_step p config) stored rqs) = foldl (tag_spec_step p config) (map_abs stored) rqs"
  using run_refines [OF assms] tag_map.run_inv [OF assms] by blast

theorem map_file_refines_witness:
  "map_abs (foldl (tag_step demo_platform demo_config) demo_stored [(None, put_request (int 4))]) 4 = Some (JObj demo_definition)"
  using map_file_refines [OF demo_stored_good, of demo_platform demo_config "[(None, put_request (int 4))]"]
    put_request_op(1) [of 4] by (simp add: tag_spec_step_def)

text \<open>C29: Answers to edits are truthful.  Against a well-formed map an edit is answered with success exactly
  when it is a valid operation that applies and the write succeeded, and then the map has changed
  accordingly; when it is answered with an error, or not at all, the file is untouched.\<close>

theorem edit_answers_truthful:
  assumes "good_stored stored" "action_of p request \<in> edits"
    and "handle p config io request stored = (stored', trace, r)"
  shows "case r of
      Inl e \<Rightarrow> stored' = stored
        \<and> (\<forall>op. requested_op p config request = Some op \<longrightarrow> \<not> (op_applies (map_abs stored) op \<and> io = None))
    | Inr v \<Rightarrow> \<exists>op. requested_op p config request = Some op \<and> op_applies (map_abs stored) op
        \<and> map_abs stored' = op_result (map_abs stored) op"
  using edit_step [OF assms(1,2), of io config] assms(3) handle_edit [OF assms(2), of config io stored]
  by (auto simp: silent_def split: sum.splits)

theorem edit_answers_truthful_witness:
  "\<exists>stored' trace v. handle demo_platform demo_config None (put_request (int 4)) demo_stored = (stored', trace, Inr v)
    \<and> map_abs stored' 4 = Some (JObj demo_definition)"
proof -
  have act: "action_of demo_platform (put_request (int 4)) \<in> edits"
    using put_request_op(2) [of 4] by (simp add: edits_def)
  obtain stored' trace r where h: "handle demo_platform demo_config None (put_request (int 4)) demo_stored = (stored', trace, r)"
    by (metis prod_cases3)
  show ?thesis
    using edit_answers_truthful [OF demo_stored_good act h] h put_request_op(1) [of 4] by (cases r) auto
qed

text \<open>Every definition in the map was there before or is in range.  After any sequence of requests against
  a well-formed map, a definition is either one the file held for that number at the start, or a
  position of three values in \<open>[-100, 100]\<close>, angles in \<open>[-360, 360]\<close> and a size in \<open>[0.01, 2]\<close> under a
  number up to 65535.\<close>

theorem map_definitions_valid:
  assumes "good_stored stored" "map_abs (foldl (tag_step p config) stored rqs) n = Some d"
  shows "map_abs stored n = Some d \<or> (n \<le> 65535 \<and> (\<exists>t. d = JObj t \<and> valid_definition t))"
proof -
  have "foldl (tag_spec_step p config) (map_abs stored) rqs n = Some d"
    using assms run_refines by metis
  then show ?thesis
  proof (induction rqs arbitrary: d rule: rev_induct)
    case (snoc rq rqs)
    then show ?case
      using spec_step_valid [of p config _ rq n d] by auto
  qed simp
qed

theorem map_definitions_valid_witness:
  "map_abs demo_stored 4 = Some (JObj demo_definition) \<or> ((4 :: nat) \<le> 65535 \<and> (\<exists>t. JObj demo_definition = JObj t \<and> valid_definition t))"
proof (rule map_definitions_valid [OF demo_stored_good])
  show "map_abs (foldl (tag_step demo_platform demo_config) demo_stored [(None, put_request (int 4))]) 4 = Some (JObj demo_definition)"
    unfolding run_refines [OF demo_stored_good] using put_request_op(1) [of 4] by (simp add: tag_spec_step_def)
qed

text \<open>The listing is complete and in order.  For a well-formed map and a valid configuration the map
  request succeeds and lists exactly the tags of the map, each once, by increasing number.\<close>

theorem listing_complete:
  assumes "good_stored stored" "apriltag_config (repr p) config = Inr (m, path)" "action_of p request = ''apriltag-map''"
  shows "\<exists>ts. handle p config io request stored =
      (stored, [], Inr (JObj [(''accepted'', JBool True), (''path'', JStr path), (''web_edit_enabled'', JBool (web_edit m)),
                             (''tags'', JList ts)]))
    \<and> map listed_id ts = map (\<lambda>n. Some (JInt (int n))) (sorted_list_of_set (dom (map_abs stored)))"
proof -
  obtain doc tags where s: "good_tags tags" "tag_map_document stored = Inr (doc, tags)" "map_abs stored = tags_abs tags"
    using assms(1) by (rule good_storedE)
  then show ?thesis
    using tag_list_good [OF s(1)]
    by (auto simp: handle_def Let_def assms(2,3) ALLOWED_ACTIONS_def apriltag_map_def tag_ids_dom silent_def)
qed

theorem listing_complete_witness:
  "\<exists>ts. handle demo_platform demo_config None [(''action'', JStr ''apriltag-map'')] demo_stored =
      (demo_stored, [], Inr (JObj [(''accepted'', JBool True), (''path'', JStr ''/etc/map.json''), (''web_edit_enabled'', JBool True),
                             (''tags'', JList ts)]))
    \<and> map listed_id ts = [Some (JInt 1)]"
proof -
  have key: "decimal (int n) = ''1'' \<longleftrightarrow> n = 1" for n
    using decimal_inj [of n 1] unfolding decimal_one .
  have "dom (map_abs demo_stored) = {1}"
    by (auto simp: map_abs_def tag_map_document_def demo_stored_def tags_abs_def dom_def key)
  then show ?thesis
    using listing_complete [OF demo_stored_good, of demo_platform demo_config _ _ "[(''action'', JStr ''apriltag-map'')]" None]
      demo_config_ok demo_edit_on by (simp add: demo_platform_def get_or_def)
qed

definition interleaved :: "platform \<Rightarrow> json_object \<Rightarrow> json_object \<Rightarrow> json_object \<Rightarrow> stored \<Rightarrow> stored \<times> (exc + json_value) \<times> (exc + json_value)" where
  "interleaved p config r1 r2 stored =
     (let first = edit_of p config r1 stored; second = edit_of p config r2 stored;
          (s1, a1) = apply_edit None first stored; (s2, a2) = apply_edit None second s1 in (s2, a1, a2))"

text \<open>Concurrent edits can be lost.  The server answers each connection in its own thread without a lock:
  when two saves of different tags both read a well-formed map before either writes, both are answered
  with success and the first tag is not in the map.\<close>

theorem concurrent_edit_lost:
  assumes "good_stored stored" "requested_op p config r1 = Some (Put a a d1)" "requested_op p config r2 = Some (Put b b d2)" "a \<noteq> b"
  shows "\<exists>final v1 v2. interleaved p config r1 r2 stored = (final, Inr v1, Inr v2) \<and> good_stored final
    \<and> map_abs final = (map_abs stored)(b \<mapsto> JObj d2) \<and> map_abs final a = map_abs stored a"
proof -
  obtain x1 m1 where x1: "edit_of p config r1 stored = Inr x1" "good_tags (edit_tags x1)" "distinct (map fst m1)"
    "edit_document x1 = with_tags m1 (edit_tags x1)"
    using op_edit [OF assms(1,2)] by (auto simp: edit_refines_def split: sum.split_asm)
  obtain x2 m2 where x2: "edit_of p config r2 stored = Inr x2" "good_tags (edit_tags x2)" "distinct (map fst m2)"
    "edit_document x2 = with_tags m2 (edit_tags x2)" "tags_abs (edit_tags x2) = op_result (map_abs stored) (Put b b d2)"
    using op_edit [OF assms(1,3)] by (auto simp: edit_refines_def split: sum.split_asm)
  let ?s1 = "fst (commit_edit None x1 stored)"
  show ?thesis
    using commit_good [OF x1(2-4), of stored] commit_good [OF x2(2-4), of ?s1] x2(5) assms(4)
    by (auto simp: interleaved_def x1(1) x2(1) apply_edit_def case_prod_beta)
qed

theorem concurrent_edit_lost_witness:
  "\<exists>final v1 v2. interleaved demo_platform demo_config (put_request (int 4)) (put_request (int 5)) demo_stored = (final, Inr v1, Inr v2)
    \<and> map_abs final 4 = map_abs demo_stored 4"
proof -
  have "(4 :: nat) \<noteq> 5" by simp
  with concurrent_edit_lost [OF demo_stored_good put_request_op(1) put_request_op(1), of 4 5] show ?thesis
    by auto
qed

lemma map_exc_error: "x \<in> set xs \<Longrightarrow> f x = Inl e \<Longrightarrow> \<exists>y e'. y \<in> set xs \<and> f y = Inl e' \<and> map_exc f xs = Inl e'"
proof (induction xs)
  case (Cons z zs)
  show ?case
  proof (cases "f z")
    case (Inl a)
    then show ?thesis
      by (intro exI [of _ z] exI [of _ a]) simp
  next
    case (Inr b)
    with Cons.prems have "x \<in> set zs"
      by auto
    with Cons.IH Cons.prems(2) obtain y e' where "y \<in> set zs" "f y = Inl e'" "map_exc f zs = Inl e'"
      by blast
    with Inr show ?thesis
      by (intro exI [of _ y] exI [of _ e']) simp
  qed
qed simp

lemma tag_number_error: "tag_number k = Inl e \<Longrightarrow> \<exists>msg. e = ValueError msg"
  by (auto simp: tag_number_def split: option.split_asm)

lemma tag_list_bad_key:
  assumes "(key, v) \<in> set tags" "int_of_text key = None"
  shows "\<exists>msg. tag_list tags = Inl (ValueError msg)"
proof -
  define f :: "string \<times> json_value \<Rightarrow> exc + int \<times> json_value" where "f = (\<lambda>(raw, d). ebind (tag_number raw) (\<lambda>n. Inr (n, d)))"
  have "f (key, v) = Inl (ValueError (''invalid literal for int() with base 10: '' @ key))"
    by (simp add: f_def tag_number_def assms(2))
  then obtain y e where y: "f y = Inl e" "map_exc f tags = Inl e"
    using map_exc_error [of "(key, v)" tags f, OF assms(1)] by blast
  have "tag_number (fst y) = Inl e"
    using y(1) by (auto simp: f_def ebind_Inl_conv split: prod.split_asm)
  then show ?thesis
    using tag_number_error [of "fst y" e] y(2) unfolding tag_list_def f_def by auto
qed

text \<open>A save can be reported as failed although it was written.  The answer lists the tags after the file
  was replaced; when the file holds a tag under a key that is not a number, saving a valid tag changes
  the file and is then answered with an error.\<close>

theorem edit_error_after_write:
  assumes "tag_map_document stored = Inr (m, tags)" "distinct (map fst m)" "distinct (map fst tags)"
    and "key \<in> fst ` set tags" "int_of_text key = None"
    and "apriltag_config (repr p) config = Inr (cfg, path)" "web_edit cfg" "action_of p request = ''apriltag-upsert''"
    and "validated_tag (repr p) (parse_float p) (get_or request ''tag'' JNull) = Inr (n, d)" "get_or request ''replace_tag_id'' JNull = JNull"
  shows "\<exists>stored' msg. handle p config None request stored = (stored', [], Inl (ValueError msg)) \<and> map_abs stored' (nat n) = Some (JObj d)"
proof -
  let ?tags = "dict_set (decimal n) (JObj d) tags"
  have n: "decimal (int (nat n)) = decimal n"
    using valid_tag_parts [OF assms(9)] by simp
  have d: "sort_keys (JObj d) = JObj d"
    using valid_tag_parts [OF assms(9)] valid_definition_sorted by blast
  obtain v where v: "(key, v) \<in> set ?tags"
  proof -
    have "key \<in> fst ` set ?tags"
      unfolding keys_dict_set using assms(4) by (rule insertI2)
    then obtain x where "x \<in> set ?tags" "key = fst x" ..
    then show thesis
      by (intro that [of "snd x"]) simp
  qed
  obtain msg where listing: "tag_list ?tags = Inl (ValueError msg)"
    using tag_list_bad_key [OF v assms(5)] by blast
  have act: "action_of p request \<in> edits"
    by (simp add: assms(8) edits_def)
  have "handle p config None request stored = (Inr (sort_keys (with_tags m ?tags)), [], Inl (ValueError msg))"
    using assms(6-10)
    by (simp add: handle_edit [OF act] edit_of_def upsert_edit_def assms(1) rename_def apply_edit_def commit_edit_def write_map_def
        listing silent_def Let_def)
  moreover have "map_abs (Inr (sort_keys (with_tags m ?tags))) = tags_abs ?tags"
    by (rule written_abs [OF distinct_dict_set [OF assms(3)] assms(2)])
  moreover have "tags_abs ?tags (nat n) = Some (JObj d)"
    unfolding tags_abs_def n using d by (simp add: map_of_dict_set)
  ultimately show ?thesis
    by auto
qed

theorem edit_error_after_write_witness:
  "\<exists>stored' msg. handle demo_platform demo_config None (put_request (int 4))
      (Inr (JObj [(''tags'', JObj [(''north'', JObj [])])])) = (stored', [], Inl (ValueError msg))
    \<and> map_abs stored' 4 = Some (JObj demo_definition)"
proof -
  have "int_of_text ''north'' = None"
    by code_simp
  then show ?thesis
    using edit_error_after_write [of "Inr (JObj [(''tags'', JObj [(''north'', JObj [])])])" _ "[(''north'', JObj [])]" "''north''"
        demo_platform demo_config, OF _ _ _ _ _ _ demo_edit_on put_request_op(2) [of 4]] demo_tag [of 4] demo_config_ok
    by (simp add: tag_map_document_def demo_platform_def put_request_def get_or_def)
qed

text \<open>Some requests get no answer.  The handler turns only \<open>ValueError\<close>s into answers: when the managed map
  file cannot be read, a map request ends without a reply, and so does deleting a tag whose number is an
  infinite float (JSON \<open>1e999\<close>), for which \<open>int\<close> raises \<open>OverflowError\<close>.\<close>

theorem unanswered_requests:
  assumes "apriltag_config (repr p) config = Inr (m, path)" "web_edit m"
    and "length (read_line (MAX_REQUEST_BYTES + 1) input) \<le> MAX_REQUEST_BYTES"
    and "parse (read_line (MAX_REQUEST_BYTES + 1) input) = Inr (JObj request)"
    and "(action_of p request = ''apriltag-map'' \<and> stored = Inl (OSError msg))
      \<or> (action_of p request = ''apriltag-delete'' \<and> get_or request ''tag_id'' JNull = JFloat PInf)"
  shows "serve_request p parse config io input stored = (stored, [], None)"
  using assms
  by (auto simp: serve_request_def handle_def Let_def ALLOWED_ACTIONS_def apriltag_map_def tag_map_document_def silent_def
      edit_of_def delete_edit_def validated_tag_id_def apply_edit_def)

theorem unanswered_requests_witness:
  "serve_request demo_platform (\<lambda>_. Inr (JObj [(''action'', JStr ''apriltag-delete''), (''tag_id'', JFloat PInf)]))
     demo_config None ''x'' demo_stored = (demo_stored, [], None)"
  by (rule unanswered_requests [where request = "[(''action'', JStr ''apriltag-delete''), (''tag_id'', JFloat PInf)]"])
    (use demo_config_ok demo_edit_on in \<open>simp_all add: demo_platform_def read_line_def MAX_REQUEST_BYTES_def get_or_def\<close>)

end
