(* ===== verification/Conditional_Pid.thy ===== *)
theory Conditional_Pid
  imports Control_Math
begin

text \<open>
  The class \<^verbatim>\<open>ConditionalPid\<close> of \<^verbatim>\<open>robotcore_control/control_math.py\<close>: derivative on the
  measurement with a first-order filter, clamped integral and conditional integration.  A step
  returns the new object state together with its result, because the source has already stored
  the measurement and the filtered derivative when it rejects a non-finite output limit.  Gains
  are numbers: the node constructs them from parameters it has checked to be finite.
\<close>

record PidGains =
  kp :: real
  ki :: real
  kd :: real
  integral_limit :: real
  output_limit :: real
  derivative_cutoff_hz :: real

record ConditionalPid =
  gains :: PidGains
  integral :: real
  previous_measurement :: "real option"
  filtered_derivative :: real
  saturated :: bool

definition new_pid :: "PidGains \<Rightarrow> ConditionalPid" where
  "new_pid g = \<lparr>gains = g, integral = 0, previous_measurement = None,
     filtered_derivative = 0, saturated = False\<rparr>"

definition pid_reset :: "ConditionalPid \<Rightarrow> ConditionalPid" where
  "pid_reset s = s\<lparr>integral := 0, previous_measurement := None,
     filtered_derivative := 0, saturated := False\<rparr>"

text \<open>The keyword arguments of one call of \<^verbatim>\<open>step\<close>.\<close>

record pid_input =
  setpoint :: pyfloat
  measurement :: pyfloat
  step_dt :: pyfloat
  feedforward :: pyfloat
  limit_override :: "pyfloat option"
  integral_enabled :: bool

definition derivative_alpha :: "real \<Rightarrow> real \<Rightarrow> real" where
  "derivative_alpha cutoff_hz dt =
     (let cutoff = max 0 cutoff_hz in if cutoff \<le> 0 then 1 else 1 - exp (- 2 * pi * cutoff * dt))"

text \<open>The guard of conditional integration.\<close>

definition can_integrate :: "real \<Rightarrow> real \<Rightarrow> real \<Rightarrow> bool" where
  "can_integrate unsaturated limit error \<longleftrightarrow>
     isclose 0 (1 / 10 ^ 12) unsaturated (clip unsaturated (- limit) limit)
     \<or> unsaturated > limit \<and> error < 0
     \<or> unsaturated < - limit \<and> error > 0"

definition pid_step :: "ConditionalPid \<Rightarrow> pid_input \<Rightarrow> ConditionalPid \<times> (exc + real)" where
  "pid_step s i =
     (if \<not> list_all isfinite [setpoint i, measurement i, step_dt i, feedforward i]
      then (s, Inl (ValueError ''PID inputs must be finite''))
      else if fval (step_dt i) \<le> 0 then (s, Inl (ValueError ''PID dt must be positive''))
      else
        let g = gains s;
            dt = fval (step_dt i);
            error = fval (setpoint i) - fval (measurement i);
            raw_derivative = (case previous_measurement s of None \<Rightarrow> 0
              | Some previous \<Rightarrow> - (fval (measurement i) - previous) / dt);
            alpha = derivative_alpha (derivative_cutoff_hz g) dt;
            filtered = filtered_derivative s + alpha * (raw_derivative - filtered_derivative s);
            proposed_integral = (if integral_enabled i
              then clip (integral s + error * dt) (- \<bar>integral_limit g\<bar>) \<bar>integral_limit g\<bar>
              else 0);
            s1 = s\<lparr>previous_measurement := Some (fval (measurement i)),
                   filtered_derivative := filtered,
                   integral := (if integral_enabled i then integral s else 0)\<rparr>;
            command = (\<lambda>I. fval (feedforward i) + kp g * error + ki g * I + kd g * filtered);
            unsaturated = command proposed_integral;
            requested_limit = (case limit_override i of None \<Rightarrow> Fin (output_limit g) | Some l \<Rightarrow> l)
        in if \<not> isfinite requested_limit
           then (s1, Inl (ValueError ''PID output limit must be finite''))
           else
             let limit = \<bar>fval requested_limit\<bar>;
                 s2 = (if integral_enabled i \<and> can_integrate unsaturated limit error
                   then s1\<lparr>integral := proposed_integral\<rparr> else s1);
                 final = (if integral_enabled i \<and> \<not> can_integrate unsaturated limit error
                   then command (integral s1) else unsaturated);
                 out = clip final (- limit) limit
             in (s2\<lparr>saturated := \<not> isclose 0 (1 / 10 ^ 12) final out\<rparr>, Inr out))"

section \<open>The contract of a bounded controller\<close>

definition pid_inv :: "ConditionalPid \<Rightarrow> bool" where
  "pid_inv s \<longleftrightarrow> \<bar>integral s\<bar> \<le> \<bar>integral_limit (gains s)\<bar>"

definition pid_limit :: "ConditionalPid \<Rightarrow> pid_input \<Rightarrow> real" where
  "pid_limit s i = \<bar>fval (case limit_override i of None \<Rightarrow> Fin (output_limit (gains s)) | Some l \<Rightarrow> l)\<bar>"

text \<open>
  A controller whose output never leaves the limit of the call and whose state keeps an
  invariant, also when a call raises.
\<close>

locale bounded_controller =
  fixes step :: "'s \<Rightarrow> 'i \<Rightarrow> 's \<times> (exc + real)"
    and limit_of :: "'s \<Rightarrow> 'i \<Rightarrow> real"
    and good :: "'s \<Rightarrow> bool"
  assumes step_good: "good s \<Longrightarrow> good (fst (step s i))"
    and step_bound: "snd (step s i) = Inr out \<Longrightarrow> \<bar>out\<bar> \<le> limit_of s i"
begin

definition after :: "'s \<Rightarrow> 'i list \<Rightarrow> 's" where
  "after s is = foldl (\<lambda>s i. fst (step s i)) s is"

lemma after_good: "good s \<Longrightarrow> good (after s is)"
  unfolding after_def by (induction "is" arbitrary: s) (auto intro: step_good)

lemma after_bound: "snd (step (after s is) i) = Inr out \<Longrightarrow> \<bar>out\<bar> \<le> limit_of (after s is) i"
  by (rule step_bound)

end

sublocale bounded_controller \<subseteq> event_machine "\<lambda>s i. fst (step s i)" good
  by unfold_locales (rule step_good)

lemma isclose_clip_iff:
  assumes "0 \<le> l" "0 \<le> tol"
  shows "isclose 0 tol u (clip u (- l) l) \<longleftrightarrow> - l - tol \<le> u \<and> u \<le> l + tol"
  using assms unfolding isclose_def clip_def by (auto simp: min_def max_def)

lemma can_integrate_iff:
  assumes "0 \<le> l"
  shows "can_integrate u l e \<longleftrightarrow>
    (- l - 1 / 10 ^ 12 \<le> u \<or> 0 < e) \<and> (u \<le> l + 1 / 10 ^ 12 \<or> e < 0)"
proof -
  have t: "0 \<le> (1 / 10 ^ 12 :: real)" by simp
  show ?thesis
    unfolding can_integrate_def isclose_clip_iff [OF assms t] using assms t by argo
qed

lemma pid_step_gains [simp]: "gains (fst (pid_step s i)) = gains s"
  by (simp add: pid_step_def Let_def)

lemma pid_step_inv: "pid_inv s \<Longrightarrow> pid_inv (fst (pid_step s i))"
  by (auto simp: pid_inv_def pid_step_def Let_def)

lemma pid_step_bound: "snd (pid_step s i) = Inr out \<Longrightarrow> \<bar>out\<bar> \<le> pid_limit s i"
  by (auto simp: pid_step_def pid_limit_def Let_def split: if_split_asm)

lemma pid_reset_gains [simp]: "gains (pid_reset s) = gains s"
  by (simp add: pid_reset_def)

lemma pid_reset_inv [simp]: "pid_inv (pid_reset s)"
  by (simp add: pid_inv_def pid_reset_def)

lemma new_pid_inv [simp]: "pid_inv (new_pid g)"
  by (simp add: pid_inv_def new_pid_def)

lemma pid_reset_new: "pid_reset s = new_pid (gains s)"
  by (cases s) (simp add: pid_reset_def new_pid_def)

interpretation axis_pid: bounded_controller pid_step pid_limit pid_inv
  by unfold_locales (auto intro: pid_step_inv pid_step_bound)

text \<open>The step succeeds exactly on finite inputs, a positive period and a finite limit.\<close>

lemma pid_step_total:
  "(\<exists>out. snd (pid_step s i) = Inr out) \<longleftrightarrow>
     list_all isfinite [setpoint i, measurement i, step_dt i, feedforward i]
     \<and> 0 < fval (step_dt i)
     \<and> isfinite (case limit_override i of None \<Rightarrow> Fin (output_limit (gains s)) | Some l \<Rightarrow> l)"
  by (auto simp: pid_step_def Let_def)

section \<open>Properties\<close>



text \<open>
  No integral wind-up.  When a call changes the integral in the direction of a positive
  error, the command it contributes to was not above the upper limit, and symmetrically below.
\<close>

theorem pid_no_windup:
  assumes "pid_step s i = (s', Inr out)" "integral_enabled i" "integral s' \<noteq> integral s"
  defines "error \<equiv> fval (setpoint i) - fval (measurement i)"
  defines "command \<equiv> fval (feedforward i) + kp (gains s) * error + ki (gains s) * integral s'
      + kd (gains s) * filtered_derivative s'"
  shows "(error \<ge> 0 \<longrightarrow> command \<le> pid_limit s i + 1 / 10 ^ 12)
    \<and> (error \<le> 0 \<longrightarrow> command \<ge> - pid_limit s i - 1 / 10 ^ 12)"
proof -
  have can: "can_integrate command (pid_limit s i) error"
    using assms(1-3)
    by (auto simp: pid_step_def pid_limit_def Let_def error_def command_def split: if_split_asm)
  have l: "0 \<le> pid_limit s i" by (simp add: pid_limit_def)
  show ?thesis using can unfolding can_integrate_iff [OF l] by linarith
qed

theorem pid_no_windup_witness:
  defines "g \<equiv> \<lparr>kp = 1, ki = 1, kd = 0, integral_limit = 9, output_limit = 5, derivative_cutoff_hz = 0\<rparr>"
  defines "i \<equiv> \<lparr>setpoint = Fin 1, measurement = Fin 0, step_dt = Fin 1, feedforward = Fin 0,
     limit_override = None, integral_enabled = True\<rparr>"
  shows "integral (fst (pid_step (new_pid g) i)) = 1 \<and> 0 + 1 * 1 + 1 * 1 + 0 * 0 \<le> pid_limit (new_pid g) i + 1 / 10 ^ 12"
proof -
  have run: "pid_step (new_pid g) i = (fst (pid_step (new_pid g) i), Inr 2)"
    and s': "integral (fst (pid_step (new_pid g) i)) = 1" "filtered_derivative (fst (pid_step (new_pid g) i)) = 0"
    unfolding pid_step_def new_pid_def g_def i_def Let_def
    by (simp_all add: clip_def can_integrate_iff derivative_alpha_def)
  from pid_no_windup [OF run] s' show ?thesis by (simp add: new_pid_def g_def i_def)
qed

end
