(* ===== verification/Pid_Config.thy ===== *)
theory Pid_Config
  imports Conditional_Pid Ros_Interface
begin

text \<open>
  The start-up configuration of the PID node (\<^verbatim>\<open>six_dof_pid_node.py\<close>): the declared ROS
  parameters and \<^verbatim>\<open>load_configuration\<close>, which validates them, materialises the gains and
  limits, hashes a canonical JSON tree of everything it loaded, and on any exception falls back
  to zero gains with the node not approved.  The loaded attributes are grouped in records by the
  part of the controller that reads them.  The JSON text and its SHA-256 digest are one function
  of the tree, an argument of the definitions.
\<close>

section \<open>Declared parameters\<close>

definition pid_parameters :: param_store where
  "pid_parameters =
     [(''control_rate_hz'', PDouble (Fin 50)),
      (''max_input_age_s'', PDouble (Fin (3 / 20))),
      (''pwm_limit_us'', PDouble (Fin 250)),
      (''altitude_pwm_kp'', PDouble (Fin (7 / 5))),
      (''altitude_pwm_ki'', PDouble (Fin (9 / 20))),
      (''altitude_pwm_kd'', PDouble (Fin (11 / 50))),
      (''altitude_pwm_integral_limit'', PDouble (Fin (1 / 2))),
      (''altitude_velocity_filter_time_constant_s'', PDouble (Fin (1 / 10))),
      (''altitude_pwm_command_sign'', PDouble (Fin (- 1))),
      (''altitude_position_kp'', PDouble (Fin (1 / 4))),
      (''station_surge_pwm_kp'', PDouble (Fin (3 / 2))),
      (''station_surge_pwm_ki'', PDouble (Fin (1 / 4))),
      (''station_surge_pwm_kd'', PDouble (Fin 0)),
      (''station_surge_integral_limit'', PDouble (Fin 1)),
      (''station_sway_pwm_kp'', PDouble (Fin 1)),
      (''fast_station_sway_pwm_kp'', PDouble (Fin (3 / 5))),
      (''fast_station_sway_pwm_feedforward_positive_gain'', PDouble (Fin (9 / 5))),
      (''fast_station_sway_pwm_feedforward_negative_gain'', PDouble (Fin (19 / 10))),
      (''fast_station_sway_effort_slew_rate_per_s'', PDouble (Fin (6 / 5))),
      (''station_sway_pwm_ki'', PDouble (Fin 0)),
      (''station_sway_pwm_kd'', PDouble (Fin 0)),
      (''station_sway_integral_limit'', PDouble (Fin (1 / 2))),
      (''station_yaw_pwm_kp'', PDouble (Fin (7 / 10))),
      (''station_yaw_pwm_ki'', PDouble (Fin (3 / 25))),
      (''station_yaw_integral_limit'', PDouble (Fin (4 / 5))),
      (''station_yaw_heading_kp'', PDouble (Fin (9 / 10))),
      (''station_horizontal_axis_limit'', PDouble (Fin (3 / 25))),
      (''station_yaw_axis_limit'', PDouble (Fin (1 / 5))),
      (''station_surge_rate_limit'', PDouble (Fin (2 / 5))),
      (''fast_station_surge_rate_limit'', PDouble (Fin (1 / 2))),
      (''fast_station_sway_rate_limit'', PDouble (Fin (1 / 5))),
      (''fast_station_lateral_yaw_axis_limit'', PDouble (Fin (1 / 10))),
      (''fast_station_sway_yaw_compensation_gain'', PDouble (Fin (11 / 200))),
      (''fast_station_lateral_yaw_effort_slew_rate_per_s'', PDouble (Fin (3 / 10))),
      (''station_yaw_rate_limit'', PDouble (Fin (3 / 5))),
      (''fast_station_level_pwm_limit'', PDouble (Fin (1 / 10))),
      (''fast_station_roll_angle_to_rate_kp'', PDouble (Fin (13 / 10))),
      (''fast_station_pitch_angle_to_rate_kp'', PDouble (Fin (4 / 5))),
      (''fast_station_roll_rate_kp'', PDouble (Fin (1 / 5))),
      (''fast_station_pitch_rate_kp'', PDouble (Fin (7 / 20))),
      (''fast_station_pitch_rate_ki'', PDouble (Fin (1 / 5))),
      (''fast_station_pitch_rate_integral_effort_limit'', PDouble (Fin (1 / 10))),
      (''fast_station_surge_pitch_decoupling_enabled'', PBool True),
      (''fast_station_surge_pitch_forward_gain'', PDouble (Fin (2 / 25))),
      (''fast_station_surge_pitch_reverse_gain'', PDouble (Fin (3 / 50))),
      (''fast_station_surge_pitch_limit'', PDouble (Fin (3 / 50))),
      (''imu_topic'', PString ''/sensors/external_imu''),
      (''imu_rate_history_samples'', PInt 5),
      (''imu_rate_outlier_limit_rps'', PDouble (Fin (1 / 5))),
      (''imu_rate_prediction_horizon_s'', PDouble (Fin (1 / 25))),
      (''imu_rate_prediction_accel_limit_rps2'', PDouble (Fin 4)),
      (''imu_rate_prediction_delta_limit_rps'', PDouble (Fin (3 / 25))),
      (''imu_rate_filter_time_constant_s'', PDouble (Fin (1 / 100))),
      (''imu_orientation_filter_time_constant_s'', PDouble (Fin (3 / 100))),
      (''configuration_ready'', PBool False),
      (''station_position_kp'', PDoubles [Fin 0, Fin 0]),
      (''station_sway_rate_limit'', PDouble (Fin 0)),
      (''fast_station_level_rate_limit_rps'', PDoubles [Fin 0, Fin 0]),
      (''derivative_cutoff_hz'', PDouble (Fin (3 / 2)))]"

section \<open>Loaded attributes\<close>

record altitude_config =
  altitude_position_kp :: real
  altitude_gains :: PidGains
  altitude_velocity_filter_time_constant_s :: real
  altitude_pwm_command_sign :: real

record station_config =
  station_position_kp :: "real list"
  station_sway_rate_limit :: real
  station_surge_pwm_kp :: real
  station_surge_pwm_ki :: real
  station_surge_pwm_kd :: real
  station_surge_integral_limit :: real
  station_sway_pwm_kp :: real
  station_sway_pwm_ki :: real
  station_sway_pwm_kd :: real
  station_sway_integral_limit :: real
  station_yaw_pwm_kp :: real
  station_yaw_pwm_ki :: real
  station_yaw_integral_limit :: real
  station_yaw_heading_kp :: real
  station_horizontal_axis_limit :: real
  station_yaw_axis_limit :: real
  station_surge_rate_limit :: real
  station_yaw_rate_limit :: real

record fast_station_config =
  fast_station_sway_pwm_kp :: real
  fast_station_sway_pwm_feedforward_positive_gain :: real
  fast_station_sway_pwm_feedforward_negative_gain :: real
  fast_station_sway_effort_slew_rate_per_s :: real
  fast_station_surge_rate_limit :: real
  fast_station_sway_rate_limit :: real
  fast_station_lateral_yaw_axis_limit :: real
  fast_station_sway_yaw_compensation_gain :: real
  fast_station_lateral_yaw_effort_slew_rate_per_s :: real
  fast_station_level_pwm_limit :: real

record level_config =
  fast_station_level_rate_limit_rps :: "real list"
  fast_station_level_angle_to_rate_kp :: "real list"
  fast_station_level_rate_kp :: "real list"
  fast_station_pitch_rate_ki :: real
  fast_station_pitch_rate_integral_effort_limit :: real
  fast_station_surge_pitch_decoupling_enabled :: bool
  fast_station_surge_pitch_forward_gain :: real
  fast_station_surge_pitch_reverse_gain :: real
  fast_station_surge_pitch_limit :: real

record imu_config =
  imu_rate_history_samples :: nat
  imu_rate_outlier_limit_rps :: real
  imu_rate_prediction_horizon_s :: real
  imu_rate_prediction_accel_limit_rps2 :: real
  imu_rate_prediction_delta_limit_rps :: real
  imu_rate_filter_time_constant_s :: real
  imu_orientation_filter_time_constant_s :: real

record pid_config =
  pid_configured :: bool
  load_error :: string
  configuration_hash :: string
  surge_gains :: PidGains
  sway_gains :: PidGains
  fast_sway_gains :: PidGains
  yaw_gains :: PidGains
  altitude :: altitude_config
  station :: station_config
  fast_station :: fast_station_config
  level :: level_config
  imu :: imu_config

section \<open>Loading\<close>

text \<open>Approval, position gains, rate limits and the derivative cutoff.\<close>

definition load_approval :: "param_store \<Rightarrow> exc + (bool \<times> real list \<times> real \<times> real list \<times> real)" where
  "load_approval ps =
     ebind (get_bool ps ''configuration_ready'') (\<lambda>ready.
     ebind (get_doubles ps ''station_position_kp'') (\<lambda>kps.
     ebind (vec kps 2) (\<lambda>position_kp.
     ebind (get_double ps ''station_sway_rate_limit'') (\<lambda>sway_limit.
     ebind (get_doubles ps ''fast_station_level_rate_limit_rps'') (\<lambda>lims.
     ebind (vec lims 2) (\<lambda>level_limits.
     ebind (get_double ps ''derivative_cutoff_hz'') (\<lambda>cutoff.
       if list_ex (\<lambda>g. g < 0) position_kp \<or> \<not> isfinite sway_limit \<or> fval sway_limit < 0
          \<or> list_ex (\<lambda>g. g < 0) level_limits \<or> \<not> isfinite cutoff \<or> fval cutoff < 0
       then Inl (ValueError (''station gains, rate limits, and derivative cutoff must be ''
              @ ''finite and non-negative''))
       else Inr (ready, position_kp, fval sway_limit, level_limits, fval cutoff))))))))"

text \<open>The gains of an axis PID: its effort is limited per call, the constructor limit is one.\<close>

definition axis_gains :: "real \<Rightarrow> real \<Rightarrow> real \<Rightarrow> real \<Rightarrow> real \<Rightarrow> PidGains" where
  "axis_gains p i d ilimit cutoff =
     \<lparr>kp = p, ki = i, kd = d, integral_limit = ilimit, output_limit = 1, derivative_cutoff_hz = cutoff\<rparr>"

definition altitude_names :: "string list" where
  "altitude_names = [''altitude_pwm_kp'', ''altitude_pwm_ki'', ''altitude_pwm_kd'',
      ''altitude_pwm_integral_limit'', ''altitude_velocity_filter_time_constant_s'',
      ''altitude_pwm_command_sign'']"

definition load_altitude :: "param_store \<Rightarrow> real \<Rightarrow> exc + altitude_config" where
  "load_altitude ps cutoff =
     ebind (read_doubles ps altitude_names) (\<lambda>altitude_values.
       if \<not> list_all isfinite altitude_values
       then Inl (ValueError ''altitude PWM PID parameters must be finite'')
       else let v = map fval altitude_values in
       if list_ex (\<lambda>x. x < 0) (take 5 v)
       then Inl (ValueError ''altitude PWM PID gains and filter must be non-negative'')
       else if isclose (1 / 10 ^ 9) (1 / 10 ^ 12) (v ! 5) 0
       then Inl (ValueError ''altitude PWM command sign must be non-zero'')
       else ebind (get_double ps ''altitude_position_kp'') (\<lambda>position_kp.
       if \<not> isfinite position_kp \<or> fval position_kp < 0
       then Inl (ValueError ''altitude position gain must be finite and non-negative'')
       else Inr \<lparr>altitude_position_kp = fval position_kp,
         altitude_gains = axis_gains (v ! 0) (v ! 1) (v ! 2) (v ! 3) cutoff,
         altitude_velocity_filter_time_constant_s = v ! 4,
         altitude_pwm_command_sign = copysign1 (v ! 5)\<rparr>))"

definition station_names :: "string list" where
  "station_names =
     [''station_surge_pwm_kp'',
      ''station_surge_pwm_ki'',
      ''station_surge_pwm_kd'',
      ''station_surge_integral_limit'',
      ''station_sway_pwm_kp'',
      ''fast_station_sway_pwm_kp'',
      ''fast_station_sway_pwm_feedforward_positive_gain'',
      ''fast_station_sway_pwm_feedforward_negative_gain'',
      ''fast_station_sway_effort_slew_rate_per_s'',
      ''station_sway_pwm_ki'',
      ''station_sway_pwm_kd'',
      ''station_sway_integral_limit'',
      ''station_yaw_pwm_kp'',
      ''station_yaw_pwm_ki'',
      ''station_yaw_integral_limit'',
      ''station_yaw_heading_kp'',
      ''station_horizontal_axis_limit'',
      ''station_yaw_axis_limit'',
      ''station_surge_rate_limit'',
      ''fast_station_surge_rate_limit'',
      ''fast_station_sway_rate_limit'',
      ''fast_station_lateral_yaw_axis_limit'',
      ''fast_station_sway_yaw_compensation_gain'',
      ''fast_station_lateral_yaw_effort_slew_rate_per_s'',
      ''station_yaw_rate_limit'',
      ''fast_station_level_pwm_limit'']"

definition load_station ::
  "param_store \<Rightarrow> real list \<Rightarrow> real \<Rightarrow> exc + (station_config \<times> fast_station_config)" where
  "load_station ps position_kp sway_limit =
     ebind (read_doubles ps station_names) (\<lambda>station_values.
       if \<not> list_all isfinite station_values
       then Inl (ValueError ''station PWM gains and limit must be finite'')
       else let v = map fval station_values in
       if list_ex (\<lambda>x. x < 0) v
       then Inl (ValueError ''station PWM gains and limit must be non-negative'')
       else Inr (\<lparr>station_position_kp = position_kp,
          station_sway_rate_limit = sway_limit,
          station_surge_pwm_kp = v ! 0,
          station_surge_pwm_ki = v ! 1,
          station_surge_pwm_kd = v ! 2,
          station_surge_integral_limit = v ! 3,
          station_sway_pwm_kp = v ! 4,
          station_sway_pwm_ki = v ! 9,
          station_sway_pwm_kd = v ! 10,
          station_sway_integral_limit = v ! 11,
          station_yaw_pwm_kp = v ! 12,
          station_yaw_pwm_ki = v ! 13,
          station_yaw_integral_limit = v ! 14,
          station_yaw_heading_kp = v ! 15,
          station_horizontal_axis_limit = v ! 16,
          station_yaw_axis_limit = v ! 17,
          station_surge_rate_limit = v ! 18,
          station_yaw_rate_limit = v ! 24\<rparr>,
         \<lparr>fast_station_sway_pwm_kp = v ! 5,
          fast_station_sway_pwm_feedforward_positive_gain = v ! 6,
          fast_station_sway_pwm_feedforward_negative_gain = v ! 7,
          fast_station_sway_effort_slew_rate_per_s = v ! 8,
          fast_station_surge_rate_limit = v ! 19,
          fast_station_sway_rate_limit = v ! 20,
          fast_station_lateral_yaw_axis_limit = v ! 21,
          fast_station_sway_yaw_compensation_gain = v ! 22,
          fast_station_lateral_yaw_effort_slew_rate_per_s = v ! 23,
          fast_station_level_pwm_limit = v ! 25\<rparr>))"

text \<open>The gains of the four station PID objects.\<close>

definition surge_axis :: "station_config \<Rightarrow> real \<Rightarrow> PidGains" where
  "surge_axis s cutoff = axis_gains (station_surge_pwm_kp s) (station_surge_pwm_ki s)
     (station_surge_pwm_kd s) (station_surge_integral_limit s) cutoff"

definition sway_axis :: "station_config \<Rightarrow> real \<Rightarrow> PidGains" where
  "sway_axis s cutoff = axis_gains (station_sway_pwm_kp s) (station_sway_pwm_ki s)
     (station_sway_pwm_kd s) (station_sway_integral_limit s) cutoff"

definition fast_sway_axis :: "station_config \<Rightarrow> fast_station_config \<Rightarrow> real \<Rightarrow> PidGains" where
  "fast_sway_axis s f cutoff = axis_gains (fast_station_sway_pwm_kp f) (station_sway_pwm_ki s)
     (station_sway_pwm_kd s) (station_sway_integral_limit s) cutoff"

definition yaw_axis :: "station_config \<Rightarrow> real \<Rightarrow> PidGains" where
  "yaw_axis s cutoff = axis_gains (station_yaw_pwm_kp s) (station_yaw_pwm_ki s) 0
     (station_yaw_integral_limit s) cutoff"

definition level_names :: "string list" where
  "level_names = [''fast_station_roll_angle_to_rate_kp'', ''fast_station_pitch_angle_to_rate_kp'',
      ''fast_station_roll_rate_kp'', ''fast_station_pitch_rate_kp'', ''fast_station_pitch_rate_ki'',
      ''fast_station_pitch_rate_integral_effort_limit'', ''fast_station_surge_pitch_forward_gain'',
      ''fast_station_surge_pitch_reverse_gain'', ''fast_station_surge_pitch_limit'']"

definition finite_nonneg :: "pyfloat list \<Rightarrow> bool" where
  "finite_nonneg vs \<longleftrightarrow> list_all (\<lambda>v. isfinite v \<and> 0 \<le> fval v) vs"

definition load_level :: "param_store \<Rightarrow> real list \<Rightarrow> exc + level_config" where
  "load_level ps level_limits =
     ebind (read_doubles ps level_names) (\<lambda>level_gain_values.
       if \<not> finite_nonneg level_gain_values
       then Inl (ValueError (''level cascade and decoupling gains must be finite and '' @ ''non-negative''))
       else let v = map fval level_gain_values in
       ebind (get_bool ps ''fast_station_surge_pitch_decoupling_enabled'') (\<lambda>enabled.
       Inr \<lparr>fast_station_level_rate_limit_rps = level_limits,
         fast_station_level_angle_to_rate_kp = take 2 v,
         fast_station_level_rate_kp = take 2 (drop 2 v),
         fast_station_pitch_rate_ki = v ! 4,
         fast_station_pitch_rate_integral_effort_limit = v ! 5,
         fast_station_surge_pitch_decoupling_enabled = enabled,
         fast_station_surge_pitch_forward_gain = v ! 6,
         fast_station_surge_pitch_reverse_gain = v ! 7,
         fast_station_surge_pitch_limit = v ! 8\<rparr>))"

definition imu_names :: "string list" where
  "imu_names = [''imu_rate_outlier_limit_rps'', ''imu_rate_prediction_horizon_s'',
      ''imu_rate_prediction_accel_limit_rps2'', ''imu_rate_prediction_delta_limit_rps'',
      ''imu_rate_filter_time_constant_s'']"

definition load_imu :: "param_store \<Rightarrow> exc + imu_config" where
  "load_imu ps =
     ebind (get_int ps ''imu_rate_history_samples'') (\<lambda>history.
     ebind (read_doubles ps imu_names) (\<lambda>imu_rate_values.
       if \<not> (3 \<le> history \<and> history \<le> 15)
       then Inl (ValueError ''IMU rate history must contain 3 to 15 samples'')
       else if \<not> finite_nonneg imu_rate_values
       then Inl (ValueError ''IMU rate estimator settings must be finite and non-negative'')
       else let v = map fval imu_rate_values in
       ebind (get_double ps ''imu_orientation_filter_time_constant_s'') (\<lambda>orientation_filter.
       if \<not> isfinite orientation_filter \<or> fval orientation_filter < 0
       then Inl (ValueError ''IMU filter time constants must be finite and non-negative'')
       else Inr \<lparr>imu_rate_history_samples = nat history,
         imu_rate_outlier_limit_rps = v ! 0,
         imu_rate_prediction_horizon_s = v ! 1,
         imu_rate_prediction_accel_limit_rps2 = v ! 2,
         imu_rate_prediction_delta_limit_rps = v ! 3,
         imu_rate_filter_time_constant_s = v ! 4,
         imu_orientation_filter_time_constant_s = fval orientation_filter\<rparr>)))"

section \<open>The configuration hash\<close>

datatype json = JNum real | JBool bool | JInt nat | JStr string | JList "json list" | JObj "(string \<times> json) list"

definition canonical :: "string \<Rightarrow> real \<Rightarrow> pid_config \<Rightarrow> json" where
  "canonical imu_topic cutoff c =
     (let a = altitude c; s = station c; f = fast_station c; l = level c; m = imu c; nums = (\<lambda>xs. JList (map JNum xs)) in
      JObj
       [(''configuration_ready'', JBool (pid_configured c)),
        (''derivative_cutoff_hz'', JNum cutoff),
        (''altitude_pwm'', JObj
          [(''position_kp'', JNum (altitude_position_kp a)),
           (''kp'', JNum (kp (altitude_gains a))),
           (''ki'', JNum (ki (altitude_gains a))),
           (''kd'', JNum (kd (altitude_gains a))),
           (''integral_limit'', JNum (integral_limit (altitude_gains a))),
           (''velocity_filter_time_constant_s'', JNum (altitude_velocity_filter_time_constant_s a)),
           (''command_sign'', JNum (altitude_pwm_command_sign a))]),
        (''direct_station'', JObj
          [(''position_kp'', nums (station_position_kp s)),
           (''sway_rate_limit'', JNum (station_sway_rate_limit s)),
           (''fast_level_rate_limit_rps'', nums (fast_station_level_rate_limit_rps l)),
           (''surge_velocity_pid'', JObj
             [(''kp'', JNum (station_surge_pwm_kp s)),
              (''ki'', JNum (station_surge_pwm_ki s)),
              (''kd'', JNum (station_surge_pwm_kd s)),
              (''integral_limit'', JNum (station_surge_integral_limit s))]),
           (''sway_velocity_pid'', JObj
             [(''kp'', JNum (station_sway_pwm_kp s)),
              (''ki'', JNum (station_sway_pwm_ki s)),
              (''kd'', JNum (station_sway_pwm_kd s)),
              (''integral_limit'', JNum (station_sway_integral_limit s))]),
           (''fast_sway_velocity_kp'', JNum (fast_station_sway_pwm_kp f)),
           (''fast_sway_velocity_feedforward'', JObj
             [(''positive_gain'', JNum (fast_station_sway_pwm_feedforward_positive_gain f)),
              (''negative_gain'', JNum (fast_station_sway_pwm_feedforward_negative_gain f)),
              (''effort_slew_rate_per_s'', JNum (fast_station_sway_effort_slew_rate_per_s f))]),
           (''yaw_rate_pid'', JObj
             [(''kp'', JNum (station_yaw_pwm_kp s)),
              (''ki'', JNum (station_yaw_pwm_ki s)),
              (''kd'', JNum 0),
              (''integral_limit'', JNum (station_yaw_integral_limit s))]),
           (''yaw_heading_kp'', JNum (station_yaw_heading_kp s)),
           (''horizontal_axis_limit'', JNum (station_horizontal_axis_limit s)),
           (''yaw_axis_limit'', JNum (station_yaw_axis_limit s)),
           (''surge_rate_limit'', JNum (station_surge_rate_limit s)),
           (''fast_surge_rate_limit'', JNum (fast_station_surge_rate_limit f)),
           (''fast_sway_rate_limit'', JNum (fast_station_sway_rate_limit f)),
           (''fast_lateral_yaw_axis_limit'', JNum (fast_station_lateral_yaw_axis_limit f)),
           (''fast_lateral_yaw_decoupling'', JObj
             [(''sway_compensation_gain'', JNum (fast_station_sway_yaw_compensation_gain f)),
              (''effort_slew_rate_per_s'', JNum (fast_station_lateral_yaw_effort_slew_rate_per_s f))]),
           (''yaw_rate_limit'', JNum (station_yaw_rate_limit s)),
           (''fast_level_pwm_limit'', JNum (fast_station_level_pwm_limit f)),
           (''fast_level_angle_to_rate_kp'', nums (fast_station_level_angle_to_rate_kp l)),
           (''fast_level_rate_kp'', nums (fast_station_level_rate_kp l)),
           (''fast_pitch_rate_ki'', JNum (fast_station_pitch_rate_ki l)),
           (''fast_pitch_rate_integral_effort_limit'', JNum (fast_station_pitch_rate_integral_effort_limit l)),
           (''fast_surge_pitch_decoupling'', JObj
             [(''enabled'', JBool (fast_station_surge_pitch_decoupling_enabled l)),
              (''forward_gain'', JNum (fast_station_surge_pitch_forward_gain l)),
              (''reverse_gain'', JNum (fast_station_surge_pitch_reverse_gain l)),
              (''limit'', JNum (fast_station_surge_pitch_limit l))])]),
        (''external_imu_feedback'', JObj
          [(''imu_topic'', JStr imu_topic),
           (''rate_history_samples'', JInt (imu_rate_history_samples m)),
           (''rate_outlier_limit_rps'', JNum (imu_rate_outlier_limit_rps m)),
           (''rate_prediction_horizon_s'', JNum (imu_rate_prediction_horizon_s m)),
           (''rate_prediction_accel_limit_rps2'', JNum (imu_rate_prediction_accel_limit_rps2 m)),
           (''rate_prediction_delta_limit_rps'', JNum (imu_rate_prediction_delta_limit_rps m)),
           (''rate_filter_time_constant_s'', JNum (imu_rate_filter_time_constant_s m)),
           (''orientation_filter_time_constant_s'', JNum (imu_orientation_filter_time_constant_s m))])])"

section \<open>The fallback and the whole loader\<close>

definition zero_gains :: PidGains where
  "zero_gains = \<lparr>kp = 0, ki = 0, kd = 0, integral_limit = 0, output_limit = 0, derivative_cutoff_hz = 5\<rparr>"

text \<open>
  The attributes after a rejected configuration.  The history length is the one the constructor
  chose before loading.
\<close>

definition fallback_config :: "nat \<Rightarrow> string \<Rightarrow> pid_config" where
  "fallback_config history message =
     \<lparr>pid_configured = False, load_error = message, configuration_hash = '''',
      surge_gains = zero_gains, sway_gains = zero_gains, fast_sway_gains = zero_gains, yaw_gains = zero_gains,
      altitude = \<lparr>altitude_position_kp = 0, altitude_gains = zero_gains,
        altitude_velocity_filter_time_constant_s = 1 / 5, altitude_pwm_command_sign = - 1\<rparr>,
      station = \<lparr>station_position_kp = [0, 0], station_sway_rate_limit = 0,
        station_surge_pwm_kp = 0,
        station_surge_pwm_ki = 0,
        station_surge_pwm_kd = 0,
        station_surge_integral_limit = 0,
        station_sway_pwm_kp = 0,
        station_sway_pwm_ki = 0,
        station_sway_pwm_kd = 0,
        station_sway_integral_limit = 0,
        station_yaw_pwm_kp = 0,
        station_yaw_pwm_ki = 0,
        station_yaw_integral_limit = 0,
        station_yaw_heading_kp = 0,
        station_horizontal_axis_limit = 0,
        station_yaw_axis_limit = 0,
        station_surge_rate_limit = 0,
        station_yaw_rate_limit = 0\<rparr>,
      fast_station = \<lparr>fast_station_sway_pwm_kp = 0,
        fast_station_sway_pwm_feedforward_positive_gain = 0,
        fast_station_sway_pwm_feedforward_negative_gain = 0,
        fast_station_sway_effort_slew_rate_per_s = 0,
        fast_station_surge_rate_limit = 0,
        fast_station_sway_rate_limit = 0,
        fast_station_lateral_yaw_axis_limit = 0,
        fast_station_sway_yaw_compensation_gain = 0,
        fast_station_lateral_yaw_effort_slew_rate_per_s = 0,
        fast_station_level_pwm_limit = 0\<rparr>,
      level = \<lparr>fast_station_level_rate_limit_rps = [0, 0], fast_station_level_angle_to_rate_kp = [0, 0],
        fast_station_level_rate_kp = [0, 0], fast_station_pitch_rate_ki = 0,
        fast_station_pitch_rate_integral_effort_limit = 0,
        fast_station_surge_pitch_decoupling_enabled = False,
        fast_station_surge_pitch_forward_gain = 0, fast_station_surge_pitch_reverse_gain = 0,
        fast_station_surge_pitch_limit = 0\<rparr>,
      imu = \<lparr>imu_rate_history_samples = history, imu_rate_outlier_limit_rps = 1 / 5,
        imu_rate_prediction_horizon_s = 1 / 25, imu_rate_prediction_accel_limit_rps2 = 4,
        imu_rate_prediction_delta_limit_rps = 3 / 25, imu_rate_filter_time_constant_s = 1 / 100,
        imu_orientation_filter_time_constant_s = 3 / 100\<rparr>\<rparr>"

definition try_load :: "(json \<Rightarrow> string) \<Rightarrow> param_store \<Rightarrow> exc + pid_config" where
  "try_load sha256_hex ps =
     ebind (load_approval ps) (\<lambda>(ready, position_kp, sway_limit, level_limits, cutoff).
     ebind (load_altitude ps cutoff) (\<lambda>a.
     ebind (load_station ps position_kp sway_limit) (\<lambda>(s, f).
     ebind (load_level ps level_limits) (\<lambda>l.
     ebind (load_imu ps) (\<lambda>m.
     ebind (get_string ps ''imu_topic'') (\<lambda>topic.
       let c = \<lparr>pid_configured = ready, load_error = '''', configuration_hash = '''',
                surge_gains = surge_axis s cutoff, sway_gains = sway_axis s cutoff,
                fast_sway_gains = fast_sway_axis s f cutoff, yaw_gains = yaw_axis s cutoff,
                altitude = a, station = s, fast_station = f, level = l, imu = m\<rparr>
       in Inr (c\<lparr>configuration_hash := take 16 (sha256_hex (canonical topic cutoff c))\<rparr>)))))))"

definition load_configuration :: "(json \<Rightarrow> string) \<Rightarrow> nat \<Rightarrow> param_store \<Rightarrow> pid_config" where
  "load_configuration sha256_hex history ps =
     (case try_load sha256_hex ps of
        Inl e \<Rightarrow> fallback_config history (exc_str e)
      | Inr c \<Rightarrow> c)"

section \<open>Validity of a loaded configuration\<close>

definition nonneg_gains :: "PidGains \<Rightarrow> bool" where
  "nonneg_gains g \<longleftrightarrow> 0 \<le> kp g \<and> 0 \<le> ki g \<and> 0 \<le> kd g \<and> 0 \<le> integral_limit g"

definition valid_altitude :: "altitude_config \<Rightarrow> bool" where
  "valid_altitude a \<longleftrightarrow> 0 \<le> altitude_position_kp a \<and> nonneg_gains (altitude_gains a)
     \<and> 0 \<le> altitude_velocity_filter_time_constant_s a
     \<and> (altitude_pwm_command_sign a = 1 \<or> altitude_pwm_command_sign a = - 1)"

definition valid_station :: "station_config \<Rightarrow> bool" where
  "valid_station s \<longleftrightarrow> length (station_position_kp s) = 2 \<and> list_all (\<lambda>x. 0 \<le> x) (station_position_kp s)
     \<and> list_all (\<lambda>x. 0 \<le> x) [station_sway_rate_limit s, station_surge_pwm_kp s, station_surge_pwm_ki s, station_surge_pwm_kd s, station_surge_integral_limit s, station_sway_pwm_kp s, station_sway_pwm_ki s, station_sway_pwm_kd s, station_sway_integral_limit s, station_yaw_pwm_kp s, station_yaw_pwm_ki s, station_yaw_integral_limit s, station_yaw_heading_kp s, station_horizontal_axis_limit s, station_yaw_axis_limit s, station_surge_rate_limit s, station_yaw_rate_limit s]"

definition valid_fast_station :: "fast_station_config \<Rightarrow> bool" where
  "valid_fast_station f \<longleftrightarrow> list_all (\<lambda>x. 0 \<le> x) [fast_station_sway_pwm_kp f, fast_station_sway_pwm_feedforward_positive_gain f, fast_station_sway_pwm_feedforward_negative_gain f, fast_station_sway_effort_slew_rate_per_s f, fast_station_surge_rate_limit f, fast_station_sway_rate_limit f, fast_station_lateral_yaw_axis_limit f, fast_station_sway_yaw_compensation_gain f, fast_station_lateral_yaw_effort_slew_rate_per_s f, fast_station_level_pwm_limit f]"

definition nonneg_pair :: "real list \<Rightarrow> bool" where
  "nonneg_pair xs \<longleftrightarrow> length xs = 2 \<and> list_all (\<lambda>x. 0 \<le> x) xs"

definition valid_level :: "level_config \<Rightarrow> bool" where
  "valid_level l \<longleftrightarrow> nonneg_pair (fast_station_level_rate_limit_rps l)
     \<and> nonneg_pair (fast_station_level_angle_to_rate_kp l) \<and> nonneg_pair (fast_station_level_rate_kp l)
     \<and> list_all (\<lambda>x. 0 \<le> x) [fast_station_pitch_rate_ki l, fast_station_pitch_rate_integral_effort_limit l,
          fast_station_surge_pitch_forward_gain l, fast_station_surge_pitch_reverse_gain l,
          fast_station_surge_pitch_limit l]"

definition valid_imu :: "imu_config \<Rightarrow> bool" where
  "valid_imu m \<longleftrightarrow> 3 \<le> imu_rate_history_samples m \<and> imu_rate_history_samples m \<le> 15
     \<and> list_all (\<lambda>x. 0 \<le> x) [imu_rate_outlier_limit_rps m, imu_rate_prediction_horizon_s m,
          imu_rate_prediction_accel_limit_rps2 m, imu_rate_prediction_delta_limit_rps m,
          imu_rate_filter_time_constant_s m, imu_orientation_filter_time_constant_s m]"

definition valid_config :: "pid_config \<Rightarrow> bool" where
  "valid_config c \<longleftrightarrow> valid_altitude (altitude c) \<and> valid_station (station c)
     \<and> valid_fast_station (fast_station c) \<and> valid_level (level c) \<and> valid_imu (imu c)"

text \<open>Which parameter each scalar attribute of the station controller is read from.\<close>

definition station_wiring :: "(string \<times> (pid_config \<Rightarrow> real)) list" where
  "station_wiring =
     [(''station_sway_rate_limit'', \<lambda>c. station_sway_rate_limit (station c)),
        (''station_surge_pwm_kp'', \<lambda>c. station_surge_pwm_kp (station c)),
        (''station_surge_pwm_ki'', \<lambda>c. station_surge_pwm_ki (station c)),
        (''station_surge_pwm_kd'', \<lambda>c. station_surge_pwm_kd (station c)),
        (''station_surge_integral_limit'', \<lambda>c. station_surge_integral_limit (station c)),
        (''station_sway_pwm_kp'', \<lambda>c. station_sway_pwm_kp (station c)),
        (''fast_station_sway_pwm_kp'', \<lambda>c. fast_station_sway_pwm_kp (fast_station c)),
        (''fast_station_sway_pwm_feedforward_positive_gain'', \<lambda>c. fast_station_sway_pwm_feedforward_positive_gain (fast_station c)),
        (''fast_station_sway_pwm_feedforward_negative_gain'', \<lambda>c. fast_station_sway_pwm_feedforward_negative_gain (fast_station c)),
        (''fast_station_sway_effort_slew_rate_per_s'', \<lambda>c. fast_station_sway_effort_slew_rate_per_s (fast_station c)),
        (''station_sway_pwm_ki'', \<lambda>c. station_sway_pwm_ki (station c)),
        (''station_sway_pwm_kd'', \<lambda>c. station_sway_pwm_kd (station c)),
        (''station_sway_integral_limit'', \<lambda>c. station_sway_integral_limit (station c)),
        (''station_yaw_pwm_kp'', \<lambda>c. station_yaw_pwm_kp (station c)),
        (''station_yaw_pwm_ki'', \<lambda>c. station_yaw_pwm_ki (station c)),
        (''station_yaw_integral_limit'', \<lambda>c. station_yaw_integral_limit (station c)),
        (''station_yaw_heading_kp'', \<lambda>c. station_yaw_heading_kp (station c)),
        (''station_horizontal_axis_limit'', \<lambda>c. station_horizontal_axis_limit (station c)),
        (''station_yaw_axis_limit'', \<lambda>c. station_yaw_axis_limit (station c)),
        (''station_surge_rate_limit'', \<lambda>c. station_surge_rate_limit (station c)),
        (''fast_station_surge_rate_limit'', \<lambda>c. fast_station_surge_rate_limit (fast_station c)),
        (''fast_station_sway_rate_limit'', \<lambda>c. fast_station_sway_rate_limit (fast_station c)),
        (''fast_station_lateral_yaw_axis_limit'', \<lambda>c. fast_station_lateral_yaw_axis_limit (fast_station c)),
        (''fast_station_sway_yaw_compensation_gain'', \<lambda>c. fast_station_sway_yaw_compensation_gain (fast_station c)),
        (''fast_station_lateral_yaw_effort_slew_rate_per_s'', \<lambda>c. fast_station_lateral_yaw_effort_slew_rate_per_s (fast_station c)),
        (''station_yaw_rate_limit'', \<lambda>c. station_yaw_rate_limit (station c)),
        (''fast_station_level_pwm_limit'', \<lambda>c. fast_station_level_pwm_limit (fast_station c))]"

section \<open>Lemmas\<close>

lemma load_approval_Inr:
  assumes "load_approval ps = Inr (ready, pkp, sway, lims, cutoff)"
  shows "get_bool ps ''configuration_ready'' = Inr ready"
    and "nonneg_pair pkp" and "0 \<le> sway" and "nonneg_pair lims" and "0 \<le> cutoff"
    and "get_double ps ''station_sway_rate_limit'' = Inr (Fin sway)"
  using assms
  by (auto simp: load_approval_def err_simps nonneg_pair_def vec_simps list_all_iff list_ex_iff not_less
      split: if_split_asm)

lemma axis_gains_nonneg:
  "0 \<le> p \<Longrightarrow> 0 \<le> i \<Longrightarrow> 0 \<le> d \<Longrightarrow> 0 \<le> l \<Longrightarrow> nonneg_gains (axis_gains p i d l cutoff)"
  by (simp add: axis_gains_def nonneg_gains_def)

lemma nonneg_nth:
  fixes xs :: "real list"
  assumes "\<not> list_ex (\<lambda>x. x < 0) xs" "i < length xs"
  shows "0 \<le> xs ! i"
  using assms by (meson leI list_ex_length)

lemma load_altitude_valid:
  assumes "load_altitude ps cutoff = Inr a"
  shows "valid_altitude a"
proof -
  obtain vs where vs: "read_doubles ps altitude_names = Inr vs"
    using assms by (auto simp: load_altitude_def err_simps)
  have len: "length vs = 6" using read_doubles_length [OF vs] by (simp add: altitude_names_def)
  have nonneg: "0 \<le> map fval vs ! i" if "i < 5" for i
  proof -
    have "\<not> list_ex (\<lambda>x. x < 0) (take 5 (map fval vs))"
      using assms vs by (auto simp: load_altitude_def Let_def split: if_split_asm)
    then have "0 \<le> take 5 (map fval vs) ! i" by (rule nonneg_nth) (simp add: len that)
    then show ?thesis using that by simp
  qed
  show ?thesis using assms vs copysign1_cases [of "map fval vs ! 5"]
    by (auto simp: load_altitude_def Let_def err_simps valid_altitude_def nonneg intro!: axis_gains_nonneg
        simp del: nth_map split: if_split_asm)
qed

lemma load_station_valid:
  assumes "load_station ps pkp sway = Inr (s, f)" "nonneg_pair pkp" "0 \<le> sway"
  shows "valid_station s \<and> valid_fast_station f"
proof -
  obtain vs where vs: "read_doubles ps station_names = Inr vs"
    using assms by (auto simp: load_station_def err_simps)
  have len: "length vs = 26" using read_doubles_length [OF vs] by (simp add: station_names_def)
  have "\<not> list_ex (\<lambda>x. x < 0) (map fval vs)"
    using assms vs by (auto simp: load_station_def Let_def split: if_split_asm)
  then have nonneg: "0 \<le> map fval vs ! i" if "i < 26" for i
    using that len by (intro nonneg_nth) auto
  show ?thesis using assms vs
    by (auto simp: load_station_def Let_def valid_station_def valid_fast_station_def nonneg_pair_def nonneg
        simp del: nth_map split: if_split_asm)
qed

lemma finite_nonneg_nth: "finite_nonneg vs \<Longrightarrow> i < length vs \<Longrightarrow> 0 \<le> map fval vs ! i"
  by (simp add: finite_nonneg_def list_all_length)

lemma load_level_valid:
  assumes "load_level ps lims = Inr l" "nonneg_pair lims"
  shows "valid_level l"
proof -
  obtain vs where vs: "read_doubles ps level_names = Inr vs"
    using assms by (auto simp: load_level_def err_simps)
  have len: "length vs = 9" using read_doubles_length [OF vs] by (simp add: level_names_def)
  have "finite_nonneg vs"
    using assms vs by (auto simp: load_level_def Let_def split: if_split_asm)
  then have nonneg: "0 \<le> map fval vs ! i" if "i < 9" for i
    using that len by (intro finite_nonneg_nth) auto
  have pair: "nonneg_pair (take 2 (drop n (map fval vs)))" if "n + 2 \<le> 9" for n
    using that nonneg by (auto simp: nonneg_pair_def list_all_length len)
  show ?thesis using assms vs pair [of 0] pair [of 2]
    by (auto simp: load_level_def Let_def valid_level_def nonneg err_simps simp del: nth_map split: if_split_asm)
qed

lemma load_imu_valid:
  assumes "load_imu ps = Inr m"
  shows "valid_imu m"
proof -
  obtain vs where vs: "read_doubles ps imu_names = Inr vs"
    using assms by (auto simp: load_imu_def err_simps)
  have len: "length vs = 5" using read_doubles_length [OF vs] by (simp add: imu_names_def)
  have "finite_nonneg vs"
    using assms vs by (auto simp: load_imu_def Let_def err_simps split: if_split_asm)
  then have nonneg: "0 \<le> map fval vs ! i" if "i < 5" for i
    using that len by (intro finite_nonneg_nth) auto
  show ?thesis using assms vs
    by (auto simp: load_imu_def Let_def valid_imu_def nonneg err_simps simp del: nth_map split: if_split_asm)
qed

lemma try_load_Inr:
  assumes "try_load sha ps = Inr c"
  obtains ready pkp sway lims cutoff topic where
    "load_approval ps = Inr (ready, pkp, sway, lims, cutoff)"
    "load_altitude ps cutoff = Inr (altitude c)"
    "load_station ps pkp sway = Inr (station c, fast_station c)"
    "load_level ps lims = Inr (level c)" "load_imu ps = Inr (imu c)"
    "get_string ps ''imu_topic'' = Inr topic"
    "pid_configured c = ready" "load_error c = ''''"
    "surge_gains c = surge_axis (station c) cutoff" "sway_gains c = sway_axis (station c) cutoff"
    "fast_sway_gains c = fast_sway_axis (station c) (fast_station c) cutoff"
    "yaw_gains c = yaw_axis (station c) cutoff"
    "configuration_hash c = take 16 (sha (canonical topic cutoff (c\<lparr>configuration_hash := ''''\<rparr>)))"
  using assms unfolding try_load_def
  by (auto simp: err_simps Let_def split: prod.splits if_split_asm intro: that)

lemma try_load_valid: "try_load sha ps = Inr c \<Longrightarrow> valid_config c"
  by (erule try_load_Inr)
    (auto simp: valid_config_def dest: load_approval_Inr load_altitude_valid load_station_valid
      load_level_valid load_imu_valid)

lemma fallback_valid: "3 \<le> h \<Longrightarrow> h \<le> 15 \<Longrightarrow> valid_config (fallback_config h m)"
  by (simp add: fallback_config_def valid_config_def valid_altitude_def valid_station_def
      valid_fast_station_def valid_level_def valid_imu_def nonneg_pair_def nonneg_gains_def zero_gains_def)

lemma load_configuration_valid:
  "3 \<le> h \<Longrightarrow> h \<le> 15 \<Longrightarrow> valid_config (load_configuration sha h ps)"
  by (auto simp: load_configuration_def intro: try_load_valid fallback_valid split: sum.splits)

lemma load_gains:
  assumes "try_load sha ps = Inr c"
  defines "cutoff \<equiv> derivative_cutoff_hz (altitude_gains (altitude c))"
  shows "output_limit (altitude_gains (altitude c)) = 1 \<and> load_error c = ''''
    \<and> surge_gains c = surge_axis (station c) cutoff \<and> sway_gains c = sway_axis (station c) cutoff
    \<and> fast_sway_gains c = fast_sway_axis (station c) (fast_station c) cutoff
    \<and> yaw_gains c = yaw_axis (station c) cutoff"
proof -
  have g: "output_limit (altitude_gains a) = 1 \<and> derivative_cutoff_hz (altitude_gains a) = co"
    if "load_altitude ps co = Inr a" for co a
    using that by (auto simp: load_altitude_def Let_def err_simps axis_gains_def split: if_split_asm)
  from assms(1) show ?thesis by (rule try_load_Inr) (auto dest!: g simp: cutoff_def)
qed

lemma inj_JNum: "inj JNum"
  by (simp add: inj_def)

lemma canonical_hash [simp]: "canonical topic co (c\<lparr>configuration_hash := h\<rparr>) = canonical topic co c"
  by (simp add: canonical_def Let_def)

lemma try_load_digest:
  "try_load sha ps = Inr c \<Longrightarrow> \<exists>h. try_load sha' ps = Inr (c\<lparr>configuration_hash := h\<rparr>)"
  unfolding try_load_def by (auto simp: err_simps Let_def split: prod.splits)

section \<open>The declared defaults load\<close>

lemma default_altitude_values:
  "read_doubles pid_parameters altitude_names = Inr [Fin (7 / 5), Fin (9 / 20), Fin (11 / 50), Fin (1 / 2), Fin (1 / 10), Fin (- 1)]"
  by code_simp

lemma default_station_values:
  "read_doubles pid_parameters station_names = Inr [Fin (3 / 2), Fin (1 / 4), Fin 0, Fin 1, Fin 1, Fin (3 / 5), Fin (9 / 5), Fin (19 / 10), Fin (6 / 5), Fin 0, Fin 0, Fin (1 / 2), Fin (7 / 10), Fin (3 / 25), Fin (4 / 5), Fin (9 / 10), Fin (3 / 25), Fin (1 / 5), Fin (2 / 5), Fin (1 / 2), Fin (1 / 5), Fin (1 / 10), Fin (11 / 200), Fin (3 / 10), Fin (3 / 5), Fin (1 / 10)]"
  by code_simp

lemma default_level_values:
  "read_doubles pid_parameters level_names = Inr [Fin (13 / 10), Fin (4 / 5), Fin (1 / 5), Fin (7 / 20), Fin (1 / 5), Fin (1 / 10), Fin (2 / 25), Fin (3 / 50), Fin (3 / 50)]"
  by code_simp

lemma default_imu_values:
  "read_doubles pid_parameters imu_names = Inr [Fin (1 / 5), Fin (1 / 25), Fin 4, Fin (3 / 25), Fin (1 / 100)]"
  by code_simp

lemma default_single_values:
  "get_bool pid_parameters ''configuration_ready'' = Inr False"
  "get_doubles pid_parameters ''station_position_kp'' = Inr [Fin 0, Fin 0]"
  "get_double pid_parameters ''station_sway_rate_limit'' = Inr (Fin 0)"
  "get_doubles pid_parameters ''fast_station_level_rate_limit_rps'' = Inr [Fin 0, Fin 0]"
  "get_double pid_parameters ''derivative_cutoff_hz'' = Inr (Fin (3 / 2))"
  "get_double pid_parameters ''altitude_position_kp'' = Inr (Fin (1 / 4))"
  "get_bool pid_parameters ''fast_station_surge_pitch_decoupling_enabled'' = Inr True"
  "get_int pid_parameters ''imu_rate_history_samples'' = Inr 5"
  "get_double pid_parameters ''imu_orientation_filter_time_constant_s'' = Inr (Fin (3 / 100))"
  "get_string pid_parameters ''imu_topic'' = Inr ''/sensors/external_imu''"
  by code_simp+

lemma default_loads:
  "load_approval pid_parameters = Inr (False, [0, 0], 0, [0, 0], 3 / 2)"
  "\<exists>a. load_altitude pid_parameters (3 / 2) = Inr a"
  "\<exists>s f. load_station pid_parameters [0, 0] 0 = Inr (s, f)"
  "\<exists>l. load_level pid_parameters [0, 0] = Inr l"
  "\<exists>m. load_imu pid_parameters = Inr m"
  unfolding load_approval_def load_altitude_def load_station_def load_level_def load_imu_def
    default_altitude_values default_station_values default_level_values default_imu_values default_single_values
  by (simp_all add: isclose_def finite_nonneg_def Let_def)

lemma default_try_load: "\<exists>c. try_load sha pid_parameters = Inr c \<and> \<not> pid_configured c"
proof -
  obtain a s f l m where "load_altitude pid_parameters (3 / 2) = Inr a"
    "load_station pid_parameters [0, 0] 0 = Inr (s, f)" "load_level pid_parameters [0, 0] = Inr l"
    "load_imu pid_parameters = Inr m"
    using default_loads by auto
  then show ?thesis by (simp add: try_load_def default_loads default_single_values Let_def)
qed

section \<open>Properties\<close>



text \<open>
  Every station gain and limit is read from its own parameter.  After a successful load each
  attribute of the table holds the number of the parameter of the same name; the twenty-six
  positional values of the source are unpacked in the right order.
\<close>

theorem station_parameters_wired:
  assumes "try_load sha256_hex ps = Inr c"
  shows "length station_wiring = 27
    \<and> list_all (\<lambda>(name, attribute). get_double ps name = Inr (Fin (attribute c))) station_wiring"
  using assms
proof (rule try_load_Inr)
  fix ready pkp sway lims cutoff topic
  assume appr: "load_approval ps = Inr (ready, pkp, sway, lims, cutoff)"
    and load: "load_station ps pkp sway = Inr (station c, fast_station c)"
  obtain vs where vs: "read_doubles ps station_names = Inr vs"
    using load by (auto simp: load_station_def err_simps)
  have len: "length vs = 26" using read_doubles_length [OF vs] by (simp add: station_names_def)
  have fin: "list_all isfinite vs"
    using load vs by (auto simp: load_station_def split: if_split_asm)
  have rd: "get_double ps (station_names ! i) = Inr (Fin (map fval vs ! i))" if "i < 26" for i
    using read_doubles_nth [OF vs, of i] that fin len by (simp add: station_names_def list_all_length)
  have sway: "get_double ps ''station_sway_rate_limit'' = Inr (Fin sway)"
    by (rule load_approval_Inr(6) [OF appr])
  have c: "station c = fst (projr (load_station ps pkp sway))" "fast_station c = snd (projr (load_station ps pkp sway))"
    using load by simp_all
  show ?thesis
    using c load vs sway rd [of 0] rd [of 1] rd [of 2] rd [of 3] rd [of 4] rd [of 5] rd [of 6] rd [of 7] rd [of 8]
      rd [of 9] rd [of 10] rd [of 11] rd [of 12] rd [of 13] rd [of 14] rd [of 15] rd [of 16] rd [of 17]
      rd [of 18] rd [of 19] rd [of 20] rd [of 21] rd [of 22] rd [of 23] rd [of 24] rd [of 25]
    by (simp add: load_station_def station_wiring_def station_names_def Let_def del: nth_map split: if_split_asm)
qed

theorem station_parameters_wired_witness:
  "\<exists>c. try_load (\<lambda>_. []) pid_parameters = Inr c
     \<and> get_double pid_parameters ''station_yaw_rate_limit'' = Inr (Fin (station_yaw_rate_limit (station c)))"
proof -
  obtain c where c: "try_load (\<lambda>_. []) pid_parameters = Inr c" using default_try_load by blast
  show ?thesis using c station_parameters_wired [OF c] by (simp add: station_wiring_def)
qed

text \<open>
  The hash covers the whole configuration.  Two accepted configurations with the same
  canonical tree agree in every attribute, so a digest without collisions on the trees
  distinguishes any two different configurations.
\<close>

theorem canonical_tree_determines_configuration:
  assumes "try_load sha256_hex ps = Inr c" "try_load sha256_hex' ps' = Inr c'"
    and "canonical topic (derivative_cutoff_hz (altitude_gains (altitude c))) c
       = canonical topic' (derivative_cutoff_hz (altitude_gains (altitude c'))) c'"
  shows "c\<lparr>configuration_hash := h\<rparr> = c'\<lparr>configuration_hash := h\<rparr> \<and> topic = topic'"
proof -
  note eqs = assms(3) [unfolded canonical_def Let_def json.inject list.inject prod.inject, simplified, unfolded inj_map_eq_map [OF inj_JNum]]
  have alt: "altitude c = altitude c'"
    using eqs load_gains [OF assms(1)] load_gains [OF assms(2)] by (auto intro!: altitude_config.equality PidGains.equality)
  have sta: "station c = station c'" using eqs by (auto intro!: station_config.equality)
  have fst: "fast_station c = fast_station c'" using eqs by (auto intro!: fast_station_config.equality)
  have lev: "level c = level c'" using eqs by (auto intro!: level_config.equality)
  have im: "imu c = imu c'" using eqs by (auto intro!: imu_config.equality)
  have top: "pid_configured c = pid_configured c'" "topic = topic'" using eqs by simp_all
  show ?thesis
    using load_gains [OF assms(1)] load_gains [OF assms(2)]
    by (intro conjI pid_config.equality) (simp_all add: alt sta fst lev im top)
qed

theorem canonical_tree_determines_configuration_witness:
  "\<exists>c c'. try_load (\<lambda>_. ''1'') pid_parameters = Inr c \<and> try_load (\<lambda>_. ''2'') pid_parameters = Inr c'
     \<and> c\<lparr>configuration_hash := ''''\<rparr> = c'\<lparr>configuration_hash := ''''\<rparr>"
proof -
  obtain c h where c: "try_load (\<lambda>_. ''1'') pid_parameters = Inr c"
    "try_load (\<lambda>_. ''2'') pid_parameters = Inr (c\<lparr>configuration_hash := h\<rparr>)"
    using default_try_load try_load_digest by metis
  from canonical_tree_determines_configuration [OF c, of "[]" "[]"] c show ?thesis by force
qed

end
