(* ===== verification/Pid_Node.thy ===== *)
theory Pid_Node
  imports Quaternion_Math Pid_Config
begin

text \<open>
  The node \<^verbatim>\<open>SixDofPidNode\<close> of \<^verbatim>\<open>robotcore_control/six_dof_pid_node.py\<close>.  The attributes
  that \<^verbatim>\<open>reset_controllers\<close> clears form the record \<open>controllers\<close>, the ones that
  \<^verbatim>\<open>_disconnect_pid_inputs\<close> clears form the record \<open>inputs\<close>.  A callback is a function from
  the node, the clock reading and the message to the new node and what it publishes, or to the
  exception that leaves it; rclpy re-raises that exception out of \<^verbatim>\<open>spin\<close>, so it ends the node.
  The f-strings of the status message are kept as the values they format.
\<close>

section \<open>State\<close>

record controllers =
  altitude_pid :: ConditionalPid
  station_surge_pid :: ConditionalPid
  station_sway_pid :: ConditionalPid
  fast_station_sway_pid :: ConditionalPid
  station_yaw_pid :: ConditionalPid
  station_yaw_maneuver_active :: bool
  station_yaw_heading_error_sign :: int
  fast_station_sway_limited_effort :: real
  fast_station_lateral_yaw_limited_effort :: real
  fast_station_pitch_rate_integral_effort :: real
  fast_station_surge_direction :: int
  altitude_vertical_velocity_filtered :: "real option"

record inputs =
  body :: "body_state_msg option"
  body_ns :: "int option"
  imu_angular_velocity :: "real list option"
  imu_orientation :: "real list option"
  imu_ns :: "int option"
  imu_angular_velocity_filtered :: "real list option"
  imu_orientation_filtered :: "real list option"
  imu_filter_ns :: "int option"
  imu_rate_samples :: "(int \<times> real list) list"
  target :: "target_msg option"
  target_ns :: "int option"

record hold_mode =
  altitude_hold_active :: bool
  station_hold_active :: bool
  fast_station_hold_active :: bool
  station_trajectory_phase :: string

record pid_node =
  config :: pid_config
  control_rate_hz :: pyfloat
  max_input_age_s :: pyfloat
  ctl :: controllers
  inp :: inputs
  hold :: hold_mode
  last_tick_ns :: "int option"
  pid_selected :: bool
  absolute_localization_seen :: bool
  pwm_limit_us :: pyfloat
  subscribed :: bool
  timer_running :: bool

datatype status_text =
    Neutral
  | Disabled string
  | AltitudeHold pyfloat real real
  | Station pyfloat "real list" "real list" real string
  | FastStation pyfloat "real list" real real "real list" "real list" real string pyfloat

record pid_status =
  ready :: bool
  producing_command :: bool
  missing_inputs :: "string list"
  body_state_age_s :: pyfloat
  imu_age_s :: pyfloat
  target_age_s :: pyfloat
  allocation_rank :: nat
  allocation_condition :: pyfloat
  allocation_residual :: pyfloat
  saturation_fraction :: real
  status_configuration_hash :: string
  status_message :: status_text

datatype node_output = Command thruster_command | Status pid_status

section \<open>Construction\<close>

definition fresh_controllers :: "pid_config \<Rightarrow> controllers" where
  "fresh_controllers c =
     \<lparr>altitude_pid = new_pid (altitude_gains (altitude c)), station_surge_pid = new_pid (surge_gains c),
      station_sway_pid = new_pid (sway_gains c), fast_station_sway_pid = new_pid (fast_sway_gains c),
      station_yaw_pid = new_pid (yaw_gains c), station_yaw_maneuver_active = False,
      station_yaw_heading_error_sign = 0, fast_station_sway_limited_effort = 0,
      fast_station_lateral_yaw_limited_effort = 0, fast_station_pitch_rate_integral_effort = 0,
      fast_station_surge_direction = 0, altitude_vertical_velocity_filtered = None\<rparr>"

definition no_inputs :: inputs where
  "no_inputs = \<lparr>body = None, body_ns = None, imu_angular_velocity = None, imu_orientation = None,
     imu_ns = None, imu_angular_velocity_filtered = None, imu_orientation_filtered = None,
     imu_filter_ns = None, imu_rate_samples = [], target = None, target_ns = None\<rparr>"

definition pid_init :: "(json \<Rightarrow> string) \<Rightarrow> (string \<rightharpoonup> param) \<Rightarrow> exc + pid_node" where
  "pid_init sha256_hex overrides =
     ebind (declare_parameters overrides pid_parameters) (\<lambda>ps.
     ebind (get_int ps ''imu_rate_history_samples'') (\<lambda>requested_history.
     ebind (get_double ps ''pwm_limit_us'') (\<lambda>pwm.
     ebind (get_double ps ''control_rate_hz'') (\<lambda>rate.
     ebind (get_double ps ''max_input_age_s'') (\<lambda>maximum_age.
       let c = load_configuration sha256_hex (nat (max 3 (min requested_history 15))) ps
       in Inr \<lparr>config = c, control_rate_hz = rate, max_input_age_s = maximum_age,
            ctl = fresh_controllers c, inp = no_inputs,
            hold = \<lparr>altitude_hold_active = False, station_hold_active = False,
                    fast_station_hold_active = False, station_trajectory_phase = ''''\<rparr>,
            last_tick_ns = None, pid_selected = False, absolute_localization_seen = False,
            pwm_limit_us = flt_clip pwm 0 250, subscribed = False, timer_running = False\<rparr>)))))"

section \<open>Callbacks that store inputs\<close>

definition reset_controllers :: "controllers \<Rightarrow> controllers" where
  "reset_controllers k =
     k\<lparr>altitude_pid := pid_reset (altitude_pid k), station_surge_pid := pid_reset (station_surge_pid k),
       station_sway_pid := pid_reset (station_sway_pid k),
       fast_station_sway_pid := pid_reset (fast_station_sway_pid k),
       station_yaw_pid := pid_reset (station_yaw_pid k), station_yaw_maneuver_active := False,
       station_yaw_heading_error_sign := 0, fast_station_sway_limited_effort := 0,
       fast_station_lateral_yaw_limited_effort := 0, fast_station_pitch_rate_integral_effort := 0,
       fast_station_surge_direction := 0, altitude_vertical_velocity_filtered := None\<rparr>"

definition reset_node :: "pid_node \<Rightarrow> pid_node" where
  "reset_node n = n\<lparr>ctl := reset_controllers (ctl n)\<rparr>"

definition on_body :: "pid_node \<Rightarrow> int \<Rightarrow> body_state_msg \<Rightarrow> pid_node" where
  "on_body n now_ns m =
     n\<lparr>inp := (inp n)\<lparr>body := Some m, body_ns := Some now_ns\<rparr>,
       absolute_localization_seen := (if state_valid m then True else absolute_localization_seen n)\<rparr>"

definition on_target :: "pid_node \<Rightarrow> int \<Rightarrow> target_msg \<Rightarrow> pid_node" where
  "on_target n now_ns m = n\<lparr>inp := (inp n)\<lparr>target := Some m, target_ns := Some now_ns\<rparr>\<rparr>"

text \<open>\<^verbatim>\<open>deque(maxlen=n).append\<close>.\<close>

definition deque_append :: "nat \<Rightarrow> 'a list \<Rightarrow> 'a \<Rightarrow> 'a list" where
  "deque_append maxlen xs x = (let ys = xs @ [x] in drop (length ys - maxlen) ys)"

definition filter_alpha :: "real \<Rightarrow> real \<Rightarrow> real" where
  "filter_alpha dt time_constant = (if time_constant \<le> 0 then 1 else - (exp (- dt / time_constant) - 1))"

definition quaternion_from_message :: "quaternion_msg \<Rightarrow> exc + real list" where
  "quaternion_from_message m = normalize_quaternion (arr4 m)"

text \<open>The guards of \<^verbatim>\<open>on_imu\<close> before the quaternion is normalised.\<close>

definition imu_acceptable :: "imu_msg \<Rightarrow> bool" where
  "imu_acceptable m \<longleftrightarrow>
     \<not> (imu_frame m \<noteq> ''base_link'' \<or> flt_lt (orientation_covariance0 m) (Fin 0)
        \<or> \<not> list_all isfinite (arr3 (imu_rate_msg m))
        \<or> \<not> list_all isfinite (arr4 (imu_orientation_msg m))
        \<or> np_norm (map fval (arr4 (imu_orientation_msg m))) < 1 / 10 ^ 9)"

text \<open>The filter update for a sample with a usable distance to the previous one.\<close>

definition imu_filter_update ::
  "imu_config \<Rightarrow> inputs \<Rightarrow> int \<Rightarrow> real \<Rightarrow> real list \<Rightarrow> real list \<Rightarrow> exc + inputs" where
  "imu_filter_update m i sample_ns dt angular_velocity orientation =
     ebind (reject_vector_outlier (map (\<lambda>s. map Fin (snd s)) (imu_rate_samples i)) (map Fin angular_velocity)
              (Fin (imu_rate_outlier_limit_rps m))) (\<lambda>accepted_rate.
     let samples = deque_append (imu_rate_history_samples m) (imu_rate_samples i) (sample_ns, accepted_rate) in
     ebind (timestamped_rate_prediction (map fst samples) (map (\<lambda>s. map Fin (snd s)) samples)
              (Fin (imu_rate_prediction_horizon_s m)) (Fin (imu_rate_prediction_accel_limit_rps2 m))
              (Fin (imu_rate_prediction_delta_limit_rps m))) (\<lambda>predicted_rate.
     let rate_alpha = filter_alpha dt (imu_rate_filter_time_constant_s m);
         rate = the (imu_angular_velocity_filtered i);
         orientation_alpha = filter_alpha dt (imu_orientation_filter_time_constant_s m) in
     ebind (quaternion_slerp (map Fin (the (imu_orientation_filtered i))) (map Fin orientation) orientation_alpha)
       (\<lambda>q. Inr (i\<lparr>imu_rate_samples := samples,
              imu_angular_velocity_filtered := Some (vadd rate (vscale rate_alpha (vsub predicted_rate rate))),
              imu_orientation_filtered := Some q\<rparr>))))"

definition on_imu :: "pid_node \<Rightarrow> int \<Rightarrow> imu_msg \<Rightarrow> exc + pid_node" where
  "on_imu n now_ns m =
     (if \<not> pid_selected n then Inr n
      else if \<not> imu_acceptable m then Inr n
      else ebind (normalize_quaternion (arr4 (imu_orientation_msg m))) (\<lambda>orientation0.
        case body (inp n) of
          None \<Rightarrow> Inr n
        | Some b \<Rightarrow>
            if \<not> (state_valid b \<or> position_estimated b) then Inr n
            else case ebind (quaternion_from_message (body_orientation b))
                        (\<lambda>heading. attitude_with_heading (map Fin orientation0) (map Fin heading)) of
              Inl _ \<Rightarrow> Inr n
            | Inr orientation \<Rightarrow>
                let angular_velocity = map fval (arr3 (imu_rate_msg m));
                    sample_ns = imu_stamp_ns m;
                    dt = age_s sample_ns (imu_filter_ns (inp n));
                    finish = (\<lambda>i. n\<lparr>inp := i\<lparr>imu_orientation := Some orientation,
                        imu_angular_velocity := Some angular_velocity, imu_ns := Some now_ns,
                        imu_filter_ns := Some sample_ns\<rparr>\<rparr>)
                in if \<not> (flt_lt (Fin 0) dt \<and> flt_le dt (Fin (1 / 5)))
                   then Inr (finish ((inp n)\<lparr>imu_rate_samples := [(sample_ns, angular_velocity)],
                          imu_angular_velocity_filtered := Some angular_velocity,
                          imu_orientation_filtered := Some orientation\<rparr>))
                   else ebind (imu_filter_update (imu (config n)) (inp n) sample_ns (fval dt)
                                 angular_velocity orientation) (\<lambda>i. Inr (finish i))))"

section \<open>Authority\<close>

definition connect_pid_inputs :: "pid_node \<Rightarrow> pid_node" where
  "connect_pid_inputs n = n\<lparr>subscribed := True\<rparr>"

definition disconnect_pid_inputs :: "pid_node \<Rightarrow> pid_node" where
  "disconnect_pid_inputs n = n\<lparr>subscribed := False, inp := no_inputs\<rparr>"

definition select_source :: "pid_node \<Rightarrow> bool \<Rightarrow> pid_node" where
  "select_source n selected =
     (if selected = pid_selected n then n
      else let n1 = (reset_node (n\<lparr>pid_selected := selected\<rparr>))\<lparr>last_tick_ns := None\<rparr>
           in if selected then (connect_pid_inputs n1)\<lparr>timer_running := True\<rparr>
              else disconnect_pid_inputs (n1\<lparr>timer_running := False\<rparr>))"

text \<open>
  An action limit outside the unit interval is ignored.  \<^verbatim>\<open>math.isclose\<close> with a NaN limit of
  the node is false.
\<close>

definition on_authority_status :: "pid_node \<Rightarrow> authority_msg \<Rightarrow> pid_node" where
  "on_authority_status n m =
     (let n1 = select_source n (py_lower (py_strip (selected_source m)) = ''pid'');
          limit = action_limit m
      in if \<not> isfinite limit \<or> \<not> (0 \<le> fval limit \<and> fval limit \<le> 1) then n1
         else let pwm = fval limit * 250
              in if isfinite (pwm_limit_us n1) \<and> isclose (1 / 10 ^ 9) (1 / 10 ^ 9) pwm (fval (pwm_limit_us n1))
                 then n1 else reset_node (n1\<lparr>pwm_limit_us := Fin pwm\<rparr>))"

definition command_limit :: "pid_node \<Rightarrow> pyfloat" where
  "command_limit n = flt_scale (1 / 500) (pwm_limit_us n)"

section \<open>Readiness\<close>

definition trajectory_types :: "string list" where
  "trajectory_types = [''idle'', ''hold'', ''spatial_lissajous'', ''circle'', ''racetrack'', ''straight_line'']"

definition control_modes :: "string list" where
  "control_modes = [''idle'', ''altitude_hold'', ''station_hold'', ''station_hold_fast'']"

definition compatible_target :: "string \<Rightarrow> string \<Rightarrow> bool" where
  "compatible_target ttype mode \<longleftrightarrow>
     ttype = ''idle'' \<and> mode = ''idle''
     \<or> ttype = ''hold'' \<and> mode \<in> {''altitude_hold'', ''station_hold'', ''station_hold_fast''}
     \<or> ttype \<in> {''spatial_lissajous'', ''circle'', ''racetrack'', ''straight_line''}
       \<and> mode \<in> {''station_hold'', ''station_hold_fast''}"

definition note_if :: "bool \<Rightarrow> string \<Rightarrow> string list" where
  "note_if b s = (if b then [s] else [])"

definition body_notes :: "pid_node \<Rightarrow> body_state_msg \<Rightarrow> string list" where
  "body_notes n b =
     note_if (\<not> linear_velocity_valid b) ''linear_velocity_invalid''
     @ note_if (\<not> (state_valid b \<or> position_estimated b)) ''localization_invalid''
     @ note_if (\<not> absolute_localization_seen n) ''absolute_localization_not_seen''
     @ note_if (isl (quaternion_from_message (body_orientation b))) ''localization_quaternion_invalid''"

definition input_status :: "pid_node \<Rightarrow> int \<Rightarrow> string list \<times> pyfloat \<times> pyfloat \<times> pyfloat" where
  "input_status n now_ns =
     (let i = inp n;
          body_age = age_s now_ns (body_ns i);
          imu_age = age_s now_ns (imu_ns i);
          target_age = age_s now_ns (target_ns i);
          ttype = (case target i of None \<Rightarrow> '''' | Some t \<Rightarrow> py_lower (trajectory_type t));
          mode = (case target i of None \<Rightarrow> '''' | Some t \<Rightarrow> py_lower (control_mode t));
          missing =
            note_if (\<not> pid_configured (config n)) ''pid_parameters_not_approved''
            @ note_if (ttype \<notin> set trajectory_types) ''unsupported_trajectory_type''
            @ note_if (mode \<notin> set control_modes) ''unsupported_control_mode''
            @ note_if (target i \<noteq> None \<and> \<not> compatible_target ttype mode) ''incompatible_trajectory_control_mode''
            @ note_if (body i = None \<or> flt_lt (max_input_age_s n) body_age) ''/robot/body_state''
            @ note_if (imu_orientation_filtered i = None \<or> imu_angular_velocity_filtered i = None
                       \<or> flt_lt (max_input_age_s n) imu_age) ''/sensors/external_imu''
            @ note_if (target i = None \<or> flt_lt (max_input_age_s n) target_age) ''/runtime/trajectory_target''
            @ (case body i of None \<Rightarrow> [] | Some b \<Rightarrow> body_notes n b)
            @ (case target i of None \<Rightarrow> [] | Some t \<Rightarrow> note_if (\<not> target_valid t) ''trajectory_target_invalid'')
      in (missing, body_age, imu_age, target_age))"

section \<open>Feedback in the body frame\<close>

record feedback =
  localization_q :: "real list"
  current_q :: "real list"
  current_position :: "real list"
  goal_position :: "real list"
  position_error :: "real list"
  orientation_error :: "real list"
  goal_linear :: "real list"
  goal_angular :: "real list"
  actual_linear :: "real list"
  actual_rate :: "real list"

definition tick_feedback :: "inputs \<Rightarrow> body_state_msg \<Rightarrow> target_msg \<Rightarrow> exc + feedback" where
  "tick_feedback i b t =
     (let q = the (imu_orientation_filtered i) in
     ebind (quaternion_from_message (body_orientation b)) (\<lambda>loc_q.
     ebind (quaternion_conjugate (map Fin loc_q)) (\<lambda>map_to_body.
     ebind (quaternion_conjugate (map Fin q)) (\<lambda>imu_reference_to_body.
     ebind (quaternion_from_message (target_orientation t)) (\<lambda>target_q.
     ebind (vec (arr3 (body_position b)) 3) (\<lambda>cur_position.
     ebind (vec (arr3 (target_position t)) 3) (\<lambda>tgt_position.
     ebind (quaternion_apply (map Fin map_to_body) (map Fin (vsub tgt_position cur_position))) (\<lambda>pos_error.
     ebind (quaternion_error_body (map Fin q) (map Fin target_q)) (\<lambda>ori_error.
     ebind (quaternion_apply (map Fin map_to_body) (arr3 (target_linear t))) (\<lambda>linear_body.
     ebind (quaternion_apply (map Fin imu_reference_to_body) (arr3 (target_angular t))) (\<lambda>angular_body.
     ebind (vec (arr3 (body_linear b)) 3) (\<lambda>act_linear.
       Inr \<lparr>localization_q = loc_q, current_q = q, current_position = cur_position,
         goal_position = tgt_position, position_error = pos_error, orientation_error = ori_error,
         goal_linear = linear_body, goal_angular = angular_body, actual_linear = act_linear,
         actual_rate = the (imu_angular_velocity_filtered i)\<rparr>))))))))))))"

section \<open>Mode changes\<close>

definition is_station :: "string \<Rightarrow> bool" where
  "is_station mode \<longleftrightarrow> mode \<in> {''station_hold'', ''station_hold_fast''}"

definition enter_mode :: "pid_node \<Rightarrow> string \<Rightarrow> string \<Rightarrow> pid_node" where
  "enter_mode n mode phase =
     (let station_mode = is_station mode;
          fast_mode = (mode = ''station_hold_fast'');
          direct_altitude_mode = (mode = ''altitude_hold'' \<or> station_mode);
          h = hold n;
          n1 = (if direct_altitude_mode \<noteq> altitude_hold_active h \<or> station_mode \<noteq> station_hold_active h
                  \<or> fast_mode \<noteq> fast_station_hold_active h
                  \<or> (station_mode \<and> phase \<noteq> station_trajectory_phase h)
                then reset_node n else n)
      in n1\<lparr>hold := \<lparr>altitude_hold_active = direct_altitude_mode, station_hold_active = station_mode,
            fast_station_hold_active = fast_mode,
            station_trajectory_phase = (if station_mode then phase else '''')\<rparr>\<rparr>)"

section \<open>Station axes\<close>

definition run_pid :: "ConditionalPid \<Rightarrow> pid_input \<Rightarrow> exc + (ConditionalPid \<times> real)" where
  "run_pid p i = (case pid_step p i of (p', r) \<Rightarrow> ebind r (\<lambda>out. Inr (p', out)))"

definition axis_input :: "real \<Rightarrow> real \<Rightarrow> real \<Rightarrow> real \<Rightarrow> pyfloat \<Rightarrow> bool \<Rightarrow> pid_input" where
  "axis_input sp meas dt ff limit enabled =
     \<lparr>setpoint = Fin sp, measurement = Fin meas, step_dt = Fin dt, feedforward = Fin ff,
      limit_override = Some limit, integral_enabled = enabled\<rparr>"

definition sway_pid :: "bool \<Rightarrow> controllers \<Rightarrow> ConditionalPid" where
  "sway_pid fast k = (if fast then fast_station_sway_pid k else station_sway_pid k)"

definition set_sway_pid :: "bool \<Rightarrow> ConditionalPid \<Rightarrow> controllers \<Rightarrow> controllers" where
  "set_sway_pid fast p k = (if fast then k\<lparr>fast_station_sway_pid := p\<rparr> else k\<lparr>station_sway_pid := p\<rparr>)"

record station_plan =
  desired_surge :: real
  desired_sway :: real
  desired_yaw_rate :: real
  horizontal_axis_limit :: pyfloat
  yaw_axis_limit :: pyfloat
  yaw_maneuver :: bool
  straight_lateral :: bool

definition plan_station :: "pid_config \<Rightarrow> pyfloat \<Rightarrow> controllers \<Rightarrow> feedback \<Rightarrow> bool \<Rightarrow> bool \<Rightarrow> exc + station_plan" where
  "plan_station c cmd_limit k fb fast approach =
     (let s = station c; f = fast_station c;
          surge_rate_limit = (if fast then fast_station_surge_rate_limit f else station_surge_rate_limit s);
          sway_rate_limit = (if fast then fast_station_sway_rate_limit f else station_sway_rate_limit s);
          horizontal_limit = (if fast \<or> approach then cmd_limit
                              else flt_min cmd_limit (Fin (station_horizontal_axis_limit s)));
          yaw_limit0 = flt_min cmd_limit (Fin (station_yaw_axis_limit s)) in
     ebind (station_velocity_setpoints (map Fin (take 2 (goal_linear fb))) (map Fin (take 2 (position_error fb)))
              (map Fin (station_position_kp s)) (Fin surge_rate_limit) (Fin sway_rate_limit) approach)
       (\<lambda>planar.
         let target_yaw_rate = goal_angular fb ! 2;
             maneuver = \<bar>target_yaw_rate\<bar> > 1 / 100;
             lateral = fast \<and> \<not> maneuver
               \<and> (\<bar>goal_linear fb ! 1\<bar> > 1 / 100
                  \<or> \<bar>fast_station_sway_limited_effort k\<bar> > 1 / 100
                  \<or> \<bar>actual_linear fb ! 1\<bar> > 3 / 100)
         in Inr \<lparr>desired_surge = planar ! 0, desired_sway = planar ! 1,
              desired_yaw_rate = clip (target_yaw_rate + station_yaw_heading_kp s * orientation_error fb ! 2)
                (- station_yaw_rate_limit s) (station_yaw_rate_limit s),
              horizontal_axis_limit = horizontal_limit,
              yaw_axis_limit = (if lateral then flt_min yaw_limit0 (Fin (fast_station_lateral_yaw_axis_limit f))
                                else yaw_limit0),
              yaw_maneuver = maneuver, straight_lateral = lateral\<rparr>))"

definition clear_yaw_integral :: "controllers \<Rightarrow> controllers" where
  "clear_yaw_integral k = k\<lparr>station_yaw_pid := (station_yaw_pid k)\<lparr>integral := 0\<rparr>\<rparr>"

definition yaw_hysteresis :: real where
  "yaw_hysteresis = 2 / 10 * pi / 180"

definition yaw_integral_policy :: "pid_config \<Rightarrow> controllers \<Rightarrow> station_plan \<Rightarrow> real \<Rightarrow> exc + (controllers \<times> string)" where
  "yaw_integral_policy c k p heading_error =
     (if yaw_maneuver p
      then Inr ((clear_yaw_integral k)\<lparr>station_yaw_heading_error_sign := 0\<rparr>, ''maneuver-disabled'')
      else if straight_lateral p
      then Inr ((clear_yaw_integral k)\<lparr>station_yaw_heading_error_sign := 0\<rparr>, ''lateral-disabled'')
      else if station_yaw_maneuver_active k
      then Inr (k\<lparr>station_yaw_pid := pid_reset (station_yaw_pid k), station_yaw_heading_error_sign := 0\<rparr>, ''hold-reset'')
      else ebind (integral_reset_after_error_crossing (station_yaw_heading_error_sign k) (Fin heading_error)
                    (Fin (station_yaw_pwm_ki (station c) * integral (station_yaw_pid k))) (Fin yaw_hysteresis))
        (\<lambda>(reset_yaw_integral, error_sign).
          let k1 = k\<lparr>station_yaw_heading_error_sign := error_sign\<rparr>
          in if reset_yaw_integral then Inr (clear_yaw_integral k1, ''zero-cross-reset'')
             else Inr (k1, ''hold'')))"

record station_efforts =
  surge_effort :: real
  sway_effort :: real
  yaw_effort :: real
  yaw_saturated :: bool
  mix_scale :: real
  yaw_integral_state :: string

definition no_station_efforts :: station_efforts where
  "no_station_efforts = \<lparr>surge_effort = 0, sway_effort = 0, yaw_effort = 0, yaw_saturated = False,
     mix_scale = 1, yaw_integral_state = ''inactive''\<rparr>"

text \<open>The surge PID.\<close>

definition surge_axis_step :: "controllers \<Rightarrow> feedback \<Rightarrow> station_plan \<Rightarrow> real \<Rightarrow> exc + (controllers \<times> real)" where
  "surge_axis_step k fb p dt =
     ebind (run_pid (station_surge_pid k)
              (axis_input (desired_surge p) (actual_linear fb ! 0) dt 0 (horizontal_axis_limit p) True))
       (\<lambda>(pid, out). Inr (k\<lparr>station_surge_pid := pid\<rparr>, out))"

text \<open>The sway PID with the directional feedforward and the slew limit of fast mode.\<close>

definition sway_axis_step ::
  "pid_config \<Rightarrow> controllers \<Rightarrow> feedback \<Rightarrow> station_plan \<Rightarrow> bool \<Rightarrow> real \<Rightarrow> exc + (controllers \<times> real)" where
  "sway_axis_step c k fb p fast dt =
     (let f = fast_station c in
     ebind (if fast then directional_velocity_feedforward (Fin (desired_sway p))
                (Fin (fast_station_sway_pwm_feedforward_positive_gain f))
                (Fin (fast_station_sway_pwm_feedforward_negative_gain f)) (horizontal_axis_limit p)
            else Inr 0) (\<lambda>ff.
     ebind (run_pid (sway_pid fast k)
              (axis_input (desired_sway p) (actual_linear fb ! 1) dt ff (horizontal_axis_limit p) True))
       (\<lambda>(pid, requested).
         let k1 = set_sway_pid fast pid k in
         if fast
         then ebind (slew_rate_limit (Fin (fast_station_sway_limited_effort k1)) (Fin requested) (Fin dt)
                      (Fin (fast_station_sway_effort_slew_rate_per_s f)))
                (\<lambda>limited. Inr (k1\<lparr>fast_station_sway_limited_effort := limited\<rparr>, limited))
         else Inr (k1\<lparr>fast_station_sway_limited_effort := 0\<rparr>, requested))))"

text \<open>The yaw PI with the sway compensation and the slew limit of a straight lateral move.\<close>

definition yaw_axis_step ::
  "pid_config \<Rightarrow> controllers \<Rightarrow> feedback \<Rightarrow> station_plan \<Rightarrow> real \<Rightarrow> real \<Rightarrow> exc + (controllers \<times> real)" where
  "yaw_axis_step c k fb p sway dt =
     (let f = fast_station c;
          ff = (if straight_lateral p then - fast_station_sway_yaw_compensation_gain f * sway else 0) in
     ebind (run_pid (station_yaw_pid k)
              (axis_input (desired_yaw_rate p) (actual_rate fb ! 2) dt ff (yaw_axis_limit p)
                 (\<not> (yaw_maneuver p \<or> straight_lateral p))))
       (\<lambda>(pid, requested).
         let k1 = k\<lparr>station_yaw_pid := pid\<rparr> in
         if straight_lateral p
         then ebind (slew_rate_limit (Fin (fast_station_lateral_yaw_limited_effort k1)) (Fin requested) (Fin dt)
                      (Fin (fast_station_lateral_yaw_effort_slew_rate_per_s f)))
                (\<lambda>limited. Inr (k1\<lparr>fast_station_lateral_yaw_limited_effort := limited\<rparr>, limited))
         else Inr (k1\<lparr>fast_station_lateral_yaw_limited_effort := 0\<rparr>, requested)))"

text \<open>The integrals this cycle's mixer saturation takes back.\<close>

definition rollback_integrals :: "bool \<Rightarrow> controllers \<Rightarrow> controllers \<Rightarrow> controllers" where
  "rollback_integrals fast before k =
     (let k1 = k\<lparr>station_surge_pid := (station_surge_pid k)\<lparr>integral := integral (station_surge_pid before)\<rparr>\<rparr>;
          k2 = set_sway_pid fast ((sway_pid fast k1)\<lparr>integral := integral (sway_pid fast before)\<rparr>) k1
      in k2\<lparr>station_yaw_pid := (station_yaw_pid k2)\<lparr>integral := integral (station_yaw_pid before)\<rparr>\<rparr>)"

definition station_step ::
  "pid_config \<Rightarrow> pyfloat \<Rightarrow> controllers \<Rightarrow> feedback \<Rightarrow> bool \<Rightarrow> bool \<Rightarrow> real \<Rightarrow> exc + (controllers \<times> station_efforts)" where
  "station_step c cmd_limit k fb fast approach dt =
     ebind (plan_station c cmd_limit k fb fast approach) (\<lambda>p.
     ebind (yaw_integral_policy c k p (orientation_error fb ! 2)) (\<lambda>(k1, state).
     let before = k1\<lparr>station_yaw_maneuver_active := yaw_maneuver p\<rparr> in
     ebind (surge_axis_step before fb p dt) (\<lambda>(k2, surge).
     ebind (sway_axis_step c k2 fb p fast dt) (\<lambda>(k3, sway).
     ebind (yaw_axis_step c k3 fb p sway dt) (\<lambda>(k4, yaw).
     ebind (station_horizontal_pwm_mix (Fin surge) (Fin sway) (Fin yaw) cmd_limit) (\<lambda>(_, scale).
       Inr (if scale < 1 - 1 / 10 ^ 12 then rollback_integrals fast before k4 else k4,
         \<lparr>surge_effort = surge, sway_effort = sway, yaw_effort = yaw,
          yaw_saturated = saturated (station_yaw_pid k4), mix_scale = scale,
          yaw_integral_state = state\<rparr>)))))))"

section \<open>Level axes of fast station hold\<close>

definition surge_direction :: "real \<Rightarrow> int" where
  "surge_direction applied = (if applied > 1 / 100 then 1 else if applied < - (1 / 100) then - 1 else 0)"

record level_result =
  level_efforts :: "real list"
  level_saturated :: bool
  pitch_decoupling :: real
  altitude_output_limit :: pyfloat

definition no_level :: "pyfloat \<Rightarrow> level_result" where
  "no_level cmd_limit = \<lparr>level_efforts = [0, 0], level_saturated = False, pitch_decoupling = 0,
     altitude_output_limit = cmd_limit\<rparr>"

definition level_step ::
  "pid_config \<Rightarrow> pyfloat \<Rightarrow> controllers \<Rightarrow> feedback \<Rightarrow> real \<Rightarrow> real \<Rightarrow> exc + (controllers \<times> level_result)" where
  "level_step c cmd_limit k fb applied_surge dt =
     (let l = level c;
          direction = surge_direction applied_surge;
          k1 = (if direction \<noteq> fast_station_surge_direction k
                then k\<lparr>fast_station_pitch_rate_integral_effort := 0\<rparr> else k);
          k2 = k1\<lparr>fast_station_surge_direction := direction\<rparr> in
     ebind (if fast_station_surge_pitch_decoupling_enabled l
            then surge_pitch_decoupling_effort (Fin applied_surge) (Fin (fast_station_surge_pitch_forward_gain l))
                   (Fin (fast_station_surge_pitch_reverse_gain l)) (Fin (fast_station_surge_pitch_limit l))
            else Inr 0) (\<lambda>decoupling.
     let level_limit = flt_min cmd_limit (Fin (fast_station_level_pwm_limit (fast_station c)));
         cascade = level_attitude_rate_efforts
           (map Fin (take 2 (orientation_error fb))) (map Fin (take 2 (goal_angular fb)))
           (map Fin (take 2 (actual_rate fb))) (map Fin (fast_station_level_angle_to_rate_kp l))
           (map Fin (fast_station_level_rate_kp l)) (map Fin (fast_station_level_rate_limit_rps l))
           level_limit [Fin 0, Fin decoupling] in
     ebind (cascade [Fin 0, Fin 0]) (\<lambda>(_, level_base_raw, desired_level_rate, _).
     ebind (conditional_axis_integral_effort (Fin (fast_station_pitch_rate_integral_effort k2))
              (Fin (desired_level_rate ! 1 - actual_rate fb ! 1)) (Fin (fast_station_pitch_rate_ki l)) (Fin dt)
              (Fin (fast_station_pitch_rate_integral_effort_limit l)) (map Fin level_base_raw) 1 level_limit)
       (\<lambda>pitch_integral.
     ebind (cascade [Fin 0, Fin pitch_integral]) (\<lambda>(efforts, _, _, sat).
       Inr (k2\<lparr>fast_station_pitch_rate_integral_effort := pitch_integral\<rparr>,
         \<lparr>level_efforts = efforts, level_saturated = sat, pitch_decoupling = decoupling,
          altitude_output_limit = flt_max (Fin 0) (flt_minus cmd_limit (np_sum (vabs efforts)))\<rparr>))))))"

section \<open>The whole hold controller\<close>

record hold_result =
  commands :: "real list"
  controller_effort :: real
  allocation_saturation :: real
  message :: status_text

definition hold_status ::
  "pid_config \<Rightarrow> pyfloat \<Rightarrow> controllers \<Rightarrow> target_msg \<Rightarrow> bool \<Rightarrow> bool \<Rightarrow> station_efforts \<Rightarrow> level_result \<Rightarrow> real \<Rightarrow> real list \<Rightarrow> status_text" where
  "hold_status c pwm k t station_mode fast e lv effort cs =
     (let z = vz (target_position t);
          applied = [surge_effort e * mix_scale e, sway_effort e * mix_scale e, yaw_effort e * mix_scale e];
          horizontal_i = [station_surge_pwm_ki (station c) * integral (station_surge_pid k),
                          station_sway_pwm_ki (station c) * integral (sway_pid fast k)];
          yaw_i = station_yaw_pwm_ki (station c) * integral (station_yaw_pid k)
      in if station_mode
         then if fast
              then FastStation z (level_efforts lv) (fast_station_pitch_rate_integral_effort k) (pitch_decoupling lv)
                     applied horizontal_i yaw_i (yaw_integral_state e) pwm
              else Station z applied horizontal_i yaw_i (yaw_integral_state e)
         else AltitudeHold z effort (cs ! 0))"

definition hold_saturation :: "pyfloat \<Rightarrow> controllers \<Rightarrow> bool \<Rightarrow> bool \<Rightarrow> station_efforts \<Rightarrow> level_result \<Rightarrow> real list \<Rightarrow> real" where
  "hold_saturation cmd_limit k station_mode fast e lv cs =
     (let horizontal = saturated (station_surge_pid k) \<or> saturated (sway_pid fast k) \<or> yaw_saturated e
            \<or> mix_scale e < 1 - 1 / 10 ^ 12
            \<or> flt_lt (Fin 0) cmd_limit
              \<and> list_ex (\<lambda>v. flt_le (flt_minus cmd_limit (1 / 10 ^ 9)) (Fin \<bar>v\<bar>)) (drop 4 cs)
      in of_bool (saturated (altitude_pid k) \<or> station_mode \<and> (horizontal \<or> level_saturated lv)))"

definition hold_step ::
  "pid_config \<Rightarrow> pyfloat \<Rightarrow> controllers \<Rightarrow> target_msg \<Rightarrow> feedback \<Rightarrow> real \<Rightarrow> exc + (controllers \<times> hold_result)" where
  "hold_step c pwm k t fb dt =
     (let cmd_limit = flt_scale (1 / 500) pwm;
          mode = py_lower (control_mode t);
          station_mode = is_station mode;
          fast = (mode = ''station_hold_fast'');
          approach = (py_lower (trajectory_phase t) = ''start_approach'');
          a = altitude c in
     ebind (quaternion_apply (map Fin (localization_q fb)) (map Fin (actual_linear fb))) (\<lambda>actual_linear_world.
     ebind (first_order_low_pass (map_option Fin (altitude_vertical_velocity_filtered k))
              (Fin (actual_linear_world ! 2)) (Fin dt) (Fin (altitude_velocity_filter_time_constant_s a)))
       (\<lambda>vertical.
     let k1 = k\<lparr>altitude_vertical_velocity_filtered := Some vertical\<rparr> in
     ebind (altitude_velocity_setpoint (Fin (goal_position fb ! 2)) (Fin (current_position fb ! 2))
              (vz (target_linear t)) (Fin (altitude_position_kp a))) (\<lambda>desired_vertical_velocity.
     ebind (if station_mode then station_step c cmd_limit k1 fb fast approach dt
            else Inr (k1, no_station_efforts)) (\<lambda>(k2, e).
     ebind (if fast then level_step c cmd_limit k2 fb (surge_effort e * mix_scale e) dt
            else Inr (k2, no_level cmd_limit)) (\<lambda>(k3, lv).
     ebind (run_pid (altitude_pid k3)
              (axis_input desired_vertical_velocity vertical dt 0 (altitude_output_limit lv) True)) (\<lambda>(pid, effort).
     let k4 = k3\<lparr>altitude_pid := pid\<rparr> in
     ebind (if station_mode
            then altitude_station_pwm_commands (Fin effort) (Fin (surge_effort e)) (Fin (sway_effort e))
                   (Fin (yaw_effort e)) cmd_limit (Fin (altitude_pwm_command_sign a))
                   (Fin (level_efforts lv ! 0)) (Fin (level_efforts lv ! 1))
            else altitude_collective_pwm_commands (Fin effort) cmd_limit (Fin (altitude_pwm_command_sign a)))
       (\<lambda>cs. Inr (k4, \<lparr>commands = cs, controller_effort = effort,
                allocation_saturation = hold_saturation cmd_limit k4 station_mode fast e lv cs,
                message = hold_status c pwm k4 t station_mode fast e lv effort cs\<rparr>)))))))))"

section \<open>Publishing and the control tick\<close>

definition make_status ::
  "pid_node \<Rightarrow> bool \<Rightarrow> bool \<Rightarrow> string list \<Rightarrow> pyfloat \<times> pyfloat \<times> pyfloat \<Rightarrow> pyfloat \<Rightarrow> real \<Rightarrow> status_text \<Rightarrow> pid_status" where
  "make_status n rdy producing missing ages residual saturation text =
     (case ages of (body_age, imu_age, target_age) \<Rightarrow>
       \<lparr>ready = rdy, producing_command = producing, missing_inputs = missing,
        body_state_age_s = body_age, imu_age_s = imu_age, target_age_s = target_age,
        allocation_rank = 0, allocation_condition = PInf, allocation_residual = residual,
        saturation_fraction = saturation, status_configuration_hash = configuration_hash (config n),
        status_message = text\<rparr>)"

definition publish_disabled :: "pid_node \<Rightarrow> string list \<Rightarrow> pyfloat \<times> pyfloat \<times> pyfloat \<Rightarrow> node_output list" where
  "publish_disabled n missing ages =
     [Command \<lparr>command_frame = ''base_link'', action = replicate 8 0, enable = False, source = ''pid_controller''\<rparr>,
      Status (make_status n False False missing ages PInf 0
        (Disabled (if load_error (config n) \<noteq> '''' then load_error (config n) else py_join '', '' missing)))]"

definition to_action :: "real list \<Rightarrow> real list" where
  "to_action cs = map (\<lambda>v. clip (v * 500 / 250) (- 1) 1) cs"

definition publish_enabled :: "pid_node \<Rightarrow> real list \<Rightarrow> pyfloat \<times> pyfloat \<times> pyfloat \<Rightarrow> real \<Rightarrow> status_text \<Rightarrow> node_output list" where
  "publish_enabled n cs ages saturation text =
     [Command \<lparr>command_frame = ''base_link'', action = to_action cs, enable = True, source = ''pid_controller''\<rparr>,
      Status (make_status n True True [] ages (Fin 0) saturation text)]"

definition tick_dt :: "pid_node \<Rightarrow> int \<Rightarrow> pyfloat" where
  "tick_dt n now_ns = (case last_tick_ns n of
       None \<Rightarrow> flt_period (flt_max (Fin 1) (control_rate_hz n))
     | Some t \<Rightarrow> age_s now_ns (Some t))"

definition tick :: "pid_node \<Rightarrow> int \<Rightarrow> exc + (pid_node \<times> node_output list)" where
  "tick n now_ns =
     (if \<not> pid_selected n then Inr (n, [])
      else case input_status n now_ns of (missing, ages) \<Rightarrow>
        if missing \<noteq> []
        then Inr ((reset_node n)\<lparr>last_tick_ns := Some now_ns\<rparr>, publish_disabled n missing ages)
        else
          let dt = tick_dt n now_ns; n1 = n\<lparr>last_tick_ns := Some now_ns\<rparr> in
          if \<not> (flt_le (Fin (1 / 10 ^ 4)) dt \<and> flt_le dt (Fin (1 / 10)))
          then Inr (reset_node n1, publish_disabled n1 [''control_dt_invalid''] ages)
          else
            let b = the (body (inp n1)); t = the (target (inp n1)) in
            ebind (tick_feedback (inp n1) b t) (\<lambda>fb.
              let mode = py_lower (control_mode t);
                  n2 = enter_mode n1 mode (py_lower (trajectory_phase t))
              in if mode = ''idle''
                 then Inr (reset_node n2, publish_enabled n2 (replicate 8 0) ages 0 Neutral)
                 else if mode = ''altitude_hold'' \<or> is_station mode
                 then ebind (hold_step (config n2) (pwm_limit_us n2) (ctl n2) t fb (fval dt))
                   (\<lambda>(k, r). Inr (n2\<lparr>ctl := k\<rparr>,
                      publish_enabled n2 (commands r) ages (allocation_saturation r) (message r)))
                 else Inr (n2, publish_disabled n2 [''unsupported_control_mode''] ages)))"

section \<open>Runs of the node\<close>

datatype node_event = Body int body_state_msg | Imu int imu_msg | Target int target_msg
  | Authority authority_msg | Timer int

fun node_event_step :: "pid_node \<Rightarrow> node_event \<Rightarrow> exc + (pid_node \<times> node_output list)" where
  "node_event_step n (Body now m) = Inr (on_body n now m, [])"
| "node_event_step n (Imu now m) = ebind (on_imu n now m) (\<lambda>n'. Inr (n', []))"
| "node_event_step n (Target now m) = Inr (on_target n now m, [])"
| "node_event_step n (Authority m) = Inr (on_authority_status n m, [])"
| "node_event_step n (Timer now) = tick n now"

text \<open>
  The executor delivers events one after the other and stops at the first exception.  Delivery
  is not tied to the subscriptions: a message that was queued when its subscription was destroyed
  is one more interleaving.
\<close>

fun node_run :: "pid_node \<Rightarrow> node_event list \<Rightarrow> exc + (pid_node \<times> node_output list)" where
  "node_run n [] = Inr (n, [])"
| "node_run n (e # es) =
     ebind (node_event_step n e) (\<lambda>(n1, out1). ebind (node_run n1 es) (\<lambda>(n2, out2). Inr (n2, out1 @ out2)))"

end
