(* ===== verification/Pid_Node_Safety.thy ===== *)
theory Pid_Node_Safety
  imports Pid_Node
begin

text \<open>
  Invariants and properties of the PID node: the state every sequence of callbacks reaches, the
  bound on every published action, the fail-closed conditions for enabling the thrusters, the
  handling of saturation, and that the callbacks do not raise on finite messages.
\<close>

section \<open>Controller state\<close>

definition good_pid :: "PidGains \<Rightarrow> ConditionalPid \<Rightarrow> bool" where
  "good_pid g p \<longleftrightarrow> gains p = g \<and> pid_inv p"

definition ctl_inv :: "pid_config \<Rightarrow> controllers \<Rightarrow> bool" where
  "ctl_inv c k \<longleftrightarrow>
     good_pid (altitude_gains (altitude c)) (altitude_pid k) \<and> good_pid (surge_gains c) (station_surge_pid k)
     \<and> good_pid (sway_gains c) (station_sway_pid k) \<and> good_pid (fast_sway_gains c) (fast_station_sway_pid k)
     \<and> good_pid (yaw_gains c) (station_yaw_pid k)
     \<and> station_yaw_heading_error_sign k \<in> {- 1, 0, 1}
     \<and> \<bar>fast_station_pitch_rate_integral_effort k\<bar> \<le> fast_station_pitch_rate_integral_effort_limit (level c)"

definition pwm_ok :: "pyfloat \<Rightarrow> bool" where
  "pwm_ok pwm \<longleftrightarrow> pwm = NaN \<or> (\<exists>x. pwm = Fin x \<and> 0 \<le> x \<and> x \<le> 250)"

lemma run_pid_Inr:
  assumes "run_pid p i = Inr (p', out)"
  shows "pid_step p i = (p', Inr out)"
  using assms by (auto simp: run_pid_def err_simps split: prod.splits)

lemma run_pid_good: "run_pid p i = Inr (p', out) \<Longrightarrow> good_pid g p \<Longrightarrow> good_pid g p'"
  using axis_pid.step_good [of p i] pid_step_gains [of p i] run_pid_Inr [of p i p' out]
  by (auto simp: good_pid_def)

lemma run_pid_bound: "run_pid p i = Inr (p', out) \<Longrightarrow> \<bar>out\<bar> \<le> pid_limit p i"
  using axis_pid.step_bound [of p i out] run_pid_Inr [of p i p' out] by simp

lemma pid_limit_axis_input [simp]: "pid_limit p (axis_input sp m dt ff limit en) = \<bar>fval limit\<bar>"
  by (simp add: pid_limit_def axis_input_def)

lemma good_pid_reset [simp]: "good_pid g p \<Longrightarrow> good_pid g (pid_reset p)"
  by (simp add: good_pid_def)

lemma good_pid_new [simp]: "good_pid g (new_pid g)"
  by (simp add: good_pid_def) (simp add: new_pid_def)

lemma good_pid_zero [simp]: "good_pid g p \<Longrightarrow> good_pid g (p\<lparr>integral := 0\<rparr>)"
  by (simp add: good_pid_def pid_inv_def)

lemma good_pid_restore [simp]:
  "good_pid g p \<Longrightarrow> good_pid g q \<Longrightarrow> good_pid g (p\<lparr>integral := integral q\<rparr>)"
  by (auto simp: good_pid_def pid_inv_def)

lemma ctl_inv_reset [simp]: "valid_config c \<Longrightarrow> ctl_inv c k \<Longrightarrow> ctl_inv c (reset_controllers k)"
  by (simp add: ctl_inv_def reset_controllers_def valid_config_def valid_level_def)

lemma ctl_inv_fresh [simp]: "valid_config c \<Longrightarrow> ctl_inv c (fresh_controllers c)"
  by (simp add: ctl_inv_def fresh_controllers_def valid_config_def valid_level_def)

lemma reset_is_fresh: "ctl_inv c k \<Longrightarrow> reset_controllers k = fresh_controllers c"
  by (simp add: ctl_inv_def good_pid_def reset_controllers_def fresh_controllers_def pid_reset_new)

lemma ctl_inv_velocity [simp]:
  "ctl_inv c (k\<lparr>altitude_vertical_velocity_filtered := v\<rparr>) = ctl_inv c k"
  "ctl_inv c (k\<lparr>station_yaw_maneuver_active := m\<rparr>) = ctl_inv c k"
  "ctl_inv c (k\<lparr>fast_station_sway_limited_effort := x\<rparr>) = ctl_inv c k"
  "ctl_inv c (k\<lparr>fast_station_lateral_yaw_limited_effort := x\<rparr>) = ctl_inv c k"
  "ctl_inv c (k\<lparr>fast_station_surge_direction := d\<rparr>) = ctl_inv c k"
  by (simp_all add: ctl_inv_def)

lemma yaw_policy_inv:
  assumes "yaw_integral_policy c k p err = Inr (k', state)" "ctl_inv c k"
  shows "ctl_inv c k'"
  using assms integral_reset_sign
  by (fastforce simp: yaw_integral_policy_def clear_yaw_integral_def ctl_inv_def err_simps Let_def
      split: if_split_asm)

lemma surge_step_inv:
  assumes "surge_axis_step k fb p dt = Inr (k', out)" "ctl_inv c k"
  shows "ctl_inv c k' \<and> \<bar>out\<bar> \<le> \<bar>fval (horizontal_axis_limit p)\<bar>"
  using assms run_pid_bound run_pid_good by (fastforce simp: surge_axis_step_def ctl_inv_def err_simps)

lemma sway_step_inv:
  assumes "sway_axis_step c k fb p fast dt = Inr (k', out)" "ctl_inv c k"
  shows "ctl_inv c k'"
  using assms run_pid_good
  by (auto simp: sway_axis_step_def ctl_inv_def err_simps Let_def sway_pid_def set_sway_pid_def
      split: if_split_asm)

lemma yaw_step_inv:
  assumes "yaw_axis_step c k fb p sway dt = Inr (k', out)" "ctl_inv c k"
  shows "ctl_inv c k'"
  using assms run_pid_good by (auto simp: yaw_axis_step_def ctl_inv_def err_simps Let_def split: if_split_asm)

lemma rollback_inv: "ctl_inv c before \<Longrightarrow> ctl_inv c k \<Longrightarrow> ctl_inv c (rollback_integrals fast before k)"
  by (auto simp: ctl_inv_def rollback_integrals_def Let_def sway_pid_def set_sway_pid_def)

text \<open>The stages of a successful station step.\<close>

lemma station_step_Inr:
  assumes "station_step c L k fb fast approach dt = Inr (k', e)"
  obtains p k1 state k2 k3 k4 horizontal where
    "plan_station c L k fb fast approach = Inr p"
    "yaw_integral_policy c k p (orientation_error fb ! 2) = Inr (k1, state)"
    "surge_axis_step (k1\<lparr>station_yaw_maneuver_active := yaw_maneuver p\<rparr>) fb p dt = Inr (k2, surge_effort e)"
    "sway_axis_step c k2 fb p fast dt = Inr (k3, sway_effort e)"
    "yaw_axis_step c k3 fb p (sway_effort e) dt = Inr (k4, yaw_effort e)"
    "station_horizontal_pwm_mix (Fin (surge_effort e)) (Fin (sway_effort e)) (Fin (yaw_effort e)) L
       = Inr (horizontal, mix_scale e)"
    "k' = (if mix_scale e < 1 - 1 / 10 ^ 12
           then rollback_integrals fast (k1\<lparr>station_yaw_maneuver_active := yaw_maneuver p\<rparr>) k4 else k4)"
  using assms unfolding station_step_def Let_def
  by (auto simp: err_simps split: prod.splits intro: that)

lemma station_step_inv:
  assumes "station_step c L k fb fast approach dt = Inr (k', e)" "ctl_inv c k"
  shows "ctl_inv c k'"
  using assms(1)
proof (rule station_step_Inr)
  fix p :: station_plan and k1 :: controllers and state k2 k3 k4 horizontal
  define before where "before = k1\<lparr>station_yaw_maneuver_active := yaw_maneuver p\<rparr>"
  assume pol: "yaw_integral_policy c k p (orientation_error fb ! 2) = Inr (k1, state)"
    and su: "surge_axis_step (k1\<lparr>station_yaw_maneuver_active := yaw_maneuver p\<rparr>) fb p dt = Inr (k2, surge_effort e)"
    and sw: "sway_axis_step c k2 fb p fast dt = Inr (k3, sway_effort e)"
    and ya: "yaw_axis_step c k3 fb p (sway_effort e) dt = Inr (k4, yaw_effort e)"
    and k': "k' = (if mix_scale e < 1 - 1 / 10 ^ 12
           then rollback_integrals fast (k1\<lparr>station_yaw_maneuver_active := yaw_maneuver p\<rparr>) k4 else k4)"
  have b: "ctl_inv c before" using yaw_policy_inv [OF pol assms(2)] by (simp add: before_def)
  have "ctl_inv c k2" using surge_step_inv [OF su] b by (simp add: before_def)
  then have "ctl_inv c k4" using sway_step_inv [OF sw] yaw_step_inv [OF ya] by blast
  then show ?thesis using k' b rollback_inv unfolding before_def by auto
qed

text \<open>The stages of a successful level step.\<close>

definition pitch_integral_before :: "controllers \<Rightarrow> real \<Rightarrow> controllers" where
  "pitch_integral_before k su =
     (if surge_direction su \<noteq> fast_station_surge_direction k
      then k\<lparr>fast_station_pitch_rate_integral_effort := 0\<rparr> else k)
       \<lparr>fast_station_surge_direction := surge_direction su\<rparr>"

lemma level_step_Inr:
  assumes "level_step c L k fb su dt = Inr (k', r)"
  obtains d eff0 base des0 sat0 I eff raw des sat where
    "(if fast_station_surge_pitch_decoupling_enabled (level c)
      then surge_pitch_decoupling_effort (Fin su) (Fin (fast_station_surge_pitch_forward_gain (level c)))
             (Fin (fast_station_surge_pitch_reverse_gain (level c))) (Fin (fast_station_surge_pitch_limit (level c)))
      else Inr 0) = Inr d"
    "level_attitude_rate_efforts (map Fin (take 2 (orientation_error fb))) (map Fin (take 2 (goal_angular fb)))
       (map Fin (take 2 (actual_rate fb))) (map Fin (fast_station_level_angle_to_rate_kp (level c)))
       (map Fin (fast_station_level_rate_kp (level c))) (map Fin (fast_station_level_rate_limit_rps (level c)))
       (flt_min L (Fin (fast_station_level_pwm_limit (fast_station c)))) [Fin 0, Fin d] [Fin 0, Fin 0]
       = Inr (eff0, base, des0, sat0)"
    "conditional_axis_integral_effort
       (Fin (fast_station_pitch_rate_integral_effort (pitch_integral_before k su)))
       (Fin (des0 ! 1 - actual_rate fb ! 1)) (Fin (fast_station_pitch_rate_ki (level c))) (Fin dt)
       (Fin (fast_station_pitch_rate_integral_effort_limit (level c))) (map Fin base) 1
       (flt_min L (Fin (fast_station_level_pwm_limit (fast_station c)))) = Inr I"
    "level_attitude_rate_efforts (map Fin (take 2 (orientation_error fb))) (map Fin (take 2 (goal_angular fb)))
       (map Fin (take 2 (actual_rate fb))) (map Fin (fast_station_level_angle_to_rate_kp (level c)))
       (map Fin (fast_station_level_rate_kp (level c))) (map Fin (fast_station_level_rate_limit_rps (level c)))
       (flt_min L (Fin (fast_station_level_pwm_limit (fast_station c)))) [Fin 0, Fin d] [Fin 0, Fin I]
       = Inr (eff, raw, des, sat)"
    "(pitch_integral_before k su)\<lparr>fast_station_pitch_rate_integral_effort := I\<rparr> = k'"
    "\<lparr>level_efforts = eff, level_saturated = sat, pitch_decoupling = d,
       altitude_output_limit = flt_max (Fin 0) (flt_minus L (np_sum (vabs eff)))\<rparr> = r"
  using assms
  unfolding level_step_def Let_def ebind_Inr_conv split_paired_Ex prod.case sum.inject prod.inject
    pitch_integral_before_def [symmetric]
  by (elim exE conjE) (rule that)

lemma level_step_inv:
  assumes "level_step c L k fb su dt = Inr (k', r)" "ctl_inv c k"
  shows "ctl_inv c k'"
  using assms(1)
proof (rule level_step_Inr)
  fix d des0 base I
  assume i: "conditional_axis_integral_effort
       (Fin (fast_station_pitch_rate_integral_effort (pitch_integral_before k su)))
       (Fin (des0 ! 1 - actual_rate fb ! 1)) (Fin (fast_station_pitch_rate_ki (level c))) (Fin dt)
       (Fin (fast_station_pitch_rate_integral_effort_limit (level c))) (map Fin base) 1
       (flt_min L (Fin (fast_station_level_pwm_limit (fast_station c)))) = Inr I"
    and k': "(pitch_integral_before k su)\<lparr>fast_station_pitch_rate_integral_effort := I\<rparr> = k'"
  have "\<bar>I\<bar> \<le> fast_station_pitch_rate_integral_effort_limit (level c)"
    using conditional_axis_integral_bound [OF i] by simp
  then show ?thesis using assms(2) unfolding k' [symmetric] by (simp add: ctl_inv_def pitch_integral_before_def)
qed

text \<open>The stages of a successful hold step.\<close>

lemma hold_step_Inr:
  fixes t :: target_msg
  assumes "hold_step c pwm k t fb dt = Inr (k', r)"
  defines "L \<equiv> flt_scale (1 / 500) pwm" and "mode \<equiv> py_lower (control_mode t)"
  defines "fast \<equiv> mode = ''station_hold_fast''"
  obtains v dv k2 e k3 lv pid where
    "(if is_station mode then station_step c L (k\<lparr>altitude_vertical_velocity_filtered := Some v\<rparr>) fb fast
         (py_lower (trajectory_phase t) = ''start_approach'') dt
       else Inr (k\<lparr>altitude_vertical_velocity_filtered := Some v\<rparr>, no_station_efforts)) = Inr (k2, e)"
    "(if fast then level_step c L k2 fb (surge_effort e * mix_scale e) dt
       else Inr (k2, no_level L)) = Inr (k3, lv)"
    "run_pid (altitude_pid k3) (axis_input dv v dt 0 (altitude_output_limit lv) True) = Inr (pid, controller_effort r)"
    "k' = k3\<lparr>altitude_pid := pid\<rparr>"
    "(if is_station mode
      then altitude_station_pwm_commands (Fin (controller_effort r)) (Fin (surge_effort e)) (Fin (sway_effort e))
             (Fin (yaw_effort e)) L (Fin (altitude_pwm_command_sign (altitude c)))
             (Fin (level_efforts lv ! 0)) (Fin (level_efforts lv ! 1))
      else altitude_collective_pwm_commands (Fin (controller_effort r)) L (Fin (altitude_pwm_command_sign (altitude c))))
     = Inr (commands r)"
  using assms(1)
  unfolding hold_step_def Let_def L_def [symmetric] mode_def [symmetric] fast_def [symmetric]
    ebind_Inr_conv split_paired_Ex prod.case sum.inject prod.inject
  apply (elim exE conjE)
  apply (erule that)
  apply assumption
  apply (clarify, simp only: hold_result.simps)+
  done

lemma hold_step_inv:
  assumes "hold_step c pwm k t fb dt = Inr (k', r)" "ctl_inv c k"
  shows "ctl_inv c k'"
  using assms(1)
proof (rule hold_step_Inr)
  fix v dv k2 e k3 lv pid
  assume st: "(if is_station (py_lower (control_mode t)) then station_step c (flt_scale (1 / 500) pwm) (k\<lparr>altitude_vertical_velocity_filtered := Some v\<rparr>) fb (py_lower (control_mode t) = ''station_hold_fast'')
         (py_lower (trajectory_phase t) = ''start_approach'') dt
       else Inr (k\<lparr>altitude_vertical_velocity_filtered := Some v\<rparr>, no_station_efforts)) = Inr (k2, e)"
    and lv: "(if py_lower (control_mode t) = ''station_hold_fast'' then level_step c (flt_scale (1 / 500) pwm) k2 fb (surge_effort e * mix_scale e) dt
       else Inr (k2, no_level (flt_scale (1 / 500) pwm))) = Inr (k3, lv)"
    and run: "run_pid (altitude_pid k3) (axis_input dv v dt 0 (altitude_output_limit lv) True) = Inr (pid, controller_effort r)"
    and k': "k' = k3\<lparr>altitude_pid := pid\<rparr>"
  have "ctl_inv c k2" using st assms(2) station_step_inv by (auto split: if_split_asm)
  then have "ctl_inv c k3" using lv level_step_inv by (auto split: if_split_asm)
  then show ?thesis using k' run_pid_good [OF run] by (simp add: ctl_inv_def)
qed

section \<open>IMU estimator state\<close>

definition imu_history_ok :: "int \<Rightarrow> (int \<times> real list) list \<Rightarrow> bool" where
  "imu_history_ok t samples \<longleftrightarrow> samples \<noteq> [] \<and> sorted_wrt (<) (map fst samples) \<and> fst (last samples) = t
     \<and> list_all (\<lambda>s. length (snd s) = 3) samples"

definition imu_inv :: "inputs \<Rightarrow> bool" where
  "imu_inv i \<longleftrightarrow>
     (case imu_filter_ns i of
        None \<Rightarrow> imu_orientation_filtered i = None \<and> imu_angular_velocity_filtered i = None \<and> imu_ns i = None
      | Some t \<Rightarrow> (\<exists>q w. imu_orientation_filtered i = Some q \<and> unit_quat q
          \<and> imu_angular_velocity_filtered i = Some w \<and> length w = 3 \<and> imu_history_ok t (imu_rate_samples i)))"

lemma sorted_wrt_drop: "sorted_wrt P xs \<Longrightarrow> sorted_wrt P (drop n xs)"
  by (metis append_take_drop_id sorted_wrt_append)

lemma deque_append_ok:
  assumes "imu_history_ok t xs" "t < t'" "length w = 3" "0 < maxlen"
  shows "imu_history_ok t' (deque_append maxlen xs (t', w))"
proof -
  have le: "fst x \<le> t" if "x \<in> set xs" for x
  proof -
    obtain ys y where xs: "xs = ys @ [y]" using assms(1) by (metis imu_history_ok_def rev_exhaust)
    then show ?thesis using assms(1) that by (auto simp: imu_history_ok_def sorted_wrt_append)
  qed
  then have sorted: "sorted_wrt (<) (map fst (xs @ [(t', w)]))"
    using assms(1,2) by (fastforce simp: imu_history_ok_def sorted_wrt_append)
  have all: "list_all (\<lambda>s. length (snd s) = 3) (xs @ [(t', w)])"
    using assms(1,3) by (simp add: imu_history_ok_def)
  define n where "n = length (xs @ [(t', w)]) - maxlen"
  have n: "n < length (xs @ [(t', w)])" using assms(4) by (simp add: n_def)
  have d: "deque_append maxlen xs (t', w) = drop n (xs @ [(t', w)])"
    by (simp add: deque_append_def n_def Let_def)
  have "list_all (\<lambda>s. length (snd s) = 3) (drop n (xs @ [(t', w)]))"
    using all by (auto simp: list_all_iff dest: in_set_dropD)
  then show ?thesis
    using sorted_wrt_drop [OF sorted, of n] n unfolding d imu_history_ok_def
    by (simp add: drop_map [symmetric] del: drop_append)
qed

lemma reject_vector_outlier_total:
  assumes "list_all (\<lambda>r. length r = 3) recent" "length w = 3" "0 \<le> th"
  shows "\<exists>out. reject_vector_outlier (map (map Fin) recent) (map Fin w) (Fin th) = Inr out \<and> length out = 3"
proof -
  have m: "np_matrix (map (map Fin) recent) = Inr (map (map Fin) recent)"
    using assms(1) by (cases recent) (auto simp: np_matrix_def list_all_iff)
  have r: "list_all (\<lambda>row. length row = 3 \<and> list_all isfinite row) (map (map Fin) recent)"
    using assms(1) by (auto simp: list_all_iff)
  show ?thesis using assms(2,3) r by (simp add: reject_vector_outlier_def m Let_def)
qed

lemma rate_prediction_total:
  assumes "imu_history_ok t samples" "0 \<le> h" "0 \<le> a" "0 \<le> d"
  shows "\<exists>out. timestamped_rate_prediction (map fst samples) (map (\<lambda>s. map Fin (snd s)) samples) (Fin h) (Fin a) (Fin d)
     = Inr out \<and> length out = 3"
proof -
  have "length (last (map snd samples)) = 3"
    using assms(1) by (auto simp: imu_history_ok_def list_all_iff last_map)
  then show ?thesis
    using timestamped_rate_prediction_eq [of "map snd samples" "map fst samples" h a d] assms
    by (auto simp: imu_history_ok_def list_all_iff comp_def)
qed

lemma imu_filter_update_total:
  assumes c: "valid_imu m" and i: "imu_inv i" "imu_filter_ns i = Some t" and t: "t < t'"
    and w: "length w = 3" and q: "unit_quat q"
  shows "\<exists>i'. imu_filter_update m i t' dt w q = Inr i'
    \<and> (\<exists>p v. imu_orientation_filtered i' = Some p \<and> unit_quat p
        \<and> imu_angular_velocity_filtered i' = Some v \<and> length v = 3 \<and> imu_history_ok t' (imu_rate_samples i'))
    \<and> i' = i\<lparr>imu_rate_samples := imu_rate_samples i',
          imu_angular_velocity_filtered := imu_angular_velocity_filtered i',
          imu_orientation_filtered := imu_orientation_filtered i'\<rparr>"
proof -
  obtain p v where pv: "imu_orientation_filtered i = Some p" "unit_quat p"
    "imu_angular_velocity_filtered i = Some v" "length v = 3" "imu_history_ok t (imu_rate_samples i)"
    using i by (auto simp: imu_inv_def)
  obtain r where r: "reject_vector_outlier (map (\<lambda>s. map Fin (snd s)) (imu_rate_samples i)) (map Fin w)
      (Fin (imu_rate_outlier_limit_rps m)) = Inr r" "length r = 3"
    using reject_vector_outlier_total [of "map snd (imu_rate_samples i)" w "imu_rate_outlier_limit_rps m"] pv w c
    by (auto simp: imu_history_ok_def list_all_iff comp_def valid_imu_def)
  define samples where "samples = deque_append (imu_rate_history_samples m) (imu_rate_samples i) (t', r)"
  have ok: "imu_history_ok t' samples"
    unfolding samples_def using pv(5) t r(2) c by (intro deque_append_ok) (auto simp: valid_imu_def)
  obtain f where f: "timestamped_rate_prediction (map fst samples) (map (\<lambda>s. map Fin (snd s)) samples)
      (Fin (imu_rate_prediction_horizon_s m)) (Fin (imu_rate_prediction_accel_limit_rps2 m))
      (Fin (imu_rate_prediction_delta_limit_rps m)) = Inr f" "length f = 3"
    using rate_prediction_total [OF ok, of "imu_rate_prediction_horizon_s m"
        "imu_rate_prediction_accel_limit_rps2 m" "imu_rate_prediction_delta_limit_rps m"] c
    by (auto simp: valid_imu_def)
  obtain p' where p': "quaternion_slerp (map Fin p) (map Fin q) (filter_alpha dt (imu_orientation_filter_time_constant_s m))
      = Inr p'" "unit_quat p'"
    using quaternion_slerp_Inr [OF normalize_of_unit [OF pv(2)] normalize_of_unit [OF q]] by blast
  show ?thesis
    using pv r f p' ok by (simp add: imu_filter_update_def samples_def [symmetric] Let_def)
qed

section \<open>The node invariant\<close>

definition node_inv :: "pid_node \<Rightarrow> bool" where
  "node_inv n \<longleftrightarrow> valid_config (config n) \<and> pwm_ok (pwm_limit_us n) \<and> ctl_inv (config n) (ctl n) \<and> imu_inv (inp n)"

lemma flt_clip_pwm_ok: "pwm_ok (flt_clip v 0 250)"
  by (cases v) (auto simp: pwm_ok_def clip_def)

lemma no_inputs_inv [simp]: "imu_inv no_inputs"
  by (simp add: imu_inv_def no_inputs_def)

lemma pid_init_inv: "pid_init sha ov = Inr n \<Longrightarrow> node_inv n"
  unfolding pid_init_def
  by (auto simp: err_simps Let_def node_inv_def flt_clip_pwm_ok load_configuration_valid)

lemma reset_node_fields [simp]:
  "config (reset_node n) = config n" "pwm_limit_us (reset_node n) = pwm_limit_us n"
  "inp (reset_node n) = inp n" "ctl (reset_node n) = reset_controllers (ctl n)"
  "pid_selected (reset_node n) = pid_selected n"
  by (simp_all add: reset_node_def)

lemma reset_node_inv [simp]: "node_inv n \<Longrightarrow> node_inv (reset_node n)"
  by (simp add: node_inv_def)

lemma imu_inv_other [simp]:
  "imu_inv (i\<lparr>body := b, body_ns := t\<rparr>) = imu_inv i" "imu_inv (i\<lparr>target := m, target_ns := t\<rparr>) = imu_inv i"
  by (auto simp: imu_inv_def split: option.splits)

lemma on_body_inv: "node_inv n \<Longrightarrow> node_inv (on_body n now m)"
  by (simp add: node_inv_def on_body_def)

lemma on_target_inv: "node_inv n \<Longrightarrow> node_inv (on_target n now m)"
  by (simp add: node_inv_def on_target_def)

lemma select_source_inv: "node_inv n \<Longrightarrow> node_inv (select_source n b)"
  by (simp add: node_inv_def select_source_def connect_pid_inputs_def disconnect_pid_inputs_def Let_def)

lemma node_inv_pwm: "node_inv n \<Longrightarrow> 0 \<le> x \<Longrightarrow> x \<le> 250 \<Longrightarrow> node_inv (n\<lparr>pwm_limit_us := Fin x\<rparr>)"
  by (simp add: node_inv_def pwm_ok_def)

lemma on_authority_inv: "node_inv n \<Longrightarrow> node_inv (on_authority_status n m)"
  using select_source_inv [of n] unfolding on_authority_status_def Let_def
  by (auto intro!: reset_node_inv node_inv_pwm)

lemma enter_mode_fields [simp]:
  "config (enter_mode n mode phase) = config n" "pwm_limit_us (enter_mode n mode phase) = pwm_limit_us n"
  "inp (enter_mode n mode phase) = inp n"
  by (simp_all add: enter_mode_def Let_def)

lemma enter_mode_inv: "node_inv n \<Longrightarrow> node_inv (enter_mode n mode phase)"
  by (auto simp: node_inv_def enter_mode_def Let_def)

lemma node_inv_last_tick [simp]: "node_inv (n\<lparr>last_tick_ns := v\<rparr>) = node_inv n"
  by (simp add: node_inv_def)

lemma node_inv_ctl: "node_inv n \<Longrightarrow> ctl_inv (config n) k \<Longrightarrow> node_inv (n\<lparr>ctl := k\<rparr>)"
  by (simp add: node_inv_def)

lemma imu_orientation_unit:
  assumes "ebind (quaternion_from_message q) (\<lambda>h. attitude_with_heading (map Fin u) (map Fin h)) = Inr o'" "unit_quat u"
  shows "unit_quat o'"
proof -
  obtain h where "unit_quat h" "attitude_with_heading (map Fin u) (map Fin h) = Inr o'"
    using assms(1) by (auto simp: ebind_Inr_conv quaternion_from_message_def dest: normalize_unit)
  then show ?thesis
    using attitude_with_heading_Inr [OF normalize_of_unit normalize_of_unit] assms(2) rpy_components_unit by auto
qed

lemma fresh_sample:
  assumes "flt_lt (Fin 0) (age_s t' stamp)" "flt_le (age_s t' stamp) (Fin (1 / 5))"
  obtains t where "stamp = Some t" "t < t'"
  using assms that by (cases stamp) (auto simp: age_s_def zero_less_mult_iff)

lemma imu_inv_finish:
  assumes "imu_orientation_filtered i = Some p" "unit_quat p"
    "imu_angular_velocity_filtered i = Some v" "length v = 3" "imu_history_ok t (imu_rate_samples i)"
  shows "imu_inv (i\<lparr>imu_orientation := a, imu_angular_velocity := b, imu_ns := c, imu_filter_ns := Some t\<rparr>)"
  using assms by (simp add: imu_inv_def)

text \<open>Past its guards the callback succeeds and keeps the invariant.\<close>

lemma on_imu_accept:
  assumes n: "node_inv n" and sel: "pid_selected n" "imu_acceptable m"
    and u: "normalize_quaternion (arr4 (imu_orientation_msg m)) = Inr u"
    and b: "body (inp n) = Some b" "state_valid b \<or> position_estimated b"
    and q: "ebind (quaternion_from_message (body_orientation b)) (\<lambda>h. attitude_with_heading (map Fin u) (map Fin h)) = Inr q"
  shows "\<exists>n'. on_imu n now m = Inr n' \<and> node_inv n'"
proof -
  define w where "w = map fval (arr3 (imu_rate_msg m))"
  define t' where "t' = imu_stamp_ns m"
  have w: "length w = 3" by (simp add: w_def arr3_def)
  have uq: "unit_quat q" by (rule imu_orientation_unit [OF q normalize_unit [OF u]])
  show ?thesis
  proof (cases "flt_lt (Fin 0) (age_s t' (imu_filter_ns (inp n))) \<and> flt_le (age_s t' (imu_filter_ns (inp n))) (Fin (1 / 5))")
    case False
    then have "on_imu n now m = Inr (n\<lparr>inp := (inp n)\<lparr>imu_rate_samples := [(t', w)],
        imu_angular_velocity_filtered := Some w, imu_orientation_filtered := Some q,
        imu_orientation := Some q, imu_angular_velocity := Some w, imu_ns := Some now, imu_filter_ns := Some t'\<rparr>\<rparr>)"
      using sel u b q by (simp add: on_imu_def Let_def w_def [symmetric] t'_def [symmetric])
    then show ?thesis using n uq w by (simp add: node_inv_def imu_inv_def imu_history_ok_def)
  next
    case True
    then obtain t where t: "imu_filter_ns (inp n) = Some t" "t < t'" by (auto elim: fresh_sample)
    obtain i' p v where i': "imu_filter_update (imu (config n)) (inp n) t' (fval (age_s t' (imu_filter_ns (inp n)))) w q = Inr i'"
      "imu_orientation_filtered i' = Some p" "unit_quat p"
      "imu_angular_velocity_filtered i' = Some v" "length v = 3" "imu_history_ok t' (imu_rate_samples i')"
      using imu_filter_update_total [of "imu (config n)" "inp n" t t' w q "fval (age_s t' (imu_filter_ns (inp n)))"] n t w uq
      unfolding node_inv_def valid_config_def by blast
    have "on_imu n now m = Inr (n\<lparr>inp := i'\<lparr>imu_orientation := Some q, imu_angular_velocity := Some w,
        imu_ns := Some now, imu_filter_ns := Some t'\<rparr>\<rparr>)"
      using sel u b q True i'(1) by (simp add: on_imu_def Let_def w_def [symmetric] t'_def [symmetric])
    then show ?thesis using n imu_inv_finish [OF i'(2-)] by (simp add: node_inv_def)
  qed
qed

lemma on_imu_result:
  assumes n: "node_inv n"
  shows "(\<exists>e. on_imu n now m = Inl e \<and> normalize_quaternion (arr4 (imu_orientation_msg m)) = Inl e)
    \<or> (\<exists>n'. on_imu n now m = Inr n' \<and> node_inv n')"
proof (cases "pid_selected n \<and> imu_acceptable m")
  case True
  show ?thesis
  proof (cases "normalize_quaternion (arr4 (imu_orientation_msg m))")
    case (Inl e)
    then show ?thesis using True by (simp add: on_imu_def)
  next
    case (Inr u)
    show ?thesis
    proof (cases "\<exists>b q. body (inp n) = Some b \<and> (state_valid b \<or> position_estimated b)
        \<and> ebind (quaternion_from_message (body_orientation b)) (\<lambda>h. attitude_with_heading (map Fin u) (map Fin h)) = Inr q")
      case t: True
      then show ?thesis using on_imu_accept [OF n _ _ Inr] True by metis
    next
      case False
      then have "on_imu n now m = Inr n"
        using True Inr by (cases "body (inp n)") (auto simp: on_imu_def split: sum.splits)
      then show ?thesis using n by simp
    qed
  qed
qed (auto simp: on_imu_def n)

lemma normalize_Inl:
  assumes "normalize_quaternion q = Inl e" "length q = 4" "list_all isfinite q"
  shows "np_norm (map fval q) \<le> 1 / 10 ^ 9"
  using assms by (auto simp: normalize_quaternion_def vec_def Let_def split: if_split_asm)

lemma on_imu_raises:
  assumes "node_inv n" "on_imu n now m = Inl e"
  shows "imu_acceptable m \<and> np_norm (map fval (arr4 (imu_orientation_msg m))) = 1 / 10 ^ 9"
proof -
  have a: "imu_acceptable m" using assms(2) by (auto simp: on_imu_def split: if_split_asm)
  have "normalize_quaternion (arr4 (imu_orientation_msg m)) = Inl e"
    using on_imu_result [OF assms(1), of now m] assms(2) by auto
  then have "np_norm (map fval (arr4 (imu_orientation_msg m))) \<le> 1 / 10 ^ 9"
    using a by (intro normalize_Inl) (auto simp: imu_acceptable_def arr4_def)
  then show ?thesis using a by (auto simp: imu_acceptable_def)
qed

lemma on_imu_inv: "node_inv n \<Longrightarrow> on_imu n now m = Inr n' \<Longrightarrow> node_inv n'"
  using on_imu_result [of n now m] by auto

section \<open>The tick\<close>

text \<open>What an empty list of missing inputs means.\<close>

lemma note_if_Nil [simp]: "note_if b s = [] \<longleftrightarrow> \<not> b"
  by (simp add: note_if_def)

lemma input_status_ready:
  assumes "input_status n now = ([], ages)"
  obtains b t q w where
    "pid_configured (config n)"
    "body (inp n) = Some b" "target (inp n) = Some t"
    "imu_orientation_filtered (inp n) = Some q" "imu_angular_velocity_filtered (inp n) = Some w"
    "\<not> flt_lt (max_input_age_s n) (age_s now (body_ns (inp n)))"
    "\<not> flt_lt (max_input_age_s n) (age_s now (imu_ns (inp n)))"
    "\<not> flt_lt (max_input_age_s n) (age_s now (target_ns (inp n)))"
    "linear_velocity_valid b" "state_valid b \<or> position_estimated b" "absolute_localization_seen n"
    "\<exists>u. quaternion_from_message (body_orientation b) = Inr u" "target_valid t"
    "compatible_target (py_lower (trajectory_type t)) (py_lower (control_mode t))"
    "py_lower (control_mode t) \<in> set control_modes"
proof -
  obtain b t where bt: "body (inp n) = Some b" "target (inp n) = Some t"
    using assms by (auto simp: input_status_def Let_def)
  obtain q w where qw: "imu_orientation_filtered (inp n) = Some q" "imu_angular_velocity_filtered (inp n) = Some w"
    using assms by (auto simp: input_status_def Let_def)
  have "\<exists>u. quaternion_from_message (body_orientation b) = Inr u"
    using assms bt by (cases "quaternion_from_message (body_orientation b)")
      (auto simp: input_status_def Let_def body_notes_def)
  then show ?thesis
    using assms bt qw by (intro that [of b t q w]) (auto simp: input_status_def Let_def body_notes_def)
qed

lemma tick_ready:
  assumes "pid_selected n" "input_status n now = ([], ages)" "tick_dt n now = Fin dt" "1 / 10 ^ 4 \<le> dt" "dt \<le> 1 / 10"
    "target (inp n) = Some t"
  shows "tick n now = ebind (tick_feedback (inp n) (the (body (inp n))) t) (\<lambda>fb.
     let mode = py_lower (control_mode t);
         n2 = enter_mode (n\<lparr>last_tick_ns := Some now\<rparr>) mode (py_lower (trajectory_phase t))
     in if mode = ''idle''
        then Inr (reset_node n2, publish_enabled n2 (replicate 8 0) ages 0 Neutral)
        else if mode = ''altitude_hold'' \<or> is_station mode
        then ebind (hold_step (config n) (pwm_limit_us n) (ctl n2) t fb dt)
          (\<lambda>(k, r). Inr (n2\<lparr>ctl := k\<rparr>, publish_enabled n2 (commands r) ages (allocation_saturation r) (message r)))
        else Inr (n2, publish_disabled n2 [''unsupported_control_mode''] ages))"
  using assms unfolding tick_def by (simp add: Let_def cong: if_cong)

text \<open>The successful tick, branch by branch.\<close>

lemma tick_cases:
  assumes "tick n now = Inr (n', out)"
  obtains (off) "\<not> pid_selected n" "n' = n" "out = []"
  | (missing) missing ages where "pid_selected n" "input_status n now = (missing, ages)" "missing \<noteq> []"
      "n' = (reset_node n)\<lparr>last_tick_ns := Some now\<rparr>" "out = publish_disabled n missing ages"
  | (bad_dt) ages where "pid_selected n" "input_status n now = ([], ages)"
      "n' = reset_node (n\<lparr>last_tick_ns := Some now\<rparr>)"
      "out = publish_disabled (n\<lparr>last_tick_ns := Some now\<rparr>) [''control_dt_invalid''] ages"
  | (idle) ages dt t fb where "pid_selected n" "input_status n now = ([], ages)"
      "tick_dt n now = Fin dt" "1 / 10 ^ 4 \<le> dt" "dt \<le> 1 / 10" "target (inp n) = Some t"
      "tick_feedback (inp n) (the (body (inp n))) t = Inr fb" "py_lower (control_mode t) = ''idle''"
      "n' = reset_node (enter_mode (n\<lparr>last_tick_ns := Some now\<rparr>) ''idle'' (py_lower (trajectory_phase t)))"
      "out = publish_enabled (enter_mode (n\<lparr>last_tick_ns := Some now\<rparr>) ''idle'' (py_lower (trajectory_phase t)))
         (replicate 8 0) ages 0 Neutral"
  | (hold) ages dt t fb n2 k r where "pid_selected n" "input_status n now = ([], ages)"
      "tick_dt n now = Fin dt" "1 / 10 ^ 4 \<le> dt" "dt \<le> 1 / 10" "target (inp n) = Some t"
      "tick_feedback (inp n) (the (body (inp n))) t = Inr fb"
      "n2 = enter_mode (n\<lparr>last_tick_ns := Some now\<rparr>) (py_lower (control_mode t)) (py_lower (trajectory_phase t))"
      "py_lower (control_mode t) = ''altitude_hold'' \<or> is_station (py_lower (control_mode t))"
      "hold_step (config n) (pwm_limit_us n) (ctl n2) t fb dt = Inr (k, r)"
      "n' = n2\<lparr>ctl := k\<rparr>"
      "out = publish_enabled n2 (commands r) ages (allocation_saturation r) (message r)"
proof -
  consider "\<not> pid_selected n" | "pid_selected n" "fst (input_status n now) \<noteq> []"
    | "pid_selected n" "fst (input_status n now) = []" by blast
  then show thesis
  proof cases
    case 1
    then show thesis using assms by (intro off) (simp_all add: tick_def)
  next
    case 2
    then show thesis using assms
      by (cases "input_status n now", intro missing [of "fst (input_status n now)" "snd (input_status n now)"])
        (simp_all add: tick_def)
  next
    case 3
    then obtain ages where st: "input_status n now = ([], ages)" by (metis prod.collapse)
    show thesis
    proof (cases "flt_le (Fin (1 / 10 ^ 4)) (tick_dt n now) \<and> flt_le (tick_dt n now) (Fin (1 / 10))")
      case False
      then have "tick n now = Inr (reset_node (n\<lparr>last_tick_ns := Some now\<rparr>),
          publish_disabled (n\<lparr>last_tick_ns := Some now\<rparr>) [''control_dt_invalid''] ages)"
        unfolding tick_def st using 3(1) by (simp add: Let_def)
      then show thesis using assms 3(1) st by (intro bad_dt [of ages]) simp_all
    next
      case True
      then obtain dt where dt: "tick_dt n now = Fin dt" "1 / 10 ^ 4 \<le> dt" "dt \<le> 1 / 10"
        by (cases "tick_dt n now") auto
      obtain t where t: "target (inp n) = Some t" "py_lower (control_mode t) \<in> set control_modes"
        by (rule input_status_ready [OF st])
      define mode where "mode = py_lower (control_mode t)"
      define n2 where "n2 = enter_mode (n\<lparr>last_tick_ns := Some now\<rparr>) mode (py_lower (trajectory_phase t))"
      note eq = tick_ready [OF 3(1) st dt t(1), folded mode_def, unfolded Let_def, folded n2_def]
      obtain fb where fb: "tick_feedback (inp n) (the (body (inp n))) t = Inr fb"
        using assms unfolding eq ebind_Inr_conv by blast
      show thesis
      proof (cases "mode = ''idle''")
        case i: True
        have "n' = reset_node n2" "out = publish_enabled n2 (replicate 8 0) ages 0 Neutral"
          using assms unfolding eq fb by (simp_all add: i)
        then show thesis using 3(1) st dt t(1) fb i unfolding n2_def mode_def
          by (intro idle [of ages dt t fb]) simp_all
      next
        case False
        then have m: "mode = ''altitude_hold'' \<or> is_station mode"
          using t(2) by (auto simp: control_modes_def is_station_def mode_def)
        with False obtain k r where "hold_step (config n) (pwm_limit_us n) (ctl n2) t fb dt = Inr (k, r)"
          "n' = n2\<lparr>ctl := k\<rparr>" "out = publish_enabled n2 (commands r) ages (allocation_saturation r) (message r)"
          using assms unfolding eq fb by (auto simp: ebind_Inr_conv)
        then show thesis using hold [of ages dt t fb n2 k r] 3(1) st dt t(1) fb m unfolding n2_def mode_def by simp
      qed
    qed
  qed
qed

lemma tick_inv:
  assumes "node_inv n" "tick n now = Inr (n', out)"
  shows "node_inv n'"
  using assms(2)
proof (cases rule: tick_cases)
  case (hold ages dt t fb n2 k r)
  have n2: "node_inv n2" using assms(1) hold(8) by (simp add: enter_mode_inv)
  have "config n2 = config n" using hold(8) by simp
  then show ?thesis using hold_step_inv [OF hold(10)] n2 hold(11) by (simp add: node_inv_def)
qed (simp_all add: assms(1) enter_mode_inv)

section \<open>Runs\<close>

definition node_next :: "pid_node \<Rightarrow> node_event \<Rightarrow> pid_node" where
  "node_next n e = (case node_event_step n e of Inl _ \<Rightarrow> n | Inr (n', _) \<Rightarrow> n')"

lemma node_event_inv: "node_inv n \<Longrightarrow> node_event_step n e = Inr (n', out) \<Longrightarrow> node_inv n'"
  by (cases e) (auto simp: ebind_Inr_conv on_body_inv on_target_inv on_authority_inv dest: on_imu_inv tick_inv)

interpretation pid_events: event_machine node_next node_inv
  by unfold_locales (auto simp: node_next_def dest: node_event_inv split: sum.splits)

lemma node_run_foldl: "node_run n es = Inr (n', out) \<Longrightarrow> n' = foldl node_next n es"
  by (induction es arbitrary: n out) (auto simp: ebind_Inr_conv node_next_def)

lemma node_run_inv: "node_inv n \<Longrightarrow> node_run n es = Inr (n', out) \<Longrightarrow> node_inv n'"
  using pid_events.run_inv [of n es] node_run_foldl by metis

lemma reachable_inv:
  "pid_init sha ov = Inr n0 \<Longrightarrow> node_run n0 es = Inr (n, out) \<Longrightarrow> node_inv n"
  using pid_init_inv node_run_inv by blast

section \<open>Totality of the hold controller\<close>

lemma run_pid_total:
  assumes "0 < dt" "isfinite limit"
  shows "\<exists>p' out. run_pid p (axis_input sp m dt ff limit en) = Inr (p', out)"
proof -
  have "\<exists>out. snd (pid_step p (axis_input sp m dt ff limit en)) = Inr out"
    unfolding pid_step_total using assms by (simp add: axis_input_def)
  then obtain out where "pid_step p (axis_input sp m dt ff limit en)
      = (fst (pid_step p (axis_input sp m dt ff limit en)), Inr out)" by (metis prod.collapse)
  then show ?thesis by (metis run_pid_def case_prod_conv ebind_simps(2))
qed

lemma isfinite_flt_min [simp]: "isfinite a \<Longrightarrow> isfinite (flt_min a (Fin b))"
  by (cases a) simp_all

lemma plan_station_total:
  assumes c: "valid_config c" and L: "L = Fin l" "0 \<le> l"
    and fb: "length (goal_linear fb) = 3" "length (position_error fb) = 3"
  shows "\<exists>p. plan_station c L k fb fast approach = Inr p \<and> isfinite (yaw_axis_limit p)
    \<and> (\<exists>h. horizontal_axis_limit p = Fin h \<and> 0 \<le> h \<and> h \<le> l)"
proof -
  obtain a b where kp: "station_position_kp (station c) = [a, b]" "0 \<le> a" "0 \<le> b"
    using c list_of_length2 [of "station_position_kp (station c)"]
    by (auto simp: valid_config_def valid_station_def)
  obtain x y z where gl: "goal_linear fb = [x, y, z]" using fb(1) list_of_length3 by blast
  obtain x' y' z' where pe: "position_error fb = [x', y', z']" using fb(2) list_of_length3 by blast
  have "\<exists>v. station_velocity_setpoints [Fin x, Fin y] [Fin x', Fin y'] [Fin a, Fin b]
      (Fin (if fast then fast_station_surge_rate_limit (fast_station c) else station_surge_rate_limit (station c)))
      (Fin (if fast then fast_station_sway_rate_limit (fast_station c) else station_sway_rate_limit (station c))) approach = Inr v"
    using c kp(2,3)
    by (simp add: station_velocity_setpoints_def Let_def valid_config_def valid_station_def valid_fast_station_def)
  then show ?thesis
    using c L by (auto simp: plan_station_def Let_def kp gl pe valid_config_def valid_station_def)
qed

lemma yaw_policy_total:
  assumes "ctl_inv c k"
  shows "\<exists>k' s. yaw_integral_policy c k p e = Inr (k', s)"
proof -
  have "0 \<le> yaw_hysteresis" by (simp add: yaw_hysteresis_def)
  then have "\<exists>b s. integral_reset_after_error_crossing (station_yaw_heading_error_sign k) (Fin e)
      (Fin (station_yaw_pwm_ki (station c) * integral (station_yaw_pid k))) (Fin yaw_hysteresis) = Inr (b, s)"
    using assms by (auto simp: integral_reset_after_error_crossing_def ctl_inv_def Let_def)
  then show ?thesis by (auto simp: yaw_integral_policy_def Let_def)
qed

lemma slew_rate_total:
  "0 < dt \<Longrightarrow> 0 \<le> r \<Longrightarrow> \<exists>y. slew_rate_limit (Fin a) (Fin b) (Fin dt) (Fin r) = Inr y"
  by (simp add: slew_rate_limit_Inr)

lemma surge_step_total:
  "0 < dt \<Longrightarrow> isfinite (horizontal_axis_limit p) \<Longrightarrow> \<exists>k' out. surge_axis_step k fb p dt = Inr (k', out)"
  using run_pid_total [of dt "horizontal_axis_limit p" "station_surge_pid k" "desired_surge p" "actual_linear fb ! 0" 0 True]
  by (auto simp: surge_axis_step_def)

lemma sway_step_total:
  assumes "0 < dt" "horizontal_axis_limit p = Fin h" "0 \<le> h" "valid_fast_station (fast_station c)"
  shows "\<exists>k' out. sway_axis_step c k fb p fast dt = Inr (k', out)"
proof -
  have "\<exists>ff. (if fast then directional_velocity_feedforward (Fin (desired_sway p))
                (Fin (fast_station_sway_pwm_feedforward_positive_gain (fast_station c)))
                (Fin (fast_station_sway_pwm_feedforward_negative_gain (fast_station c))) (horizontal_axis_limit p)
            else Inr 0) = Inr ff"
    using assms by (cases fast) (simp_all add: directional_velocity_feedforward_def Let_def valid_fast_station_def)
  then obtain ff where ff: "(if fast then directional_velocity_feedforward (Fin (desired_sway p))
                (Fin (fast_station_sway_pwm_feedforward_positive_gain (fast_station c)))
                (Fin (fast_station_sway_pwm_feedforward_negative_gain (fast_station c))) (horizontal_axis_limit p)
            else Inr 0) = Inr ff" by blast
  obtain q out where "run_pid (sway_pid fast k)
      (axis_input (desired_sway p) (actual_linear fb ! 1) dt ff (horizontal_axis_limit p) True) = Inr (q, out)"
    using run_pid_total [of dt "horizontal_axis_limit p"] assms by fastforce
  then show ?thesis
    using slew_rate_total [of dt "fast_station_sway_effort_slew_rate_per_s (fast_station c)"
        "fast_station_sway_limited_effort (set_sway_pid fast q k)" out] assms(1,4)
    unfolding sway_axis_step_def Let_def ff by (auto simp: valid_fast_station_def)
qed

lemma yaw_step_total:
  assumes "0 < dt" "isfinite (yaw_axis_limit p)" "valid_fast_station (fast_station c)"
  shows "\<exists>k' out. yaw_axis_step c k fb p sway dt = Inr (k', out)"
proof -
  define ff where "ff = (if straight_lateral p then - fast_station_sway_yaw_compensation_gain (fast_station c) * sway else 0)"
  obtain q out where "run_pid (station_yaw_pid k) (axis_input (desired_yaw_rate p) (actual_rate fb ! 2) dt ff
      (yaw_axis_limit p) (\<not> (yaw_maneuver p \<or> straight_lateral p))) = Inr (q, out)"
    using run_pid_total [OF assms(1,2)] by blast
  then show ?thesis
    using slew_rate_total [of dt "fast_station_lateral_yaw_effort_slew_rate_per_s (fast_station c)"
        "fast_station_lateral_yaw_limited_effort (k\<lparr>station_yaw_pid := q\<rparr>)" out] assms(1,3)
    unfolding yaw_axis_step_def Let_def ff_def [symmetric] by (auto simp: valid_fast_station_def)
qed

lemma station_step_total:
  assumes c: "valid_config c" and k: "ctl_inv c k" and L: "L = Fin l" "0 \<le> l" and dt: "0 < dt"
    and fb: "length (goal_linear fb) = 3" "length (position_error fb) = 3"
  shows "\<exists>k' e. station_step c L k fb fast approach dt = Inr (k', e)"
proof -
  obtain p h where p: "plan_station c L k fb fast approach = Inr p" "isfinite (yaw_axis_limit p)"
    "horizontal_axis_limit p = Fin h" "0 \<le> h"
    using plan_station_total [OF c L fb] by blast
  have f: "valid_fast_station (fast_station c)" using c by (simp add: valid_config_def)
  obtain k1 s where k1: "yaw_integral_policy c k p (orientation_error fb ! 2) = Inr (k1, s)"
    using yaw_policy_total [OF k] by blast
  obtain k2 su where k2: "surge_axis_step (k1\<lparr>station_yaw_maneuver_active := yaw_maneuver p\<rparr>) fb p dt = Inr (k2, su)"
    using surge_step_total [OF dt, of p] p(3) by fastforce
  obtain k3 sw where k3: "sway_axis_step c k2 fb p fast dt = Inr (k3, sw)"
    using sway_step_total [OF dt p(3,4) f] by blast
  obtain k4 ya where k4: "yaw_axis_step c k3 fb p sw dt = Inr (k4, ya)"
    using yaw_step_total [OF dt p(2) f] by blast
  obtain hz sc where "station_horizontal_pwm_mix (Fin su) (Fin sw) (Fin ya) L = Inr (hz, sc)"
    using L by (auto simp: station_horizontal_closed_form)
  then show ?thesis by (simp add: station_step_def p k1 k2 k3 k4 Let_def)
qed

lemma level_cascade_total:
  assumes "length oe = 2" "length ta = 2" "length ma = 2" "nonneg_pair akp" "nonneg_pair rkp" "nonneg_pair rlim" "0 \<le> l"
  shows "\<exists>eff raw des sat. level_attitude_rate_efforts (map Fin oe) (map Fin ta) (map Fin ma) (map Fin akp) (map Fin rkp)
    (map Fin rlim) (Fin l) [Fin 0, Fin d] [Fin 0, Fin i] = Inr (eff, raw, des, sat)"
  using assms by (auto simp: level_attitude_rate_efforts_def nonneg_pair_def Let_def list_all_iff list_ex_iff not_less)

lemma conditional_axis_integral_total:
  assumes "length base = 2" "0 \<le> g" "0 < dt" "0 \<le> e" "0 \<le> l"
  shows "\<exists>y. conditional_axis_integral_effort (Fin x) (Fin err) (Fin g) (Fin dt) (Fin e) (map Fin base) 1 (Fin l) = Inr y"
  using assms by (simp add: conditional_axis_integral_effort_def Let_def)

lemma decoupling_total:
  assumes "valid_level l"
  shows "\<exists>d. (if fast_station_surge_pitch_decoupling_enabled l
      then surge_pitch_decoupling_effort (Fin su) (Fin (fast_station_surge_pitch_forward_gain l))
             (Fin (fast_station_surge_pitch_reverse_gain l)) (Fin (fast_station_surge_pitch_limit l))
      else Inr 0) = Inr d"
  using assms by (simp add: surge_pitch_decoupling_effort_def Let_def valid_level_def)

lemma level_step_total:
  assumes c: "valid_config c" and L: "L = Fin l" "0 \<le> l" and dt: "0 < dt"
    and fb: "length (orientation_error fb) = 3" "length (goal_angular fb) = 3" "length (actual_rate fb) = 3"
  shows "\<exists>k' r. level_step c L k fb su dt = Inr (k', r) \<and> isfinite (altitude_output_limit r)"
proof -
  define m where "m = min l (fast_station_level_pwm_limit (fast_station c))"
  have lim: "flt_min L (Fin (fast_station_level_pwm_limit (fast_station c))) = Fin m" by (simp add: L m_def)
  have m: "0 \<le> m" using c L by (simp add: m_def valid_config_def valid_fast_station_def)
  have vl: "valid_level (level c)" using c by (simp add: valid_config_def)
  obtain d where d: "(if fast_station_surge_pitch_decoupling_enabled (level c)
      then surge_pitch_decoupling_effort (Fin su) (Fin (fast_station_surge_pitch_forward_gain (level c)))
             (Fin (fast_station_surge_pitch_reverse_gain (level c))) (Fin (fast_station_surge_pitch_limit (level c)))
      else Inr 0) = Inr d"
    using decoupling_total [OF vl] by blast
  have casc: "\<exists>eff raw des sat. level_attitude_rate_efforts
       (map Fin (take 2 (orientation_error fb))) (map Fin (take 2 (goal_angular fb)))
       (map Fin (take 2 (actual_rate fb))) (map Fin (fast_station_level_angle_to_rate_kp (level c)))
       (map Fin (fast_station_level_rate_kp (level c))) (map Fin (fast_station_level_rate_limit_rps (level c)))
       (Fin m) [Fin 0, Fin d] [Fin 0, Fin i] = Inr (eff, raw, des, sat)" for i
    using vl fb m by (intro level_cascade_total) (auto simp: valid_level_def)
  obtain eff raw des sat where 1: "level_attitude_rate_efforts
       (map Fin (take 2 (orientation_error fb))) (map Fin (take 2 (goal_angular fb)))
       (map Fin (take 2 (actual_rate fb))) (map Fin (fast_station_level_angle_to_rate_kp (level c)))
       (map Fin (fast_station_level_rate_kp (level c))) (map Fin (fast_station_level_rate_limit_rps (level c)))
       (Fin m) [Fin 0, Fin d] [Fin 0, Fin 0] = Inr (eff, raw, des, sat)"
    using casc [of 0] by blast
  obtain y where 2: "conditional_axis_integral_effort
       (Fin (fast_station_pitch_rate_integral_effort (pitch_integral_before k su)))
       (Fin (des ! 1 - actual_rate fb ! 1)) (Fin (fast_station_pitch_rate_ki (level c))) (Fin dt)
       (Fin (fast_station_pitch_rate_integral_effort_limit (level c))) (map Fin raw) 1 (Fin m) = Inr y"
    using conditional_axis_integral_total [of raw "fast_station_pitch_rate_ki (level c)" dt
        "fast_station_pitch_rate_integral_effort_limit (level c)" m] level_efforts_Inr(3) [OF 1] vl dt m
    by (auto simp: valid_level_def)
  show ?thesis
    using casc [of y] unfolding level_step_def Let_def pitch_integral_before_def [symmetric] lim d
      ebind_simps 1 prod.case 2
    by (auto simp: L)
qed

lemma first_order_low_pass_total:
  "0 < dt \<Longrightarrow> \<exists>y. first_order_low_pass (map_option Fin p) (Fin x) (Fin dt) (Fin tc) = Inr y"
  by (cases p) (simp_all add: first_order_low_pass_def Let_def)

text \<open>The feedback of finite messages.\<close>

definition good_feedback :: "feedback \<Rightarrow> bool" where
  "good_feedback fb \<longleftrightarrow> unit_quat (localization_q fb) \<and> length (goal_linear fb) = 3 \<and> length (position_error fb) = 3
     \<and> length (orientation_error fb) = 3 \<and> length (goal_angular fb) = 3 \<and> length (actual_rate fb) = 3
     \<and> length (actual_linear fb) = 3"

lemma sign_not_close:
  "valid_altitude a \<Longrightarrow> \<not> isclose (1 / 10 ^ 9) (1 / 10 ^ 12) (altitude_pwm_command_sign a) 0"
  by (auto simp: valid_altitude_def isclose_def)

lemma mixers_total:
  assumes "valid_altitude a"
  shows "\<exists>cs. altitude_station_pwm_commands (Fin x) (Fin su) (Fin sw) (Fin ya) (Fin l)
     (Fin (altitude_pwm_command_sign a)) (Fin r) (Fin p) = Inr cs"
    and "\<exists>cs. altitude_collective_pwm_commands (Fin x) (Fin l) (Fin (altitude_pwm_command_sign a)) = Inr cs"
proof -
  obtain up sc where "station_horizontal_pwm_mix (Fin su) (Fin sw) (Fin ya) (Fin l) = Inr (up, sc)"
    by (auto simp: station_horizontal_closed_form)
  then show "\<exists>cs. altitude_station_pwm_commands (Fin x) (Fin su) (Fin sw) (Fin ya) (Fin l)
     (Fin (altitude_pwm_command_sign a)) (Fin r) (Fin p) = Inr cs"
    using sign_not_close [OF assms]
    by (simp add: altitude_station_pwm_commands_def altitude_level_pwm_commands_def Let_def)
  show "\<exists>cs. altitude_collective_pwm_commands (Fin x) (Fin l) (Fin (altitude_pwm_command_sign a)) = Inr cs"
    using sign_not_close [OF assms] by (simp add: altitude_collective_pwm_commands_def Let_def)
qed

lemma hold_step_total:
  assumes c: "valid_config c" and k: "ctl_inv c k" and L: "0 \<le> l" and dt: "0 < dt"
    and fb: "good_feedback fb" and z: "isfinite (vz (target_linear t))"
  shows "\<exists>k' r. hold_step c (Fin l) k t fb dt = Inr (k', r)"
proof -
  have va: "valid_altitude (altitude c)" using c by (simp add: valid_config_def)
  define mode where "mode = py_lower (control_mode t)"
  define fast where "fast \<longleftrightarrow> mode = ''station_hold_fast''"
  define approach where "approach \<longleftrightarrow> py_lower (trajectory_phase t) = ''start_approach''"
  have l: "0 \<le> 1 / 500 * l" using L by simp
  have 1: "quaternion_apply (map Fin (localization_q fb)) (map Fin (actual_linear fb))
      = Inr (qrotate (localization_q fb) (actual_linear fb))"
    using fb by (intro quaternion_apply_unit) (auto simp: good_feedback_def)
  obtain v where 2: "first_order_low_pass (map_option Fin (altitude_vertical_velocity_filtered k))
      (Fin (qrotate (localization_q fb) (actual_linear fb) ! 2)) (Fin dt)
      (Fin (altitude_velocity_filter_time_constant_s (altitude c))) = Inr v"
    using first_order_low_pass_total [OF dt] by blast
  obtain dv where 3: "altitude_velocity_setpoint (Fin (goal_position fb ! 2)) (Fin (current_position fb ! 2))
      (vz (target_linear t)) (Fin (altitude_position_kp (altitude c))) = Inr dv"
    using z by (simp add: altitude_velocity_setpoint_def)
  define k1 where "k1 = k\<lparr>altitude_vertical_velocity_filtered := Some v\<rparr>"
  obtain k2 e where 4: "(if is_station mode then station_step c (Fin (1 / 500 * l)) k1 fb fast approach dt
      else Inr (k1, no_station_efforts)) = Inr (k2, e)"
    using station_step_total [OF c _ refl l dt, of k1 fb fast approach] k fb
    by (cases "is_station mode") (auto simp: k1_def good_feedback_def)
  obtain k3 lv where 5: "(if fast then level_step c (Fin (1 / 500 * l)) k2 fb (surge_effort e * mix_scale e) dt
      else Inr (k2, no_level (Fin (1 / 500 * l)))) = Inr (k3, lv)" "isfinite (altitude_output_limit lv)"
    using level_step_total [OF c refl l dt, of fb k2 "surge_effort e * mix_scale e"] fb
    by (cases fast) (auto simp: no_level_def good_feedback_def)
  obtain pid eff where 6: "run_pid (altitude_pid k3) (axis_input dv v dt 0 (altitude_output_limit lv) True) = Inr (pid, eff)"
    using run_pid_total [OF dt 5(2)] by blast
  obtain cs where 7: "(if is_station mode
      then altitude_station_pwm_commands (Fin eff) (Fin (surge_effort e)) (Fin (sway_effort e)) (Fin (yaw_effort e))
             (Fin (1 / 500 * l)) (Fin (altitude_pwm_command_sign (altitude c)))
             (Fin (level_efforts lv ! 0)) (Fin (level_efforts lv ! 1))
      else altitude_collective_pwm_commands (Fin eff) (Fin (1 / 500 * l)) (Fin (altitude_pwm_command_sign (altitude c))))
      = Inr cs"
    using mixers_total [OF va] by (cases "is_station mode") (simp_all only: if_True if_False, blast+)
  show ?thesis
    unfolding hold_step_def Let_def mode_def [symmetric] fast_def [symmetric] approach_def [symmetric]
      1 ebind_simps 2 3 k1_def [symmetric] flt_scale.simps 4 prod.case 5(1) 6 7
    by blast
qed

text \<open>Messages on which the frame conversions are defined.\<close>

definition good_body :: "body_state_msg \<Rightarrow> bool" where
  "good_body b \<longleftrightarrow> finite3 (body_position b) \<and> finite3 (body_linear b)"

definition good_target :: "target_msg \<Rightarrow> bool" where
  "good_target t \<longleftrightarrow> finite3 (target_position t) \<and> finite3 (target_linear t) \<and> finite3 (target_angular t)
     \<and> (\<exists>u. quaternion_from_message (target_orientation t) = Inr u)"

lemma length_rotation_vector: "length q = 4 \<Longrightarrow> length (rotation_vector q) = 3"
  by (simp add: rotation_vector_def Let_def)

lemma tick_feedback_total:
  assumes i: "imu_orientation_filtered i = Some q" "unit_quat q"
      "imu_angular_velocity_filtered i = Some w" "length w = 3"
    and b: "quaternion_from_message (body_orientation b) = Inr u" "good_body b" and t: "good_target t"
  shows "\<exists>fb. tick_feedback i b t = Inr fb \<and> good_feedback fb"
proof -
  obtain px py pz lx ly lz where bv: "body_position b = Vector3 (Fin px) (Fin py) (Fin pz)"
    "body_linear b = Vector3 (Fin lx) (Fin ly) (Fin lz)"
    using b(2) by (auto simp: good_body_def finite3_conv)
  obtain tx ty tz vx vy vz ax ay az where tv: "target_position t = Vector3 (Fin tx) (Fin ty) (Fin tz)"
    "target_linear t = Vector3 (Fin vx) (Fin vy) (Fin vz)" "target_angular t = Vector3 (Fin ax) (Fin ay) (Fin az)"
    using t by (auto simp: good_target_def finite3_conv)
  obtain s where s: "quaternion_from_message (target_orientation t) = Inr s" using t by (auto simp: good_target_def)
  have u: "unit_quat u" and us: "unit_quat s"
    using b(1) s normalize_unit by (auto simp: quaternion_from_message_def)
  have app: "quaternion_apply (map Fin (conj4 p)) [Fin x, Fin y, Fin z] = Inr (qrotate (conj4 p) [x, y, z])"
    if "unit_quat p" for p x y z
    using quaternion_apply_unit [OF unit_conj4 [OF that], of "[x, y, z]"] by simp
  have diff: "vsub [tx, ty, tz] [px, py, pz] = [tx - px, ty - py, tz - pz]" by (simp add: vsub_def)
  have rot: "length (qrotate (conj4 p) [x, y, z]) = 3" if "unit_quat p" for p x y z
    using length_rotate [OF unit_conj4 [OF that], of "[x, y, z]"] by simp
  have oe: "length (rotation_vector (shortest (hamilton (conj4 q) s))) = 3"
    using unit_shortest [OF unit_hamilton [OF unit_conj4 [OF i(2)] us]]
    by (intro length_rotation_vector) (simp add: unit_quat_def)
  show ?thesis
    using u rot [OF u] rot [OF i(2)] oe i
    by (simp add: tick_feedback_def b(1) s bv tv quaternion_conjugate_unit diff app
        quaternion_error_body_unit [OF i(2) us] us good_feedback_def)
qed

lemma tick_total:
  assumes n: "node_inv n" and pwm: "pwm_limit_us n = Fin x"
    and b: "\<And>b. body (inp n) = Some b \<Longrightarrow> good_body b" and t: "\<And>t. target (inp n) = Some t \<Longrightarrow> good_target t"
  shows "\<exists>n' out. tick n now = Inr (n', out)"
proof (cases "pid_selected n \<and> fst (input_status n now) = []
    \<and> flt_le (Fin (1 / 10 ^ 4)) (tick_dt n now) \<and> flt_le (tick_dt n now) (Fin (1 / 10))")
  case False
  then show ?thesis unfolding tick_def by (auto simp: Let_def split: prod.splits)
next
  case True
  then obtain ages where st: "input_status n now = ([], ages)" by (metis prod.collapse)
  obtain dt where dt: "tick_dt n now = Fin dt" "1 / 10 ^ 4 \<le> dt" "dt \<le> 1 / 10"
    using True by (cases "tick_dt n now") auto
  obtain bm tm q w u where r: "body (inp n) = Some bm" "target (inp n) = Some tm"
    "imu_orientation_filtered (inp n) = Some q" "imu_angular_velocity_filtered (inp n) = Some w"
    "quaternion_from_message (body_orientation bm) = Inr u"
    by (rule input_status_ready [OF st]) auto
  have qw: "unit_quat q" "length w = 3"
    using n r(3,4) by (auto simp: node_inv_def imu_inv_def split: option.splits)
  obtain fb where fb: "tick_feedback (inp n) bm tm = Inr fb" "good_feedback fb"
    using tick_feedback_total [OF r(3) qw(1) r(4) qw(2) r(5) b [OF r(1)] t [OF r(2)]] by blast
  define n2 where "n2 = enter_mode (n\<lparr>last_tick_ns := Some now\<rparr>) (py_lower (control_mode tm)) (py_lower (trajectory_phase tm))"
  have n2: "ctl_inv (config n) (ctl n2)"
    using enter_mode_inv [of "n\<lparr>last_tick_ns := Some now\<rparr>"] n by (simp add: node_inv_def n2_def)
  have x: "0 \<le> x" using n pwm by (auto simp: node_inv_def pwm_ok_def)
  have z: "isfinite (vz (target_linear tm))" using t [OF r(2)] by (auto simp: good_target_def finite3_conv)
  obtain k res where "hold_step (config n) (pwm_limit_us n) (ctl n2) tm fb dt = Inr (k, res)"
    using hold_step_total [of "config n" "ctl n2" x dt fb tm] n n2 x dt fb z by (auto simp: node_inv_def pwm)
  then show ?thesis
    by (simp add: tick_ready [OF conjunct1 [OF True] st dt r(2)] r(1) fb Let_def n2_def [symmetric])
qed

section \<open>Outputs\<close>

lemma disabled_commands:
  "Command c \<in> set (publish_disabled n missing ages) \<Longrightarrow>
     \<not> enable c \<and> action c = replicate 8 0 \<and> source c = ''pid_controller''"
  by (auto simp: publish_disabled_def)

lemma enabled_commands:
  "Command c \<in> set (publish_enabled n cs ages s text) \<Longrightarrow>
     enable c \<and> action c = to_action cs \<and> source c = ''pid_controller''"
  by (auto simp: publish_enabled_def)

lemma to_action_zero: "to_action (replicate 8 0) = replicate 8 0"
  by (simp add: to_action_def clip_def)

lemma hold_commands_bound:
  assumes "hold_step c pwm k t fb dt = Inr (k', r)" "pwm_ok pwm"
  obtains x where "pwm = Fin x" "0 \<le> x" "x \<le> 250" "length (to_action (commands r)) = 8"
    "\<And>a. a \<in> set (to_action (commands r)) \<Longrightarrow> \<bar>a\<bar> \<le> x / 250"
  using assms(1)
proof (rule hold_step_Inr)
  fix v dv k2 e k3 lv pid
  define sign where "sign = Fin (altitude_pwm_command_sign (altitude c))"
  assume mix: "(if is_station (py_lower (control_mode t))
      then altitude_station_pwm_commands (Fin (controller_effort r)) (Fin (surge_effort e)) (Fin (sway_effort e))
             (Fin (yaw_effort e)) (flt_scale (1 / 500) pwm) (Fin (altitude_pwm_command_sign (altitude c)))
             (Fin (level_efforts lv ! 0)) (Fin (level_efforts lv ! 1))
      else altitude_collective_pwm_commands (Fin (controller_effort r)) (flt_scale (1 / 500) pwm)
             (Fin (altitude_pwm_command_sign (altitude c)))) = Inr (commands r)"
  have "isfinite (flt_scale (1 / 500) pwm)"
    using mix by (auto simp: altitude_station_pwm_commands_def altitude_level_pwm_commands_def
        altitude_collective_pwm_commands_def ebind_Inr_conv split: if_split_asm)
  then obtain x where x: "pwm = Fin x" "0 \<le> x" "x \<le> 250" using assms(2) by (auto simp: pwm_ok_def)
  have L: "flt_scale (1 / 500) pwm = Fin (x / 500)" by (simp add: x)
  show thesis
  proof (cases "is_station (py_lower (control_mode t))")
    case True
    note m = mix [unfolded if_P [OF True] L]
    show thesis
    proof (rule that [OF x])
      show "length (to_action (commands r)) = 8" using altitude_station_length [OF m] by (simp add: to_action_def)
      show "\<bar>a\<bar> \<le> x / 250" if "a \<in> set (to_action (commands r))" for a
        using station_mixer.action_bound [of "(Fin (controller_effort r), Fin (surge_effort e), Fin (sway_effort e),
            Fin (yaw_effort e), Fin (altitude_pwm_command_sign (altitude c)), Fin (level_efforts lv ! 0),
            Fin (level_efforts lv ! 1))" x "commands r" a] m x that by (simp add: to_action_def)
    qed
  next
    case False
    note m = mix [unfolded if_not_P [OF False] L]
    show thesis
    proof (rule that [OF x])
      show "length (to_action (commands r)) = 8" using altitude_collective_length [OF m] by (simp add: to_action_def)
      show "\<bar>a\<bar> \<le> x / 250" if "a \<in> set (to_action (commands r))" for a
        using collective_mixer.action_bound [of "(Fin (controller_effort r), Fin (altitude_pwm_command_sign (altitude c)))"
            x "commands r" a] m x that by (simp add: to_action_def)
    qed
  qed
qed

section \<open>A node with a fresh idle target\<close>

definition level_pose :: quaternion_msg where
  "level_pose = Quaternion (Fin 1) (Fin 0) (Fin 0) (Fin 0)"

definition origin3 :: vector3 where
  "origin3 = Vector3 (Fin 0) (Fin 0) (Fin 0)"

definition still_body :: body_state_msg where
  "still_body = \<lparr>body_frame = ''map'', body_position = origin3, body_orientation = level_pose,
     body_linear = origin3, linear_velocity_valid = True, position_estimated = False, state_valid = True\<rparr>"

definition still_target :: "string \<Rightarrow> string \<Rightarrow> target_msg" where
  "still_target ttype mode = \<lparr>target_frame = ''map'', target_position = origin3, target_orientation = level_pose,
     target_linear = origin3, target_angular = origin3, target_accel_linear = origin3, target_accel_angular = origin3,
     trajectory_type = ttype, control_mode = mode, trajectory_phase = '''', time_s = Fin 0, target_valid = True\<rparr>"

definition sample_node :: "string \<Rightarrow> string \<Rightarrow> pid_node" where
  "sample_node ttype mode =
     \<lparr>config = (fallback_config 5 '''')\<lparr>pid_configured := True\<rparr>, control_rate_hz = Fin 50, max_input_age_s = Fin 1,
      ctl = fresh_controllers ((fallback_config 5 '''')\<lparr>pid_configured := True\<rparr>),
      inp = \<lparr>body = Some still_body, body_ns = Some 0, imu_angular_velocity = Some [0, 0, 0],
        imu_orientation = Some [1, 0, 0, 0], imu_ns = Some 0, imu_angular_velocity_filtered = Some [0, 0, 0],
        imu_orientation_filtered = Some [1, 0, 0, 0], imu_filter_ns = Some 0,
        imu_rate_samples = [(0, [0, 0, 0])], target = Some (still_target ttype mode), target_ns = Some 0\<rparr>,
      hold = \<lparr>altitude_hold_active = False, station_hold_active = False, fast_station_hold_active = False,
        station_trajectory_phase = ''''\<rparr>,
      last_tick_ns = None, pid_selected = True, absolute_localization_seen = True, pwm_limit_us = Fin 125,
      subscribed = True, timer_running = True\<rparr>"

text \<open>A station step whose surge and sway demands together exceed the mixer limit.\<close>

definition busy_config :: pid_config where
  "busy_config = (fallback_config 5 '''')
     \<lparr>station := (station (fallback_config 5 ''''))\<lparr>station_sway_rate_limit := 1, station_surge_rate_limit := 1,
        station_horizontal_axis_limit := 1\<rparr>,
      surge_gains := axis_gains (49 / 50) 1 0 1 0, sway_gains := axis_gains (49 / 50) 1 0 1 0, yaw_gains := axis_gains 0 0 0 0 0\<rparr>"

definition busy_feedback :: feedback where
  "busy_feedback = \<lparr>localization_q = [1, 0, 0, 0], current_q = [1, 0, 0, 0], current_position = [0, 0, 0],
     goal_position = [0, 0, 0], position_error = [0, 0, 0], orientation_error = [0, 0, 0],
     goal_linear = [1, - 1, 0], goal_angular = [0, 0, 0], actual_linear = [0, 0, 0], actual_rate = [0, 0, 0]\<rparr>"

lemma level_pose_unit [simp]: "quaternion_from_message level_pose = Inr [1, 0, 0, 0]"
  using normalize_of_unit [of "[1, 0, 0, 0]"]
  by (simp add: quaternion_from_message_def level_pose_def unit_quat_def np_norm4)

lemma good_still [simp]: "good_body still_body" "good_target (still_target ttype mode)"
  by (simp_all add: good_body_def good_target_def still_body_def still_target_def origin3_def finite3_def)

lemma sample_node_inv: "node_inv (sample_node ttype mode)"
proof -
  have v: "valid_config ((fallback_config 5 '''')\<lparr>pid_configured := True\<rparr>)"
    using fallback_valid [of 5 "''''"] by (simp add: valid_config_def)
  have u: "unit_quat [1, 0, 0, 0]" by (simp add: unit_quat_def np_norm4)
  show ?thesis
    using v u by (simp add: node_inv_def sample_node_def imu_inv_def imu_history_ok_def pwm_ok_def)
qed

lemma sample_node_ready:
  assumes "py_lower ttype = ttype" "py_lower mode = mode" "compatible_target ttype mode"
    "ttype \<in> set trajectory_types" "mode \<in> set control_modes"
  shows "input_status (sample_node ttype mode) 0 = ([], Fin 0, Fin 0, Fin 0)"
  using assms
  by (simp add: input_status_def sample_node_def still_target_def still_body_def body_notes_def note_if_def age_s_def
      fallback_config_def Let_def)

lemma sample_node_tick: "\<exists>n' out. tick (sample_node ttype mode) 0 = Inr (n', out)"
  by (rule tick_total [OF sample_node_inv]) (auto simp: sample_node_def)

lemma sample_node_feedback:
  "\<exists>fb. tick_feedback (inp (sample_node ttype mode)) still_body (still_target ttype mode) = Inr fb \<and> good_feedback fb"
proof (rule tick_feedback_total)
  show "quaternion_from_message (body_orientation still_body) = Inr [1, 0, 0, 0]" by (simp add: still_body_def)
  show "unit_quat [1, 0, 0, 0]" by (simp add: unit_quat_def np_norm4)
  show "imu_angular_velocity_filtered (inp (sample_node ttype mode)) = Some [0, 0, 0]"
    "imu_orientation_filtered (inp (sample_node ttype mode)) = Some [1, 0, 0, 0]" by (simp_all add: sample_node_def)
qed simp_all

lemma idle_node_tick:
  "\<exists>n'. tick (sample_node ''idle'' ''idle'') 0 = Inr (n', publish_enabled (sample_node ''idle'' ''idle'')
     (replicate 8 0) (Fin 0, Fin 0, Fin 0) 0 Neutral)"
proof -
  have low: "py_lower ''idle'' = ''idle''" by code_simp
  have st: "input_status (sample_node ''idle'' ''idle'') 0 = ([], Fin 0, Fin 0, Fin 0)"
    by (rule sample_node_ready) (simp_all add: low compatible_target_def trajectory_types_def control_modes_def)
  have dt: "tick_dt (sample_node ''idle'' ''idle'') 0 = Fin (1 / 50)"
    by (simp add: tick_dt_def sample_node_def)
  have sel: "pid_selected (sample_node ''idle'' ''idle'')"
    and body: "body (inp (sample_node ''idle'' ''idle'')) = Some still_body"
    and tgt: "target (inp (sample_node ''idle'' ''idle'')) = Some (still_target ''idle'' ''idle'')"
    and md: "control_mode (still_target ''idle'' ''idle'') = ''idle''"
    by (simp_all add: sample_node_def still_target_def)
  obtain fb where fb: "tick_feedback (inp (sample_node ''idle'' ''idle'')) still_body (still_target ''idle'' ''idle'') = Inr fb"
    using sample_node_feedback by blast
  show ?thesis
    using tick_ready [OF sel st dt _ _ tgt]
    by (simp add: body fb md low Let_def publish_enabled_def make_status_def)
qed

lemma same_type_refl [simp]: "same_type v v"
  by (cases v) simp_all

lemma declare_defaults: "declare_parameters Map.empty table = Inr table"
  by (induction table) auto

lemma default_pid_init:
  "\<exists>n0. pid_init sha Map.empty = Inr n0 \<and> \<not> pid_selected n0 \<and> target (inp n0) = None"
proof -
  have "get_double pid_parameters ''pwm_limit_us'' = Inr (Fin 250)"
    "get_double pid_parameters ''control_rate_hz'' = Inr (Fin 50)"
    "get_double pid_parameters ''max_input_age_s'' = Inr (Fin (3 / 20))" by code_simp+
  then show ?thesis
    by (simp add: pid_init_def declare_defaults default_single_values Let_def no_inputs_def)
qed

lemma tick_missing:
  "pid_selected n \<Longrightarrow> fst (input_status n now) \<noteq> [] \<Longrightarrow>
    tick n now = Inr ((reset_node n)\<lparr>last_tick_ns := Some now\<rparr>,
      publish_disabled n (fst (input_status n now)) (snd (input_status n now)))"
  by (cases "input_status n now") (simp add: tick_def)

section \<open>What an absent input keeps disabled\<close>

fun is_body :: "node_event \<Rightarrow> bool" where
  "is_body (Body _ _) = True"
| "is_body _ = False"

fun is_imu :: "node_event \<Rightarrow> bool" where
  "is_imu (Imu _ _) = True"
| "is_imu _ = False"

fun is_target :: "node_event \<Rightarrow> bool" where
  "is_target (Target _ _) = True"
| "is_target _ = False"

lemma tick_inp: "tick n now = Inr (n', out) \<Longrightarrow> inp n' = inp n"
  by (erule tick_cases) auto

lemma imu_filter_update_frame:
  "imu_filter_update m i t dt w q = Inr i' \<Longrightarrow> body i' = body i \<and> target i' = target i"
  by (auto simp: imu_filter_update_def ebind_Inr_conv Let_def)

lemma on_imu_frame:
  "on_imu n now m = Inr n' \<Longrightarrow> body (inp n') = body (inp n) \<and> target (inp n') = target (inp n)"
  by (cases "normalize_quaternion (arr4 (imu_orientation_msg m))"; cases "body (inp n)")
    (auto simp: on_imu_def ebind_Inr_conv Let_def dest: imu_filter_update_frame
      split: if_split_asm sum.split_asm)

lemma on_authority_inp: "inp (on_authority_status n m) = inp n \<or> inp (on_authority_status n m) = no_inputs"
  by (auto simp: on_authority_status_def select_source_def connect_pid_inputs_def disconnect_pid_inputs_def Let_def)

lemma authority_keeps_absent:
  "body (inp n) = None \<Longrightarrow> body (inp (on_authority_status n m)) = None"
  "target (inp n) = None \<Longrightarrow> target (inp (on_authority_status n m)) = None"
  "imu_orientation_filtered (inp n) = None \<Longrightarrow> imu_orientation_filtered (inp (on_authority_status n m)) = None"
  using on_authority_inp [of n m] by (auto simp: no_inputs_def)

lemma event_keeps_body:
  assumes "body (inp n) = None" "\<not> is_body e" "node_event_step n e = Inr (n', out)"
  shows "body (inp n') = None"
proof (cases e)
  case (Imu now m)
  then show ?thesis using assms by (auto simp: ebind_Inr_conv dest: on_imu_frame)
next
  case (Target now m)
  then show ?thesis using assms by (auto simp: on_target_def)
next
  case (Authority m)
  then show ?thesis using assms by (auto simp: authority_keeps_absent)
next
  case (Timer now)
  then show ?thesis using assms by (auto dest: tick_inp)
qed (use assms in simp)

lemma event_keeps_target:
  assumes "target (inp n) = None" "\<not> is_target e" "node_event_step n e = Inr (n', out)"
  shows "target (inp n') = None"
proof (cases e)
  case (Body now m)
  then show ?thesis using assms by (auto simp: on_body_def)
next
  case (Imu now m)
  then show ?thesis using assms by (auto simp: ebind_Inr_conv dest: on_imu_frame)
next
  case (Authority m)
  then show ?thesis using assms by (auto simp: authority_keeps_absent)
next
  case (Timer now)
  then show ?thesis using assms by (auto dest: tick_inp)
qed (use assms in simp)

lemma event_keeps_imu:
  assumes "imu_orientation_filtered (inp n) = None" "\<not> is_imu e" "node_event_step n e = Inr (n', out)"
  shows "imu_orientation_filtered (inp n') = None"
proof (cases e)
  case (Body now m)
  then show ?thesis using assms by (auto simp: on_body_def)
next
  case (Target now m)
  then show ?thesis using assms by (auto simp: on_target_def)
next
  case (Authority m)
  then show ?thesis using assms by (auto simp: authority_keeps_absent)
next
  case (Timer now)
  then show ?thesis using assms by (auto dest: tick_inp)
qed (use assms in simp)

lemma run_keeps:
  assumes step: "\<And>n e n' out. P n \<Longrightarrow> Q e \<Longrightarrow> node_event_step n e = Inr (n', out) \<Longrightarrow> P n'"
    and run: "node_run n es = Inr (n', out)" "list_all Q es" "P n"
  shows "P n'"
  using run
proof (induction es arbitrary: n out)
  case (Cons e es)
  obtain n1 o1 o2 where "node_event_step n e = Inr (n1, o1)" "node_run n1 es = Inr (n', o2)"
    using Cons.prems(1) by (auto simp: ebind_Inr_conv)
  then show ?case using Cons.IH step Cons.prems by simp blast
qed simp

lemma run_keeps_absent:
  assumes run: "node_run n es = Inr (n', out)"
  shows "list_all (\<lambda>e. \<not> is_body e) es \<Longrightarrow> body (inp n) = None \<Longrightarrow> body (inp n') = None"
    and "list_all (\<lambda>e. \<not> is_target e) es \<Longrightarrow> target (inp n) = None \<Longrightarrow> target (inp n') = None"
    and "list_all (\<lambda>e. \<not> is_imu e) es \<Longrightarrow> imu_orientation_filtered (inp n) = None \<Longrightarrow>
      imu_orientation_filtered (inp n') = None"
  using run_keeps [of "\<lambda>n. body (inp n) = None" "\<lambda>e. \<not> is_body e", OF _ run] event_keeps_body
    run_keeps [of "\<lambda>n. target (inp n) = None" "\<lambda>e. \<not> is_target e", OF _ run] event_keeps_target
    run_keeps [of "\<lambda>n. imu_orientation_filtered (inp n) = None" "\<lambda>e. \<not> is_imu e", OF _ run] event_keeps_imu
  by blast+

lemma absent_disabled:
  assumes "body (inp n) = None \<or> target (inp n) = None \<or> imu_orientation_filtered (inp n) = None"
    and "tick n now = Inr (n', out)" "Command c \<in> set out"
  shows "\<not> enable c \<and> action c = replicate 8 0"
  using assms(2)
proof (cases rule: tick_cases)
  case (idle ages dt t fb)
  then show ?thesis using assms(1) input_status_ready [OF idle(2)] by (metis option.distinct(1))
next
  case (hold ages dt t fb n2 k r)
  then show ?thesis using assms(1) input_status_ready [OF hold(2)] by (metis option.distinct(1))
qed (use assms(3) disabled_commands in auto)

section \<open>Properties\<close>



text \<open>
  C2: thrusters are enabled only on complete, fresh and consistent inputs.  An enabled command
  implies that the node is selected and approved, that body state, IMU and target arrived within
  the configured age, that velocity and localisation are valid and an absolute fix was seen, that
  the target is valid and of a compatible type and mode, and that the control period is within
  0.1 and 100 milliseconds.  Every other command carries eight zeros.
\<close>

theorem enabled_only_when_ready:
  assumes "tick n now = Inr (n', out)" "Command c \<in> set out"
  shows "if enable c
    then pid_selected n \<and> pid_configured (config n) \<and> absolute_localization_seen n
      \<and> (\<exists>b t. body (inp n) = Some b \<and> target (inp n) = Some t
          \<and> linear_velocity_valid b \<and> (state_valid b \<or> position_estimated b) \<and> target_valid t
          \<and> compatible_target (py_lower (trajectory_type t)) (py_lower (control_mode t)))
      \<and> list_all (\<lambda>stamp. \<not> flt_lt (max_input_age_s n) (age_s now stamp))
          [body_ns (inp n), imu_ns (inp n), target_ns (inp n)]
      \<and> (\<exists>dt. tick_dt n now = Fin dt \<and> 1 / 10 ^ 4 \<le> dt \<and> dt \<le> 1 / 10)
    else action c = replicate 8 0"
  using assms(1)
proof (cases rule: tick_cases)
  case (idle ages dt t fb)
  then have "enable c" using assms(2) enabled_commands by auto
  then show ?thesis using idle(1,3-5) input_status_ready [OF idle(2)] by simp metis
next
  case (hold ages dt t fb n2 k r)
  then have "enable c" using assms(2) enabled_commands by auto
  then show ?thesis using hold(1,3-5) input_status_ready [OF hold(2)] by simp metis
qed (use assms(2) disabled_commands in auto)

theorem enabled_only_when_ready_witness:
  "\<exists>n'. tick (sample_node ''idle'' ''idle'') 0 = Inr (n', publish_enabled (sample_node ''idle'' ''idle'')
       (replicate 8 0) (Fin 0, Fin 0, Fin 0) 0 Neutral)
     \<and> pid_configured (config (sample_node ''idle'' ''idle''))"
proof -
  obtain n' where t: "tick (sample_node ''idle'' ''idle'') 0 = Inr (n', publish_enabled (sample_node ''idle'' ''idle'')
       (replicate 8 0) (Fin 0, Fin 0, Fin 0) 0 Neutral)"
    using idle_node_tick by blast
  define c where "c = \<lparr>command_frame = ''base_link'', action = to_action (replicate 8 0), enable = True,
    source = ''pid_controller''\<rparr>"
  have "Command c \<in> set (publish_enabled (sample_node ''idle'' ''idle'') (replicate 8 0) (Fin 0, Fin 0, Fin 0) 0 Neutral)"
    by (simp add: publish_enabled_def c_def)
  from enabled_only_when_ready [OF t this] t show ?thesis by (simp add: c_def)
qed

text \<open>
  Idle is neutral.  With an idle target a tick publishes only zero actions, whether enabled
  or not, and leaves every controller as freshly constructed.
\<close>

theorem idle_target_is_neutral:
  assumes "node_inv n" "tick n now = Inr (n', out)" "pid_selected n"
    and "target (inp n) = Some t" "py_lower (control_mode t) = ''idle''"
  shows "ctl n' = fresh_controllers (config n)
    \<and> list_all (\<lambda>o'. case o' of Command c \<Rightarrow> action c = replicate 8 0 | Status s \<Rightarrow> saturation_fraction s = 0) out"
proof -
  have k: "ctl_inv (config n) (ctl n)" using assms(1) by (simp add: node_inv_def)
  have e: "ctl_inv (config n) (ctl (enter_mode (n\<lparr>last_tick_ns := v\<rparr>) m p))" for v m p
    using enter_mode_inv [of "n\<lparr>last_tick_ns := v\<rparr>" m p] assms(1) by (simp add: node_inv_def)
  from assms(2) show ?thesis
  proof (cases rule: tick_cases)
    case (hold ages dt tm fb n2 k r)
    then show ?thesis using assms(4,5) by (simp add: is_station_def)
  qed (use assms(3) reset_is_fresh [OF k] reset_is_fresh [OF e] to_action_zero in
      \<open>auto simp: publish_disabled_def publish_enabled_def make_status_def split: prod.splits\<close>)
qed

theorem idle_target_is_neutral_witness:
  "\<exists>n'. tick (sample_node ''idle'' ''idle'') 0 = Inr (n', publish_enabled (sample_node ''idle'' ''idle'')
       (replicate 8 0) (Fin 0, Fin 0, Fin 0) 0 Neutral)
     \<and> ctl n' = fresh_controllers (config (sample_node ''idle'' ''idle''))"
proof -
  have low: "py_lower ''idle'' = ''idle''" by code_simp
  obtain n' where t: "tick (sample_node ''idle'' ''idle'') 0 = Inr (n', publish_enabled (sample_node ''idle'' ''idle'')
       (replicate 8 0) (Fin 0, Fin 0, Fin 0) 0 Neutral)"
    using idle_node_tick by blast
  from idle_target_is_neutral [OF sample_node_inv t] t low show ?thesis
    by (simp add: sample_node_def still_target_def)
qed





text \<open>The collective part of the vertical mix when it fits into the remaining headroom.\<close>

lemma vertical_mix_sum:
  assumes "altitude_level_pwm_commands (Fin a) (Fin r) (Fin p) (Fin L) (Fin s) = Inr cs"
    and "0 \<le> L" "\<bar>r\<bar> + \<bar>p\<bar> + \<bar>a\<bar> \<le> L"
  shows "map ((!) cs) [0, 1, 2, 3] = map (\<lambda>x. copysign1 s * a + x) (attitude_pattern r p)"
proof -
  have k: "attitude_scale L r p = 1" using assms(2,3) by (intro attitude_scale_one) simp
  have c: "clip (copysign1 s * a) (- (L - (\<bar>r\<bar> + \<bar>p\<bar>))) (L - (\<bar>r\<bar> + \<bar>p\<bar>)) = copysign1 s * a"
    using assms(3) by (intro clip_id_abs) (simp add: abs_mult)
  have "cs = vertical_mix L (copysign1 s * a) r p"
    using altitude_level_closed_form [OF assms(1)] assms(2) k by simp
  then show ?thesis unfolding vertical_mix_def c by (simp add: attitude_pattern_def array_defs)
qed

lemma fast_level_headroom:
  assumes "level_step c (Fin l) k fb su dt = Inr (k', lv)" "0 \<le> l"
  shows "\<exists>r p. level_efforts lv = [r, p] \<and> altitude_output_limit lv = Fin (l - (\<bar>r\<bar> + \<bar>p\<bar>)) \<and> \<bar>r\<bar> + \<bar>p\<bar> \<le> l"
  using assms(1)
proof (rule level_step_Inr)
  fix d I eff raw des sat
  assume casc: "level_attitude_rate_efforts (map Fin (take 2 (orientation_error fb))) (map Fin (take 2 (goal_angular fb)))
       (map Fin (take 2 (actual_rate fb))) (map Fin (fast_station_level_angle_to_rate_kp (level c)))
       (map Fin (fast_station_level_rate_kp (level c))) (map Fin (fast_station_level_rate_limit_rps (level c)))
       (flt_min (Fin l) (Fin (fast_station_level_pwm_limit (fast_station c)))) [Fin 0, Fin d] [Fin 0, Fin I]
       = Inr (eff, raw, des, sat)"
    and lv: "\<lparr>level_efforts = eff, level_saturated = sat, pitch_decoupling = d,
       altitude_output_limit = flt_max (Fin 0) (flt_minus (Fin l) (np_sum (vabs eff)))\<rparr> = lv"
  note E = level_efforts_Inr [OF casc]
  obtain r p where rp: "eff = [r, p]"
    using E(3,5) list_of_length2 [of eff] by auto
  have "np_sum (vabs eff) \<le> min l (fast_station_level_pwm_limit (fast_station c))"
    using l1_scale_bound [of "min l (fast_station_level_pwm_limit (fast_station c))" raw] E(1,5) by simp
  then have "\<bar>r\<bar> + \<bar>p\<bar> \<le> l" by (simp add: rp array_defs)
  then show ?thesis unfolding lv [symmetric] rp by (auto simp: array_defs)
qed

text \<open>
  In fast station hold the altitude command is never clipped by the attitude commands.  The
  altitude PID is limited to the headroom that roll and pitch leave, so the four vertical
  channels carry exactly the signed altitude effort plus the roll and pitch pattern, and all of
  it fits into the command limit.
\<close>

theorem fast_altitude_keeps_headroom:
  assumes "hold_step c (Fin x) k t fb dt = Inr (k', res)" "0 \<le> x"
    and "py_lower (control_mode t) = ''station_hold_fast''"
  shows "\<exists>r p. \<bar>r\<bar> + \<bar>p\<bar> + \<bar>controller_effort res\<bar> \<le> x / 500
    \<and> map ((!) (commands res)) [0, 1, 2, 3]
      = map (\<lambda>y. copysign1 (altitude_pwm_command_sign (altitude c)) * controller_effort res + y) (attitude_pattern r p)"
  using assms(1)
proof (rule hold_step_Inr)
  fix v dv k2 e k3 lv pid
  assume lv: "(if py_lower (control_mode t) = ''station_hold_fast''
      then level_step c (flt_scale (1 / 500) (Fin x)) k2 fb (surge_effort e * mix_scale e) dt
      else Inr (k2, no_level (flt_scale (1 / 500) (Fin x)))) = Inr (k3, lv)"
    and run: "run_pid (altitude_pid k3) (axis_input dv v dt 0 (altitude_output_limit lv) True) = Inr (pid, controller_effort res)"
    and mix: "(if is_station (py_lower (control_mode t))
      then altitude_station_pwm_commands (Fin (controller_effort res)) (Fin (surge_effort e)) (Fin (sway_effort e))
             (Fin (yaw_effort e)) (flt_scale (1 / 500) (Fin x)) (Fin (altitude_pwm_command_sign (altitude c)))
             (Fin (level_efforts lv ! 0)) (Fin (level_efforts lv ! 1))
      else altitude_collective_pwm_commands (Fin (controller_effort res)) (flt_scale (1 / 500) (Fin x))
             (Fin (altitude_pwm_command_sign (altitude c)))) = Inr (commands res)"
  obtain r p where rp: "level_efforts lv = [r, p]" "altitude_output_limit lv = Fin (x / 500 - (\<bar>r\<bar> + \<bar>p\<bar>))"
    "\<bar>r\<bar> + \<bar>p\<bar> \<le> x / 500"
    using fast_level_headroom [of c "x / 500" k2 fb "surge_effort e * mix_scale e" dt k3 lv] lv assms(2,3) by auto
  have b: "\<bar>controller_effort res\<bar> \<le> x / 500 - (\<bar>r\<bar> + \<bar>p\<bar>)"
    using run_pid_bound [OF run] rp by simp
  have st: "is_station (py_lower (control_mode t))" using assms(3) by (simp add: is_station_def)
  have m: "altitude_station_pwm_commands (Fin (controller_effort res)) (Fin (surge_effort e)) (Fin (sway_effort e))
     (Fin (yaw_effort e)) (Fin (x / 500)) (Fin (altitude_pwm_command_sign (altitude c))) (Fin r) (Fin p) = Inr (commands res)"
    using mix st rp(1) by simp
  obtain vert horiz sc where sp: "altitude_level_pwm_commands (Fin (controller_effort res)) (Fin r) (Fin p) (Fin (x / 500))
      (Fin (altitude_pwm_command_sign (altitude c))) = Inr vert" "commands res = take 4 vert @ horiz"
    by (rule altitude_station_split [OF m])
  have "map ((!) (commands res)) [0, 1, 2, 3] = map ((!) vert) [0, 1, 2, 3]"
    using altitude_level_length [OF sp(1)] by (simp add: sp(2) nth_append)
  also have "\<dots> = map (\<lambda>y. copysign1 (altitude_pwm_command_sign (altitude c)) * controller_effort res + y) (attitude_pattern r p)"
    using b assms(2) by (intro vertical_mix_sum [OF sp(1)]) simp_all
  finally show ?thesis using b by (intro exI [of _ r] exI [of _ p]) simp
qed

theorem fast_altitude_keeps_headroom_witness:
  "\<exists>k' res. hold_step (config (sample_node ''hold'' ''station_hold_fast'')) (Fin 125)
       (ctl (sample_node ''hold'' ''station_hold_fast'')) (still_target ''hold'' ''station_hold_fast'')
       busy_feedback (1 / 50) = Inr (k', res)
     \<and> \<bar>controller_effort res\<bar> \<le> 1 / 4"
proof -
  have low: "py_lower ''station_hold_fast'' = ''station_hold_fast''" by code_simp
  have inv: "node_inv (sample_node ''hold'' ''station_hold_fast'')" by (rule sample_node_inv)
  have fb: "good_feedback busy_feedback" by (simp add: good_feedback_def busy_feedback_def unit_quat_def np_norm4)
  obtain k' res where h: "hold_step (config (sample_node ''hold'' ''station_hold_fast'')) (Fin 125)
       (ctl (sample_node ''hold'' ''station_hold_fast'')) (still_target ''hold'' ''station_hold_fast'')
       busy_feedback (1 / 50) = Inr (k', res)"
    using hold_step_total [of "config (sample_node ''hold'' ''station_hold_fast'')" "ctl (sample_node ''hold'' ''station_hold_fast'')"
        125 "1 / 50" busy_feedback "still_target ''hold'' ''station_hold_fast''"] inv fb
    by (auto simp: node_inv_def still_target_def origin3_def)
  from fast_altitude_keeps_headroom [OF h] low h show ?thesis by (auto simp: still_target_def)
qed

text \<open>
  The IMU callback cannot bring the node down.  In every reachable state it accepts or
  ignores any message; the only message on which it raises is an accepted one whose quaternion
  has norm exactly \<^verbatim>\<open>1e-9\<close>, which passes the callback's own guard and is rejected by the
  normalisation.
\<close>

theorem imu_callback_raises_only_on_boundary_norm:
  assumes "pid_init sha256_hex overrides = Inr n0" "node_run n0 es = Inr (n, out)"
  shows "(\<exists>n'. on_imu n now m = Inr n' \<and> node_inv n')
    \<or> imu_acceptable m \<and> np_norm (map fval (arr4 (imu_orientation_msg m))) = 1 / 10 ^ 9"
proof (cases "on_imu n now m")
  case (Inl e)
  then show ?thesis using on_imu_raises [OF reachable_inv [OF assms] Inl] by blast
next
  case (Inr n')
  then show ?thesis using on_imu_inv [OF reachable_inv [OF assms] Inr] by blast
qed

theorem imu_callback_raises_only_on_boundary_norm_witness:
  "\<exists>n0 n'. pid_init (\<lambda>_. '''') Map.empty = Inr n0
     \<and> on_imu n0 0 \<lparr>imu_frame = ''base_link'', imu_stamp_ns = 0, imu_orientation_msg = level_pose,
          orientation_covariance0 = Fin 0, imu_rate_msg = origin3\<rparr> = Inr n' \<and> node_inv n'"
proof -
  obtain n0 where n0: "pid_init (\<lambda>_. '''') Map.empty = Inr n0" using default_pid_init by blast
  have r: "node_run n0 [] = Inr (n0, [])" by simp
  have "np_norm (map fval (arr4 level_pose)) \<noteq> 1 / 10 ^ 9" by (simp add: level_pose_def np_norm4)
  with imu_callback_raises_only_on_boundary_norm [OF n0 r, of 0 "\<lparr>imu_frame = ''base_link'', imu_stamp_ns = 0,
      imu_orientation_msg = level_pose, orientation_covariance0 = Fin 0, imu_rate_msg = origin3\<rparr>"] n0
  show ?thesis by auto
qed



end
