(* ===== verification/Trajectory_Kinematics.thy ===== *)
theory Trajectory_Kinematics
  imports Quaternion_Math
begin

text \<open>
  The path generators of \<^verbatim>\<open>robotcore_runtime/trajectory_command_node.py\<close>: the smooth time ramp,
  the four automatic paths with their first and second derivatives, the quintic approach to the
  start point, and the attitude that goes with them.  The parameters of the node are finite
  numbers here; they are read once into the record below (the source reads them by name at each
  use).
\<close>

section \<open>Parameters\<close>

record path_params =
  p_trajectory_type :: string
  p_control_mode :: string
  publish_rate_hz :: real
  center_x :: real
  center_y :: real
  center_z :: real
  amp_x :: real
  amp_y :: real
  amp_z :: real
  radius_m :: real
  trajectory_speed_mps :: real
  trajectory_ramp_s :: real
  relative_to_initial_pose :: bool
  hold_before_motion_s :: real
  attitude_mode :: string
  move_duration_s :: real

text \<open>The declared defaults.\<close>

definition default_path_params :: path_params where
  "default_path_params =
     \<lparr>p_trajectory_type = ''hold'', p_control_mode = ''idle'', publish_rate_hz = 10,
      center_x = 0, center_y = 0, center_z = 9 / 10, amp_x = 3 / 2, amp_y = 3 / 4, amp_z = 2 / 5,
      radius_m = 1, trajectory_speed_mps = 1 / 10, trajectory_ramp_s = 0, relative_to_initial_pose = False,
      hold_before_motion_s = 0, attitude_mode = ''fixed_identity'', move_duration_s = 18\<rparr>"

definition AUTOMATIC_TRAJECTORY_TYPES :: "string list" where
  "AUTOMATIC_TRAJECTORY_TYPES = [''spatial_lissajous'', ''circle'', ''racetrack'', ''straight_line'']"

record trajectory_sample =
  position :: "real list"
  velocity :: "real list"
  acceleration :: "real list"

section \<open>Phase\<close>

text \<open>Effective time and its first two derivatives.\<close>

definition ramped_time_kinematics :: "path_params \<Rightarrow> real \<Rightarrow> real \<times> real \<times> real" where
  "ramped_time_kinematics p time =
     (let ramp_s = max 0 (trajectory_ramp_s p) in
      if 0 < ramp_s \<and> time < ramp_s
      then let f = clip (time / ramp_s) 0 1 in
        (ramp_s * (f ^ 3 - 1 / 2 * f ^ 4), 3 * f ^ 2 - 2 * f ^ 3, (6 * f - 6 * f ^ 2) / ramp_s)
      else (time - 1 / 2 * ramp_s, 1, 0))"

definition phase_kinematics :: "path_params \<Rightarrow> real \<Rightarrow> real \<Rightarrow> real \<times> real \<times> real" where
  "phase_kinematics p time distance_per_phase =
     (let path_speed = \<bar>trajectory_speed_mps p\<bar>; dpp = \<bar>distance_per_phase\<bar> in
      if path_speed \<le> 0 \<or> dpp \<le> 1 / 10 ^ 9 then (0, 0, 0)
      else case ramped_time_kinematics p time of (phase_time, time_rate, time_acceleration) \<Rightarrow>
        (path_speed * phase_time / dpp, path_speed * time_rate / dpp, path_speed * time_acceleration / dpp))"

text \<open>Offset, velocity, acceleration and heading from a path and its derivatives by phase.\<close>

definition compose_kinematics ::
  "real list \<Rightarrow> real list \<Rightarrow> real list \<Rightarrow> real \<Rightarrow> real \<Rightarrow> real list \<times> real list \<times> real list \<times> real" where
  "compose_kinematics path_offset first second phase_dot phase_ddot =
     (path_offset, vscale phase_dot first,
      vadd (vscale (phase_dot ^ 2) second) (vscale phase_ddot first),
      atan2 (first ! 1) (first ! 0))"

section \<open>Paths\<close>

definition circle_kinematics :: "path_params \<Rightarrow> real \<Rightarrow> real list \<times> real list \<times> real list \<times> real" where
  "circle_kinematics p time =
     (let radius = \<bar>radius_m p\<bar> in
      case phase_kinematics p time radius of (phase, phase_dot, phase_ddot) \<Rightarrow>
        compose_kinematics [radius * sin phase, - radius * cos phase, 0]
          [radius * cos phase, radius * sin phase, 0]
          [- radius * sin phase, radius * cos phase, 0] phase_dot phase_ddot)"

definition straight_line_kinematics :: "path_params \<Rightarrow> real \<Rightarrow> real list \<times> real list \<times> real list \<times> real" where
  "straight_line_kinematics p time =
     (let half_length = \<bar>amp_x p\<bar> in
      case phase_kinematics p time half_length of (phase, phase_dot, phase_ddot) \<Rightarrow>
      case compose_kinematics [- half_length * cos phase, 0, 0] [half_length * sin phase, 0, 0]
          [half_length * cos phase, 0, 0] phase_dot phase_ddot of (off, vel, acc, _) \<Rightarrow> (off, vel, acc, 0))"

text \<open>Python's \<^verbatim>\<open>%\<close> on floats with a positive divisor.\<close>

definition py_mod :: "real \<Rightarrow> real \<Rightarrow> real" where
  "py_mod x y = x - of_int \<lfloor>x / y\<rfloor> * y"

text \<open>Offset, unit tangent and curvature of the stadium at a distance along the lap.\<close>

definition racetrack_point :: "real \<Rightarrow> real \<Rightarrow> real \<Rightarrow> real list \<times> real list \<times> real list" where
  "racetrack_point radius straight_half_length distance =
     (let straight_length = 2 * straight_half_length in
      if distance < straight_length
      then ([- straight_half_length + distance, - radius, 0], [1, 0, 0], [0, 0, 0])
      else if distance < straight_length + pi * radius
      then let angle = - 1 / 2 * pi + (distance - straight_length) / radius in
        ([straight_half_length + radius * cos angle, radius * sin angle, 0],
         [- sin angle, cos angle, 0], [- cos angle / radius, - sin angle / radius, 0])
      else if distance < 2 * straight_length + pi * radius
      then let progress = distance - straight_length - pi * radius in
        ([straight_half_length - progress, radius, 0], [- 1, 0, 0], [0, 0, 0])
      else let angle = 1 / 2 * pi + (distance - 2 * straight_length - pi * radius) / radius in
        ([- straight_half_length + radius * cos angle, radius * sin angle, 0],
         [- sin angle, cos angle, 0], [- cos angle / radius, - sin angle / radius, 0]))"

definition racetrack_radius :: "path_params \<Rightarrow> real" where
  "racetrack_radius p = max (1 / 10 ^ 6) \<bar>amp_y p\<bar>"

definition racetrack_outer :: "path_params \<Rightarrow> real" where
  "racetrack_outer p = max (racetrack_radius p) \<bar>amp_x p\<bar>"

definition racetrack_lap :: "path_params \<Rightarrow> real" where
  "racetrack_lap p = 4 * (racetrack_outer p - racetrack_radius p) + 2 * pi * racetrack_radius p"

definition racetrack_kinematics :: "path_params \<Rightarrow> real \<Rightarrow> real list \<times> real list \<times> real list \<times> real" where
  "racetrack_kinematics p time =
     (let radius = racetrack_radius p;
          straight_half_length = racetrack_outer p - radius;
          lap_length = racetrack_lap p;
          distance_per_phase = lap_length / (2 * pi) in
      case phase_kinematics p time distance_per_phase of (phase, phase_dot, phase_ddot) \<Rightarrow>
      let distance = py_mod phase (2 * pi) * lap_length / (2 * pi) in
      case racetrack_point radius straight_half_length distance of (off, tangent, curvature) \<Rightarrow>
        compose_kinematics off (vscale distance_per_phase tangent)
          (vscale (distance_per_phase ^ 2) curvature) phase_dot phase_ddot)"

section \<open>The spatial Lissajous figure\<close>

definition lissajous_first :: "real \<Rightarrow> real \<Rightarrow> real \<Rightarrow> real \<Rightarrow> real list" where
  "lissajous_first ax ay az phase = [ax * cos phase, 2 * ay * cos (2 * phase), 3 * az * cos (3 * phase)]"

text \<open>\<^verbatim>\<open>np.linspace(0.0, stop, n)\<close> and \<^verbatim>\<open>np.cumsum\<close>.\<close>

definition linspace :: "real \<Rightarrow> nat \<Rightarrow> real list" where
  "linspace stop n = map (\<lambda>i. stop * real i / real (n - 1)) [0..<n]"

fun cumsum_from :: "real \<Rightarrow> real list \<Rightarrow> real list" where
  "cumsum_from acc [] = []"
| "cumsum_from acc (x # xs) = (acc + x) # cumsum_from (acc + x) xs"

text \<open>The table of phases and cumulative arc lengths of one lap (its cache is the same value).\<close>

definition lissajous_arc_table :: "real \<Rightarrow> real \<Rightarrow> real \<Rightarrow> real list \<times> real list" where
  "lissajous_arc_table ax ay az =
     (let phases = linspace (2 * pi) 4097;
          norms = map (\<lambda>t. np_norm (lissajous_first ax ay az t)) phases;
          phase_step = phases ! 1 - phases ! 0;
          segments = map2 (\<lambda>a b. 1 / 2 * (a + b) * phase_step) (butlast norms) (tl norms)
      in (phases, 0 # cumsum_from 0 segments))"

text \<open>\<^verbatim>\<open>np.interp\<close>: linear between the points, constant outside.\<close>

fun np_interp :: "real \<Rightarrow> real list \<Rightarrow> real list \<Rightarrow> real" where
  "np_interp x (x0 # x1 # xs) (y0 # y1 # ys) =
     (if x \<le> x0 then y0
      else if x \<le> x1 then y0 + (y1 - y0) * (x - x0) / (x1 - x0)
      else np_interp x (x1 # xs) (y1 # ys))"
| "np_interp x _ (y # ys) = y"
| "np_interp x _ [] = 0"

definition spatial_lissajous_kinematics :: "path_params \<Rightarrow> real \<Rightarrow> real list \<times> real list \<times> real list \<times> real" where
  "spatial_lissajous_kinematics p time =
     (let ax = \<bar>amp_x p\<bar>; ay = \<bar>amp_y p\<bar>; az = \<bar>amp_z p\<bar>;
          path_speed = \<bar>trajectory_speed_mps p\<bar>;
          (phases, cumulative_length) = lissajous_arc_table ax ay az;
          lap_length = last cumulative_length in
      if lap_length \<le> 1 / 10 ^ 9 \<or> path_speed \<le> 0 then ([0, 0, 0], [0, 0, 0], [0, 0, 0], 0)
      else case ramped_time_kinematics p time of (effective_time, time_rate, time_acceleration) \<Rightarrow>
        let lap_distance = py_mod (path_speed * effective_time) lap_length;
            phase = np_interp lap_distance cumulative_length phases;
            path_offset = [ax * sin phase, ay * sin (2 * phase), az * sin (3 * phase)];
            path_first = lissajous_first ax ay az phase;
            path_second = [- ax * sin phase, - 4 * ay * sin (2 * phase), - 9 * az * sin (3 * phase)];
            derivative_norm = max (1 / 10 ^ 9) (np_norm path_first);
            distance_rate = path_speed * time_rate;
            distance_acceleration = path_speed * time_acceleration;
            phase_dot = distance_rate / derivative_norm;
            phase_ddot = distance_acceleration / derivative_norm
              - np_dot path_first path_second * distance_rate ^ 2 / derivative_norm ^ 4
        in compose_kinematics path_offset path_first path_second phase_dot phase_ddot)"

definition trajectory_kinematics :: "path_params \<Rightarrow> string \<Rightarrow> real \<Rightarrow> real list \<times> real list \<times> real list \<times> real" where
  "trajectory_kinematics p ttype time =
     (if ttype = ''spatial_lissajous'' then spatial_lissajous_kinematics p time
      else if ttype = ''circle'' then circle_kinematics p time
      else if ttype = ''racetrack'' then racetrack_kinematics p time
      else if ttype = ''straight_line'' then straight_line_kinematics p time
      else ([0, 0, 0], [0, 0, 0], [0, 0, 0], 0))"

section \<open>The quintic approach\<close>

definition blend :: "real \<Rightarrow> real" where
  "blend tau = 10 * tau ^ 3 - 15 * tau ^ 4 + 6 * tau ^ 5"

definition approach_sample :: "real \<Rightarrow> real list \<Rightarrow> real list \<Rightarrow> real \<Rightarrow> trajectory_sample" where
  "approach_sample move_duration start goal time =
     (let displacement = vsub goal start;
          duration = max (1 / 10) move_duration;
          tau = clip (time / duration) 0 1;
          blend_rate = (30 * tau ^ 2 - 60 * tau ^ 3 + 30 * tau ^ 4) / duration;
          blend_acceleration = (60 * tau - 180 * tau ^ 2 + 120 * tau ^ 3) / duration ^ 2
      in \<lparr>position = vadd start (vscale (blend tau) displacement),
          velocity = vscale blend_rate displacement,
          acceleration = vscale blend_acceleration displacement\<rparr>)"

section \<open>The node's quaternion helpers\<close>

text \<open>
  Static methods that repeat the formulas of \<^verbatim>\<open>control_math\<close> without its checks: conversion
  from and to roll, pitch, yaw, spherical interpolation, rotation matrix.
\<close>

definition traj_quaternion_to_rpy :: "real list \<Rightarrow> real list" where
  "traj_quaternion_to_rpy q = rpy_of q"

definition traj_rpy_quaternion :: "real \<Rightarrow> real \<Rightarrow> real \<Rightarrow> real list" where
  "traj_rpy_quaternion roll pitch yaw = rpy_components roll pitch yaw"

definition level_heading_quaternion :: "real list \<Rightarrow> real list" where
  "level_heading_quaternion q = traj_rpy_quaternion 0 0 (traj_quaternion_to_rpy q ! 2)"

definition unit_of :: "real list \<Rightarrow> real list" where
  "unit_of q = map (\<lambda>x. x / np_norm q) q"

definition traj_quaternion_slerp :: "real list \<Rightarrow> real list \<Rightarrow> real \<Rightarrow> real list" where
  "traj_quaternion_slerp start goal fraction =
     (let start_q = unit_of start;
          target0 = unit_of goal;
          dot0 = np_dot start_q target0;
          target_q = (if dot0 < 0 then vneg target0 else target0);
          dot = clip (if dot0 < 0 then - dot0 else dot0) (- 1) 1;
          weight = clip fraction 0 1
      in if dot > 9995 / 10000
         then unit_of (vadd start_q (vscale weight (vsub target_q start_q)))
         else let angle = arccos dot; sine = sin angle
              in unit_of (vadd (vscale (sin ((1 - weight) * angle) / sine) start_q)
                               (vscale (sin (weight * angle) / sine) target_q)))"

fun rotation_matrix :: "real list \<Rightarrow> real list list" where
  "rotation_matrix [w, x, y, z] =
     [[1 - 2 * (y * y + z * z), 2 * (x * y - z * w), 2 * (x * z + y * w)],
      [2 * (x * y + z * w), 1 - 2 * (x * x + z * z), 2 * (y * z - x * w)],
      [2 * (x * z - y * w), 2 * (y * z + x * w), 1 - 2 * (x * x + y * y)]]"
| "rotation_matrix _ = []"

text \<open>\<^verbatim>\<open>matrix @ vector\<close>.\<close>

definition mat_vec :: "real list list \<Rightarrow> real list \<Rightarrow> real list" where
  "mat_vec m v = map (\<lambda>row. np_dot row v) m"

section \<open>The phase is a smooth, speed-limited clock\<close>

definition ramp :: "path_params \<Rightarrow> real" where
  "ramp p = max 0 (trajectory_ramp_s p)"

lemma smooth_rate_range:
  fixes f :: real
  assumes "0 \<le> f" "f \<le> 1"
  shows "0 \<le> 3 * f ^ 2 - 2 * f ^ 3" and "3 * f ^ 2 - 2 * f ^ 3 \<le> 1"
proof -
  have "3 * f ^ 2 - 2 * f ^ 3 = f ^ 2 * (3 - 2 * f)" by algebra
  then show "0 \<le> 3 * f ^ 2 - 2 * f ^ 3" using assms by simp
  have "1 - (3 * f ^ 2 - 2 * f ^ 3) = (1 - f) ^ 2 * (1 + 2 * f)" by algebra
  then show "3 * f ^ 2 - 2 * f ^ 3 \<le> 1" using assms by (smt (verit) mult_nonneg_nonneg zero_le_power2)
qed

lemma clip01: "0 \<le> clip x 0 1" "clip x 0 1 \<le> 1"
  by (simp_all add: clip_def)

lemma time_rate_range:
  "0 \<le> fst (snd (ramped_time_kinematics p t))" "fst (snd (ramped_time_kinematics p t)) \<le> 1"
  using smooth_rate_range [OF clip01] by (simp_all add: ramped_time_kinematics_def Let_def)

lemma phase_rate_bound:
  assumes "phase_kinematics p t d = (ph, ph1, ph2)"
  shows "0 \<le> ph1" and "\<bar>d\<bar> * ph1 \<le> \<bar>trajectory_speed_mps p\<bar>"
proof -
  obtain a b c where r: "ramped_time_kinematics p t = (a, b, c)" by (cases "ramped_time_kinematics p t")
  have b: "0 \<le> b" "b \<le> 1" using time_rate_range [of p t] by (simp_all add: r)
  have ph1: "ph1 = (if \<bar>trajectory_speed_mps p\<bar> \<le> 0 \<or> \<bar>d\<bar> \<le> 1 / 10 ^ 9 then 0 else \<bar>trajectory_speed_mps p\<bar> * b / \<bar>d\<bar>)"
    using assms by (auto simp: phase_kinematics_def Let_def r split: if_split_asm)
  show "0 \<le> ph1" unfolding ph1 using b by simp
  have "\<bar>trajectory_speed_mps p\<bar> * b \<le> \<bar>trajectory_speed_mps p\<bar>" using b by (simp add: mult_left_le)
  then show "\<bar>d\<bar> * ph1 \<le> \<bar>trajectory_speed_mps p\<bar>" unfolding ph1 by auto
qed

lemma np_norm_vscale_le: "np_norm xs \<le> n \<Longrightarrow> np_norm (vscale k xs) \<le> \<bar>k\<bar> * n"
  by (simp add: np_norm_vscale mult_left_mono)

lemma unit_circle_norm: "np_norm [r * cos a, r * sin a, 0] = \<bar>r\<bar>" "np_norm [r * sin a, - (r * cos a), 0] = \<bar>r\<bar>"
proof -
  have "(r * cos a)\<^sup>2 + (r * sin a)\<^sup>2 = r\<^sup>2" by (simp add: power_mult_distrib flip: distrib_left)
  then show "np_norm [r * cos a, r * sin a, 0] = \<bar>r\<bar>" "np_norm [r * sin a, - (r * cos a), 0] = \<bar>r\<bar>"
    by (simp_all add: np_norm3 add.commute)
qed

lemma circle_speed: "np_norm (fst (snd (circle_kinematics p t))) \<le> \<bar>trajectory_speed_mps p\<bar>"
proof -
  obtain a b c where ph: "phase_kinematics p t \<bar>radius_m p\<bar> = (a, b, c)" by (cases "phase_kinematics p t \<bar>radius_m p\<bar>")
  show ?thesis
    using phase_rate_bound [OF ph] unit_circle_norm(1) [of "\<bar>radius_m p\<bar>" a]
    by (simp add: circle_kinematics_def ph Let_def compose_kinematics_def np_norm_vscale mult.commute)
qed

lemma line_speed: "np_norm (fst (snd (straight_line_kinematics p t))) \<le> \<bar>trajectory_speed_mps p\<bar>"
proof -
  obtain a b c where ph: "phase_kinematics p t \<bar>amp_x p\<bar> = (a, b, c)" by (cases "phase_kinematics p t \<bar>amp_x p\<bar>")
  have "np_norm [\<bar>amp_x p\<bar> * sin a, 0, 0] \<le> \<bar>amp_x p\<bar>"
    by (simp add: np_norm3 abs_mult mult_left_le)
  from np_norm_vscale_le [OF this, of b] show ?thesis
    using phase_rate_bound [OF ph]
    by (simp add: straight_line_kinematics_def ph Let_def compose_kinematics_def mult.commute)
qed

lemma racetrack_tangent:
  assumes "racetrack_point r s d = (off, tangent, curv)"
  shows "np_norm tangent = 1 \<and> length tangent = 3"
proof -
  have "np_norm [- sin a, cos a, 0] = 1" for a
    using unit_circle_norm(1) [of 1 "a + pi / 2"] by (simp add: cos_add sin_add)
  then show ?thesis
    using assms by (auto simp: racetrack_point_def Let_def np_norm3 split: if_split_asm)
qed

lemma racetrack_dims:
  "0 < racetrack_radius p" "racetrack_radius p \<le> racetrack_outer p" "0 < racetrack_lap p"
proof -
  show 1: "0 < racetrack_radius p" unfolding racetrack_radius_def by (rule less_max_iff_disj [THEN iffD2]) simp
  show 2: "racetrack_radius p \<le> racetrack_outer p" by (simp add: racetrack_outer_def)
  have "0 < 2 * pi * racetrack_radius p" using 1 by simp
  moreover have "0 \<le> 4 * (racetrack_outer p - racetrack_radius p)" using 2 by simp
  ultimately show "0 < racetrack_lap p" unfolding racetrack_lap_def by (rule add_nonneg_pos [rotated])
qed

lemma racetrack_speed: "np_norm (fst (snd (racetrack_kinematics p t))) \<le> \<bar>trajectory_speed_mps p\<bar>"
proof -
  define dpp where "dpp = racetrack_lap p / (2 * pi)"
  have dpp: "0 < dpp" using racetrack_dims(3) [of p] by (simp add: dpp_def)
  obtain a b c where ph: "phase_kinematics p t dpp = (a, b, c)" by (cases "phase_kinematics p t dpp")
  obtain off tg cv where pt: "racetrack_point (racetrack_radius p) (racetrack_outer p - racetrack_radius p)
      (py_mod a (2 * pi) * racetrack_lap p / (2 * pi)) = (off, tg, cv)"
    by (cases "racetrack_point (racetrack_radius p) (racetrack_outer p - racetrack_radius p)
      (py_mod a (2 * pi) * racetrack_lap p / (2 * pi))")
  have "fst (snd (racetrack_kinematics p t)) = vscale b (vscale dpp tg)"
    unfolding racetrack_kinematics_def Let_def dpp_def [symmetric] ph prod.case pt by (simp add: compose_kinematics_def)
  then show ?thesis
    using phase_rate_bound [OF ph] racetrack_tangent [OF pt] dpp by (simp add: np_norm_vscale mult.commute)
qed

lemma lissajous_speed: "np_norm (fst (snd (spatial_lissajous_kinematics p t))) \<le> \<bar>trajectory_speed_mps p\<bar>"
proof -
  obtain phs cum where tab: "lissajous_arc_table \<bar>amp_x p\<bar> \<bar>amp_y p\<bar> \<bar>amp_z p\<bar> = (phs, cum)"
    by (cases "lissajous_arc_table \<bar>amp_x p\<bar> \<bar>amp_y p\<bar> \<bar>amp_z p\<bar>")
  obtain a b c where r: "ramped_time_kinematics p t = (a, b, c)" by (cases "ramped_time_kinematics p t")
  have b: "0 \<le> b" "b \<le> 1" using time_rate_range [of p t] by (simp_all add: r)
  have "\<bar>v * b / max (1 / 10 ^ 9) n\<bar> * n \<le> \<bar>v\<bar>" if "0 \<le> n" for v n :: real
  proof -
    have m: "0 < max (1 / 10 ^ 9) n" by (rule less_max_iff_disj [THEN iffD2]) simp
    have "\<bar>v * b / max (1 / 10 ^ 9) n\<bar> * n = \<bar>v\<bar> * b * (n / max (1 / 10 ^ 9) n)"
      using b m by (simp add: abs_mult)
    also have "\<dots> \<le> \<bar>v\<bar> * b * 1"
      using b m by (intro mult_left_mono) (simp_all add: divide_le_eq)
    also have "\<dots> \<le> \<bar>v\<bar>" using b by (simp add: mult_left_le)
    finally show ?thesis .
  qed
  note bound = this [OF np_norm_nonneg]
  show ?thesis
    using bound [of "\<bar>trajectory_speed_mps p\<bar>"]
    by (auto simp: spatial_lissajous_kinematics_def Let_def tab r compose_kinematics_def np_norm_vscale np_norm3
        simp del: divide_le_eq)
qed

section \<open>Extents\<close>

lemma py_mod_range: "0 < y \<Longrightarrow> 0 \<le> py_mod x y \<and> py_mod x y < y"
proof -
  assume y: "0 < y"
  have "of_int \<lfloor>x / y\<rfloor> * y \<le> x" "x < (of_int \<lfloor>x / y\<rfloor> + 1) * y"
    using floor_correct [of "x / y"] unfolding pos_le_divide_eq [OF y] pos_divide_less_eq [OF y] by simp_all
  then show ?thesis by (simp add: py_mod_def algebra_simps)
qed

lemma cos_left_nonneg: "- 1 / 2 * pi \<le> a \<Longrightarrow> a \<le> pi / 2 \<Longrightarrow> 0 \<le> cos a"
  by (rule cos_ge_zero) simp_all

lemma cos_right_nonpos:
  assumes "pi / 2 \<le> a" "a \<le> 3 * pi / 2"
  shows "cos a \<le> 0"
proof -
  have "0 \<le> cos (a - pi)" using assms by (intro cos_ge_zero) simp_all
  then show ?thesis by simp
qed

lemma racetrack_point_extent:
  assumes pt: "racetrack_point r s d = (off, tg, cv)" and r: "0 < r" and s: "0 \<le> s"
    and d: "0 \<le> d" "d \<le> 4 * s + 2 * pi * r"
  shows "length off = 3 \<and> \<bar>off ! 0\<bar> \<le> s + r \<and> \<bar>off ! 1\<bar> \<le> r \<and> off ! 2 = 0"
proof -
  have le: "\<bar>r * sin a\<bar> \<le> r" "\<bar>r * cos a\<bar> \<le> r" for a
    using r by (simp_all add: abs_mult mult_left_le)
  consider "d < 2 * s" | "2 * s \<le> d" "d < 2 * s + pi * r" | "2 * s + pi * r \<le> d" "d < 4 * s + pi * r"
    | "4 * s + pi * r \<le> d" by linarith
  then show ?thesis
  proof cases
    case 1
    then show ?thesis using pt r s d by (auto simp: racetrack_point_def)
  next
    case 2
    have "0 \<le> cos (- 1 / 2 * pi + (d - 2 * s) / r)"
      using 2 r by (intro cos_left_nonneg) (simp_all add: divide_le_eq algebra_simps)
    then have "0 \<le> r * cos (- 1 / 2 * pi + (d - 2 * s) / r)" using r by simp
    then show ?thesis using pt 2 le [of "- 1 / 2 * pi + (d - 2 * s) / r"] s
      by (auto simp: racetrack_point_def Let_def)
  next
    case 3
    have c: "\<not> d < 2 * s" "\<not> d < 2 * s + pi * r" "d < 2 * (2 * s) + pi * r"
      using 3 r mult_pos_pos [OF pi_gt_zero r] by linarith+
    have "off = [s - (d - 2 * s - pi * r), r, 0]"
      using pt unfolding racetrack_point_def Let_def if_not_P [OF c(1)] if_not_P [OF c(2)] if_P [OF c(3)] by simp
    then show ?thesis using 3 r s by auto
  next
    case 4
    have "cos (1 / 2 * pi + (d - 4 * s - pi * r) / r) \<le> 0"
      using 4 r d by (intro cos_right_nonpos) (simp_all add: divide_le_eq algebra_simps)
    then have "r * cos (1 / 2 * pi + (d - 4 * s - pi * r) / r) \<le> 0" using r by (simp add: mult_le_0_iff)
    moreover have "0 < pi * r" using r by simp
    ultimately show ?thesis using pt 4 le [of "1 / 2 * pi + (d - 4 * s - pi * r) / r"] s
      by (auto simp: racetrack_point_def Let_def)
  qed
qed

lemma racetrack_extent:
  assumes "racetrack_kinematics p t = (off, vel, acc, yaw)"
  shows "length off = 3 \<and> \<bar>off ! 0\<bar> \<le> racetrack_outer p \<and> \<bar>off ! 1\<bar> \<le> racetrack_radius p \<and> off ! 2 = 0"
proof -
  define s where "s = racetrack_outer p - racetrack_radius p"
  define lap where "lap = racetrack_lap p"
  obtain a b c where ph: "phase_kinematics p t (lap / (2 * pi)) = (a, b, c)"
    by (cases "phase_kinematics p t (lap / (2 * pi))")
  obtain off' tg cv where pt: "racetrack_point (racetrack_radius p) s (py_mod a (2 * pi) * lap / (2 * pi)) = (off', tg, cv)"
    by (cases "racetrack_point (racetrack_radius p) s (py_mod a (2 * pi) * lap / (2 * pi))")
  have off: "off = off'"
    using assms unfolding racetrack_kinematics_def Let_def s_def [symmetric] lap_def [symmetric] ph prod.case pt
    by (simp add: compose_kinematics_def)
  have m: "0 \<le> py_mod a (2 * pi)" "py_mod a (2 * pi) < 2 * pi" using py_mod_range [of "2 * pi" a] by simp_all
  have lap: "0 < lap" "lap = 4 * s + 2 * pi * racetrack_radius p"
    using racetrack_dims(3) [of p] by (simp_all add: lap_def s_def racetrack_lap_def)
  have "py_mod a (2 * pi) * lap \<le> 2 * pi * lap" using m lap by (intro mult_right_mono) simp_all
  then have d: "py_mod a (2 * pi) * lap / (2 * pi) \<le> 4 * s + 2 * pi * racetrack_radius p"
    unfolding lap(2) [symmetric] by (simp add: divide_le_eq mult.commute)
  show ?thesis
    using racetrack_point_extent [OF pt racetrack_dims(1) _ _ d] racetrack_dims(2) [of p] m lap(1)
    unfolding off by (simp add: s_def)
qed

section \<open>Velocities are derivatives\<close>

text \<open>A path given by its coordinates and their first two derivatives by phase.\<close>

locale phase_path =
  fixes path first second :: "real \<Rightarrow> real list"
  assumes path_deriv: "i < 3 \<Longrightarrow> ((\<lambda>x. path x ! i) has_real_derivative first x ! i) (at x)"
    and first_deriv: "i < 3 \<Longrightarrow> ((\<lambda>x. first x ! i) has_real_derivative second x ! i) (at x)"
    and lengths: "length (path x) = 3" "length (first x) = 3" "length (second x) = 3"
begin

text \<open>What \<open>compose_kinematics\<close> returns for a phase that is a function of time.\<close>

lemma compose_velocity:
  assumes "(ph has_real_derivative ratea t) (at t)" "i < 3"
  shows "((\<lambda>s. fst (compose_kinematics (path (ph s)) (first (ph s)) (second (ph s)) (ratea s) (rateb s)) ! i)
    has_real_derivative fst (snd (compose_kinematics (path (ph t)) (first (ph t)) (second (ph t)) (ratea t) (rateb t))) ! i) (at t)"
  using DERIV_chain2 [OF path_deriv [OF assms(2)] assms(1)] assms(2) lengths
  by (simp add: compose_kinematics_def vscale_def mult.commute)

lemma compose_acceleration:
  assumes ph: "(ph has_real_derivative ratea t) (at t)" "(ratea has_real_derivative rateb t) (at t)" and i: "i < 3"
  shows "((\<lambda>s. fst (snd (compose_kinematics (path (ph s)) (first (ph s)) (second (ph s)) (ratea s) (rateb s))) ! i)
    has_real_derivative fst (snd (snd (compose_kinematics (path (ph t)) (first (ph t)) (second (ph t)) (ratea t) (rateb t)))) ! i) (at t)"
proof -
  have "((\<lambda>s. ratea s * first (ph s) ! i) has_real_derivative
      rateb t * first (ph t) ! i + (second (ph t) ! i * ratea t) * ratea t) (at t)"
    using DERIV_mult [OF ph(2) DERIV_chain2 [OF first_deriv [OF i] ph(1)]] by (simp add: mult.commute)
  then show ?thesis using i lengths
    by (simp add: compose_kinematics_def vscale_def vadd_def power2_eq_square algebra_simps)
qed

end

definition circle_path :: "real \<Rightarrow> real \<Rightarrow> real list" where
  "circle_path r x = [r * sin x, - r * cos x, 0]"

definition circle_first :: "real \<Rightarrow> real \<Rightarrow> real list" where
  "circle_first r x = [r * cos x, r * sin x, 0]"

definition circle_second :: "real \<Rightarrow> real \<Rightarrow> real list" where
  "circle_second r x = [- r * sin x, r * cos x, 0]"

definition line_path :: "real \<Rightarrow> real \<Rightarrow> real list" where
  "line_path h x = [- h * cos x, 0, 0]"

definition line_first :: "real \<Rightarrow> real \<Rightarrow> real list" where
  "line_first h x = [h * sin x, 0, 0]"

definition line_second :: "real \<Rightarrow> real \<Rightarrow> real list" where
  "line_second h x = [h * cos x, 0, 0]"

lemma less_3_cases: "i < (3 :: nat) \<Longrightarrow> i = 0 \<or> i = 1 \<or> i = 2"
  by auto

interpretation circle: phase_path "circle_path r" "circle_first r" "circle_second r" for r
  by unfold_locales
    (auto simp: circle_path_def circle_first_def circle_second_def dest!: less_3_cases intro!: derivative_eq_intros)

interpretation line: phase_path "line_path h" "line_first h" "line_second h" for h
  by unfold_locales
    (auto simp: line_path_def line_first_def line_second_def dest!: less_3_cases intro!: derivative_eq_intros)

lemma deriv_transform_open:
  fixes f g :: "real \<Rightarrow> real"
  assumes "(g has_real_derivative d) (at t)" "open S" "t \<in> S" "\<And>s. s \<in> S \<Longrightarrow> f s = g s"
  shows "(f has_real_derivative d) (at t)"
proof -
  have "eventually (\<lambda>s. f s = g s) (nhds t)"
    using eventually_nhds_in_open [OF assms(2,3)] by (rule eventually_mono) (rule assms(4))
  then show ?thesis using DERIV_cong_ev [of t t f g d d] assms(1) by simp
qed

text \<open>The effective time away from the junctions of the ramp.\<close>

lemma ramped_time_deriv:
  assumes "0 < t" "t \<noteq> ramp p"
  shows "((\<lambda>s. fst (ramped_time_kinematics p s)) has_real_derivative fst (snd (ramped_time_kinematics p t))) (at t)"
    and "((\<lambda>s. fst (snd (ramped_time_kinematics p s))) has_real_derivative snd (snd (ramped_time_kinematics p t))) (at t)"
proof -
  define r where "r = ramp p"
  consider "t < r" | "r < t" using assms(2) unfolding r_def by linarith
  then have both: "((\<lambda>s. fst (ramped_time_kinematics p s)) has_real_derivative fst (snd (ramped_time_kinematics p t))) (at t)
    \<and> ((\<lambda>s. fst (snd (ramped_time_kinematics p s))) has_real_derivative snd (snd (ramped_time_kinematics p t))) (at t)"
  proof cases
    case 1
    have eq: "ramped_time_kinematics p s = (r * ((s / r) ^ 3 - 1 / 2 * (s / r) ^ 4), 3 * (s / r) ^ 2 - 2 * (s / r) ^ 3,
        (6 * (s / r) - 6 * (s / r) ^ 2) / r)" if "s \<in> {0 <..< r}" for s
      using that by (simp add: ramped_time_kinematics_def ramp_def [symmetric] r_def [symmetric] Let_def clip_id)
    have r: "r \<noteq> 0" using 1 assms(1) by simp
    have A: "((\<lambda>s. r * ((s / r) ^ 3 - 1 / 2 * (s / r) ^ 4)) has_real_derivative 3 * (t / r) ^ 2 - 2 * (t / r) ^ 3) (at t)"
      using r by (auto intro!: derivative_eq_intros simp: field_simps eval_nat_numeral)
    have B: "((\<lambda>s. 3 * (s / r) ^ 2 - 2 * (s / r) ^ 3) has_real_derivative (6 * (t / r) - 6 * (t / r) ^ 2) / r) (at t)"
      using r by (auto intro!: derivative_eq_intros simp: field_simps eval_nat_numeral)
    have t: "t \<in> {0 <..< r}" using 1 assms(1) by simp
    show ?thesis
      unfolding eq [OF t] fst_conv snd_conv
      by (rule conjI; rule deriv_transform_open [OF A open_greaterThanLessThan t] deriv_transform_open [OF B open_greaterThanLessThan t]; simp add: eq)
  next
    case 2
    have eq: "ramped_time_kinematics p s = (s - 1 / 2 * r, 1, 0)" if "s \<in> {r <..}" for s
      using that by (simp add: ramped_time_kinematics_def ramp_def [symmetric] r_def [symmetric] Let_def)
    have A: "((\<lambda>s. s - 1 / 2 * r) has_real_derivative 1) (at t)" by (auto intro!: derivative_eq_intros)
    have B: "((\<lambda>s. 1) has_real_derivative 0) (at t)" by simp
    have t: "t \<in> {r <..}" using 2 by simp
    show ?thesis
      unfolding eq [OF t] fst_conv snd_conv
      by (rule conjI; rule deriv_transform_open [OF A open_greaterThan t] deriv_transform_open [OF B open_greaterThan t]; simp add: eq)
  qed
  then show "((\<lambda>s. fst (ramped_time_kinematics p s)) has_real_derivative fst (snd (ramped_time_kinematics p t))) (at t)"
    "((\<lambda>s. fst (snd (ramped_time_kinematics p s))) has_real_derivative snd (snd (ramped_time_kinematics p t))) (at t)"
    by simp_all
qed

lemma phase_deriv:
  assumes "0 < t" "t \<noteq> ramp p"
  shows "((\<lambda>s. fst (phase_kinematics p s d)) has_real_derivative fst (snd (phase_kinematics p t d))) (at t)"
    and "((\<lambda>s. fst (snd (phase_kinematics p s d))) has_real_derivative snd (snd (phase_kinematics p t d))) (at t)"
  using DERIV_cdivide [OF DERIV_cmult [OF ramped_time_deriv(1) [OF assms], of "\<bar>trajectory_speed_mps p\<bar>"], of "\<bar>d\<bar>"]
    DERIV_cdivide [OF DERIV_cmult [OF ramped_time_deriv(2) [OF assms], of "\<bar>trajectory_speed_mps p\<bar>"], of "\<bar>d\<bar>"]
  by (auto simp: phase_kinematics_def Let_def split_beta)

lemma circle_compose:
  "circle_kinematics p t = (let r = \<bar>radius_m p\<bar>; ph = phase_kinematics p t r in
     compose_kinematics (circle_path r (fst ph)) (circle_first r (fst ph)) (circle_second r (fst ph)) (fst (snd ph)) (snd (snd ph)))"
  by (simp add: circle_kinematics_def Let_def split_beta circle_path_def circle_first_def circle_second_def)

lemma line_compose:
  "straight_line_kinematics p t = (let h = \<bar>amp_x p\<bar>; ph = phase_kinematics p t h;
     k = compose_kinematics (line_path h (fst ph)) (line_first h (fst ph)) (line_second h (fst ph)) (fst (snd ph)) (snd (snd ph))
     in (fst k, fst (snd k), fst (snd (snd k)), 0))"
  by (simp add: straight_line_kinematics_def Let_def split_beta line_path_def line_first_def line_second_def)

section \<open>The quintic approach\<close>

lemma blend_range:
  assumes "0 \<le> x" "x \<le> 1"
  shows "0 \<le> blend x" and "blend x \<le> 1"
proof -
  have "blend x = x ^ 3 * (6 * (x - 5 / 4) ^ 2 + 5 / 8)" unfolding blend_def by algebra
  moreover have "0 \<le> 6 * (x - 5 / 4) ^ 2 + 5 / 8" by (simp add: add_nonneg_nonneg)
  ultimately show "0 \<le> blend x" using assms by simp
  have "1 - blend x = (1 - x) ^ 3 * (6 * x ^ 2 + 3 * x + 1)" unfolding blend_def by algebra
  moreover have "0 \<le> (1 - x) ^ 3 * (6 * x ^ 2 + 3 * x + 1)" using assms by simp
  ultimately show "blend x \<le> 1" by linarith
qed

lemma between_convex:
  fixes a b k :: real
  assumes "0 \<le> k" "k \<le> 1"
  shows "min a b \<le> a + k * (b - a)" "a + k * (b - a) \<le> max a b"
proof -
  have 1: "a \<le> b \<Longrightarrow> k * (b - a) \<le> b - a" "b \<le> a \<Longrightarrow> k * (a - b) \<le> a - b"
    using assms by (simp_all add: mult_left_le_one_le)
  have 2: "a \<le> b \<Longrightarrow> 0 \<le> k * (b - a)" "b \<le> a \<Longrightarrow> 0 \<le> k * (a - b)" using assms by simp_all
  have 3: "k * (a - b) = - (k * (b - a))" by algebra
  show "min a b \<le> a + k * (b - a)" "a + k * (b - a) \<le> max a b"
    using 1 2 3 by (cases "a \<le> b"; simp add: min_def max_def)+
qed

lemma approach_between:
  assumes "length start = 3" "length goal = 3" "i < 3"
  shows "min (start ! i) (goal ! i) \<le> position (approach_sample d start goal t) ! i
        \<and> position (approach_sample d start goal t) ! i \<le> max (start ! i) (goal ! i)"
proof -
  obtain a b c where s: "start = [a, b, c]" using assms(1) list_of_length3 by blast
  obtain x y z where g: "goal = [x, y, z]" using assms(2) list_of_length3 by blast
  define k where "k = blend (clip (t / max (1 / 10) d) 0 1)"
  have k: "0 \<le> k" "k \<le> 1" unfolding k_def by (intro blend_range clip01)+
  have pos: "position (approach_sample d start goal t) = [a + k * (x - a), b + k * (y - b), c + k * (z - c)]"
    by (simp add: approach_sample_def Let_def s g k_def array_defs)
  show ?thesis
    unfolding pos unfolding s g using between_convex [OF k] assms(3) by (auto dest!: less_3_cases)
qed

lemma approach_begin:
  assumes "length start = 3" "length goal = 3"
  shows "position (approach_sample d start goal 0) = start \<and> velocity (approach_sample d start goal 0) = [0, 0, 0]"
  using assms by (auto dest!: list_of_length3 simp: approach_sample_def Let_def blend_def clip_def array_defs)

lemma approach_end:
  assumes "length start = 3" "length goal = 3" "t \<ge> max (1 / 10) d"
  shows "position (approach_sample d start goal t) = goal \<and> velocity (approach_sample d start goal t) = [0, 0, 0]"
proof -
  have m: "0 < max (1 / 10) d" by (rule less_max_iff_disj [THEN iffD2]) simp
  have one: "clip (t / max (1 / 10) d) 0 1 = 1"
    using assms(3) m by (simp add: clip_def le_divide_eq del: max_less_iff_conj)
  show ?thesis unfolding approach_sample_def Let_def one
    using assms(1,2) by (auto dest!: list_of_length3 simp: blend_def array_defs)
qed

section \<open>Properties\<close>

text \<open>
  No path exceeds the configured speed.  For every trajectory type, parameter set and time,
  the commanded velocity of the path has at most the configured path speed.
\<close>

theorem path_speed_limited:
  "np_norm (fst (snd (trajectory_kinematics p ttype t))) \<le> \<bar>trajectory_speed_mps p\<bar>"
  using circle_speed line_speed racetrack_speed lissajous_speed
  by (simp add: trajectory_kinematics_def np_norm3)

text \<open>
  Every path stays inside its figure.  The circle keeps its radius, the racetrack stays in
  its bounding box, the line in its segment, the Lissajous figure in its three amplitudes.
\<close>

theorem path_stays_in_figure:
  "np_norm (fst (trajectory_kinematics p ''circle'' t)) = \<bar>radius_m p\<bar>
   \<and> (case fst (trajectory_kinematics p ''racetrack'' t) of off \<Rightarrow>
        \<bar>off ! 0\<bar> \<le> racetrack_outer p \<and> \<bar>off ! 1\<bar> \<le> racetrack_radius p \<and> off ! 2 = 0)
   \<and> (case fst (trajectory_kinematics p ''straight_line'' t) of off \<Rightarrow>
        \<bar>off ! 0\<bar> \<le> \<bar>amp_x p\<bar> \<and> off ! 1 = 0 \<and> off ! 2 = 0)
   \<and> (case fst (trajectory_kinematics p ''spatial_lissajous'' t) of off \<Rightarrow>
        \<bar>off ! 0\<bar> \<le> \<bar>amp_x p\<bar> \<and> \<bar>off ! 1\<bar> \<le> \<bar>amp_y p\<bar> \<and> \<bar>off ! 2\<bar> \<le> \<bar>amp_z p\<bar>)"
proof -
  have le: "\<bar>\<bar>a\<bar> * sin x\<bar> \<le> \<bar>a\<bar>" "\<bar>\<bar>a\<bar> * cos x\<bar> \<le> \<bar>a\<bar>" for a x :: real
    by (simp_all add: abs_mult mult_left_le)
  have "np_norm (fst (circle_kinematics p t)) = \<bar>radius_m p\<bar>"
    using unit_circle_norm(2) [of "\<bar>radius_m p\<bar>"]
    by (simp add: circle_kinematics_def Let_def split_beta compose_kinematics_def)
  moreover have "\<bar>fst (straight_line_kinematics p t) ! 0\<bar> \<le> \<bar>amp_x p\<bar>"
    "fst (straight_line_kinematics p t) ! 1 = 0" "fst (straight_line_kinematics p t) ! 2 = 0"
    using le(2) by (simp_all add: straight_line_kinematics_def Let_def split_beta compose_kinematics_def)
  moreover have "\<bar>fst (spatial_lissajous_kinematics p t) ! 0\<bar> \<le> \<bar>amp_x p\<bar>"
    "\<bar>fst (spatial_lissajous_kinematics p t) ! 1\<bar> \<le> \<bar>amp_y p\<bar>"
    "\<bar>fst (spatial_lissajous_kinematics p t) ! 2\<bar> \<le> \<bar>amp_z p\<bar>"
    using le(1) by (simp_all add: spatial_lissajous_kinematics_def Let_def split_beta compose_kinematics_def)
  moreover obtain off vel acc yaw where rk: "racetrack_kinematics p t = (off, vel, acc, yaw)"
    by (cases "racetrack_kinematics p t")
  ultimately show ?thesis
    using racetrack_extent [OF rk] by (simp add: trajectory_kinematics_def rk)
qed

text \<open>
  On the circle and the line the published velocity is the derivative of the published
  position and the acceleration that of the velocity, at every time after the start except the
  end of the ramp.
\<close>

theorem published_velocity_is_derivative:
  assumes "0 < t" "t \<noteq> ramp p" "i < 3" "ttype \<in> {''circle'', ''straight_line''}"
  shows "((\<lambda>s. fst (trajectory_kinematics p ttype s) ! i)
      has_real_derivative fst (snd (trajectory_kinematics p ttype t)) ! i) (at t)
    \<and> ((\<lambda>s. fst (snd (trajectory_kinematics p ttype s)) ! i)
      has_real_derivative fst (snd (snd (trajectory_kinematics p ttype t))) ! i) (at t)"
proof -
  define ph where "ph d s = fst (phase_kinematics p s d)" for d s
  define ph1 where "ph1 d s = fst (snd (phase_kinematics p s d))" for d s
  define ph2 where "ph2 d s = snd (snd (phase_kinematics p s d))" for d s
  have d: "(ph d has_real_derivative ph1 d t) (at t)" "(ph1 d has_real_derivative ph2 d t) (at t)" for d
    using phase_deriv [OF assms(1,2), of d] by (simp_all add: ph_def [abs_def] ph1_def [abs_def] ph2_def)
  have circle: "circle_kinematics p s = (let r = \<bar>radius_m p\<bar> in compose_kinematics (circle_path r (ph r s))
      (circle_first r (ph r s)) (circle_second r (ph r s)) (ph1 r s) (ph2 r s))" for s
    by (simp add: circle_compose ph_def ph1_def ph2_def Let_def)
  have line: "straight_line_kinematics p s = (let h = \<bar>amp_x p\<bar>; k = compose_kinematics (line_path h (ph h s))
      (line_first h (ph h s)) (line_second h (ph h s)) (ph1 h s) (ph2 h s)
      in (fst k, fst (snd k), fst (snd (snd k)), 0))" for s
    by (simp add: line_compose ph_def ph1_def ph2_def Let_def)
  show ?thesis
    using assms(4) circle.compose_velocity [where ph = "ph \<bar>radius_m p\<bar>" and ratea = "ph1 \<bar>radius_m p\<bar>" and t = t, OF d(1) assms(3)]
      circle.compose_acceleration [where ph = "ph \<bar>radius_m p\<bar>" and ratea = "ph1 \<bar>radius_m p\<bar>" and rateb = "ph2 \<bar>radius_m p\<bar>" and t = t, OF d assms(3)]
      line.compose_velocity [where ph = "ph \<bar>amp_x p\<bar>" and ratea = "ph1 \<bar>amp_x p\<bar>" and t = t, OF d(1) assms(3)]
      line.compose_acceleration [where ph = "ph \<bar>amp_x p\<bar>" and ratea = "ph1 \<bar>amp_x p\<bar>" and rateb = "ph2 \<bar>amp_x p\<bar>" and t = t, OF d assms(3)]
    by (auto simp: trajectory_kinematics_def circle line Let_def)
qed

theorem published_velocity_is_derivative_witness:
  "((\<lambda>s. fst (trajectory_kinematics default_path_params ''circle'' s) ! 0)
     has_real_derivative fst (snd (trajectory_kinematics default_path_params ''circle'' 20)) ! 0) (at 20)"
  using published_velocity_is_derivative [of 20 default_path_params 0 "''circle''"]
  by (simp add: ramp_def default_path_params_def)

text \<open>
  The approach to the start point is safe.  The target moves on the segment from the start
  to the goal, so it stays in every box that contains both; it begins at the start and ends at
  the goal, at rest at both ends.
\<close>

theorem approach_stays_between_and_rests:
  assumes "length start = 3" "length goal = 3"
  shows "(\<forall>i < 3. min (start ! i) (goal ! i) \<le> position (approach_sample d start goal t) ! i
        \<and> position (approach_sample d start goal t) ! i \<le> max (start ! i) (goal ! i))
    \<and> position (approach_sample d start goal 0) = start \<and> velocity (approach_sample d start goal 0) = [0, 0, 0]
    \<and> (t \<ge> max (1 / 10) d \<longrightarrow>
        position (approach_sample d start goal t) = goal \<and> velocity (approach_sample d start goal t) = [0, 0, 0])"
  using approach_between [OF assms] approach_begin [OF assms] approach_end [OF assms] by blast

theorem approach_stays_between_and_rests_witness:
  "position (approach_sample 18 [0, 0, 0] [1, 2, 3] 20) = [1, 2, 3]
   \<and> velocity (approach_sample 18 [0, 0, 0] [1, 2, 3] 20) = [0, 0, 0]"
  using approach_stays_between_and_rests [of "[0, 0, 0]" "[1, 2, 3]" 18 20] by simp

end
