(* ===== verification/Trajectory_Node.thy ===== *)
theory Trajectory_Node
  imports Trajectory_Kinematics Ros_Interface
begin

text \<open>
  The node \<^verbatim>\<open>TrajectoryCommandNode\<close> of \<^verbatim>\<open>robotcore_runtime/trajectory_command_node.py\<close>: the
  callbacks that store measured poses and operator input, the validate, reset and stop services,
  and the tick that publishes the next target.  Operator input may be non-finite; measured poses
  are stored only when finite.  Stored quaternions have norm one, so the normalisation in place
  that the interpolation performs on its argument does not change them.
\<close>

section \<open>State\<close>

record limit_params =
  require_pool_bounds :: bool
  pool_min_xyz :: "real list"
  pool_max_xyz :: "real list"
  trajectory_limits_configured :: bool
  max_linear_speed_mps :: real
  max_angular_speed_rps :: real
  attitude_min_rpy_deg :: "real list"
  attitude_max_rpy_deg :: "real list"

record input_params =
  manual_vertical_speed_mps :: real
  manual_input_age_s :: real
  station_linear_input_gain_mps :: real
  station_lateral_input_gain_mps :: real
  station_yaw_input_gain_rps :: real

definition default_limit_params :: limit_params where
  "default_limit_params = \<lparr>require_pool_bounds = False, pool_min_xyz = [0, 0, 0], pool_max_xyz = [0, 0, 0],
     trajectory_limits_configured = False, max_linear_speed_mps = 0, max_angular_speed_rps = 0,
     attitude_min_rpy_deg = [0, 0, 0], attitude_max_rpy_deg = [0, 0, 0]\<rparr>"

definition default_input_params :: input_params where
  "default_input_params = \<lparr>manual_vertical_speed_mps = 1 / 5, manual_input_age_s = 3 / 20,
     station_linear_input_gain_mps = 3 / 10, station_lateral_input_gain_mps = 1 / 5,
     station_yaw_input_gain_rps = 3 / 5\<rparr>"

record pose_state =
  initial_position :: "real list option"
  initial_quaternion :: "real list option"
  latest_position :: "real list option"
  latest_map_yaw :: "real option"
  latest_quaternion :: "real list option"
  latest_angular_velocity :: "real list option"

record hold_state =
  altitude_hold_z :: "real option"
  altitude_heave_active :: bool
  station_target_position :: "real list option"
  station_target_quaternion :: "real list option"
  station_planar_active :: bool
  station_heave_active :: bool
  station_yaw_active :: bool

record manual_msg =
  manual_action :: "pyfloat list"
  manual_enable :: bool
  manual_source :: string

text \<open>The operator twist: linear x, y, z and angular z.\<close>

record operator_state =
  operator_target_input :: "pyfloat list option"
  operator_target_input_ns :: "int option"
  manual_command :: "manual_msg option"
  manual_command_ns :: "int option"

record traj_node =
  pp :: path_params
  lp :: limit_params
  gp :: input_params
  started_ns :: int
  tracking_started :: bool
  poses :: pose_state
  motion_start_position :: "real list option"
  motion_start_quaternion :: "real list option"
  holds :: hold_state
  operator :: operator_state
  envelope_checked :: bool
  envelope_valid :: bool
  envelope_rejection_reason :: string

definition no_poses :: pose_state where
  "no_poses = \<lparr>initial_position = None, initial_quaternion = None, latest_position = None,
     latest_map_yaw = None, latest_quaternion = None, latest_angular_velocity = None\<rparr>"

definition no_holds :: hold_state where
  "no_holds = \<lparr>altitude_hold_z = None, altitude_heave_active = False, station_target_position = None,
     station_target_quaternion = None, station_planar_active = False, station_heave_active = False,
     station_yaw_active = False\<rparr>"

definition no_operator :: operator_state where
  "no_operator = \<lparr>operator_target_input = None, operator_target_input_ns = None,
     manual_command = None, manual_command_ns = None\<rparr>"

definition traj_init :: "path_params \<Rightarrow> limit_params \<Rightarrow> input_params \<Rightarrow> int \<Rightarrow> traj_node" where
  "traj_init p l g now_ns =
     \<lparr>pp = p, lp = l, gp = g, started_ns = now_ns, tracking_started = False, poses = no_poses,
      motion_start_position = None, motion_start_quaternion = None, holds = no_holds, operator = no_operator,
      envelope_checked = False, envelope_valid = False, envelope_rejection_reason = ''''\<rparr>"

section \<open>Input callbacks\<close>

definition on_body_state :: "traj_node \<Rightarrow> body_state_msg \<Rightarrow> traj_node" where
  "on_body_state n m =
     (if \<not> (state_valid m \<or> position_estimated m) then n
      else if \<not> list_all isfinite (arr3 (body_position m)) then n
      else
        let pos = map fval (arr3 (body_position m));
            q = map fval (arr4 (body_orientation m));
            s1 = (poses n)\<lparr>latest_position := Some pos\<rparr>;
            s2 = (if finite4 (body_orientation m) \<and> np_norm q > 1 / 10 ^ 9
                  then s1\<lparr>latest_map_yaw := Some (traj_quaternion_to_rpy (map (\<lambda>x. x / np_norm q) q) ! 2)\<rparr>
                  else s1)
        in if initial_position s2 = None
           then n\<lparr>poses := s2\<lparr>initial_position := Some pos\<rparr>, envelope_checked := False\<rparr>
           else n\<lparr>poses := s2\<rparr>)"

definition traj_on_imu :: "traj_node \<Rightarrow> imu_msg \<Rightarrow> traj_node" where
  "traj_on_imu n m =
     (let q = map fval (arr4 (imu_orientation_msg m)); s = poses n in
      if imu_frame m \<noteq> ''base_link'' \<or> flt_lt (orientation_covariance0 m) (Fin 0)
         \<or> \<not> finite4 (imu_orientation_msg m) \<or> np_norm q \<le> 1 / 10 ^ 9 \<or> latest_map_yaw s = None
      then n
      else
        let imu_rpy = traj_quaternion_to_rpy (map (\<lambda>x. x / np_norm q) q);
            latest = traj_rpy_quaternion (imu_rpy ! 0) (imu_rpy ! 1) (the (latest_map_yaw s));
            rate = arr3 (imu_rate_msg m);
            s1 = s\<lparr>latest_quaternion := Some latest,
                   latest_angular_velocity := (if list_all isfinite rate then Some (map fval rate) else None)\<rparr>
        in n\<lparr>poses := (if initial_quaternion s1 = None then s1\<lparr>initial_quaternion := Some latest\<rparr> else s1)\<rparr>)"

definition on_manual_command :: "traj_node \<Rightarrow> int \<Rightarrow> manual_msg \<Rightarrow> traj_node" where
  "on_manual_command n now_ns m =
     (if manual_source m \<noteq> ''web_operator'' then n
      else n\<lparr>operator := (operator n)\<lparr>manual_command := Some m, manual_command_ns := Some now_ns\<rparr>\<rparr>)"

definition on_operator_target_input :: "traj_node \<Rightarrow> int \<Rightarrow> vector3 \<Rightarrow> vector3 \<Rightarrow> traj_node" where
  "on_operator_target_input n now_ns lin ang =
     n\<lparr>operator := (operator n)\<lparr>operator_target_input := Some [vx lin, vy lin, vz lin, vz ang],
                              operator_target_input_ns := Some now_ns\<rparr>\<rparr>"

section \<open>Operator input\<close>

definition current_manual_heave :: "traj_node \<Rightarrow> int \<Rightarrow> real" where
  "current_manual_heave n now_ns =
     (case manual_command (operator n) of
        None \<Rightarrow> 0
      | Some m \<Rightarrow>
          if flt_lt (Fin (manual_input_age_s (gp n))) (age_s now_ns (manual_command_ns (operator n)))
             \<or> \<not> manual_enable m \<or> manual_source m \<noteq> ''web_operator'' then 0
          else if length (manual_action m) \<noteq> 8 \<or> \<not> list_all isfinite (manual_action m) then 0
          else clip (np_mean (take 4 (map fval (manual_action m)))) (- 1) 1)"

definition current_station_input :: "traj_node \<Rightarrow> int \<Rightarrow> pyfloat list" where
  "current_station_input n now_ns =
     (case operator_target_input (operator n) of
        None \<Rightarrow> [Fin 0, Fin 0, Fin 0, Fin 0]
      | Some twist \<Rightarrow>
          if flt_lt (Fin (manual_input_age_s (gp n))) (age_s now_ns (operator_target_input_ns (operator n)))
          then [Fin 0, Fin 0, Fin 0, Fin 0]
          else map (\<lambda>v. flt_clip v (- 1) 1) twist)"

section \<open>Hold targets\<close>

definition first_some :: "'a option list \<Rightarrow> 'a \<Rightarrow> 'a" where
  "first_some xs d = (case filter (\<lambda>x. x \<noteq> None) xs of Some x # _ \<Rightarrow> x | _ \<Rightarrow> d)"

definition altitude_hold_sample :: "traj_node \<Rightarrow> int \<Rightarrow> traj_node \<times> trajectory_sample" where
  "altitude_hold_sample n now_ns =
     (let pos = first_some [latest_position (poses n), motion_start_position n] [0, 0, 0];
          heave = current_manual_heave n now_ns;
          heave_active = \<not> isclose (1 / 10 ^ 9) (1 / 10 ^ 3) heave 0;
          h = holds n;
          hold_z = (if heave_active \<or> altitude_heave_active h then Some (pos ! 2) else altitude_hold_z h);
          target_z = (case hold_z of None \<Rightarrow> pos ! 2 | Some z \<Rightarrow> z);
          velocity_z = - heave * \<bar>manual_vertical_speed_mps (gp n)\<bar>
      in (n\<lparr>holds := h\<lparr>altitude_hold_z := hold_z, altitude_heave_active := heave_active\<rparr>\<rparr>,
          \<lparr>position = [pos ! 0, pos ! 1, target_z], velocity = [0, 0, velocity_z], acceleration = [0, 0, 0]\<rparr>))"

text \<open>A target sample whose velocity may be non-finite, with orientation and angular velocity.\<close>

record raw_target =
  r_position :: "real list"
  r_velocity :: "pyfloat list"
  r_acceleration :: "real list"
  r_orientation :: "real list"
  r_angular_velocity :: "pyfloat list"
  r_angular_acceleration :: "real list"

text \<open>\<^verbatim>\<open>matrix @ vector\<close>: a NaN entry of the vector makes every component NaN.\<close>

definition flt_mat_vec :: "real list list \<Rightarrow> pyfloat list \<Rightarrow> pyfloat list" where
  "flt_mat_vec m v = (if list_all isfinite v then map Fin (mat_vec m (map fval v)) else replicate (length m) NaN)"

fun flt_near_zero :: "pyfloat \<Rightarrow> bool" where
  "flt_near_zero (Fin x) = (\<bar>x\<bar> \<le> 1 / 10 ^ 3)"
| "flt_near_zero _ = False"

fun flt_isclose_zero :: "pyfloat \<Rightarrow> bool" where
  "flt_isclose_zero (Fin x) = isclose (1 / 10 ^ 9) (1 / 10 ^ 3) x 0"
| "flt_isclose_zero _ = False"

fun flt_times :: "pyfloat \<Rightarrow> real \<Rightarrow> pyfloat" where
  "flt_times (Fin x) y = Fin (x * y)"
| "flt_times v y = NaN"

text \<open>The pose that the station target starts from when nothing is latched.\<close>

definition station_defaults :: "traj_node \<Rightarrow> hold_state" where
  "station_defaults n =
     (let h = holds n;
          h1 = (if station_target_position h = None
                then h\<lparr>station_target_position := Some (first_some [motion_start_position n, latest_position (poses n)] [0, 0, 0])\<rparr>
                else h)
      in if station_target_quaternion h1 = None
         then h1\<lparr>station_target_quaternion := Some (level_heading_quaternion
               (first_some [motion_start_quaternion n, latest_quaternion (poses n)] [1, 0, 0, 0]))\<rparr>
         else h1)"

text \<open>Following the measured pose while a stick is held and on its release.\<close>

definition station_follow :: "pose_state \<Rightarrow> hold_state \<Rightarrow> bool \<Rightarrow> bool \<Rightarrow> bool \<Rightarrow> hold_state" where
  "station_follow s h planar heave yaw =
     (let pos = the (station_target_position h);
          pos' = (case latest_position s of None \<Rightarrow> pos
            | Some m \<Rightarrow>
                let p1 = (if planar \<or> station_planar_active h then [m ! 0, m ! 1, pos ! 2] else pos)
                in if heave \<or> station_heave_active h then p1[2 := m ! 2] else p1);
          q' = (case latest_quaternion s of None \<Rightarrow> the (station_target_quaternion h)
            | Some q \<Rightarrow> if yaw \<or> station_yaw_active h
                then traj_rpy_quaternion 0 0 (traj_quaternion_to_rpy q ! 2)
                else the (station_target_quaternion h))
      in h\<lparr>station_target_position := Some pos', station_target_quaternion := Some q',
           station_planar_active := planar, station_heave_active := heave, station_yaw_active := yaw\<rparr>)"

definition station_pool_clip :: "limit_params \<Rightarrow> real list \<Rightarrow> real list" where
  "station_pool_clip l pos =
     (if require_pool_bounds l \<and> length (pool_min_xyz l) = 3 \<and> length (pool_max_xyz l) = 3
      then vclip pos (pool_min_xyz l) (pool_max_xyz l) else pos)"

definition station_hold_target :: "traj_node \<Rightarrow> int \<Rightarrow> traj_node \<times> raw_target" where
  "station_hold_target n now_ns =
     (let h0 = station_defaults n;
          command = current_station_input n now_ns;
          forward = command ! 0; left = command ! 1; up = command ! 2; yaw_ccw = command ! 3;
          h1 = station_follow (poses n) h0 (\<not> (flt_near_zero forward \<and> flt_near_zero left))
                 (\<not> flt_isclose_zero up) (\<not> flt_isclose_zero yaw_ccw);
          g = gp n;
          target_vertical_velocity = flt_times up (- \<bar>manual_vertical_speed_mps g\<bar>);
          current = first_some [latest_quaternion (poses n)] (the (station_target_quaternion h1));
          rotation = rotation_matrix (level_heading_quaternion current);
          planar_world = flt_mat_vec rotation
            [flt_times forward \<bar>station_linear_input_gain_mps g\<bar>,
             flt_times left \<bar>station_lateral_input_gain_mps g\<bar>, Fin 0];
          angular_world = flt_mat_vec rotation [Fin 0, Fin 0, flt_times yaw_ccw \<bar>station_yaw_input_gain_rps g\<bar>];
          h2 = h1\<lparr>station_target_position := Some (station_pool_clip (lp n) (the (station_target_position h1)))\<rparr>
      in (n\<lparr>holds := h2\<rparr>,
          \<lparr>r_position = the (station_target_position h2),
           r_velocity = [planar_world ! 0, planar_world ! 1, target_vertical_velocity],
           r_acceleration = [0, 0, 0], r_orientation = the (station_target_quaternion h2),
           r_angular_velocity = angular_world, r_angular_acceleration = [0, 0, 0]\<rparr>))"

section \<open>Samples\<close>

definition control_mode_is_compatible :: "string \<Rightarrow> string \<Rightarrow> bool" where
  "control_mode_is_compatible ttype mode =
     (let ttype = py_lower ttype; mode = py_lower mode in
      if ttype = ''hold'' then mode \<in> set [''altitude_hold'', ''station_hold'', ''station_hold_fast'', ''rl_policy'']
      else if ttype \<in> set AUTOMATIC_TRAJECTORY_TYPES
      then mode \<in> set [''station_hold'', ''station_hold_fast'', ''rl_policy'']
      else False)"

definition active_type :: "traj_node \<Rightarrow> string" where
  "active_type n = py_lower (p_trajectory_type (pp n))"

definition active_mode :: "traj_node \<Rightarrow> string" where
  "active_mode n = py_lower (p_control_mode (pp n))"

definition configured_center :: "path_params \<Rightarrow> real list" where
  "configured_center p = [center_x p, center_y p, center_z p]"

text \<open>The origin of the path.\<close>

definition sample_center :: "traj_node \<Rightarrow> real list" where
  "sample_center n =
     (case (if motion_start_position n \<noteq> None then motion_start_position n else initial_position (poses n)) of
        Some origin \<Rightarrow> if relative_to_initial_pose (pp n) then origin else configured_center (pp n)
      | None \<Rightarrow> configured_center (pp n))"

text \<open>A type that is not one of the two moves.\<close>

definition path_sample :: "traj_node \<Rightarrow> string \<Rightarrow> real \<Rightarrow> trajectory_sample" where
  "path_sample n ttype time =
     (case (if ttype \<in> set AUTOMATIC_TRAJECTORY_TYPES then trajectory_kinematics (pp n) ttype time
            else ([0, 0, 0], [0, 0, 0], [0, 0, 0], 0)) of (off, vel, acc, _) \<Rightarrow>
        \<lparr>position = vadd (sample_center n) off, velocity = vel, acceleration = acc\<rparr>)"

definition move_start :: "traj_node \<Rightarrow> real list" where
  "move_start n = first_some [motion_start_position n, latest_position (poses n)] (sample_center n)"

text \<open>
  The approach samples the active type at time zero to find its goal.  When the active type is
  itself \<^verbatim>\<open>move_to_hold\<close> that sample is the start point; when it is
  \<^verbatim>\<open>move_to_trajectory_start\<close> the call recurses without end.
\<close>

definition sample :: "traj_node \<Rightarrow> string \<Rightarrow> real \<Rightarrow> exc + trajectory_sample" where
  "sample n ttype time =
     (let approach = (\<lambda>goal. approach_sample (move_duration_s (pp n)) (move_start n) goal time) in
      if ttype = ''move_to_trajectory_start'' then
        (if active_type n = ''move_to_trajectory_start''
         then Inl (RuntimeError ''maximum recursion depth exceeded'')
         else if active_type n = ''move_to_hold'' then Inr (approach (move_start n))
         else Inr (approach (position (path_sample n (active_type n) 0))))
      else if ttype = ''move_to_hold'' then Inr (approach (sample_center n))
      else Inr (path_sample n ttype time))"

definition idle_hold_sample :: "traj_node \<Rightarrow> trajectory_sample" where
  "idle_hold_sample n =
     \<lparr>position = (case latest_position (poses n) of Some pos \<Rightarrow> pos | None \<Rightarrow> configured_center (pp n)),
      velocity = [0, 0, 0], acceleration = [0, 0, 0]\<rparr>"

section \<open>Attitude\<close>

definition start_quaternion :: "traj_node \<Rightarrow> real list" where
  "start_quaternion n = first_some [motion_start_quaternion n, latest_quaternion (poses n), initial_quaternion (poses n)] [1, 0, 0, 0]"

definition kinematics_yaw :: "path_params \<Rightarrow> string \<Rightarrow> real \<Rightarrow> real" where
  "kinematics_yaw p ttype time = (case trajectory_kinematics p ttype time of (_, _, _, yaw) \<Rightarrow> yaw)"

definition attitude_quaternion :: "traj_node \<Rightarrow> string \<Rightarrow> real \<Rightarrow> real list" where
  "attitude_quaternion n ttype time =
     (if ttype = ''move_to_trajectory_start'' then
        let duration = max (1 / 10) (hold_before_motion_s (pp n) - move_duration_s (pp n));
            fraction = clip (time / duration) 0 1;
            goal = traj_rpy_quaternion 0 0 (kinematics_yaw (pp n) (active_type n) 0)
        in traj_quaternion_slerp (start_quaternion n) goal (blend fraction)
      else if ttype \<in> set AUTOMATIC_TRAJECTORY_TYPES
      then traj_rpy_quaternion 0 0 (kinematics_yaw (pp n) ttype time)
      else
        let mode = py_lower (attitude_mode (pp n));
            base = (if mode = ''hold_initial'' then start_quaternion n
                    else if relative_to_initial_pose (pp n) \<and> initial_quaternion (poses n) \<noteq> None
                    then the (initial_quaternion (poses n))
                    else [1, 0, 0, 0])
        in if mode = ''fixed_identity'' then [1, 0, 0, 0] else base)"

text \<open>Central difference of the rotation, read off the skew matrix.\<close>

definition angular_velocity_at :: "traj_node \<Rightarrow> string \<Rightarrow> real \<Rightarrow> real \<Rightarrow> real list" where
  "angular_velocity_at n ttype time stp =
     (let rotation_before = rotation_matrix (attitude_quaternion n ttype (max 0 (time - stp)));
          rotation_current = rotation_matrix (attitude_quaternion n ttype time);
          rotation_after = rotation_matrix (attitude_quaternion n ttype (time + stp));
          rotation_dot = map2 (map2 (\<lambda>a b. (a - b) / (2 * stp))) rotation_after rotation_before;
          skew = (\<lambda>i j. np_dot (rotation_dot ! i) (rotation_current ! j))
      in [skew 2 1, skew 0 2, skew 1 0])"

definition attitude_step :: "path_params \<Rightarrow> real" where
  "attitude_step p = 1 / max 20 (publish_rate_hz p)"

definition sample_attitude :: "traj_node \<Rightarrow> string \<Rightarrow> real \<Rightarrow> real list \<times> real list \<times> real list" where
  "sample_attitude n ttype time =
     (let stp = attitude_step (pp n);
          omega = angular_velocity_at n ttype time stp;
          omega_before = angular_velocity_at n ttype (max 0 (time - stp)) stp;
          omega_after = angular_velocity_at n ttype (time + stp) stp
      in (attitude_quaternion n ttype time, omega, map2 (\<lambda>a b. (a - b) / (2 * stp)) omega_after omega_before))"

section \<open>Validity of a target\<close>

definition pool_ok :: "limit_params \<Rightarrow> bool" where
  "pool_ok l \<longleftrightarrow> length (pool_min_xyz l) = 3 \<and> length (pool_max_xyz l) = 3
     \<and> list_all2 (<) (pool_min_xyz l) (pool_max_xyz l)"

definition inside :: "limit_params \<Rightarrow> real list \<Rightarrow> bool" where
  "inside l pos \<longleftrightarrow> list_all2 (\<le>) (pool_min_xyz l) pos \<and> list_all2 (\<le>) pos (pool_max_xyz l)"

definition idle_target_is_valid :: "traj_node \<Rightarrow> real list \<Rightarrow> bool" where
  "idle_target_is_valid n pos =
     (if latest_position (poses n) = None then False
      else if \<not> require_pool_bounds (lp n) then True
      else pool_ok (lp n) \<and> inside (lp n) pos)"

definition radians :: "real list \<Rightarrow> real list" where
  "radians xs = map (\<lambda>x. x * (pi / 180)) xs"

definition limits_ok :: "limit_params \<Rightarrow> bool" where
  "limits_ok l \<longleftrightarrow> 0 < max_linear_speed_mps l \<and> 0 < max_angular_speed_rps l
     \<and> length (attitude_min_rpy_deg l) = 3 \<and> length (attitude_max_rpy_deg l) = 3
     \<and> list_all2 (<) (radians (attitude_min_rpy_deg l)) (radians (attitude_max_rpy_deg l))"

text \<open>\<^verbatim>\<open>rpy[:k]\<close> within the attitude limits.\<close>

definition attitude_within :: "limit_params \<Rightarrow> nat \<Rightarrow> real list \<Rightarrow> bool" where
  "attitude_within l k rpy \<longleftrightarrow>
     list_all2 (\<le>) (take k (radians (attitude_min_rpy_deg l))) (take k rpy)
     \<and> list_all2 (\<le>) (take k rpy) (take k (radians (attitude_max_rpy_deg l)))"

section \<open>The scenario envelope\<close>

text \<open>A loop that returns at the first check that fails.\<close>

fun all_checks :: "('a \<Rightarrow> exc + bool) \<Rightarrow> 'a list \<Rightarrow> exc + bool" where
  "all_checks f [] = Inr True"
| "all_checks f (x # xs) = ebind (f x) (\<lambda>ok. if ok then all_checks f xs else Inr False)"

definition station_modes :: "string list" where
  "station_modes = [''station_hold'', ''station_hold_fast'', ''rl_policy'']"

text \<open>Station hold: the latched start and the configured height.\<close>

definition station_envelope :: "traj_node \<Rightarrow> string \<Rightarrow> bool" where
  "station_envelope n mode =
     (case (motion_start_position n, motion_start_quaternion n) of
        (Some point, Some q) \<Rightarrow>
          let target = (if length point = 3 \<and> mode = ''station_hold'' then point[2 := center_z (pp n)] else point) in
          length point = 3 \<and> length target = 3 \<and> length q = 4 \<and> np_norm q > 1 / 10 ^ 9
          \<and> inside (lp n) point \<and> inside (lp n) target
      | _ \<Rightarrow> False)"

text \<open>Altitude hold: pose, attitude, angular rate and the operator's vertical speed.\<close>

definition altitude_envelope :: "traj_node \<Rightarrow> bool \<times> string" where
  "altitude_envelope n =
     (case (motion_start_position n, motion_start_quaternion n, latest_angular_velocity (poses n)) of
        (Some point, Some q, Some rate) \<Rightarrow>
          let target = (if length point = 3 then point[2 := center_z (pp n)] else point) in
          if length point \<noteq> 3 \<or> length q \<noteq> 4 \<or> length rate \<noteq> 3 \<or> np_norm q \<le> 1 / 10 ^ 9
          then (False, ''altitude hold requires a finite current pose, attitude, and angular rate'')
          else if \<not> inside (lp n) point \<or> \<not> inside (lp n) target
          then (False, ''altitude hold start or configured height is outside pool bounds'')
          else if \<not> attitude_within (lp n) 2 (traj_quaternion_to_rpy q)
          then (False, ''altitude hold start roll/pitch exceeds configured limits'')
          else if np_norm rate > max_angular_speed_rps (lp n)
          then (False, ''altitude hold start angular rate exceeds configured limit'')
          else if \<bar>manual_vertical_speed_mps (gp n)\<bar> > max_linear_speed_mps (lp n)
          then (False, ''altitude hold manual vertical speed exceeds configured limit'')
          else (True, '''')
      | _ \<Rightarrow> (False, ''altitude hold requires a finite current pose, attitude, and angular rate''))"

text \<open>One sample against the pool, the speeds and the first \<open>k\<close> attitude axes.\<close>

definition sample_within :: "traj_node \<Rightarrow> nat \<Rightarrow> string \<Rightarrow> trajectory_sample \<Rightarrow> real \<Rightarrow> bool" where
  "sample_within n k ttype s attitude_time \<longleftrightarrow>
     inside (lp n) (position s)
     \<and> np_norm (velocity s) \<le> max_linear_speed_mps (lp n)
     \<and> np_norm (angular_velocity_at n ttype attitude_time (attitude_step (pp n))) \<le> max_angular_speed_rps (lp n)
     \<and> attitude_within (lp n) k (traj_quaternion_to_rpy (attitude_quaternion n ttype attitude_time))"

definition move_duration :: "path_params \<Rightarrow> real" where
  "move_duration p = max (1 / 10) (move_duration_s p)"

definition prelude_check :: "traj_node \<Rightarrow> real \<Rightarrow> exc + bool" where
  "prelude_check n prelude_time =
     (let move_time = clip prelude_time 0 (move_duration (pp n));
          turn_time = max 0 (prelude_time - move_duration (pp n))
      in ebind (sample n ''move_to_trajectory_start'' move_time) (\<lambda>s.
         Inr (sample_within n 2 ''move_to_trajectory_start'' s turn_time)))"

definition path_check :: "traj_node \<Rightarrow> string \<Rightarrow> real \<Rightarrow> exc + bool" where
  "path_check n ttype time =
     ebind (sample n ttype time) (\<lambda>s.
     Inr (sample_within n (if ttype \<in> set AUTOMATIC_TRAJECTORY_TYPES then 2 else 3) ttype s time))"

definition path_duration :: "path_params \<Rightarrow> string \<Rightarrow> real" where
  "path_duration p ttype =
     (let path_speed = max (1 / 10 ^ 9) \<bar>trajectory_speed_mps p\<bar> in
      (if ttype = ''spatial_lissajous''
       then last (snd (lissajous_arc_table \<bar>amp_x p\<bar> \<bar>amp_y p\<bar> \<bar>amp_z p\<bar>)) / path_speed
       else if ttype = ''circle'' then 2 * pi * \<bar>radius_m p\<bar> / path_speed
       else if ttype = ''racetrack'' then racetrack_lap p / path_speed
       else 2 * pi * \<bar>amp_x p\<bar> / path_speed))"

definition envelope_duration :: "path_params \<Rightarrow> string \<Rightarrow> real" where
  "envelope_duration p ttype = max (path_duration p ttype + max 0 (trajectory_ramp_s p)) (move_duration_s p + 1)"

text \<open>The verdict and \<^verbatim>\<open>envelope_rejection_reason\<close>.\<close>

definition validate_scenario_envelope :: "traj_node \<Rightarrow> exc + bool \<times> string" where
  "validate_scenario_envelope n =
     (let ttype = active_type n; mode = active_mode n; p = pp n;
          prelude_duration = max 0 (hold_before_motion_s p) in
      if ttype \<in> set (''hold'' # AUTOMATIC_TRAJECTORY_TYPES) \<and> motion_start_position n = None
      then Inr (False, '''')
      else if motion_start_position n = None \<and> initial_position (poses n) = None \<and> relative_to_initial_pose p
      then Inr (False, '''')
      else if \<not> pool_ok (lp n) then Inr (False, '''')
      else if \<not> trajectory_limits_configured (lp n) then Inr (False, '''')
      else if \<not> limits_ok (lp n) then Inr (False, '''')
      else if ttype = ''hold'' \<and> mode \<in> set station_modes then Inr (station_envelope n mode, '''')
      else if ttype = ''hold'' \<and> mode = ''altitude_hold'' then Inr (altitude_envelope n)
      else if ttype \<in> set AUTOMATIC_TRAJECTORY_TYPES \<and> prelude_duration - move_duration p < 1 / 10
      then Inr (False, ''automatic trajectory prelude must include at least 0.1 s for heading alignment after the start approach'')
      else ebind (if ttype \<in> set AUTOMATIC_TRAJECTORY_TYPES
                  then all_checks (prelude_check n) (linspace prelude_duration 201) else Inr True) (\<lambda>prelude_ok.
      if \<not> prelude_ok then Inr (False, ''automatic trajectory start approach exceeds configured limits'')
      else ebind (all_checks (path_check n ttype) (linspace (envelope_duration p ttype) 361)) (\<lambda>ok.
      Inr (ok, ''''))))"

definition store_envelope :: "traj_node \<Rightarrow> bool \<times> string \<Rightarrow> traj_node" where
  "store_envelope n verdict =
     n\<lparr>envelope_valid := fst verdict, envelope_rejection_reason := snd verdict, envelope_checked := True\<rparr>"

definition target_is_valid :: "traj_node \<Rightarrow> real list \<Rightarrow> exc + traj_node \<times> bool" where
  "target_is_valid n pos =
     (if relative_to_initial_pose (pp n) \<and> motion_start_position n = None \<and> initial_position (poses n) = None
      then Inr (n, False)
      else if \<not> require_pool_bounds (lp n) then Inr (n, True)
      else ebind (if envelope_checked n then Inr n
                  else ebind (validate_scenario_envelope n) (\<lambda>verdict. Inr (store_envelope n verdict))) (\<lambda>n.
      Inr (n, envelope_valid n \<and> pool_ok (lp n) \<and> inside (lp n) pos)))"

section \<open>Services\<close>

record trigger_response =
  success :: bool
  message :: string

definition incompatible_message :: "traj_node \<Rightarrow> string" where
  "incompatible_message n =
     ''trajectory '' @ active_type n @ '' is incompatible with control mode '' @ active_mode n"

definition managed_type :: "traj_node \<Rightarrow> bool" where
  "managed_type n \<longleftrightarrow> active_type n \<in> set (''hold'' # AUTOMATIC_TRAJECTORY_TYPES)"

text \<open>What a start latches for the two kinds of hold.\<close>

definition latch_holds :: "traj_node \<Rightarrow> hold_state" where
  "latch_holds n =
     (let h = holds n; start = the (motion_start_position n) in
      if active_type n = ''hold'' \<and> active_mode n = ''altitude_hold''
      then h\<lparr>altitude_hold_z := Some (center_z (pp n)), altitude_heave_active := False\<rparr>
      else if active_type n = ''hold'' \<and> active_mode n \<in> set station_modes
      then h\<lparr>station_target_position :=
               Some (if active_mode n = ''station_hold'' then start[2 := center_z (pp n)] else start),
             station_target_quaternion := Some (level_heading_quaternion (the (motion_start_quaternion n))),
             station_planar_active := False, station_heave_active := False, station_yaw_active := False\<rparr>
      else h)"

definition on_reset_scenario :: "traj_node \<Rightarrow> int \<Rightarrow> traj_node \<times> trigger_response" where
  "on_reset_scenario n now_ns =
     (if \<not> control_mode_is_compatible (active_type n) (active_mode n)
      then (n, \<lparr>success = False, message = incompatible_message n\<rparr>)
      else if managed_type n \<and> motion_start_position n = None
      then (n, \<lparr>success = False, message = active_type n @ '' requires a validated current body pose''\<rparr>)
      else if managed_type n \<and> motion_start_quaternion n = None
      then (n, \<lparr>success = False, message = active_type n @ '' requires a validated current attitude''\<rparr>)
      else (n\<lparr>holds := latch_holds n, started_ns := now_ns, tracking_started := True\<rparr>,
            \<lparr>success = True, message = ''trajectory tracking started at 0.00 s''\<rparr>))"

definition on_stop_scenario :: "traj_node \<Rightarrow> int \<Rightarrow> traj_node \<times> trigger_response" where
  "on_stop_scenario n now_ns =
     (n\<lparr>tracking_started := False, started_ns := now_ns, motion_start_position := None,
        motion_start_quaternion := None, holds := no_holds, operator := no_operator\<rparr>,
      \<lparr>success = True, message = ''trajectory ready; target time held at 0.00 s''\<rparr>)"

definition on_validate_scenario :: "traj_node \<Rightarrow> exc + traj_node \<times> trigger_response" where
  "on_validate_scenario n =
     (if \<not> control_mode_is_compatible (active_type n) (active_mode n)
      then Inr (n\<lparr>envelope_valid := False, envelope_checked := True\<rparr>,
                \<lparr>success = False, message = incompatible_message n\<rparr>)
      else if managed_type n \<and> (latest_position (poses n) = None \<or> latest_quaternion (poses n) = None)
      then Inr (n\<lparr>envelope_valid := False, envelope_checked := True\<rparr>,
                \<lparr>success = False, message = active_type n @ '' requires a current valid body pose''\<rparr>)
      else
        let n1 = (if managed_type n
                  then n\<lparr>motion_start_position := latest_position (poses n), motion_start_quaternion := latest_quaternion (poses n)\<rparr>
                  else n\<lparr>motion_start_position := None, motion_start_quaternion := None\<rparr>)
        in ebind (validate_scenario_envelope n1) (\<lambda>verdict.
           Inr (store_envelope n1 verdict,
                \<lparr>success = fst verdict,
                 message = (if fst verdict then ''trajectory envelope is inside all configured limits''
                            else if snd verdict \<noteq> '''' then snd verdict
                            else ''trajectory envelope or safety limits are invalid'')\<rparr>)))"

section \<open>The tick\<close>

definition trajectory_time_s :: "traj_node \<Rightarrow> int \<Rightarrow> real" where
  "trajectory_time_s n now_ns =
     (if \<not> tracking_started n then 0 else max 0 (real_of_int (now_ns - started_ns n) * (1 / 10 ^ 9)))"

text \<open>The measured attitude, or the configured one when there is none.\<close>

definition hold_orientation :: "traj_node \<Rightarrow> real list" where
  "hold_orientation n = first_some [latest_quaternion (poses n)] (attitude_quaternion n ''hold'' 0)"

definition make_raw :: "trajectory_sample \<Rightarrow> real list \<times> real list \<times> real list \<Rightarrow> raw_target" where
  "make_raw s att = (case att of (q, w, dw) \<Rightarrow>
     \<lparr>r_position = position s, r_velocity = map Fin (velocity s), r_acceleration = acceleration s,
      r_orientation = q, r_angular_velocity = map Fin w, r_angular_acceleration = dw\<rparr>)"

record published =
  pub_type :: string
  pub_mode :: string
  pub_phase :: string
  pub_valid :: bool

text \<open>Which sample is due: the chain of branches of \<^verbatim>\<open>tick\<close>.\<close>

definition checked :: "traj_node \<Rightarrow> raw_target \<Rightarrow> string \<Rightarrow> exc + traj_node \<times> raw_target \<times> published" where
  "checked n raw phase =
     ebind (target_is_valid n (r_position raw)) (\<lambda>(n', ok).
     Inr (n', raw, \<lparr>pub_type = active_type n, pub_mode = active_mode n, pub_phase = phase, pub_valid = ok\<rparr>))"

definition tick_sample :: "traj_node \<Rightarrow> int \<Rightarrow> exc + traj_node \<times> raw_target \<times> published" where
  "tick_sample n now_ns =
     (let time = trajectory_time_s n now_ns;
          ttype = active_type n; mode = active_mode n;
          hold_s = max 0 (hold_before_motion_s (pp n));
          effective_time = max 0 (time - hold_s);
          still = make_raw (idle_hold_sample n) (hold_orientation n, [0, 0, 0], [0, 0, 0]) in
      if \<not> tracking_started n then
        Inr (n, still, \<lparr>pub_type = ''idle'', pub_mode = ''idle'', pub_phase = ''idle'',
                        pub_valid = idle_target_is_valid n (position (idle_hold_sample n))\<rparr>)
      else if ttype = ''hold'' \<and> mode = ''altitude_hold'' then
        (case altitude_hold_sample n now_ns of (n', s) \<Rightarrow>
           checked n' (make_raw s (hold_orientation n', [0, 0, 0], [0, 0, 0])) ''hold'')
      else if ttype = ''hold'' \<and> mode \<in> set station_modes then
        (case station_hold_target n now_ns of (n', raw) \<Rightarrow> checked n' raw ''hold'')
      else if ttype \<in> set AUTOMATIC_TRAJECTORY_TYPES \<and> time < hold_s then
        let move_s = max (1 / 10) (move_duration_s (pp n));
            move_time = min time move_s;
            turn_time = max 0 (time - move_s)
        in ebind (sample n ''move_to_trajectory_start'' move_time) (\<lambda>s.
           checked n (make_raw s (sample_attitude n ''move_to_trajectory_start'' turn_time))
             (if time < move_s then ''start_approach'' else ''heading_alignment''))
      else if ttype \<in> set AUTOMATIC_TRAJECTORY_TYPES then
        ebind (sample n ttype effective_time) (\<lambda>s.
        checked n (make_raw s (sample_attitude n ttype effective_time)) ''tracking'')
      else
        Inr (n, still, \<lparr>pub_type = ttype, pub_mode = mode, pub_phase = ''invalid'', pub_valid = False\<rparr>))"

definition vector_of :: "pyfloat list \<Rightarrow> vector3" where
  "vector_of v = Vector3 (v ! 0) (v ! 1) (v ! 2)"

definition quaternion_of :: "real list \<Rightarrow> quaternion_msg" where
  "quaternion_of q = Quaternion (Fin (q ! 0)) (Fin (q ! 1)) (Fin (q ! 2)) (Fin (q ! 3))"

definition trajectory_tick :: "traj_node \<Rightarrow> int \<Rightarrow> exc + traj_node \<times> target_msg" where
  "trajectory_tick n now_ns =
     ebind (tick_sample n now_ns) (\<lambda>(n', raw, info).
     let incompatible = (tracking_started n' \<and> \<not> control_mode_is_compatible (active_type n) (active_mode n)) in
     Inr (n',
       \<lparr>target_frame = ''map'',
        target_position = vector_of (map Fin (r_position raw)),
        target_orientation = quaternion_of (level_heading_quaternion (r_orientation raw)),
        target_linear = vector_of (r_velocity raw),
        target_angular = Vector3 (Fin 0) (Fin 0) (r_angular_velocity raw ! 2),
        target_accel_linear = vector_of (map Fin (r_acceleration raw)),
        target_accel_angular = Vector3 (Fin 0) (Fin 0) (Fin (r_angular_acceleration raw ! 2)),
        trajectory_type = pub_type info, control_mode = pub_mode info, trajectory_phase = pub_phase info,
        time_s = Fin (trajectory_time_s n now_ns),
        target_valid = pub_valid info \<and> \<not> incompatible\<rparr>))"

section \<open>The node as a machine\<close>

text \<open>
  A parameter may be set at any time between two callbacks.  An exception ends the node; a
  service call or a tick that raises leaves no state to continue from.
\<close>

datatype traj_event =
    EBody body_state_msg
  | EImu imu_msg
  | EManual int manual_msg
  | EOperator int vector3 vector3
  | EReset int
  | EStop int
  | EValidate
  | ETick int
  | EParams path_params limit_params input_params

fun traj_step :: "traj_node \<Rightarrow> traj_event \<Rightarrow> exc + traj_node" where
  "traj_step n (EBody m) = Inr (on_body_state n m)"
| "traj_step n (EImu m) = Inr (traj_on_imu n m)"
| "traj_step n (EManual t m) = Inr (on_manual_command n t m)"
| "traj_step n (EOperator t lin ang) = Inr (on_operator_target_input n t lin ang)"
| "traj_step n (EReset t) = Inr (fst (on_reset_scenario n t))"
| "traj_step n (EStop t) = Inr (fst (on_stop_scenario n t))"
| "traj_step n EValidate = ebind (on_validate_scenario n) (\<lambda>r. Inr (fst r))"
| "traj_step n (ETick t) = ebind (trajectory_tick n t) (\<lambda>r. Inr (fst r))"
| "traj_step n (EParams p l g) = Inr (n\<lparr>pp := p, lp := l, gp := g\<rparr>)"

definition traj_run :: "traj_node \<Rightarrow> traj_event list \<Rightarrow> exc + traj_node" where
  "traj_run = run_machine traj_step"

end
