(* ===== verification/Trajectory_Safety.thy ===== *)
theory Trajectory_Safety
  imports Trajectory_Node
begin

text \<open>
  What the target publisher promises: no callback raises in any run, a target is published level
  and finite, it is idle until a start, a valid one lies in the pool, and the approach to an
  accepted trajectory stays in the pool at every time.
\<close>

section \<open>Invariant\<close>

definition lat3 :: "real list option \<Rightarrow> bool" where
  "lat3 v = (case v of None \<Rightarrow> True | Some x \<Rightarrow> length x = 3)"

definition unit4 :: "real list option \<Rightarrow> bool" where
  "unit4 v = (case v of None \<Rightarrow> True | Some q \<Rightarrow> unit_quat q)"

definition poses_inv :: "pose_state \<Rightarrow> bool" where
  "poses_inv s \<longleftrightarrow> lat3 (initial_position s) \<and> lat3 (latest_position s)
     \<and> unit4 (initial_quaternion s) \<and> unit4 (latest_quaternion s)"

definition holds_inv :: "hold_state \<Rightarrow> bool" where
  "holds_inv h \<longleftrightarrow> lat3 (station_target_position h) \<and> unit4 (station_target_quaternion h)"

definition operator_inv :: "operator_state \<Rightarrow> bool" where
  "operator_inv s = (case operator_target_input s of None \<Rightarrow> True | Some v \<Rightarrow> length v = 4)"

definition traj_inv :: "traj_node \<Rightarrow> bool" where
  "traj_inv n \<longleftrightarrow> poses_inv (poses n) \<and> holds_inv (holds n) \<and> operator_inv (operator n)
     \<and> lat3 (motion_start_position n) \<and> unit4 (motion_start_quaternion n)
     \<and> (tracking_started n \<longrightarrow> motion_start_position n \<noteq> None \<and> motion_start_quaternion n \<noteq> None)"

lemma lat3_simps [simp]: "lat3 None" "lat3 (Some x) = (length x = 3)"
  by (simp_all add: lat3_def)

lemma unit4_simps [simp]: "unit4 None" "unit4 (Some q) = unit_quat q"
  by (simp_all add: unit4_def)

lemma first_some_simps [simp]:
  "first_some [] d = d" "first_some (None # xs) d = first_some xs d" "first_some (Some x # xs) d = x"
  by (simp_all add: first_some_def)

lemma first_some_all:
  assumes "\<And>x. Some x \<in> set xs \<Longrightarrow> P x" "P d"
  shows "P (first_some xs d)"
  using assms
proof (induction xs)
  case (Cons a xs)
  then show ?case by (cases a) auto
qed simp

lemma unit_quat_length: "unit_quat q \<Longrightarrow> length q = 4"
  by (auto simp: unit_quat_conv)

lemma unit_identity [simp]: "unit_quat [1, 0, 0, 0]"
  by (simp add: unit_quat_conv)

lemma unit_traj_rpy [simp]: "unit_quat (traj_rpy_quaternion r p y)"
  by (simp add: traj_rpy_quaternion_def rpy_components_unit)

lemma unit_level [simp]: "unit_quat (level_heading_quaternion q)"
  by (simp add: level_heading_quaternion_def)

section \<open>Input callbacks keep the invariant\<close>

lemma on_body_state_inv: "traj_inv n \<Longrightarrow> traj_inv (on_body_state n m)"
  by (auto simp: traj_inv_def poses_inv_def on_body_state_def Let_def arr3_def)

lemma traj_on_imu_inv: "traj_inv n \<Longrightarrow> traj_inv (traj_on_imu n m)"
  by (auto simp: traj_inv_def poses_inv_def traj_on_imu_def Let_def)

lemma operator_callbacks_inv:
  "traj_inv n \<Longrightarrow> traj_inv (on_manual_command n t m)"
  "traj_inv n \<Longrightarrow> traj_inv (on_operator_target_input n t lin ang)"
  by (auto simp: traj_inv_def operator_inv_def on_manual_command_def on_operator_target_input_def)

lemma stop_inv: "traj_inv n \<Longrightarrow> traj_inv (fst (on_stop_scenario n t))"
  by (auto simp: traj_inv_def on_stop_scenario_def holds_inv_def operator_inv_def no_holds_def no_operator_def)

section \<open>Start\<close>

lemma lower_char_idem [simp]: "lower_char (lower_char c) = lower_char c"
  by (simp add: lower_char_def Let_def)

lemma py_lower_idem [simp]: "py_lower (py_lower s) = py_lower s"
  by (simp add: py_lower_def)

lemma compatible_managed:
  "control_mode_is_compatible (active_type n) (active_mode n) \<Longrightarrow> managed_type n"
  by (auto simp: control_mode_is_compatible_def managed_type_def active_type_def active_mode_def Let_def split: if_split_asm)

lemma latch_holds_inv:
  assumes "holds_inv (holds n)" "lat3 (motion_start_position n)" "motion_start_position n \<noteq> None"
  shows "holds_inv (latch_holds n)"
  using assms by (auto simp: latch_holds_def holds_inv_def Let_def)

lemma reset_inv: "traj_inv n \<Longrightarrow> traj_inv (fst (on_reset_scenario n t))"
  using latch_holds_inv [of n] compatible_managed [of n]
  by (auto simp: traj_inv_def on_reset_scenario_def)

section \<open>Shapes of samples\<close>

lemma racetrack_point_shape:
  "racetrack_point r h d = (off, tangent, curvature) \<Longrightarrow> length off = 3 \<and> length tangent = 3 \<and> length curvature = 3"
  by (auto simp: racetrack_point_def Let_def split: if_split_asm)

lemma compose_shape:
  "compose_kinematics off fst1 snd1 a b = (off', vel, acc, yaw) \<Longrightarrow> length off = 3 \<Longrightarrow> length fst1 = 3 \<Longrightarrow> length snd1 = 3 \<Longrightarrow>
    length off' = 3 \<and> length vel = 3 \<and> length acc = 3"
  by (auto simp: compose_kinematics_def)

lemma racetrack_shape:
  "racetrack_kinematics p t = (off, vel, acc, yaw) \<Longrightarrow> length off = 3 \<and> length vel = 3 \<and> length acc = 3"
  unfolding racetrack_kinematics_def Let_def
  by (auto split: prod.split_asm dest!: racetrack_point_shape compose_shape)

lemma lissajous_shape:
  "spatial_lissajous_kinematics p t = (off, vel, acc, yaw) \<Longrightarrow> length off = 3 \<and> length vel = 3 \<and> length acc = 3"
  unfolding spatial_lissajous_kinematics_def Let_def
  by (auto simp: lissajous_first_def split: prod.split_asm if_split_asm dest!: compose_shape)

lemma kinematics_shape:
  assumes "trajectory_kinematics p ttype t = (off, vel, acc, yaw)"
  shows "length off = 3 \<and> length vel = 3 \<and> length acc = 3"
  using assms racetrack_shape lissajous_shape
  by (auto simp: trajectory_kinematics_def circle_kinematics_def straight_line_kinematics_def Let_def
      split: prod.split_asm if_split_asm dest!: compose_shape)

lemma sample_center_length: "traj_inv n \<Longrightarrow> length (sample_center n) = 3"
  by (auto simp: sample_center_def traj_inv_def poses_inv_def configured_center_def split: option.split if_split)

lemma move_start_length: "traj_inv n \<Longrightarrow> length (move_start n) = 3"
  unfolding move_start_def
  by (rule first_some_all) (auto simp: sample_center_length, auto simp: traj_inv_def poses_inv_def dest: sym)

definition sample_shape :: "trajectory_sample \<Rightarrow> bool" where
  "sample_shape s \<longleftrightarrow> length (position s) = 3 \<and> length (velocity s) = 3 \<and> length (acceleration s) = 3"

lemma path_sample_shape: "traj_inv n \<Longrightarrow> sample_shape (path_sample n ttype t)"
  using sample_center_length [of n] kinematics_shape [of "pp n" ttype t]
  by (auto simp: path_sample_def sample_shape_def split: prod.split)

lemma approach_shape: "length start = 3 \<Longrightarrow> length goal = 3 \<Longrightarrow> sample_shape (approach_sample d start goal t)"
  by (simp add: approach_sample_def sample_shape_def Let_def)

lemma automatic_not_move:
  "ttype \<in> set AUTOMATIC_TRAJECTORY_TYPES \<Longrightarrow> ttype \<noteq> ''move_to_trajectory_start'' \<and> ttype \<noteq> ''move_to_hold'' \<and> ttype \<noteq> ''hold''"
  by (auto simp: AUTOMATIC_TRAJECTORY_TYPES_def)

lemma sample_automatic:
  assumes "active_type n \<in> set AUTOMATIC_TRAJECTORY_TYPES"
  shows "sample n ''move_to_trajectory_start'' t =
      Inr (approach_sample (move_duration_s (pp n)) (move_start n) (position (path_sample n (active_type n) 0)) t)"
    and "sample n (active_type n) t = Inr (path_sample n (active_type n) t)"
  using automatic_not_move [OF assms] by (simp_all add: sample_def Let_def)

lemma sample_automatic_shape:
  assumes "traj_inv n" "active_type n \<in> set AUTOMATIC_TRAJECTORY_TYPES"
    and "ttype = ''move_to_trajectory_start'' \<or> ttype = active_type n"
  shows "\<exists>s. sample n ttype t = Inr s \<and> sample_shape s"
  using assms(3) sample_automatic [OF assms(2)] path_sample_shape [OF assms(1)]
    approach_shape [OF move_start_length [OF assms(1)]]
  by (auto simp: sample_shape_def)

section \<open>Shapes of attitudes\<close>

lemma start_quaternion_length: "traj_inv n \<Longrightarrow> length (start_quaternion n) = 4"
  unfolding start_quaternion_def
  by (rule first_some_all) (auto simp: traj_inv_def poses_inv_def unit_quat_length dest: sym)

lemma slerp_length: "length a = 4 \<Longrightarrow> length b = 4 \<Longrightarrow> length (traj_quaternion_slerp a b f) = 4"
  by (simp add: traj_quaternion_slerp_def Let_def unit_of_def)

lemma attitude_length: "traj_inv n \<Longrightarrow> length (attitude_quaternion n ttype t) = 4"
  using start_quaternion_length [of n] unit_quat_length [OF unit_traj_rpy]
  by (auto simp: attitude_quaternion_def Let_def slerp_length traj_inv_def poses_inv_def unit_quat_length)

lemma hold_orientation_length: "traj_inv n \<Longrightarrow> length (hold_orientation n) = 4"
  unfolding hold_orientation_def
  by (rule first_some_all) (auto simp: attitude_length, auto simp: traj_inv_def poses_inv_def unit_quat_length dest: sym)

lemma sample_attitude_shape:
  "traj_inv n \<Longrightarrow> sample_attitude n ttype t = (q, w, dw) \<Longrightarrow> length q = 4 \<and> length w = 3 \<and> length dw = 3"
  using attitude_length by (auto simp: sample_attitude_def Let_def angular_velocity_at_def)

section \<open>The envelope check returns\<close>

lemma all_checks_total:
  "(\<And>x. x \<in> set xs \<Longrightarrow> returns (f x)) \<Longrightarrow> returns (all_checks f xs)"
  by (induction xs) (auto intro!: returns_ebindI)

lemma all_checks_True: "all_checks f xs = Inr True \<Longrightarrow> x \<in> set xs \<Longrightarrow> f x = Inr True"
  by (induction xs) (auto simp: err_simps split: if_split_asm)

lemma prelude_check_total:
  "active_type n \<in> set AUTOMATIC_TRAJECTORY_TYPES \<Longrightarrow> returns (prelude_check n t)"
  by (simp add: prelude_check_def Let_def sample_automatic)

lemma path_check_total: "managed_type n \<Longrightarrow> returns (path_check n (active_type n) t)"
  using automatic_not_move [of "active_type n"]
  by (auto simp: path_check_def managed_type_def sample_def)

lemma validate_total:
  assumes "managed_type n"
  shows "returns (validate_scenario_envelope n)"
proof -
  have 1: "returns (if active_type n \<in> set AUTOMATIC_TRAJECTORY_TYPES then all_checks (prelude_check n) ts else Inr True)" for ts
    by (simp add: all_checks_total prelude_check_total)
  have 2: "returns (all_checks (path_check n (active_type n)) ts)" for ts
    using assms by (simp add: all_checks_total path_check_total)
  have 3: "returns (ebind (if active_type n \<in> set AUTOMATIC_TRAJECTORY_TYPES then all_checks (prelude_check n) ts else Inr True)
      (\<lambda>ok. if \<not> ok then Inr (False, m) else ebind (all_checks (path_check n (active_type n)) us) (\<lambda>ok. Inr (ok, ''''))))" for ts us m
    by (rule returns_ebindI [OF 1]) (simp add: returns_ebindI [OF 2])
  show ?thesis unfolding validate_scenario_envelope_def Let_def by (simp only: returns_simps 3 if_cancel)
qed

lemma store_envelope_inv [simp]: "traj_inv (store_envelope n v) = traj_inv n"
  by (simp add: traj_inv_def store_envelope_def)

lemma store_envelope_tracking [simp]: "tracking_started (store_envelope n v) = tracking_started n"
  by (simp add: store_envelope_def)

lemma target_is_valid_total: "managed_type n \<Longrightarrow> returns (target_is_valid n pos)"
  unfolding target_is_valid_def
  by (simp add: returns_ebindI validate_total)

lemma target_is_valid_keeps:
  assumes "target_is_valid n pos = Inr (n', ok)"
  shows "n' = n \<or> (\<exists>a b. n' = store_envelope n (a, b))"
  using assms by (auto simp: target_is_valid_def err_simps split: if_split_asm)

definition latch_start :: "traj_node \<Rightarrow> traj_node" where
  "latch_start n = n\<lparr>motion_start_position := latest_position (poses n), motion_start_quaternion := latest_quaternion (poses n)\<rparr>"

definition validatable :: "traj_node \<Rightarrow> bool" where
  "validatable n \<longleftrightarrow> control_mode_is_compatible (active_type n) (active_mode n)
     \<and> latest_position (poses n) \<noteq> None \<and> latest_quaternion (poses n) \<noteq> None"

lemma validate_accepts:
  assumes "validatable n"
  shows "\<exists>v r. validate_scenario_envelope (latch_start n) = Inr v
    \<and> on_validate_scenario n = Inr (store_envelope (latch_start n) v, r) \<and> success r = fst v"
proof -
  have m: "managed_type n" using assms compatible_managed by (auto simp: validatable_def)
  then have "managed_type (latch_start n)" by (simp add: latch_start_def managed_type_def active_type_def)
  then obtain v where v: "validate_scenario_envelope (latch_start n) = Inr v" using validate_total unfolding returns_def by blast
  have "on_validate_scenario n = ebind (validate_scenario_envelope (latch_start n)) (\<lambda>verdict.
      Inr (store_envelope (latch_start n) verdict, \<lparr>success = fst verdict,
        message = (if fst verdict then ''trajectory envelope is inside all configured limits''
          else if snd verdict \<noteq> '''' then snd verdict else ''trajectory envelope or safety limits are invalid'')\<rparr>))"
    using assms m unfolding validatable_def on_validate_scenario_def Let_def latch_start_def by auto
  then show ?thesis using v by simp
qed

lemma validate_rejects:
  assumes "\<not> validatable n"
  shows "\<exists>r. on_validate_scenario n = Inr (n\<lparr>envelope_valid := False, envelope_checked := True\<rparr>, r) \<and> \<not> success r"
  using assms compatible_managed [of n] by (auto simp: validatable_def on_validate_scenario_def)

lemma validate_service_total:
  assumes "traj_inv n"
  shows "\<exists>n' r. on_validate_scenario n = Inr (n', r) \<and> traj_inv n' \<and> tracking_started n' = tracking_started n"
proof (cases "validatable n")
  case True
  have "traj_inv (latch_start n)" using assms True by (auto simp: latch_start_def validatable_def traj_inv_def poses_inv_def)
  moreover have "tracking_started (latch_start n) = tracking_started n" by (simp add: latch_start_def)
  ultimately show ?thesis using validate_accepts [OF True] by auto
next
  case False
  then show ?thesis using validate_rejects [OF False] assms by (auto simp: traj_inv_def)
qed

section \<open>The tick returns a well-shaped target\<close>

definition raw_shape :: "raw_target \<Rightarrow> bool" where
  "raw_shape r \<longleftrightarrow> length (r_position r) = 3 \<and> length (r_velocity r) = 3 \<and> length (r_acceleration r) = 3
     \<and> length (r_orientation r) = 4 \<and> length (r_angular_velocity r) = 3 \<and> length (r_angular_acceleration r) = 3"

lemma make_raw_shape:
  "sample_shape s \<Longrightarrow> length q = 4 \<Longrightarrow> length w = 3 \<Longrightarrow> length dw = 3 \<Longrightarrow> raw_shape (make_raw s (q, w, dw))"
  by (simp add: make_raw_def raw_shape_def sample_shape_def)

lemma idle_shape: "traj_inv n \<Longrightarrow> sample_shape (idle_hold_sample n)"
  by (auto simp: sample_shape_def idle_hold_sample_def configured_center_def traj_inv_def poses_inv_def split: option.split)

text \<open>A tick changes only the hold state and the envelope verdict.\<close>

definition same_inputs :: "traj_node \<Rightarrow> traj_node \<Rightarrow> bool" where
  "same_inputs n n' \<longleftrightarrow> pp n' = pp n \<and> lp n' = lp n \<and> gp n' = gp n \<and> poses n' = poses n \<and> operator n' = operator n
     \<and> motion_start_position n' = motion_start_position n \<and> motion_start_quaternion n' = motion_start_quaternion n
     \<and> tracking_started n' = tracking_started n \<and> started_ns n' = started_ns n"

lemma same_inputs_refl [simp]: "same_inputs n n"
  by (simp add: same_inputs_def)

lemma same_inputs_inv: "same_inputs n n' \<Longrightarrow> traj_inv n \<Longrightarrow> holds_inv (holds n') \<Longrightarrow> traj_inv n'"
  by (simp add: same_inputs_def traj_inv_def)

lemma same_inputs_active: "same_inputs n n' \<Longrightarrow> active_type n' = active_type n \<and> active_mode n' = active_mode n"
  by (simp add: same_inputs_def active_type_def active_mode_def)

lemma altitude_hold_keeps:
  assumes "traj_inv n" "altitude_hold_sample n now = (n', s)"
  shows "same_inputs n n' \<and> holds_inv (holds n') \<and> sample_shape s"
  using assms by (auto simp: altitude_hold_sample_def Let_def same_inputs_def traj_inv_def holds_inv_def sample_shape_def)

lemma station_defaults_some:
  assumes "traj_inv n"
  shows "\<exists>pos q. station_target_position (station_defaults n) = Some pos \<and> length pos = 3
    \<and> station_target_quaternion (station_defaults n) = Some q \<and> unit_quat q"
proof -
  have "length (first_some [motion_start_position n, latest_position (poses n)] [0, 0, 0]) = 3"
    by (rule first_some_all) (use assms in \<open>auto simp: traj_inv_def poses_inv_def dest: sym\<close>)
  then show ?thesis
    using assms by (auto simp: station_defaults_def Let_def traj_inv_def holds_inv_def)
qed

lemma station_follow_some:
  assumes "poses_inv s" "station_target_position h = Some pos" "length pos = 3"
    "station_target_quaternion h = Some q" "unit_quat q"
  shows "\<exists>pos' q'. station_target_position (station_follow s h a b c) = Some pos' \<and> length pos' = 3
    \<and> station_target_quaternion (station_follow s h a b c) = Some q' \<and> unit_quat q'"
  using assms by (auto simp: station_follow_def Let_def poses_inv_def split: option.split)

lemma pool_clip_length: "length pos = 3 \<Longrightarrow> length (station_pool_clip l pos) = 3"
  by (simp add: station_pool_clip_def)

lemma rotation_matrix_length: "length q = 4 \<Longrightarrow> length (rotation_matrix q) = 3"
  by (auto dest!: list_of_length4)

lemma flt_mat_vec_length: "length (flt_mat_vec m v) = length m"
  by (simp add: flt_mat_vec_def mat_vec_def)

text \<open>The station target, with the stick activity left open.\<close>

definition followed :: "traj_node \<Rightarrow> bool \<Rightarrow> bool \<Rightarrow> bool \<Rightarrow> hold_state" where
  "followed n a b c = station_follow (poses n) (station_defaults n) a b c"

lemma hold_position_upd:
  "station_target_position (h\<lparr>station_target_position := x\<rparr>) = x"
  "station_target_quaternion (h\<lparr>station_target_position := x\<rparr>) = station_target_quaternion h"
  by simp_all

lemma station_hold_parts:
  assumes "station_hold_target n now = (n', r)"
  shows "\<exists>a b c q. n' = n\<lparr>holds := (followed n a b c)\<lparr>station_target_position :=
        Some (station_pool_clip (lp n) (the (station_target_position (followed n a b c))))\<rparr>\<rparr>
    \<and> r = (let g = gp n; u = current_station_input n now; rot = rotation_matrix (level_heading_quaternion q);
               v = flt_mat_vec rot [flt_times (u ! 0) \<bar>station_linear_input_gain_mps g\<bar>,
                     flt_times (u ! 1) \<bar>station_lateral_input_gain_mps g\<bar>, Fin 0]
      in \<lparr>r_position = station_pool_clip (lp n) (the (station_target_position (followed n a b c))),
          r_velocity = [v ! 0, v ! 1, flt_times (u ! 2) (- \<bar>manual_vertical_speed_mps g\<bar>)],
          r_acceleration = [0, 0, 0], r_orientation = the (station_target_quaternion (followed n a b c)),
          r_angular_velocity = flt_mat_vec rot [Fin 0, Fin 0, flt_times (u ! 3) \<bar>station_yaw_input_gain_rps g\<bar>],
          r_angular_acceleration = [0, 0, 0]\<rparr>)"
  using assms unfolding station_hold_target_def followed_def Let_def prod.inject hold_position_upd option.sel
  by blast

lemma station_hold_keeps:
  assumes "traj_inv n" "station_hold_target n now = (n', r)"
  shows "same_inputs n n' \<and> holds_inv (holds n') \<and> raw_shape r"
proof -
  obtain p q where d: "station_target_position (station_defaults n) = Some p" "length p = 3"
    "station_target_quaternion (station_defaults n) = Some q" "unit_quat q"
    using station_defaults_some [OF assms(1)] by blast
  have pi: "poses_inv (poses n)" using assms(1) by (simp add: traj_inv_def)
  obtain a b c z where parts: "n' = n\<lparr>holds := (followed n a b c)\<lparr>station_target_position :=
        Some (station_pool_clip (lp n) (the (station_target_position (followed n a b c))))\<rparr>\<rparr>"
    "r = (let g = gp n; u = current_station_input n now; rot = rotation_matrix (level_heading_quaternion z);
               v = flt_mat_vec rot [flt_times (u ! 0) \<bar>station_linear_input_gain_mps g\<bar>,
                     flt_times (u ! 1) \<bar>station_lateral_input_gain_mps g\<bar>, Fin 0]
      in \<lparr>r_position = station_pool_clip (lp n) (the (station_target_position (followed n a b c))),
          r_velocity = [v ! 0, v ! 1, flt_times (u ! 2) (- \<bar>manual_vertical_speed_mps g\<bar>)],
          r_acceleration = [0, 0, 0], r_orientation = the (station_target_quaternion (followed n a b c)),
          r_angular_velocity = flt_mat_vec rot [Fin 0, Fin 0, flt_times (u ! 3) \<bar>station_yaw_input_gain_rps g\<bar>],
          r_angular_acceleration = [0, 0, 0]\<rparr>)"
    using station_hold_parts [OF assms(2)] by blast
  obtain p' q' where f: "station_target_position (followed n a b c) = Some p'" "length p' = 3"
      "station_target_quaternion (followed n a b c) = Some q'" "unit_quat q'"
    using station_follow_some [OF pi d] unfolding followed_def by blast
  show ?thesis
    unfolding parts using f
    by (simp add: same_inputs_def holds_inv_def raw_shape_def pool_clip_length unit_quat_length Let_def
        flt_mat_vec_length rotation_matrix_length)
qed

section \<open>What a tick establishes\<close>

definition tick_post :: "traj_node \<Rightarrow> traj_node \<times> raw_target \<times> published \<Rightarrow> bool" where
  "tick_post n r \<longleftrightarrow> (case r of (n', raw, info) \<Rightarrow>
     same_inputs n n' \<and> holds_inv (holds n') \<and> raw_shape raw
     \<and> (pub_valid info \<and> require_pool_bounds (lp n) \<longrightarrow> pool_ok (lp n) \<and> inside (lp n) (r_position raw))
     \<and> (tracking_started n \<longrightarrow> pub_type info = active_type n \<and> pub_mode info = active_mode n))"

lemma target_is_valid_pool:
  assumes "target_is_valid n pos = Inr (n', True)" "require_pool_bounds (lp n)"
  shows "pool_ok (lp n) \<and> inside (lp n) pos \<and> envelope_valid n'"
  using assms by (auto simp: target_is_valid_def err_simps store_envelope_def split: if_split_asm)

lemma checked_post:
  assumes "managed_type n1" "same_inputs n n1" "holds_inv (holds n1)" "raw_shape raw"
  shows "\<exists>r. checked n1 raw phase = Inr r \<and> tick_post n r"
proof -
  obtain n' ok where v: "target_is_valid n1 (r_position raw) = Inr (n', ok)"
    using target_is_valid_total [OF assms(1)] unfolding returns_def by (metis surj_pair)
  have "same_inputs n n' \<and> holds_inv (holds n')"
    using target_is_valid_keeps [OF v] assms(2,3) by (auto simp: same_inputs_def store_envelope_def)
  moreover have "lp n1 = lp n" using assms(2) by (simp add: same_inputs_def)
  ultimately show ?thesis
    using v target_is_valid_pool [of n1 "r_position raw" n'] same_inputs_active [OF assms(2)] assms(4)
    by (auto simp: checked_def tick_post_def)
qed

lemma still_raw_shape: "traj_inv n \<Longrightarrow> raw_shape (make_raw (idle_hold_sample n) (hold_orientation n, [0, 0, 0], [0, 0, 0]))"
  by (simp add: make_raw_shape idle_shape hold_orientation_length)

lemma automatic_post:
  assumes "traj_inv n" "active_type n \<in> set AUTOMATIC_TRAJECTORY_TYPES"
    and "ttype = ''move_to_trajectory_start'' \<or> ttype = active_type n"
  shows "\<exists>r. ebind (sample n ttype t) (\<lambda>s. checked n (make_raw s (sample_attitude n ttype u)) phase) = Inr r \<and> tick_post n r"
proof -
  obtain s where s: "sample n ttype t = Inr s" "sample_shape s"
    using sample_automatic_shape [OF assms] by blast
  obtain q w dw where a: "sample_attitude n ttype u = (q, w, dw)" by (cases "sample_attitude n ttype u")
  have "raw_shape (make_raw s (sample_attitude n ttype u))"
    unfolding a using s(2) sample_attitude_shape [OF assms(1) a] by (simp add: make_raw_shape)
  moreover have "managed_type n" using assms(2) by (simp add: managed_type_def)
  ultimately show ?thesis
    using s(1) assms(1) checked_post [of n n] by (simp add: traj_inv_def)
qed

lemma tick_sample_post:
  assumes "traj_inv n"
  shows "\<exists>r. tick_sample n now = Inr r \<and> tick_post n r"
proof -
  have holds: "holds_inv (holds n)" using assms by (simp add: traj_inv_def)
  consider (idle) "\<not> tracking_started n"
    | (altitude) "tracking_started n" "active_type n = ''hold''" "active_mode n = ''altitude_hold''"
    | (station) "tracking_started n" "active_type n = ''hold''" "active_mode n \<in> set station_modes" "active_mode n \<noteq> ''altitude_hold''"
    | (auto) "tracking_started n" "active_type n \<in> set AUTOMATIC_TRAJECTORY_TYPES" "active_type n \<noteq> ''hold''"
    | (other) "tracking_started n" "active_type n \<notin> set AUTOMATIC_TRAJECTORY_TYPES"
        "active_type n = ''hold'' \<longrightarrow> active_mode n \<noteq> ''altitude_hold'' \<and> active_mode n \<notin> set station_modes"
    using automatic_not_move [of "active_type n"] by blast
  then show ?thesis
  proof cases
    case idle
    then show ?thesis
      using still_raw_shape [OF assms] holds
      by (auto simp: tick_sample_def Let_def tick_post_def idle_target_is_valid_def make_raw_def split: if_split_asm)
  next
    case altitude
    obtain n' s where a: "altitude_hold_sample n now = (n', s)" by (cases "altitude_hold_sample n now")
    note k = altitude_hold_keeps [OF assms a]
    have "managed_type n'" using k altitude same_inputs_active [of n n'] by (simp add: managed_type_def)
    moreover have "raw_shape (make_raw s (hold_orientation n', [0, 0, 0], [0, 0, 0]))"
      using k hold_orientation_length [OF same_inputs_inv [of n n']] assms by (simp add: make_raw_shape)
    ultimately show ?thesis
      using altitude a k checked_post by (simp add: tick_sample_def Let_def)
  next
    case station
    obtain n' r where a: "station_hold_target n now = (n', r)" by (cases "station_hold_target n now")
    note k = station_hold_keeps [OF assms a]
    have "managed_type n'" using k station same_inputs_active [of n n'] by (simp add: managed_type_def)
    then show ?thesis
      using station a k checked_post by (simp add: tick_sample_def Let_def)
  next
    case auto
    show ?thesis
      using auto automatic_post [OF assms auto(2)] by (simp add: tick_sample_def Let_def)
  next
    case other
    then show ?thesis
      using still_raw_shape [OF assms] holds by (auto simp: tick_sample_def Let_def tick_post_def)
  qed
qed

lemma traj_tick_cases:
  assumes "traj_inv n"
  obtains n' raw info m where "tick_sample n now = Inr (n', raw, info)" "trajectory_tick n now = Inr (n', m)"
    "tick_post n (n', raw, info)" "traj_inv n'"
    "m = \<lparr>target_frame = ''map'',
        target_position = vector_of (map Fin (r_position raw)),
        target_orientation = quaternion_of (level_heading_quaternion (r_orientation raw)),
        target_linear = vector_of (r_velocity raw),
        target_angular = Vector3 (Fin 0) (Fin 0) (r_angular_velocity raw ! 2),
        target_accel_linear = vector_of (map Fin (r_acceleration raw)),
        target_accel_angular = Vector3 (Fin 0) (Fin 0) (Fin (r_angular_acceleration raw ! 2)),
        trajectory_type = pub_type info, control_mode = pub_mode info, trajectory_phase = pub_phase info,
        time_s = Fin (trajectory_time_s n now),
        target_valid = pub_valid info \<and> \<not> (tracking_started n' \<and> \<not> control_mode_is_compatible (active_type n) (active_mode n))\<rparr>"
proof -
  obtain n' raw info where t: "tick_sample n now = Inr (n', raw, info)" and p: "tick_post n (n', raw, info)"
    using tick_sample_post [OF assms] by (metis prod_cases3)
  have "traj_inv n'" using p same_inputs_inv [OF _ assms] by (simp add: tick_post_def)
  then show thesis
    using that [OF t _ p] t unfolding trajectory_tick_def by (simp add: Let_def)
qed

lemma traj_step_total:
  assumes "traj_inv n"
  shows "\<exists>n'. traj_step n e = Inr n' \<and> traj_inv n'"
proof (cases e)
  case (ETick t)
  show ?thesis by (rule traj_tick_cases [OF assms, of t]) (simp add: ETick)
next
  case EValidate
  then show ?thesis using validate_service_total [OF assms] by auto
next
  case (EParams p l g)
  then show ?thesis using assms by (simp add: traj_inv_def)
qed (use assms in \<open>auto simp: on_body_state_inv traj_on_imu_inv operator_callbacks_inv stop_inv reset_inv\<close>)

interpretation traj_machine: total_machine traj_step traj_inv
proof
  show "traj_inv n'" if "traj_inv n" "traj_step n e = Inr n'" for n e n'
    using traj_step_total [OF that(1), of e] that(2) by simp
  show "\<exists>n'. traj_step n e = Inr n'" if "traj_inv n" for n e
    using traj_step_total [OF that, of e] by blast
qed

lemma traj_init_inv: "traj_inv (traj_init p l g t)"
  by (simp add: traj_inv_def traj_init_def poses_inv_def holds_inv_def operator_inv_def no_poses_def no_holds_def no_operator_def)

lemma traj_reachable_inv: "traj_run (traj_init p l g t) es = Inr n \<Longrightarrow> traj_inv n"
  unfolding traj_run_def by (rule traj_machine.run_reaches_inv [OF traj_init_inv])

section \<open>Level targets\<close>

lemma level_heading_eq: "level_heading_quaternion q = [cos (rpy_of q ! 2 / 2), 0, 0, sin (rpy_of q ! 2 / 2)]"
  by (simp add: level_heading_quaternion_def traj_rpy_quaternion_def traj_quaternion_to_rpy_def rpy_components_def Let_def)

lemma vector_of_finite: "length xs = 3 \<Longrightarrow> finite3 (vector_of (map Fin xs))"
  by (simp add: finite3_def vector_of_def)

section \<open>What input callbacks leave alone\<close>

definition latched :: "traj_node \<Rightarrow> traj_node \<Rightarrow> bool" where
  "latched n n' \<longleftrightarrow> pp n' = pp n \<and> lp n' = lp n \<and> tracking_started n' = tracking_started n \<and> started_ns n' = started_ns n
     \<and> motion_start_position n' = motion_start_position n \<and> motion_start_quaternion n' = motion_start_quaternion n"

lemma callbacks_latched:
  "latched n (on_body_state n m)" "latched n (traj_on_imu n i)" "latched n (on_manual_command n t c)"
  "latched n (on_operator_target_input n t lin ang)"
  by (simp_all add: latched_def on_body_state_def traj_on_imu_def on_manual_command_def on_operator_target_input_def Let_def)

lemma callbacks_tracking:
  "tracking_started (on_body_state n m) = tracking_started n" "tracking_started (traj_on_imu n i) = tracking_started n"
  "tracking_started (on_manual_command n t c) = tracking_started n"
  "tracking_started (on_operator_target_input n t lin ang) = tracking_started n"
  using callbacks_latched unfolding latched_def by blast+

section \<open>Idle until a start\<close>

fun is_reset :: "traj_event \<Rightarrow> bool" where
  "is_reset (EReset _) = True"
| "is_reset _ = False"

lemma step_not_started:
  assumes "traj_inv n" "\<not> tracking_started n" "\<not> is_reset e" "traj_step n e = Inr n'"
  shows "\<not> tracking_started n'"
proof (cases e)
  case (ETick t)
  show ?thesis
    by (rule traj_tick_cases [OF assms(1), of t]) (use assms ETick in \<open>simp add: tick_post_def same_inputs_def\<close>)
next
  case EValidate
  then show ?thesis
    using assms validate_service_total [OF assms(1)] by auto
qed (use assms in \<open>auto simp: callbacks_tracking on_stop_scenario_def\<close>)

lemma run_not_started:
  "traj_inv n \<Longrightarrow> \<not> tracking_started n \<Longrightarrow> list_all (\<lambda>e. \<not> is_reset e) es \<Longrightarrow> run_machine traj_step n es = Inr n' \<Longrightarrow>
    \<not> tracking_started n'"
proof (induction es arbitrary: n)
  case (Cons e es)
  then obtain n1 where "traj_step n e = Inr n1" "run_machine traj_step n1 es = Inr n'" by (auto simp: err_simps)
  then show ?case
    using Cons step_not_started [of n e n1] traj_machine.stepe_inv [of n e n1] by simp
qed simp

lemma run_machine_append:
  "run_machine f s (xs @ ys) = ebind (run_machine f s xs) (\<lambda>s'. run_machine f s' ys)"
proof (induction xs arbitrary: s)
  case (Cons x xs)
  then show ?case by (cases "f s x") simp_all
qed simp

lemma idle_tick:
  assumes "\<not> tracking_started n"
  shows "\<exists>n'. trajectory_tick n now = Inr (n',
     \<lparr>target_frame = ''map'', target_position = vector_of (map Fin (position (idle_hold_sample n))),
      target_orientation = quaternion_of (level_heading_quaternion (hold_orientation n)),
      target_linear = Vector3 (Fin 0) (Fin 0) (Fin 0), target_angular = Vector3 (Fin 0) (Fin 0) (Fin 0),
      target_accel_linear = Vector3 (Fin 0) (Fin 0) (Fin 0), target_accel_angular = Vector3 (Fin 0) (Fin 0) (Fin 0),
      trajectory_type = ''idle'', control_mode = ''idle'', trajectory_phase = ''idle'', time_s = Fin 0,
      target_valid = idle_target_is_valid n (position (idle_hold_sample n))\<rparr>)"
  using assms
  by (simp add: trajectory_tick_def tick_sample_def Let_def make_raw_def vector_of_def idle_hold_sample_def trajectory_time_s_def)

section \<open>A latched path does not move\<close>

text \<open>Everything but the services and the parameters.\<close>

fun input_event :: "traj_event \<Rightarrow> bool" where
  "input_event (EBody _) = True"
| "input_event (EImu _) = True"
| "input_event (EManual _ _) = True"
| "input_event (EOperator _ _ _) = True"
| "input_event (ETick _) = True"
| "input_event _ = False"

lemma input_event_latched:
  assumes "traj_inv n" "input_event e" "traj_step n e = Inr n'"
  shows "latched n n'"
proof (cases e)
  case (ETick t)
  show ?thesis
    by (rule traj_tick_cases [OF assms(1), of t]) (use assms ETick in \<open>simp add: tick_post_def same_inputs_def latched_def\<close>)
qed (use assms in \<open>auto simp: callbacks_latched\<close>)

lemma latched_trans: "latched a b \<Longrightarrow> latched b c \<Longrightarrow> latched a c"
  by (simp add: latched_def)

lemma input_run_latched:
  "traj_inv n \<Longrightarrow> list_all input_event es \<Longrightarrow> run_machine traj_step n es = Inr n' \<Longrightarrow> latched n n'"
proof (induction es arbitrary: n)
  case (Cons e es)
  then obtain n1 where n1: "traj_step n e = Inr n1" "run_machine traj_step n1 es = Inr n'" by (auto simp: err_simps)
  have "latched n n1" using input_event_latched [OF Cons.prems(1) _ n1(1)] Cons.prems(2) by simp
  moreover have "latched n1 n'"
    using Cons.IH [of n1] Cons.prems n1 traj_machine.stepe_inv [OF Cons.prems(1) n1(1)] by simp
  ultimately show ?case by (rule latched_trans)
qed (simp add: latched_def)

lemma latched_sample:
  assumes "latched n n'" "motion_start_position n \<noteq> None" "motion_start_quaternion n \<noteq> None"
    "active_type n \<in> set AUTOMATIC_TRAJECTORY_TYPES" "ttype = ''move_to_trajectory_start'' \<or> ttype = active_type n"
  shows "sample n' ttype t = sample n ttype t \<and> attitude_quaternion n' ttype u = attitude_quaternion n ttype u"
proof -
  have act: "active_type n' = active_type n" using assms(1) by (simp add: latched_def active_type_def)
  have c: "sample_center n' = sample_center n" "move_start n' = move_start n" "start_quaternion n' = start_quaternion n"
    using assms(1-3) by (auto simp: sample_center_def move_start_def start_quaternion_def latched_def)
  have p: "path_sample n' = path_sample n"
    using assms(1) by (intro ext) (simp add: path_sample_def c(1) latched_def)
  show ?thesis
    using assms(1,4,5) by (auto simp: sample_def attitude_quaternion_def act c p latched_def Let_def)
qed

lemma latched_sample_attitude:
  assumes "latched n n'" "motion_start_position n \<noteq> None" "motion_start_quaternion n \<noteq> None"
    "active_type n \<in> set AUTOMATIC_TRAJECTORY_TYPES" "ttype = ''move_to_trajectory_start'' \<or> ttype = active_type n"
  shows "sample_attitude n' ttype t = sample_attitude n ttype t"
  using latched_sample [OF assms] assms(1)
  by (simp add: sample_attitude_def angular_velocity_at_def latched_def)

section \<open>The accepted approach\<close>

lemma linspace_first: "1 < k \<Longrightarrow> 0 \<in> set (linspace stop k)"
  by (auto simp: linspace_def image_iff intro!: bexI [of _ 0])

lemma linspace_last: "1 < k \<Longrightarrow> stop \<in> set (linspace stop k)"
  by (auto simp: linspace_def image_iff intro!: bexI [of _ "k - 1"])

lemma inside_nth: "length pos = 3 \<Longrightarrow> pool_ok l \<Longrightarrow>
    inside l pos \<longleftrightarrow> (\<forall>i < 3. pool_min_xyz l ! i \<le> pos ! i \<and> pos ! i \<le> pool_max_xyz l ! i)"
  by (auto simp: inside_def pool_ok_def list_all2_conv_all_nth)

lemma inside_convex:
  assumes "pool_ok l" "length a = 3" "length b = 3" "length x = 3" "inside l a" "inside l b"
    and "\<And>i. i < 3 \<Longrightarrow> min (a ! i) (b ! i) \<le> x ! i \<and> x ! i \<le> max (a ! i) (b ! i)"
  shows "inside l x"
  unfolding inside_nth [OF assms(4,1)]
proof (intro allI impI)
  fix i :: nat
  assume i: "i < 3"
  have "pool_min_xyz l ! i \<le> a ! i \<and> a ! i \<le> pool_max_xyz l ! i" "pool_min_xyz l ! i \<le> b ! i \<and> b ! i \<le> pool_max_xyz l ! i"
    using assms(5,6) i unfolding inside_nth [OF assms(2,1)] inside_nth [OF assms(3,1)] by simp_all
  then show "pool_min_xyz l ! i \<le> x ! i \<and> x ! i \<le> pool_max_xyz l ! i"
    using assms(7) [OF i] by linarith
qed

lemma accepted_prelude:
  assumes "validate_scenario_envelope n = Inr (True, reason)" "active_type n \<in> set AUTOMATIC_TRAJECTORY_TYPES"
  shows "pool_ok (lp n) \<and> move_duration (pp n) + 1 / 10 \<le> max 0 (hold_before_motion_s (pp n))
    \<and> all_checks (prelude_check n) (linspace (max 0 (hold_before_motion_s (pp n))) 201) = Inr True
    \<and> all_checks (path_check n (active_type n)) (linspace (envelope_duration (pp n) (active_type n)) 361) = Inr True"
  using assms automatic_not_move [OF assms(2)]
  unfolding validate_scenario_envelope_def Let_def
  by (auto simp: err_simps split: if_split_asm)

lemma prelude_check_inside:
  "prelude_check n t = Inr True \<Longrightarrow> active_type n \<in> set AUTOMATIC_TRAJECTORY_TYPES \<Longrightarrow>
   inside (lp n) (position (approach_sample (move_duration_s (pp n)) (move_start n) (position (path_sample n (active_type n) 0))
     (clip t 0 (move_duration (pp n)))))"
  by (simp add: prelude_check_def Let_def sample_automatic sample_within_def)

lemma accepted_ends_inside:
  assumes "traj_inv n" "validate_scenario_envelope n = Inr (True, reason)" "active_type n \<in> set AUTOMATIC_TRAJECTORY_TYPES"
  shows "inside (lp n) (move_start n)" "inside (lp n) (position (path_sample n (active_type n) 0))"
proof -
  note acc = accepted_prelude [OF assms(2,3)]
  let ?goal = "position (path_sample n (active_type n) 0)"
  have len: "length (move_start n) = 3" "length ?goal = 3"
    using move_start_length path_sample_shape assms(1) by (auto simp: sample_shape_def)
  have md: "0 < move_duration (pp n)" by (simp add: move_duration_def less_max_iff_disj)
  have c0: "clip 0 0 (move_duration (pp n)) = 0" using md by (simp add: clip_def)
  have c1: "clip (max 0 (hold_before_motion_s (pp n))) 0 (move_duration (pp n)) = move_duration (pp n)"
    using acc md by (simp add: clip_def)
  have "prelude_check n 0 = Inr True" "prelude_check n (max 0 (hold_before_motion_s (pp n))) = Inr True"
    using acc all_checks_True linspace_first [of 201] linspace_last [of 201] by force+
  note both = prelude_check_inside [OF this(1) assms(3)] prelude_check_inside [OF this(2) assms(3)]
  show "inside (lp n) (move_start n)" using both(1) approach_begin [OF len] by (simp add: c0)
  show "inside (lp n) ?goal"
    using both(2) approach_end [OF len, of "move_duration_s (pp n)" "move_duration (pp n)"]
    unfolding c1 by (simp add: move_duration_def)
qed

section \<open>An example run\<close>

text \<open>
  A vehicle at rest at the origin of the map at one metre height, a circle of radius zero about
  that point, and limits that admit it.
\<close>

definition demo_path :: path_params where
  "demo_path = default_path_params\<lparr>p_trajectory_type := ''circle'', p_control_mode := ''station_hold'',
     center_z := 1, radius_m := 0, hold_before_motion_s := 20\<rparr>"

definition demo_limits :: limit_params where
  "demo_limits = \<lparr>require_pool_bounds = True, pool_min_xyz = [- 2, - 2, 0], pool_max_xyz = [2, 2, 2],
     trajectory_limits_configured = True, max_linear_speed_mps = 1 / 2, max_angular_speed_rps = 1,
     attitude_min_rpy_deg = [- 20, - 20, - 180], attitude_max_rpy_deg = [20, 20, 180]\<rparr>"

definition demo_body :: body_state_msg where
  "demo_body = \<lparr>body_frame = ''map'', body_position = Vector3 (Fin 0) (Fin 0) (Fin 1),
     body_orientation = Quaternion (Fin 1) (Fin 0) (Fin 0) (Fin 0), body_linear = Vector3 (Fin 0) (Fin 0) (Fin 0),
     linear_velocity_valid = True, position_estimated = True, state_valid = True\<rparr>"

definition demo_imu :: imu_msg where
  "demo_imu = \<lparr>imu_frame = ''base_link'', imu_stamp_ns = 0, imu_orientation_msg = Quaternion (Fin 1) (Fin 0) (Fin 0) (Fin 0),
     orientation_covariance0 = Fin 0, imu_rate_msg = Vector3 (Fin 0) (Fin 0) (Fin 0)\<rparr>"

definition demo_poses :: pose_state where
  "demo_poses = \<lparr>initial_position = Some [0, 0, 1], initial_quaternion = Some [1, 0, 0, 0], latest_position = Some [0, 0, 1],
     latest_map_yaw = Some 0, latest_quaternion = Some [1, 0, 0, 0], latest_angular_velocity = Some [0, 0, 0]\<rparr>"

definition demo_ready :: "limit_params \<Rightarrow> traj_node" where
  "demo_ready l = (traj_init demo_path l default_input_params 0)\<lparr>poses := demo_poses\<rparr>"

lemma rpy_identity: "traj_quaternion_to_rpy [1, 0, 0, 0] = [0, 0, 0]"
  by (simp add: traj_quaternion_to_rpy_def atan2_def clip_def)

lemma rpy_zero: "traj_rpy_quaternion 0 0 0 = [1, 0, 0, 0]"
  by (simp add: traj_rpy_quaternion_def rpy_components_def Let_def)

lemma demo_active: "active_type (n\<lparr>pp := demo_path\<rparr>) = ''circle''" "active_mode (n\<lparr>pp := demo_path\<rparr>) = ''station_hold''"
  unfolding active_type_def active_mode_def demo_path_def default_path_params_def by (simp, code_simp)+

lemma demo_sensed:
  "traj_run (traj_init demo_path l default_input_params 0) [EBody demo_body, EImu demo_imu] = Inr (demo_ready l)"
  by (simp add: traj_run_def demo_ready_def demo_poses_def traj_init_def on_body_state_def traj_on_imu_def demo_body_def
      demo_imu_def no_poses_def rpy_identity rpy_zero np_norm_def finite4_def Let_def)

lemma active_demo: "pp n = demo_path \<Longrightarrow> active_type n = ''circle'' \<and> active_mode n = ''station_hold''"
  using demo_active [of n] by (simp add: active_type_def active_mode_def)

lemma circle_automatic: "''circle'' \<in> set AUTOMATIC_TRAJECTORY_TYPES"
  by (simp add: AUTOMATIC_TRAJECTORY_TYPES_def)

lemma demo_compatible: "control_mode_is_compatible ''circle'' ''station_hold''"
  by code_simp

lemma demo_kinematics: "trajectory_kinematics demo_path ''circle'' t = ([0, 0, 0], [0, 0, 0], [0, 0, 0], 0)"
  by (simp add: trajectory_kinematics_def circle_kinematics_def phase_kinematics_def compose_kinematics_def
      demo_path_def array_defs atan2_def Let_def)

text \<open>A node of the example after validation: the start is latched at the measured pose.\<close>

definition demo_latched :: "traj_node \<Rightarrow> bool" where
  "demo_latched n \<longleftrightarrow> pp n = demo_path \<and> poses n = demo_poses
     \<and> motion_start_position n = Some [0, 0, 1] \<and> motion_start_quaternion n = Some [1, 0, 0, 0]"

lemma demo_center: "configured_center demo_path = [0, 0, 1]" "\<not> relative_to_initial_pose demo_path"
  by (simp_all add: configured_center_def demo_path_def default_path_params_def)

lemma demo_path_sample:
  "demo_latched n \<Longrightarrow> path_sample n ''circle'' t = \<lparr>position = [0, 0, 1], velocity = [0, 0, 0], acceleration = [0, 0, 0]\<rparr>"
  by (simp add: path_sample_def demo_latched_def demo_kinematics circle_automatic sample_center_def demo_center array_defs)

lemma demo_approach:
  "approach_sample d [0, 0, 1] [0, 0, 1] t = \<lparr>position = [0, 0, 1], velocity = [0, 0, 0], acceleration = [0, 0, 0]\<rparr>"
  by (simp add: approach_sample_def array_defs Let_def)

lemma demo_sample:
  assumes "demo_latched n" "ttype = ''move_to_trajectory_start'' \<or> ttype = ''circle''"
  shows "sample n ttype t = Inr \<lparr>position = [0, 0, 1], velocity = [0, 0, 0], acceleration = [0, 0, 0]\<rparr>"
proof -
  have a: "active_type n = ''circle''" using assms(1) active_demo by (simp add: demo_latched_def)
  show ?thesis
    using assms sample_automatic [of n t] unfolding a
    by (auto simp: circle_automatic demo_path_sample demo_approach move_start_def demo_latched_def)
qed

lemma demo_attitude:
  assumes "demo_latched n" "ttype = ''move_to_trajectory_start'' \<or> ttype = ''circle''"
  shows "attitude_quaternion n ttype t = [1, 0, 0, 0]"
proof -
  have a: "active_type n = ''circle''" using assms(1) active_demo by (simp add: demo_latched_def)
  have s: "start_quaternion n = [1, 0, 0, 0]" using assms(1) by (simp add: start_quaternion_def demo_latched_def)
  have sl: "traj_quaternion_slerp [1, 0, 0, 0] [1, 0, 0, 0] w = [1, 0, 0, 0]" for w
    by (simp add: traj_quaternion_slerp_def unit_of_def array_defs clip_def Let_def)
  show ?thesis
    using assms by (auto simp: attitude_quaternion_def a s sl kinematics_yaw_def demo_latched_def demo_kinematics rpy_zero
        circle_automatic Let_def)
qed

lemma demo_within:
  assumes "demo_latched n" "lp n = demo_limits" "ttype = ''move_to_trajectory_start'' \<or> ttype = ''circle''"
  shows "sample_within n 2 ttype \<lparr>position = [0, 0, 1], velocity = [0, 0, 0], acceleration = [0, 0, 0]\<rparr> t"
  using demo_attitude [OF assms(1,3)] assms(2)
  by (simp add: sample_within_def angular_velocity_at_def rpy_identity inside_def demo_limits_def attitude_within_def
      radians_def array_defs Let_def)

lemma all_checks_all: "(\<And>x. f x = Inr True) \<Longrightarrow> all_checks f xs = Inr True"
  by (induction xs) simp_all

lemma demo_envelope:
  assumes "demo_latched n" "lp n = demo_limits"
  shows "validate_scenario_envelope n = Inr (True, '''')"
proof -
  have a: "active_type n = ''circle''" "active_mode n = ''station_hold''" and p: "pp n = demo_path"
    using assms(1) active_demo by (simp_all add: demo_latched_def)
  have pre: "prelude_check n t = Inr True" for t
    using demo_sample [OF assms(1)] demo_within [OF assms] by (simp add: prelude_check_def Let_def)
  have path: "path_check n ''circle'' t = Inr True" for t
    using demo_sample [OF assms(1)] demo_within [OF assms] by (simp add: path_check_def circle_automatic)
  have ok: "pool_ok (lp n)" "limits_ok (lp n)" "trajectory_limits_configured (lp n)"
    "\<not> max 0 (hold_before_motion_s demo_path) - move_duration demo_path < 1 / 10"
    unfolding assms(2)
    by (simp_all add: pool_ok_def limits_ok_def demo_limits_def radians_def demo_path_def default_path_params_def move_duration_def)
  have m: "motion_start_position n \<noteq> None" using assms(1) by (simp add: demo_latched_def)
  show ?thesis
    unfolding validate_scenario_envelope_def Let_def a p
    using m ok by (simp add: circle_automatic all_checks_all [OF pre] all_checks_all [OF path])
qed

lemma demo_ready_latched: "demo_latched (latch_start (demo_ready l))"
  by (simp add: demo_latched_def latch_start_def demo_ready_def demo_poses_def traj_init_def)

lemma demo_validatable: "validatable (demo_ready l)"
  using active_demo [of "demo_ready l"] demo_compatible
  by (simp add: validatable_def demo_ready_def demo_poses_def traj_init_def)

text \<open>Validation and start.\<close>

definition demo_tracking :: traj_node where
  "demo_tracking = (store_envelope (latch_start (demo_ready demo_limits)) (True, ''''))\<lparr>started_ns := 0, tracking_started := True\<rparr>"

lemma demo_validated:
  "on_validate_scenario (demo_ready demo_limits) = Inr (store_envelope (latch_start (demo_ready demo_limits)) (True, ''''), r) \<longleftrightarrow>
   r = \<lparr>success = True, message = ''trajectory envelope is inside all configured limits''\<rparr>"
proof -
  have e: "validate_scenario_envelope (latch_start (demo_ready demo_limits)) = Inr (True, '''')"
    by (rule demo_envelope [OF demo_ready_latched]) (simp add: latch_start_def demo_ready_def traj_init_def)
  have m: "managed_type (demo_ready demo_limits)" using compatible_managed demo_validatable by (auto simp: validatable_def)
  show ?thesis
    using demo_validatable [of demo_limits] m e
    by (auto simp: on_validate_scenario_def validatable_def latch_start_def Let_def)
qed

lemma demo_started:
  "traj_run (traj_init demo_path demo_limits default_input_params 0) [EBody demo_body, EImu demo_imu, EValidate, EReset 0] =
    Inr demo_tracking"
proof -
  let ?v = "store_envelope (latch_start (demo_ready demo_limits)) (True, '''')"
  have p: "pp ?v = demo_path" by (simp add: store_envelope_def latch_start_def demo_ready_def traj_init_def)
  have l: "demo_latched ?v"
    using demo_ready_latched [of demo_limits] by (simp add: demo_latched_def store_envelope_def)
  have "latch_holds ?v = holds ?v" using active_demo [OF p] by (simp add: latch_holds_def Let_def)
  then have "fst (on_reset_scenario ?v 0) = demo_tracking"
    using active_demo [OF p] demo_compatible l by (simp add: on_reset_scenario_def demo_tracking_def demo_latched_def)
  moreover have "on_validate_scenario (demo_ready demo_limits) = Inr (?v, \<lparr>success = True, message = ''trajectory envelope is inside all configured limits''\<rparr>)"
    using demo_validated by blast
  ultimately have "run_machine traj_step (demo_ready demo_limits) [EValidate, EReset 0] = Inr demo_tracking" by simp
  then show ?thesis
    using demo_sensed [of demo_limits] run_machine_append [of traj_step _ "[EBody demo_body, EImu demo_imu]" "[EValidate, EReset 0]"]
    by (simp add: traj_run_def)
qed

lemma demo_tracking_facts:
  "demo_latched demo_tracking" "lp demo_tracking = demo_limits" "tracking_started demo_tracking"
  "envelope_valid demo_tracking" "envelope_checked demo_tracking" "started_ns demo_tracking = 0"
  using demo_ready_latched [of demo_limits]
  by (simp_all add: demo_tracking_def demo_latched_def store_envelope_def latch_start_def demo_ready_def traj_init_def)

section \<open>Properties\<close>


text \<open>
  Nothing moves before a start.  From construction or after a stop, and as long as no start
  request arrives, every tick publishes an idle target: the measured position (or the configured
  centre when there is none), zero velocity and acceleration and time zero.
\<close>

theorem idle_until_start:
  assumes "es = pre @ rest" "pre = [] \<or> (\<exists>t. last pre = EStop t)" "list_all (\<lambda>e. \<not> is_reset e) rest"
  shows "\<exists>n n' m. traj_run (traj_init p l g t0) es = Inr n \<and> trajectory_tick n now = Inr (n', m)
    \<and> trajectory_type m = ''idle'' \<and> control_mode m = ''idle'' \<and> trajectory_phase m = ''idle'' \<and> time_s m = Fin 0
    \<and> target_position m = vector_of (map Fin (position (idle_hold_sample n)))
    \<and> target_linear m = Vector3 (Fin 0) (Fin 0) (Fin 0) \<and> target_angular m = Vector3 (Fin 0) (Fin 0) (Fin 0)
    \<and> target_accel_linear m = Vector3 (Fin 0) (Fin 0) (Fin 0)"
proof -
  obtain n1 where n1: "run_machine traj_step (traj_init p l g t0) pre = Inr n1" and i1: "traj_inv n1"
    using traj_machine.run_total [OF traj_init_inv] by blast
  obtain n where n: "run_machine traj_step n1 rest = Inr n" and inv: "traj_inv n"
    using traj_machine.run_total [OF i1] by blast
  have "\<not> tracking_started n1"
  proof (cases "pre = []")
    case True
    then show ?thesis using n1 by (auto simp: traj_init_def)
  next
    case False
    then obtain t where "pre = butlast pre @ [EStop t]" using assms(2) by (metis append_butlast_last_id)
    then have "run_machine traj_step (traj_init p l g t0) (butlast pre @ [EStop t]) = Inr n1" using n1 by simp
    then show ?thesis by (auto simp: run_machine_append err_simps on_stop_scenario_def)
  qed
  then have "\<not> tracking_started n" using run_not_started [OF i1 _ assms(3) n] by simp
  moreover have "traj_run (traj_init p l g t0) es = Inr n"
    using n1 n by (simp add: traj_run_def assms(1) run_machine_append)
  ultimately show ?thesis using idle_tick [of n now] by auto
qed

theorem idle_until_start_witness:
  "\<exists>n n' m. traj_run (traj_init demo_path demo_limits default_input_params 0) ([EReset 0, EStop 1] @ [EBody demo_body]) = Inr n
    \<and> trajectory_tick n 2 = Inr (n', m) \<and> trajectory_phase m = ''idle''"
  using idle_until_start [of "[EReset 0, EStop 1] @ [EBody demo_body]" "[EReset 0, EStop 1]" "[EBody demo_body]"
      demo_path demo_limits default_input_params 0 2] by auto

text \<open>
  C18: a valid target lies in the pool.  In every run, when pool bounds are required and a tick
  publishes a target as valid, the bounds are well-formed and the published position is inside
  them; when a task is running its trajectory and control mode fit together.
\<close>

theorem valid_target_in_pool:
  assumes "traj_run (traj_init p l g t0) es = Inr n" "trajectory_tick n now = Inr (n', m)"
    "require_pool_bounds (lp n)" "target_valid m"
  shows "pool_ok (lp n) \<and> (\<exists>x y z. target_position m = Vector3 (Fin x) (Fin y) (Fin z) \<and> inside (lp n) [x, y, z])
    \<and> (tracking_started n \<longrightarrow> control_mode_is_compatible (trajectory_type m) (control_mode m))"
proof (rule traj_tick_cases [OF traj_reachable_inv [OF assms(1)], of now])
  fix k raw info m1
  assume k: "trajectory_tick n now = Inr (k, m1)" and post: "tick_post n (k, raw, info)"
    and m1: "m1 = \<lparr>target_frame = ''map'',
        target_position = vector_of (map Fin (r_position raw)),
        target_orientation = quaternion_of (level_heading_quaternion (r_orientation raw)),
        target_linear = vector_of (r_velocity raw),
        target_angular = Vector3 (Fin 0) (Fin 0) (r_angular_velocity raw ! 2),
        target_accel_linear = vector_of (map Fin (r_acceleration raw)),
        target_accel_angular = Vector3 (Fin 0) (Fin 0) (Fin (r_angular_acceleration raw ! 2)),
        trajectory_type = pub_type info, control_mode = pub_mode info, trajectory_phase = pub_phase info,
        time_s = Fin (trajectory_time_s n now),
        target_valid = pub_valid info \<and> \<not> (tracking_started k \<and> \<not> control_mode_is_compatible (active_type n) (active_mode n))\<rparr>"
  have len: "length (r_position raw) = 3" using post by (simp add: tick_post_def raw_shape_def)
  then obtain x y z where xyz: "r_position raw = [x, y, z]" using list_of_length3 by blast
  show ?thesis
    using assms(2-4) k post m1 xyz by (auto simp: tick_post_def vector_of_def same_inputs_def)
qed

theorem valid_target_in_pool_witness:
  "\<exists>n n' m. traj_run (traj_init demo_path demo_limits default_input_params 0) [EBody demo_body, EImu demo_imu] = Inr n
    \<and> trajectory_tick n 0 = Inr (n', m) \<and> (\<exists>x y z. target_position m = Vector3 (Fin x) (Fin y) (Fin z) \<and> inside (lp n) [x, y, z])"
proof -
  let ?n = "demo_ready demo_limits"
  have nt: "\<not> tracking_started ?n" by (simp add: demo_ready_def traj_init_def)
  have "idle_target_is_valid ?n (position (idle_hold_sample ?n))"
    by (simp add: idle_target_is_valid_def idle_hold_sample_def demo_ready_def demo_poses_def traj_init_def
        demo_limits_def pool_ok_def inside_def)
  moreover have "require_pool_bounds (lp ?n)" by (simp add: demo_ready_def traj_init_def demo_limits_def)
  ultimately show ?thesis
    using idle_tick [OF nt, of 0] demo_sensed [of demo_limits]
      valid_target_in_pool [of demo_path demo_limits default_input_params 0 "[EBody demo_body, EImu demo_imu]" ?n 0]
    by fastforce
qed

text \<open>
  C21: an approved path stays as approved.  While a task runs an automatic trajectory, no sequence
  of pose estimates, IMU samples, operator inputs and ticks changes the approach, the path or the
  attitude profile that later ticks sample.
\<close>

theorem approved_path_frozen:
  assumes "traj_run (traj_init p l g t0) es = Inr n" "tracking_started n"
    "active_type n \<in> set AUTOMATIC_TRAJECTORY_TYPES" "list_all input_event fs" "traj_run n fs = Inr n'"
    "ttype = ''move_to_trajectory_start'' \<or> ttype = active_type n"
  shows "tracking_started n' \<and> trajectory_time_s n' now = trajectory_time_s n now
    \<and> sample n' ttype t = sample n ttype t \<and> sample_attitude n' ttype t = sample_attitude n ttype t"
proof -
  have inv: "traj_inv n" by (rule traj_reachable_inv [OF assms(1)])
  have l: "latched n n'" using input_run_latched [OF inv assms(4)] assms(5) by (simp add: traj_run_def)
  have m: "motion_start_position n \<noteq> None" "motion_start_quaternion n \<noteq> None"
    using inv assms(2) by (simp_all add: traj_inv_def)
  show ?thesis
    using latched_sample [OF l m assms(3,6)] latched_sample_attitude [OF l m assms(3,6)] l assms(2)
    by (simp add: latched_def trajectory_time_s_def)
qed

theorem approved_path_frozen_witness:
  "\<exists>n'. traj_run demo_tracking [EBody (demo_body\<lparr>body_position := Vector3 (Fin 1) (Fin 1) (Fin 1)\<rparr>), EImu demo_imu] = Inr n'
    \<and> sample n' ''circle'' 5 = sample demo_tracking ''circle'' 5"
proof -
  let ?fs = "[EBody (demo_body\<lparr>body_position := Vector3 (Fin 1) (Fin 1) (Fin 1)\<rparr>), EImu demo_imu]"
  have a: "active_type demo_tracking = ''circle''" using demo_tracking_facts(1) active_demo by (simp add: demo_latched_def)
  obtain n' where n': "traj_run demo_tracking ?fs = Inr n'"
    using traj_machine.run_total [OF traj_reachable_inv [OF demo_started]] unfolding traj_run_def by blast
  show ?thesis
    using approved_path_frozen [OF demo_started demo_tracking_facts(3) _ _ n', of "''circle''" 0 5] n'
    by (simp add: a circle_automatic)
qed

text \<open>
  C20: the approach to an accepted trajectory is safe throughout.  The validation samples the
  approach at 201 times; when it accepts, the target stays inside the pool at every time of the
  approach, not only at the sampled ones, and after the move duration it rests exactly where the
  trajectory starts.
\<close>

theorem accepted_approach_in_pool:
  assumes "traj_run (traj_init p l g t0) es = Inr n" "active_type n \<in> set AUTOMATIC_TRAJECTORY_TYPES"
    "validate_scenario_envelope n = Inr (True, reason)"
  shows "\<exists>s. sample n ''move_to_trajectory_start'' t = Inr s \<and> inside (lp n) (position s)
    \<and> (max (1 / 10) (move_duration_s (pp n)) \<le> t \<longrightarrow>
        sample n (active_type n) 0 = Inr (path_sample n (active_type n) 0)
        \<and> position s = position (path_sample n (active_type n) 0) \<and> velocity s = [0, 0, 0])"
proof -
  have inv: "traj_inv n" by (rule traj_reachable_inv [OF assms(1)])
  let ?goal = "position (path_sample n (active_type n) 0)"
  let ?s = "approach_sample (move_duration_s (pp n)) (move_start n) ?goal t"
  have len: "length (move_start n) = 3" "length ?goal = 3"
    using move_start_length path_sample_shape inv by (auto simp: sample_shape_def)
  have "pool_ok (lp n)" using accepted_prelude [OF assms(3,2)] by simp
  moreover have "length (position ?s) = 3" using approach_shape [OF len] by (simp add: sample_shape_def)
  ultimately have "inside (lp n) (position ?s)"
    using inside_convex [OF _ len _ accepted_ends_inside [OF inv assms(3,2)] approach_between [OF len]] by blast
  then show ?thesis
    using sample_automatic [OF assms(2)] approach_end [OF len, of "move_duration_s (pp n)" t] by auto
qed

theorem accepted_approach_in_pool_witness:
  "\<exists>s. sample demo_tracking ''move_to_trajectory_start'' 7 = Inr s \<and> inside (lp demo_tracking) (position s)"
proof -
  have a: "active_type demo_tracking = ''circle''" using demo_tracking_facts(1) active_demo by (simp add: demo_latched_def)
  show ?thesis
    using accepted_approach_in_pool [OF demo_started _ demo_envelope [OF demo_tracking_facts(1,2)], of 7]
    by (auto simp: a circle_automatic)
qed

end
