(* ===== verification/Target_Interface.thy ===== *)
theory Target_Interface
  imports Pid_Node_Safety Trajectory_Safety
begin

text \<open>
  The interface between the target publisher and the PID node: which targets the publisher can
  send, which of them the readiness check accepts, and which of them the control tick survives.
\<close>

section \<open>Operator input without NaN gives finite targets\<close>

fun clean_event :: "traj_event \<Rightarrow> bool" where
  "clean_event (EOperator _ lin ang) \<longleftrightarrow> list_all (\<lambda>v. v \<noteq> NaN) [vx lin, vy lin, vz lin, vz ang]"
| "clean_event _ = True"

definition clean_node :: "traj_node \<Rightarrow> bool" where
  "clean_node n \<longleftrightarrow> traj_inv n \<and> pred_option (list_all (\<lambda>v. v \<noteq> NaN)) (operator_target_input (operator n))"

lemma callbacks_operator:
  "operator (on_body_state n m) = operator n" "operator (traj_on_imu n i) = operator n"
  "operator_target_input (operator (on_manual_command n t c)) = operator_target_input (operator n)"
  "operator (fst (on_reset_scenario n t)) = operator n"
  by (simp_all add: on_body_state_def traj_on_imu_def on_manual_command_def on_reset_scenario_def Let_def)

lemma validate_operator:
  assumes "traj_step n EValidate = Inr n'"
  shows "operator n' = operator n"
proof (cases "validatable n")
  case True
  then show ?thesis using validate_accepts [OF True] assms by (auto simp: store_envelope_def latch_start_def)
next
  case False
  then show ?thesis using validate_rejects [OF False] assms by auto
qed

lemma clean_step:
  assumes "clean_node n" "clean_event e" "traj_step n e = Inr n'"
  shows "clean_node n'"
proof -
  have inv: "traj_inv n" "traj_inv n'" using assms traj_machine.stepe_inv by (auto simp: clean_node_def)
  have "pred_option (list_all (\<lambda>v. v \<noteq> NaN)) (operator_target_input (operator n'))"
  proof (cases e)
    case (ETick t)
    show ?thesis
      by (rule traj_tick_cases [OF inv(1), of t]) (use assms ETick in \<open>auto simp: tick_post_def same_inputs_def clean_node_def\<close>)
  next
    case EValidate
    then show ?thesis using assms validate_operator [of n n'] by (simp add: clean_node_def)
  qed (use assms in \<open>auto simp: clean_node_def callbacks_operator on_operator_target_input_def on_stop_scenario_def no_operator_def\<close>)
  then show ?thesis using inv by (simp add: clean_node_def)
qed

lemma clean_run:
  "clean_node n \<Longrightarrow> list_all clean_event es \<Longrightarrow> run_machine traj_step n es = Inr n' \<Longrightarrow> clean_node n'"
  by (induction es arbitrary: n) (auto simp: err_simps intro: clean_step)

lemma clean_init: "clean_node (traj_init p l g t)"
  by (simp add: clean_node_def traj_init_inv) (simp add: traj_init_def no_operator_def)

lemma station_input_finite:
  assumes "clean_node n"
  shows "list_all isfinite (current_station_input n now) \<and> length (current_station_input n now) = 4"
  using assms
  by (auto simp: clean_node_def traj_inv_def operator_inv_def current_station_input_def list_all_iff flt_clip_Fin_iff split: option.splits)

definition finite_raw :: "raw_target \<Rightarrow> bool" where
  "finite_raw r \<longleftrightarrow> list_all isfinite (r_velocity r) \<and> list_all isfinite (r_angular_velocity r)"

lemma make_raw_finite [simp]: "finite_raw (make_raw s att)"
  by (cases att) (simp add: finite_raw_def make_raw_def)

lemma flt_times_finite: "isfinite v \<Longrightarrow> isfinite (flt_times v y)"
  by (cases v) simp_all

lemma mat_vec_finite: "list_all isfinite v \<Longrightarrow> list_all isfinite (flt_mat_vec m v)"
  by (simp add: flt_mat_vec_def)

lemma list_all_three: "list_all P xs \<Longrightarrow> length xs = 3 \<Longrightarrow> P (xs ! 0) \<and> P (xs ! 1) \<and> P (xs ! 2)"
  by (auto dest!: list_of_length3)

lemma station_raw_finite:
  assumes "clean_node n" "station_hold_target n now = (n', r)"
  shows "finite_raw r"
proof -
  obtain a b c d where u: "current_station_input n now = [a, b, c, d]" "list_all isfinite [a, b, c, d]"
    using station_input_finite [OF assms(1), of now] list_of_length4 [of "current_station_input n now"] by auto
  obtain q where r: "r_velocity r = (let v = flt_mat_vec (rotation_matrix (level_heading_quaternion q))
        [flt_times a \<bar>station_linear_input_gain_mps (gp n)\<bar>, flt_times b \<bar>station_lateral_input_gain_mps (gp n)\<bar>, Fin 0]
        in [v ! 0, v ! 1, flt_times c (- \<bar>manual_vertical_speed_mps (gp n)\<bar>)])"
    "r_angular_velocity r = flt_mat_vec (rotation_matrix (level_heading_quaternion q))
        [Fin 0, Fin 0, flt_times d \<bar>station_yaw_input_gain_rps (gp n)\<bar>]"
    using station_hold_parts [OF assms(2)] u(1) by (auto simp: Let_def)
  have len: "length (flt_mat_vec (rotation_matrix (level_heading_quaternion q)) v) = 3" for v
    by (simp add: flt_mat_vec_length rotation_matrix_length unit_quat_length)
  have "list_all isfinite (flt_mat_vec (rotation_matrix (level_heading_quaternion q))
        [flt_times a \<bar>station_linear_input_gain_mps (gp n)\<bar>, flt_times b \<bar>station_lateral_input_gain_mps (gp n)\<bar>, Fin 0])"
    using u(2) by (intro mat_vec_finite) (simp add: flt_times_finite)
  from list_all_three [OF this len] show ?thesis
    using u(2) unfolding finite_raw_def r
    by (simp add: Let_def flt_times_finite mat_vec_finite)
qed

lemma checked_raw: "checked n raw phase = Inr (n', raw', info) \<Longrightarrow> raw' = raw"
  by (auto simp: checked_def err_simps)

lemma tick_raw_finite:
  assumes "clean_node n" "tick_sample n now = Inr (n', raw, info)"
  shows "finite_raw raw"
proof -
  obtain k s where a: "altitude_hold_sample n now = (k, s)" by (cases "altitude_hold_sample n now")
  obtain k2 r where st: "station_hold_target n now = (k2, r)" by (cases "station_hold_target n now")
  show ?thesis
    using assms(2) station_raw_finite [OF assms(1) st] unfolding tick_sample_def Let_def a st prod.case
    by (auto simp: err_simps split: if_split_asm dest!: checked_raw)
qed

lemma published_good:
  assumes "clean_node n" "trajectory_tick n now = Inr (n', m)"
  shows "good_target m"
proof (rule traj_tick_cases [of n now])
  show "traj_inv n" using assms(1) by (simp add: clean_node_def)
next
  fix k raw info m1
  assume t: "tick_sample n now = Inr (k, raw, info)" "trajectory_tick n now = Inr (k, m1)" "tick_post n (k, raw, info)"
    and m1: "m1 = \<lparr>target_frame = ''map'',
        target_position = vector_of (map Fin (r_position raw)),
        target_orientation = quaternion_of (level_heading_quaternion (r_orientation raw)),
        target_linear = vector_of (r_velocity raw),
        target_angular = Vector3 (Fin 0) (Fin 0) (r_angular_velocity raw ! 2),
        target_accel_linear = vector_of (map Fin (r_acceleration raw)),
        target_accel_angular = Vector3 (Fin 0) (Fin 0) (Fin (r_angular_acceleration raw ! 2)),
        trajectory_type = pub_type info, control_mode = pub_mode info, trajectory_phase = pub_phase info,
        time_s = Fin (trajectory_time_s n now),
        target_valid = pub_valid info \<and> \<not> (tracking_started k \<and> \<not> control_mode_is_compatible (active_type n) (active_mode n))\<rparr>"
  have shape: "length (r_position raw) = 3" "length (r_velocity raw) = 3" "length (r_angular_velocity raw) = 3"
    using t(3) by (simp_all add: tick_post_def raw_shape_def)
  have fin: "finite_raw raw" by (rule tick_raw_finite [OF assms(1) t(1)])
  have q: "unit_quat (level_heading_quaternion (r_orientation raw))" by simp
  then have "\<exists>u. quaternion_from_message (quaternion_of (level_heading_quaternion (r_orientation raw))) = Inr u"
    using normalize_of_unit [OF q] by (auto simp: quaternion_from_message_def quaternion_of_def level_heading_eq)
  then show ?thesis
    using assms(2) t(2) m1 shape fin list_all_three [of isfinite "r_velocity raw"] list_all_three [of isfinite "r_angular_velocity raw"]
    by (auto simp: good_target_def finite_raw_def finite3_def vector_of_def)
qed

section \<open>The two nodes together\<close>

lemma node_run_append:
  "node_run n (xs @ ys) = ebind (node_run n xs) (\<lambda>(n1, out1). ebind (node_run n1 ys) (\<lambda>(n2, out2). Inr (n2, out1 @ out2)))"
proof (induction xs arbitrary: n)
  case Nil
  show ?case by (cases "node_run n ys") auto
next
  case (Cons x xs)
  show ?case
  proof (cases "node_event_step n x")
    case (Inr r)
    then obtain n1 o1 where r: "node_event_step n x = Inr (n1, o1)" by (cases r) auto
    show ?thesis
    proof (cases "node_run n1 xs")
      case i: (Inr r2)
      then obtain n2 o2 where "node_run n1 xs = Inr (n2, o2)" by (cases r2) auto
      then show ?thesis using r Cons.IH [of n1] by (cases "node_run n2 ys") auto
    qed (use r Cons.IH [of n1] in simp)
  qed simp
qed

lemma tracking_supported:
  assumes "control_mode_is_compatible (active_type n) (active_mode n)" "active_mode n \<noteq> ''rl_policy''"
  shows "compatible_target (active_type n) (active_mode n) \<and> active_type n \<in> set trajectory_types
    \<and> active_mode n \<in> set control_modes"
  using assms
  by (auto simp: control_mode_is_compatible_def compatible_target_def trajectory_types_def control_modes_def
      AUTOMATIC_TRAJECTORY_TYPES_def active_type_def active_mode_def Let_def split: if_split_asm)

lemma idle_supported:
  "compatible_target ''idle'' ''idle'' \<and> ''idle'' \<in> set trajectory_types \<and> ''idle'' \<in> set control_modes \<and> py_lower ''idle'' = ''idle''"
  by (simp add: compatible_target_def trajectory_types_def control_modes_def) code_simp

lemma published_modes:
  assumes "traj_inv n" "trajectory_tick n now = Inr (n', m)" "target_valid m"
  shows "trajectory_type m = ''idle'' \<and> control_mode m = ''idle''
    \<or> trajectory_type m = active_type n \<and> control_mode m = active_mode n
      \<and> control_mode_is_compatible (active_type n) (active_mode n)"
proof (cases "tracking_started n")
  case False
  then show ?thesis using idle_tick [OF False, of now] assms(2) by auto
next
  case True
  show ?thesis
    by (rule traj_tick_cases [OF assms(1), of now]) (use True assms in \<open>auto simp: tick_post_def same_inputs_def\<close>)
qed

text \<open>A non-finite velocity or angular rate in the target makes the feedback computation raise.\<close>

lemma quaternion_apply_nonfinite: "\<not> list_all isfinite v \<Longrightarrow> quaternion_apply q v = Inr x \<Longrightarrow> False"
  by (auto simp: quaternion_apply_def err_simps vec_Inr_conv)

lemma feedback_nonfinite:
  assumes "\<not> finite3 (target_linear t)"
  shows "\<exists>e. tick_feedback i b t = Inl e"
proof (cases "tick_feedback i b t")
  case (Inr fb)
  then obtain q x where "quaternion_apply q (arr3 (target_linear t)) = Inr x"
    unfolding tick_feedback_def Let_def ebind_Inr_conv by blast
  then show ?thesis using quaternion_apply_nonfinite assms unfolding finite3_def by blast
qed simp

lemma tick_nonfinite_target:
  assumes "pid_selected k" "target (inp k) = Some m" "\<not> finite3 (target_linear m)"
    "input_status k now = ([], ages)" "tick_dt k now = Fin dt" "1 / 10 ^ 4 \<le> dt" "dt \<le> 1 / 10"
  shows "\<exists>e. tick k now = Inl e"
  using feedback_nonfinite [OF assms(3), of "inp k" "the (body (inp k))"]
  by (auto simp: tick_ready [OF assms(1,4-7,2)])

lemma nan_station_target:
  assumes "traj_inv n" "operator_target_input (operator n) = Some [NaN, b, c, d]"
    "operator_target_input_ns (operator n) = Some now" "0 \<le> manual_input_age_s (gp n)"
    "station_hold_target n now = (n', r)"
  shows "r_velocity r ! 0 = NaN"
proof -
  have u: "current_station_input n now ! 0 = NaN"
    using assms by (simp add: current_station_input_def age_s_def)
  obtain q w where "r_velocity r ! 0 = flt_mat_vec (rotation_matrix (level_heading_quaternion q)) (NaN # w) ! 0"
    using station_hold_parts [OF assms(5)] u by (auto simp: Let_def)
  then show ?thesis by (simp add: flt_mat_vec_def rotation_matrix_length unit_quat_length)
qed

definition hold_path :: path_params where
  "hold_path = default_path_params\<lparr>p_trajectory_type := ''hold'', p_control_mode := ''station_hold_fast''\<rparr>"

lemma hold_active: "pp n = hold_path \<Longrightarrow> active_type n = ''hold'' \<and> active_mode n = ''station_hold_fast''"
  by (simp add: active_type_def active_mode_def hold_path_def default_path_params_def) code_simp

lemma hold_sensed:
  "traj_run (traj_init hold_path default_limit_params default_input_params 0) [EBody demo_body, EImu demo_imu] =
    Inr ((traj_init hold_path default_limit_params default_input_params 0)\<lparr>poses := demo_poses\<rparr>)"
  by (simp add: traj_run_def demo_poses_def traj_init_def on_body_state_def traj_on_imu_def demo_body_def
      demo_imu_def no_poses_def rpy_identity rpy_zero np_norm_def finite4_def Let_def)

lemma hold_started:
  "\<exists>n. traj_run (traj_init hold_path default_limit_params default_input_params 0)
     [EBody demo_body, EImu demo_imu, EValidate, EReset 0, EOperator 5 (Vector3 NaN (Fin 0) (Fin 0)) origin3] = Inr n
    \<and> tracking_started n \<and> pp n = hold_path \<and> lp n = default_limit_params \<and> gp n = default_input_params
    \<and> operator_target_input (operator n) = Some [NaN, Fin 0, Fin 0, Fin 0] \<and> operator_target_input_ns (operator n) = Some 5"
proof -
  let ?r = "(traj_init hold_path default_limit_params default_input_params 0)\<lparr>poses := demo_poses\<rparr>"
  have a: "active_type ?r = ''hold''" "active_mode ?r = ''station_hold_fast''"
    using hold_active [of ?r] by (simp_all add: traj_init_def)
  have c: "control_mode_is_compatible ''hold'' ''station_hold_fast''" by code_simp
  have v: "validatable ?r" unfolding validatable_def a using c by (simp add: demo_poses_def)
  obtain w r where w: "on_validate_scenario ?r = Inr (store_envelope (latch_start ?r) w, r)"
    using validate_accepts [OF v] by blast
  let ?v = "store_envelope (latch_start ?r) w"
  have p: "pp ?v = hold_path" "motion_start_position ?v \<noteq> None" "motion_start_quaternion ?v \<noteq> None"
    by (simp_all add: store_envelope_def latch_start_def traj_init_def demo_poses_def)
  have reset: "fst (on_reset_scenario ?v 0) = ?v\<lparr>holds := latch_holds ?v, started_ns := 0, tracking_started := True\<rparr>"
    using hold_active [OF p(1)] c p(2,3) by (auto simp: on_reset_scenario_def)
  have "run_machine traj_step ?r [EValidate, EReset 0, EOperator 5 (Vector3 NaN (Fin 0) (Fin 0)) origin3] =
      Inr (on_operator_target_input (?v\<lparr>holds := latch_holds ?v, started_ns := 0, tracking_started := True\<rparr>) 5 (Vector3 NaN (Fin 0) (Fin 0)) origin3)"
    using w reset by simp
  then have "traj_run (traj_init hold_path default_limit_params default_input_params 0)
     [EBody demo_body, EImu demo_imu, EValidate, EReset 0, EOperator 5 (Vector3 NaN (Fin 0) (Fin 0)) origin3] =
     Inr (on_operator_target_input (?v\<lparr>holds := latch_holds ?v, started_ns := 0, tracking_started := True\<rparr>) 5 (Vector3 NaN (Fin 0) (Fin 0)) origin3)"
    using hold_sensed run_machine_append [of traj_step _ "[EBody demo_body, EImu demo_imu]"
        "[EValidate, EReset 0, EOperator 5 (Vector3 NaN (Fin 0) (Fin 0)) origin3]"]
    by (simp add: traj_run_def)
  then show ?thesis
    by (simp add: on_operator_target_input_def store_envelope_def latch_start_def traj_init_def origin3_def)
qed

end
