(* ===== verification/Safety_Monitor.thy ===== *)
theory Safety_Monitor
  imports Ros_Interface
begin

text \<open>
  The node \<^verbatim>\<open>robotcore_runtime/safety_monitor.py\<close>: it owns the abort latch and emits a
  fail-closed heartbeat.  The state is the record of the node's attributes; a handler takes the
  steady clock reading of its call and returns the new state with what it publishes.
\<close>

section \<open>State and messages\<close>

record board_status =
  connected :: bool
  heartbeat_ok :: bool
  failsafe_active :: bool

record safety_monitor =
  board_status_timeout_s :: pyfloat
  operator_abort_active :: bool
  operator_abort_reason :: string
  abort_active :: bool
  board_status_ns :: "int option"
  board_connected :: bool
  board_heartbeat_ok :: bool
  board_failsafe_active :: bool

datatype safety_level = LEVEL_INFO | LEVEL_ABORT

record safety_event =
  event_level :: safety_level
  event_code :: string
  event_message :: string
  event_abort_active :: bool
  event_source :: string

record abort_response =
  accepted :: bool
  response_abort_active :: bool
  response_message :: string

definition safety_parameters :: param_store where
  "safety_parameters = [(''publish_rate_hz'', PDouble (Fin 10)), (''board_status_timeout_s'', PDouble (Fin (1 / 2)))]"

definition safety_init :: "pyfloat \<Rightarrow> safety_monitor" where
  "safety_init timeout =
     \<lparr>board_status_timeout_s = timeout, operator_abort_active = False, operator_abort_reason = '''',
      abort_active = True, board_status_ns = None, board_connected = False,
      board_heartbeat_ok = False, board_failsafe_active = False\<rparr>"

section \<open>Handlers\<close>

definition on_board_status :: "safety_monitor \<Rightarrow> int \<Rightarrow> board_status \<Rightarrow> safety_monitor" where
  "on_board_status s now_ns m =
     s\<lparr>board_connected := connected m, board_heartbeat_ok := heartbeat_ok m,
       board_failsafe_active := failsafe_active m, board_status_ns := Some now_ns\<rparr>"

definition board_failure :: "safety_monitor \<Rightarrow> int \<Rightarrow> (string \<times> string) option" where
  "board_failure s now_ns =
     (case board_status_ns s of
        None \<Rightarrow> Some (''BOARD_STATUS_MISSING'', ''low-level board status is missing'')
      | Some t \<Rightarrow>
          let timeout_s = flt_max (Fin 0) (board_status_timeout_s s) in
          if flt_lt timeout_s (age_s now_ns (Some t))
          then Some (''BOARD_STATUS_STALE'', ''low-level board status is stale'')
          else if \<not> board_connected s
          then Some (''BOARD_DISCONNECTED'', ''low-level board is disconnected'')
          else if \<not> board_heartbeat_ok s
          then Some (''BOARD_HEARTBEAT_LOST'', ''low-level board heartbeat is not healthy'')
          else if board_failsafe_active s
          then Some (''BOARD_FAILSAFE_ACTIVE'', ''low-level board failsafe is active'')
          else None)"

definition update_abort_state :: "safety_monitor \<Rightarrow> int \<Rightarrow> safety_monitor \<times> (string \<times> string)" where
  "update_abort_state s now_ns =
     (case board_failure s now_ns of
        Some failure \<Rightarrow> (s\<lparr>abort_active := True\<rparr>, failure)
      | None \<Rightarrow>
          if operator_abort_active s
          then (s\<lparr>abort_active := True\<rparr>, (''ABORT_ACTIVE'',
                 if operator_abort_reason s = '''' then ''operator_request'' else operator_abort_reason s))
          else (s\<lparr>abort_active := False\<rparr>, (''ABORT_CLEAR'', ''Safety monitor healthy'')))"

definition publish_event :: "safety_monitor \<Rightarrow> safety_level \<Rightarrow> string \<Rightarrow> string \<Rightarrow> safety_event" where
  "publish_event s lvl code message =
     \<lparr>event_level = lvl, event_code = code, event_message = message,
      event_abort_active = abort_active s, event_source = ''safety_monitor''\<rparr>"

definition handle_abort ::
  "safety_monitor \<Rightarrow> int \<Rightarrow> bool \<Rightarrow> string \<Rightarrow> safety_monitor \<times> safety_event \<times> abort_response" where
  "handle_abort s now_ns abort reason =
     (let s1 = s\<lparr>operator_abort_active := abort,
                operator_abort_reason := (if abort then (if reason = '''' then ''operator_request'' else reason) else '''')\<rparr>;
          (s2, code0, message0) = update_abort_state s1 now_ns;
          (code, message) = (if \<not> abort_active s2 then (''ABORT_CLEARED'', ''Abort state cleared'') else (code0, message0));
          event = publish_event s2 (if abort_active s2 then LEVEL_ABORT else LEVEL_INFO) code message
      in (s2, event, \<lparr>accepted = True, response_abort_active = abort_active s2, response_message = message\<rparr>))"

definition safety_tick :: "safety_monitor \<Rightarrow> int \<Rightarrow> safety_monitor \<times> safety_event" where
  "safety_tick s now_ns =
     (let (s1, code, message) = update_abort_state s now_ns
      in (s1, publish_event s1 (if abort_active s1 then LEVEL_ABORT else LEVEL_INFO) code message))"

section \<open>Runs\<close>

datatype safety_input = BoardStatus int board_status | Abort int bool string | Tick int

fun safety_step :: "safety_monitor \<Rightarrow> safety_input \<Rightarrow> safety_monitor" where
  "safety_step s (BoardStatus now m) = on_board_status s now m"
| "safety_step s (Abort now abort reason) = fst (handle_abort s now abort reason)"
| "safety_step s (Tick now) = fst (safety_tick s now)"

fun safety_output :: "safety_monitor \<Rightarrow> safety_input \<Rightarrow> safety_event list" where
  "safety_output s (BoardStatus now m) = []"
| "safety_output s (Abort now abort reason) = [fst (snd (handle_abort s now abort reason))]"
| "safety_output s (Tick now) = [snd (safety_tick s now)]"

text \<open>
  What the inputs so far say, independently of the node's state: the last board status with its
  arrival time and the last operator request.
\<close>

fun last_board :: "safety_input list \<Rightarrow> (int \<times> board_status) option" where
  "last_board [] = None"
| "last_board (BoardStatus t m # es) = (case last_board es of None \<Rightarrow> Some (t, m) | Some r \<Rightarrow> Some r)"
| "last_board (_ # es) = last_board es"

definition last_request :: "safety_input list \<Rightarrow> bool" where
  "last_request es = foldl (\<lambda>r e. case e of Abort _ abort _ \<Rightarrow> abort | _ \<Rightarrow> r) False es"

definition board_healthy :: "pyfloat \<Rightarrow> int \<Rightarrow> safety_input list \<Rightarrow> bool" where
  "board_healthy timeout now es \<longleftrightarrow>
     (case last_board es of None \<Rightarrow> False
      | Some (t, m) \<Rightarrow> \<not> flt_lt (flt_max (Fin 0) timeout) (age_s now (Some t))
          \<and> connected m \<and> heartbeat_ok m \<and> \<not> failsafe_active m)"

lemma last_request_snoc [simp]:
  "last_request (es @ [e]) = (case e of Abort _ abort _ \<Rightarrow> abort | _ \<Rightarrow> last_request es)"
  by (cases e) (simp_all add: last_request_def)

lemma last_request_Nil [simp]: "\<not> last_request []"
  by (simp add: last_request_def)

lemma last_board_append:
  "last_board (es @ fs) = (case last_board fs of None \<Rightarrow> last_board es | Some r \<Rightarrow> Some r)"
  by (induction es rule: last_board.induct) (auto split: option.splits)

text \<open>The simulation relation between the node and the history of its inputs.\<close>

definition tracks :: "pyfloat \<Rightarrow> safety_monitor \<Rightarrow> safety_input list \<Rightarrow> bool" where
  "tracks timeout s es \<longleftrightarrow>
     board_status_timeout_s s = timeout
     \<and> operator_abort_active s = last_request es
     \<and> board_status_ns s = map_option fst (last_board es)
     \<and> (\<forall>t m. last_board es = Some (t, m) \<longrightarrow>
          board_connected s = connected m \<and> board_heartbeat_ok s = heartbeat_ok m
          \<and> board_failsafe_active s = failsafe_active m)"

lemma fst_handle_abort:
  "fst (handle_abort s now abort reason) = fst (update_abort_state (s\<lparr>operator_abort_active := abort,
     operator_abort_reason := (if abort then (if reason = '''' then ''operator_request'' else reason) else '''')\<rparr>) now)"
  by (simp add: handle_abort_def Let_def split: prod.splits)

lemma fst_safety_tick: "fst (safety_tick s now) = fst (update_abort_state s now)"
  by (simp add: safety_tick_def split: prod.splits)

lemma tracks_update: "tracks timeout s es \<Longrightarrow> tracks timeout (fst (update_abort_state s now)) es"
  by (simp add: tracks_def update_abort_state_def split: option.splits)

lemma tracks_step: "tracks timeout s es \<Longrightarrow> tracks timeout (safety_step s e) (es @ [e])"
proof (cases e)
  case (BoardStatus now m)
  assume "tracks timeout s es"
  then show ?thesis by (simp add: BoardStatus tracks_def on_board_status_def last_board_append)
next
  case (Abort now abort reason)
  assume "tracks timeout s es"
  then have "tracks timeout (s\<lparr>operator_abort_active := abort,
     operator_abort_reason := (if abort then (if reason = '''' then ''operator_request'' else reason) else '''')\<rparr>) (es @ [e])"
    by (simp add: Abort tracks_def last_board_append)
  then show ?thesis unfolding Abort safety_step.simps fst_handle_abort by (rule tracks_update)
next
  case (Tick now)
  assume "tracks timeout s es"
  then have "tracks timeout s (es @ [e])" by (simp add: Tick tracks_def last_board_append)
  then show ?thesis unfolding Tick safety_step.simps fst_safety_tick by (rule tracks_update)
qed

lemma tracks_run: "tracks timeout (foldl safety_step (safety_init timeout) es) es"
proof (induction es rule: rev_induct)
  case Nil
  show ?case by (simp add: tracks_def safety_init_def)
next
  case (snoc e es)
  then show ?case by (simp add: tracks_step)
qed

lemma tracks_failure: "tracks timeout s es \<Longrightarrow> board_failure s now = None \<longleftrightarrow> board_healthy timeout now es"
  by (cases "last_board es")
    (auto simp: tracks_def board_failure_def board_healthy_def Let_def split: option.splits prod.splits)

section \<open>Properties\<close>

text \<open>
  C6: the heartbeat reports exactly what the inputs justify.  After any sequence of board
  messages, operator requests and ticks, a tick clears the abort exactly when the most recent
  board status is fresh, connected, with heartbeat and without failsafe, and the most recent
  operator request is not an abort; the event's level, flag and code agree.
\<close>

theorem safety_heartbeat_correct:
  fixes es :: "safety_input list" and timeout :: pyfloat and now :: int
  defines "r \<equiv> safety_tick (foldl safety_step (safety_init timeout) es) now"
  shows "abort_active (fst r) = (\<not> (board_healthy timeout now es \<and> \<not> last_request es))
    \<and> event_abort_active (snd r) = abort_active (fst r)
    \<and> (event_level (snd r) = LEVEL_INFO) = (\<not> abort_active (fst r))
    \<and> (event_code (snd r) = ''ABORT_CLEAR'') = (\<not> abort_active (fst r))"
proof -
  define s where "s = foldl safety_step (safety_init timeout) es"
  have t: "tracks timeout s es" unfolding s_def by (rule tracks_run)
  have f: "board_failure s now = None \<longleftrightarrow> board_healthy timeout now es" by (rule tracks_failure [OF t])
  have req: "operator_abort_active s = last_request es" using t by (simp add: tracks_def)
  have code: "board_failure s now = Some (c, m) \<Longrightarrow> c \<noteq> ''ABORT_CLEAR''" for c m
    by (auto simp: board_failure_def Let_def split: option.splits if_split_asm)
  show ?thesis
    using f req code unfolding r_def s_def [symmetric]
    by (auto simp: safety_tick_def update_abort_state_def publish_event_def split: option.splits prod.splits)
qed

text \<open>
  The operator cannot clear a board fault.  A service call that withdraws the abort leaves
  the abort active while the board is missing, stale, disconnected, without heartbeat or in
  failsafe, and reports so; with a healthy board it clears the latch.  A request to abort always
  results in an active abort, and the reply and the published event carry the node's state.
\<close>

theorem operator_cannot_clear_board_fault:
  fixes es :: "safety_input list" and timeout :: pyfloat and now :: int
  defines "s \<equiv> foldl safety_step (safety_init timeout) es"
  shows "case handle_abort s now abort reason of (s', event, response) \<Rightarrow>
    (\<not> abort_active s') = (\<not> abort \<and> board_healthy timeout now es)
    \<and> response_abort_active response = abort_active s' \<and> event_abort_active event = abort_active s'
    \<and> (event_code event = ''ABORT_CLEARED'') = (\<not> abort \<and> board_healthy timeout now es)"
proof -
  define s1 where "s1 = s\<lparr>operator_abort_active := abort,
     operator_abort_reason := (if abort then (if reason = '''' then ''operator_request'' else reason) else '''')\<rparr>"
  have "tracks timeout s es" unfolding s_def by (rule tracks_run)
  then have "tracks timeout s1 (es @ [Abort now abort reason])"
    by (simp add: tracks_def s1_def last_board_append)
  from tracks_failure [OF this] have f: "board_failure s1 now = None \<longleftrightarrow> board_healthy timeout now es"
    by (simp add: board_healthy_def last_board_append)
  have code: "board_failure s1 now = Some (c, m) \<Longrightarrow> c \<noteq> ''ABORT_CLEARED''" for c m
    by (auto simp: board_failure_def Let_def split: option.splits if_split_asm)
  have req: "operator_abort_active s1 = abort" by (simp add: s1_def)
  show ?thesis
    using f req code unfolding handle_abort_def s1_def [symmetric] Let_def
    by (auto simp: update_abort_state_def publish_event_def split: option.splits prod.splits)
qed

end
