(* ===== verification/Tracking_Monitor.thy ===== *)
theory Tracking_Monitor
  imports Quaternion_Math Ros_Interface
begin

text \<open>
  The tracking diagnostics node, \<^verbatim>\<open>robotcore_runtime/tracking_monitor_node.py\<close>: its own quaternion
  helpers, the acceleration estimate, the freshness test and the timer callback that publishes a
  \<^verbatim>\<open>TrackingStatus\<close>.  Numbers in messages are finite here, so arrays are lists of reals.  The
  helpers repeat what \<^verbatim>\<open>control_math.py\<close> computes for the controller; the lemmas relate the two.
\<close>

section \<open>Quaternion helpers\<close>

definition vector_norm :: "real list \<Rightarrow> real" where
  "vector_norm values = sqrt (sum_list (map (\<lambda>v. v ^ 2) values))"

fun quat_conjugate_wxyz :: "real list \<Rightarrow> real list" where
  "quat_conjugate_wxyz [w, x, y, z] = [w, - x, - y, - z]"
| "quat_conjugate_wxyz _ = []"

fun quat_apply_wxyz :: "real list \<Rightarrow> real list \<Rightarrow> real list" where
  "quat_apply_wxyz [w, x, y, z] [ux, uy, uz] =
     (let tx = 2 * (y * uz - z * uy); ty = 2 * (z * ux - x * uz); tz = 2 * (x * uy - y * ux) in
      [ux + w * tx + (y * tz - z * ty), uy + w * ty + (z * tx - x * tz), uz + w * tz + (x * ty - y * tx)])"
| "quat_apply_wxyz _ _ = []"

fun monitor_quaternion_to_rpy :: "real list \<Rightarrow> exc + real list" where
  "monitor_quaternion_to_rpy [w, x, y, z] =
     (let norm = sqrt (w * w + x * x + y * y + z * z) in
      if norm \<le> 1 / 10 ^ 9 then Inl (ValueError ''quaternion norm is zero'')
      else let w = w / norm; x = x / norm; y = y / norm; z = z / norm in
        Inr [atan2 (2 * (w * x + y * z)) (1 - 2 * (x * x + y * y)),
             arcsin (max (- 1) (min 1 (2 * (w * y - z * x)))),
             atan2 (2 * (w * z + x * y)) (1 - 2 * (y * y + z * z))])"
| "monitor_quaternion_to_rpy _ = Inl (ValueError ''not enough values to unpack'')"

definition rpy_quaternion :: "real \<Rightarrow> real \<Rightarrow> real \<Rightarrow> real list" where
  "rpy_quaternion roll pitch yaw =
     (let cr = cos (roll / 2); sr = sin (roll / 2); cp = cos (pitch / 2); sp = sin (pitch / 2);
          cy = cos (yaw / 2); sy = sin (yaw / 2) in
      [cr * cp * cy + sr * sp * sy, sr * cp * cy - cr * sp * sy,
       cr * sp * cy + sr * cp * sy, cr * cp * sy - sr * sp * cy])"

fun relative_quaternion :: "real list \<Rightarrow> real list \<Rightarrow> real list" where
  "relative_quaternion [cw, cx, cy, cz] [tw, tx, ty, tz] =
     [cw * tw - cx * tx - cy * ty - cz * tz, cw * tx + cx * tw + cy * tz - cz * ty,
      cw * ty - cx * tz + cy * tw + cz * tx, cw * tz + cx * ty - cy * tx + cz * tw]"
| "relative_quaternion _ _ = []"

definition monitor_error_body :: "real list \<Rightarrow> real list \<Rightarrow> real list" where
  "monitor_error_body current goal =
     (let relative = relative_quaternion (quat_conjugate_wxyz current) goal;
          norm = vector_norm relative in
      if norm \<le> 1 / 10 ^ 9 then [0, 0, 0]
      else
        let relative = map (\<lambda>v. v / norm) relative;
            relative = (if relative ! 0 < 0 then map uminus relative else relative);
            vnorm = vector_norm (drop 1 relative) in
        if vnorm \<le> 1 / 10 ^ 10 then map (\<lambda>v. 2 * v) (drop 1 relative)
        else let angle = 2 * atan2 vnorm (max 0 (relative ! 0)) in map (\<lambda>v. v * angle / vnorm) (drop 1 relative))"

section \<open>State\<close>

record monitor_body =
  mb_frame :: string
  mb_position :: "real list"
  mb_orientation :: "real list"
  mb_linear :: "real list"
  mb_linear_valid :: bool
  mb_position_estimated :: bool
  mb_state_valid :: bool

record monitor_imu =
  mi_frame :: string
  mi_orientation :: "real list"
  mi_covariance0 :: real
  mi_rate :: "real list"

record monitor_target =
  mt_frame :: string
  mt_position :: "real list"
  mt_orientation :: "real list"
  mt_linear :: "real list"
  mt_angular :: "real list"
  mt_accel_linear :: "real list"
  mt_type :: string
  mt_control_mode :: string
  mt_time_s :: real
  mt_valid :: bool

record monitor =
  max_age_s :: real
  last_body :: "monitor_body option"
  last_body_ns :: "int option"
  last_imu :: "monitor_imu option"
  last_imu_ns :: "int option"
  last_target :: "monitor_target option"
  last_target_ns :: "int option"
  previous_velocity_body :: "real list option"
  previous_velocity_ns :: "int option"
  filtered_acceleration_body :: "real list"

record tracking_status =
  ts_frame :: string
  ts_type :: string
  ts_control_mode :: string
  ts_valid :: bool
  ts_time_s :: real
  ts_target_position :: "real list"
  ts_actual_position :: "real list"
  ts_target_orientation :: "real list"
  ts_actual_orientation :: "real list"
  ts_target_velocity_body :: "real list"
  ts_actual_velocity_body :: "real list"
  ts_target_acceleration_body :: "real list"
  ts_actual_acceleration_body :: "real list"
  ts_target_angular_velocity_body :: "real list"
  ts_actual_angular_velocity_body :: "real list"
  ts_position_error_body :: "real list"
  ts_orientation_error_body :: "real list"
  ts_position_error_m :: real
  ts_orientation_error_rad :: real
  ts_velocity_error_mps :: real
  ts_angular_velocity_error_rps :: real
  ts_speed_mps :: real
  ts_acceleration_mps2 :: real

definition monitor_init :: "real \<Rightarrow> monitor" where
  "monitor_init max_age =
     \<lparr>max_age_s = max_age, last_body = None, last_body_ns = None, last_imu = None, last_imu_ns = None,
      last_target = None, last_target_ns = None, previous_velocity_body = None, previous_velocity_ns = None,
      filtered_acceleration_body = [0, 0, 0]\<rparr>"

text \<open>The timer period \<^verbatim>\<open>1.0 / max(rate, 0.1)\<close>.\<close>

definition monitor_period :: "real \<Rightarrow> real" where
  "monitor_period rate = 1 / max rate (1 / 10)"

section \<open>Callbacks\<close>

definition monitor_on_body :: "int \<Rightarrow> monitor_body \<Rightarrow> monitor \<Rightarrow> monitor" where
  "monitor_on_body now b n = n\<lparr>last_body := Some b, last_body_ns := Some now\<rparr>"

definition monitor_on_imu :: "int \<Rightarrow> monitor_imu \<Rightarrow> monitor \<Rightarrow> monitor" where
  "monitor_on_imu now i n =
     (let norm = sqrt (sum_list (map (\<lambda>v. v * v) (mi_orientation i))) in
      if mi_frame i \<noteq> ''base_link'' \<or> mi_covariance0 i < 0 \<or> norm \<le> 1 / 10 ^ 9 then n
      else n\<lparr>last_imu := Some i, last_imu_ns := Some now\<rparr>)"

definition monitor_on_target :: "int \<Rightarrow> monitor_target \<Rightarrow> monitor \<Rightarrow> monitor" where
  "monitor_on_target now t n = n\<lparr>last_target := Some t, last_target_ns := Some now\<rparr>"

text \<open>\<^verbatim>\<open>int(x)\<close> truncates towards zero.\<close>

definition truncate :: "real \<Rightarrow> int" where
  "truncate x = (if 0 \<le> x then \<lfloor>x\<rfloor> else \<lceil>x\<rceil>)"

definition inputs_are_fresh :: "monitor \<Rightarrow> int \<Rightarrow> bool" where
  "inputs_are_fresh n now =
     (let max_age_ns = truncate (max_age_s n * 10 ^ 9) in
      case (last_body_ns n, last_imu_ns n, last_target_ns n) of
        (Some b, Some i, Some t) \<Rightarrow> now - b \<le> max_age_ns \<and> now - i \<le> max_age_ns \<and> now - t \<le> max_age_ns
      | _ \<Rightarrow> False)"

definition estimate_actual_acceleration :: "monitor \<Rightarrow> real list \<Rightarrow> int \<Rightarrow> monitor \<times> real list" where
  "estimate_actual_acceleration n velocity now =
     (case (previous_velocity_body n, previous_velocity_ns n) of
        (Some v0, Some t0) \<Rightarrow>
          let dt = real_of_int (now - t0) * (1 / 10 ^ 9) in
          if dt \<le> 1 / 10 ^ 4 then (n, filtered_acceleration_body n)
          else
            let raw = map2 (\<lambda>v u. (v - u) / dt) velocity v0;
                alpha = 35 / 100;
                filtered = map2 (\<lambda>r f. alpha * r + (1 - alpha) * f) raw (filtered_acceleration_body n) in
            (n\<lparr>filtered_acceleration_body := filtered, previous_velocity_body := Some velocity,
               previous_velocity_ns := Some now\<rparr>, filtered)
      | _ \<Rightarrow> (n\<lparr>previous_velocity_body := Some velocity, previous_velocity_ns := Some now\<rparr>,
              filtered_acceleration_body n))"

definition monitor_attitude :: "monitor_body \<Rightarrow> monitor_imu \<Rightarrow> exc + real list" where
  "monitor_attitude body imu =
     ebind (monitor_quaternion_to_rpy (mi_orientation imu)) (\<lambda>imu_rpy.
     ebind (monitor_quaternion_to_rpy (mb_orientation body)) (\<lambda>map_rpy.
     Inr (rpy_quaternion (imu_rpy ! 0) (imu_rpy ! 1) (map_rpy ! 2))))"

definition build_status ::
  "bool \<Rightarrow> monitor_body \<Rightarrow> monitor_imu \<Rightarrow> monitor_target \<Rightarrow> real list \<Rightarrow> real list \<Rightarrow> tracking_status" where
  "build_status valid body imu goal attitude acceleration =
     (let map_to_body = quat_conjugate_wxyz (mb_orientation body);
          attitude_to_body = quat_conjugate_wxyz attitude;
          target_velocity = quat_apply_wxyz map_to_body (mt_linear goal);
          target_acceleration = quat_apply_wxyz map_to_body (mt_accel_linear goal);
          position_error_world = map2 (-) (mt_position goal) (mb_position body);
          position_error = quat_apply_wxyz map_to_body position_error_world;
          target_rate = quat_apply_wxyz attitude_to_body (mt_angular goal);
          orientation_error = monitor_error_body attitude (mt_orientation goal) in
      \<lparr>ts_frame = (if mb_frame body \<noteq> '''' then mb_frame body else if mt_frame goal \<noteq> '''' then mt_frame goal else ''map''),
       ts_type = mt_type goal, ts_control_mode = mt_control_mode goal, ts_valid = valid, ts_time_s = mt_time_s goal,
       ts_target_position = mt_position goal, ts_actual_position = mb_position body,
       ts_target_orientation = mt_orientation goal, ts_actual_orientation = attitude,
       ts_target_velocity_body = target_velocity, ts_actual_velocity_body = mb_linear body,
       ts_target_acceleration_body = target_acceleration, ts_actual_acceleration_body = acceleration,
       ts_target_angular_velocity_body = target_rate, ts_actual_angular_velocity_body = mi_rate imu,
       ts_position_error_body = position_error, ts_orientation_error_body = orientation_error,
       ts_position_error_m = vector_norm position_error_world,
       ts_orientation_error_rad = vector_norm orientation_error,
       ts_velocity_error_mps = vector_norm (map2 (-) target_velocity (mb_linear body)),
       ts_angular_velocity_error_rps = vector_norm (map2 (-) target_rate (mi_rate imu)),
       ts_speed_mps = vector_norm (mb_linear body), ts_acceleration_mps2 = vector_norm acceleration\<rparr>)"

definition monitor_tick :: "monitor \<Rightarrow> int \<Rightarrow> exc + monitor \<times> tracking_status option" where
  "monitor_tick n now =
     (case (last_body n, last_imu n, last_target n) of
        (Some body, Some imu, Some goal) \<Rightarrow>
          let valid = (inputs_are_fresh n now \<and> (mb_state_valid body \<or> mb_position_estimated body)
                       \<and> mb_linear_valid body \<and> mt_valid goal) in
          ebind (monitor_attitude body imu) (\<lambda>attitude.
          let (n', acceleration) = estimate_actual_acceleration n (mb_linear body) now in
          Inr (n', Some (build_status valid body imu goal attitude acceleration)))
      | _ \<Rightarrow> Inr (n, None))"

section \<open>Events\<close>

datatype monitor_event =
    MonBody int monitor_body | MonImu int monitor_imu | MonTarget int monitor_target | MonTick int

fun monitor_step :: "monitor \<Rightarrow> monitor_event \<Rightarrow> exc + monitor" where
  "monitor_step n (MonBody now b) = Inr (monitor_on_body now b n)"
| "monitor_step n (MonImu now i) = Inr (monitor_on_imu now i n)"
| "monitor_step n (MonTarget now t) = Inr (monitor_on_target now t n)"
| "monitor_step n (MonTick now) = ebind (monitor_tick n now) (\<lambda>(n', status). Inr n')"

section \<open>The helpers agree with the controller's\<close>

lemma vector_norm_eq: "vector_norm xs = np_norm xs"
  by (simp add: vector_norm_def np_norm_def)

lemma quat_conjugate_eq: "quat_conjugate_wxyz q = conj4 q"
  by (cases q rule: conj4.cases) simp_all

lemma relative_quaternion_eq: "relative_quaternion p q = hamilton p q"
  by (cases "(p, q)" rule: hamilton.cases) simp_all

lemma quat_apply_eq: "length v = 3 \<Longrightarrow> length q = 4 \<Longrightarrow> quat_apply_wxyz q v = qrotate q v"
  by (auto simp: rotate_eq Let_def dest!: list_of_length3 list_of_length4)

lemma rpy_quaternion_eq: "rpy_quaternion r p y = rpy_components r p y"
  by (simp add: rpy_quaternion_def rpy_components_def)

lemma monitor_rpy_eq:
  assumes "length q = 4"
  shows "monitor_quaternion_to_rpy q = quaternion_to_rpy (map Fin q)"
proof -
  obtain w x y z where q: "q = [w, x, y, z]"
    using list_of_length4 [OF assms] by blast
  have "sqrt (w * w + x * x + y * y + z * z) = np_norm q"
    by (simp add: q np_norm4 power2_eq_square)
  moreover have "max (- 1) (min 1 v) = clip v (- 1) 1" for v :: real
    by (auto simp: clip_def)
  ultimately show ?thesis
    by (simp add: q quaternion_to_rpy_def normalize_quaternion_def Let_def)
qed

lemma hamilton_scale: "hamilton p (vscale k q) = vscale k (hamilton p q)"
  by (cases "(p, q)" rule: hamilton.cases) (simp_all add: vscale_def algebra_simps)

lemma normalized_relative:
  assumes p: "unit_quat p" and q: "length q = 4" "np_norm q > 1 / 10 ^ 9"
    and u: "normalize_quaternion (map Fin q) = Inr u"
  shows "np_norm (hamilton (conj4 p) q) = np_norm q"
    and "map (\<lambda>v. v / np_norm q) (hamilton (conj4 p) q) = hamilton (conj4 p) u"
proof -
  have "(0 :: real) < 1 / 10 ^ 9"
    by simp
  then have pos: "0 < np_norm q"
    using q(2) by linarith
  have ueq: "u = vscale (1 / np_norm q) q"
    using u q by (auto simp: normalize_quaternion_def Let_def vscale_def split: if_split_asm)
  then have qeq: "q = vscale (np_norm q) u"
    using pos by (simp add: vscale_def comp_def)
  have "unit_quat (hamilton (conj4 p) u)"
    using p normalize_unit [OF u] by (intro unit_hamilton unit_conj4)
  then have "np_norm (vscale (np_norm q) (hamilton (conj4 p) u)) = np_norm q"
    using pos by (simp add: np_norm_vscale unit_quat_def)
  then show "np_norm (hamilton (conj4 p) q) = np_norm q"
    using qeq by (metis hamilton_scale)
  show "map (\<lambda>v. v / np_norm q) (hamilton (conj4 p) q) = hamilton (conj4 p) u"
    using hamilton_scale [of "conj4 p" "1 / np_norm q" q] by (simp add: ueq vscale_def)
qed

lemma monitor_error_eq:
  assumes p: "unit_quat p" and q: "length q = 4" "np_norm q > 1 / 10 ^ 9"
  shows "quaternion_error_body (map Fin p) (map Fin q) = Inr (monitor_error_body p q)"
proof -
  obtain u where u: "normalize_quaternion (map Fin q) = Inr u"
    using q normalize_Inr_iff [of "map Fin q"] by blast
  have len: "length (hamilton (conj4 p) u) = 4"
    using p normalize_unit [OF u] by (metis unit_conj4 unit_hamilton unit_quat_def)
  have "monitor_error_body p q = rotation_vector (shortest (hamilton (conj4 p) u))"
    using q(2) normalized_relative [OF p q u] len
    by (simp add: monitor_error_body_def relative_quaternion_eq quat_conjugate_eq vector_norm_eq Let_def
        shortest_def rotation_vector_def vneg_def vscale_def mult.commute)
  then show ?thesis
    using p u by (simp add: quaternion_error_body_cong)
qed

lemma monitor_attitude_eq:
  assumes "length (mi_orientation imu) = 4" "length (mb_orientation body) = 4"
  shows "monitor_attitude body imu = attitude_with_heading (map Fin (mi_orientation imu)) (map Fin (mb_orientation body))"
  using assms
  by (simp add: monitor_attitude_def attitude_with_heading_def monitor_rpy_eq rpy_quaternion_eq rpy_to_quaternion_def
      rpy_components_unit)

section \<open>Shapes\<close>

definition arrays_ok :: "monitor \<Rightarrow> bool" where
  "arrays_ok n \<longleftrightarrow>
     (\<forall>b. last_body n = Some b \<longrightarrow> length (mb_position b) = 3 \<and> length (mb_orientation b) = 4 \<and> length (mb_linear b) = 3)
     \<and> (\<forall>i. last_imu n = Some i \<longrightarrow> length (mi_orientation i) = 4 \<and> np_norm (mi_orientation i) > 1 / 10 ^ 9)
     \<and> (\<forall>t. last_target n = Some t \<longrightarrow> length (mt_position t) = 3 \<and> length (mt_orientation t) = 4
          \<and> length (mt_linear t) = 3 \<and> length (mt_angular t) = 3)"

fun event_ok :: "monitor_event \<Rightarrow> bool" where
  "event_ok (MonBody now b) \<longleftrightarrow> length (mb_position b) = 3 \<and> length (mb_orientation b) = 4 \<and> length (mb_linear b) = 3"
| "event_ok (MonImu now i) \<longleftrightarrow> length (mi_orientation i) = 4"
| "event_ok (MonTarget now t) \<longleftrightarrow> length (mt_position t) = 3 \<and> length (mt_orientation t) = 4
     \<and> length (mt_linear t) = 3 \<and> length (mt_angular t) = 3"
| "event_ok (MonTick now) \<longleftrightarrow> True"

lemma imu_norm: "sqrt (sum_list (map (\<lambda>v. v * v) q)) = np_norm q"
  by (simp add: np_norm_def power2_eq_square)

lemma estimate_keeps:
  "last_body (fst (estimate_actual_acceleration n v now)) = last_body n"
  "last_imu (fst (estimate_actual_acceleration n v now)) = last_imu n"
  "last_target (fst (estimate_actual_acceleration n v now)) = last_target n"
  by (simp_all add: estimate_actual_acceleration_def Let_def split: option.split)

lemma monitor_tick_inputs:
  assumes "last_body n = Some body" "last_imu n = Some imu" "last_target n = Some goal"
  shows "monitor_tick n now = ebind (monitor_attitude body imu) (\<lambda>attitude.
     let est = estimate_actual_acceleration n (mb_linear body) now in
     Inr (fst est, Some (build_status (inputs_are_fresh n now \<and> (mb_state_valid body \<or> mb_position_estimated body)
       \<and> mb_linear_valid body \<and> mt_valid goal) body imu goal attitude (snd est))))"
  by (simp add: monitor_tick_def assms case_prod_beta Let_def)

lemma monitor_tick_waits:
  "last_body n = None \<or> last_imu n = None \<or> last_target n = None \<Longrightarrow> monitor_tick n now = Inr (n, None)"
  by (auto simp: monitor_tick_def split: option.split)

lemma monitor_tick_keeps:
  assumes "monitor_tick n now = Inr (n', st)"
  shows "last_body n' = last_body n \<and> last_imu n' = last_imu n \<and> last_target n' = last_target n"
proof (cases "last_body n = None \<or> last_imu n = None \<or> last_target n = None")
  case True
  with assms show ?thesis
    by (simp add: monitor_tick_waits)
next
  case False
  then obtain body imu goal where "last_body n = Some body" "last_imu n = Some imu" "last_target n = Some goal"
    by auto
  with assms show ?thesis
    by (auto simp: monitor_tick_inputs ebind_Inr_conv Let_def estimate_keeps)
qed

lemma monitor_step_arrays: "arrays_ok n \<Longrightarrow> event_ok e \<Longrightarrow> monitor_step n e = Inr n' \<Longrightarrow> arrays_ok n'"
proof (cases e)
  case (MonTick now)
  then show "arrays_ok n \<Longrightarrow> monitor_step n e = Inr n' \<Longrightarrow> ?thesis"
    by (auto simp: arrays_ok_def ebind_Inr_conv dest!: monitor_tick_keeps)
qed (auto simp: arrays_ok_def monitor_on_body_def monitor_on_imu_def monitor_on_target_def imu_norm Let_def
    split: if_split_asm)

lemma monitor_run_arrays:
  "arrays_ok n \<Longrightarrow> list_all event_ok es \<Longrightarrow> run_machine monitor_step n es = Inr n' \<Longrightarrow> arrays_ok n'"
  by (induction es arbitrary: n) (auto simp: ebind_Inr_conv intro: monitor_step_arrays)

section \<open>Properties\<close>

lemma rpy_defined: "length q = 4 \<Longrightarrow> returns (monitor_quaternion_to_rpy q) \<longleftrightarrow> 1 / 10 ^ 9 < np_norm q"
  by (auto simp: monitor_rpy_eq quaternion_to_rpy_def returns_def normalize_quaternion_def Let_def)

text \<open>The monitor's timer callback raises exactly when all three inputs have arrived and the
  localization quaternion has norm at most \<open>1e-9\<close>; whether the localization is marked valid does not
  matter, so one such message, valid or not, ends the node.\<close>

theorem monitor_raises_on_zero_orientation:
  assumes "list_all event_ok es" "run_machine monitor_step (monitor_init max_age) es = Inr n"
  shows "\<not> returns (monitor_tick n now) \<longleftrightarrow>
    (\<exists>body. last_body n = Some body \<and> last_imu n \<noteq> None \<and> last_target n \<noteq> None \<and> np_norm (mb_orientation body) \<le> 1 / 10 ^ 9)"
proof (cases "last_body n = None \<or> last_imu n = None \<or> last_target n = None")
  case True
  then show ?thesis
    by (auto simp: monitor_tick_waits)
next
  case False
  then obtain body imu goal where in_n: "last_body n = Some body" "last_imu n = Some imu" "last_target n = Some goal"
    by auto
  have "arrays_ok (monitor_init max_age)"
    by (simp add: arrays_ok_def monitor_init_def)
  then have "arrays_ok n"
    using assms by (rule monitor_run_arrays)
  then have shapes: "length (mi_orientation imu) = 4" "1 / 10 ^ 9 < np_norm (mi_orientation imu)" "length (mb_orientation body) = 4"
    using in_n by (auto simp: arrays_ok_def)
  have "returns (monitor_tick n now) \<longleftrightarrow> returns (monitor_attitude body imu)"
    by (simp add: monitor_tick_inputs [OF in_n] returns_ebind Let_def) (simp add: returns_def)
  also have "\<dots> \<longleftrightarrow> 1 / 10 ^ 9 < np_norm (mb_orientation body)"
    using shapes rpy_defined [of "mi_orientation imu"] rpy_defined [of "mb_orientation body"]
    by (auto simp: monitor_attitude_def returns_ebind) (auto simp: returns_def)
  finally show ?thesis
    using in_n by auto
qed

definition idle_mon_body :: "real list \<Rightarrow> monitor_body" where
  "idle_mon_body q = \<lparr>mb_frame = ''map'', mb_position = [0, 0, 0], mb_orientation = q, mb_linear = [0, 0, 0],
     mb_linear_valid = False, mb_position_estimated = False, mb_state_valid = False\<rparr>"

definition idle_mon_imu :: monitor_imu where
  "idle_mon_imu = \<lparr>mi_frame = ''base_link'', mi_orientation = [1, 0, 0, 0], mi_covariance0 = 0, mi_rate = [0, 0, 0]\<rparr>"

definition idle_mon_target :: monitor_target where
  "idle_mon_target = \<lparr>mt_frame = ''map'', mt_position = [1, 2, 2], mt_orientation = [2, 0, 0, 0], mt_linear = [0, 0, 0],
     mt_angular = [0, 0, 0], mt_accel_linear = [0, 0, 0], mt_type = ''hold'', mt_control_mode = ''station_hold'',
     mt_time_s = 0, mt_valid = True\<rparr>"

definition idle_mon_monitor :: "real list \<Rightarrow> monitor" where
  "idle_mon_monitor q = monitor_on_target 0 idle_mon_target (monitor_on_imu 0 idle_mon_imu (monitor_on_body 0 (idle_mon_body q) (monitor_init 1)))"

lemma idle_mon_inputs:
  "last_body (idle_mon_monitor q) = Some (idle_mon_body q)" "last_imu (idle_mon_monitor q) = Some idle_mon_imu"
  "last_target (idle_mon_monitor q) = Some idle_mon_target"
  by (simp_all add: idle_mon_monitor_def monitor_on_target_def monitor_on_imu_def monitor_on_body_def idle_mon_imu_def monitor_init_def)

lemma idle_mon_run:
  "run_machine monitor_step (monitor_init 1) [MonBody 0 (idle_mon_body q), MonImu 0 idle_mon_imu, MonTarget 0 idle_mon_target]
     = Inr (idle_mon_monitor q)"
  by (simp add: idle_mon_monitor_def)

theorem monitor_raises_on_zero_orientation_witness:
  "\<not> returns (monitor_tick (idle_mon_monitor [0, 0, 0, 0]) 0) \<and> \<not> mb_state_valid (idle_mon_body [0, 0, 0, 0])"
  using monitor_raises_on_zero_orientation [OF _ idle_mon_run, of "[0, 0, 0, 0]" 0]
  by (simp add: idle_mon_inputs) (simp add: idle_mon_body_def idle_mon_imu_def idle_mon_target_def np_norm4)

text \<open>The diagnostics are the controller's own errors: for a unit localization quaternion, the attitude, the
  attitude error and the body-frame position error in a published status are what \<^verbatim>\<open>control_math.py\<close>
  computes from the same messages, the angle error is at most \<open>\<pi>\<close>, and the reported distance is the
  length of the body-frame error.\<close>

theorem status_matches_controller_errors:
  assumes "last_body n = Some body" "last_imu n = Some imu" "last_target n = Some goal" "arrays_ok n"
    and "unit_quat (mb_orientation body)" "1 / 10 ^ 9 < np_norm (mt_orientation goal)"
    and "monitor_tick n now = Inr (n', Some st)"
  shows "attitude_with_heading (map Fin (mi_orientation imu)) (map Fin (mb_orientation body)) = Inr (ts_actual_orientation st)
    \<and> quaternion_error_body (map Fin (ts_actual_orientation st)) (map Fin (mt_orientation goal)) = Inr (ts_orientation_error_body st)
    \<and> quaternion_apply (map Fin (conj4 (mb_orientation body))) (map Fin (map2 (-) (mt_position goal) (mb_position body)))
        = Inr (ts_position_error_body st)
    \<and> ts_orientation_error_rad st \<le> pi
    \<and> ts_position_error_m st = vector_norm (ts_position_error_body st)"
proof -
  have shapes: "length (mi_orientation imu) = 4" "length (mb_orientation body) = 4" "length (mt_orientation goal) = 4"
    "length (map2 (-) (mt_position goal) (mb_position body)) = 3"
    using assms(1-4) by (auto simp: arrays_ok_def)
  obtain attitude acc where att: "monitor_attitude body imu = Inr attitude"
    and st: "\<exists>valid. st = build_status valid body imu goal attitude acc"
    using assms(7) by (auto simp: monitor_tick_inputs [OF assms(1-3)] ebind_Inr_conv Let_def)
  have rot: "quat_apply_wxyz (conj4 (mb_orientation body)) (map2 (-) (mt_position goal) (mb_position body))
      = qrotate (conj4 (mb_orientation body)) (map2 (-) (mt_position goal) (mb_position body))"
    using shapes(4) unit_conj4 [OF assms(5)] by (intro quat_apply_eq) (auto simp: unit_quat_def)
  from st have fields: "ts_actual_orientation st = attitude"
    "ts_orientation_error_body st = monitor_error_body attitude (mt_orientation goal)"
    "ts_position_error_body st = qrotate (conj4 (mb_orientation body)) (map2 (-) (mt_position goal) (mb_position body))"
    "ts_orientation_error_rad st = np_norm (monitor_error_body attitude (mt_orientation goal))"
    "ts_position_error_m st = np_norm (map2 (-) (mt_position goal) (mb_position body))"
    by (auto simp: build_status_def Let_def vector_norm_eq quat_conjugate_eq rot)
  have unit: "unit_quat attitude"
    using att by (auto simp: monitor_attitude_def ebind_Inr_conv rpy_quaternion_eq rpy_components_unit)
  obtain u where u: "normalize_quaternion (map Fin (mt_orientation goal)) = Inr u"
    using assms(6) shapes(3) normalize_Inr_iff [of "map Fin (mt_orientation goal)"] by blast
  have err: "quaternion_error_body (map Fin attitude) (map Fin (mt_orientation goal)) = Inr (monitor_error_body attitude (mt_orientation goal))"
    using unit shapes(3) assms(6) by (rule monitor_error_eq)
  moreover have "np_norm (monitor_error_body attitude (mt_orientation goal)) \<le> pi"
    using err quaternion_error_body_cong [OF normalize_of_unit [OF unit] u]
      rotation_vector_norm [of "shortest (hamilton (conj4 attitude) u)"]
      unit_shortest [OF unit_hamilton [OF unit_conj4 [OF unit] normalize_unit [OF u]]] by simp
  moreover have "unit_quat (conj4 (mb_orientation body))"
    using assms(5) by (rule unit_conj4)
  ultimately show ?thesis
    using att shapes by (simp add: fields vector_norm_eq monitor_attitude_eq quaternion_apply_unit rotate_norm del: map_map)
qed

theorem status_matches_controller_errors_witness:
  "\<exists>n' st. monitor_tick (idle_mon_monitor [1, 0, 0, 0]) 0 = Inr (n', Some st)
    \<and> quaternion_error_body (map Fin (ts_actual_orientation st)) (map Fin [2, 0, 0, 0]) = Inr (ts_orientation_error_body st)
    \<and> ts_position_error_m st = vector_norm (ts_position_error_body st)"
proof -
  have "\<exists>n' st. monitor_tick (idle_mon_monitor [1, 0, 0, 0]) 0 = Inr (n', Some st)"
    by (simp add: monitor_tick_inputs [OF idle_mon_inputs] monitor_attitude_def idle_mon_body_def idle_mon_imu_def Let_def)
  then obtain n' st where tick: "monitor_tick (idle_mon_monitor [1, 0, 0, 0]) 0 = Inr (n', Some st)"
    by blast
  have "arrays_ok (idle_mon_monitor [1, 0, 0, 0])"
    by (simp add: arrays_ok_def idle_mon_inputs) (simp add: idle_mon_body_def idle_mon_imu_def idle_mon_target_def np_norm4)
  then show ?thesis
    using status_matches_controller_errors [OF idle_mon_inputs _ _ _ tick] tick
    by (auto simp: idle_mon_body_def idle_mon_target_def unit_quat_conv np_norm4)
qed

text \<open>The estimate fed with a constant acceleration \<open>acc\<close>, once per \<open>step_ns\<close>.\<close>

definition ramp :: "real list \<Rightarrow> real list \<Rightarrow> int \<Rightarrow> nat \<Rightarrow> real list" where
  "ramp v0 acc step_ns k = map2 (\<lambda>v a. v + real k * (real_of_int step_ns * (1 / 10 ^ 9)) * a) v0 acc"

primrec estimate_run :: "monitor \<Rightarrow> real list \<Rightarrow> real list \<Rightarrow> int \<Rightarrow> int \<Rightarrow> nat \<Rightarrow> monitor" where
  "estimate_run n v0 acc t0 step_ns 0 = fst (estimate_actual_acceleration n v0 t0)"
| "estimate_run n v0 acc t0 step_ns (Suc k) =
     fst (estimate_actual_acceleration (estimate_run n v0 acc t0 step_ns k) (ramp v0 acc step_ns (Suc k)) (t0 + int (Suc k) * step_ns))"

lemma estimate_step:
  assumes "previous_velocity_body n = Some v" "previous_velocity_ns n = Some t" "100000 < now - t"
  shows "fst (estimate_actual_acceleration n w now) = n\<lparr>filtered_acceleration_body :=
      map2 (\<lambda>r f. 35 / 100 * r + 65 / 100 * f) (map2 (\<lambda>v u. (v - u) / (real_of_int (now - t) * (1 / 10 ^ 9))) w v)
        (filtered_acceleration_body n), previous_velocity_body := Some w, previous_velocity_ns := Some now\<rparr>"
  using assms by (simp add: estimate_actual_acceleration_def Let_def)

lemma ramp_rate:
  assumes "0 < step_ns" "length v0 = length acc"
  shows "map2 (\<lambda>v u. (v - u) / (real_of_int step_ns * (1 / 10 ^ 9))) (ramp v0 acc step_ns (Suc k)) (ramp v0 acc step_ns k) = acc"
  using assms(2,1) by (induction v0 acc rule: list_induct2) (auto simp: ramp_def field_simps)

lemma filter_step:
  "map2 (\<lambda>x y. 7 * x / 20 + 13 * y / 20) acc (map ((*) (1 - c)) acc) = map ((*) (1 - 13 * c / 20)) (acc :: real list)"
  by (induction acc) (simp_all add: field_simps)

text \<open>Under a constant acceleration the first-order filter of the acceleration estimate converges: after
  \<open>k\<close> further samples the estimate is exactly the fraction \<open>1 - 0.65\<^sup>k\<close> of the true
  acceleration, in every axis.\<close>

theorem acceleration_estimate_converges:
  assumes "length v0 = 3" "length acc = 3" "100000 < step_ns"
  shows "filtered_acceleration_body (estimate_run (monitor_init max_age) v0 acc t0 step_ns k) = map (\<lambda>a. (1 - (65 / 100) ^ k) * a) acc"
proof -
  have "previous_velocity_body (estimate_run (monitor_init max_age) v0 acc t0 step_ns k) = Some (ramp v0 acc step_ns k)
    \<and> previous_velocity_ns (estimate_run (monitor_init max_age) v0 acc t0 step_ns k) = Some (t0 + int k * step_ns)
    \<and> filtered_acceleration_body (estimate_run (monitor_init max_age) v0 acc t0 step_ns k) = map (\<lambda>a. (1 - (65 / 100) ^ k) * a) acc"
  proof (induction k)
    case 0
    obtain a b c x y z where "acc = [a, b, c]" "v0 = [x, y, z]"
      using assms(1,2) by (auto dest!: list_of_length3)
    then show ?case
      by (simp add: estimate_actual_acceleration_def monitor_init_def ramp_def)
  next
    case (Suc k)
    have now: "t0 + int (Suc k) * step_ns - (t0 + int k * step_ns) = step_ns"
      by (simp add: algebra_simps)
    then show ?case
      using assms Suc ramp_rate [of step_ns v0 acc k] estimate_step [of _ "ramp v0 acc step_ns k" "t0 + int k * step_ns" "t0 + int (Suc k) * step_ns"]
      by (simp add: now filter_step del: of_nat_Suc)
  qed
  then show ?thesis
    by blast
qed

theorem acceleration_estimate_converges_witness:
  "filtered_acceleration_body (estimate_run (monitor_init 1) [0, 0, 0] [1, 2, 0] 0 50000000 1) = [35 / 100, 70 / 100, 0]"
  using acceleration_estimate_converges [of "[0, 0, 0]" "[1, 2, 0]" 50000000 1 0 1] by simp

end
