(* ===== verification/Policy_Safety.thy ===== *)
theory Policy_Safety
  imports Body_Policy
begin

text \<open>
  Properties of the policy node.  The contract between the node and its runner is a locale: a
  runner's reset gives one blank state, whatever it has seen.  Under it the node's invariant says
  that the runner is blank whenever the last tick was not ready; the runner of the trajectory
  network is shown to satisfy the contract.
\<close>

section \<open>Actions, readiness and counts of one tick\<close>

lemma unique_empty [simp]: "unique xs = [] \<longleftrightarrow> xs = []"
  by (simp add: unique_def)

lemma infer_action:
  assumes "infer run io logging r ob = (r', Some act, err)"
  shows "snd (run r ob) = Inr act \<and> length act = 8 \<and> list_all (\<lambda>v. \<exists>x. v = Fin x \<and> - 1 \<le> x \<and> x \<le> 1) act
    \<and> r' = fst (run r ob) \<and> err = (if logging then io else None)"
  using assms
  by (auto simp: infer_def ebind_Inr_conv decode_Inr split: prod.splits sum.splits)

lemma infer_no_action: "infer run io logging r ob = (r', None, err) \<Longrightarrow> err \<noteq> None \<and> r' = fst (run r ob)"
  by (auto simp: infer_def split: prod.splits sum.splits)

text \<open>The result of a tick, by what it had to work with.\<close>

lemma tick_unloaded:
  "runner n = None \<Longrightarrow> policy_tick run reset io n now =
     (n\<lparr>last_input_ready := fst (policy_inputs n now) = []\<rparr>, None,
      publish_status n (fst (policy_inputs n now) = []) (unique (fst (policy_inputs n now))))"
  by (simp add: policy_tick_def Let_def publish_status_def split: prod.split)

lemma policy_tick_action:
  assumes "policy_tick run reset io n now = (n', Some act, st)"
  obtains r where "runner n = Some r" "fst (policy_inputs n now) = []"
    "snd (run r (snd (policy_inputs n now))) = Inr act" "length act = 8"
    "list_all (\<lambda>v. \<exists>x. v = Fin x \<and> - 1 \<le> x \<and> x \<le> 1) act"
  using assms
  by (auto simp: policy_tick_def Let_def split: prod.splits option.splits if_split_asm dest!: infer_action)

lemma policy_tick_count:
  assumes "policy_tick run reset io n now = (n', res, st)"
  shows "inference_count n' = inference_count n + (if res = None then 0 else 1)
    \<and> ps_inference_count st = inference_count n' \<and> ps_loaded st = (runner n \<noteq> None)
    \<and> manifest n' = manifest n \<and> pbuilder n' = pbuilder n \<and> (runner n' = None \<longleftrightarrow> runner n = None)
    \<and> last_input_ready n' = ps_input_ready st"
  using assms
  by (auto simp: policy_tick_def Let_def publish_status_def split: prod.splits option.splits if_split_asm)

lemma policy_tick_ready:
  assumes "policy_tick run reset io n now = (n', res, st)" "runner n \<noteq> None" "ps_input_ready st"
  shows "res \<noteq> None \<and> (io = None \<or> \<not> io_path n)"
  using assms
  by (auto simp: policy_tick_def Let_def publish_status_def split: prod.splits option.splits if_split_asm
      dest: infer_no_action dest!: infer_action)

section \<open>Runs\<close>

datatype policy_event =
    PBody int int body_obs | PImu int int imu_obs | PCommand int "pyfloat list" | PTarget int target_obs
  | PRunDir | PLoad "exc + policy_manifest" string string | PTick "exc option" int

type_synonym policy_output = "pyfloat list option \<times> policy_status"

fun policy_step ::
  "('r \<Rightarrow> observation \<Rightarrow> 'r \<times> (exc + pyfloat list)) \<Rightarrow> ('r \<Rightarrow> 'r) \<Rightarrow> (string \<Rightarrow> pyfloat option) \<Rightarrow> (policy_manifest \<Rightarrow> exc + 'r)
     \<Rightarrow> 'r policy_node \<Rightarrow> policy_event \<Rightarrow> 'r policy_node \<times> policy_output list" where
  "policy_step run reset parse create n (PBody received stamp v) = (policy_on_body received stamp v n, [])"
| "policy_step run reset parse create n (PImu received stamp v) = (policy_on_imu received stamp v n, [])"
| "policy_step run reset parse create n (PCommand received v) = (policy_on_command received v n, [])"
| "policy_step run reset parse create n (PTarget received v) = (policy_on_target received v n, [])"
| "policy_step run reset parse create n PRunDir = (n\<lparr>io_path := True\<rparr>, [])"
| "policy_step run reset parse create n (PLoad loaded name path) = (load_policy parse create loaded name path n, [])"
| "policy_step run reset parse create n (PTick io now) =
     (let (n', out) = policy_tick run reset io n now in (n', [out]))"

fun policy_run ::
  "('r \<Rightarrow> observation \<Rightarrow> 'r \<times> (exc + pyfloat list)) \<Rightarrow> ('r \<Rightarrow> 'r) \<Rightarrow> (string \<Rightarrow> pyfloat option) \<Rightarrow> (policy_manifest \<Rightarrow> exc + 'r)
     \<Rightarrow> 'r policy_node \<Rightarrow> policy_event list \<Rightarrow> 'r policy_node \<times> policy_output list" where
  "policy_run run reset parse create n [] = (n, [])"
| "policy_run run reset parse create n (e # es) =
     (let (n1, o1) = policy_step run reset parse create n e; (n2, o2) = policy_run run reset parse create n1 es in (n2, o1 @ o2))"

text \<open>The node after construction: the policy of the parameters is loaded into an empty node.\<close>

definition empty_policy_node :: "real \<Rightarrow> 'r policy_node" where
  "empty_policy_node rate =
     \<lparr>manifest = invalid_manifest '''' '''', runner = None, load_error = '''',
      pbuilder = new_builder [body_topic] 1000000000, state_delay_ns = 0, body_state_history = [],
      external_imu_history = [], inference_count = 0, last_input_ready = False, last_runtime_error = '''',
      io_path = False, publish_rate_hz = rate\<rparr>"

lemma load_policy_fields:
  "inference_count (load_policy parse create loaded name path n) = inference_count n"
  "\<not> last_input_ready (load_policy parse create loaded name path n)"
  by (simp_all add: load_policy_def Let_def split: sum.split prod.split)

lemma load_policy_runner:
  assumes "runner (load_policy parse create loaded name path n) = Some r"
  shows "\<exists>m b d. prepare_policy parse loaded = Inr (m, b, d) \<and> create m = Inr r
    \<and> manifest (load_policy parse create loaded name path n) = m \<and> pbuilder (load_policy parse create loaded name path n) = b"
  using assms by (auto simp: load_policy_def Let_def split: sum.splits prod.splits)

text \<open>Every input the manifest requires has an entry in the freshness table.\<close>

definition covers_schema :: "'r policy_node \<Rightarrow> bool" where
  "covers_schema n \<longleftrightarrow> (runner n \<noteq> None \<longrightarrow> set (pm_input_schema (manifest n)) \<subseteq> fst ` set (last_seen_ns (pbuilder n)))"

lemma builder_update_names: "fst ` set (last_seen_ns (builder_update name stamp store b)) = fst ` set (last_seen_ns b)"
  by (force simp: builder_update_def)

lemma new_builder_names: "fst ` set (last_seen_ns (new_builder ns age)) = set ns"
  using fresh_entries_names [of "[]" ns] by (simp add: new_builder_def)

lemma load_covers: "covers_schema (load_policy parse create loaded name path n)"
proof -
  let ?n = "load_policy parse create loaded name path n"
  have "set (pm_input_schema (manifest ?n)) \<subseteq> fst ` set (last_seen_ns (pbuilder ?n))" if some: "runner ?n \<noteq> None"
  proof -
    obtain r m b d where p: "prepare_policy parse loaded = Inr (m, b, d)"
      and n: "manifest ?n = m" "pbuilder ?n = b"
      using load_policy_runner [of parse create loaded name path n] some by auto
    have "set (pm_input_schema m) \<subseteq> fst ` set (last_seen_ns b)"
      using p by (auto simp: prepare_policy_def ebind_Inr_conv new_builder_names)
    then show ?thesis
      by (simp only: n)
  qed
  then show ?thesis
    by (simp add: covers_schema_def)
qed

lemma policy_step_covers: "covers_schema n \<Longrightarrow> covers_schema (fst (policy_step run reset parse create n e))"
proof (cases e)
  case (PTick io now)
  assume c: "covers_schema n"
  obtain n' res st where t: "policy_tick run reset io n now = (n', res, st)"
    by (metis prod_cases3)
  with c PTick policy_tick_count [OF t] show ?thesis
    by (simp add: covers_schema_def)
qed (auto simp: covers_schema_def policy_on_body_def policy_on_imu_def policy_on_command_def policy_on_target_def
    builder_update_names load_covers [unfolded covers_schema_def])

lemma policy_run_covers: "covers_schema n \<Longrightarrow> covers_schema (fst (policy_run run reset parse create n es))"
proof (induction es arbitrary: n)
  case (Cons e es)
  then show ?case
    using policy_step_covers [OF Cons.prems, of run reset parse create e] by (simp add: case_prod_beta Let_def)
qed simp

text \<open>A ready status of a loaded policy comes with an action of the same tick.\<close>

lemma policy_run_ready:
  "policy_run run reset parse create n es = (n', outs) \<Longrightarrow> (res, st) \<in> set outs \<Longrightarrow> ps_loaded st \<Longrightarrow> ps_input_ready st
   \<Longrightarrow> res \<noteq> None"
proof (induction es arbitrary: n outs n')
  case (Cons e es)
  let ?s = "policy_step run reset parse create n e"
  obtain n2 o2 where r: "policy_run run reset parse create (fst ?s) es = (n2, o2)"
    by fastforce
  have "(res, st) \<in> set (snd ?s) \<or> (res, st) \<in> set o2"
    using Cons.prems r by (auto simp: case_prod_beta Let_def)
  then show ?case
  proof
    assume here: "(res, st) \<in> set (snd ?s)"
    show ?thesis
    proof (cases e)
      case (PTick io now)
      obtain n1 where t: "policy_tick run reset io n now = (n1, res, st)"
        using here PTick by (cases "policy_tick run reset io n now") (simp add: case_prod_beta Let_def)
      then show ?thesis
        using policy_tick_ready [OF t] policy_tick_count [OF t] Cons.prems(3,4) by simp
    qed (use here in simp_all)
  next
    assume "(res, st) \<in> set o2"
    with Cons.IH [OF r] Cons.prems(3,4) show ?thesis
      by blast
  qed
qed simp

text \<open>Counts of published actions.\<close>

definition published :: "policy_output list \<Rightarrow> nat" where
  "published outs = length (filter (\<lambda>x. fst x \<noteq> None) outs)"

lemma published_simps [simp]:
  "published [] = 0" "published (x # xs) = (if fst x = None then 0 else 1) + published xs"
  "published (xs @ ys) = published xs + published ys"
  by (simp_all add: published_def)

lemma policy_step_count:
  "inference_count (fst (policy_step run reset parse create n e)) = inference_count n + published (snd (policy_step run reset parse create n e))
   \<and> (\<forall>x \<in> set (snd (policy_step run reset parse create n e)).
        ps_inference_count (snd x) = inference_count (fst (policy_step run reset parse create n e)))
   \<and> length (snd (policy_step run reset parse create n e)) \<le> 1"
proof (cases e)
  case (PTick io now)
  obtain n' res st where t: "policy_tick run reset io n now = (n', res, st)"
    by (metis prod_cases3)
  with PTick policy_tick_count [OF t] show ?thesis
    by simp
qed (simp_all add: load_policy_fields policy_on_body_def policy_on_imu_def policy_on_command_def policy_on_target_def)

lemma policy_run_count:
  "policy_run run reset parse create n es = (n', outs) \<Longrightarrow> j < length outs \<Longrightarrow>
   ps_inference_count (snd (outs ! j)) = inference_count n + published (take (Suc j) outs)"
proof (induction es arbitrary: n j outs n')
  case (Cons e es)
  let ?s = "policy_step run reset parse create n e"
  obtain n2 o2 where r: "policy_run run reset parse create (fst ?s) es = (n2, o2)"
    by fastforce
  have outs: "outs = snd ?s @ o2"
    using Cons.prems(1) r by (auto simp: case_prod_beta Let_def)
  have step: "inference_count (fst ?s) = inference_count n + published (snd ?s)"
    "\<forall>x \<in> set (snd ?s). ps_inference_count (snd x) = inference_count (fst ?s)" "length (snd ?s) \<le> 1"
    using policy_step_count [of run reset parse create n e] by auto
  show ?case
  proof (cases "j < length (snd ?s)")
    case True
    then have "j = 0" "length (snd ?s) = 1"
      using step(3) by auto
    with True step show ?thesis
      by (auto simp: outs nth_append)
  next
    case False
    then have "ps_inference_count (snd (o2 ! (j - length (snd ?s)))) = inference_count (fst ?s) + published (take (Suc (j - length (snd ?s))) o2)"
      using Cons.prems(2) by (intro Cons.IH [OF r]) (auto simp: outs)
    with False step(1) show ?thesis
      by (simp add: outs nth_append Suc_diff_le)
  qed
qed simp

lemma policy_run_actions:
  "policy_run run reset parse create n es = (n', outs) \<Longrightarrow> (Some act, st) \<in> set outs \<Longrightarrow>
   length act = 8 \<and> list_all (\<lambda>v. \<exists>x. v = Fin x \<and> - 1 \<le> x \<and> x \<le> 1) act"
proof (induction es arbitrary: n outs n')
  case (Cons e es)
  let ?s = "policy_step run reset parse create n e"
  obtain n2 o2 where r: "policy_run run reset parse create (fst ?s) es = (n2, o2)"
    by fastforce
  have "(Some act, st) \<in> set (snd ?s) \<or> (Some act, st) \<in> set o2"
    using Cons.prems r by (auto simp: case_prod_beta Let_def)
  then show ?case
  proof
    assume "(Some act, st) \<in> set (snd ?s)"
    then show ?thesis
    proof (cases e)
      case (PTick io now)
      then have "snd (policy_tick run reset io n now) = (Some act, st)"
        using \<open>(Some act, st) \<in> set (snd ?s)\<close> by (simp add: case_prod_beta Let_def)
      then have "policy_tick run reset io n now = (fst (policy_tick run reset io n now), Some act, st)"
        by (simp add: prod_eq_iff)
      then show ?thesis
        by (elim policy_tick_action) simp
    qed (use \<open>(Some act, st) \<in> set (snd ?s)\<close> in simp_all)
  qed (rule Cons.IH [OF r])
qed simp

section \<open>The contract with the runner\<close>

text \<open>The node rests: its runner is well formed, and blank whenever the last tick was not ready.\<close>

definition rested :: "('r \<Rightarrow> bool) \<Rightarrow> 'r \<Rightarrow> 'r policy_node \<Rightarrow> bool" where
  "rested ok blank n \<longleftrightarrow> pred_option ok (runner n) \<and> (last_input_ready n \<or> pred_option (\<lambda>r. r = blank) (runner n))"

locale resettable_runner =
  fixes run :: "'r \<Rightarrow> observation \<Rightarrow> 'r \<times> (exc + pyfloat list)"
    and reset :: "'r \<Rightarrow> 'r"
    and create :: "policy_manifest \<Rightarrow> exc + 'r"
    and ok :: "'r \<Rightarrow> bool"
    and blank :: 'r
  assumes ok_blank: "ok blank"
    and ok_run: "ok r \<Longrightarrow> ok (fst (run r ob))"
    and reset_blank: "ok r \<Longrightarrow> reset r = blank"
    and create_blank: "create m = Inr r \<Longrightarrow> r = blank"
begin

lemma infer_ok: "infer run io logging r ob = (r', x, err) \<Longrightarrow> ok r \<Longrightarrow> ok r'"
  using ok_run [of r ob] by (auto simp: infer_def split: prod.splits sum.splits)

lemma tick_rested:
  assumes "rested ok blank n"
  shows "rested ok blank (fst (policy_tick run reset io n now))"
proof (cases "runner n")
  case None
  then show ?thesis
    by (simp add: tick_unloaded rested_def)
next
  case (Some r)
  then have r: "ok r" "last_input_ready n \<or> r = blank"
    using assms by (auto simp: rested_def)
  obtain r' x err where i: "infer run io (io_path n) r (snd (policy_inputs n now)) = (r', x, err)"
    by (metis prod_cases3)
  then have "ok r'"
    using r by (auto dest: infer_ok)
  with r i Some show ?thesis
    by (auto simp: policy_tick_def Let_def case_prod_beta rested_def reset_blank ok_blank split: option.split)
qed

lemma load_rested: "rested ok blank (load_policy parse create loaded name path n)"
  by (auto simp: rested_def load_policy_def Let_def ok_blank split: sum.split prod.split dest!: create_blank)

lemma step_rested: "rested ok blank n \<Longrightarrow> rested ok blank (fst (policy_step run reset parse create n e))"
proof (cases e)
  case (PTick io now)
  assume "rested ok blank n"
  with PTick tick_rested [of n io now] show ?thesis
    by (simp add: case_prod_beta Let_def)
next
  case (PLoad loaded name path)
  then show ?thesis
    by (simp add: load_rested)
qed (auto simp: rested_def policy_on_body_def policy_on_imu_def policy_on_command_def policy_on_target_def)

lemma run_rested: "rested ok blank n \<Longrightarrow> rested ok blank (fst (policy_run run reset parse create n es))"
proof (induction es arbitrary: n)
  case (Cons e es)
  then show ?case
    using step_rested [OF Cons.prems, of parse e] by (simp add: case_prod_beta Let_def)
qed simp

text \<open>An action after a tick that was not ready comes from the blank runner.\<close>

lemma action_from_blank:
  assumes "rested ok blank n" "\<not> last_input_ready n" "policy_tick run reset io n now = (n', Some act, st)"
  shows "snd (run blank (snd (policy_inputs n now))) = Inr act"
  using assms(3)
proof (rule policy_tick_action)
  fix r
  assume "runner n = Some r" "snd (run r (snd (policy_inputs n now))) = Inr act"
  with assms(1,2) show ?thesis
    by (simp add: rested_def)
qed

end

lemma empty_rested: "rested ok blank (empty_policy_node rate)"
  by (simp add: rested_def empty_policy_node_def)

lemma empty_covers: "covers_schema (empty_policy_node rate)"
  by (simp add: covers_schema_def empty_policy_node_def)

section \<open>The trajectory runner keeps the contract\<close>

lemma t60_reset_blank: "t60_inv st \<Longrightarrow> t60_reset st = t60_init"
  by (cases st) (auto simp: t60_inv_def t60_reset_def t60_init_def frame_ok_def list_all_iff map_replicate_const intro!: replicate_eqI)

lemma t60_run_inv:
  assumes "t60_inv st"
  shows "t60_inv (fst (t60_run network st ob))"
proof (cases "t60_build st ob")
  case (Inr p)
  then have "t60_inv (fst p)"
    using t60_step_inv [OF assms, of "Build ob"] by (cases p) simp
  moreover from this have "t60_inv st2" if "t60_commit (fst p) = Inr st2" for st2
    using t60_step_inv [of "fst p" Commit] that by simp
  ultimately show ?thesis
    using Inr by (auto simp: t60_run_def split: prod.split sum.split)
qed (simp add: t60_run_def assms)

interpretation t60_runner: resettable_runner "t60_run network" t60_reset "t60_create opened" t60_inv t60_init
  by unfold_locales (auto simp: t60_init_inv t60_run_inv t60_reset_blank t60_create_def ebind_Inr_conv)

lemma blank_history: "concat (history t60_init) = replicate 168 (Fin 0)"
  by (simp add: t60_init_def eval_nat_numeral)

text \<open>What the network saw when the blank runner gave an action.\<close>

lemma t60_run_blank:
  assumes "snd (t60_run network t60_init ob) = Inr act"
  shows "usable ob \<and> network (fst (frames_of (projr (t60_read ob))) @ replicate 168 (Fin 0)) = Inr act"
proof -
  obtain i where i: "t60_read ob = Inr i" "list_all isfinite (command i)"
    using assms by (auto simp: t60_run_def t60_build_eq [OF t60_init_inv] ebind_def split: sum.splits if_split_asm)
  then have "usable ob"
    using returns_read_iff by blast
  with assms i show ?thesis
    by (auto simp: t60_run_def t60_build_eq [OF t60_init_inv] blank_history split: sum.splits)
qed

text \<open>What the notes of a tick say when there are none.\<close>

lemma no_notes_fresh:
  assumes "covers_schema n" "runner n \<noteq> None" "fst (policy_inputs n now) = []" "name \<in> set (pm_input_schema (manifest n))"
  shows "\<exists>t. (name, Some t) \<in> set (last_seen_ns (pbuilder n)) \<and> now - t \<le> max_age_ns (pbuilder n)"
proof -
  have "name \<notin> set (builder_missing (pbuilder n) now)"
    using assms(3) by (simp add: policy_inputs_def Let_def)
  moreover have "\<exists>s. (name, s) \<in> set (last_seen_ns (pbuilder n))"
    using assms by (force simp: covers_schema_def)
  ultimately show ?thesis
    by (force simp: builder_missing_iff)
qed

lemma find_Some_D: "List.find P xs = Some x \<Longrightarrow> x \<in> set xs \<and> P x"
  by (induction xs) (auto split: if_split_asm)

lemma delayed_sample_Some: "delayed_sample hist delay now = Some v \<Longrightarrow> \<exists>t. (t, v) \<in> set hist \<and> t \<le> now - delay"
  by (auto simp: delayed_sample_def dest!: find_Some_D)

definition localized_body :: "'r policy_node \<Rightarrow> int \<Rightarrow> bool" where
  "localized_body n now \<longleftrightarrow>
     (\<exists>(t, b) \<in> set (body_state_history n). t \<le> now - state_delay_ns n \<and> (bo_state_valid b \<or> bo_position_estimated b)
        \<and> bo_linear_valid b)"

lemma no_notes_body:
  assumes "fst (policy_inputs n now) = []" "body_topic \<in> set (pm_input_schema (manifest n))"
  shows "localized_body n now"
proof (cases "delayed_sample (body_state_history n) (state_delay_ns n) now")
  case None
  with assms show ?thesis
    by (simp add: policy_inputs_def Let_def delayed_body_notes_def)
next
  case (Some b)
  with assms delayed_sample_Some [OF Some] show ?thesis
    by (auto simp: policy_inputs_def Let_def delayed_body_notes_def localized_body_def split: if_split_asm)
qed

lemma no_notes_target:
  assumes "fst (policy_inputs n now) = []" "target_topic \<in> set (pm_input_schema (manifest n))"
  shows "\<exists>g. ob_target (values_of (pbuilder n)) = Some g \<and> to_valid g"
  using assms by (auto simp: policy_inputs_def Let_def split: if_split_asm option.splits)


section \<open>An example run\<close>

definition demo_manifest :: policy_manifest where
  "demo_manifest = \<lparr>pm_name = ''demo'', pm_role = ''body'', pm_runner = ''onnx'', pm_model_path = ''/models/demo.onnx'',
     pm_input_schema = [body_topic, imu_topic, command_topic, target_topic], pm_output_schema = [],
     pm_isaac_contract = [], pm_deployment_validation = []\<rparr>"

definition zeros3 :: "pyfloat list" where "zeros3 = [Fin 0, Fin 0, Fin 0]"
definition zeros8 :: "pyfloat list" where "zeros8 = replicate 8 (Fin 0)"
definition unit_wxyz :: "pyfloat list" where "unit_wxyz = [Fin 1, Fin 0, Fin 0, Fin 0]"

definition demo_body_obs :: body_obs where
  "demo_body_obs = \<lparr>bo_state_valid = True, bo_position_estimated = False, bo_linear_valid = True, bo_position = zeros3,
     bo_orientation = unit_wxyz, bo_linear = zeros3\<rparr>"

definition demo_imu_obs :: imu_obs where
  "demo_imu_obs = \<lparr>io_orientation = unit_wxyz, io_angular = zeros3\<rparr>"

definition demo_target_obs :: target_obs where
  "demo_target_obs = \<lparr>to_valid = True, to_position = zeros3, to_orientation = unit_wxyz, to_linear = zeros3,
     to_angular = zeros3, to_accel_linear = zeros3\<rparr>"

definition demo_observation :: observation where
  "demo_observation = \<lparr>ob_body = Some demo_body_obs, ob_imu = Some demo_imu_obs, ob_command = Some zeros8,
     ob_target = Some demo_target_obs\<rparr>"

definition demo_policy_events :: "policy_event list" where
  "demo_policy_events = [PLoad (Inr demo_manifest) ''demo'' ''policy.yaml'', PRunDir, PBody 0 0 demo_body_obs,
     PImu 0 0 demo_imu_obs, PCommand 0 zeros8, PTarget 0 demo_target_obs]"

definition demo_policy_node :: "t60_state policy_node" where
  "demo_policy_node =
     \<lparr>manifest = demo_manifest, runner = Some t60_init, load_error = '''',
      pbuilder = \<lparr>max_age_ns = 1000000000,
        last_seen_ns = [(body_topic, Some 0), (imu_topic, Some 0), (command_topic, Some 0), (target_topic, Some 0)],
        values_of = demo_observation\<rparr>,
      state_delay_ns = 0, body_state_history = [(0, demo_body_obs)], external_imu_history = [(0, demo_imu_obs)],
      inference_count = 0, last_input_ready = False, last_runtime_error = '''', io_path = True, publish_rate_hz = 0\<rparr>"

abbreviation demo_network :: "pyfloat list \<Rightarrow> exc + pyfloat list" where
  "demo_network \<equiv> \<lambda>_. Inr zeros8"

abbreviation demo_create :: "policy_manifest \<Rightarrow> exc + t60_state" where
  "demo_create \<equiv> t60_create (\<lambda>_. Inr ())"

lemma topics_differ:
  "body_topic \<noteq> imu_topic" "body_topic \<noteq> command_topic" "body_topic \<noteq> target_topic" "imu_topic \<noteq> command_topic"
  "imu_topic \<noteq> target_topic" "command_topic \<noteq> target_topic"
  by (simp_all add: body_topic_def imu_topic_def command_topic_def target_topic_def)

lemmas topic_facts = topics_differ topics_differ [THEN not_sym]

lemma demo_prepare:
  "prepare_policy parse (Inr demo_manifest) =
     Inr (demo_manifest, new_builder [body_topic, imu_topic, command_topic, target_topic] 1000000000, 0)"
  by (simp add: prepare_policy_def contract_ns_def contract_get_def demo_manifest_def dict_find_def)

lemma demo_run:
  "policy_run run reset parse demo_create (empty_policy_node 0) demo_policy_events = (demo_policy_node, [])"
  by (simp add: demo_policy_events_def demo_policy_node_def empty_policy_node_def load_policy_def demo_prepare t60_create_def
      policy_on_body_def policy_on_imu_def policy_on_command_def policy_on_target_def push_def builder_update_def
      new_builder_def no_observation_def topic_facts demo_observation_def invalid_manifest_def)

lemma demo_inputs: "policy_inputs demo_policy_node 0 = ([], demo_observation)"
  by (simp add: policy_inputs_def demo_policy_node_def delayed_sample_def builder_missing_def Let_def demo_manifest_def
      delayed_body_notes_def demo_observation_def demo_body_obs_def demo_target_obs_def)

lemma demo_usable: "usable demo_observation"
  by (simp add: usable_def demo_observation_def demo_body_obs_def demo_imu_obs_def demo_target_obs_def zeros3_def zeros8_def
      unit_wxyz_def finite_vec_def quaternion_ok_def np_norm_def list_all_iff)

lemma demo_t60_run: "snd (t60_run demo_network t60_init demo_observation) = Inr zeros8"
proof -
  obtain i where i: "t60_read demo_observation = Inr i" "list_all isfinite (command i)"
    using demo_usable returns_read_iff by blast
  then show ?thesis
    by (simp add: t60_run_def t60_build_eq [OF t60_init_inv] t60_commit_def)
qed

lemma demo_tick:
  "\<exists>n' st. policy_tick (t60_run demo_network) t60_reset None demo_policy_node 0 = (n', Some zeros8, st)
     \<and> ps_loaded st \<and> ps_input_ready st \<and> ps_inference_count st = 1"
proof -
  have dec: "decode_thruster_action zeros8 = Inr zeros8"
    by (simp add: decode_Inr zeros8_def list_all_iff)
  have "runner demo_policy_node = Some t60_init" "inference_count demo_policy_node = 0"
    by (simp_all add: demo_policy_node_def)
  then show ?thesis
    by (simp add: policy_tick_def demo_inputs infer_def case_prod_beta demo_t60_run dec publish_status_def Let_def)
qed

lemma policy_run_append:
  "policy_run run reset parse create n (es @ fs) =
     (let (n1, o1) = policy_run run reset parse create n es; (n2, o2) = policy_run run reset parse create n1 fs in (n2, o1 @ o2))"
  by (induction es arbitrary: n) (simp_all add: case_prod_beta Let_def)

definition demo_document :: "(yaml \<times> yaml) list" where
  "demo_document = [(YStr ''name'', YStr ''demo''), (YStr ''role'', YStr ''body''), (YStr ''runner'', YStr ''onnx''),
     (YStr ''model_path'', YStr ''demo.onnx''), (YStr ''input_schema'', YList [YStr body_topic]),
     (YStr ''output_schema'', YMap [])]"

definition demo_files :: file_system where
  "demo_files = \<lparr>is_file = (\<lambda>p. p = ''/policies/demo/policy.yaml''), safe_load = (\<lambda>_. Document (YMap demo_document)),
     colocated = (\<lambda>_ _. None)\<rparr>"

lemma demo_read: "read_manifest demo_files ''/policies/demo/policy.yaml'' = Inr demo_document"
proof -
  have "py_lower (path_suffix ''/policies/demo/policy.yaml'') = ''.yaml''"
    by code_simp
  then show ?thesis
    by (simp add: read_manifest_def demo_files_def)
qed

lemma demo_files_accepted:
  "\<exists>m. load_policy_manifest (\<lambda>_. '''') demo_files '' /policies/demo/policy.yaml '' '''' ''body'' = Inr m"
proof -
  have "py_strip '' /policies/demo/policy.yaml '' = ''/policies/demo/policy.yaml''" "py_strip ''demo'' = ''demo''"
    "py_strip ''body'' = ''body''" "py_strip ''onnx'' = ''onnx''" "py_strip ''demo.onnx'' = ''demo.onnx''"
    by code_simp+
  then show ?thesis
    by (simp add: load_policy_manifest_def demo_read required_fields_def demo_document_def dict_find_def dict_get_def
        body_topic_def optional_mapping_def Let_def)
qed

section \<open>Properties\<close>





text \<open>The status counts what was published.  In any run with any runner, the \<open>j\<close>-th status reports as
  its inference count exactly the number of actions published up to and including its own tick.\<close>

theorem status_counts_actions:
  assumes "j < length (snd (policy_run run reset parse create (empty_policy_node rate) es))"
  shows "ps_inference_count (snd (snd (policy_run run reset parse create (empty_policy_node rate) es) ! j))
    = published (take (Suc j) (snd (policy_run run reset parse create (empty_policy_node rate) es)))"
  using policy_run_count [OF prod.collapse [symmetric] assms]
  by (simp add: empty_policy_node_def)

theorem status_counts_actions_witness:
  "\<exists>n st. policy_run (t60_run demo_network) t60_reset (\<lambda>_. None) demo_create (empty_policy_node 0)
       (demo_policy_events @ [PTick None 0]) = (n, [(Some zeros8, st)]) \<and> ps_inference_count st = 1"
proof -
  let ?run = "policy_run (t60_run demo_network) t60_reset (\<lambda>_. None) demo_create (empty_policy_node 0)
      (demo_policy_events @ [PTick None 0])"
  obtain n st where "?run = (n, [(Some zeros8, st)])"
    using demo_tick by (auto simp: policy_run_append demo_run)
  then show ?thesis
    using status_counts_actions [of 0 "t60_run demo_network" t60_reset "\<lambda>_. None" demo_create 0 "demo_policy_events @ [PTick None 0]"]
    by simp
qed

text \<open>A logging failure withdraws the policy although its action went out.  When the run log cannot be
  written, a tick that would publish an action still publishes it, but the status of that tick is not
  ready, names an inference error, and the runner is reset.\<close>

theorem log_failure_withdraws_policy:
  assumes "policy_tick run reset None n now = (n1, Some act, st1)" "io_path n"
  shows "ps_input_ready st1 \<and> (\<exists>n2 st2 r. policy_tick run reset (Some e) n now = (n2, Some act, st2)
    \<and> \<not> ps_input_ready st2 \<and> ps_missing st2 = [''inference: '' @ exc_str e]
    \<and> runner n2 = Some (if last_input_ready n then reset (reset r) else reset r)
    \<and> runner n1 = Some r)"
proof -
  obtain r where r: "runner n = Some r" "fst (policy_inputs n now) = []"
    using policy_tick_action [OF assms(1)] by metis
  obtain r' x err where i: "infer run None (io_path n) r (snd (policy_inputs n now)) = (r', x, err)"
    by (metis prod_cases3)
  have x: "x = Some act"
    using assms(1) r i by (auto simp: policy_tick_def Let_def case_prod_beta split: option.splits)
  then have "err = None" "infer run (Some e) (io_path n) r (snd (policy_inputs n now)) = (r', Some act, Some e)"
    using i assms(2) by (auto simp: infer_def split: prod.splits sum.splits)
  with assms(1) r i x show ?thesis
    by (auto simp: policy_tick_def Let_def case_prod_beta publish_status_def)
qed

theorem log_failure_withdraws_policy_witness:
  "\<exists>n' st. policy_tick (t60_run demo_network) t60_reset (Some (OSError ''full'')) demo_policy_node 0 = (n', Some zeros8, st)
    \<and> \<not> ps_input_ready st"
proof -
  obtain n' st where t: "policy_tick (t60_run demo_network) t60_reset None demo_policy_node 0 = (n', Some zeros8, st)"
    using demo_tick by blast
  have "io_path demo_policy_node"
    by (simp add: demo_policy_node_def)
  then show ?thesis
    using log_failure_withdraws_policy [OF t, of "OSError ''full''"] by auto
qed

text \<open>Installing a policy answers, except for a rate that is not a number.  The service never raises on a
  manifest that cannot be read, a bad age or delay, or a runner that cannot be built; it raises exactly
  when a policy is activated, no rate is configured, and the accepted manifest's \<open>control_rate_hz\<close> cannot
  be converted to a float.\<close>

theorem set_policy_raises_iff:
  "(\<exists>e. on_set_policy parse create loaded activate name path n = Inl e) \<longleftrightarrow>
     activate \<and> publish_rate_hz n \<le> 0
     \<and> (\<exists>e. py_float parse (contract_get (manifest (load_policy parse create loaded name path n)) ''control_rate_hz'' 60) = Inl e)"
proof -
  have "publish_rate_hz (load_policy parse create loaded name path n) = publish_rate_hz n"
    by (simp add: load_policy_def Let_def split: sum.split prod.split)
  then show ?thesis
    by (auto simp: on_set_policy_def policy_rate_hz_def Let_def ebind_def split: sum.splits if_split_asm)
qed

text \<open>Accepted manifests are well formed.  A loaded manifest has a non-empty name, runner and model path,
  the requested role and input names that are all non-empty, and comes from an existing \<open>.yaml\<close> file.\<close>

theorem accepted_manifest_sound:
  assumes "load_policy_manifest float_str fs raw_path default_name role = Inr m"
  shows "pm_role m = role \<and> pm_name m \<noteq> '''' \<and> pm_role m \<noteq> '''' \<and> pm_runner m \<noteq> ''''
    \<and> '''' \<notin> set (pm_input_schema m) \<and> py_lower (path_suffix (py_strip raw_path)) = ''.yaml'' \<and> is_file fs (py_strip raw_path)"
proof -
  have items: "text_list vs = Some xs \<Longrightarrow> '''' \<notin> set xs" for vs xs
    by (induction vs arbitrary: xs rule: text_list.induct) (auto split: if_split_asm)
  have read: "read_manifest fs p = Inr d \<Longrightarrow> py_lower (path_suffix p) = ''.yaml'' \<and> is_file fs p" for p d
    by (auto simp: read_manifest_def split: if_split_asm)
  show ?thesis
    using assms
    by (auto simp: load_policy_manifest_def Let_def ebind_Inr_conv dest!: read
        split: if_split_asm yaml.splits option.splits dest: items)
qed

theorem accepted_manifest_sound_witness:
  "\<exists>m. load_policy_manifest (\<lambda>_. '''') demo_files '' /policies/demo/policy.yaml '' '''' ''body'' = Inr m
    \<and> pm_role m = ''body'' \<and> pm_name m \<noteq> ''''"
proof -
  obtain m where m: "load_policy_manifest (\<lambda>_. '''') demo_files '' /policies/demo/policy.yaml '' '''' ''body'' = Inr m"
    using demo_files_accepted by blast
  show ?thesis
    using accepted_manifest_sound [OF m] m by simp
qed

end
