(* ===== verification/Tracking_Experiment.thy ===== *)
theory Tracking_Experiment
  imports Task_Catalog Trajectory_Node
begin

text \<open>
  The experiment action server, \<^verbatim>\<open>robotcore_runtime/tracking_experiment_node.py\<close>.  The
  coroutine \<^verbatim>\<open>execute\<close> is a state machine whose phases are its \<^verbatim>\<open>await\<close> points; an event is a
  subscription callback, a reply to a pending service call, the one-shot timer of
  \<^verbatim>\<open>wait_for_next_feedback\<close>, or a cancel request.  A \<open>moment\<close> is what the code can read while it runs
  from one \<^verbatim>\<open>await\<close> to the next: up to two clock readings and which services \<^verbatim>\<open>wait_for_service\<close>
  finds.  Everything the coroutine sends is appended to a trace.  One goal is followed; other goals
  would be further coroutines beside it that share the subscriptions.
\<close>

section \<open>Messages and state\<close>

record authority_status =
  auth_source :: string
  auth_armed :: bool
  arm_generation :: int
  auth_fault_latched :: bool

record pid_status_msg =
  pid_ready :: bool
  pid_producing :: bool
  pid_missing :: "string list"

record policy_status_msg =
  policy_loaded :: bool
  policy_input_ready :: bool
  policy_missing :: "string list"
  inference_count :: int

record authority_reply =
  accepted :: bool
  reply_armed :: bool
  reply_message :: string

record start_reply =
  start_success :: bool
  start_run_dir :: string
  start_message :: string

record experiment_result =
  result_success :: bool
  result_run_dir :: string
  result_message :: string

datatype exp_service =
    AuthorityService | StartRunService | ParameterService | ValidateService | ResetService | StopTrajectoryService

record moment =
  clock0 :: int
  clock1 :: int
  up :: "exp_service \<Rightarrow> bool"

record experiment_node =
  task_catalog :: catalog
  authority :: "authority_status option"
  latest_trajectory_target :: "target_msg option"
  trajectory_target_sequence :: nat
  latest_pid_status :: "pid_status_msg option"
  pid_status_sequence :: nat
  latest_policy_status :: "policy_status_msg option"
  policy_status_sequence :: nat

text \<open>
  What the coroutine sends.  An attempt on the authority or the trajectory-stop service records
  whether the service was there.
\<close>

datatype call =
    SetAuthority bool string bool
  | StartRun string string real
  | SetParameters "(string \<times> field_value) list"
  | Validate
  | Reset
  | StopTrajectory bool
  | StopRun bool string
  | Feedback real string real
  | Timer real
  | Succeed
  | Abort
  | Canceled

text \<open>How an experiment that is being wound up will end: before a run was recorded, by
  \<^verbatim>\<open>fail_active_run\<close>, or after the feedback loop (success, canceled, message).\<close>

datatype ending = NoRun string | FailRun string string | EndRun string bool bool string

datatype phase =
    Idle
  | AwaitDisarm task
  | AwaitSelect task
  | WaitDisarmed task int
  | AwaitStart task
  | AwaitParameters task string
  | AwaitValidate task string
  | AwaitReset task string nat
  | WaitReady task string nat "(nat \<times> int) option" int
  | AwaitArm task string int
  | WaitArmed task string int int
  | AwaitOfficial task string
  | Running task string int
  | Stopping task ending
  | Disarming task ending
  | StoppingRun task ending
  | Done experiment_result
  | Failed exc

record exp_state =
  node :: experiment_node
  phase_of :: phase
  cancel_requested :: bool
  trace :: "call list"

definition experiment_init :: "catalog \<Rightarrow> exp_state" where
  "experiment_init c =
     \<lparr>node = \<lparr>task_catalog = c, authority = None, latest_trajectory_target = None, trajectory_target_sequence = 0,
        latest_pid_status = None, pid_status_sequence = 0, latest_policy_status = None, policy_status_sequence = 0\<rparr>,
      phase_of = Idle, cancel_requested = False, trace = []\<rparr>"

section \<open>Parts of the coroutine\<close>

text \<open>\<^verbatim>\<open>str.upper\<close> on ASCII text.\<close>

definition upper_char :: "char \<Rightarrow> char" where
  "upper_char c = (let n = of_char c :: nat in if 97 \<le> n \<and> n \<le> 122 then char_of (n - 32) else c)"

definition py_upper :: "string \<Rightarrow> string" where
  "py_upper s = map upper_char s"

definition emit :: "call list \<Rightarrow> phase \<times> call list \<Rightarrow> phase \<times> call list" where
  "emit cs r = (fst r, cs @ snd r)"

definition finish :: "string \<Rightarrow> phase \<times> call list" where
  "finish msg = (Done \<lparr>result_success = False, result_run_dir = '''', result_message = msg\<rparr>, [Abort])"

definition wait_for_next_feedback :: "phase \<Rightarrow> real \<Rightarrow> phase \<times> call list" where
  "wait_for_next_feedback ph delay = (ph, [Timer (max delay (1 / 1000))])"

text \<open>\<^verbatim>\<open>set_authority\<close>: the pending phase when the service is there, else go on with \<^verbatim>\<open>None\<close>.\<close>

definition set_authority :: "moment \<Rightarrow> string \<Rightarrow> bool \<Rightarrow> phase \<Rightarrow> phase \<times> call list \<Rightarrow> phase \<times> call list" where
  "set_authority m src arm pending missing =
     emit [SetAuthority (up m AuthorityService) (py_lower src) arm]
       (if up m AuthorityService then (pending, []) else missing)"

definition after_disarm :: "task \<Rightarrow> ending \<Rightarrow> phase \<times> call list" where
  "after_disarm t en =
     (case en of
        NoRun msg \<Rightarrow> finish msg
      | FailRun dir msg \<Rightarrow> (StoppingRun t en, [StopRun False msg])
      | EndRun dir ok canceled msg \<Rightarrow> (StoppingRun t en, [StopRun ok msg]))"

definition disarm_then :: "moment \<Rightarrow> task \<Rightarrow> ending \<Rightarrow> phase \<times> call list" where
  "disarm_then m t en = set_authority m (controller t) False (Disarming t en) (after_disarm t en)"

definition stop_trajectory_then :: "moment \<Rightarrow> task \<Rightarrow> ending \<Rightarrow> phase \<times> call list" where
  "stop_trajectory_then m t en =
     emit [StopTrajectory (up m StopTrajectoryService)]
       (if up m StopTrajectoryService then (Stopping t en, []) else disarm_then m t en)"

definition after_stop_run :: "ending \<Rightarrow> phase \<times> call list" where
  "after_stop_run en =
     (case en of
        NoRun msg \<Rightarrow> finish msg
      | FailRun dir msg \<Rightarrow> (Done \<lparr>result_success = False, result_run_dir = dir, result_message = msg\<rparr>, [Abort])
      | EndRun dir ok canceled msg \<Rightarrow>
          (Done \<lparr>result_success = ok, result_run_dir = dir, result_message = msg\<rparr>,
           if ok then [Succeed] else if \<not> canceled then [Abort] else []))"

definition fail_active_run :: "moment \<Rightarrow> task \<Rightarrow> string \<Rightarrow> string \<Rightarrow> phase \<times> call list" where
  "fail_active_run m t dir msg = stop_trajectory_then m t (FailRun dir msg)"

subsection \<open>Preparation\<close>

definition execute :: "experiment_node \<Rightarrow> moment \<Rightarrow> string \<Rightarrow> phase \<times> call list" where
  "execute n m task_id =
     (case catalog_task (task_catalog n) task_id of
        Inl e \<Rightarrow> finish (''managed tracking task is unavailable or invalid: '' @ exc_str e)
      | Inr t \<Rightarrow>
          if (case authority n of None \<Rightarrow> True | Some a \<Rightarrow> auth_fault_latched a)
          then finish (py_upper (controller t) @ '' authority status must be available and healthy'')
          else set_authority m '''' False (AwaitDisarm t)
                 (finish ''could not disarm current authority before preparing trajectory''))"

definition on_disarm_result :: "moment \<Rightarrow> task \<Rightarrow> authority_reply \<Rightarrow> phase \<times> call list" where
  "on_disarm_result m t r =
     (if \<not> accepted r then finish ''could not disarm current authority before preparing trajectory''
      else set_authority m (controller t) False (AwaitSelect t)
             (finish (''could not select '' @ py_upper (controller t) @ '' while disarmed'')))"

definition start_run :: "moment \<Rightarrow> task \<Rightarrow> phase \<times> call list" where
  "start_run m t =
     (if \<not> up m StartRunService then disarm_then m t (NoRun ''run recorder service unavailable'')
      else (AwaitStart t, [StartRun (task_name t) (controller t) (duration_s t)]))"

definition disarmed_as :: "experiment_node \<Rightarrow> string \<Rightarrow> bool" where
  "disarmed_as n src =
     (case authority n of
        None \<Rightarrow> False
      | Some a \<Rightarrow> \<not> auth_armed a \<and> \<not> auth_fault_latched a \<and> auth_source a = py_lower src)"

definition wait_for_disarmed_status :: "experiment_node \<Rightarrow> moment \<Rightarrow> task \<Rightarrow> int \<Rightarrow> int \<Rightarrow> phase \<times> call list" where
  "wait_for_disarmed_status n m t deadline_ns now =
     (if now < deadline_ns
      then if disarmed_as n (controller t) then start_run m t
           else wait_for_next_feedback (WaitDisarmed t deadline_ns) (1 / 50)
      else finish (py_upper (controller t) @ '' disarmed selection was not confirmed''))"

definition on_select_result :: "experiment_node \<Rightarrow> moment \<Rightarrow> task \<Rightarrow> authority_reply \<Rightarrow> phase \<times> call list" where
  "on_select_result n m t r =
     (if \<not> accepted r then finish (''could not select '' @ py_upper (controller t) @ '' while disarmed'')
      else wait_for_disarmed_status n m t (clock0 m + 500000000) (clock1 m))"

datatype parameter_type = TString | TBool | TDouble

definition ALLOWED_PARAMETER_TYPES :: "(string \<times> parameter_type) list" where
  "ALLOWED_PARAMETER_TYPES =
     [(''trajectory_type'', TString), (''control_mode'', TString), (''attitude_mode'', TString),
      (''relative_to_initial_pose'', TBool), (''center_x'', TDouble), (''center_y'', TDouble), (''center_z'', TDouble),
      (''hold_before_motion_s'', TDouble), (''amp_x'', TDouble), (''amp_y'', TDouble), (''amp_z'', TDouble),
      (''radius_m'', TDouble), (''period_s'', TDouble), (''trajectory_speed_mps'', TDouble), (''trajectory_ramp_s'', TDouble),
      (''move_duration_s'', TDouble), (''manual_vertical_speed_mps'', TDouble), (''station_linear_input_gain_mps'', TDouble),
      (''station_lateral_input_gain_mps'', TDouble), (''station_yaw_input_gain_rps'', TDouble)]"

text \<open>\<^verbatim>\<open>Parameter(name, type, value)\<close> raises when the value does not have the type.\<close>

fun agrees :: "parameter_type \<Rightarrow> field_value \<Rightarrow> bool" where
  "agrees TString (FStr _) = True"
| "agrees TBool (FBool _) = True"
| "agrees TDouble (FNum _) = True"
| "agrees _ _ = False"

fun build_parameters :: "scenario \<Rightarrow> (string \<times> parameter_type) list \<Rightarrow> exc + (string \<times> field_value) list" where
  "build_parameters sp [] = Inr []"
| "build_parameters sp ((name, ty) # rest) =
     (case map_of sp name of
        None \<Rightarrow> build_parameters sp rest
      | Some v \<Rightarrow>
          if agrees ty v then ebind (build_parameters sp rest) (\<lambda>ps. Inr ((name, v) # ps))
          else Inl (ValueError name))"

definition scenario_parameters :: "task \<Rightarrow> scenario" where
  "scenario_parameters t = dict_set ''control_mode'' (FStr (task_control_mode t)) (trajectory t)"

definition on_start_result :: "moment \<Rightarrow> task \<Rightarrow> start_reply \<Rightarrow> phase \<times> call list" where
  "on_start_result m t r =
     (if \<not> start_success r then disarm_then m t (NoRun (start_message r))
      else if \<not> up m ParameterService
      then fail_active_run m t (start_run_dir r) ''trajectory parameter service unavailable''
      else case build_parameters (scenario_parameters t) ALLOWED_PARAMETER_TYPES of
          Inl e \<Rightarrow> (Failed e, [])
        | Inr ps \<Rightarrow> (AwaitParameters t (start_run_dir r), [SetParameters ps]))"

definition on_parameter_results :: "moment \<Rightarrow> task \<Rightarrow> string \<Rightarrow> bool list \<Rightarrow> phase \<times> call list" where
  "on_parameter_results m t dir results =
     (if \<not> list_all id results then fail_active_run m t dir ''trajectory scenario parameters rejected''
      else if \<not> up m ValidateService then fail_active_run m t dir ''trajectory validation service unavailable''
      else (AwaitValidate t dir, [Validate]))"

definition on_validation_result ::
  "experiment_node \<Rightarrow> moment \<Rightarrow> task \<Rightarrow> string \<Rightarrow> trigger_response \<Rightarrow> phase \<times> call list" where
  "on_validation_result n m t dir r =
     (if \<not> success r then fail_active_run m t dir (message r)
      else if \<not> up m ResetService then fail_active_run m t dir ''trajectory reset service unavailable''
      else (AwaitReset t dir (trajectory_target_sequence n), [Reset]))"

subsection \<open>The readiness handshake\<close>

definition expected_target :: "experiment_node \<Rightarrow> task \<Rightarrow> nat \<Rightarrow> bool" where
  "expected_target n t before =
     (before < trajectory_target_sequence n
      \<and> (case latest_trajectory_target n of
           None \<Rightarrow> False
         | Some g \<Rightarrow> target_valid g \<and> py_lower (trajectory_type g) = py_lower (trajectory_type_of (scenario_parameters t))
                     \<and> py_lower (control_mode g) = py_lower (task_control_mode t)))"

definition mark_target :: "experiment_node \<Rightarrow> task \<Rightarrow> nat \<Rightarrow> (nat \<times> int) option \<Rightarrow> (nat \<times> int) option" where
  "mark_target n t before mark =
     (if mark = None \<and> expected_target n t before
      then if py_lower (controller t) = ''pid'' then Some (pid_status_sequence n, 0)
           else Some (policy_status_sequence n, case latest_policy_status n of None \<Rightarrow> 0 | Some p \<Rightarrow> inference_count p)
      else mark)"

definition controller_ready :: "experiment_node \<Rightarrow> task \<Rightarrow> nat \<Rightarrow> int \<Rightarrow> bool" where
  "controller_ready n t seq inferences =
     (if py_lower (controller t) = ''pid''
      then seq < pid_status_sequence n
        \<and> (case latest_pid_status n of None \<Rightarrow> False | Some p \<Rightarrow> pid_ready p \<and> pid_producing p \<and> pid_missing p = [])
      else seq < policy_status_sequence n
        \<and> (case latest_policy_status n of None \<Rightarrow> False
           | Some p \<Rightarrow> policy_loaded p \<and> policy_input_ready p \<and> policy_missing p = [] \<and> inferences < inference_count p))"

text \<open>The status is not \<^verbatim>\<open>None\<close> here: it was there when the goal started and is only replaced.\<close>

definition arm_controller :: "experiment_node \<Rightarrow> moment \<Rightarrow> task \<Rightarrow> string \<Rightarrow> phase \<times> call list" where
  "arm_controller n m t dir =
     (case authority n of
        None \<Rightarrow> (Failed (AttributeError ''arm_generation''), [])
      | Some a \<Rightarrow>
          set_authority m (controller t) True (AwaitArm t dir (arm_generation a))
            (fail_active_run m t dir
               (py_upper (controller t) @ '' re-arm after trajectory reset failed: control authority service unavailable'')))"

definition wait_for_tracking_ready ::
  "experiment_node \<Rightarrow> moment \<Rightarrow> task \<Rightarrow> string \<Rightarrow> nat \<Rightarrow> (nat \<times> int) option \<Rightarrow> int \<Rightarrow> int \<Rightarrow> phase \<times> call list" where
  "wait_for_tracking_ready n m t dir before mark deadline_ns now =
     (if now < deadline_ns
      then let mark' = mark_target n t before mark in
           if (case mark' of None \<Rightarrow> False | Some (seq, inferences) \<Rightarrow> controller_ready n t seq inferences)
           then arm_controller n m t dir
           else wait_for_next_feedback (WaitReady t dir before mark' deadline_ns) (1 / 50)
      else fail_active_run m t dir
             (''reset trajectory target and ready '' @ py_upper (controller t) @ '' command were not observed''))"

definition on_reset_result ::
  "experiment_node \<Rightarrow> moment \<Rightarrow> task \<Rightarrow> string \<Rightarrow> nat \<Rightarrow> trigger_response \<Rightarrow> phase \<times> call list" where
  "on_reset_result n m t dir before r =
     (if \<not> success r then fail_active_run m t dir (message r)
      else wait_for_tracking_ready n m t dir before None (clock0 m + 1000000000) (clock1 m))"

definition armed_as :: "experiment_node \<Rightarrow> string \<Rightarrow> int \<Rightarrow> bool" where
  "armed_as n src previous =
     (case authority n of
        None \<Rightarrow> False
      | Some a \<Rightarrow> auth_armed a \<and> \<not> auth_fault_latched a \<and> auth_source a = py_lower src \<and> previous < arm_generation a)"

definition wait_for_armed_status ::
  "experiment_node \<Rightarrow> moment \<Rightarrow> task \<Rightarrow> string \<Rightarrow> int \<Rightarrow> int \<Rightarrow> int \<Rightarrow> phase \<times> call list" where
  "wait_for_armed_status n m t dir previous deadline_ns now =
     (if now < deadline_ns
      then if armed_as n (controller t) previous then (AwaitOfficial t dir, [Reset])
           else wait_for_next_feedback (WaitArmed t dir previous deadline_ns) (1 / 50)
      else fail_active_run m t dir (py_upper (controller t) @ '' re-arm was not confirmed by authority status''))"

definition on_arm_result ::
  "experiment_node \<Rightarrow> moment \<Rightarrow> task \<Rightarrow> string \<Rightarrow> int \<Rightarrow> authority_reply \<Rightarrow> phase \<times> call list" where
  "on_arm_result n m t dir previous r =
     (if \<not> accepted r \<or> \<not> reply_armed r
      then fail_active_run m t dir (py_upper (controller t) @ '' re-arm after trajectory reset failed: '' @ reply_message r)
      else wait_for_armed_status n m t dir previous (clock0 m + 500000000) (clock1 m))"

subsection \<open>The feedback loop\<close>

definition elapsed_s :: "int \<Rightarrow> int \<Rightarrow> real" where
  "elapsed_s started now = real_of_int (now - started) * (1 / 10 ^ 9)"

definition hold_before_motion :: "scenario \<Rightarrow> real" where
  "hold_before_motion sc = (case map_of sc ''hold_before_motion_s'' of Some (FNum x) \<Rightarrow> x | _ \<Rightarrow> 0)"

definition experiment_feedback :: "task \<Rightarrow> real \<Rightarrow> call" where
  "experiment_feedback t elapsed =
     Feedback (if run_until_stopped t then 0 else min 1 (elapsed / max (duration_s t) (1 / 10 ^ 6)))
       (if elapsed < hold_before_motion (trajectory t) then ''hold'' else ''tracking'') elapsed"

definition authority_lost :: "experiment_node \<Rightarrow> string \<Rightarrow> bool" where
  "authority_lost n src =
     (case authority n of
        None \<Rightarrow> True
      | Some a \<Rightarrow> \<not> auth_armed a \<or> auth_source a \<noteq> src \<or> auth_fault_latched a)"

definition tracking_loop ::
  "experiment_node \<Rightarrow> moment \<Rightarrow> bool \<Rightarrow> task \<Rightarrow> string \<Rightarrow> int \<Rightarrow> int \<Rightarrow> phase \<times> call list" where
  "tracking_loop n m cancel t dir started now =
     (let elapsed = elapsed_s started now in
      if \<not> run_until_stopped t \<and> duration_s t \<le> elapsed
      then stop_trajectory_then m t (EndRun dir True False ''completed'')
      else if cancel
      then emit [Canceled] (stop_trajectory_then m t (EndRun dir False True ''canceled and disarmed''))
      else if authority_lost n (controller t)
      then stop_trajectory_then m t (EndRun dir False False ''authority disarmed or faulted during experiment'')
      else emit [experiment_feedback t elapsed] (wait_for_next_feedback (Running t dir started) (1 / 10)))"

definition on_official_start ::
  "experiment_node \<Rightarrow> moment \<Rightarrow> bool \<Rightarrow> task \<Rightarrow> string \<Rightarrow> trigger_response \<Rightarrow> phase \<times> call list" where
  "on_official_start n m cancel t dir r =
     (if \<not> success r then fail_active_run m t dir (message r)
      else tracking_loop n m cancel t dir (clock0 m) (clock1 m))"

section \<open>Events\<close>

datatype reply =
    AuthorityReply authority_reply
  | StartReply start_reply
  | ParameterReply "bool list"
  | TriggerReply trigger_response
  | StopRunReply

datatype exp_event =
    AuthorityStatus authority_status
  | TargetSeen target_msg
  | PidSeen pid_status_msg
  | PolicySeen policy_status_msg
  | CancelRequest
  | Goal moment string
  | Wake moment
  | Reply moment reply

definition on_authority_message :: "authority_status \<Rightarrow> experiment_node \<Rightarrow> experiment_node" where
  "on_authority_message a n = n\<lparr>authority := Some a\<rparr>"

definition on_trajectory_target :: "target_msg \<Rightarrow> experiment_node \<Rightarrow> experiment_node" where
  "on_trajectory_target g n =
     n\<lparr>latest_trajectory_target := Some g, trajectory_target_sequence := trajectory_target_sequence n + 1\<rparr>"

definition on_pid_status :: "pid_status_msg \<Rightarrow> experiment_node \<Rightarrow> experiment_node" where
  "on_pid_status p n = n\<lparr>latest_pid_status := Some p, pid_status_sequence := pid_status_sequence n + 1\<rparr>"

definition on_policy_status :: "policy_status_msg \<Rightarrow> experiment_node \<Rightarrow> experiment_node" where
  "on_policy_status p n = n\<lparr>latest_policy_status := Some p, policy_status_sequence := policy_status_sequence n + 1\<rparr>"

definition on_list_tasks :: "experiment_node \<Rightarrow> string list \<times> string list \<times> string" where
  "on_list_tasks n =
     (let s = summaries (task_catalog n) in
      (map fst s, map snd s, show_nat (length s) @ '' validated tracking tasks''))"

text \<open>Resuming the coroutine; a reply that the phase does not wait for does not exist.\<close>

definition on_wake :: "experiment_node \<Rightarrow> bool \<Rightarrow> moment \<Rightarrow> phase \<Rightarrow> (phase \<times> call list) option" where
  "on_wake n cancel m ph =
     (case ph of
        WaitDisarmed t deadline \<Rightarrow> Some (wait_for_disarmed_status n m t deadline (clock0 m))
      | WaitReady t dir before mark deadline \<Rightarrow>
          Some (wait_for_tracking_ready n m t dir before mark deadline (clock0 m))
      | WaitArmed t dir previous deadline \<Rightarrow> Some (wait_for_armed_status n m t dir previous deadline (clock0 m))
      | Running t dir started \<Rightarrow> Some (tracking_loop n m cancel t dir started (clock0 m))
      | _ \<Rightarrow> None)"

definition on_authority_reply :: "experiment_node \<Rightarrow> moment \<Rightarrow> phase \<Rightarrow> authority_reply \<Rightarrow> (phase \<times> call list) option" where
  "on_authority_reply n m ph r =
     (case ph of
        AwaitDisarm t \<Rightarrow> Some (on_disarm_result m t r)
      | AwaitSelect t \<Rightarrow> Some (on_select_result n m t r)
      | AwaitArm t dir previous \<Rightarrow> Some (on_arm_result n m t dir previous r)
      | Disarming t en \<Rightarrow> Some (after_disarm t en)
      | _ \<Rightarrow> None)"

definition on_trigger_reply ::
  "experiment_node \<Rightarrow> bool \<Rightarrow> moment \<Rightarrow> phase \<Rightarrow> trigger_response \<Rightarrow> (phase \<times> call list) option" where
  "on_trigger_reply n cancel m ph r =
     (case ph of
        AwaitValidate t dir \<Rightarrow> Some (on_validation_result n m t dir r)
      | AwaitReset t dir before \<Rightarrow> Some (on_reset_result n m t dir before r)
      | AwaitOfficial t dir \<Rightarrow> Some (on_official_start n m cancel t dir r)
      | Stopping t en \<Rightarrow> Some (disarm_then m t en)
      | _ \<Rightarrow> None)"

definition on_reply :: "experiment_node \<Rightarrow> bool \<Rightarrow> moment \<Rightarrow> phase \<Rightarrow> reply \<Rightarrow> (phase \<times> call list) option" where
  "on_reply n cancel m ph reply =
     (case reply of
        AuthorityReply r \<Rightarrow> on_authority_reply n m ph r
      | StartReply r \<Rightarrow> (case ph of AwaitStart t \<Rightarrow> Some (on_start_result m t r) | _ \<Rightarrow> None)
      | ParameterReply rs \<Rightarrow> (case ph of AwaitParameters t dir \<Rightarrow> Some (on_parameter_results m t dir rs) | _ \<Rightarrow> None)
      | TriggerReply r \<Rightarrow> on_trigger_reply n cancel m ph r
      | StopRunReply \<Rightarrow> (case ph of StoppingRun t en \<Rightarrow> Some (after_stop_run en) | _ \<Rightarrow> None))"

definition resume :: "exp_state \<Rightarrow> (phase \<times> call list) option \<Rightarrow> exp_state" where
  "resume s r = (case r of None \<Rightarrow> s | Some (ph, cs) \<Rightarrow> s\<lparr>phase_of := ph, trace := trace s @ cs\<rparr>)"

fun exp_step :: "exp_state \<Rightarrow> exp_event \<Rightarrow> exp_state" where
  "exp_step s (AuthorityStatus a) = s\<lparr>node := on_authority_message a (node s)\<rparr>"
| "exp_step s (TargetSeen g) = s\<lparr>node := on_trajectory_target g (node s)\<rparr>"
| "exp_step s (PidSeen p) = s\<lparr>node := on_pid_status p (node s)\<rparr>"
| "exp_step s (PolicySeen p) = s\<lparr>node := on_policy_status p (node s)\<rparr>"
| "exp_step s CancelRequest = s\<lparr>cancel_requested := True\<rparr>"
| "exp_step s (Goal m task_id) =
     (if phase_of s = Idle then resume s (Some (execute (node s) m task_id)) else s)"
| "exp_step s (Wake m) = resume s (on_wake (node s) (cancel_requested s) m (phase_of s))"
| "exp_step s (Reply m r) = resume s (on_reply (node s) (cancel_requested s) m (phase_of s) r)"

definition exp_run :: "exp_state \<Rightarrow> exp_event list \<Rightarrow> exp_state" where
  "exp_run s es = foldl exp_step s es"

end
