(* ===== verification/Experiment_Safety.thy ===== *)
theory Experiment_Safety
  imports Tracking_Experiment
begin

text \<open>
  The protocol of a managed experiment.  The requests of the coroutine, timers and feedback left
  out, always form a prefix of one fixed protocol followed by a winding-up sequence; a phase-indexed
  predicate says which, every segment of the coroutine keeps it, and the safety properties are read
  off it: preparation before arming, one disarm after every arm, one close of every recorded run.
\<close>

section \<open>The protocol\<close>

fun request :: "call \<Rightarrow> bool" where
  "request (Feedback _ _ _) = False"
| "request (Timer _) = False"
| "request _ = True"

definition requests :: "call list \<Rightarrow> call list" where
  "requests tr = filter request tr"

definition source_of :: "task \<Rightarrow> string" where
  "source_of t = py_lower (controller t)"

definition sent_parameters :: "task \<Rightarrow> (string \<times> field_value) list" where
  "sent_parameters t =
     (case build_parameters (scenario_parameters t) ALLOWED_PARAMETER_TYPES of Inl e \<Rightarrow> [] | Inr ps \<Rightarrow> ps)"

text \<open>The fields of the scenario have the types of the parameters.\<close>

definition sendable :: "task \<Rightarrow> bool" where
  "sendable t \<longleftrightarrow> (\<exists>ps. build_parameters (scenario_parameters t) ALLOWED_PARAMETER_TYPES = Inr ps)"

text \<open>The full preparation; \<open>b\<close> tells whether the authority service was there for arming.\<close>

definition protocol :: "task \<Rightarrow> bool \<Rightarrow> call list" where
  "protocol t b =
     [SetAuthority True '''' False, SetAuthority True (source_of t) False,
      StartRun (task_name t) (controller t) (duration_s t), SetParameters (sent_parameters t),
      Validate, Reset, SetAuthority b (source_of t) True, Reset]"

text \<open>What has been sent when winding up begins.\<close>

fun wound_up :: "task \<Rightarrow> ending \<Rightarrow> call list \<Rightarrow> bool" where
  "wound_up t (NoRun msg) tr \<longleftrightarrow> tr = take 2 (protocol t True) \<or> tr = take 3 (protocol t True)"
| "wound_up t (FailRun dir msg) tr \<longleftrightarrow> (\<exists>k b. 3 \<le> k \<and> k \<le> 8 \<and> tr = take k (protocol t b))"
| "wound_up t (EndRun dir ok canceled msg) tr \<longleftrightarrow>
     \<not> (ok \<and> canceled) \<and> (ok \<longrightarrow> \<not> run_until_stopped t)
     \<and> tr = protocol t True @ (if canceled then [Canceled] else [])"

text \<open>The trajectory is stopped only when a run is being recorded.\<close>

fun stop_calls :: "ending \<Rightarrow> bool \<Rightarrow> call list" where
  "stop_calls (NoRun msg) a = []"
| "stop_calls en a = [StopTrajectory a]"

fun run_calls :: "ending \<Rightarrow> call list" where
  "run_calls (NoRun msg) = []"
| "run_calls (FailRun dir msg) = [StopRun False msg]"
| "run_calls (EndRun dir ok canceled msg) = [StopRun ok msg]"

fun goal_calls :: "ending \<Rightarrow> call list" where
  "goal_calls (EndRun dir ok canceled msg) = (if ok then [Succeed] else if canceled then [] else [Abort])"
| "goal_calls en = [Abort]"

fun result_of :: "ending \<Rightarrow> experiment_result" where
  "result_of (NoRun msg) = \<lparr>result_success = False, result_run_dir = '''', result_message = msg\<rparr>"
| "result_of (FailRun dir msg) = \<lparr>result_success = False, result_run_dir = dir, result_message = msg\<rparr>"
| "result_of (EndRun dir ok canceled msg) = \<lparr>result_success = ok, result_run_dir = dir, result_message = msg\<rparr>"

definition winding :: "task \<Rightarrow> ending \<Rightarrow> bool \<Rightarrow> bool \<Rightarrow> call list" where
  "winding t en a b = stop_calls en a @ [SetAuthority b (source_of t) False]"

text \<open>A goal that ends before anything needs winding up.\<close>

definition refused :: "call list \<Rightarrow> bool" where
  "refused tr \<longleftrightarrow> (\<exists>t b. tr \<in> {[Abort], [SetAuthority b '''' False, Abort],
      [SetAuthority True '''' False, SetAuthority b (source_of t) False, Abort]})"

fun shape :: "phase \<Rightarrow> call list \<Rightarrow> bool" where
  "shape Idle tr \<longleftrightarrow> tr = []"
| "shape (AwaitDisarm t) tr \<longleftrightarrow> sendable t \<and> tr = take 1 (protocol t True)"
| "shape (AwaitSelect t) tr \<longleftrightarrow> sendable t \<and> tr = take 2 (protocol t True)"
| "shape (WaitDisarmed t d) tr \<longleftrightarrow> sendable t \<and> tr = take 2 (protocol t True)"
| "shape (AwaitStart t) tr \<longleftrightarrow> sendable t \<and> tr = take 3 (protocol t True)"
| "shape (AwaitParameters t dir) tr \<longleftrightarrow> tr = take 4 (protocol t True)"
| "shape (AwaitValidate t dir) tr \<longleftrightarrow> tr = take 5 (protocol t True)"
| "shape (AwaitReset t dir k) tr \<longleftrightarrow> tr = take 6 (protocol t True)"
| "shape (WaitReady t dir k mark d) tr \<longleftrightarrow> tr = take 6 (protocol t True)"
| "shape (AwaitArm t dir g) tr \<longleftrightarrow> tr = take 7 (protocol t True)"
| "shape (WaitArmed t dir g d) tr \<longleftrightarrow> tr = take 7 (protocol t True)"
| "shape (AwaitOfficial t dir) tr \<longleftrightarrow> tr = protocol t True"
| "shape (Running t dir started) tr \<longleftrightarrow> tr = protocol t True"
| "shape (Stopping t en) tr \<longleftrightarrow> (\<exists>tr0. wound_up t en tr0 \<and> stop_calls en True \<noteq> [] \<and> tr = tr0 @ [StopTrajectory True])"
| "shape (Disarming t en) tr \<longleftrightarrow> (\<exists>tr0 a. wound_up t en tr0 \<and> tr = tr0 @ winding t en a True)"
| "shape (StoppingRun t en) tr \<longleftrightarrow>
     (\<exists>tr0 a b. wound_up t en tr0 \<and> run_calls en \<noteq> [] \<and> tr = tr0 @ winding t en a b @ run_calls en)"
| "shape (Done r) tr \<longleftrightarrow>
     (refused tr \<and> \<not> result_success r)
     \<or> (\<exists>t en tr0 a b. wound_up t en tr0 \<and> tr = tr0 @ winding t en a b @ run_calls en @ goal_calls en \<and> r = result_of en)"
| "shape (Failed e) tr \<longleftrightarrow> False"

lemma requests_simps [simp]:
  "requests [] = []"
  "requests (xs @ ys) = requests xs @ requests ys"
  "requests (c # cs) = (if request c then c # requests cs else requests cs)"
  by (simp_all add: requests_def)

text \<open>A segment, run after the requests \<open>tr\<close>, ends in a phase of the right shape.\<close>

definition keeps :: "call list \<Rightarrow> phase \<times> call list \<Rightarrow> bool" where
  "keeps tr r \<longleftrightarrow> shape (fst r) (tr @ requests (snd r))"

lemma keeps_emit [simp]: "keeps tr (emit cs r) \<longleftrightarrow> keeps (tr @ requests cs) r"
  by (simp add: keeps_def emit_def)

lemma keeps_wait [simp]: "keeps tr (wait_for_next_feedback ph d) \<longleftrightarrow> shape ph tr"
  by (simp add: keeps_def wait_for_next_feedback_def)

lemma keeps_finish: "refused (tr @ [Abort]) \<Longrightarrow> keeps tr (finish msg)"
  by (simp add: keeps_def finish_def)

lemma keeps_authority:
  "(up m AuthorityService \<Longrightarrow> shape pending (tr @ [SetAuthority True (py_lower src) arm])) \<Longrightarrow>
   (\<not> up m AuthorityService \<Longrightarrow> keeps (tr @ [SetAuthority False (py_lower src) arm]) missing) \<Longrightarrow>
   keeps tr (set_authority m src arm pending missing)"
  by (cases "up m AuthorityService") (simp_all add: set_authority_def keeps_def emit_def)

lemma shape_DoneI:
  "wound_up t en tr0 \<Longrightarrow> tr = tr0 @ winding t en a b @ run_calls en @ goal_calls en \<Longrightarrow> r = result_of en
   \<Longrightarrow> shape (Done r) tr"
  unfolding shape.simps by blast

lemma keeps_after_disarm:
  assumes w: "wound_up t en tr0" and tr: "tr = tr0 @ winding t en a b"
  shows "keeps tr (after_disarm t en)"
proof (cases en)
  case (NoRun msg)
  have "shape (Done (result_of en)) (tr @ [Abort])"
    using w by (rule shape_DoneI) (simp_all add: tr NoRun)
  then show ?thesis
    by (simp add: after_disarm_def finish_def keeps_def NoRun)
next
  case (FailRun dir msg)
  with w tr show ?thesis
    by (auto simp del: wound_up.simps simp: after_disarm_def keeps_def)
next
  case (EndRun dir ok canceled msg)
  with w tr show ?thesis
    by (auto simp del: wound_up.simps simp: after_disarm_def keeps_def)
qed

lemma keeps_disarm_then:
  assumes "wound_up t en tr0" "tr = tr0 @ stop_calls en a"
  shows "keeps tr (disarm_then m t en)"
  unfolding disarm_then_def
proof (rule keeps_authority)
  show "shape (Disarming t en) (tr @ [SetAuthority True (py_lower (controller t)) False])"
    using assms by (auto simp: winding_def source_of_def)
  show "keeps (tr @ [SetAuthority False (py_lower (controller t)) False]) (after_disarm t en)"
    using assms by (intro keeps_after_disarm [of t en tr0 _ a False]) (simp_all add: winding_def source_of_def)
qed

lemma keeps_stop_trajectory_then:
  assumes w: "wound_up t en tr" and s: "\<And>a. stop_calls en a = [StopTrajectory a]"
  shows "keeps tr (stop_trajectory_then m t en)"
proof (cases "up m StopTrajectoryService")
  case True
  with w s show ?thesis
    by (simp add: stop_trajectory_then_def keeps_def emit_def)
next
  case False
  have "keeps (tr @ [StopTrajectory False]) (disarm_then m t en)"
    using w s by (intro keeps_disarm_then) auto
  with False show ?thesis
    by (simp add: stop_trajectory_then_def)
qed

lemma keeps_fail_active_run:
  "3 \<le> k \<Longrightarrow> k \<le> 8 \<Longrightarrow> tr = take k (protocol t b) \<Longrightarrow> keeps tr (fail_active_run m t dir msg)"
  unfolding fail_active_run_def by (rule keeps_stop_trajectory_then) auto

lemma after_stop_run_eq: "after_stop_run en = (Done (result_of en), goal_calls en)"
  by (cases en) (simp_all add: after_stop_run_def finish_def)

lemma requests_goal_calls [simp]: "requests (goal_calls en) = goal_calls en"
  by (cases en) simp_all

lemma keeps_after_stop_run:
  assumes "shape (StoppingRun t en) tr"
  shows "keeps tr (after_stop_run en)"
proof -
  obtain tr0 a b where w: "wound_up t en tr0" and tr: "tr = tr0 @ winding t en a b @ run_calls en"
    using assms by auto
  have "shape (Done (result_of en)) (tr @ goal_calls en)"
    using w by (rule shape_DoneI) (simp_all add: tr)
  then show ?thesis
    by (simp del: shape.simps add: after_stop_run_eq keeps_def)
qed

section \<open>Every segment keeps the protocol\<close>

lemma take_protocol [simp]:
  "take (Suc 0) (protocol t b) = [SetAuthority True '''' False]"
  "take 2 (protocol t b) = [SetAuthority True '''' False, SetAuthority True (source_of t) False]"
  "take 3 (protocol t b) = take 2 (protocol t b) @ [StartRun (task_name t) (controller t) (duration_s t)]"
  "take 4 (protocol t b) = take 3 (protocol t b) @ [SetParameters (sent_parameters t)]"
  "take 5 (protocol t b) = take 4 (protocol t b) @ [Validate]"
  "take 6 (protocol t b) = take 5 (protocol t b) @ [Reset]"
  "take 7 (protocol t b) = take 6 (protocol t b) @ [SetAuthority b (source_of t) True]"
  by (simp_all add: protocol_def eval_nat_numeral)

lemma protocol_snoc: "protocol t b = take 7 (protocol t b) @ [Reset]"
  by (simp add: protocol_def)

lemma refusedI:
  "refused [Abort]"
  "refused [SetAuthority b '''' False, Abort]"
  "refused [SetAuthority True '''' False, SetAuthority b (source_of t) False, Abort]"
  by (auto simp: refused_def)

lemma source_of_eq [simp]: "py_lower (controller t) = source_of t"
  by (simp add: source_of_def)

lemma py_lower_Nil [simp]: "py_lower '''' = ''''"
  by (simp add: py_lower_def)

lemma keeps_fail_at:
  "keeps (take 3 (protocol t b)) (fail_active_run m t dir msg)"
  "keeps (take 4 (protocol t b)) (fail_active_run m t dir msg)"
  "keeps (take 5 (protocol t b)) (fail_active_run m t dir msg)"
  "keeps (take 6 (protocol t b)) (fail_active_run m t dir msg)"
  "keeps (take 7 (protocol t b)) (fail_active_run m t dir msg)"
  "keeps (protocol t b) (fail_active_run m t dir msg)"
  by (auto intro: keeps_fail_active_run [of 3] keeps_fail_active_run [of 4] keeps_fail_active_run [of 5]
      keeps_fail_active_run [of 6] keeps_fail_active_run [of 7] keeps_fail_active_run [of 8] simp: protocol_def)

lemma keeps_execute:
  assumes "\<And>t. catalog_task (task_catalog n) task_id = Inr t \<Longrightarrow> sendable t"
  shows "keeps [] (execute n m task_id)"
proof -
  have "keeps [] (finish msg)" for msg
    by (rule keeps_finish) (simp add: refusedI)
  moreover have "keeps [] (set_authority m '''' False (AwaitDisarm t) (finish msg))" if "sendable t" for t msg
    using that by (intro keeps_authority) (simp_all add: keeps_finish refusedI)
  ultimately show ?thesis
    using assms by (simp add: execute_def split: sum.split option.split)
qed

lemma keeps_disarm_result: "sendable t \<Longrightarrow> keeps (take 1 (protocol t True)) (on_disarm_result m t r)"
  unfolding on_disarm_result_def
  by (auto intro!: keeps_authority keeps_finish simp: refusedI)

lemma keeps_start_run: "sendable t \<Longrightarrow> keeps (take 2 (protocol t True)) (start_run m t)"
proof (cases "up m StartRunService")
  case True
  assume "sendable t"
  with True show ?thesis
    by (simp add: start_run_def keeps_def)
next
  case False
  have "keeps (take 2 (protocol t True)) (disarm_then m t (NoRun msg))" for msg
    by (rule keeps_disarm_then [where a = True]) auto
  with False show ?thesis
    by (simp add: start_run_def)
qed

lemma keeps_wait_disarmed: "sendable t \<Longrightarrow> keeps (take 2 (protocol t True)) (wait_for_disarmed_status n m t d now)"
  unfolding wait_for_disarmed_status_def using keeps_start_run [of t m]
  by (auto intro!: keeps_finish simp: refusedI)

lemma keeps_select_result: "sendable t \<Longrightarrow> keeps (take 2 (protocol t True)) (on_select_result n m t r)"
  unfolding on_select_result_def using keeps_wait_disarmed [of t n m]
  by (auto intro!: keeps_finish simp: refusedI)

lemma keeps_start_result: "sendable t \<Longrightarrow> keeps (take 3 (protocol t True)) (on_start_result m t r)"
proof -
  assume "sendable t"
  then obtain ps where ps: "build_parameters (scenario_parameters t) ALLOWED_PARAMETER_TYPES = Inr ps"
    by (auto simp: sendable_def)
  have "keeps (take 3 (protocol t True)) (disarm_then m t (NoRun msg))" for msg
    by (rule keeps_disarm_then [where a = True]) auto
  moreover have "keeps (take 3 (protocol t True)) (AwaitParameters t dir, [SetParameters ps])" for dir
    by (simp add: keeps_def sent_parameters_def ps)
  ultimately show ?thesis
    by (simp add: on_start_result_def keeps_fail_at ps del: take_protocol)
qed

lemma keeps_parameter_results: "keeps (take 4 (protocol t True)) (on_parameter_results m t dir rs)"
proof -
  have "keeps (take 4 (protocol t True)) (AwaitValidate t dir, [Validate])"
    by (simp add: keeps_def)
  then show ?thesis
    by (simp add: keeps_fail_at on_parameter_results_def del: take_protocol)
qed

lemma keeps_validation_result: "keeps (take 5 (protocol t True)) (on_validation_result n m t dir r)"
proof -
  have "keeps (take 5 (protocol t True)) (AwaitReset t dir k, [Reset])" for k
    by (simp add: keeps_def)
  then show ?thesis
    by (simp add: keeps_fail_at on_validation_result_def del: take_protocol)
qed

lemma keeps_arm: "authority n \<noteq> None \<Longrightarrow> keeps (take 6 (protocol t True)) (arm_controller n m t dir)"
proof -
  assume "authority n \<noteq> None"
  then obtain a where a: "authority n = Some a" by auto
  show ?thesis
    unfolding arm_controller_def a option.case
  proof (rule keeps_authority)
    show "keeps (take 6 (protocol t True) @ [SetAuthority False (py_lower (controller t)) True]) (fail_active_run m t dir msg)" for msg
      by (rule keeps_fail_active_run [of 7 _ t False]) simp_all
  qed simp
qed

lemma keeps_wait_ready:
  assumes "authority n \<noteq> None"
  shows "keeps (take 6 (protocol t True)) (wait_for_tracking_ready n m t dir before mark d now)"
proof -
  show ?thesis
    using keeps_arm [OF assms] by (simp add: keeps_fail_at wait_for_tracking_ready_def Let_def del: take_protocol)
qed

lemma keeps_reset_result:
  assumes "authority n \<noteq> None"
  shows "keeps (take 6 (protocol t True)) (on_reset_result n m t dir before r)"
proof -
  show ?thesis
    using keeps_wait_ready [OF assms] by (simp add: keeps_fail_at on_reset_result_def del: take_protocol)
qed

lemma keeps_wait_armed: "keeps (take 7 (protocol t True)) (wait_for_armed_status n m t dir g d now)"
proof -
  have "keeps (take 7 (protocol t True)) (AwaitOfficial t dir, [Reset])"
    using protocol_snoc [of t True] by (simp add: keeps_def del: take_protocol)
  then show ?thesis
    by (simp add: keeps_fail_at wait_for_armed_status_def del: take_protocol)
qed

lemma keeps_arm_result: "keeps (take 7 (protocol t True)) (on_arm_result n m t dir g r)"
proof -
  show ?thesis
    using keeps_wait_armed by (simp add: keeps_fail_at on_arm_result_def del: take_protocol)
qed

lemma keeps_tracking_loop: "keeps (protocol t True) (tracking_loop n m cancel t dir started now)"
  by (auto simp: tracking_loop_def Let_def experiment_feedback_def intro!: keeps_stop_trajectory_then)

lemma keeps_official_start: "keeps (protocol t True) (on_official_start n m cancel t dir r)"
  by (simp add: on_official_start_def keeps_fail_at keeps_tracking_loop)

lemma keeps_stopped: "shape (Stopping t en) tr \<Longrightarrow> keeps tr (disarm_then m t en)"
  by (cases en) (auto simp del: wound_up.simps intro: keeps_disarm_then [where a = True])

section \<open>The invariant of the machine\<close>

definition exp_inv :: "exp_state \<Rightarrow> bool" where
  "exp_inv s \<longleftrightarrow>
     (\<forall>task_id t. catalog_task (task_catalog (node s)) task_id = Inr t \<longrightarrow> sendable t)
     \<and> shape (phase_of s) (requests (trace s))
     \<and> (authority (node s) = None \<longrightarrow> phase_of s = Idle \<or> (\<exists>r. phase_of s = Done r))"

lemma wake_keeps:
  assumes "shape ph tr" "authority n \<noteq> None" "on_wake n cancel m ph = Some r"
  shows "keeps tr r"
  using assms keeps_wait_disarmed keeps_wait_ready [OF assms(2)] keeps_wait_armed keeps_tracking_loop
  by (cases ph) (auto simp: on_wake_def simp del: take_protocol)

lemma reply_keeps:
  assumes "shape ph tr" "authority n \<noteq> None" "on_reply n cancel m ph rp = Some r"
  shows "keeps tr r"
proof (cases rp)
  case (AuthorityReply x)
  with assms keeps_disarm_result keeps_select_result keeps_arm_result show ?thesis
    by (cases ph) (auto simp: on_reply_def on_authority_reply_def simp del: take_protocol intro: keeps_after_disarm)
next
  case (StartReply x)
  with assms keeps_start_result show ?thesis
    by (cases ph) (auto simp: on_reply_def simp del: take_protocol)
next
  case (ParameterReply x)
  with assms keeps_parameter_results show ?thesis
    by (cases ph) (auto simp: on_reply_def simp del: take_protocol)
next
  case (TriggerReply x)
  with assms keeps_validation_result keeps_reset_result [OF assms(2)] keeps_official_start keeps_stopped show ?thesis
    by (cases ph) (auto simp: on_reply_def on_trigger_reply_def simp del: take_protocol)
next
  case StopRunReply
  with assms show ?thesis
    by (cases ph) (auto simp: on_reply_def simp del: shape.simps intro: keeps_after_stop_run)
qed

lemma idle_done_inert:
  "on_wake n cancel m Idle = None" "on_wake n cancel m (Done x) = None"
  "on_reply n cancel m Idle rp = None" "on_reply n cancel m (Done x) rp = None"
  by (simp_all add: on_wake_def on_reply_def on_authority_reply_def on_trigger_reply_def split: reply.split)

lemma resume_inv:
  assumes inv: "exp_inv s" and keeps: "\<And>x. r = Some x \<Longrightarrow> keeps (requests (trace s)) x"
    and auth: "r \<noteq> None \<Longrightarrow> authority (node s) = None \<Longrightarrow> \<exists>x. fst (the r) = Done x"
  shows "exp_inv (resume s r)"
  using assms by (cases r) (auto simp: exp_inv_def resume_def keeps_def split: prod.split)

lemma execute_without_authority: "authority n = None \<Longrightarrow> \<exists>x. fst (execute n m task_id) = Done x"
  by (simp add: execute_def finish_def split: sum.split)

lemma exp_step_inv: "exp_inv s \<Longrightarrow> exp_inv (exp_step s e)"
proof (cases e)
  case (Goal m task_id)
  assume inv: "exp_inv s"
  have "exp_inv (resume s (Some (execute (node s) m task_id)))" if "phase_of s = Idle"
  proof -
    have "keeps [] (execute (node s) m task_id)"
      using inv by (intro keeps_execute) (auto simp: exp_inv_def)
    then show ?thesis
      using inv that execute_without_authority [of "node s" m task_id]
      by (intro resume_inv) (auto simp: exp_inv_def)
  qed
  with Goal inv show ?thesis
    by simp
next
  case (Wake m)
  assume inv: "exp_inv s"
  have "exp_inv (resume s (on_wake (node s) (cancel_requested s) m (phase_of s)))"
  proof (cases "authority (node s)")
    case None
    with inv show ?thesis
      by (auto simp: exp_inv_def idle_done_inert resume_def)
  next
    case (Some a)
    with inv show ?thesis
      by (intro resume_inv) (auto simp: exp_inv_def intro: wake_keeps)
  qed
  with Wake show ?thesis
    by simp
next
  case (Reply m rp)
  assume inv: "exp_inv s"
  have "exp_inv (resume s (on_reply (node s) (cancel_requested s) m (phase_of s) rp))"
  proof (cases "authority (node s)")
    case None
    with inv show ?thesis
      by (auto simp: exp_inv_def idle_done_inert resume_def)
  next
    case (Some a)
    with inv show ?thesis
      by (intro resume_inv) (auto simp: exp_inv_def intro: reply_keeps)
  qed
  with Reply show ?thesis
    by simp
qed (auto simp: exp_inv_def on_authority_message_def on_trajectory_target_def on_pid_status_def on_policy_status_def)

interpretation exp_machine: event_machine exp_step exp_inv
  by unfold_locales (rule exp_step_inv)

section \<open>Tasks of an accepted catalogue can be sent\<close>

lemma build_parameters_total:
  assumes "\<And>name ty v. (name, ty) \<in> set l \<Longrightarrow> map_of sp name = Some v \<Longrightarrow> agrees ty v"
  shows "\<exists>ps. build_parameters sp l = Inr ps \<and> fst ` set ps \<subseteq> fst ` set l
    \<and> (\<forall>name \<in> fst ` set l. map_of ps name = map_of sp name)"
  using assms
proof (induction l)
  case (Cons p l)
  obtain name ty where p: "p = (name, ty)" by (cases p)
  obtain ps where ps: "build_parameters sp l = Inr ps" "fst ` set ps \<subseteq> fst ` set l"
    "\<forall>name \<in> fst ` set l. map_of ps name = map_of sp name"
    using Cons.IH Cons.prems by (metis list.set_intros(2))
  show ?case
  proof (cases "map_of sp name")
    case None
    then have "map_of ps name = None"
      using ps by (metis (no_types, lifting) map_of_eq_None_iff subsetD)
    with None ps show ?thesis
      by (auto simp: p)
  next
    case (Some v)
    then have "agrees ty v"
      using Cons.prems by (auto simp: p)
    with Some ps show ?thesis
      by (auto simp: p)
  qed
qed simp

lemma fields_agree:
  assumes "valid_scenario sc" "map_of sc name = Some v" "(name, ty) \<in> set ALLOWED_PARAMETER_TYPES"
  shows "agrees ty v"
proof -
  have "typed_field (name, v)"
    using assms(1,2) by (auto simp: valid_scenario_def list_all_iff dest!: map_of_SomeD)
  with assms(3) show ?thesis
    by (auto simp: typed_field_def ALLOWED_PARAMETER_TYPES_def STRING_TRAJECTORY_FIELDS_def BOOL_TRAJECTORY_FIELDS_def
        NUMBER_TRAJECTORY_FIELDS_def split: field_value.splits)
qed

lemma known_field:
  assumes "valid_scenario sc" "map_of sc name \<noteq> None"
  shows "name \<in> fst ` set ALLOWED_PARAMETER_TYPES"
proof -
  obtain v where "typed_field (name, v)"
    using assms by (auto simp: valid_scenario_def list_all_iff dest!: map_of_SomeD)
  then show ?thesis
    by (auto simp: typed_field_def ALLOWED_PARAMETER_TYPES_def STRING_TRAJECTORY_FIELDS_def BOOL_TRAJECTORY_FIELDS_def
        NUMBER_TRAJECTORY_FIELDS_def split: field_value.splits)
qed

lemma valid_scenario_parameters:
  assumes "valid_scenario (trajectory t)"
  shows "\<exists>ps. build_parameters (scenario_parameters t) ALLOWED_PARAMETER_TYPES = Inr ps
    \<and> fst ` set ps \<subseteq> fst ` set ALLOWED_PARAMETER_TYPES
    \<and> (\<forall>name \<in> fst ` set ALLOWED_PARAMETER_TYPES. map_of ps name = map_of (scenario_parameters t) name)"
proof (rule build_parameters_total)
  fix name ty v
  assume mem: "(name, ty) \<in> set ALLOWED_PARAMETER_TYPES" and v: "map_of (scenario_parameters t) name = Some v"
  show "agrees ty v"
  proof (cases "name = ''control_mode''")
    case True
    with mem v show ?thesis
      by (auto simp: scenario_parameters_def map_of_dict_set ALLOWED_PARAMETER_TYPES_def)
  next
    case False
    with mem v show ?thesis
      by (intro fields_agree [OF assms]) (simp_all add: scenario_parameters_def map_of_dict_set)
  qed
qed

lemma catalog_task_valid:
  assumes "TaskCatalog fs yaml_load sha256 path file = Inr c" "catalog_task c task_id = Inr t"
  shows "valid_task (task_id, t)"
  using assms catalog_valid [OF assms(1)] by (auto simp: catalog_task_iff [OF assms(1)] list_all_iff)

lemma experiment_init_inv:
  assumes "TaskCatalog fs yaml_load sha256 path file = Inr c"
  shows "exp_inv (experiment_init c)"
proof -
  have "sendable t" if "catalog_task c task_id = Inr t" for task_id t
    using catalog_task_valid [OF assms that] valid_scenario_parameters [of t]
    by (auto simp: valid_task_def Let_def sendable_def)
  then show ?thesis
    by (auto simp: exp_inv_def experiment_init_def)
qed

lemma exp_run_inv:
  assumes "TaskCatalog fs yaml_load sha256 path file = Inr c"
  shows "exp_inv (exp_run (experiment_init c) es)"
  unfolding exp_run_def by (rule exp_machine.run_inv [OF experiment_init_inv [OF assms]])

lemma exp_run_shape:
  assumes "TaskCatalog fs yaml_load sha256 path file = Inr c" "s = exp_run (experiment_init c) es"
  shows "shape (phase_of s) (requests (trace s))"
  using exp_run_inv [OF assms(1), of es] by (simp add: exp_inv_def assms(2))

section \<open>Progress\<close>

fun rank :: "phase \<Rightarrow> nat" where
  "rank Idle = 16"
| "rank (AwaitDisarm t) = 15"
| "rank (AwaitSelect t) = 14"
| "rank (WaitDisarmed t d) = 13"
| "rank (AwaitStart t) = 12"
| "rank (AwaitParameters t dir) = 11"
| "rank (AwaitValidate t dir) = 10"
| "rank (AwaitReset t dir k) = 9"
| "rank (WaitReady t dir k mark d) = 8"
| "rank (AwaitArm t dir g) = 7"
| "rank (WaitArmed t dir g d) = 6"
| "rank (AwaitOfficial t dir) = 5"
| "rank (Running t dir started) = 4"
| "rank (Stopping t en) = 3"
| "rank (Disarming t en) = 2"
| "rank (StoppingRun t en) = 1"
| "rank (Done r) = 0"
| "rank (Failed e) = 0"

text \<open>A waiting loop whose deadline has passed, or a tracking loop that has a reason to stop.\<close>

fun overdue :: "experiment_node \<Rightarrow> bool \<Rightarrow> moment \<Rightarrow> phase \<Rightarrow> bool" where
  "overdue n cancel m (Running t dir started) \<longleftrightarrow>
     (\<not> run_until_stopped t \<and> duration_s t \<le> elapsed_s started (clock0 m)) \<or> cancel \<or> authority_lost n (controller t)"
| "overdue n cancel m (WaitDisarmed t d) \<longleftrightarrow> d \<le> clock0 m"
| "overdue n cancel m (WaitReady t dir k mark d) \<longleftrightarrow> d \<le> clock0 m"
| "overdue n cancel m (WaitArmed t dir g d) \<longleftrightarrow> d \<le> clock0 m"
| "overdue n cancel m ph \<longleftrightarrow> False"

fun answered :: "exp_state \<Rightarrow> exp_event \<Rightarrow> bool" where
  "answered s (Reply m rp) \<longleftrightarrow> on_reply (node s) (cancel_requested s) m (phase_of s) rp \<noteq> None"
| "answered s (Wake m) \<longleftrightarrow> overdue (node s) (cancel_requested s) m (phase_of s)"
| "answered s e \<longleftrightarrow> False"

fun answers :: "exp_state \<Rightarrow> exp_event list \<Rightarrow> nat" where
  "answers s [] = 0"
| "answers s (e # es) = (if answered s e then 1 else 0) + answers (exp_step s e) es"

lemma rank_emit [simp]: "rank (fst (emit cs r)) = rank (fst r)"
  by (simp add: emit_def)

lemma rank_finish [simp]: "rank (fst (finish msg)) = 0"
  by (simp add: finish_def)

lemma rank_wait [simp]: "rank (fst (wait_for_next_feedback ph d)) = rank ph"
  by (simp add: wait_for_next_feedback_def)

lemma rank_authority: "rank (fst (set_authority m src on pending missing)) \<le> max (rank pending) (rank (fst missing))"
  by (simp add: set_authority_def)

lemma rank_after_disarm: "rank (fst (after_disarm t en)) \<le> 1"
  by (cases en) (simp_all add: after_disarm_def)

lemma rank_disarm_then: "rank (fst (disarm_then m t en)) \<le> 2"
  using rank_after_disarm [of t en] by (simp add: disarm_then_def set_authority_def)

lemma rank_stop_then: "rank (fst (stop_trajectory_then m t en)) \<le> 3"
  using rank_disarm_then [of m t en] by (simp add: stop_trajectory_then_def)

lemma rank_fail: "rank (fst (fail_active_run m t dir msg)) \<le> 3"
  by (simp add: fail_active_run_def rank_stop_then)

lemma rank_after_stop_run [simp]: "rank (fst (after_stop_run en)) = 0"
  by (simp add: after_stop_run_eq)

lemmas rank_ends = rank_fail [THEN le_less_trans] rank_stop_then [THEN le_less_trans] rank_disarm_then [THEN le_less_trans]
  rank_after_disarm [THEN le_less_trans] rank_fail [THEN order_trans] rank_stop_then [THEN order_trans]
  rank_disarm_then [THEN order_trans]

lemma rank_start_run: "rank (fst (start_run m t)) \<le> 12"
  by (auto simp: start_run_def intro!: rank_ends)

lemma rank_wait_disarmed: "rank (fst (wait_for_disarmed_status n m t d now)) \<le> (if now < d then 13 else 0)"
  using rank_start_run [of m t] by (auto simp: wait_for_disarmed_status_def intro: order_trans)

lemma rank_arm: "rank (fst (arm_controller n m t dir)) \<le> 7"
proof (cases "authority n")
  case (Some a)
  show ?thesis
    unfolding arm_controller_def Some option.case
    by (rule order_trans [OF rank_authority]) (auto intro!: rank_ends)
qed (simp add: arm_controller_def)

lemma rank_wait_ready:
  "rank (fst (wait_for_tracking_ready n m t dir before mark d now)) \<le> (if now < d then 8 else 3)"
  using rank_arm [of n m t dir]
  by (auto simp: wait_for_tracking_ready_def Let_def intro!: rank_ends)

lemma rank_wait_armed: "rank (fst (wait_for_armed_status n m t dir g d now)) \<le> (if now < d then 6 else 3)"
  by (auto simp: wait_for_armed_status_def intro!: rank_ends)

lemma rank_tracking_loop: "rank (fst (tracking_loop n m cancel t dir started now)) \<le> 4"
  by (auto simp: tracking_loop_def Let_def intro!: rank_ends)

lemma rank_tracking_loop_overdue:
  "overdue n cancel m (Running t dir started) \<Longrightarrow> rank (fst (tracking_loop n m cancel t dir started (clock0 m))) \<le> 3"
  by (auto simp: tracking_loop_def Let_def rank_stop_then)

lemma wake_rank:
  assumes "on_wake n cancel m ph = Some r"
  shows "rank (fst r) \<le> rank ph \<and> (overdue n cancel m ph \<longrightarrow> rank (fst r) < rank ph)"
proof (cases ph)
  case (WaitDisarmed t d)
  then show ?thesis
    using assms rank_wait_disarmed [of n m t d "clock0 m"] by (auto simp: on_wake_def split: if_split_asm)
next
  case (WaitReady t dir before mark d)
  then show ?thesis
    using assms rank_wait_ready [of n m t dir before mark d "clock0 m"] by (auto simp: on_wake_def split: if_split_asm)
next
  case (WaitArmed t dir g d)
  then show ?thesis
    using assms rank_wait_armed [of n m t dir g d "clock0 m"] by (auto simp: on_wake_def split: if_split_asm)
next
  case (Running t dir started)
  then have r: "r = tracking_loop n m cancel t dir started (clock0 m)"
    using assms by (auto simp: on_wake_def)
  show ?thesis
    using rank_tracking_loop [of n m cancel t dir started "clock0 m"] rank_tracking_loop_overdue [of n cancel m t dir started]
    by (auto simp del: overdue.simps simp: r Running)
qed (use assms in \<open>auto simp: on_wake_def\<close>)

lemma authority_reply_rank: "on_authority_reply n m ph x = Some r \<Longrightarrow> rank (fst r) < rank ph"
proof (cases ph)
  case (AwaitDisarm t)
  then show "on_authority_reply n m ph x = Some r \<Longrightarrow> ?thesis"
    by (auto simp: on_authority_reply_def on_disarm_result_def set_authority_def)
next
  case (AwaitSelect t)
  then show "on_authority_reply n m ph x = Some r \<Longrightarrow> ?thesis"
    using rank_wait_disarmed [of n m t "clock0 m + 500000000" "clock1 m"]
    by (auto simp: on_authority_reply_def on_select_result_def split: if_split_asm)
next
  case (AwaitArm t dir g)
  then show "on_authority_reply n m ph x = Some r \<Longrightarrow> ?thesis"
    using rank_wait_armed [of n m t dir g "clock0 m + 500000000" "clock1 m"]
    by (auto simp: on_authority_reply_def on_arm_result_def intro!: rank_ends split: if_split_asm)
next
  case (Disarming t en)
  then show "on_authority_reply n m ph x = Some r \<Longrightarrow> ?thesis"
    by (auto simp: on_authority_reply_def intro!: rank_ends)
qed (auto simp: on_authority_reply_def)

lemma trigger_reply_rank: "on_trigger_reply n cancel m ph x = Some r \<Longrightarrow> rank (fst r) < rank ph"
proof (cases ph)
  case (AwaitValidate t dir)
  then show "on_trigger_reply n cancel m ph x = Some r \<Longrightarrow> ?thesis"
    by (auto simp: on_trigger_reply_def on_validation_result_def intro!: rank_ends)
next
  case (AwaitReset t dir before)
  then show "on_trigger_reply n cancel m ph x = Some r \<Longrightarrow> ?thesis"
    using rank_wait_ready [of n m t dir before None "clock0 m + 1000000000" "clock1 m"]
    by (auto simp: on_trigger_reply_def on_reset_result_def intro!: rank_ends split: if_split_asm)
next
  case (AwaitOfficial t dir)
  then show "on_trigger_reply n cancel m ph x = Some r \<Longrightarrow> ?thesis"
    using rank_tracking_loop [of n m cancel t dir "clock0 m" "clock1 m"]
    by (auto simp: on_trigger_reply_def on_official_start_def intro!: rank_ends)
next
  case (Stopping t en)
  then show "on_trigger_reply n cancel m ph x = Some r \<Longrightarrow> ?thesis"
    by (auto simp: on_trigger_reply_def intro!: rank_ends)
qed (auto simp: on_trigger_reply_def)

lemma reply_rank: "on_reply n cancel m ph rp = Some r \<Longrightarrow> rank (fst r) < rank ph"
proof (cases rp)
  case (StartReply x)
  then show "on_reply n cancel m ph rp = Some r \<Longrightarrow> ?thesis"
    by (cases ph) (auto simp: on_reply_def on_start_result_def intro!: rank_ends split: sum.split)
next
  case (ParameterReply x)
  then show "on_reply n cancel m ph rp = Some r \<Longrightarrow> ?thesis"
    by (cases ph) (auto simp: on_reply_def on_parameter_results_def intro!: rank_ends)
next
  case StopRunReply
  then show "on_reply n cancel m ph rp = Some r \<Longrightarrow> ?thesis"
    by (cases ph) (auto simp: on_reply_def)
qed (auto simp: on_reply_def intro: authority_reply_rank trigger_reply_rank)

lemma overdue_wakes: "overdue n cancel m ph \<Longrightarrow> on_wake n cancel m ph \<noteq> None"
  by (cases ph) (simp_all add: on_wake_def)

lemma rank_Idle_iff: "ph = Idle \<longleftrightarrow> rank ph = 16"
  by (cases ph) simp_all

lemma rank_le: "rank ph \<le> 16"
  by (cases ph) simp_all

lemma phase_resume: "phase_of (resume s r) = (case r of None \<Rightarrow> phase_of s | Some x \<Rightarrow> fst x)"
  by (cases r) (auto simp: resume_def split: prod.split)

lemma step_rank:
  assumes "phase_of s \<noteq> Idle"
  shows "rank (phase_of (exp_step s e)) + (if answered s e then 1 else 0) \<le> rank (phase_of s)"
proof (cases e)
  case (Wake m)
  then show ?thesis
    using wake_rank [of "node s" "cancel_requested s" m "phase_of s"]
      overdue_wakes [of "node s" "cancel_requested s" m "phase_of s"]
    by (cases "on_wake (node s) (cancel_requested s) m (phase_of s)") (auto simp: phase_resume)
next
  case (Reply m rp)
  then show ?thesis
    using reply_rank [of "node s" "cancel_requested s" m "phase_of s" rp]
    by (cases "on_reply (node s) (cancel_requested s) m (phase_of s) rp") (auto simp: phase_resume)
qed (use assms in simp_all)

lemma step_leaves_idle: "phase_of s \<noteq> Idle \<Longrightarrow> phase_of (exp_step s e) \<noteq> Idle"
  using step_rank [of s e] rank_le [of "phase_of s"] by (auto simp: rank_Idle_iff)

lemma run_rank:
  "phase_of s \<noteq> Idle \<Longrightarrow> rank (phase_of (exp_run s es)) + answers s es \<le> rank (phase_of s)"
proof (induction es arbitrary: s)
  case (Cons e es)
  have "rank (phase_of (exp_run (exp_step s e) es)) + answers (exp_step s e) es \<le> rank (phase_of (exp_step s e))"
    using Cons.prems by (intro Cons.IH step_leaves_idle)
  moreover have "exp_run s (e # es) = exp_run (exp_step s e) es"
    by (simp add: exp_run_def)
  ultimately show ?case
    using step_rank [OF Cons.prems, of e] by simp
qed (simp add: exp_run_def)

definition ended :: "phase \<Rightarrow> bool" where
  "ended ph \<longleftrightarrow> (\<exists>r. ph = Done r) \<or> (\<exists>e. ph = Failed e)"

lemma rank_ended: "rank ph = 0 \<longleftrightarrow> ended ph"
  by (cases ph) (simp_all add: ended_def)

text \<open>No phase is stuck: whatever is pending, an event of the right kind is answered.\<close>

lemma awaited_replies:
  "on_reply n cancel m (AwaitDisarm t) (AuthorityReply r) \<noteq> None"
  "on_reply n cancel m (AwaitSelect t) (AuthorityReply r) \<noteq> None"
  "on_reply n cancel m (AwaitStart t) (StartReply s) \<noteq> None"
  "on_reply n cancel m (AwaitParameters t dir) (ParameterReply rs) \<noteq> None"
  "on_reply n cancel m (AwaitValidate t dir) (TriggerReply g) \<noteq> None"
  "on_reply n cancel m (AwaitReset t dir k) (TriggerReply g) \<noteq> None"
  "on_reply n cancel m (AwaitArm t dir i) (AuthorityReply r) \<noteq> None"
  "on_reply n cancel m (AwaitOfficial t dir) (TriggerReply g) \<noteq> None"
  "on_reply n cancel m (Stopping t en) (TriggerReply g) \<noteq> None"
  "on_reply n cancel m (Disarming t en) (AuthorityReply r) \<noteq> None"
  "on_reply n cancel m (StoppingRun t en) StopRunReply \<noteq> None"
  by (simp_all add: on_reply_def on_authority_reply_def on_trigger_reply_def)

lemma some_reply:
  assumes "\<not> ended ph" "ph \<noteq> Idle"
  shows "(\<exists>m rp. on_reply n cancel m ph rp \<noteq> None) \<or> (\<exists>m. overdue n cancel m ph)
    \<or> (\<exists>t dir started. ph = Running t dir started \<and> run_until_stopped t)"
proof (cases ph)
  case (Running t dir started)
  have "duration_s t \<le> elapsed_s started (started + \<lceil>duration_s t * 10 ^ 9\<rceil>)"
    by (simp add: elapsed_s_def)
  then have "overdue n cancel \<lparr>clock0 = started + \<lceil>duration_s t * 10 ^ 9\<rceil>, clock1 = 0, up = \<lambda>_. True\<rparr> ph"
    if "\<not> run_until_stopped t"
    using that by (simp add: Running)
  with Running show ?thesis
    by blast
next
  case (WaitDisarmed t d)
  have "overdue n cancel \<lparr>clock0 = d, clock1 = 0, up = \<lambda>_. True\<rparr> ph"
    by (simp add: WaitDisarmed)
  then show ?thesis
    by blast
next
  case (WaitReady t dir k mark d)
  have "overdue n cancel \<lparr>clock0 = d, clock1 = 0, up = \<lambda>_. True\<rparr> ph"
    by (simp add: WaitReady)
  then show ?thesis
    by blast
next
  case (WaitArmed t dir g d)
  have "overdue n cancel \<lparr>clock0 = d, clock1 = 0, up = \<lambda>_. True\<rparr> ph"
    by (simp add: WaitArmed)
  then show ?thesis
    by blast
qed (use assms in \<open>metis awaited_replies ended_def\<close>)+

section \<open>When arming may happen\<close>

text \<open>The instant of the run at which the readiness mark was set.\<close>

definition marked_at :: "catalog \<Rightarrow> exp_event list \<Rightarrow> task \<Rightarrow> nat \<Rightarrow> nat \<times> int \<Rightarrow> bool" where
  "marked_at c es t before mark \<longleftrightarrow>
     (\<exists>k \<le> length es. let n = node (exp_run (experiment_init c) (take k es)) in
        expected_target n t before \<and> mark_target n t before None = Some mark)"

definition mark_known :: "catalog \<Rightarrow> exp_event list \<Rightarrow> bool" where
  "mark_known c es \<longleftrightarrow>
     (\<forall>t dir before mark d. phase_of (exp_run (experiment_init c) es) = WaitReady t dir before (Some mark) d
        \<longrightarrow> marked_at c es t before mark)"

lemma exp_run_snoc: "exp_run s (es @ [e]) = exp_step (exp_run s es) e"
  by (simp add: exp_run_def)

lemma marked_later: "marked_at c es t before mark \<Longrightarrow> marked_at c (es @ [e]) t before mark"
  unfolding marked_at_def
  by (metis (no_types, lifting) le_SucI length_append_singleton diff_is_0_eq' take0 take_append append_Nil2)

lemma marked_now:
  assumes "mark_target (node (exp_run (experiment_init c) es)) t before None = Some mark"
  shows "marked_at c es t before mark"
proof -
  have "expected_target (node (exp_run (experiment_init c) es)) t before"
    using assms by (auto simp: mark_target_def split: if_split_asm)
  with assms show ?thesis
    unfolding marked_at_def by (intro exI [of _ "length es"]) (simp add: Let_def)
qed

text \<open>The only segments that lead into the waiting phase or to an arming request.\<close>

definition arms :: "call list \<Rightarrow> bool" where
  "arms cs \<longleftrightarrow> (\<exists>b src. SetAuthority b src True \<in> set cs)"

fun waits_ready :: "phase \<Rightarrow> bool" where
  "waits_ready (WaitReady t dir before mark d) = True"
| "waits_ready ph = False"

definition quiet :: "phase \<times> call list \<Rightarrow> bool" where
  "quiet r \<longleftrightarrow> \<not> waits_ready (fst r) \<and> \<not> arms (snd r)"

lemma quiet_simps [simp]:
  "quiet (emit cs r) \<longleftrightarrow> quiet r \<and> \<not> arms cs"
  "quiet (finish msg)"
  "quiet (wait_for_next_feedback ph d) \<longleftrightarrow> \<not> waits_ready ph"
  "quiet (ph, cs) \<longleftrightarrow> \<not> waits_ready ph \<and> \<not> arms cs"
  by (auto simp: quiet_def emit_def arms_def finish_def wait_for_next_feedback_def)

lemma arms_simps [simp]:
  "\<not> arms []"
  "arms (c # cs) \<longleftrightarrow> (\<exists>b src. c = SetAuthority b src True) \<or> arms cs"
  "arms (xs @ ys) \<longleftrightarrow> arms xs \<or> arms ys"
  by (auto simp: arms_def)

lemma quiet_ends [simp]:
  "quiet (after_disarm t en)"
  "quiet (disarm_then m t en)"
  "quiet (stop_trajectory_then m t en)"
  "quiet (fail_active_run m t dir msg)"
  "quiet (after_stop_run en)"
proof -
  show a: "quiet (after_disarm t en)" for t en
    by (cases en) (simp_all add: after_disarm_def)
  show d: "quiet (disarm_then m t en)" for m t en
    by (simp add: disarm_then_def set_authority_def a)
  show "quiet (stop_trajectory_then m t en)" for m t en
    by (simp add: stop_trajectory_then_def d)
  then show "quiet (fail_active_run m t dir msg)" for m t dir msg
    by (simp add: fail_active_run_def)
  show "quiet (after_stop_run en)"
    by (cases en) (simp_all add: after_stop_run_def)
qed

lemma quiet_preparation [simp]:
  "quiet (execute n m task_id)"
  "quiet (on_disarm_result m t r)"
  "quiet (wait_for_disarmed_status n m t d now)"
  "quiet (on_select_result n m t r)"
  "quiet (on_start_result m t s)"
  "quiet (on_parameter_results m t dir rs)"
  "quiet (on_validation_result n m t dir g)"
  "quiet (wait_for_armed_status n m t dir k d now)"
  "quiet (on_arm_result n m t dir k r)"
  "quiet (tracking_loop n m cancel t dir started now)"
  "quiet (on_official_start n m cancel t dir g)"
  by (simp_all add: execute_def on_disarm_result_def wait_for_disarmed_status_def on_select_result_def on_start_result_def
      on_parameter_results_def on_validation_result_def wait_for_armed_status_def on_arm_result_def tracking_loop_def
      on_official_start_def start_run_def set_authority_def experiment_feedback_def Let_def split: sum.split option.split)

text \<open>So a segment that is not quiet is the readiness loop, with the mark it starts from.\<close>

definition ready_segment :: "experiment_node \<Rightarrow> phase \<Rightarrow> task \<Rightarrow> nat \<Rightarrow> (nat \<times> int) option \<Rightarrow> phase \<times> call list \<Rightarrow> bool" where
  "ready_segment n ph t before mark r \<longleftrightarrow>
     (\<exists>m dir d now. r = wait_for_tracking_ready n m t dir before mark d now
        \<and> (ph = WaitReady t dir before mark d \<or> mark = None \<and> ph = AwaitReset t dir before))"

lemma wake_quiet_or_ready:
  "on_wake n cancel m ph = Some r \<Longrightarrow> quiet r \<or> (\<exists>t before mark. ready_segment n ph t before mark r)"
  by (cases ph) (auto simp: on_wake_def ready_segment_def)

lemma reset_not_quiet:
  "\<not> quiet (on_reset_result n m t dir before g) \<Longrightarrow>
   ready_segment n (AwaitReset t dir before) t before None (on_reset_result n m t dir before g)"
  unfolding on_reset_result_def by (auto simp: ready_segment_def)

lemma trigger_quiet_or_ready:
  "on_trigger_reply n cancel m ph x = Some r \<Longrightarrow> quiet r \<or> (\<exists>t before mark. ready_segment n ph t before mark r)"
proof (cases ph)
  case (AwaitReset t dir before)
  then show "on_trigger_reply n cancel m ph x = Some r \<Longrightarrow> ?thesis"
    using reset_not_quiet [of n m t dir before x] by (auto simp: on_trigger_reply_def)
qed (auto simp: on_trigger_reply_def)

lemma reply_quiet_or_ready:
  "on_reply n cancel m ph rp = Some r \<Longrightarrow> quiet r \<or> (\<exists>t before mark. ready_segment n ph t before mark r)"
proof (cases rp)
  case (TriggerReply x)
  then show "on_reply n cancel m ph rp = Some r \<Longrightarrow> ?thesis"
    by (simp add: on_reply_def trigger_quiet_or_ready)
next
  case (AuthorityReply x)
  then show "on_reply n cancel m ph rp = Some r \<Longrightarrow> ?thesis"
    by (cases ph) (auto simp: on_reply_def on_authority_reply_def)
next
  case (StartReply x)
  then show "on_reply n cancel m ph rp = Some r \<Longrightarrow> ?thesis"
    by (cases ph) (auto simp: on_reply_def)
next
  case (ParameterReply x)
  then show "on_reply n cancel m ph rp = Some r \<Longrightarrow> ?thesis"
    by (cases ph) (auto simp: on_reply_def)
next
  case StopRunReply
  then show "on_reply n cancel m ph rp = Some r \<Longrightarrow> ?thesis"
    by (cases ph) (auto simp: on_reply_def)
qed

lemma quiet_not_waiting: "quiet r \<Longrightarrow> fst r \<noteq> WaitReady t dir before mark d"
  by (auto simp: quiet_def)

lemma arm_controller_not_waiting: "fst (arm_controller n m t dir) \<noteq> WaitReady t' dir' before mark d"
  using quiet_ends(4) [THEN quiet_not_waiting]
  by (auto simp: arm_controller_def set_authority_def emit_def split: option.split)

lemma ready_wait:
  assumes "fst (wait_for_tracking_ready n m t dir before mark d now) = WaitReady t' dir' before' mark' d'"
  shows "t' = t \<and> before' = before \<and> mark' = mark_target n t before mark"
  using assms quiet_ends(4) [THEN quiet_not_waiting] arm_controller_not_waiting
  by (auto simp: wait_for_tracking_ready_def Let_def wait_for_next_feedback_def split: if_split_asm)

lemma fail_not_arms: "SetAuthority b src True \<notin> set (snd (fail_active_run m t dir msg))"
  using quiet_ends(4) [of m t dir msg] by (auto simp: quiet_def arms_def)

lemma arm_controller_source: "SetAuthority b src True \<in> set (snd (arm_controller n m t dir)) \<Longrightarrow> src = source_of t"
  using fail_not_arms [of b src m t dir]
  by (auto simp: arm_controller_def set_authority_def emit_def split: option.split_asm if_split_asm)

lemma ready_arms:
  assumes "SetAuthority b src True \<in> set (snd (wait_for_tracking_ready n m t dir before mark d now))"
  shows "src = source_of t
    \<and> (\<exists>seq inf. mark_target n t before mark = Some (seq, inf) \<and> controller_ready n t seq inf)"
  using assms fail_not_arms [of b src m t dir]
  by (auto simp: wait_for_tracking_ready_def Let_def wait_for_next_feedback_def
      split: if_split_asm option.split_asm dest: arm_controller_source)

text \<open>What the machine does to its phase in one step.\<close>

lemma step_cases:
  obtains (callback) "phase_of (exp_step s e) = phase_of s" "trace (exp_step s e) = trace s"
  | (segment) r where "phase_of (exp_step s e) = fst r" "trace (exp_step s e) = trace s @ snd r"
      "quiet r \<or> (\<exists>t before mark. ready_segment (node s) (phase_of s) t before mark r)"
proof (cases e)
  case (Goal m task_id)
  show thesis
  proof (cases "phase_of s = Idle")
    case True
    with Goal segment [of "execute (node s) m task_id"] show thesis
      by (simp add: resume_def split: prod.splits)
  next
    case False
    with Goal callback show thesis
      by simp
  qed
next
  case (Wake m)
  show thesis
  proof (cases "on_wake (node s) (cancel_requested s) m (phase_of s)")
    case None
    with Wake callback show thesis
      by (simp add: resume_def)
  next
    case (Some r)
    with Wake segment [of r] wake_quiet_or_ready [OF Some] show thesis
      by (simp add: resume_def split: prod.splits)
  qed
next
  case (Reply m rp)
  show thesis
  proof (cases "on_reply (node s) (cancel_requested s) m (phase_of s) rp")
    case None
    with Reply callback show thesis
      by (simp add: resume_def)
  next
    case (Some r)
    with Reply segment [of r] reply_quiet_or_ready [OF Some] show thesis
      by (simp add: resume_def split: prod.splits)
  qed
qed (use callback in simp_all)

lemma mark_knownD:
  "mark_known c es \<Longrightarrow> phase_of (exp_run (experiment_init c) es) = WaitReady t dir before (Some mark) d
   \<Longrightarrow> marked_at c es t before mark"
  unfolding mark_known_def by blast

lemma mark_from_segment:
  assumes "mark_known c es" "ready_segment (node s) (phase_of s) t before mk r" "s = exp_run (experiment_init c) es"
    and "mark_target (node s) t before mk = Some mark"
  shows "marked_at c es t before mark"
proof (cases mk)
  case None
  with assms show ?thesis
    by (simp add: marked_now)
next
  case (Some x)
  with assms(4) have "x = mark"
    by (simp add: mark_target_def)
  with assms Some show ?thesis
    by (auto simp: ready_segment_def dest: mark_knownD)
qed

lemma mark_known_run: "mark_known c es"
proof (induction es rule: rev_induct)
  case Nil
  show ?case
    by (simp add: mark_known_def exp_run_def experiment_init_def)
next
  case (snoc e es)
  let ?s = "exp_run (experiment_init c) es"
  show ?case
    unfolding mark_known_def exp_run_snoc
  proof (intro allI impI)
    fix t dir before mark d
    assume ph: "phase_of (exp_step ?s e) = WaitReady t dir before (Some mark) d"
    have "marked_at c es t before mark"
    proof (cases rule: step_cases [of ?s e])
      case callback
      with ph snoc show ?thesis
        by (auto dest: mark_knownD)
    next
      case (segment r)
      with ph have "fst r = WaitReady t dir before (Some mark) d"
        by simp
      then obtain t' before' mk where seg: "ready_segment (node ?s) (phase_of ?s) t' before' mk r"
        using segment(3) quiet_not_waiting by blast
      with \<open>fst r = _\<close> have "t = t' \<and> before = before' \<and> Some mark = mark_target (node ?s) t' before' mk"
        by (auto simp: ready_segment_def dest: ready_wait)
      with mark_from_segment [OF snoc seg refl] show ?thesis
        by simp
    qed
    then show "marked_at c (es @ [e]) t before mark"
      by (rule marked_later)
  qed
qed

section \<open>A complete experiment\<close>

definition example_moment :: "int \<Rightarrow> moment" where
  "example_moment now = \<lparr>clock0 = now, clock1 = now, up = \<lambda>_. True\<rparr>"

definition example_authority :: "bool \<Rightarrow> int \<Rightarrow> authority_status" where
  "example_authority armed gen =
     \<lparr>auth_source = ''rl'', auth_armed = armed, arm_generation = gen, auth_fault_latched = False\<rparr>"

definition example_policy :: "int \<Rightarrow> policy_status_msg" where
  "example_policy count =
     \<lparr>policy_loaded = True, policy_input_ready = True, policy_missing = [], inference_count = count\<rparr>"

definition example_target :: target_msg where
  "example_target =
     (let v = Vector3 (Fin 0) (Fin 0) (Fin 0) in
      \<lparr>target_frame = ''map'', target_position = v, target_orientation = Quaternion (Fin 1) (Fin 0) (Fin 0) (Fin 0),
       target_linear = v, target_angular = v, target_accel_linear = v, target_accel_angular = v,
       trajectory_type = ''circle'', control_mode = ''rl_policy'', trajectory_phase = ''approach'', time_s = Fin 0,
       target_valid = True\<rparr>)"

definition example_task :: task where
  "example_task =
     make_task ''circle-rl'' ''Circle'' ''circle''
       [(''trajectory_type'', FStr ''circle''), (''attitude_mode'', FStr ''level''), (''radius_m'', FNum (1 / 2))]
       ''rl_policy'' 30 False"

abbreviation granted :: "bool \<Rightarrow> reply" where
  "granted armed \<equiv> AuthorityReply \<lparr>accepted = True, reply_armed = armed, reply_message = ''''\<rparr>"

abbreviation done_ok :: reply where
  "done_ok \<equiv> TriggerReply \<lparr>success = True, message = ''''\<rparr>"

definition example_start :: "exp_event list" where
  "example_start =
     (let m = example_moment 0 in
      [AuthorityStatus (example_authority False 0), Goal m ''circle-rl'', Reply m (granted False), Reply m (granted False),
       Reply m (StartReply \<lparr>start_success = True, start_run_dir = ''run'', start_message = ''''\<rparr>),
       Reply m (ParameterReply [True]), Reply m done_ok, Reply m done_ok,
       TargetSeen example_target, PolicySeen (example_policy 1), Wake m, PolicySeen (example_policy 2)])"

definition example_end :: "exp_event list" where
  "example_end =
     (let m = example_moment 0 in
      [Wake m, Reply m (granted True), AuthorityStatus (example_authority True 1), Wake m, Reply m done_ok,
       Wake (example_moment (30 * 10 ^ 9)), Reply m done_ok, Reply m (granted False), Reply m StopRunReply])"

lemma example_lookup: "catalog_task example_catalog ''circle-rl'' = Inr example_task"
  by (simp add: catalog_task_def example_catalog_def example_task_def lower_or_digit_def Let_def)

lemma example_task_simps [simp]:
  "controller example_task = ''rl''" "py_lower ''rl'' = ''rl''" "task_control_mode example_task = ''rl_policy''"
  "duration_s example_task = 30" "\<not> run_until_stopped example_task" "task_name example_task = ''circle-rl''"
  "source_of example_task = ''rl''"
  by (simp_all add: example_task_def make_task_def source_of_def py_lower_def lower_char_def)

lemma example_parameters:
  "build_parameters (scenario_parameters example_task) ALLOWED_PARAMETER_TYPES =
     Inr [(''trajectory_type'', FStr ''circle''), (''control_mode'', FStr ''rl_policy''),
          (''attitude_mode'', FStr ''level''), (''radius_m'', FNum (1 / 2))]"
  by (simp add: example_task_def make_task_def scenario_parameters_def ALLOWED_PARAMETER_TYPES_def)

lemma example_type [simp]: "trajectory_type_of (scenario_parameters example_task) = ''circle''"
  by (simp add: example_task_def make_task_def scenario_parameters_def trajectory_type_of_def)

lemmas example_steps = exp_run_def experiment_init_def example_start_def example_end_def example_moment_def
  example_authority_def example_policy_def example_target_def Let_def example_lookup example_parameters resume_def
  on_authority_message_def on_trajectory_target_def on_policy_status_def execute_def set_authority_def emit_def
  on_reply_def on_wake_def on_authority_reply_def on_trigger_reply_def on_disarm_result_def on_select_result_def
  wait_for_disarmed_status_def disarmed_as_def start_run_def on_start_result_def on_parameter_results_def
  on_validation_result_def on_reset_result_def wait_for_tracking_ready_def mark_target_def expected_target_def
  wait_for_next_feedback_def controller_ready_def

lemma example_started:
  "exp_run (experiment_init example_catalog) example_start = s \<Longrightarrow>
     phase_of s = WaitReady example_task ''run'' 0 (Some (1, 1)) 1000000000
     \<and> requests (trace s) = take 6 (protocol example_task True) \<and> \<not> cancel_requested s
     \<and> authority (node s) = Some (example_authority False 0)
     \<and> latest_policy_status (node s) = Some (example_policy 2) \<and> policy_status_sequence (node s) = 2"
  by (auto simp: example_steps sent_parameters_def)

lemma example_finished:
  "exp_run (experiment_init example_catalog) (example_start @ example_end) = s \<Longrightarrow>
     phase_of s = Done \<lparr>result_success = True, result_run_dir = ''run'', result_message = ''completed''\<rparr>
     \<and> requests (trace s) = protocol example_task True
         @ [StopTrajectory True, SetAuthority True ''rl'' False, StopRun True ''completed'', Succeed]"
  by (auto simp: example_steps arm_controller_def on_arm_result_def wait_for_armed_status_def armed_as_def
      on_official_start_def tracking_loop_def elapsed_s_def authority_lost_def experiment_feedback_def
      stop_trajectory_then_def disarm_then_def after_disarm_def after_stop_run_def protocol_def sent_parameters_def)

section \<open>Reading the properties off the protocol\<close>

lemma not_arms_parts [simp]:
  "\<not> arms (winding t en a b)" "\<not> arms (run_calls en)" "\<not> arms (goal_calls en)" "\<not> arms (stop_calls en a)"
  by (cases en; simp add: winding_def)+

lemma wound_up_normal: "wound_up t en tr0 \<Longrightarrow> \<exists>k b tail. tr0 = take k (protocol t b) @ tail \<and> \<not> arms tail"
proof (cases en)
  case (NoRun msg)
  then show "wound_up t en tr0 \<Longrightarrow> ?thesis"
    by (metis append_Nil2 arms_simps(1) wound_up.simps(1))
next
  case (FailRun dir msg)
  then show "wound_up t en tr0 \<Longrightarrow> ?thesis"
    by (metis append_Nil2 arms_simps(1) wound_up.simps(2))
next
  case (EndRun dir ok canceled msg)
  then show "wound_up t en tr0 \<Longrightarrow> ?thesis"
    by (intro exI [of _ 8] exI [of _ True] exI [of _ "if canceled then [Canceled] else []"]) (simp add: protocol_def)
qed

lemma normal_append:
  assumes "\<exists>k b tail. tr0 = take k (protocol t b) @ tail \<and> \<not> arms tail" "\<not> arms ys"
  shows "\<exists>k b tail. tr0 @ ys = take k (protocol t b) @ tail \<and> \<not> arms tail"
  using assms by (metis append.assoc arms_simps(3))

lemma refused_quiet: "refused tr \<Longrightarrow> \<not> arms tr"
  by (auto simp: refused_def)

lemma shape_normal:
  assumes "shape ph tr"
  shows "\<exists>t k b tail. tr = take k (protocol t b) @ tail \<and> \<not> arms tail"
proof -
  have whole: "\<exists>t k b tail. take j (protocol t0 b0) = take k (protocol t b) @ tail \<and> \<not> arms tail" for j t0 b0
    by (metis append_Nil2 arms_simps(1))
  have empty: "\<exists>t k b tail. xs = take k (protocol t b) @ tail \<and> \<not> arms tail" if "\<not> arms xs" for xs
    using that by (metis append_Nil take0)
  have "take 8 (protocol t True) = protocol t True" for t
    by (simp add: protocol_def)
  then have full: "\<exists>t k b tail. protocol t0 True = take k (protocol t b) @ tail \<and> \<not> arms tail" for t0
    using whole [of 8 t0 True] by simp
  have wound: "\<exists>t k b tail. tr0 @ ys = take k (protocol t b) @ tail \<and> \<not> arms tail"
    if "wound_up t en tr0" "\<not> arms ys" for t en tr0 ys
    using normal_append [OF wound_up_normal [OF that(1)] that(2)] by blast
  show ?thesis
    using assms whole full empty
    by (cases ph) (auto simp del: take_protocol wound_up.simps intro!: wound dest: refused_quiet)
qed

lemma normal_arms:
  assumes tr: "tr = take k (protocol t b') @ tail" "\<not> arms tail" and arm: "SetAuthority b src True \<in> set tr"
  shows "src = source_of t \<and> (\<exists>rest. tr = take 6 (protocol t True) @ SetAuthority b src True # rest \<and> \<not> arms rest)"
proof -
  have in_take: "SetAuthority b src True \<in> set (take k (protocol t b'))"
    using tr arm by (auto simp: arms_def)
  have len: "length (protocol t b) = 8" for b
    by (simp add: protocol_def)
  have parts: "protocol t b' = take 6 (protocol t True) @ [SetAuthority b' (source_of t) True, Reset]"
    by (simp add: protocol_def)
  have "take k (protocol t b') = take k (take 6 (protocol t True))" if "k \<le> 6"
    using that by (subst parts) (simp add: len del: take_protocol)
  moreover have "SetAuthority b src True \<notin> set (take k (take 6 (protocol t True)))"
    by (auto dest!: in_set_takeD)
  ultimately have "6 < k"
    using in_take by (metis not_less)
  then have "take k (protocol t b') = take 6 (protocol t True) @ SetAuthority b' (source_of t) True # take (k - 7) [Reset]"
    by (subst parts) (simp add: len take_Cons' del: take_protocol)
  then show ?thesis
    using in_take tr by (auto simp: arms_def dest!: in_set_takeD)
qed

lemma shape_arms:
  assumes "shape ph tr" "SetAuthority b src True \<in> set tr"
  obtains t rest where "src = source_of t" "tr = take 6 (protocol t True) @ SetAuthority b src True # rest" "\<not> arms rest"
  using shape_normal [OF assms(1)] normal_arms assms(2) by metis

fun stop_run_call :: "call \<Rightarrow> bool" where
  "stop_run_call (StopRun ok msg) = True"
| "stop_run_call c = False"

lemma wound_up_no_stop: "wound_up t en tr0 \<Longrightarrow> filter stop_run_call tr0 = []"
  by (cases en) (auto simp: filter_empty_conv protocol_def dest!: in_set_takeD)

lemma winding_stop_runs [simp]:
  "filter stop_run_call (winding t en a b) = []" "filter stop_run_call (goal_calls en) = []"
  by (cases en; simp add: winding_def)+

lemma wound_up_armed:
  assumes "wound_up t en tr0" "SetAuthority b src True \<in> set tr0"
  shows "src = source_of t \<and> (\<forall>a. stop_calls en a = [StopTrajectory a])"
proof -
  have "src = source_of t"
    using wound_up_normal [OF assms(1)] normal_arms [OF _ _ assms(2)] by blast
  moreover have "stop_calls en a = [StopTrajectory a]" for a
    using assms by (cases en) auto
  ultimately show ?thesis
    by blast
qed

lemma done_cases:
  assumes "shape (Done r) tr"
  obtains (refusal) "refused tr" "\<not> result_success r"
  | (ended) t en tr0 a b where "wound_up t en tr0" "tr = tr0 @ winding t en a b @ run_calls en @ goal_calls en"
      "r = result_of en"
  using assms by auto

section \<open>Properties\<close>

text \<open>C3: However callbacks, replies and timers are interleaved, the coroutine requests arming at most
  once, and only after it has disarmed every source, selected the task's controller disarmed, started
  the recording, sent the scenario parameters, and had the trajectory validated and reset, in this
  order.\<close>

theorem arming_follows_preparation:
  assumes "TaskCatalog fs yaml_load sha256 path file = Inr c"
    and "s = exp_run (experiment_init c) es"
    and "SetAuthority b src True \<in> set (requests (trace s))"
  shows "\<exists>t rest. requests (trace s) =
      [SetAuthority True '''' False, SetAuthority True src False, StartRun (task_name t) (controller t) (duration_s t),
       SetParameters (sent_parameters t), Validate, Reset] @ SetAuthority b src True # rest
    \<and> src = py_lower (controller t) \<and> \<not> arms rest"
  using shape_arms [OF exp_run_shape [OF assms(1,2)] assms(3)]
  by (metis (no_types, lifting) append.assoc append_Cons append_Nil source_of_eq take_protocol(2-6))

theorem arming_follows_preparation_witness:
  "\<exists>t rest. requests (trace (exp_run (experiment_init example_catalog) (example_start @ example_end))) =
      [SetAuthority True '''' False, SetAuthority True ''rl'' False, StartRun (task_name t) (controller t) (duration_s t),
       SetParameters (sent_parameters t), Validate, Reset] @ SetAuthority True ''rl'' True # rest
    \<and> ''rl'' = py_lower (controller t) \<and> \<not> arms rest"
  by (rule arming_follows_preparation [OF example_accepted refl])
    (simp add: example_finished [OF refl, THEN conjunct2] protocol_def)

lemma arming_marked:
  assumes "s = exp_run (experiment_init c) es"
    and "SetAuthority b src True \<in> set (trace (exp_step s e))" "SetAuthority b src True \<notin> set (trace s)"
  shows "\<exists>t before seq inferences. src = py_lower (controller t)
    \<and> marked_at c es t before (seq, inferences) \<and> controller_ready (node s) t seq inferences"
proof (cases rule: step_cases [of s e])
  case callback
  with assms show ?thesis
    by simp
next
  case (segment r)
  with assms have arm: "SetAuthority b src True \<in> set (snd r)"
    by simp
  then obtain t before mk where seg: "ready_segment (node s) (phase_of s) t before mk r"
    using segment(3) by (auto simp: quiet_def arms_def)
  then obtain seq inf where "src = source_of t" "mark_target (node s) t before mk = Some (seq, inf)"
    "controller_ready (node s) t seq inf"
    using arm ready_arms by (fastforce simp: ready_segment_def)
  with mark_from_segment [OF mark_known_run seg assms(1)] show ?thesis
    by auto
qed

text \<open>The latest policy status was received.\<close>

lemma latest_policy_seen:
  "latest_policy_status (node (exp_run (experiment_init c) es)) = Some p \<Longrightarrow> PolicySeen p \<in> set es"
proof (induction es rule: rev_induct)
  case Nil
  then show ?case
    by (simp add: exp_run_def experiment_init_def)
next
  case (snoc e es)
  then show ?case
    by (cases e) (auto simp: exp_run_snoc resume_def on_authority_message_def on_trajectory_target_def on_pid_status_def
        on_policy_status_def split: option.splits prod.splits if_split_asm)
qed





text \<open>A recorded run is closed exactly once, with the outcome and message the action result reports;
  when the recorder was never started the result is a failure without a run directory.\<close>

theorem recorded_run_closed_once:
  assumes "TaskCatalog fs yaml_load sha256 path file = Inr c"
    and "s = exp_run (experiment_init c) es" "phase_of s = Done r"
  shows "if result_success r \<or> (\<exists>ps. SetParameters ps \<in> set (requests (trace s)))
    then filter stop_run_call (requests (trace s)) = [StopRun (result_success r) (result_message r)]
    else length (filter stop_run_call (requests (trace s))) \<le> 1"
  using exp_run_shape [OF assms(1,2), unfolded assms(3)]
proof (cases rule: done_cases)
  case refusal
  then show ?thesis
    by (auto simp: refused_def)
next
  case (ended t en tr0 a b)
  then have "filter stop_run_call (requests (trace s)) = filter stop_run_call (run_calls en)"
    using wound_up_no_stop [OF ended(1)] by simp
  with ended show ?thesis
    by (cases en) (auto simp: winding_def)
qed

theorem recorded_run_closed_once_witness:
  "filter stop_run_call (requests (trace (exp_run (experiment_init example_catalog) (example_start @ example_end))))
     = [StopRun True ''completed'']"
  using recorded_run_closed_once [OF example_accepted refl, of "example_start @ example_end"]
  by (simp add: example_finished [OF refl])

text \<open>An experiment reports success only after its whole protocol, and only for a task with a duration:
  an open-ended task can be stopped, but never succeeds.\<close>

theorem success_needs_whole_protocol:
  assumes "TaskCatalog fs yaml_load sha256 path file = Inr c"
    and "s = exp_run (experiment_init c) es" "phase_of s = Done r" "result_success r"
  shows "\<exists>t a b. \<not> run_until_stopped t \<and> requests (trace s) = protocol t True
      @ [StopTrajectory a, SetAuthority b (source_of t) False, StopRun True (result_message r), Succeed]"
  using exp_run_shape [OF assms(1,2), unfolded assms(3)]
proof (cases rule: done_cases)
  case (ended t en tr0 a b)
  with assms(4) obtain dir msg where "en = EndRun dir True False msg"
    by (cases en) auto
  with ended show ?thesis
    by (intro exI [of _ t] exI [of _ a] exI [of _ b]) (simp add: winding_def)
qed (use assms(4) in simp)

theorem success_needs_whole_protocol_witness:
  "\<exists>t a b. \<not> run_until_stopped t
    \<and> requests (trace (exp_run (experiment_init example_catalog) (example_start @ example_end))) = protocol t True
      @ [StopTrajectory a, SetAuthority b (source_of t) False, StopRun True ''completed'', Succeed]"
  using success_needs_whole_protocol [OF example_accepted refl, of "example_start @ example_end"]
  by (simp add: example_finished [OF refl])

text \<open>No task of an accepted catalogue makes the coroutine raise, and the parameters it sends are the
  whole scenario with the task's control mode: no field is dropped and none has the wrong type.\<close>

theorem experiment_never_raises:
  assumes "TaskCatalog fs yaml_load sha256 path file = Inr c" "catalog_task c task_id = Inr t"
  shows "phase_of (exp_run (experiment_init c) es) \<noteq> Failed e
    \<and> map_of (sent_parameters t) = (map_of (trajectory t))(''control_mode'' \<mapsto> FStr (task_control_mode t))"
proof
  show "phase_of (exp_run (experiment_init c) es) \<noteq> Failed e"
    using exp_run_shape [OF assms(1) refl, of es] by auto
  have valid: "valid_scenario (trajectory t)"
    using catalog_task_valid [OF assms] by (simp add: valid_task_def Let_def)
  from valid_scenario_parameters [OF this] obtain ps
    where ps: "build_parameters (scenario_parameters t) ALLOWED_PARAMETER_TYPES = Inr ps"
      "fst ` set ps \<subseteq> fst ` set ALLOWED_PARAMETER_TYPES"
      "\<forall>name \<in> fst ` set ALLOWED_PARAMETER_TYPES. map_of ps name = map_of (scenario_parameters t) name"
    by blast
  have "''control_mode'' \<in> fst ` set ALLOWED_PARAMETER_TYPES"
    by (simp add: ALLOWED_PARAMETER_TYPES_def)
  then have allowed: "name \<in> fst ` set ALLOWED_PARAMETER_TYPES" if "map_of (scenario_parameters t) name \<noteq> None" for name
    using that valid known_field [of "trajectory t" name]
    by (auto simp: scenario_parameters_def map_of_dict_set split: if_split_asm)
  have "map_of ps name = map_of (scenario_parameters t) name" for name
    using ps(2,3) allowed [of name] by (metis (no_types, lifting) map_of_eq_None_iff subsetD)
  then have "map_of (sent_parameters t) = map_of (scenario_parameters t)"
    by (auto simp: sent_parameters_def ps)
  then show "map_of (sent_parameters t) = (map_of (trajectory t))(''control_mode'' \<mapsto> FStr (task_control_mode t))"
    by (simp add: scenario_parameters_def map_of_dict_set)
qed

theorem experiment_never_raises_witness:
  "map_of (sent_parameters example_task) = (map_of (trajectory example_task))(''control_mode'' \<mapsto> FStr ''rl_policy'')"
  using experiment_never_raises [OF example_accepted example_lookup] by simp

text \<open>C30: Once a goal has been taken up, every reply to the pending call and every timer past the pending
  deadline strictly advances the experiment, so after at most sixteen of them it has ended, and as long as
  it has not ended some such event would advance it; the exception is the open-ended tracking loop, which
  waits for cancellation or loss of authority.\<close>

theorem experiment_terminates:
  assumes "phase_of s \<noteq> Idle"
  shows "(16 \<le> answers s es \<longrightarrow> ended (phase_of (exp_run s es)))
    \<and> (\<not> ended (phase_of s) \<longrightarrow> (\<exists>e. answered s e)
        \<or> (\<exists>t dir started. phase_of s = Running t dir started \<and> run_until_stopped t))"
proof
  show "16 \<le> answers s es \<longrightarrow> ended (phase_of (exp_run s es))"
    using run_rank [OF assms, of es] rank_le [of "phase_of s"] by (auto simp flip: rank_ended)
  show "\<not> ended (phase_of s) \<longrightarrow> (\<exists>e. answered s e)
      \<or> (\<exists>t dir started. phase_of s = Running t dir started \<and> run_until_stopped t)"
    using some_reply [OF _ assms, of "node s" "cancel_requested s"] by (metis answered.simps(1,2))
qed

theorem experiment_terminates_witness:
  "\<exists>e. answered (exp_run (experiment_init example_catalog) example_start) e"
  using experiment_terminates [of "exp_run (experiment_init example_catalog) example_start" "[]"]
  by (auto simp: example_started [OF refl] ended_def)

end
