(* ===== verification/Spec2Isabelle.thy ===== *)
theory Spec2Isabelle
  imports Launch_Safety Decay_Safety Runner_Safety Graph_Check Rate_Check Analysis_Safety Probe_Safety Export_Safety Host_Safety Logger_Safety Target_Interface Safety_Monitor Tracking_Monitor Policy_Safety Experiment_Safety
begin

text \<open>
  \<^bold>\<open>RobotCore: the control side of an underwater robot\<close>

  RobotCore drives a six-degree-of-freedom underwater robot in a pool.  Its Python part is a set of ROS 2
  nodes and a host daemon.  This development models them and proves what each promises and what they
  promise together.  Paths are relative to \<^verbatim>\<open>ros_ws/src\<close> unless they start with \<^verbatim>\<open>host_manager\<close> or
  \<^verbatim>\<open>scripts\<close>.

  \<^bold>\<open>The parts and how they interact\<close>

  An operator starts a task at the \<^emph>\<open>experiment node\<close> (an action server).  It looks the task up in the
  \<^emph>\<open>catalogue\<close>, disarms, selects an authority source, has the \<^emph>\<open>run logger\<close> open a run, sends the task's
  parameters to the \<^emph>\<open>trajectory node\<close>, has it validate and start the scenario, waits until the selected
  controller reports ready against a new target, and only then asks the arbiter (C++, not modelled) to
  arm.  While it runs, the trajectory node publishes targets, the \<^emph>\<open>PID node\<close> or the \<^emph>\<open>policy node\<close> turns
  targets and measurements into thruster commands, the \<^emph>\<open>tracking monitor\<close> publishes the errors, and the
  \<^emph>\<open>safety monitor\<close> publishes a heartbeat that carries the abort.  The run logger writes a summary of all
  of it.  Beside them the \<^emph>\<open>host manager\<close> answers local requests to inspect and restart services and to
  edit the AprilTag map.  The scripts work around the running system: two probes check it before a
  dive (\<^emph>\<open>telemetry probe\<close> on the serial line, \<^emph>\<open>graph check\<close>), one exercises the estimator
  (\<^emph>\<open>rate check\<close>), one records a free decay of the disarmed robot (\<^emph>\<open>decay test\<close>), and two read what the
  run logger wrote (\<^emph>\<open>run export\<close>, \<^emph>\<open>run analysis\<close>).

  \<^bold>\<open>Theories\<close>

  \<^item> \<open>Robot_Prelude\<close>: real-number images of Python floats (\<open>pyfloat\<close>: finite, infinite or not a number), the
    exceptions \<open>exc\<close> and the result type \<open>exc + 'a\<close> with its bind, clipping, and the locale \<open>event_machine\<close>
    (invariant of a step function, hence of every run), interpreted for each node below.
  \<^item> \<open>Ros_Interface\<close>: messages of \<^verbatim>\<open>robotcore_interfaces\<close>, time, Python string helpers.
  \<^item> \<open>Control_Math\<close>, \<open>Quaternion_Math\<close>, \<open>Conditional_Pid\<close>:
    \<^verbatim>\<open>robotcore_control/robotcore_control/control_math.py\<close>, function by function under its own names.
  \<^item> \<open>Pid_Config\<close>, \<open>Pid_Node\<close>, \<open>Pid_Node_Safety\<close>: \<^verbatim>\<open>six_dof_pid_node.py\<close>.  The record \<open>pid_node\<close> holds the
    attributes of \<^verbatim>\<open>SixDofPidNode\<close>; \<open>load_configuration\<close>, the callbacks (\<open>on_target\<close>, \<open>on_imu\<close>,
    \<open>on_authority_status\<close>, ...), \<open>input_status\<close> and \<open>tick\<close> are its methods.  The lemmas give the reachable
    states, the bound on every action, when a command may be enabled, hand-over and saturation.
  \<^item> \<open>Trajectory_Kinematics\<close>, \<open>Trajectory_Node\<close>, \<open>Trajectory_Safety\<close>:
    \<^verbatim>\<open>robotcore_runtime/robotcore_runtime/trajectory_command_node.py\<close>: the four paths and the approach as
    functions of time, the node's services, holds, envelope check and \<open>trajectory_tick\<close>.
  \<^item> \<open>Safety_Monitor\<close>: \<^verbatim>\<open>safety_monitor.py\<close> with the specification of the heartbeat over the input history.
  \<^item> \<open>Tracking_Monitor\<close>: \<^verbatim>\<open>tracking_monitor_node.py\<close> and its agreement with \<^verbatim>\<open>control_math.py\<close>.
  \<^item> \<open>Path_Text\<close>, \<open>Json_Value\<close>: the parts of \<^verbatim>\<open>pathlib\<close>, \<^verbatim>\<open>json\<close> and \<^verbatim>\<open>dict\<close> the program uses.
  \<^item> \<open>Task_Catalog\<close>: \<^verbatim>\<open>task_catalog.py\<close>: validation, resolution, lookup, recording configuration.
  \<^item> \<open>Tracking_Experiment\<close>, \<open>Experiment_Safety\<close>: \<^verbatim>\<open>tracking_experiment_node.py\<close>: the coroutine \<^verbatim>\<open>execute\<close> cut at
    its awaits into phases, one function per segment; the requests it sends form a prefix of one
    protocol, from which arming, disarming and termination are read off.
  \<^item> \<open>T60_Observation\<close>, \<open>Body_Policy\<close>, \<open>Policy_Safety\<close>:
    \<^verbatim>\<open>robotcore_policy/robotcore_policy/\<close>\<^verbatim>\<open>{t60_observation,observation_builder,action_decoder,policy_manifest,body_policy_node}.py\<close>.
    What the node relies on in its runner is the locale \<open>resettable_runner\<close>, proved for the trajectory runner.
  \<^item> \<open>Policy_Runners\<close>, \<open>Runner_Safety\<close>: \<^verbatim>\<open>robotcore_policy/robotcore_policy/runners/\<close>: the factory and the dummy,
    ONNX and TensorRT runners.  The calls to the CUDA driver form a list in the record \<open>trt_runner\<close>, from
    which it is read that memory and stream are released exactly once; both engines are the trajectory
    runner around their network.
  \<^item> \<open>Run_Logger\<close>, \<open>Logger_Safety\<close>: \<^verbatim>\<open>run_logger.py\<close> as a monad of actions that may raise and keep the changes
    made before; a small Hoare calculus (\<open>triple\<close>) carries the invariant.
  \<^item> \<open>Host_Manager\<close>, \<open>Host_Safety\<close>: \<^verbatim>\<open>host_manager/robotcore_host_manager/daemon.py\<close>: requests, commands and
    the AprilTag map, which refines a finite map from tag numbers to definitions.
  \<^item> \<open>Board_Probe\<close>, \<open>Probe_Safety\<close>: \<^verbatim>\<open>scripts/robotcore_aboard_telemetry_probe.py\<close>: checksum, framing and decoding
    on words and bytes; independence of the chunking, round trip, detection of damaged frames.
  \<^item> \<open>Run_Export\<close>, \<open>Export_Safety\<close>: \<^verbatim>\<open>scripts/export_merged_control_log.py\<close>: the merged and the aligned table;
    completeness and causality.
  \<^item> \<open>Sample_Arrays\<close>: the numpy operations on samples the scripts use: sums, means, medians, differences,
    unwrapping, smoothing, gradients.
  \<^item> \<open>Decay_Test\<close>, \<open>Decay_Safety\<close>: \<^verbatim>\<open>scripts/robotcore_restoring_decay_test.py\<close>: the capture node as callbacks on
    \<open>capture_node\<close>, the loop around it and the fit; a recording is only made while nothing is actuated.
  \<^item> \<open>Graph_Check\<close>: \<^verbatim>\<open>scripts/robotcore_apriltag_graph_check.py\<close>: the check passes exactly for graphs that fulfil
    the contract.
  \<^item> \<open>Edge_Launch\<close>, \<open>Launch_Safety\<close>: the launch files of \<^verbatim>\<open>robotcore_bringup/launch\<close> and
    \<^verbatim>\<open>robotcore_policy/launch\<close> as values: which processes run for which arguments, on which processors, and
    what the graph check makes of the launched detector.
  \<^item> \<open>Rate_Check\<close>: \<^verbatim>\<open>scripts/robotcore_estimator_rate_check.py\<close>: the synthetic inputs and what a pass shows.
  \<^item> \<open>Run_Analysis\<close>, \<open>Analysis_Safety\<close>: \<^verbatim>\<open>scripts/analyze_tracking_runs.py\<close>: the experiment window, every metric
    and the verdict; a closed log of the run logger can be analysed, and a passing verdict is sound.
  \<^item> \<open>Target_Interface\<close> and this theory: what holds across nodes: a target the publisher calls valid is
    accepted by the PID node and survived by its tick unless an operator sent a NaN, and the policy
    cannot be armed without a published action.

  \<^bold>\<open>How the code is read\<close>

  Finite floats are exact reals: rounding, and the 32-bit width of message fields and of the policy's
  tensors, are not modelled; infinities and NaN are, wherever a value enters from outside.  Where a
  theory restricts messages or parameters to finite numbers it says so.  A node is a record of its
  attributes; a callback is a function on it; a raise is a value, and one that leaves a callback ends
  the node, as \<^verbatim>\<open>rclpy\<close> does.  Creating and destroying a group of subscriptions is one flag.  Callbacks run
  one at a time, as under the single-threaded executor; the experiment node's coroutine interleaves
  with its callbacks at the awaits, and the threads of the host manager at its reads and writes.  There
  is one action goal.  Texts are character lists.  No definition uses fuel: every loop is a recursion
  over its data, and liveness of the experiment is a bound on the replies it consumes.

  Parameters of the model: SHA-256, PyYAML, the text of JSON documents and of numbers, ONNX Runtime, TensorRT
  and the CUDA driver (a function from the calls made so far to the answer), the least-squares solver and
  the order of equal keys in a sort, the file system, processes and clocks (their outcomes come with each
  event).

  \<^bold>\<open>Findings\<close>

  An operator message with a NaN becomes a valid target and ends the PID node; the tracking monitor ends on
  a near-zero quaternion even when it is marked invalid; a full disk withdraws a policy whose actions
  are good; a manifest with a text as its control rate makes the service raise; stopping the run logger
  without a run, or starting one for an unknown task, ends it; overlapping edits of the AprilTag map can
  lose one, an edit can be answered with an error although it was written, and some failures are not
  answered at all.  The decay test misses a release whose rate passes the hold rate between two samples
  (\<open>release_needs_band\<close>), and it and the run analysis lose everything after one bad angle (\<open>fit_stops_at_gap\<close>,
  \<open>attitude_gap_hides_rest\<close>); the older ONNX observation never holds a measured angular velocity
  (\<open>onnx_vector_ignores_rotation\<close>); a CUDA release that fails ends the node that installs a policy;
  and the graph check still describes the image path without the converter that is launched
  (\<open>launched_detector_fails_check\<close>).

  \<^bold>\<open>Not modelled\<close>

  The C++ nodes (arbiter, board bridge, native policy, sensor fusion); packaging (\<^verbatim>\<open>setup.py\<close>);
  the command lines, printed reports, plots and
  the writing of CSV and JSON files of the scripts; restarting the interpreter with the middleware on its
  path (\<^verbatim>\<open>ensure_rclpy\<close>); the host manager's socket set-up.  In the policy node the failure of closing the
  previous runner is left out; it is part of \<open>Policy_Runners\<close>.
\<close>

section \<open>The policy node and the experiment\<close>

text \<open>The status message of the policy node as the experiment receives it.\<close>

definition status_msg :: "policy_status \<Rightarrow> policy_status_msg" where
  "status_msg st = \<lparr>policy_loaded = ps_loaded st, policy_input_ready = ps_input_ready st, policy_missing = ps_missing st,
     inference_count = int (ps_inference_count st)\<rparr>"

text \<open>A policy run with a constant runner, whose statuses the example experiment receives.\<close>

abbreviation constant_outputs :: "policy_output list" where
  "constant_outputs \<equiv> snd (policy_run (\<lambda>r ob. (r, Inr zeros8)) (\<lambda>r. r) (\<lambda>_. None) (\<lambda>_. Inr (0 :: nat)) (empty_policy_node 0)
     (demo_policy_events @ [PTick None 0, PTick None 0]))"

lemma constant_statuses: "set (map (status_msg \<circ> snd) constant_outputs) = {example_policy 1, example_policy 2}"
proof -
  have dec: "decode_thruster_action zeros8 = Inr zeros8"
    by (simp add: decode_Inr zeros8_def list_all_iff)
  let ?n = "\<lparr>manifest = demo_manifest, runner = Some (0 :: nat), load_error = '''',
      pbuilder = \<lparr>max_age_ns = 1000000000,
        last_seen_ns = [(body_topic, Some 0), (imu_topic, Some 0), (command_topic, Some 0), (target_topic, Some 0)],
        values_of = demo_observation\<rparr>,
      state_delay_ns = 0, body_state_history = [(0, demo_body_obs)], external_imu_history = [(0, demo_imu_obs)],
      inference_count = 0, last_input_ready = False, last_runtime_error = '''', io_path = True, publish_rate_hz = 0\<rparr>"
  have loaded: "policy_run (\<lambda>r ob. (r, Inr zeros8)) (\<lambda>r. r) (\<lambda>_. None) (\<lambda>_. Inr (0 :: nat)) (empty_policy_node 0) demo_policy_events = (?n, [])"
    by (simp add: demo_policy_events_def empty_policy_node_def load_policy_def demo_prepare policy_on_body_def policy_on_imu_def
        policy_on_command_def policy_on_target_def Body_Policy.push_def builder_update_def new_builder_def no_observation_def topic_facts
        demo_observation_def invalid_manifest_def)
  have inputs: "policy_inputs (?n\<lparr>Body_Policy.inference_count := c, last_input_ready := b\<rparr>) 0 = ([], demo_observation)" for c b
    by (simp add: policy_inputs_def delayed_sample_def builder_missing_def Let_def demo_manifest_def delayed_body_notes_def
        demo_observation_def demo_body_obs_def demo_target_obs_def)
  show ?thesis
    using inputs [where c = 0 and b = False] inputs [where c = 1 and b = True]
    by (simp add: policy_run_append loaded policy_tick_def infer_def dec publish_status_def status_msg_def example_policy_def Let_def)
qed

section \<open>Properties\<close>

text \<open>
  The target publisher and the PID node agree.  Whatever the publisher went through, a target
  it publishes as valid for a mode the PID node implements is accepted: right after delivery the
  readiness check of the PID node, in any state with a non-negative age limit, lists none of its
  complaints about the target.
\<close>

theorem valid_target_accepted_by_pid:
  assumes "traj_run (traj_init p l g t0) es = Inr n" "trajectory_tick n now = Inr (n', m)" "target_valid m"
    "control_mode m \<noteq> ''rl_policy''" "max_input_age_s k = Fin age" "0 \<le> age"
  shows "set (fst (input_status (on_target k arrival m) arrival)) \<inter>
     {''unsupported_trajectory_type'', ''unsupported_control_mode'', ''incompatible_trajectory_control_mode'',
      ''/runtime/trajectory_target'', ''trajectory_target_invalid''} = {}"
proof -
  have low: "py_lower (active_type n) = active_type n" "py_lower (active_mode n) = active_mode n"
    by (simp_all add: active_type_def active_mode_def)
  have sup: "compatible_target (py_lower (trajectory_type m)) (py_lower (control_mode m))
      \<and> py_lower (trajectory_type m) \<in> set trajectory_types \<and> py_lower (control_mode m) \<in> set control_modes"
    using published_modes [OF traj_reachable_inv [OF assms(1)] assms(2,3)] tracking_supported [of n] idle_supported assms(4) low
    by auto
  show ?thesis
    using sup assms(3,5,6)
    by (auto simp: input_status_def on_target_def Let_def note_if_def body_notes_def age_s_def split: option.splits if_split_asm)
qed

theorem valid_target_accepted_by_pid_witness:
  "\<exists>n n' m. traj_run (traj_init demo_path demo_limits default_input_params 0) [EBody demo_body, EImu demo_imu] = Inr n
    \<and> trajectory_tick n 0 = Inr (n', m)
    \<and> ''trajectory_target_invalid'' \<notin> set (fst (input_status (on_target (sample_node ''hold'' ''altitude_hold'') 5 m) 5))"
proof -
  let ?n = "demo_ready demo_limits"
  have nt: "\<not> tracking_started ?n" by (simp add: demo_ready_def traj_init_def)
  have v: "idle_target_is_valid ?n (position (idle_hold_sample ?n))"
    by (simp add: idle_target_is_valid_def idle_hold_sample_def demo_ready_def demo_poses_def traj_init_def
        demo_limits_def pool_ok_def inside_def)
  obtain n' m where m: "trajectory_tick ?n 0 = Inr (n', m)" "target_valid m" "control_mode m = ''idle''"
    using idle_tick [OF nt, of 0] v by fastforce
  obtain age where age: "max_input_age_s (sample_node ''hold'' ''altitude_hold'') = Fin age" "0 \<le> age"
    by (simp add: sample_node_def)
  show ?thesis
    using valid_target_accepted_by_pid [OF demo_sensed [of demo_limits] m(1,2) _ age, of 5] m(1,3) demo_sensed [of demo_limits]
    by auto
qed

text \<open>
  C17: the target publisher cannot bring the PID node down.  If no operator message carried a NaN,
  then whatever target the publisher sends and whatever the PID node went through before, the
  control tick that uses the target returns, given a finite limit and a body state with finite
  numbers.
\<close>

theorem published_targets_keep_pid_alive:
  assumes "list_all clean_event es" "traj_run (traj_init p l g t0) es = Inr n" "trajectory_tick n now = Inr (n', m)"
    "pid_init sha256_hex overrides = Inr k0" "node_run k0 fs = Inr (k, out0)"
    "isfinite (pwm_limit_us k)" "pred_option good_body (body (inp k))"
  shows "\<exists>k' out. tick (on_target k arrival m) later = Inr (k', out)"
proof -
  have "clean_node n"
    using clean_run [OF clean_init assms(1)] assms(2) by (simp add: traj_run_def)
  then have m: "good_target m" using published_good assms(3) by blast
  have run: "node_run k0 (fs @ [Target arrival m]) = Inr (on_target k arrival m, out0)"
    using assms(5) by (simp add: node_run_append)
  have inv: "node_inv (on_target k arrival m)" by (rule Pid_Node_Safety.reachable_inv [OF assms(4) run])
  obtain x where x: "pwm_limit_us (on_target k arrival m) = Fin x"
    using assms(6) by (auto simp: on_target_def isfinite_iff)
  show ?thesis
    by (rule tick_total [OF inv x]) (use assms(7) m in \<open>auto simp: on_target_def\<close>)
qed

theorem published_targets_keep_pid_alive_witness:
  "\<exists>n n' m k0 k k' out. traj_run (traj_init demo_path demo_limits default_input_params 0)
      [EBody demo_body, EImu demo_imu, EValidate, EReset 0, EOperator 1 origin3 origin3] = Inr n
    \<and> trajectory_tick n 2 = Inr (n', m) \<and> pid_init (\<lambda>_. '''') Map.empty = Inr k0
    \<and> node_run k0 [Authority \<lparr>selected_source = ''pid'', action_limit = Fin 1\<rparr>, Body 3 still_body] = Inr (k, [])
    \<and> tick (on_target k 4 m) 5 = Inr (k', out)"
proof -
  let ?es = "[EBody demo_body, EImu demo_imu, EValidate, EReset 0, EOperator 1 origin3 origin3]"
  let ?init = "traj_init demo_path demo_limits default_input_params 0"
  obtain n where n: "traj_run ?init ?es = Inr n" "traj_inv n"
    using traj_machine.run_total [OF traj_init_inv] unfolding traj_run_def by blast
  obtain n' m where m: "trajectory_tick n 2 = Inr (n', m)" by (rule traj_tick_cases [OF n(2), of 2])
  obtain k0 where k0: "pid_init (\<lambda>_. '''') Map.empty = Inr k0" using default_pid_init by blast
  define k where "k = on_body (on_authority_status k0 \<lparr>selected_source = ''pid'', action_limit = Fin 1\<rparr>) 3 still_body"
  have run: "node_run k0 [Authority \<lparr>selected_source = ''pid'', action_limit = Fin 1\<rparr>, Body 3 still_body] = Inr (k, [])"
    by (simp add: k_def)
  have fin: "isfinite (pwm_limit_us k)"
    by (auto simp: k_def on_body_def on_authority_status_def Let_def)
  have "\<exists>k' out. tick (on_target k 4 m) 5 = Inr (k', out)"
    by (rule published_targets_keep_pid_alive [OF _ n(1) m k0 run fin]) (simp_all add: origin3_def k_def on_body_def)
  then show ?thesis using n(1) m k0 run by blast
qed



text \<open>
  The catalogue and the trajectory node agree on modes.  A task of an accepted catalogue has a
  control mode that the trajectory node accepts for its trajectory type exactly when the type, in
  lower case, is a hold or one of the automatic types; the catalogue itself does not check that.
\<close>

theorem catalog_tasks_compatible:
  assumes "TaskCatalog fs yaml_load sha256 path file = Inr c" "catalog_task c task_id = Inr t"
  shows "control_mode_is_compatible (trajectory_type_of (trajectory t)) (task_control_mode t) \<longleftrightarrow>
    py_lower (trajectory_type_of (trajectory t)) \<in> set (''hold'' # AUTOMATIC_TRAJECTORY_TYPES)"
proof -
  have mode: "task_control_mode t \<in> set CONTROL_MODES"
    and hold: "task_control_mode t = ''altitude_hold'' \<Longrightarrow> trajectory_type_of (trajectory t) = ''hold''"
    using catalog_task_valid [OF assms] by (simp_all add: valid_task_def Let_def)
  have lower: "py_lower (task_control_mode t) = task_control_mode t" "py_lower ''hold'' = ''hold''"
    using mode by (auto simp: CONTROL_MODES_def py_lower_def lower_char_def)
  show ?thesis
    using mode hold lower by (auto simp: control_mode_is_compatible_def CONTROL_MODES_def Let_def)
qed

theorem catalog_tasks_compatible_witness:
  "control_mode_is_compatible (trajectory_type_of (trajectory example_task)) (task_control_mode example_task)"
proof -
  have "py_lower (trajectory_type_of (trajectory example_task)) = ''circle''"
    by (simp add: example_task_def make_task_def trajectory_type_of_def py_lower_def lower_char_def)
  moreover have "''circle'' \<in> set AUTOMATIC_TRAJECTORY_TYPES"
    by (simp add: AUTOMATIC_TRAJECTORY_TYPES_def)
  ultimately show ?thesis
    using catalog_tasks_compatible [OF example_accepted example_lookup] by simp
qed

text \<open>
  C15: the policy is only armed while it acts.  When the experiment requests arming of the policy, and
  every policy status it has received was published by a run of the policy node (in whatever order,
  with whatever losses), then the latest one was published together with an action, and that action
  is eight finite values in \<open>[-1, 1]\<close>.
\<close>

theorem rl_arming_follows_action:
  assumes "s = exp_run (experiment_init c) es"
    and "SetAuthority b src True \<in> set (trace (exp_step s e))" "SetAuthority b src True \<notin> set (trace s)" "src \<noteq> ''pid''"
    and "policy_run run reset parse create (empty_policy_node rate) ps = (n', outs)"
    and "\<forall>p. PolicySeen p \<in> set es \<longrightarrow> p \<in> set (map (status_msg \<circ> snd) outs)"
  shows "\<exists>act st. (Some act, st) \<in> set outs \<and> latest_policy_status (node s) = Some (status_msg st)
    \<and> length act = 8 \<and> list_all (\<lambda>v. \<exists>x. v = Fin x \<and> - 1 \<le> x \<and> x \<le> 1) act"
proof -
  obtain t seq inferences where t: "src = py_lower (controller t)" "controller_ready (node s) t seq inferences"
    using arming_marked [OF assms(1-3)] by blast
  then obtain p where p: "latest_policy_status (node s) = Some p" "policy_loaded p" "policy_input_ready p"
    using assms(4) by (auto simp: controller_ready_def split: option.splits)
  then have "PolicySeen p \<in> set es"
    using latest_policy_seen assms(1) by blast
  then obtain res st where st: "(res, st) \<in> set outs" "p = status_msg st"
    using assms(6) by auto
  then obtain act where "res = Some act"
    using policy_run_ready [OF assms(5) st(1)] p by (auto simp: status_msg_def)
  with st p policy_run_actions [OF assms(5), of act st] show ?thesis
    by auto
qed

theorem rl_arming_follows_action_witness:
  "\<exists>act st. (Some act, st) \<in> set constant_outputs
    \<and> latest_policy_status (node (exp_run (experiment_init example_catalog) example_start)) = Some (status_msg st)
    \<and> length act = 8 \<and> list_all (\<lambda>v. \<exists>x. v = Fin x \<and> - 1 \<le> x \<and> x \<le> 1) act"
proof (rule rl_arming_follows_action [OF refl, where e = "Wake (example_moment 0)"])
  let ?s = "exp_run (experiment_init example_catalog) example_start"
  have "SetAuthority True ''rl'' True \<notin> set (requests (trace ?s))"
    by (simp add: example_started [OF refl] protocol_def)
  then show "SetAuthority True ''rl'' True \<notin> set (trace ?s)"
    by (simp add: requests_def)
  show "SetAuthority True ''rl'' True \<in> set (trace (exp_step ?s (Wake (example_moment 0))))"
    by (simp add: example_steps arm_controller_def)
  show "\<forall>p. PolicySeen p \<in> set example_start \<longrightarrow> p \<in> set (map (status_msg \<circ> snd) constant_outputs)"
    unfolding constant_statuses by (simp add: example_start_def Let_def)
qed (simp_all add: prod_eq_iff)

end
